(* ===== verification/Prelude.thy ===== *)
theory Prelude
  imports Complex_Main "HOL-Library.Char_ord" "HOL-Library.List_Lexorder"
begin

text \<open>
  Shared vocabulary of the development: Python exceptions as values, the error monad in
  which every fallible function of the tools is written, loops over lists that stop at
  the first exception, and decimal text of natural numbers.

  A Python string is represented by the bytes of its UTF-8 encoding.  Equality, emptiness,
  concatenation, splitting at an ASCII character and the code point order all agree
  with the encoded form, and these are the only operations the modelled code uses on
  such strings; where the code counts or inspects code points, the component uses a list
  of code points instead and says so.
\<close>

section \<open>Exceptions and the error monad\<close>

text \<open>
  The exception classes that the modelled functions can raise.  The string is the fixed
  part of the message; values that Python renders with \<open>!r\<close> are left out of it.
\<close>

datatype exn =
    ValueError string
  | TypeError string
  | KeyError string
  | OverflowError
  | OSError
  | AttributeError
  | ZeroDivisionError
  | DecimalOverflow
  | CsvError
  | AssertionError string

type_synonym 'a res = "exn + 'a"

fun bindE :: "'a res \<Rightarrow> ('a \<Rightarrow> 'b res) \<Rightarrow> 'b res" where
  "bindE (Inl e) f = Inl e"
| "bindE (Inr x) f = f x"

text \<open>\<open>raise_if c e\<close> is the statement \<open>if c: raise e\<close>.\<close>

definition raise_if :: "bool \<Rightarrow> exn \<Rightarrow> unit res" where
  "raise_if c e = (if c then Inl e else Inr ())"

text \<open>A comprehension whose body can raise, and a loop that threads a state.\<close>

fun mapE :: "('a \<Rightarrow> 'b res) \<Rightarrow> 'a list \<Rightarrow> 'b list res" where
  "mapE f [] = Inr []"
| "mapE f (x # xs) = bindE (f x) (\<lambda>y. bindE (mapE f xs) (\<lambda>ys. Inr (y # ys)))"

fun foldE :: "('s \<Rightarrow> 'a \<Rightarrow> 's res) \<Rightarrow> 's \<Rightarrow> 'a list \<Rightarrow> 's res" where
  "foldE f s [] = Inr s"
| "foldE f s (x # xs) = bindE (f s x) (\<lambda>s'. foldE f s' xs)"

text \<open>\<open>for index, x in enumerate(xs, i)\<close> with a body that only checks or maps.\<close>

fun mapiE :: "(nat \<Rightarrow> 'a \<Rightarrow> 'b res) \<Rightarrow> nat \<Rightarrow> 'a list \<Rightarrow> 'b list res" where
  "mapiE f i [] = Inr []"
| "mapiE f i (x # xs) = bindE (f i x) (\<lambda>y. bindE (mapiE f (Suc i) xs) (\<lambda>ys. Inr (y # ys)))"

fun eachE :: "('a \<Rightarrow> unit res) \<Rightarrow> 'a list \<Rightarrow> unit res" where
  "eachE f [] = Inr ()"
| "eachE f (x # xs) = bindE (f x) (\<lambda>_. eachE f xs)"

named_theorems res_simps \<open>characterisations of successful and failed computations\<close>

lemma bindE_Inr_iff [simp, res_simps]:
  "bindE m f = Inr y \<longleftrightarrow> (\<exists>x. m = Inr x \<and> f x = Inr y)"
  by (cases m) auto

lemma bindE_Inl_iff [res_simps]:
  "bindE m f = Inl e \<longleftrightarrow> m = Inl e \<or> (\<exists>x. m = Inr x \<and> f x = Inl e)"
  by (cases m) auto

lemma bindE_cong [fundef_cong]:
  "m = m' \<Longrightarrow> (\<And>x. m' = Inr x \<Longrightarrow> f x = g x) \<Longrightarrow> bindE m f = bindE m' g"
  by (cases m') auto

lemma bindE_assoc: "bindE (bindE m f) g = bindE m (\<lambda>x. bindE (f x) g)"
  by (cases m) auto

lemma bindE_elim:
  assumes "bindE m f = Inr y" obtains x where "m = Inr x" "f x = Inr y"
  using assms by (cases m) auto

lemma raise_if_Inr_iff [simp, res_simps]: "raise_if c e = Inr u \<longleftrightarrow> \<not> c"
  by (simp add: raise_if_def)

lemma raise_if_Inl_iff [simp, res_simps]: "raise_if c e = Inl e' \<longleftrightarrow> c \<and> e' = e"
  by (auto simp: raise_if_def)

lemma raise_if_simps [simp]: "raise_if True e = Inl e" "raise_if False e = Inr ()"
  by (simp_all add: raise_if_def)

lemma mapE_Inr_iff [res_simps]:
  "mapE f xs = Inr ys \<longleftrightarrow> list_all2 (\<lambda>x y. f x = Inr y) xs ys"
  by (induction xs arbitrary: ys) (auto simp: list_all2_Cons1)

lemma mapE_pure: "(\<And>x. x \<in> set xs \<Longrightarrow> f x = Inr (g x)) \<Longrightarrow> mapE f xs = Inr (map g xs)"
  by (induction xs) auto

lemma mapE_member: "mapE f xs = Inr ys \<Longrightarrow> y \<in> set ys \<Longrightarrow> \<exists>x \<in> set xs. f x = Inr y"
  by (induction xs arbitrary: ys) auto

lemma mapE_append:
  "mapE f (xs @ ys) = bindE (mapE f xs) (\<lambda>us. bindE (mapE f ys) (\<lambda>vs. Inr (us @ vs)))"
proof (induction xs)
  case Nil
  show ?case by (cases "mapE f ys") auto
qed (simp add: bindE_assoc)

lemma mapE_defined: "(\<And>x. x \<in> set xs \<Longrightarrow> \<exists>y. f x = Inr y) \<Longrightarrow> \<exists>ys. mapE f xs = Inr ys"
  by (induction xs) auto

lemma mapiE_Inr_iff [res_simps]:
  "mapiE f i xs = Inr ys \<longleftrightarrow>
     length ys = length xs \<and> (\<forall>j < length xs. f (i + j) (xs ! j) = Inr (ys ! j))"
proof (induction xs arbitrary: i ys)
  case Nil
  then show ?case by auto
next
  case (Cons x xs)
  show ?case
  proof (cases ys)
    case Nil
    then show ?thesis by auto
  next
    case (Cons y ys')
    have "(\<forall>j < Suc (length xs). f (i + j) ((x # xs) ! j) = Inr ((y # ys') ! j)) \<longleftrightarrow>
          f i x = Inr y \<and> (\<forall>j < length xs. f (Suc i + j) (xs ! j) = Inr (ys' ! j))"
      by (subst All_less_Suc2) simp
    then show ?thesis using Cons.IH [of "Suc i" ys'] Cons by auto
  qed
qed

lemma mapiE_pure:
  "(\<And>j x. x \<in> set xs \<Longrightarrow> f j x = Inr (g x)) \<Longrightarrow> mapiE f i xs = Inr (map g xs)"
  by (induction xs arbitrary: i) auto

lemma eachE_Inr_iff [simp, res_simps]:
  "eachE f xs = Inr u \<longleftrightarrow> (\<forall>x \<in> set xs. f x = Inr ())"
  by (induction xs) auto

lemma foldE_invariant:
  assumes "foldE f s xs = Inr t" and "P s"
    and "\<And>s x s'. x \<in> set xs \<Longrightarrow> P s \<Longrightarrow> f s x = Inr s' \<Longrightarrow> P s'"
  shows "P t"
  using assms by (induction xs arbitrary: s) auto

lemma foldE_append:
  "foldE f s (xs @ ys) = bindE (foldE f s xs) (\<lambda>s'. foldE f s' ys)"
  by (induction xs arbitrary: s) (auto simp: bindE_assoc)

lemma foldE_pure:
  "(\<And>s x. x \<in> set xs \<Longrightarrow> f s x = Inr (g s x)) \<Longrightarrow> foldE f s xs = Inr (foldl g s xs)"
  by (induction xs arbitrary: s) auto

section \<open>Decimal text\<close>

text \<open>\<open>f"{n}"\<close> for a natural number, most significant digit first.\<close>

fun digit_char :: "nat \<Rightarrow> char" where
  "digit_char d = char_of (48 + d)"

fun dec :: "nat \<Rightarrow> string" where
  "dec n = (if n < 10 then [digit_char n] else dec (n div 10) @ [digit_char (n mod 10)])"

declare dec.simps [simp del]

fun undec :: "string \<Rightarrow> nat" where
  "undec s = foldl (\<lambda>n c. 10 * n + (of_char c - 48)) 0 s"

definition is_digit :: "char \<Rightarrow> bool" where
  "is_digit c \<longleftrightarrow> 48 \<le> (of_char c :: nat) \<and> (of_char c :: nat) \<le> 57"

lemma of_char_digit: "d < 10 \<Longrightarrow> (of_char (digit_char d) :: nat) = 48 + d"
  by simp

lemma undec_dec [simp]: "undec (dec n) = n"
proof (induction n rule: dec.induct)
  case (1 n)
  show ?case
  proof (cases "n < 10")
    case True
    then show ?thesis by (subst dec.simps) simp
  next
    case False
    with 1 have "undec (dec (n div 10)) = n div 10" by simp
    with False show ?thesis by (subst dec.simps) simp
  qed
qed

lemma dec_inject [simp]: "dec m = dec n \<longleftrightarrow> m = n"
  by (metis undec_dec)

lemma dec_digits: "c \<in> set (dec n) \<Longrightarrow> is_digit c"
proof (induction n rule: dec.induct)
  case (1 n)
  then show ?case
    by (subst (asm) (2) dec.simps) (auto simp: is_digit_def split: if_splits)
qed

lemma dec_nonempty [simp]: "dec n \<noteq> []"
  by (subst dec.simps) simp

lemma dec_one: "dec 1 = ''1''"
  by code_simp

text \<open>Context strings of list elements: \<open>f"{ctx}[{i}]"\<close>.\<close>

definition at_index :: "string \<Rightarrow> nat \<Rightarrow> string" where
  "at_index ctx i = ctx @ ''['' @ dec i @ '']''"

definition dot :: "string \<Rightarrow> string \<Rightarrow> string" where
  "dot ctx f = ctx @ ''.'' @ f"

text \<open>\<open>str.split(c)\<close> for a one-character separator: never the empty list.\<close>

fun split_on :: "'a \<Rightarrow> 'a list \<Rightarrow> 'a list list" where
  "split_on c [] = [[]]"
| "split_on c (x # xs) =
     (if x = c then [] # split_on c xs
      else case split_on c xs of [] \<Rightarrow> [[x]] | p # ps \<Rightarrow> (x # p) # ps)"

fun join_with :: "'a \<Rightarrow> 'a list list \<Rightarrow> 'a list" where
  "join_with c [] = []"
| "join_with c [p] = p"
| "join_with c (p # q # ps) = p @ c # join_with c (q # ps)"

lemma split_on_nonempty [simp]: "split_on c xs \<noteq> []"
  by (induction xs) (auto split: list.splits)

lemma join_split [simp]: "join_with c (split_on c xs) = xs"
proof (induction xs)
  case (Cons x xs)
  then show ?case by (cases "split_on c xs") (auto, (cases "tl (split_on c xs)"; simp)+)
qed simp

lemma split_join:
  "ps \<noteq> [] \<Longrightarrow> \<forall>p \<in> set ps. c \<notin> set p \<Longrightarrow> split_on c (join_with c ps) = ps"
proof (induction c ps rule: join_with.induct)
  case (2 c p)
  then have "c \<notin> set p" by simp
  then show ?case by (induction p) auto
next
  case (3 c p q ps)
  then have IH: "split_on c (join_with c (q # ps)) = q # ps" by simp
  from 3 have "c \<notin> set p" by simp
  then show ?case by (induction p) (auto simp: IH)
qed simp

lemma split_on_parts: "p \<in> set (split_on c xs) \<Longrightarrow> c \<notin> set p"
  by (induction xs arbitrary: p) (auto split: list.splits if_splits)

section \<open>Paths\<close>

text \<open>
  \<open>pathlib.PurePosixPath\<close>: whether the text is absolute, and its parts without empty ones and
  single dots.
\<close>

definition is_absolute :: "string \<Rightarrow> bool" where
  "is_absolute raw \<longleftrightarrow> take 1 raw = ''/''"

definition path_parts :: "string \<Rightarrow> string list" where
  "path_parts raw = filter (\<lambda>p. p \<noteq> [] \<and> p \<noteq> ''.'') (split_on (CHR ''/'') raw)"

definition path_name :: "string list \<Rightarrow> string" where
  "path_name parts = (if parts = [] then [] else last parts)"

section \<open>Association lists as Python dictionaries\<close>

text \<open>
  A dictionary is an association list in insertion order with distinct keys.  Storing
  under an existing key keeps its position, as Python does.
\<close>

fun dict_set :: "'k \<Rightarrow> 'v \<Rightarrow> ('k \<times> 'v) list \<Rightarrow> ('k \<times> 'v) list" where
  "dict_set k v [] = [(k, v)]"
| "dict_set k v ((k', v') # d) = (if k' = k then (k, v) # d else (k', v') # dict_set k v d)"

definition keys :: "('k \<times> 'v) list \<Rightarrow> 'k list" where
  "keys d = map fst d"

lemma map_of_dict_set [simp]: "map_of (dict_set k v d) = (map_of d)(k \<mapsto> v)"
  by (induction d) (auto simp: fun_eq_iff)

lemma keys_dict_set:
  "keys (dict_set k v d) = (if k \<in> set (keys d) then keys d else keys d @ [k])"
  unfolding keys_def by (induction k v d rule: dict_set.induct) auto

lemma distinct_dict_set [simp]: "distinct (keys d) \<Longrightarrow> distinct (keys (dict_set k v d))"
  by (simp add: keys_dict_set)

lemma map_of_keys: "map_of d k \<noteq> None \<longleftrightarrow> k \<in> set (keys d)"
  by (simp add: keys_def map_of_eq_None_iff)

lemma map_of_Some_keys: "map_of d k = Some v \<Longrightarrow> k \<in> set (keys d)"
  by (metis map_of_keys option.distinct(1))

lemma keys_map_of_obtain:
  assumes "k \<in> set (keys d)" obtains v where "map_of d k = Some v"
  using assms by (metis map_of_keys not_None_eq)

text \<open>Sorting a dictionary by its keys.\<close>

lemma sort_key_map: "sort_key f (map g xs) = map g (sort_key (\<lambda>x. f (g x)) xs)"
proof (induction xs)
  case (Cons x xs)
  have "insort_key f (g x) (map g ys) = map g (insort_key (\<lambda>x. f (g x)) x ys)" for ys
    by (induction ys) auto
  with Cons show ?case by simp
qed simp

lemma map_of_sort_key:
  assumes "distinct (keys d)" shows "map_of (sort_key fst d) = map_of d"
  using assms by (intro map_of_inject_set [THEN iffD2]) (auto simp: keys_def distinct_map inj_on_def)

end
