(* ===== verification/Py_Float.thy ===== *)
theory Py_Float
  imports Prelude "HOL-Library.Log_Nat"
begin

text \<open>
  Python floats: IEEE 754 binary64 values with the default rounding.  A finite float is
  represented by the rational number it stands for (the two zeros coincide, as they do
  under Python's \<open>==\<close> and \<open><\<close>), and an operation is the exact operation followed by
  rounding to the nearest representable value, ties to even.  The locale \<open>rounding\<close>
  holds the only facts about rounding on which the quality reports rely.
\<close>

datatype pyfloat = Fin rat | Infinity bool | NaN

section \<open>Rounding to 53 bits\<close>

definition round_half_even :: "rat \<Rightarrow> int" where
  "round_half_even x =
     (let f = \<lfloor>x\<rfloor>; d = x - of_int f
      in if d < 1 / 2 then f else if 1 / 2 < d then f + 1 else if even f then f else f + 1)"

text \<open>\<open>floor_log2 x\<close> is the binary exponent of a positive rational.\<close>

definition floor_log2 :: "rat \<Rightarrow> int" where
  "floor_log2 x =
     (let (p, q) = quotient_of x; e = bitlen p - bitlen q
      in if 2 powi e \<le> x then e else e - 1)"

definition ulp_of :: "rat \<Rightarrow> rat" where
  "ulp_of x = 2 powi (max (floor_log2 \<bar>x\<bar> - 52) (- 1074))"

definition fl :: "rat \<Rightarrow> rat" where
  "fl x = (if x = 0 then 0 else of_int (round_half_even (x / ulp_of x)) * ulp_of x)"

text \<open>A magnitude from here on rounds beyond the largest finite double.\<close>

definition float_limit :: rat where
  "float_limit = 2 ^ 1024 - 2 ^ 970"

definition fl_overflows :: "rat \<Rightarrow> bool" where
  "fl_overflows x \<longleftrightarrow> float_limit \<le> \<bar>x\<bar>"

text \<open>\<open>float(i)\<close> and \<open>i / j\<close> on integers raise \<open>OverflowError\<close> beyond the range.\<close>

definition rat_to_float :: "rat \<Rightarrow> pyfloat res" where
  "rat_to_float x = (if fl_overflows x then Inl OverflowError else Inr (Fin (fl x)))"

definition int_div_float :: "int \<Rightarrow> int \<Rightarrow> pyfloat res" where
  "int_div_float a b =
     (if b = 0 then Inl ZeroDivisionError else rat_to_float (of_int a / of_int b))"

text \<open>\<open>a - b\<close> on floats; an overflow gives an infinity, as IEEE arithmetic does.\<close>

fun float_sub :: "pyfloat \<Rightarrow> pyfloat \<Rightarrow> pyfloat" where
  "float_sub (Fin a) (Fin b) =
     (if fl_overflows (a - b) then Infinity (0 < a - b) else Fin (fl (a - b)))"
| "float_sub NaN b = NaN"
| "float_sub a NaN = NaN"
| "float_sub (Infinity s) (Infinity t) = (if s = t then NaN else Infinity s)"
| "float_sub (Infinity s) (Fin b) = Infinity s"
| "float_sub (Fin a) (Infinity t) = Infinity (\<not> t)"

text \<open>\<open>==\<close> on floats: NaN differs from everything, itself included.\<close>

fun float_eq :: "pyfloat \<Rightarrow> pyfloat \<Rightarrow> bool" where
  "float_eq (Fin a) (Fin b) \<longleftrightarrow> a = b"
| "float_eq (Infinity s) (Infinity t) \<longleftrightarrow> s = t"
| "float_eq a b \<longleftrightarrow> False"

section \<open>Facts about rounding\<close>

lemma round_half_even_of_int [simp]: "round_half_even (of_int i) = i"
  by (simp add: round_half_even_def)

lemma round_half_even_mono: "x \<le> y \<Longrightarrow> round_half_even x \<le> round_half_even y"
proof -
  assume le: "x \<le> y"
  then have fl: "\<lfloor>x\<rfloor> \<le> \<lfloor>y\<rfloor>" by (rule floor_mono)
  show ?thesis
  proof (cases "\<lfloor>x\<rfloor> = \<lfloor>y\<rfloor>")
    case True
    with le show ?thesis by (auto simp: round_half_even_def Let_def)
  next
    case False
    with fl have "\<lfloor>x\<rfloor> + 1 \<le> \<lfloor>y\<rfloor>" by simp
    then show ?thesis by (auto simp: round_half_even_def Let_def)
  qed
qed

lemma round_half_even_minus: "round_half_even (- x) = - round_half_even x"
proof (cases "x = of_int \<lfloor>x\<rfloor>")
  case True
  then obtain i where "x = of_int i" by blast
  then show ?thesis by (metis of_int_minus round_half_even_of_int)
next
  case False
  then have "\<lceil>x\<rceil> = \<lfloor>x\<rfloor> + 1" by (simp add: ceiling_altdef)
  then have "\<lfloor>- x\<rfloor> = - \<lfloor>x\<rfloor> - 1" by (simp add: ceiling_def)
  then show ?thesis by (auto simp: round_half_even_def Let_def)
qed

lemma bitlen_bounds_powi:
  assumes "0 < p"
  shows "2 powi (bitlen p - 1) \<le> (of_int p :: rat)" and "(of_int p :: rat) < 2 powi bitlen p"
proof -
  have "1 \<le> bitlen p" using assms by (simp add: bitlen_alt_def)
  then have pw: "2 powi (bitlen p - 1) = (of_int (2 ^ nat (bitlen p - 1)) :: rat)"
      "2 powi bitlen p = (of_int (2 ^ nat (bitlen p)) :: rat)"
    by (simp_all add: power_int_def)
  show "2 powi (bitlen p - 1) \<le> (of_int p :: rat)" "(of_int p :: rat) < 2 powi bitlen p"
    unfolding pw of_int_le_iff of_int_less_iff using bitlen_bounds [OF assms] by simp_all
qed

lemma floor_log2_bounds:
  assumes "0 < x"
  shows "2 powi floor_log2 x \<le> x" and "x < 2 powi (floor_log2 x + 1)"
proof -
  obtain p q where pq: "quotient_of x = (p, q)" by (cases "quotient_of x")
  have q: "0 < q" using pq by (rule quotient_of_denom_pos)
  have x: "x = of_int p / of_int q" using pq by (rule quotient_of_div)
  have p: "0 < p" using assms q x by (simp add: zero_less_divide_iff)
  define e where "e = bitlen p - bitlen q"
  note bp = bitlen_bounds_powi [OF p] and bq = bitlen_bounds_powi [OF q]
  have qq: "0 < (of_int q :: rat)" using q by simp
  have "(2 :: rat) powi (e - 1) * of_int q < 2 powi (e - 1) * 2 powi bitlen q"
    by (rule mult_strict_left_mono [OF bq(2)]) simp
  also have "\<dots> = 2 powi (bitlen p - 1)"
    by (simp add: e_def flip: power_int_add)
  finally have lo: "2 powi (e - 1) < x" using bp(1) qq by (simp add: x field_simps)
  have "(of_int p :: rat) < 2 powi bitlen p" by (rule bp(2))
  also have "\<dots> = 2 powi (e + 1) * 2 powi (bitlen q - 1)"
    by (simp add: e_def flip: power_int_add)
  also have "\<dots> \<le> 2 powi (e + 1) * of_int q"
    by (rule mult_left_mono [OF bq(1)]) simp
  finally have hi: "x < 2 powi (e + 1)" using qq by (simp add: x field_simps)
  show "2 powi floor_log2 x \<le> x" and "x < 2 powi (floor_log2 x + 1)"
    using lo hi by (auto simp: floor_log2_def pq Let_def e_def)
qed

lemma floor_log2_mono:
  assumes "0 < x" and "x \<le> y"
  shows "floor_log2 x \<le> floor_log2 y"
proof (rule ccontr)
  assume "\<not> ?thesis"
  then have "(2 :: rat) powi (floor_log2 y + 1) \<le> 2 powi floor_log2 x"
    by (intro power_int_increasing) auto
  moreover have "y < 2 powi (floor_log2 y + 1)" "2 powi floor_log2 x \<le> x"
    using assms by (auto intro: floor_log2_bounds)
  ultimately show False using assms(2) by linarith
qed

lemma ulp_of_pos [simp]: "0 < ulp_of x"
  by (simp add: ulp_of_def)

lemma ulp_of_minus [simp]: "ulp_of (- x) = ulp_of x"
  by (simp add: ulp_of_def)

lemma fl_minus: "fl (- x) = - fl x"
  by (simp add: fl_def round_half_even_minus)

lemma fl_zero [simp]: "fl 0 = 0"
  by (simp add: fl_def)

text \<open>Rounding never crosses a multiple of the unit in the last place.\<close>

lemma fl_le_grid:
  assumes "x \<le> of_int k * ulp_of x" shows "fl x \<le> of_int k * ulp_of x"
proof (cases "x = 0")
  case False
  have "x / ulp_of x \<le> of_int k" using assms by (simp add: pos_divide_le_eq)
  then have "round_half_even (x / ulp_of x) \<le> k"
    by (metis round_half_even_mono round_half_even_of_int)
  then show ?thesis using False by (simp add: fl_def)
qed (use assms in simp)

lemma grid_le_fl:
  assumes "of_int k * ulp_of x \<le> x" shows "of_int k * ulp_of x \<le> fl x"
  using fl_le_grid [of "- x" "- k"] assms by (simp add: fl_minus)

lemma fl_nonneg: "0 \<le> x \<Longrightarrow> 0 \<le> fl x"
  using grid_le_fl [of 0 x] by simp

lemma powi_grid:
  assumes "- 1074 \<le> d" and "floor_log2 \<bar>x\<bar> - 52 \<le> d"
  shows "\<exists>k. (2 :: rat) powi d = of_int k * ulp_of x"
proof -
  define m where "m = max (floor_log2 \<bar>x\<bar> - 52) (- 1074)"
  have "0 \<le> d - m" using assms by (simp add: m_def)
  then have "(2 :: rat) powi (d - m) = of_int (2 ^ nat (d - m))"
    by (simp add: power_int_def)
  moreover have "(2 :: rat) powi d = 2 powi (d - m) * 2 powi m"
    by (simp flip: power_int_add)
  ultimately show ?thesis by (auto simp: ulp_of_def m_def)
qed

lemma fl_mono_pos:
  assumes "0 < x" and "x \<le> y"
  shows "fl x \<le> fl y"
proof (cases "ulp_of x = ulp_of y")
  case True
  have "round_half_even (x / ulp_of y) \<le> round_half_even (y / ulp_of y)"
    using assms(2) by (intro round_half_even_mono divide_right_mono) (simp_all add: less_imp_le)
  then show ?thesis using assms True by (simp add: fl_def)
next
  case False
  have ex: "floor_log2 x \<le> floor_log2 y" using assms by (rule floor_log2_mono)
  have "floor_log2 x \<noteq> floor_log2 y" using False assms by (auto simp: ulp_of_def)
  with ex have lt: "floor_log2 x < floor_log2 y" by simp
  with False assms have lim: "- 1022 \<le> floor_log2 y"
    by (auto simp: ulp_of_def max_def split: if_splits)
  let ?b = "(2 :: rat) powi floor_log2 y"
  have "x \<le> 2 powi (floor_log2 x + 1)" using assms(1) by (simp add: floor_log2_bounds less_imp_le)
  also have "\<dots> \<le> ?b" using lt by (intro power_int_increasing) auto
  finally have xb: "x \<le> ?b" .
  have yb: "?b \<le> y" using assms by (intro floor_log2_bounds) simp
  obtain k where "?b = of_int k * ulp_of x"
    using powi_grid [of "floor_log2 y" x] lt lim assms by auto
  with xb have 1: "fl x \<le> ?b" using fl_le_grid by metis
  obtain l where "?b = of_int l * ulp_of y"
    using powi_grid [of "floor_log2 y" y] lim assms by auto
  with yb have "?b \<le> fl y" using grid_le_fl by metis
  with 1 show ?thesis by simp
qed

lemma fl_mono: "x \<le> y \<Longrightarrow> fl x \<le> fl y"
proof -
  assume le: "x \<le> y"
  consider "0 < x" | "x \<le> 0" "0 \<le> y" | "y < 0" by linarith
  then show ?thesis
  proof cases
    case 1
    with le show ?thesis by (intro fl_mono_pos) 
  next
    case 2
    then have "fl x \<le> 0" using fl_nonneg [of "- x"] by (simp add: fl_minus)
    moreover have "0 \<le> fl y" using 2 by (simp add: fl_nonneg)
    ultimately show ?thesis by simp
  next
    case 3
    with le have "fl (- y) \<le> fl (- x)" by (intro fl_mono_pos) auto
    then show ?thesis by (simp add: fl_minus)
  qed
qed

lemma fl_one [simp]: "fl 1 = 1"
proof -
  have "quotient_of 1 = (1, 1)" by (simp add: quotient_of_int [of 1, simplified])
  then have "floor_log2 1 = 0" by (simp add: floor_log2_def bitlen_alt_def)
  then have u: "ulp_of 1 = 2 powi (- 52)" by (simp add: ulp_of_def)
  have "1 / ulp_of 1 = of_int (2 ^ 52)" by (simp add: u power_int_def power_one_over)
  then have "round_half_even (1 / ulp_of 1) = 2 ^ 52" by (metis round_half_even_of_int)
  then show ?thesis by (simp add: fl_def u power_int_def power_one_over)
qed

section \<open>The contract of rounding used by the reports\<close>

locale rounding =
  fixes rnd :: "rat \<Rightarrow> rat"
  assumes rnd_mono: "x \<le> y \<Longrightarrow> rnd x \<le> rnd y"
    and rnd_minus: "rnd (- x) = - rnd x"
    and rnd_zero: "rnd 0 = 0"
    and rnd_one: "rnd 1 = 1"
begin

lemma rnd_unit_interval: "0 \<le> x \<Longrightarrow> x \<le> 1 \<Longrightarrow> 0 \<le> rnd x \<and> rnd x \<le> 1"
  using rnd_mono [of 0 x] rnd_mono [of x 1] by (simp add: rnd_zero rnd_one)

lemma rnd_difference_antisym: "rnd (a - b) = - rnd (b - a)"
  using rnd_minus [of "b - a"] by simp

lemma rnd_ratio_unit:
  "0 \<le> h \<Longrightarrow> h \<le> t \<Longrightarrow> 0 < t \<Longrightarrow> 0 \<le> rnd (of_int h / of_int t) \<and> rnd (of_int h / of_int t) \<le> 1"
  by (rule rnd_unit_interval) simp_all

lemma rnd_le_iff_contra: "rnd y < rnd x \<Longrightarrow> y < x"
  using rnd_mono [of x y] by (meson not_le)

end

interpretation double: rounding fl
  by unfold_locales (auto simp: fl_mono fl_minus)

lemma not_overflow_unit [simp]: "0 \<le> x \<Longrightarrow> x \<le> 1 \<Longrightarrow> \<not> fl_overflows x"
  by (simp add: fl_overflows_def float_limit_def)

text \<open>A rate \<open>hits / total\<close> is always defined and lies in the unit interval.\<close>

lemma int_div_float_rate:
  assumes "0 \<le> h" and "h \<le> t" and "0 < t"
  shows "int_div_float h t = Inr (Fin (fl (of_int h / of_int t)))"
  using assms by (simp add: int_div_float_def rat_to_float_def)

end
