(* ===== verification/Json.thy ===== *)
theory Json
  imports Py_Float
begin

text \<open>
  JSON documents as the tools hold them after \<open>json.loads\<close>, Python's \<open>==\<close> on them,
  and the typed accessors with which every validator of \<open>tools/dictionary\<close> starts.
  The accessors are those of \<open>evaluate_mozc_adoption_v2_gate.py\<close>; the other tools carry
  copies of them, and a copy that differs is defined in its own theory.
\<close>

section \<open>Values\<close>

datatype json =
    JNull
  | JBool bool
  | JInt int
  | JFloat pyfloat
  | JStr string
  | JArr "json list"
  | JObj "(string \<times> json) list"

type_synonym obj = "(string \<times> json) list"

text \<open>Every object has distinct keys, as Python dictionaries do.\<close>

fun wf_json :: "json \<Rightarrow> bool" where
  "wf_json (JArr vs) \<longleftrightarrow> (\<forall>v \<in> set vs. wf_json v)"
| "wf_json (JObj o1) \<longleftrightarrow> distinct (keys o1) \<and> (\<forall>kv \<in> set o1. wf_json (snd kv))"
| "wf_json v \<longleftrightarrow> True"

text \<open>The duplicate-key hook of every loader: \<open>object_pairs_hook=_no_duplicate_keys\<close>.\<close>

fun no_duplicate_keys_from :: "obj \<Rightarrow> obj \<Rightarrow> obj res" where
  "no_duplicate_keys_from result [] = Inr result"
| "no_duplicate_keys_from result ((key, value) # pairs) =
     (if key \<in> set (keys result) then Inl (ValueError ''duplicate JSON key'')
      else no_duplicate_keys_from (result @ [(key, value)]) pairs)"

definition no_duplicate_keys :: "obj \<Rightarrow> obj res" where
  "no_duplicate_keys pairs = no_duplicate_keys_from [] pairs"

section \<open>Python equality\<close>

text \<open>Numbers compare by value across \<open>bool\<close>, \<open>int\<close> and \<open>float\<close>.\<close>

fun num_of :: "json \<Rightarrow> pyfloat option" where
  "num_of (JBool b) = Some (Fin (if b then 1 else 0))"
| "num_of (JInt i) = Some (Fin (of_int i))"
| "num_of (JFloat f) = Some f"
| "num_of v = None"

definition num_eq :: "json \<Rightarrow> json \<Rightarrow> bool" where
  "num_eq u v = (case (num_of u, num_of v) of (Some a, Some b) \<Rightarrow> float_eq a b | _ \<Rightarrow> False)"

text \<open>
  Objects compare as finite maps, whatever the order of their fields.  The recursion is on the
  right-hand value, which is the expected one in every comparison of the code.
\<close>

fun pyeq :: "json \<Rightarrow> json \<Rightarrow> bool"
and pyeq_list :: "json list \<Rightarrow> json list \<Rightarrow> bool"
and pyeq_fields :: "obj \<Rightarrow> obj \<Rightarrow> bool" where
  "pyeq v JNull = (v = JNull)"
| "pyeq v (JStr s) = (v = JStr s)"
| "pyeq v (JArr es) = (case v of JArr vs \<Rightarrow> pyeq_list vs es | _ \<Rightarrow> False)"
| "pyeq v (JObj es) =
     (case v of JObj vs \<Rightarrow> set (keys vs) = set (keys es) \<and> pyeq_fields vs es | _ \<Rightarrow> False)"
| "pyeq v (JBool b) = num_eq v (JBool b)"
| "pyeq v (JInt i) = num_eq v (JInt i)"
| "pyeq v (JFloat f) = num_eq v (JFloat f)"
| "pyeq_list vs [] = (vs = [])"
| "pyeq_list vs (e # es) = (case vs of [] \<Rightarrow> False | v # vs' \<Rightarrow> pyeq v e \<and> pyeq_list vs' es)"
| "pyeq_fields vs [] = True"
| "pyeq_fields vs ((k, e) # es) =
     ((case map_of vs k of None \<Rightarrow> False | Some v \<Rightarrow> pyeq v e) \<and> pyeq_fields vs es)"

text \<open>Equality of the JSON types as well as of the values; field order still does not matter.\<close>

fun typed_eq :: "json \<Rightarrow> json \<Rightarrow> bool"
and typed_eq_list :: "json list \<Rightarrow> json list \<Rightarrow> bool"
and typed_eq_fields :: "obj \<Rightarrow> obj \<Rightarrow> bool" where
  "typed_eq (JArr us) v = (case v of JArr vs \<Rightarrow> typed_eq_list us vs | _ \<Rightarrow> False)"
| "typed_eq (JObj us) v =
     (case v of JObj vs \<Rightarrow> set (keys us) = set (keys vs) \<and> typed_eq_fields us vs | _ \<Rightarrow> False)"
| "typed_eq JNull v = (v = JNull)"
| "typed_eq (JBool b) v = (v = JBool b)"
| "typed_eq (JInt i) v = (v = JInt i)"
| "typed_eq (JFloat f) v = (v = JFloat f)"
| "typed_eq (JStr s) v = (v = JStr s)"
| "typed_eq_list [] vs = (vs = [])"
| "typed_eq_list (u # us) vs =
     (case vs of [] \<Rightarrow> False | v # vs' \<Rightarrow> typed_eq u v \<and> typed_eq_list us vs')"
| "typed_eq_fields [] vs = True"
| "typed_eq_fields ((k, u) # us) vs =
     ((case map_of vs k of None \<Rightarrow> False | Some v \<Rightarrow> typed_eq u v) \<and> typed_eq_fields us vs)"

section \<open>Dictionary access\<close>

definition get_item :: "obj \<Rightarrow> string \<Rightarrow> json res" where
  "get_item d k = (case map_of d k of None \<Rightarrow> Inl (KeyError k) | Some v \<Rightarrow> Inr v)"

definition get_or_null :: "obj \<Rightarrow> string \<Rightarrow> json" where
  "get_or_null d k = (case map_of d k of None \<Rightarrow> JNull | Some v \<Rightarrow> v)"

section \<open>Typed accessors\<close>

definition as_object :: "json \<Rightarrow> string \<Rightarrow> obj res" where
  "as_object v ctx =
     (case v of JObj d \<Rightarrow> Inr d | _ \<Rightarrow> Inl (ValueError (ctx @ '' must be an object'')))"

definition as_array :: "json \<Rightarrow> string \<Rightarrow> json list res" where
  "as_array v ctx =
     (case v of JArr vs \<Rightarrow> Inr vs | _ \<Rightarrow> Inl (ValueError (ctx @ '' must be an array'')))"

definition as_string :: "json \<Rightarrow> string \<Rightarrow> string res" where
  "as_string v ctx =
     (case v of
        JStr s \<Rightarrow> (if s = [] then Inl (ValueError (ctx @ '' must be a non-empty string'')) else Inr s)
      | _ \<Rightarrow> Inl (ValueError (ctx @ '' must be a non-empty string'')))"

definition as_boolean :: "json \<Rightarrow> string \<Rightarrow> bool res" where
  "as_boolean v ctx =
     (case v of JBool b \<Rightarrow> Inr b | _ \<Rightarrow> Inl (ValueError (ctx @ '' must be a boolean'')))"

text \<open>\<open>isinstance(True, int)\<close> holds in Python; the accessor excludes it first.\<close>

definition as_integer :: "json \<Rightarrow> string \<Rightarrow> int res" where
  "as_integer v ctx =
     (case v of JInt i \<Rightarrow> Inr i | _ \<Rightarrow> Inl (ValueError (ctx @ '' must be an integer'')))"

definition as_nonnegative_int :: "json \<Rightarrow> string \<Rightarrow> int res" where
  "as_nonnegative_int v ctx =
     bindE (as_integer v ctx) (\<lambda>result.
     bindE (raise_if (result < 0) (ValueError (ctx @ '' must be non-negative''))) (\<lambda>_.
     Inr result))"

definition as_positive_int :: "json \<Rightarrow> string \<Rightarrow> int res" where
  "as_positive_int v ctx =
     bindE (as_integer v ctx) (\<lambda>result.
     bindE (raise_if (result < 1) (ValueError (ctx @ '' must be positive''))) (\<lambda>_.
     Inr result))"

text \<open>\<open>re.fullmatch(r"sha256:[0-9a-f]{64}", s)\<close>\<close>

definition is_lower_hex :: "char \<Rightarrow> bool" where
  "is_lower_hex c \<longleftrightarrow> is_digit c \<or> 97 \<le> (of_char c :: nat) \<and> (of_char c :: nat) \<le> 102"

definition sha256_pattern :: "string \<Rightarrow> bool" where
  "sha256_pattern s \<longleftrightarrow>
     take 7 s = ''sha256:'' \<and> length s = 71 \<and> list_all is_lower_hex (drop 7 s)"

definition as_sha256 :: "json \<Rightarrow> string \<Rightarrow> string res" where
  "as_sha256 v ctx =
     bindE (as_string v ctx) (\<lambda>result.
     bindE (raise_if (\<not> sha256_pattern result)
              (ValueError (ctx @ '' must be a lowercase SHA-256 digest''))) (\<lambda>_.
     Inr result))"

definition exact_fields :: "obj \<Rightarrow> string list \<Rightarrow> string \<Rightarrow> unit res" where
  "exact_fields payload expected ctx =
     raise_if (set (keys payload) \<noteq> set expected)
       (ValueError (ctx @ '' fields do not match schema; ''))"

definition expect :: "json \<Rightarrow> json \<Rightarrow> string \<Rightarrow> unit res" where
  "expect v expected ctx = raise_if (\<not> pyeq v expected) (ValueError (ctx @ '' must be ''))"

text \<open>
  The frozen-contract comparison.  The recursion follows the expected value; the dictionary
  branch reads \<open>payload[key]\<close> for every expected key, the list branch zips.
\<close>

fun expect_typed_contract :: "json \<Rightarrow> json \<Rightarrow> string \<Rightarrow> unit res"
and expect_typed_fields :: "obj \<Rightarrow> obj \<Rightarrow> string \<Rightarrow> unit res"
and expect_typed_items :: "json list \<Rightarrow> json list \<Rightarrow> nat \<Rightarrow> string \<Rightarrow> unit res" where
  "expect_typed_contract v (JObj expected) ctx =
     bindE (as_object v ctx) (\<lambda>payload.
     bindE (exact_fields payload (keys expected) ctx) (\<lambda>_.
     expect_typed_fields payload expected ctx))"
| "expect_typed_contract v (JArr expected) ctx =
     bindE (as_array v ctx) (\<lambda>payload.
     bindE (raise_if (length payload \<noteq> length expected)
              (ValueError (ctx @ '' must contain ''))) (\<lambda>_.
     expect_typed_items payload expected 0 ctx))"
| "expect_typed_contract v (JBool b) ctx =
     bindE (as_boolean v ctx) (\<lambda>x. expect (JBool x) (JBool b) ctx)"
| "expect_typed_contract v (JInt i) ctx =
     bindE (as_integer v ctx) (\<lambda>x. expect (JInt x) (JInt i) ctx)"
| "expect_typed_contract v (JStr s) ctx =
     bindE (as_string v ctx) (\<lambda>x. expect (JStr x) (JStr s) ctx)"
| "expect_typed_contract v JNull ctx =
     Inl (TypeError (''unsupported frozen contract value at '' @ ctx))"
| "expect_typed_contract v (JFloat f) ctx =
     Inl (TypeError (''unsupported frozen contract value at '' @ ctx))"
| "expect_typed_fields payload [] ctx = Inr ()"
| "expect_typed_fields payload ((key, expected_value) # expected) ctx =
     bindE (get_item payload key) (\<lambda>v.
     bindE (expect_typed_contract v expected_value (dot ctx key)) (\<lambda>_.
     expect_typed_fields payload expected ctx))"
| "expect_typed_items [] expected index ctx = Inr ()"
| "expect_typed_items payload [] index ctx = Inr ()"
| "expect_typed_items (item # payload) (expected_item # expected) index ctx =
     bindE (expect_typed_contract item expected_item (at_index ctx index)) (\<lambda>_.
     expect_typed_items payload expected (Suc index) ctx)"

text \<open>
  Three idioms of the validators: \<open>_chk(d["k"], f"{ctx}.k")\<close>, the same followed by
  \<open>_expect(..., e, f"{ctx}.k")\<close>, and \<open>_expect(d["k"], e, f"{ctx}.k")\<close> itself.
\<close>

definition item :: "(json \<Rightarrow> string \<Rightarrow> 'a res) \<Rightarrow> obj \<Rightarrow> string \<Rightarrow> string \<Rightarrow> 'a res" where
  "item chk d k ctx = bindE (get_item d k) (\<lambda>v. chk v (dot ctx k))"

definition expect_item :: "obj \<Rightarrow> string \<Rightarrow> json \<Rightarrow> string \<Rightarrow> unit res" where
  "expect_item d k e ctx = bindE (get_item d k) (\<lambda>v. expect v e (dot ctx k))"

definition expect_as ::
  "(json \<Rightarrow> string \<Rightarrow> 'a res) \<Rightarrow> ('a \<Rightarrow> json) \<Rightarrow> obj \<Rightarrow> string \<Rightarrow> json \<Rightarrow> string \<Rightarrow> unit res" where
  "expect_as chk mk d k e ctx =
     bindE (item chk d k ctx) (\<lambda>x. expect (mk x) e (dot ctx k))"

text \<open>Dictionaries and tuples of the code as documents.\<close>

definition int_obj :: "(string \<times> int) list \<Rightarrow> json" where
  "int_obj d = JObj (map (\<lambda>(k, n). (k, JInt n)) d)"

definition str_obj :: "(string \<times> string) list \<Rightarrow> json" where
  "str_obj d = JObj (map (\<lambda>(k, s). (k, JStr s)) d)"

definition str_arr :: "string list \<Rightarrow> json" where
  "str_arr ss = JArr (map JStr ss)"

lemma keys_Nil [simp]: "keys [] = []"
  by (simp add: keys_def)

lemma keys_Cons [simp]: "keys (kv # d) = fst kv # keys d"
  by (simp add: keys_def)

section \<open>What success of an accessor means\<close>

named_theorems accessor_simps \<open>success of a typed accessor as a statement about the value\<close>

lemma as_object_iff [simp, accessor_simps]: "as_object v ctx = Inr d \<longleftrightarrow> v = JObj d"
  by (cases v) (auto simp: as_object_def)

lemma as_array_iff [simp, accessor_simps]: "as_array v ctx = Inr d \<longleftrightarrow> v = JArr d"
  by (cases v) (auto simp: as_array_def)

lemma as_string_iff [simp, accessor_simps]: "as_string v ctx = Inr s \<longleftrightarrow> v = JStr s \<and> s \<noteq> []"
  by (cases v) (auto simp: as_string_def)

lemma as_boolean_iff [simp, accessor_simps]: "as_boolean v ctx = Inr b \<longleftrightarrow> v = JBool b"
  by (cases v) (auto simp: as_boolean_def)

lemma as_integer_iff [simp, accessor_simps]: "as_integer v ctx = Inr i \<longleftrightarrow> v = JInt i"
  by (cases v) (auto simp: as_integer_def)

lemma as_nonnegative_int_iff [simp, accessor_simps]:
  "as_nonnegative_int v ctx = Inr i \<longleftrightarrow> v = JInt i \<and> 0 \<le> i"
  by (auto simp: as_nonnegative_int_def)

lemma as_positive_int_iff [simp, accessor_simps]:
  "as_positive_int v ctx = Inr i \<longleftrightarrow> v = JInt i \<and> 1 \<le> i"
  by (auto simp: as_positive_int_def)

lemma as_sha256_iff [simp, accessor_simps]:
  "as_sha256 v ctx = Inr s \<longleftrightarrow> v = JStr s \<and> sha256_pattern s"
  by (auto simp: as_sha256_def sha256_pattern_def)

lemma get_item_iff [simp, accessor_simps]: "get_item d k = Inr v \<longleftrightarrow> map_of d k = Some v"
  by (auto simp: get_item_def split: option.splits)

lemma exact_fields_iff [simp, accessor_simps]:
  "exact_fields payload expected ctx = Inr u \<longleftrightarrow> set (keys payload) = set expected"
  by (simp add: exact_fields_def)

lemma expect_iff [simp, accessor_simps]: "expect v e ctx = Inr u \<longleftrightarrow> pyeq v e"
  by (simp add: expect_def)

lemma item_iff [simp, accessor_simps]:
  "item chk d k ctx = Inr x \<longleftrightarrow> (\<exists>v. map_of d k = Some v \<and> chk v (dot ctx k) = Inr x)"
  by (simp add: item_def)

lemma expect_item_iff [simp, accessor_simps]:
  "expect_item d k e ctx = Inr u \<longleftrightarrow> (\<exists>v. map_of d k = Some v \<and> pyeq v e)"
  by (simp add: expect_item_def)

lemma expect_as_iff [simp, accessor_simps]:
  "expect_as chk mk d k e ctx = Inr u \<longleftrightarrow>
     (\<exists>v x. map_of d k = Some v \<and> chk v (dot ctx k) = Inr x \<and> pyeq (mk x) e)"
  by (auto simp: expect_as_def)

section \<open>Facts about equality\<close>

lemma num_eq_simps [simp]:
  "num_eq u (JStr s) \<longleftrightarrow> False" "num_eq u JNull \<longleftrightarrow> False"
  "num_eq u (JArr vs) \<longleftrightarrow> False" "num_eq u (JObj d) \<longleftrightarrow> False"
  "num_eq (JInt i) (JInt j) \<longleftrightarrow> i = j" "num_eq (JBool b) (JBool c) \<longleftrightarrow> b = c"
  by (auto simp: num_eq_def split: option.splits)

lemma pyeq_list_all2: "pyeq_list vs es \<longleftrightarrow> list_all2 pyeq vs es"
  by (induction es arbitrary: vs) (auto simp: list_all2_Cons2 split: list.splits)

lemma pyeq_fields_iff:
  "pyeq_fields vs es \<longleftrightarrow> (\<forall>(k, e) \<in> set es. \<exists>v. map_of vs k = Some v \<and> pyeq v e)"
  by (induction es) (auto split: option.splits)

lemma pyeq_JArr:
  "pyeq v (JArr es) \<longleftrightarrow> (\<exists>vs. v = JArr vs \<and> list_all2 pyeq vs es)"
  by (cases v) (auto simp: pyeq_list_all2)

text \<open>
  How a validator establishes equality of an object: exact fields, then each field.
\<close>

lemma pyeq_JObj:
  "pyeq v (JObj es) \<longleftrightarrow>
     (\<exists>vs. v = JObj vs \<and> set (keys vs) = set (keys es) \<and>
        (\<forall>(k, e) \<in> set es. \<exists>u. map_of vs k = Some u \<and> pyeq u e))"
  by (cases v) (auto simp: pyeq_fields_iff)

lemma pyeq_JInt_iff:
  "pyeq v (JInt i) \<longleftrightarrow>
     v = JInt i \<or> v = JFloat (Fin (of_int i)) \<or> v = JBool (i = 1) \<and> (i = 0 \<or> i = 1)"
  by (cases v; cases "num_of v") (auto simp: num_eq_def elim: float_eq.elims split: if_splits)

declare pyeq.simps(3,4) [simp del]

section \<open>The frozen-contract comparison decides typed equality\<close>

text \<open>The contract literals of the code: objects, arrays, booleans, integers, strings.\<close>

fun contract_literal :: "json \<Rightarrow> bool" where
  "contract_literal (JObj d) \<longleftrightarrow> distinct (keys d) \<and> (\<forall>kv \<in> set d. contract_literal (snd kv))"
| "contract_literal (JArr vs) \<longleftrightarrow> (\<forall>v \<in> set vs. contract_literal v)"
| "contract_literal (JStr s) \<longleftrightarrow> s \<noteq> []"
| "contract_literal (JBool b) \<longleftrightarrow> True"
| "contract_literal (JInt i) \<longleftrightarrow> True"
| "contract_literal v \<longleftrightarrow> False"

lemma typed_eq_fields_iff:
  "typed_eq_fields us vs \<longleftrightarrow> (\<forall>(k, u) \<in> set us. \<exists>v. map_of vs k = Some v \<and> typed_eq u v)"
  by (induction us) (auto split: option.splits)

lemma typed_eq_list_all2: "typed_eq_list us vs \<longleftrightarrow> list_all2 typed_eq us vs"
  by (induction us arbitrary: vs) (auto split: list.splits)

lemma expect_typed_iff:
  "contract_literal e \<Longrightarrow> expect_typed_contract v e ctx = Inr u \<longleftrightarrow> typed_eq e v"
  "\<forall>kv \<in> set es. contract_literal (snd kv) \<Longrightarrow>
     expect_typed_fields payload es ctx = Inr u \<longleftrightarrow> typed_eq_fields es payload"
  "\<forall>x \<in> set xs. contract_literal x \<Longrightarrow> length vs = length xs \<Longrightarrow>
     expect_typed_items vs xs n ctx = Inr u \<longleftrightarrow> typed_eq_list xs vs"
proof (induction v e ctx and payload es ctx and vs xs n ctx
    rule: expect_typed_contract_expect_typed_fields_expect_typed_items.induct)
  case (1 v expected ctx)
  then show ?case by (cases v) auto
next
  case (2 v expected ctx)
  show ?case
  proof (cases "\<exists>vs. v = JArr vs \<and> length vs = length expected")
    case True
    with 2 show ?thesis by auto
  next
    case False
    then show ?thesis
      by (cases v) (auto simp: typed_eq_list_all2 dest: list_all2_lengthD)
  qed
next
  case (9 payload key ev expected ctx)
  then show ?case by (cases "map_of payload key") auto
qed (auto split: list.splits)

lemma typed_eq_pyeq: "contract_literal e \<Longrightarrow> typed_eq e v \<Longrightarrow> pyeq v e"
proof (induction e arbitrary: v)
  case (JArr es)
  then obtain vs where v: "v = JArr vs" and "list_all2 typed_eq es vs"
    by (auto simp: typed_eq_list_all2 split: json.splits)
  then show ?case
    using JArr by (auto simp: pyeq_JArr list_all2_conv_all_nth)
next
  case (JObj es)
  then obtain vs where v: "v = JObj vs" and ks: "set (keys es) = set (keys vs)"
    and fs: "\<forall>(k, w) \<in> set es. \<exists>u. map_of vs k = Some u \<and> typed_eq w u"
    by (auto simp: typed_eq_fields_iff split: json.splits)
  have "\<exists>u. map_of vs k = Some u \<and> pyeq u w" if m: "(k, w) \<in> set es" for k w
    using fs m JObj.IH [OF m, of w] JObj.prems(1) by fastforce
  then show ?case using v ks by (auto simp: pyeq_JObj)
qed (auto split: json.splits)

lemma contract_literal_wf: "contract_literal e \<Longrightarrow> wf_json e"
  by (induction e) auto

section \<open>The loader's hook\<close>

lemma no_duplicate_keys_from_iff:
  "no_duplicate_keys_from r ps = Inr d \<longleftrightarrow>
     d = r @ ps \<and> distinct (keys ps) \<and> set (keys r) \<inter> set (keys ps) = {}"
  by (induction r ps rule: no_duplicate_keys_from.induct) (auto simp: keys_def)

lemma no_duplicate_keys_iff: "no_duplicate_keys ps = Inr d \<longleftrightarrow> d = ps \<and> distinct (keys ps)"
  by (auto simp: no_duplicate_keys_def no_duplicate_keys_from_iff keys_def)

end
