(* ===== verification/Gate_Contract.thy ===== *)
theory Gate_Contract
  imports Json
begin

text \<open>
  The sealed v2 adoption gate, first part (\<open>evaluate_mozc_adoption_v2_gate.py\<close>, lines
  26 to 421 and the literals of \<open>parse_policy\<close>): the module's constants, the two policy
  records, the frozen contract literals, and the check-set and rounding helpers.
\<close>

section \<open>Module constants\<close>

definition POLICY_SCHEMA :: "string" where
  "POLICY_SCHEMA = ''hazkey.mozc-adoption-formal-gate-policy.v2''"

definition POLICY_ID :: "string" where
  "POLICY_ID = ''mozc-adoption-v2-formal-gate''"

definition METRICS_SCHEMA :: "string" where
  "METRICS_SCHEMA = ''hazkey.mozc-adoption-formal-gate-metrics.v2''"

definition RESULT_SCHEMA :: "string" where
  "RESULT_SCHEMA = ''hazkey.mozc-adoption-formal-gate-result.v2''"

definition CORPUS_MANIFEST_SCHEMA :: "string" where
  "CORPUS_MANIFEST_SCHEMA = ''hazkey.frozen-conversion-corpus-manifest.v2''"

definition DECISION_TIER :: "string" where
  "DECISION_TIER = ''formal''"

definition FORMAL_EVIDENCE_STATUS :: "string" where
  "FORMAL_EVIDENCE_STATUS = ''not_ready''"

definition FORMAL_ADOPTION_ALLOWED :: "bool" where
  "FORMAL_ADOPTION_ALLOWED = False"

definition GENERATION :: "string" where
  "GENERATION =
     ''sealed-v2-sha256-b4c1351b1b0ef7797349ebf26858db4d0dd69ce1c8bcbfaee88e0f0b644225ed''"

definition MANIFEST_SHA256 :: "string" where
  "MANIFEST_SHA256 =
     ''sha256:3ccefa5552d1c0d851b07cc1ed8f65983dd7db019d9250509f2467af7bfd1c02''"

definition CORPUS_SHA256 :: "string" where
  "CORPUS_SHA256 =
     ''sha256:cdb2a017b4548f6f77ec3d466f84ec09268a74adb5e876e224e01069f128c8ae''"

definition SOURCE_POLICY_SHA256 :: "string" where
  "SOURCE_POLICY_SHA256 =
     ''sha256:7b0a8e8ddcc9f8d2bfffd7dac6f365d7d5b1cf4ff42b92ba9fc4c99fce7f9220''"

definition TOTAL_CASES :: "int" where
  "TOTAL_CASES = 1360"

definition QUALITY_CASES :: "int" where
  "QUALITY_CASES = 1260"

definition QUALITY_CATEGORIES :: "(string \<times> int) list" where
  "QUALITY_CATEGORIES =
     [(''technical-mixed'', 240),
      (''proper-noun'', 200),
      (''colloquial'', 200),
      (''homophone-context'', 200),
      (''long-structural'', 200),
      (''grimodex-regression'', 220)]"

definition PROTECTED_CATEGORY :: "string" where
  "PROTECTED_CATEGORY = ''protected''"

definition PROTECTED_CASES :: "int" where
  "PROTECTED_CASES = 100"

definition CATEGORY_MINIMUM_DELTA_HITS :: "(string \<times> int) list" where
  "CATEGORY_MINIMUM_DELTA_HITS =
     [(''technical-mixed'', - 24),
      (''proper-noun'', - 20),
      (''colloquial'', - 20),
      (''homophone-context'', - 20),
      (''long-structural'', - 20),
      (''grimodex-regression'', - 22)]"

definition REQUIRED_STABILITY_IDS :: "string list" where
  "REQUIRED_STABILITY_IDS =
     [''adapter-soak-150k'',
      ''protocol-v2-steady-1500'',
      ''protocol-v2-recovery'',
      ''fcitx-long-soak-150k'',
      ''fcitx-lifecycle-3x100'']"

definition RUNTIME_RESOURCE_FINGERPRINTS :: "(string \<times> string) list" where
  "RUNTIME_RESOURCE_FINGERPRINTS =
     [(''B0'', ''sha256:2ba2cccb3c7489def988b63b0f0fd2cd96469521569c4807b63c80d2b50d3063''),
      (''B1'', ''sha256:65f3f341f491c1deec1182743c4923db3c7ad6f2609cb50cfde9c0a6b8e3adaa'')]"

definition BLOCKING_ITEMS :: "string list" where
  "BLOCKING_ITEMS =
     [''candidate-aware raw acquisition validation'',
      ''candidate-aware native stability evidence validation'',
      ''candidate-aware protected input protocol suite validation'',
      ''candidate-aware mixed input protocol metadata validation'']"

definition PROTECTED_INPUT_PROTOCOL_STATUS :: "string" where
  "PROTECTED_INPUT_PROTOCOL_STATUS = ''not_ready''"

definition PROTECTED_INPUT_REQUIRED_SUITE_IDS :: "string list" where
  "PROTECTED_INPUT_REQUIRED_SUITE_IDS =
     [''normal-input-context'', ''reconversion'', ''alphabet-width-f9-f10'']"

definition MIXED_INPUT_PROTOCOL_STATUS :: "string" where
  "MIXED_INPUT_PROTOCOL_STATUS = ''not_ready''"

definition B1_AUTHORIZATION_SCHEMA :: "string" where
  "B1_AUTHORIZATION_SCHEMA = ''hazkey.mozc-v2-b1-authorization.v1''"

definition B1_AUTHORIZATION_SCOPE :: "string" where
  "B1_AUTHORIZATION_SCOPE = ''B1-evaluation-only''"

definition TRUSTED_B0_ACQUISITION_SCHEMA :: "string" where
  "TRUSTED_B0_ACQUISITION_SCHEMA = ''hazkey.mozc-v2-objective-acquisition.v1''"

definition TRUSTED_B0_ACQUISITION_MANIFEST_SHA256 :: "string" where
  "TRUSTED_B0_ACQUISITION_MANIFEST_SHA256 =
     ''sha256:b1426435d389cb5132815ed07050c7fe45db5c40abde695e32a4ad2ce80bcde6''"

definition TRUSTED_B0_ACQUISITION_MANIFEST_INTEGRITY :: "string" where
  "TRUSTED_B0_ACQUISITION_MANIFEST_INTEGRITY =
     ''sha256:cc9e41601c515ec0b1a6c88f02038f424b3570e0acdd0f1da0e939e5f4b5d2e9''"

definition TRUSTED_B0_ACQUISITION_TREE_DIGEST :: "string" where
  "TRUSTED_B0_ACQUISITION_TREE_DIGEST =
     ''sha256:c059c9ab504cb98bf770f3068b8ba941e74067927857e06c64edc51c47d1da59''"

definition TRUSTED_B0_RAW_RUN_SHA256 :: "(string \<times> string) list" where
  "TRUSTED_B0_RAW_RUN_SHA256 =
     [(''H0'', ''sha256:29a8b543b86b1e596774f0fac6d1c836a9a0b7a2d60d5e782c91b374fe34b4b6''),
      (''B0'', ''sha256:08600f8f7367535469a3f383343dc521181faf8853b5a913336afd33104feea7'')]"

definition HAZKEY_DICTIONARY_FINGERPRINT :: "string" where
  "HAZKEY_DICTIONARY_FINGERPRINT =
     ''sha256:cee9210b8dc92a30e8b4e600c416db70a51fed1199f6b4c3659aba821ef4024c''"

definition TRUSTED_B0_PRODUCER :: "(string \<times> string) list" where
  "TRUSTED_B0_PRODUCER =
     [(''path'', ''tools/dictionary/run_mozc_v2_objective.py''),
      (''sha256'', ''sha256:1959800108fc4b7642bee3cf2a2ec6ad8ee8e2e51d651b186ca0516aa2aa2212'')]"

definition TRUSTED_B0_PYTHON_SOURCE_SHA256 :: "(string \<times> string) list" where
  "TRUSTED_B0_PYTHON_SOURCE_SHA256 =
     [(''producer'', ''sha256:1959800108fc4b7642bee3cf2a2ec6ad8ee8e2e51d651b186ca0516aa2aa2212''),
      (''v1_acquisition'', ''sha256:d7cf8cd4be12affd2a8e95015522cd8a558009e23208ea5e4b0c9f4df124ec81''),
      (''quality_evaluator'', ''sha256:44ec4f1f19746cb42ef2ace21c9dcd680bc9b0554dc6d28edb5ac2a6ad9b489b''),
      (''probe_summarizer'', ''sha256:52bb5c42a3e42a3c5df78033d2df168d1219dd8e1cf6ffcbe0269736645b9a5e'')]"

definition B1_AUTHORIZATION_STATUS :: "string" where
  "B1_AUTHORIZATION_STATUS = ''blocked_pending_mixed_input_protocol_revalidation''"

definition B1_AUTHORIZATION_DECISION :: "string" where
  "B1_AUTHORIZATION_DECISION = ''any-valid-mandatory-objective-check-false''"

definition B1_AUTHORIZATION_VALIDITY_PRECONDITION :: "string" where
  "B1_AUTHORIZATION_VALIDITY_PRECONDITION =
     ''new-policy-revision-with-reviewed-interaction-check-ids''"

definition B1_DIAGNOSTIC_OBJECTIVE_CHECK_IDS :: "string list" where
  "B1_DIAGNOSTIC_OBJECTIVE_CHECK_IDS =
     [''quality-top1-delta'',
      ''quality-top10-delta'',
      ''category-top1-delta:technical-mixed'',
      ''category-top1-delta:proper-noun'',
      ''category-top1-delta:colloquial'',
      ''category-top1-delta:homophone-context'',
      ''category-top1-delta:long-structural'',
      ''category-top1-delta:grimodex-regression'',
      ''protected-top1'']"

definition B1_VALID_MANDATORY_OBJECTIVE_CHECK_IDS :: "string list" where
  "B1_VALID_MANDATORY_OBJECTIVE_CHECK_IDS = []"

definition B1_RAW_RUN_IDS :: "string list" where
  "B1_RAW_RUN_IDS = [''H0'', ''B0'']"

definition B1_HISTORICAL_TEMPORARY_BASENAME_PATTERN :: "string" where
  "B1_HISTORICAL_TEMPORARY_BASENAME_PATTERN =
     ''.<current-acquisition-root-leaf>.tmp-<16-lowercase-hex>''"

definition B1_RAW_RESOURCE_SUFFIXES :: "(string \<times> string) list" where
  "B1_RAW_RESOURCE_SUFFIXES =
     [(''H0'', ''inputs/Dictionary''),
      (''B0'', ''inputs/B0/sha256-ad277af2ad5a634f23c7b84b7f346b02f341905f10fcfa6eb9912db78a0866cb'')]"

definition B1_PRIOR_RESULT_BINDING :: "string list" where
  "B1_PRIOR_RESULT_BINDING =
     [''authorization_schema'',
      ''authorization_scope'',
      ''policy_sha256'',
      ''acquisition_manifest_sha256'',
      ''acquisition_manifest_integrity'',
      ''acquisition_tree_digest'',
      ''raw_run_sha256'',
      ''authorization_integrity'']"

definition ALL_CATEGORIES :: "(string \<times> int) list" where
  "ALL_CATEGORIES = dict_set PROTECTED_CATEGORY PROTECTED_CASES QUALITY_CATEGORIES"

lemmas contract_constants =
  POLICY_SCHEMA_def POLICY_ID_def METRICS_SCHEMA_def RESULT_SCHEMA_def CORPUS_MANIFEST_SCHEMA_def
  DECISION_TIER_def FORMAL_EVIDENCE_STATUS_def FORMAL_ADOPTION_ALLOWED_def GENERATION_def
  MANIFEST_SHA256_def CORPUS_SHA256_def SOURCE_POLICY_SHA256_def TOTAL_CASES_def QUALITY_CASES_def
  QUALITY_CATEGORIES_def PROTECTED_CATEGORY_def PROTECTED_CASES_def
  CATEGORY_MINIMUM_DELTA_HITS_def REQUIRED_STABILITY_IDS_def RUNTIME_RESOURCE_FINGERPRINTS_def
  BLOCKING_ITEMS_def PROTECTED_INPUT_PROTOCOL_STATUS_def PROTECTED_INPUT_REQUIRED_SUITE_IDS_def
  MIXED_INPUT_PROTOCOL_STATUS_def B1_AUTHORIZATION_SCHEMA_def B1_AUTHORIZATION_SCOPE_def
  TRUSTED_B0_ACQUISITION_SCHEMA_def TRUSTED_B0_ACQUISITION_MANIFEST_SHA256_def
  TRUSTED_B0_ACQUISITION_MANIFEST_INTEGRITY_def TRUSTED_B0_ACQUISITION_TREE_DIGEST_def
  TRUSTED_B0_RAW_RUN_SHA256_def HAZKEY_DICTIONARY_FINGERPRINT_def TRUSTED_B0_PRODUCER_def
  TRUSTED_B0_PYTHON_SOURCE_SHA256_def B1_AUTHORIZATION_STATUS_def B1_AUTHORIZATION_DECISION_def
  B1_AUTHORIZATION_VALIDITY_PRECONDITION_def B1_DIAGNOSTIC_OBJECTIVE_CHECK_IDS_def
  B1_VALID_MANDATORY_OBJECTIVE_CHECK_IDS_def B1_RAW_RUN_IDS_def
  B1_HISTORICAL_TEMPORARY_BASENAME_PATTERN_def B1_RAW_RESOURCE_SUFFIXES_def
  B1_PRIOR_RESULT_BINDING_def ALL_CATEGORIES_def

section \<open>Frozen contract literals\<close>

definition legacy_probe_contract :: json where
  "legacy_probe_contract =
     JObj [
       (''corpus_category'', JStr PROTECTED_CATEGORY),
       (''cases'', JInt PROTECTED_CASES),
       (''classification'', JStr ''reconversion-like''),
       (''input_contract'', JObj [
         (''composition'', JStr ''entire-reading-as-one-composition''),
         (''element_input_style'', JStr ''direct''),
         (''left_context'', JStr ''empty''),
         (''right_context'', JStr ''empty'')]),
       (''formal_eligible'', JBool False),
       (''observed_result_status'', JStr ''invalid_for_formal_gate'')]"

definition required_suites_contract :: json where
  "required_suites_contract =
     JArr [
       JObj [
         (''id'', JStr ''normal-input-context''),
         (''cases'', JStr ''pending_review''),
         (''evaluator_path'', JStr ''fcitx-protocol-v2-product''),
         (''input_contract'', JStr ''committed-halfwidth-ascii-left-context-and-kana-only-composition'')],
       JObj [
         (''id'', JStr ''reconversion''),
         (''cases'', JStr ''pending_review''),
         (''evaluator_path'', JStr ''fcitx-selection-protocol-v2-product''),
         (''input_contract'', JStr ''selected-mixed-string-with-left-and-right-context'')],
       JObj [
         (''id'', JStr ''alphabet-width-f9-f10''),
         (''cases'', JStr ''pending_review''),
         (''evaluator_path'', JStr ''fcitx-keymap-protocol-v2-product''),
         (''input_contract'', JStr ''separate-f9-fullwidth-and-f10-halfwidth-transform-and-commit'')]]"

definition superseded_evidence_contract :: json where
  "superseded_evidence_contract =
     JObj [
       (''reason'', JStr ''legacy-protected-cases-used-a-full-string-direct-probe-instead-of-the-required-product-input-protocols''),
       (''old_policy_sha256'', JStr ''sha256:b9779203041feb414bd6992ea6f787f4f8a9e7fb196b7de88101b71a9ab2e998''),
       (''authorization'', JObj [
         (''document_sha256'', JStr ''sha256:eb2e552c5ec792c187c205fb7e1ab86df6b4e6717eb5eae218a0cee5b8c71171''),
         (''integrity'', JStr ''sha256:161020ccf6eff5931fb13069c06f40973a4b1aad8ea92c1b239a679736e7a6be'')]),
       (''b1_acquisition'', JObj [
         (''manifest_sha256'', JStr ''sha256:9ddfe68857e50600ba7b43d9d16fc2ec8d04a645ce3d2ca7f3b9ee204ffd0fa1''),
         (''manifest_integrity'', JStr ''sha256:cba2da23f2bdcec674fd7f672cea3599e2e316687d4bb5feb322ff7077437f3b''),
         (''objective_sha256'', JStr ''sha256:62187c3f6f82919abd23ed4212ccc2d14d36c652586cbf94ccf4432f7d9255e2''),
         (''objective_integrity'', JStr ''sha256:152be2100e463f87654edcdc8de68c466aa333099830db65605d2b977a8719b3''),
         (''raw_b1_sha256'', JStr ''sha256:b21cbe0b0ac760abd620c4fe3cfa866d990976eaec83b564a5663bf315078d61''),
         (''current_interpretation'', JStr ''not_ready:interaction-model-mismatch'')]),
       (''formal_decision_eligible'', JBool False)]"

definition mixed_protocol_contract :: json where
  "mixed_protocol_contract =
     JObj [
       (''status'', JStr MIXED_INPUT_PROTOCOL_STATUS),
       (''ascii_scan_contract'', JStr ''reading-contains-any-code-point-u0000-through-u007f''),
       (''scope'', JObj [
         (''technical-mixed'', JObj [
           (''cases'', JInt (the (map_of QUALITY_CATEGORIES ''technical-mixed''))),
           (''ascii_present'', JInt 239),
           (''ascii_free'', JInt 1)]),
         (''proper-noun'', JObj [
           (''cases'', JInt (the (map_of QUALITY_CATEGORIES ''proper-noun''))),
           (''ascii_present'', JInt 4),
           (''ascii_free'', JInt 196)]),
         (''colloquial'', JObj [
           (''cases'', JInt (the (map_of QUALITY_CATEGORIES ''colloquial''))),
           (''ascii_present'', JInt 2),
           (''ascii_free'', JInt 198)]),
         (''homophone-context'', JObj [
           (''cases'', JInt (the (map_of QUALITY_CATEGORIES ''homophone-context''))),
           (''ascii_present'', JInt 0),
           (''ascii_free'', JInt 200)]),
         (''long-structural'', JObj [
           (''cases'', JInt (the (map_of QUALITY_CATEGORIES ''long-structural''))),
           (''ascii_present'', JInt 0),
           (''ascii_free'', JInt 200)]),
         (''grimodex-regression'', JObj [
           (''cases'', JInt (the (map_of QUALITY_CATEGORIES ''grimodex-regression''))),
           (''ascii_present'', JInt 220),
           (''ascii_free'', JInt 0)]),
         (''protected'', JObj [
           (''cases'', JInt PROTECTED_CASES),
           (''ascii_present'', JInt 100),
           (''ascii_free'', JInt 0)])]),
       (''totals'', JObj [
         (''cases'', JInt TOTAL_CASES),
         (''ascii_present'', JInt 565),
         (''ascii_free'', JInt 795),
         (''quality_ascii_present'', JInt 465),
         (''quality_ascii_free'', JInt 795)]),
       (''interaction_shape_audit'', JObj [
         (''single-left-context-plus-terminal-kana'', JObj [
           (''cases'', JInt 431),
           (''by_category'', JObj [
             (''technical-mixed'', JInt 213),
             (''proper-noun'', JInt 0),
             (''colloquial'', JInt 1),
             (''homophone-context'', JInt 0),
             (''long-structural'', JInt 0),
             (''grimodex-regression'', JInt 117),
             (''protected'', JInt 100)])]),
         (''multiple-literals-or-explicit-reconversion-required'', JObj [
           (''cases'', JInt 134),
           (''by_category'', JObj [
             (''technical-mixed'', JInt 26),
             (''proper-noun'', JInt 4),
             (''colloquial'', JInt 1),
             (''homophone-context'', JInt 0),
             (''long-structural'', JInt 0),
             (''grimodex-regression'', JInt 103),
             (''protected'', JInt 0)])])]),
       (''ascii_present_interaction_metadata'', JStr ''absent''),
       (''required_metadata'', JArr [
         JStr ''scenario-kind'',
         JStr ''action-trace'',
         JStr ''committed-left-context'',
         JStr ''right-context'',
         JStr ''composition-reading'',
         JStr ''input-style'',
         JStr ''requested-transform'',
         JStr ''expected-target'']),
       (''formal_quality_use_rule'', JStr ''ascii-mixed-rows-require-reviewed-interaction-metadata-before-normal-input-use''),
       (''diagnostic_ascii_free_quality_recalculation'', JObj [
         (''status'', JStr ''diagnostic_only''),
         (''cases'', JInt 795),
         (''top10_minimum_delta_hits'', JInt (- 95)),
         (''H0'', JObj [(''top1_hits'', JInt 441), (''top10_hits'', JInt 601)]),
         (''B0'', JObj [
           (''top1_hits'', JInt 441),
           (''top10_hits'', JInt 451),
           (''top1_delta_hits'', JInt 0),
           (''top10_delta_hits'', JInt (- 150)),
           (''top10_passed'', JBool False)]),
         (''B1'', JObj [
           (''top1_hits'', JInt 444),
           (''top10_hits'', JInt 607),
           (''top1_delta_hits'', JInt 3),
           (''top10_delta_hits'', JInt 6)]),
         (''formal_decision_eligible'', JBool False),
         (''current_interpretation'', JStr ''not_ready:interaction-model-mismatch''),
         (''unevaluable_category_gates'', JObj [
           (''technical-mixed_ascii_free_cases'', JInt 1),
           (''grimodex-regression_ascii_free_cases'', JInt 0)])])]"

definition protected_gate_contract :: json where
  "protected_gate_contract =
     JObj [
       (''category'', JStr PROTECTED_CATEGORY),
       (''total_cases'', JInt PROTECTED_CASES),
       (''legacy_required_top1_hits'', JInt PROTECTED_CASES),
       (''formal_eligible'', JBool False),
       (''observed_result_status'', JStr ''invalid_for_formal_gate''),
       (''replacement_suite_status'', JStr PROTECTED_INPUT_PROTOCOL_STATUS)]"

section \<open>Policy records\<close>

record GatePolicy =
  total_cases :: int
  quality_cases :: int
  quality_categories :: "(string \<times> int) list"
  all_categories :: "(string \<times> int) list"
  minimum_human_basis_points :: int
  minimum_human_net_cases :: int
  minimum_top1_basis_points :: int
  minimum_top1_delta_hits :: int
  minimum_top10_basis_points :: int
  minimum_top10_delta_hits :: int
  minimum_category_basis_points :: int
  minimum_category_delta_hits :: "(string \<times> int) list"
  legacy_protected_required :: int
  maximum_both_bad :: int
  maximum_latency_ratio_basis_points :: int
  maximum_pss_ratio_basis_points :: int
  required_stability_ids :: "string list"

record ParsedPolicy =
  gate :: GatePolicy
  policy_id :: string
  policy_sha256 :: string
  manifest_path :: string
  manifest_sha256 :: string
  corpus_path :: string
  corpus_sha256 :: string
  source_policy_path :: string
  source_policy_sha256 :: string
  candidate_resource_fingerprints :: "(string \<times> string) list"
  formal_evidence_status :: string
  formal_adoption_allowed :: bool
  blocking_items :: "string list"
  protected_input_protocol_status :: string
  protected_input_required_suite_ids :: "string list"
  mixed_input_protocol_status :: string
  b1_authorization_schema :: string
  b1_authorization_scope :: string
  b1_authorization_status :: string
  hazkey_dictionary_fingerprint :: string
  trusted_b0_acquisition_schema :: string
  trusted_b0_acquisition_manifest_sha256 :: string
  trusted_b0_acquisition_manifest_integrity :: string
  trusted_b0_acquisition_tree_digest :: string
  trusted_b0_raw_run_sha256 :: "(string \<times> string) list"
  trusted_b0_producer :: "(string \<times> string) list"
  trusted_b0_python_source_sha256 :: "(string \<times> string) list"
  b1_authorization_decision :: string
  b1_authorization_validity_precondition :: string
  b1_diagnostic_objective_check_ids :: "string list"
  b1_valid_mandatory_check_ids :: "string list"
  b1_raw_run_ids :: "string list"
  b1_historical_temporary_basename_pattern :: string
  b1_raw_resource_suffixes :: "(string \<times> string) list"

section \<open>Authorization check sets\<close>

text \<open>
  \<open>B1_INTERACTION_CHECK_ID_PATTERN\<close>: one of three suite prefixes, then a slug of lower-case
  alphanumeric words separated by single hyphens.
\<close>

definition is_slug_char :: "char \<Rightarrow> bool" where
  "is_slug_char c \<longleftrightarrow> is_digit c \<or> 97 \<le> (of_char c :: nat) \<and> (of_char c :: nat) \<le> 122"

definition is_slug :: "string \<Rightarrow> bool" where
  "is_slug s \<longleftrightarrow> list_all (\<lambda>w. w \<noteq> [] \<and> list_all is_slug_char w) (split_on (CHR ''-'') s)"

definition interaction_prefixes :: "string list" where
  "interaction_prefixes =
     [''interaction:normal-input-context:'', ''interaction:reconversion:'',
      ''interaction:alphabet-width-f9-f10:'']"

definition b1_interaction_check_id :: "string \<Rightarrow> bool" where
  "b1_interaction_check_id s \<longleftrightarrow>
     list_ex (\<lambda>p. take (length p) s = p \<and> is_slug (drop (length p) s)) interaction_prefixes"

definition validate_b1_authorization_check_sets ::
  "string list \<Rightarrow> string list \<Rightarrow> string \<Rightarrow> unit res" where
  "validate_b1_authorization_check_sets diagnostic_ids valid_ids ctx =
     bindE (raise_if (card (set diagnostic_ids) \<noteq> length diagnostic_ids)
              (ValueError (ctx @ ''.diagnostic_check_ids must be unique''))) (\<lambda>_.
     bindE (raise_if (card (set valid_ids) \<noteq> length valid_ids)
              (ValueError (ctx @ ''.valid_mandatory_check_ids must be unique''))) (\<lambda>_.
     bindE (raise_if (set diagnostic_ids \<inter> set valid_ids \<noteq> {})
              (ValueError (ctx @ '' diagnostic and valid mandatory check IDs must be disjoint; '')))
       (\<lambda>_.
     raise_if (filter (\<lambda>check_id. \<not> b1_interaction_check_id check_id) valid_ids \<noteq> [])
       (ValueError (ctx @ ''.valid_mandatory_check_ids must identify reviewed interaction evidence; '')))))"

lemma validate_b1_authorization_check_sets_iff [simp, accessor_simps]:
  "validate_b1_authorization_check_sets ds vs ctx = Inr u \<longleftrightarrow>
     distinct ds \<and> distinct vs \<and> set ds \<inter> set vs = {} \<and> list_all b1_interaction_check_id vs"
  by (auto simp: validate_b1_authorization_check_sets_def filter_empty_conv list_all_iff
      distinct_card dest: card_distinct)

section \<open>The ceiling of a fraction\<close>

definition ceil_fraction :: "int \<Rightarrow> int \<Rightarrow> int res" where
  "ceil_fraction numerator denominator =
     (if denominator \<le> 0 then Inl (ValueError ''ceiling denominator must be positive'')
      else Inr (- ((- numerator) div denominator)))"

lemma ceil_fraction_iff:
  "ceil_fraction n d = Inr c \<longleftrightarrow> 0 < d \<and> c = \<lceil>of_int n / (of_int d :: rat)\<rceil>"
proof -
  have "\<lceil>of_int n / (of_int d :: rat)\<rceil> = - \<lfloor>of_int (- n) / (of_int d :: rat)\<rfloor>"
    by (simp add: ceiling_def)
  also have "\<dots> = - ((- n) div d)"
    by (simp only: floor_divide_of_int_eq)
  finally show ?thesis by (auto simp: ceil_fraction_def)
qed

text \<open>
  \<open>parse_policy\<close> applies it to \<open>human["minimum_basis_points"] * QUALITY_CASES\<close>, where the
  document may hold the number as an integer or as an equal float; the comparison before it
  excludes every other value.  Float multiplication and floor division round to doubles.
\<close>

fun times_cases :: "json \<Rightarrow> int \<Rightarrow> json res" where
  "times_cases (JInt i) n = Inr (JInt (i * n))"
| "times_cases (JFloat (Fin x)) n =
     (if fl_overflows (x * of_int n) then Inr (JFloat (Infinity (0 < x * of_int n)))
      else Inr (JFloat (Fin (fl (x * of_int n)))))"
| "times_cases v n = Inl (TypeError ''unsupported operand'')"

fun ceil_fraction_number :: "json \<Rightarrow> int \<Rightarrow> json res" where
  "ceil_fraction_number (JInt n) d = bindE (ceil_fraction n d) (\<lambda>c. Inr (JInt c))"
| "ceil_fraction_number (JFloat (Fin x)) d =
     (if d \<le> 0 then Inl (ValueError ''ceiling denominator must be positive'')
      else Inr (JFloat (Fin (- fl (of_int \<lfloor>(- x) / of_int d\<rfloor>)))))"
| "ceil_fraction_number v d = Inl (TypeError ''unsupported operand'')"

end
