(* ===== verification/Gate_Policy.thy ===== *)
theory Gate_Policy
  imports Gate_Contract
begin

text \<open>
  \<open>parse_policy\<close> of \<open>evaluate_mozc_adoption_v2_gate.py\<close>.  The 750-line function is one
  sequence of checks; here each top-level section of the document is a definition of its
  own, and \<open>parse_policy_root\<close> runs them in the order of the code.  The context strings
  are those of the error messages.
\<close>

text \<open>\<open>{key: _sha256(raw[key], f"{ctx}.{key}") for key in ids}\<close>\<close>

definition sha256_fields :: "obj \<Rightarrow> string list \<Rightarrow> string \<Rightarrow> (string \<times> string) list res" where
  "sha256_fields raw ids ctx =
     mapE (\<lambda>k. bindE (item as_sha256 raw k ctx) (\<lambda>s. Inr (k, s))) ids"

section \<open>Corpus binding\<close>

definition expected_manifest_path :: string where
  "expected_manifest_path = GENERATION @ ''/manifest.json''"

definition expected_corpus_path :: string where
  "expected_corpus_path = GENERATION @ ''/formal-corpus.tsv''"

definition expected_source_policy_path :: string where
  "expected_source_policy_path = GENERATION @ ''/corpus-policy.json''"

definition parse_corpus_binding :: "obj \<Rightarrow> string \<Rightarrow> unit res" where
  "parse_corpus_binding document context =
     bindE (item as_object document ''corpus_binding'' context) (\<lambda>corpus.
     let ctx = dot context ''corpus_binding'' in
     bindE (exact_fields corpus
              [''generation'', ''manifest'', ''aggregate'', ''source_policy'',
               ''quality_categories'', ''protected'', ''pilot_v1_counted''] ctx) (\<lambda>_.
     bindE (expect_item corpus ''generation'' (JStr GENERATION) ctx) (\<lambda>_.
     bindE (item as_object corpus ''manifest'' ctx) (\<lambda>manifest.
     let mctx = dot ctx ''manifest'' in
     bindE (exact_fields manifest [''schema'', ''path'', ''sha256''] mctx) (\<lambda>_.
     bindE (expect_item manifest ''schema'' (JStr CORPUS_MANIFEST_SCHEMA) mctx) (\<lambda>_.
     bindE (expect_item manifest ''path'' (JStr expected_manifest_path) mctx) (\<lambda>_.
     bindE (expect_as as_sha256 JStr manifest ''sha256'' (JStr MANIFEST_SHA256) mctx) (\<lambda>_.
     bindE (item as_object corpus ''aggregate'' ctx) (\<lambda>aggregate.
     let actx = dot ctx ''aggregate'' in
     bindE (exact_fields aggregate [''path'', ''sha256'', ''total_cases'', ''quality_cases''] actx) (\<lambda>_.
     bindE (expect_item aggregate ''path'' (JStr expected_corpus_path) actx) (\<lambda>_.
     bindE (expect_as as_sha256 JStr aggregate ''sha256'' (JStr CORPUS_SHA256) actx) (\<lambda>_.
     bindE (expect_as as_positive_int JInt aggregate ''total_cases'' (JInt TOTAL_CASES) actx) (\<lambda>_.
     bindE (expect_as as_positive_int JInt aggregate ''quality_cases'' (JInt QUALITY_CASES) actx) (\<lambda>_.
     bindE (item as_object corpus ''source_policy'' ctx) (\<lambda>source_policy.
     let sctx = dot ctx ''source_policy'' in
     bindE (exact_fields source_policy [''path'', ''sha256''] sctx) (\<lambda>_.
     bindE (expect_item source_policy ''path'' (JStr expected_source_policy_path) sctx) (\<lambda>_.
     bindE (expect_as as_sha256 JStr source_policy ''sha256'' (JStr SOURCE_POLICY_SHA256) sctx) (\<lambda>_.
     bindE (expect_item corpus ''quality_categories'' (int_obj QUALITY_CATEGORIES) ctx) (\<lambda>_.
     bindE (item as_object corpus ''protected'' ctx) (\<lambda>protected.
     let pctx = dot ctx ''protected'' in
     bindE (exact_fields protected [''category'', ''cases'', ''included_in_quality''] pctx) (\<lambda>_.
     bindE (item as_string protected ''category'' pctx) (\<lambda>category.
     bindE (item as_positive_int protected ''cases'' pctx) (\<lambda>cases.
     bindE (item as_boolean protected ''included_in_quality'' pctx) (\<lambda>included.
     bindE (expect
              (JObj [(''category'', JStr category), (''cases'', JInt cases),
                     (''included_in_quality'', JBool included)])
              (JObj [(''category'', JStr PROTECTED_CATEGORY), (''cases'', JInt PROTECTED_CASES),
                     (''included_in_quality'', JBool False)]) pctx) (\<lambda>_.
     expect_as as_boolean JBool corpus ''pilot_v1_counted'' (JBool False) ctx)))))))))))))))))))))))))"

section \<open>Input protocols\<close>

definition parse_protected_protocol :: "obj \<Rightarrow> string \<Rightarrow> unit res" where
  "parse_protected_protocol document context =
     bindE (item as_object document ''protected_input_protocol'' context) (\<lambda>protected_protocol.
     let ctx = dot context ''protected_input_protocol'' in
     bindE (exact_fields protected_protocol
              [''status'', ''legacy_abprobe_full_string_direct'', ''required_suites'',
               ''completion_rule'', ''superseded_evidence''] ctx) (\<lambda>_.
     bindE (expect_item protected_protocol ''status'' (JStr PROTECTED_INPUT_PROTOCOL_STATUS) ctx) (\<lambda>_.
     bindE (item as_object protected_protocol ''legacy_abprobe_full_string_direct'' ctx) (\<lambda>legacy_probe.
     bindE (expect_typed_contract (JObj legacy_probe) legacy_probe_contract
              (dot ctx ''legacy_abprobe_full_string_direct'')) (\<lambda>_.
     bindE (item as_array protected_protocol ''required_suites'' ctx) (\<lambda>required_suites.
     bindE (expect_typed_contract (JArr required_suites) required_suites_contract
              (dot ctx ''required_suites'')) (\<lambda>_.
     bindE (expect_item protected_protocol ''completion_rule''
              (JStr ''all-required-suites-reviewed-and-passed'') ctx) (\<lambda>_.
     bindE (item as_object protected_protocol ''superseded_evidence'' ctx) (\<lambda>superseded.
     expect_typed_contract (JObj superseded) superseded_evidence_contract
       (dot ctx ''superseded_evidence''))))))))))"

definition parse_mixed_protocol :: "obj \<Rightarrow> string \<Rightarrow> unit res" where
  "parse_mixed_protocol document context =
     bindE (item as_object document ''mixed_input_protocol'' context) (\<lambda>mixed_protocol.
     expect_typed_contract (JObj mixed_protocol) mixed_protocol_contract
       (dot context ''mixed_input_protocol''))"

section \<open>Candidates\<close>

definition parse_candidate_artifacts :: "obj \<Rightarrow> string \<Rightarrow> (string \<times> string) list res" where
  "parse_candidate_artifacts document context =
     bindE (item as_object document ''candidate_artifacts'' context) (\<lambda>artifacts.
     let ctx = dot context ''candidate_artifacts'' in
     bindE (exact_fields artifacts
              [''source'', ''eligible_candidate_ids'', ''runtime_resource_fingerprints''] ctx) (\<lambda>_.
     bindE (expect_item artifacts ''source''
              (JStr ''corpus_binding.source_policy.artifact_freezes'') ctx) (\<lambda>_.
     bindE (expect_item artifacts ''eligible_candidate_ids'' (str_arr [''B0'', ''B1'']) ctx) (\<lambda>_.
     bindE (item as_object artifacts ''runtime_resource_fingerprints'' ctx) (\<lambda>raw_fingerprints.
     let fctx = dot ctx ''runtime_resource_fingerprints'' in
     bindE (exact_fields raw_fingerprints [''B0'', ''B1''] fctx) (\<lambda>_.
     bindE (sha256_fields raw_fingerprints [''B0'', ''B1''] fctx) (\<lambda>fingerprints.
     bindE (expect (str_obj fingerprints) (str_obj RUNTIME_RESOURCE_FINGERPRINTS) fctx) (\<lambda>_.
     Inr fingerprints))))))))"

definition parse_candidate_sequence :: "obj \<Rightarrow> string \<Rightarrow> unit res" where
  "parse_candidate_sequence document context =
     bindE (item as_object document ''candidate_sequence'' context) (\<lambda>sequence.
     let ctx = dot context ''candidate_sequence'' in
     bindE (exact_fields sequence
              [''evaluate_first'', ''evaluate_B1_only_if_B0_result'', ''B1_prior_result_binding'',
               ''B2_eligible'', ''post_disclosure_new_candidate_policy''] ctx) (\<lambda>_.
     bindE (expect_item sequence ''evaluate_first'' (JStr ''B0'') ctx) (\<lambda>_.
     bindE (expect_item sequence ''evaluate_B1_only_if_B0_result''
              (JStr ''verified_raw_early_formal_fail'') ctx) (\<lambda>_.
     bindE (expect_item sequence ''B1_prior_result_binding'' (str_arr B1_PRIOR_RESULT_BINDING) ctx) (\<lambda>_.
     bindE (expect_as as_boolean JBool sequence ''B2_eligible'' (JBool False) ctx) (\<lambda>_.
     expect_item sequence ''post_disclosure_new_candidate_policy''
       (JStr ''new_holdout_required'') ctx))))))"

section \<open>Early rejection of B0\<close>

text \<open>\<open>tuple(_string(value, f"{ctx}[{index}]") for index, value in enumerate(_array(...)))\<close>\<close>

definition parse_string_tuple :: "obj \<Rightarrow> string \<Rightarrow> string \<Rightarrow> string list res" where
  "parse_string_tuple d k ctx =
     bindE (item as_array d k ctx) (\<lambda>values.
     mapiE (\<lambda>index value. as_string value (at_index (dot ctx k) index)) 0 values)"

definition parse_historical_paths :: "obj \<Rightarrow> string \<Rightarrow> unit res" where
  "parse_historical_paths rule rctx =
     bindE (item as_object rule ''historical_resource_paths'' rctx) (\<lambda>historical_paths.
     let hctx = dot rctx ''historical_resource_paths'' in
     bindE (exact_fields historical_paths
              [''shared_temporary_root_required'', ''temporary_basename_pattern'',
               ''resolve_or_open_historical_path'', ''exact_suffixes''] hctx) (\<lambda>_.
     bindE (expect_as as_boolean JBool historical_paths ''shared_temporary_root_required''
              (JBool True) hctx) (\<lambda>_.
     bindE (expect_item historical_paths ''temporary_basename_pattern''
              (JStr B1_HISTORICAL_TEMPORARY_BASENAME_PATTERN) hctx) (\<lambda>_.
     bindE (expect_as as_boolean JBool historical_paths ''resolve_or_open_historical_path''
              (JBool False) hctx) (\<lambda>_.
     expect_item historical_paths ''exact_suffixes'' (str_obj B1_RAW_RESOURCE_SUFFIXES) hctx)))))"

definition parse_authorization_rule ::
  "obj \<Rightarrow> string \<Rightarrow> (string list \<times> string list) res" where
  "parse_authorization_rule rejection ctx =
     bindE (item as_object rejection ''authorization_rule'' ctx) (\<lambda>rule.
     let rctx = dot ctx ''authorization_rule'' in
     bindE (exact_fields rule
              [''status'', ''decision'', ''validity_precondition'', ''diagnostic_check_ids'',
               ''valid_mandatory_check_ids'', ''raw_run_ids'', ''historical_resource_paths''] rctx) (\<lambda>_.
     bindE (expect_item rule ''status'' (JStr B1_AUTHORIZATION_STATUS) rctx) (\<lambda>_.
     bindE (expect_item rule ''decision'' (JStr B1_AUTHORIZATION_DECISION) rctx) (\<lambda>_.
     bindE (expect_item rule ''validity_precondition''
              (JStr B1_AUTHORIZATION_VALIDITY_PRECONDITION) rctx) (\<lambda>_.
     bindE (parse_string_tuple rule ''diagnostic_check_ids'' rctx) (\<lambda>diagnostic_ids.
     bindE (parse_string_tuple rule ''valid_mandatory_check_ids'' rctx) (\<lambda>valid_mandatory_ids.
     bindE (validate_b1_authorization_check_sets diagnostic_ids valid_mandatory_ids rctx) (\<lambda>_.
     bindE (expect (str_arr diagnostic_ids) (str_arr B1_DIAGNOSTIC_OBJECTIVE_CHECK_IDS)
              (dot rctx ''diagnostic_check_ids'')) (\<lambda>_.
     bindE (expect (str_arr valid_mandatory_ids) (str_arr B1_VALID_MANDATORY_OBJECTIVE_CHECK_IDS)
              (dot rctx ''valid_mandatory_check_ids'')) (\<lambda>_.
     bindE (expect_item rule ''raw_run_ids'' (str_arr B1_RAW_RUN_IDS) rctx) (\<lambda>_.
     bindE (parse_historical_paths rule rctx) (\<lambda>_.
     Inr (diagnostic_ids, valid_mandatory_ids)))))))))))))"

definition parse_accepted_evidence :: "obj \<Rightarrow> string \<Rightarrow> unit res" where
  "parse_accepted_evidence trusted tctx =
     bindE (item as_object trusted ''accepted_evidence'' tctx) (\<lambda>accepted.
     let actx = dot tctx ''accepted_evidence'' in
     bindE (exact_fields accepted
              [''manifest_sha256'', ''manifest_integrity'', ''tree_digest'', ''raw_run_sha256''] actx) (\<lambda>_.
     bindE (eachE (\<lambda>(field, expected). expect_as as_sha256 JStr accepted field (JStr expected) actx)
              [(''manifest_sha256'', TRUSTED_B0_ACQUISITION_MANIFEST_SHA256),
               (''manifest_integrity'', TRUSTED_B0_ACQUISITION_MANIFEST_INTEGRITY),
               (''tree_digest'', TRUSTED_B0_ACQUISITION_TREE_DIGEST)]) (\<lambda>_.
     bindE (item as_object accepted ''raw_run_sha256'' actx) (\<lambda>raw_run_hashes.
     let rctx = dot actx ''raw_run_sha256'' in
     bindE (exact_fields raw_run_hashes B1_RAW_RUN_IDS rctx) (\<lambda>_.
     bindE (sha256_fields raw_run_hashes B1_RAW_RUN_IDS rctx) (\<lambda>normalized_raw_run_hashes.
     expect (str_obj normalized_raw_run_hashes) (str_obj TRUSTED_B0_RAW_RUN_SHA256) rctx))))))"

definition parse_trusted_acquisition :: "obj \<Rightarrow> string \<Rightarrow> unit res" where
  "parse_trusted_acquisition rejection ctx =
     bindE (item as_object rejection ''trusted_acquisition'' ctx) (\<lambda>trusted.
     let tctx = dot ctx ''trusted_acquisition'' in
     bindE (exact_fields trusted
              [''schema'', ''accepted_evidence'', ''producer'', ''python_source_sha256''] tctx) (\<lambda>_.
     bindE (expect_item trusted ''schema'' (JStr TRUSTED_B0_ACQUISITION_SCHEMA) tctx) (\<lambda>_.
     bindE (parse_accepted_evidence trusted tctx) (\<lambda>_.
     bindE (item as_object trusted ''producer'' tctx) (\<lambda>producer.
     let pctx = dot tctx ''producer'' in
     bindE (exact_fields producer [''path'', ''sha256''] pctx) (\<lambda>_.
     bindE (item as_string producer ''path'' pctx) (\<lambda>path.
     bindE (item as_sha256 producer ''sha256'' pctx) (\<lambda>sha256.
     bindE (expect (str_obj [(''path'', path), (''sha256'', sha256)]) (str_obj TRUSTED_B0_PRODUCER) pctx) (\<lambda>_.
     bindE (item as_object trusted ''python_source_sha256'' tctx) (\<lambda>raw_source_hashes.
     let sctx = dot tctx ''python_source_sha256'' in
     bindE (exact_fields raw_source_hashes (keys TRUSTED_B0_PYTHON_SOURCE_SHA256) sctx) (\<lambda>_.
     bindE (sha256_fields raw_source_hashes (keys TRUSTED_B0_PYTHON_SOURCE_SHA256) sctx) (\<lambda>source_hashes.
     expect (str_obj source_hashes) (str_obj TRUSTED_B0_PYTHON_SOURCE_SHA256) sctx))))))))))))"

definition parse_early_rejection ::
  "obj \<Rightarrow> string \<Rightarrow> (string list \<times> string list) res" where
  "parse_early_rejection document context =
     bindE (item as_object document ''b0_early_rejection'' context) (\<lambda>rejection.
     let ctx = dot context ''b0_early_rejection'' in
     bindE (exact_fields rejection
              [''authorization_schema'', ''authorization_scope'', ''hazkey_dictionary_fingerprint'',
               ''authorization_rule'', ''trusted_acquisition''] ctx) (\<lambda>_.
     bindE (expect_item rejection ''authorization_schema'' (JStr B1_AUTHORIZATION_SCHEMA) ctx) (\<lambda>_.
     bindE (expect_item rejection ''authorization_scope'' (JStr B1_AUTHORIZATION_SCOPE) ctx) (\<lambda>_.
     bindE (expect_as as_sha256 JStr rejection ''hazkey_dictionary_fingerprint''
              (JStr HAZKEY_DICTIONARY_FINGERPRINT) ctx) (\<lambda>_.
     bindE (parse_authorization_rule rejection ctx) (\<lambda>ids.
     bindE (parse_trusted_acquisition rejection ctx) (\<lambda>_.
     Inr ids)))))))"

section \<open>Gates\<close>

definition parse_human_gate :: "obj \<Rightarrow> string \<Rightarrow> unit res" where
  "parse_human_gate gates gctx =
     bindE (item as_object gates ''human_net_preference'' gctx) (\<lambda>human.
     let hctx = dot gctx ''human_net_preference'' in
     bindE (exact_fields human
              [''scope'', ''comparison_backend'', ''denominator_cases'', ''minimum_basis_points'',
               ''minimum_net_cases''] hctx) (\<lambda>_.
     bindE (expect_item human ''scope'' (JStr ''quality_categories'') hctx) (\<lambda>_.
     bindE (expect_item human ''comparison_backend'' (JStr ''hazkey'') hctx) (\<lambda>_.
     bindE (expect_item human ''denominator_cases'' (JInt QUALITY_CASES) hctx) (\<lambda>_.
     bindE (expect_item human ''minimum_basis_points'' (JInt (- 300)) hctx) (\<lambda>_.
     bindE (expect_item human ''minimum_net_cases'' (JInt (- 37)) hctx) (\<lambda>_.
     bindE (get_item human ''minimum_basis_points'') (\<lambda>basis_points.
     bindE (times_cases basis_points QUALITY_CASES) (\<lambda>product.
     bindE (ceil_fraction_number product 10000) (\<lambda>boundary.
     bindE (get_item human ''minimum_net_cases'') (\<lambda>net_cases.
     expect boundary net_cases (hctx @ '' integer boundary''))))))))))))"

definition delta_gate :: "obj \<Rightarrow> string \<Rightarrow> string \<Rightarrow> int \<Rightarrow> int \<Rightarrow> unit res" where
  "delta_gate gates gctx name basis_points minimum_hits =
     bindE (item as_object gates name gctx) (\<lambda>payload.
     let ctx = dot gctx name in
     bindE (exact_fields payload
              [''scope'', ''comparison_backend'', ''minimum_delta_basis_points'', ''minimum_delta_hits'']
              ctx) (\<lambda>_.
     bindE (expect_item payload ''scope'' (JStr ''quality_categories'') ctx) (\<lambda>_.
     bindE (expect_item payload ''comparison_backend'' (JStr ''hazkey'') ctx) (\<lambda>_.
     bindE (expect_item payload ''minimum_delta_basis_points'' (JInt basis_points) ctx) (\<lambda>_.
     bindE (expect_item payload ''minimum_delta_hits'' (JInt minimum_hits) ctx) (\<lambda>_.
     bindE (ceil_fraction (basis_points * QUALITY_CASES) 10000) (\<lambda>boundary.
     expect (JInt boundary) (JInt minimum_hits) (ctx @ '' integer boundary''))))))))"

definition parse_category_gate :: "obj \<Rightarrow> string \<Rightarrow> unit res" where
  "parse_category_gate gates gctx =
     bindE (item as_object gates ''per_category_top1'' gctx) (\<lambda>category_gate.
     let ctx = dot gctx ''per_category_top1'' in
     bindE (exact_fields category_gate
              [''scope'', ''comparison_backend'', ''minimum_delta_basis_points'', ''minimum_delta_hits'']
              ctx) (\<lambda>_.
     bindE (expect_item category_gate ''scope'' (JStr ''quality_categories'') ctx) (\<lambda>_.
     bindE (expect_item category_gate ''comparison_backend'' (JStr ''hazkey'') ctx) (\<lambda>_.
     bindE (expect_item category_gate ''minimum_delta_basis_points'' (JInt (- 1000)) ctx) (\<lambda>_.
     bindE (expect_item category_gate ''minimum_delta_hits'' (int_obj CATEGORY_MINIMUM_DELTA_HITS) ctx) (\<lambda>_.
     eachE (\<lambda>(category, cases).
        bindE (ceil_fraction (- 1000 * cases) 10000) (\<lambda>boundary.
        case map_of CATEGORY_MINIMUM_DELTA_HITS category of
          None \<Rightarrow> Inl (KeyError category)
        | Some minimum \<Rightarrow>
            expect (JInt boundary) (JInt minimum) (ctx @ '' integer boundary '' @ category)))
       QUALITY_CATEGORIES))))))"

definition ratio_gate :: "obj \<Rightarrow> string \<Rightarrow> string \<Rightarrow> int \<Rightarrow> unit res" where
  "ratio_gate gates gctx name expected =
     bindE (item as_object gates name gctx) (\<lambda>payload.
     let ctx = dot gctx name in
     bindE (exact_fields payload [''comparison_backend'', ''maximum_ratio_basis_points''] ctx) (\<lambda>_.
     bindE (expect_item payload ''comparison_backend'' (JStr ''hazkey'') ctx) (\<lambda>_.
     expect_item payload ''maximum_ratio_basis_points'' (JInt expected) ctx)))"

definition both_bad_contract :: json where
  "both_bad_contract =
     JObj [(''scope'', JStr ''quality_categories''), (''maximum_cases'', JInt 59)]"

definition parse_both_bad_gate :: "obj \<Rightarrow> string \<Rightarrow> unit res" where
  "parse_both_bad_gate gates gctx =
     bindE (item as_object gates ''both_bad'' gctx) (\<lambda>both_bad.
     bindE (exact_fields both_bad [''scope'', ''maximum_cases''] (dot gctx ''both_bad'')) (\<lambda>_.
     expect (JObj both_bad) both_bad_contract (dot gctx ''both_bad'')))"

definition parse_stability_gate :: "obj \<Rightarrow> string \<Rightarrow> unit res" where
  "parse_stability_gate gates gctx =
     bindE (item as_object gates ''long_running_stability'' gctx) (\<lambda>stability.
     let ctx = dot gctx ''long_running_stability'' in
     bindE (exact_fields stability [''required_result'', ''required_check_ids''] ctx) (\<lambda>_.
     bindE (expect_item stability ''required_result'' (JStr ''all_pass'') ctx) (\<lambda>_.
     expect_item stability ''required_check_ids'' (str_arr REQUIRED_STABILITY_IDS) ctx)))"

definition parse_gates :: "obj \<Rightarrow> string \<Rightarrow> unit res" where
  "parse_gates document context =
     bindE (item as_object document ''gates'' context) (\<lambda>gates.
     let gctx = dot context ''gates'' in
     bindE (exact_fields gates
              [''human_net_preference'', ''top1'', ''top10'', ''per_category_top1'', ''protected'',
               ''both_bad'', ''warm_latency_p95'', ''pss'', ''long_running_stability''] gctx) (\<lambda>_.
     bindE (parse_human_gate gates gctx) (\<lambda>_.
     bindE (delta_gate gates gctx ''top1'' (- 800) (- 100)) (\<lambda>_.
     bindE (delta_gate gates gctx ''top10'' (- 1200) (- 151)) (\<lambda>_.
     bindE (parse_category_gate gates gctx) (\<lambda>_.
     bindE (item as_object gates ''protected'' gctx) (\<lambda>protected_gate.
     bindE (expect_typed_contract (JObj protected_gate) protected_gate_contract
              (dot gctx ''protected'')) (\<lambda>_.
     bindE (parse_both_bad_gate gates gctx) (\<lambda>_.
     bindE (ratio_gate gates gctx ''warm_latency_p95'' 5000) (\<lambda>_.
     bindE (ratio_gate gates gctx ''pss'' 12500) (\<lambda>_.
     parse_stability_gate gates gctx)))))))))))"

section \<open>API contract\<close>

definition parse_api_contract :: "obj \<Rightarrow> string \<Rightarrow> unit res" where
  "parse_api_contract document context =
     bindE (item as_object document ''api_contract'' context) (\<lambda>api.
     let ctx = dot context ''api_contract'' in
     bindE (exact_fields api
              [''normalized_metrics_schema'', ''result_schema'', ''formal_evidence_status'',
               ''precomputed_metrics_are_formal_evidence'', ''formal_adoption_allowed'',
               ''blocking_items''] ctx) (\<lambda>_.
     bindE (expect_item api ''normalized_metrics_schema'' (JStr METRICS_SCHEMA) ctx) (\<lambda>_.
     bindE (expect_item api ''result_schema'' (JStr RESULT_SCHEMA) ctx) (\<lambda>_.
     bindE (expect_item api ''formal_evidence_status'' (JStr FORMAL_EVIDENCE_STATUS) ctx) (\<lambda>_.
     bindE (expect_as as_boolean JBool api ''precomputed_metrics_are_formal_evidence'' (JBool False) ctx) (\<lambda>_.
     bindE (expect_as as_boolean JBool api ''formal_adoption_allowed''
              (JBool FORMAL_ADOPTION_ALLOWED) ctx) (\<lambda>_.
     expect_item api ''blocking_items'' (str_arr BLOCKING_ITEMS) ctx)))))))"

section \<open>The whole document\<close>

definition sealed_gate :: GatePolicy where
  "sealed_gate = \<lparr>
     total_cases = TOTAL_CASES,
     quality_cases = QUALITY_CASES,
     quality_categories = QUALITY_CATEGORIES,
     all_categories = ALL_CATEGORIES,
     minimum_human_basis_points = - 300,
     minimum_human_net_cases = - 37,
     minimum_top1_basis_points = - 800,
     minimum_top1_delta_hits = - 100,
     minimum_top10_basis_points = - 1200,
     minimum_top10_delta_hits = - 151,
     minimum_category_basis_points = - 1000,
     minimum_category_delta_hits = CATEGORY_MINIMUM_DELTA_HITS,
     legacy_protected_required = PROTECTED_CASES,
     maximum_both_bad = 59,
     maximum_latency_ratio_basis_points = 5000,
     maximum_pss_ratio_basis_points = 12500,
     required_stability_ids = REQUIRED_STABILITY_IDS\<rparr>"

definition make_policy ::
  "string \<Rightarrow> (string \<times> string) list \<Rightarrow> string list \<Rightarrow> string list \<Rightarrow> ParsedPolicy" where
  "make_policy document_sha256 fingerprints diagnostic_ids valid_mandatory_ids = \<lparr>
     gate = sealed_gate,
     policy_id = POLICY_ID,
     policy_sha256 = document_sha256,
     manifest_path = expected_manifest_path,
     manifest_sha256 = MANIFEST_SHA256,
     corpus_path = expected_corpus_path,
     corpus_sha256 = CORPUS_SHA256,
     source_policy_path = expected_source_policy_path,
     source_policy_sha256 = SOURCE_POLICY_SHA256,
     candidate_resource_fingerprints = fingerprints,
     formal_evidence_status = FORMAL_EVIDENCE_STATUS,
     formal_adoption_allowed = FORMAL_ADOPTION_ALLOWED,
     blocking_items = BLOCKING_ITEMS,
     protected_input_protocol_status = PROTECTED_INPUT_PROTOCOL_STATUS,
     protected_input_required_suite_ids = PROTECTED_INPUT_REQUIRED_SUITE_IDS,
     mixed_input_protocol_status = MIXED_INPUT_PROTOCOL_STATUS,
     b1_authorization_schema = B1_AUTHORIZATION_SCHEMA,
     b1_authorization_scope = B1_AUTHORIZATION_SCOPE,
     b1_authorization_status = B1_AUTHORIZATION_STATUS,
     hazkey_dictionary_fingerprint = HAZKEY_DICTIONARY_FINGERPRINT,
     trusted_b0_acquisition_schema = TRUSTED_B0_ACQUISITION_SCHEMA,
     trusted_b0_acquisition_manifest_sha256 = TRUSTED_B0_ACQUISITION_MANIFEST_SHA256,
     trusted_b0_acquisition_manifest_integrity = TRUSTED_B0_ACQUISITION_MANIFEST_INTEGRITY,
     trusted_b0_acquisition_tree_digest = TRUSTED_B0_ACQUISITION_TREE_DIGEST,
     trusted_b0_raw_run_sha256 = TRUSTED_B0_RAW_RUN_SHA256,
     trusted_b0_producer = TRUSTED_B0_PRODUCER,
     trusted_b0_python_source_sha256 = TRUSTED_B0_PYTHON_SOURCE_SHA256,
     b1_authorization_decision = B1_AUTHORIZATION_DECISION,
     b1_authorization_validity_precondition = B1_AUTHORIZATION_VALIDITY_PRECONDITION,
     b1_diagnostic_objective_check_ids = diagnostic_ids,
     b1_valid_mandatory_check_ids = valid_mandatory_ids,
     b1_raw_run_ids = B1_RAW_RUN_IDS,
     b1_historical_temporary_basename_pattern = B1_HISTORICAL_TEMPORARY_BASENAME_PATTERN,
     b1_raw_resource_suffixes = B1_RAW_RESOURCE_SUFFIXES\<rparr>"

text \<open>
  \<open>parse_policy\<close> after its document has been loaded; \<open>document_sha256\<close> is the digest of
  the bytes it was loaded from.
\<close>

definition policy_sections :: "string list" where
  "policy_sections =
     [''schema'', ''policy_id'', ''decision_tier'', ''corpus_binding'', ''candidate_artifacts'',
      ''protected_input_protocol'', ''mixed_input_protocol'', ''candidate_sequence'',
      ''b0_early_rejection'', ''gates'', ''api_contract'']"

definition parse_policy_root :: "json \<Rightarrow> string \<Rightarrow> string \<Rightarrow> ParsedPolicy res" where
  "parse_policy_root loaded context document_sha256 =
     bindE (as_object loaded context) (\<lambda>document.
     bindE (exact_fields document policy_sections context) (\<lambda>_.
     bindE (expect_item document ''schema'' (JStr POLICY_SCHEMA) context) (\<lambda>_.
     bindE (expect_item document ''policy_id'' (JStr POLICY_ID) context) (\<lambda>_.
     bindE (expect_item document ''decision_tier'' (JStr DECISION_TIER) context) (\<lambda>_.
     bindE (parse_corpus_binding document context) (\<lambda>_.
     bindE (parse_protected_protocol document context) (\<lambda>_.
     bindE (parse_mixed_protocol document context) (\<lambda>_.
     bindE (parse_candidate_artifacts document context) (\<lambda>fingerprints.
     bindE (parse_candidate_sequence document context) (\<lambda>_.
     bindE (parse_early_rejection document context) (\<lambda>(diagnostic_ids, valid_mandatory_ids).
     bindE (parse_gates document context) (\<lambda>_.
     bindE (parse_api_contract document context) (\<lambda>_.
     Inr (make_policy document_sha256 fingerprints diagnostic_ids valid_mandatory_ids))))))))))))))"

end
