(* ===== verification/Sealed_Policy.thy ===== *)
theory Sealed_Policy
  imports Gate_Policy
begin

text \<open>
  The one document that \<open>parse_policy\<close> accepts.  \<open>sealed_policy_document\<close> is the policy
  shipped as \<open>Fixtures/mozc-adoption-v2/formal-gate-policy.json\<close>, written section by section
  over the constants of \<^theory_text>\<open>Gate_Contract\<close>; the lemmas show, section by section, that a
  section that passes equals the sealed one under Python's \<open>==\<close>.
\<close>

section \<open>The sealed document\<close>

definition sealed_corpus_binding :: json where
  "sealed_corpus_binding =
     JObj [
       (''generation'', JStr GENERATION),
       (''manifest'', JObj [
         (''schema'', JStr CORPUS_MANIFEST_SCHEMA),
         (''path'', JStr expected_manifest_path),
         (''sha256'', JStr MANIFEST_SHA256)]),
       (''aggregate'', JObj [
         (''path'', JStr expected_corpus_path),
         (''sha256'', JStr CORPUS_SHA256),
         (''total_cases'', JInt TOTAL_CASES),
         (''quality_cases'', JInt QUALITY_CASES)]),
       (''source_policy'', JObj [
         (''path'', JStr expected_source_policy_path),
         (''sha256'', JStr SOURCE_POLICY_SHA256)]),
       (''quality_categories'', int_obj QUALITY_CATEGORIES),
       (''protected'', JObj [
         (''category'', JStr PROTECTED_CATEGORY),
         (''cases'', JInt PROTECTED_CASES),
         (''included_in_quality'', JBool False)]),
       (''pilot_v1_counted'', JBool False)]"

definition sealed_candidate_artifacts :: json where
  "sealed_candidate_artifacts =
     JObj [
       (''source'', JStr ''corpus_binding.source_policy.artifact_freezes''),
       (''eligible_candidate_ids'', str_arr [''B0'', ''B1'']),
       (''runtime_resource_fingerprints'', str_obj RUNTIME_RESOURCE_FINGERPRINTS)]"

definition sealed_protected_protocol :: json where
  "sealed_protected_protocol =
     JObj [
       (''status'', JStr PROTECTED_INPUT_PROTOCOL_STATUS),
       (''legacy_abprobe_full_string_direct'', legacy_probe_contract),
       (''required_suites'', required_suites_contract),
       (''completion_rule'', JStr ''all-required-suites-reviewed-and-passed''),
       (''superseded_evidence'', superseded_evidence_contract)]"

definition sealed_candidate_sequence :: json where
  "sealed_candidate_sequence =
     JObj [
       (''evaluate_first'', JStr ''B0''),
       (''evaluate_B1_only_if_B0_result'', JStr ''verified_raw_early_formal_fail''),
       (''B1_prior_result_binding'', str_arr B1_PRIOR_RESULT_BINDING),
       (''B2_eligible'', JBool False),
       (''post_disclosure_new_candidate_policy'', JStr ''new_holdout_required'')]"

definition sealed_historical_paths :: json where
  "sealed_historical_paths =
     JObj [
       (''shared_temporary_root_required'', JBool True),
       (''temporary_basename_pattern'', JStr B1_HISTORICAL_TEMPORARY_BASENAME_PATTERN),
       (''resolve_or_open_historical_path'', JBool False),
       (''exact_suffixes'', str_obj B1_RAW_RESOURCE_SUFFIXES)]"

definition sealed_authorization_rule :: json where
  "sealed_authorization_rule =
     JObj [
       (''status'', JStr B1_AUTHORIZATION_STATUS),
       (''decision'', JStr B1_AUTHORIZATION_DECISION),
       (''validity_precondition'', JStr B1_AUTHORIZATION_VALIDITY_PRECONDITION),
       (''diagnostic_check_ids'', str_arr B1_DIAGNOSTIC_OBJECTIVE_CHECK_IDS),
       (''valid_mandatory_check_ids'', str_arr B1_VALID_MANDATORY_OBJECTIVE_CHECK_IDS),
       (''raw_run_ids'', str_arr B1_RAW_RUN_IDS),
       (''historical_resource_paths'', sealed_historical_paths)]"

definition sealed_accepted_evidence :: json where
  "sealed_accepted_evidence =
     JObj [
       (''manifest_sha256'', JStr TRUSTED_B0_ACQUISITION_MANIFEST_SHA256),
       (''manifest_integrity'', JStr TRUSTED_B0_ACQUISITION_MANIFEST_INTEGRITY),
       (''tree_digest'', JStr TRUSTED_B0_ACQUISITION_TREE_DIGEST),
       (''raw_run_sha256'', str_obj TRUSTED_B0_RAW_RUN_SHA256)]"

definition sealed_trusted_acquisition :: json where
  "sealed_trusted_acquisition =
     JObj [
       (''schema'', JStr TRUSTED_B0_ACQUISITION_SCHEMA),
       (''accepted_evidence'', sealed_accepted_evidence),
       (''producer'', str_obj TRUSTED_B0_PRODUCER),
       (''python_source_sha256'', str_obj TRUSTED_B0_PYTHON_SOURCE_SHA256)]"

definition sealed_early_rejection :: json where
  "sealed_early_rejection =
     JObj [
       (''authorization_schema'', JStr B1_AUTHORIZATION_SCHEMA),
       (''authorization_scope'', JStr B1_AUTHORIZATION_SCOPE),
       (''hazkey_dictionary_fingerprint'', JStr HAZKEY_DICTIONARY_FINGERPRINT),
       (''authorization_rule'', sealed_authorization_rule),
       (''trusted_acquisition'', sealed_trusted_acquisition)]"

definition sealed_delta_gate :: "int \<Rightarrow> int \<Rightarrow> json" where
  "sealed_delta_gate basis_points minimum_hits =
     JObj [
       (''scope'', JStr ''quality_categories''),
       (''comparison_backend'', JStr ''hazkey''),
       (''minimum_delta_basis_points'', JInt basis_points),
       (''minimum_delta_hits'', JInt minimum_hits)]"

definition sealed_ratio_gate :: "int \<Rightarrow> json" where
  "sealed_ratio_gate maximum =
     JObj [
       (''comparison_backend'', JStr ''hazkey''),
       (''maximum_ratio_basis_points'', JInt maximum)]"

definition sealed_human_gate :: json where
  "sealed_human_gate =
     JObj [
       (''scope'', JStr ''quality_categories''),
       (''comparison_backend'', JStr ''hazkey''),
       (''denominator_cases'', JInt QUALITY_CASES),
       (''minimum_basis_points'', JInt (- 300)),
       (''minimum_net_cases'', JInt (- 37))]"

definition sealed_category_gate :: json where
  "sealed_category_gate =
     JObj [
       (''scope'', JStr ''quality_categories''),
       (''comparison_backend'', JStr ''hazkey''),
       (''minimum_delta_basis_points'', JInt (- 1000)),
       (''minimum_delta_hits'', int_obj CATEGORY_MINIMUM_DELTA_HITS)]"

definition sealed_stability_gate :: json where
  "sealed_stability_gate =
     JObj [
       (''required_result'', JStr ''all_pass''),
       (''required_check_ids'', str_arr REQUIRED_STABILITY_IDS)]"

definition sealed_gates :: json where
  "sealed_gates =
     JObj [
       (''human_net_preference'', sealed_human_gate),
       (''top1'', sealed_delta_gate (- 800) (- 100)),
       (''top10'', sealed_delta_gate (- 1200) (- 151)),
       (''per_category_top1'', sealed_category_gate),
       (''protected'', protected_gate_contract),
       (''both_bad'', both_bad_contract),
       (''warm_latency_p95'', sealed_ratio_gate 5000),
       (''pss'', sealed_ratio_gate 12500),
       (''long_running_stability'', sealed_stability_gate)]"

definition sealed_api_contract :: json where
  "sealed_api_contract =
     JObj [
       (''normalized_metrics_schema'', JStr METRICS_SCHEMA),
       (''result_schema'', JStr RESULT_SCHEMA),
       (''formal_evidence_status'', JStr FORMAL_EVIDENCE_STATUS),
       (''precomputed_metrics_are_formal_evidence'', JBool False),
       (''formal_adoption_allowed'', JBool FORMAL_ADOPTION_ALLOWED),
       (''blocking_items'', str_arr BLOCKING_ITEMS)]"

definition sealed_policy_document :: json where
  "sealed_policy_document =
     JObj [
       (''schema'', JStr POLICY_SCHEMA),
       (''policy_id'', JStr POLICY_ID),
       (''decision_tier'', JStr DECISION_TIER),
       (''corpus_binding'', sealed_corpus_binding),
       (''candidate_artifacts'', sealed_candidate_artifacts),
       (''protected_input_protocol'', sealed_protected_protocol),
       (''mixed_input_protocol'', mixed_protocol_contract),
       (''candidate_sequence'', sealed_candidate_sequence),
       (''b0_early_rejection'', sealed_early_rejection),
       (''gates'', sealed_gates),
       (''api_contract'', sealed_api_contract)]"

definition sealed_policy :: "string \<Rightarrow> ParsedPolicy" where
  "sealed_policy document_sha256 =
     make_policy document_sha256 RUNTIME_RESOURCE_FINGERPRINTS
       B1_DIAGNOSTIC_OBJECTIVE_CHECK_IDS B1_VALID_MANDATORY_OBJECTIVE_CHECK_IDS"

section \<open>Helpers\<close>

text \<open>\<open>holds d k e\<close>: the document has a field \<open>k\<close> that equals \<open>e\<close>.\<close>

definition holds :: "obj \<Rightarrow> string \<Rightarrow> json \<Rightarrow> bool" where
  "holds d k e \<longleftrightarrow> (\<exists>v. map_of d k = Some v \<and> pyeq v e)"

lemma pyeq_str_arr [simp]: "pyeq (str_arr xs) (str_arr ys) \<longleftrightarrow> xs = ys"
proof -
  have "list_all2 pyeq (map JStr xs) (map JStr ys) \<longleftrightarrow> xs = ys"
    by (simp add: list_all2_map1 list_all2_map2 list.rel_eq)
  then show ?thesis by (simp add: str_arr_def pyeq_JArr)
qed

lemma map_of_str_obj: "map_of (map (\<lambda>(k, s). (k, JStr s)) d) k = map_option JStr (map_of d k)"
  by (induction d) auto

lemma keys_str_obj [simp]: "keys (map (\<lambda>(k, s). (k, JStr s)) d) = keys d"
  by (induction d) auto

lemma dict_ext:
  "distinct (keys a) \<Longrightarrow> keys a = keys b \<Longrightarrow> \<forall>k \<in> set (keys a). map_of a k = map_of b k \<Longrightarrow> a = b"
proof (induction a arbitrary: b)
  case (Cons kv a)
  then obtain kv' b' where b: "b = kv' # b'" and k: "fst kv = fst kv'" "keys a = keys b'"
    by (cases b) auto
  have "snd kv = snd kv'" using Cons.prems(3) b k by (cases kv; cases kv') auto
  moreover have "\<forall>k \<in> set (keys a). map_of a k = map_of b' k"
    using Cons.prems(1,3) b k by (cases kv; cases kv') (auto split: if_splits)
  then have "a = b'" using Cons.IH [of b'] Cons.prems(1) k by simp
  ultimately show ?case using b k by (simp add: prod_eq_iff)
qed (simp add: keys_def)

lemma sha256_fields_success:
  "sha256_fields raw ids ctx = Inr fs \<Longrightarrow>
     keys fs = ids \<and> (\<forall>(k, s) \<in> set fs. map_of raw k = Some (JStr s))"
  by (induction ids arbitrary: fs) (auto simp: sha256_fields_def)

lemma sha256_fields_expect:
  assumes "sha256_fields raw ids ctx = Inr fs" and "pyeq (str_obj fs) (str_obj C)"
    and "set (keys raw) = set ids" and "keys C = ids" and "distinct ids"
  shows "fs = C" and "pyeq (JObj raw) (str_obj C)"
proof -
  have ks: "keys fs = ids" and raw: "\<forall>(k, s) \<in> set fs. map_of raw k = Some (JStr s)"
    using sha256_fields_success [OF assms(1)] by auto
  have eq: "map_of fs k = Some s" if "(k, s) \<in> set C" for k s
    using assms(2) that by (fastforce simp: str_obj_def pyeq_JObj map_of_str_obj)
  have "map_of fs k = map_of C k" if k: "k \<in> set (keys fs)" for k
  proof -
    obtain s where s: "map_of C k = Some s"
      using k ks assms(4) by (metis keys_map_of_obtain)
    then show ?thesis using eq [OF map_of_SomeD [OF s]] by simp
  qed
  then show fC: "fs = C" using ks assms(4,5) by (intro dict_ext) auto
  show "pyeq (JObj raw) (str_obj C)"
    using raw assms(3,4) by (fastforce simp: fC str_obj_def pyeq_JObj)
qed

lemma parse_string_tuple_success:
  assumes "parse_string_tuple d k ctx = Inr ss"
  shows "map_of d k = Some (str_arr ss)"
proof -
  from assms obtain vs where v: "map_of d k = Some (JArr vs)"
    and all: "mapiE (\<lambda>index value. as_string value (at_index (dot ctx k) index)) 0 vs = Inr ss"
    by (auto simp: parse_string_tuple_def)
  from all have "vs = map JStr ss"
    by (intro nth_equalityI) (auto simp: mapiE_Inr_iff)
  with v show ?thesis by (simp add: str_arr_def)
qed

lemma contract_literals:
  "contract_literal legacy_probe_contract" "contract_literal required_suites_contract"
  "contract_literal superseded_evidence_contract" "contract_literal mixed_protocol_contract"
  "contract_literal protected_gate_contract"
  by code_simp+

lemma frozen_contract_pyeq:
  "contract_literal e \<Longrightarrow> expect_typed_contract v e ctx = Inr u \<Longrightarrow> pyeq v e"
  using expect_typed_iff(1) typed_eq_pyeq by blast

section \<open>Soundness, section by section\<close>

lemma parse_corpus_binding_sound:
  "parse_corpus_binding d ctx = Inr u \<Longrightarrow> holds d ''corpus_binding'' sealed_corpus_binding"
  unfolding parse_corpus_binding_def sealed_corpus_binding_def holds_def Let_def
  by (simp add: pyeq_JObj, elim exE conjE, simp add: pyeq_JObj)

lemma parse_protected_protocol_sound:
  "parse_protected_protocol d ctx = Inr u \<Longrightarrow>
     holds d ''protected_input_protocol'' sealed_protected_protocol"
  unfolding parse_protected_protocol_def sealed_protected_protocol_def holds_def Let_def
  by (simp, elim exE conjE, simp add: pyeq_JObj)
    (blast intro: frozen_contract_pyeq contract_literals)

lemma parse_mixed_protocol_sound:
  "parse_mixed_protocol d ctx = Inr u \<Longrightarrow> holds d ''mixed_input_protocol'' mixed_protocol_contract"
  unfolding parse_mixed_protocol_def holds_def
  by (auto intro: frozen_contract_pyeq contract_literals)

lemma parse_candidate_artifacts_sound:
  "parse_candidate_artifacts d ctx = Inr fs \<Longrightarrow>
     holds d ''candidate_artifacts'' sealed_candidate_artifacts \<and> fs = RUNTIME_RESOURCE_FINGERPRINTS"
proof -
  assume "parse_candidate_artifacts d ctx = Inr fs"
  then obtain a raw v fctx where a: "map_of d ''candidate_artifacts'' = Some (JObj a)"
    "set (keys a) = {''source'', ''eligible_candidate_ids'', ''runtime_resource_fingerprints''}"
    "map_of a ''source'' = Some (JStr ''corpus_binding.source_policy.artifact_freezes'')"
    "map_of a ''eligible_candidate_ids'' = Some v" "pyeq v (str_arr [''B0'', ''B1''])"
    "map_of a ''runtime_resource_fingerprints'' = Some (JObj raw)"
    and raw: "set (keys raw) = set [''B0'', ''B1'']"
    "sha256_fields raw [''B0'', ''B1''] fctx = Inr fs"
    "pyeq (str_obj fs) (str_obj RUNTIME_RESOURCE_FINGERPRINTS)"
    unfolding parse_candidate_artifacts_def Let_def by (simp, elim exE conjE, simp)
  note fps = sha256_fields_expect [OF raw(2,3,1)]
  have "fs = RUNTIME_RESOURCE_FINGERPRINTS" "pyeq (JObj raw) (str_obj RUNTIME_RESOURCE_FINGERPRINTS)"
    by (rule fps; simp add: RUNTIME_RESOURCE_FINGERPRINTS_def)+
  with a show ?thesis by (simp add: holds_def sealed_candidate_artifacts_def pyeq_JObj)
qed

lemma parse_candidate_sequence_sound:
  "parse_candidate_sequence d ctx = Inr u \<Longrightarrow>
     holds d ''candidate_sequence'' sealed_candidate_sequence"
  unfolding parse_candidate_sequence_def sealed_candidate_sequence_def holds_def Let_def
  by (simp, elim exE conjE, simp add: pyeq_JObj)

lemma parse_historical_paths_sound:
  "parse_historical_paths d ctx = Inr u \<Longrightarrow>
     holds d ''historical_resource_paths'' sealed_historical_paths"
  unfolding parse_historical_paths_def sealed_historical_paths_def holds_def Let_def
  by (simp, elim exE conjE, simp add: pyeq_JObj)

lemma parse_authorization_rule_sound:
  "parse_authorization_rule d ctx = Inr ids \<Longrightarrow>
     holds d ''authorization_rule'' sealed_authorization_rule \<and>
     ids = (B1_DIAGNOSTIC_OBJECTIVE_CHECK_IDS, B1_VALID_MANDATORY_OBJECTIVE_CHECK_IDS)"
  unfolding parse_authorization_rule_def sealed_authorization_rule_def holds_def Let_def
  by (simp, elim exE conjE, drule parse_historical_paths_sound,
      (drule parse_string_tuple_success)+, unfold holds_def, elim exE conjE, simp add: pyeq_JObj)

lemma parse_accepted_evidence_sound:
  "parse_accepted_evidence d ctx = Inr u \<Longrightarrow>
     holds d ''accepted_evidence'' sealed_accepted_evidence"
proof -
  assume "parse_accepted_evidence d ctx = Inr u"
  then obtain a raw fs rctx where a: "map_of d ''accepted_evidence'' = Some (JObj a)"
    "set (keys a) = {''manifest_sha256'', ''manifest_integrity'', ''tree_digest'', ''raw_run_sha256''}"
    "map_of a ''manifest_sha256'' = Some (JStr TRUSTED_B0_ACQUISITION_MANIFEST_SHA256)"
    "map_of a ''manifest_integrity'' = Some (JStr TRUSTED_B0_ACQUISITION_MANIFEST_INTEGRITY)"
    "map_of a ''tree_digest'' = Some (JStr TRUSTED_B0_ACQUISITION_TREE_DIGEST)"
    "map_of a ''raw_run_sha256'' = Some (JObj raw)"
    and raw: "set (keys raw) = set B1_RAW_RUN_IDS" "sha256_fields raw B1_RAW_RUN_IDS rctx = Inr fs"
    "pyeq (str_obj fs) (str_obj TRUSTED_B0_RAW_RUN_SHA256)"
    unfolding parse_accepted_evidence_def Let_def by (simp, elim exE conjE, simp)
  have "pyeq (JObj raw) (str_obj TRUSTED_B0_RAW_RUN_SHA256)"
    by (rule sha256_fields_expect(2) [OF raw(2,3,1)];
        simp add: TRUSTED_B0_RAW_RUN_SHA256_def B1_RAW_RUN_IDS_def)
  with a show ?thesis by (simp add: holds_def sealed_accepted_evidence_def pyeq_JObj)
qed

lemma parse_trusted_acquisition_sound:
  "parse_trusted_acquisition d ctx = Inr u \<Longrightarrow>
     holds d ''trusted_acquisition'' sealed_trusted_acquisition"
proof -
  assume "parse_trusted_acquisition d ctx = Inr u"
  then obtain t tctx pr path sha raw fs sctx where
    t: "map_of d ''trusted_acquisition'' = Some (JObj t)"
    "set (keys t) = {''schema'', ''accepted_evidence'', ''producer'', ''python_source_sha256''}"
    "map_of t ''schema'' = Some (JStr TRUSTED_B0_ACQUISITION_SCHEMA)"
    "map_of t ''producer'' = Some (JObj pr)"
    "map_of t ''python_source_sha256'' = Some (JObj raw)"
    and acc: "parse_accepted_evidence t tctx = Inr ()"
    and pr: "set (keys pr) = {''path'', ''sha256''}" "map_of pr ''path'' = Some (JStr path)"
    "map_of pr ''sha256'' = Some (JStr sha)"
    "pyeq (str_obj [(''path'', path), (''sha256'', sha)]) (str_obj TRUSTED_B0_PRODUCER)"
    and raw: "set (keys raw) = set (keys TRUSTED_B0_PYTHON_SOURCE_SHA256)"
    "sha256_fields raw (keys TRUSTED_B0_PYTHON_SOURCE_SHA256) sctx = Inr fs"
    "pyeq (str_obj fs) (str_obj TRUSTED_B0_PYTHON_SOURCE_SHA256)"
    unfolding parse_trusted_acquisition_def Let_def by (simp, elim exE conjE, simp)
  have "pyeq (JObj raw) (str_obj TRUSTED_B0_PYTHON_SOURCE_SHA256)"
    by (rule sha256_fields_expect(2) [OF raw(2,3,1)];
        simp add: TRUSTED_B0_PYTHON_SOURCE_SHA256_def)
  moreover have "pyeq (JObj pr) (str_obj TRUSTED_B0_PRODUCER)"
    using pr by (simp add: str_obj_def TRUSTED_B0_PRODUCER_def pyeq_JObj)
  moreover note parse_accepted_evidence_sound [OF acc]
  ultimately show ?thesis using t
    by (simp add: holds_def sealed_trusted_acquisition_def pyeq_JObj)
qed

lemma parse_early_rejection_sound:
  "parse_early_rejection d ctx = Inr ids \<Longrightarrow>
     holds d ''b0_early_rejection'' sealed_early_rejection \<and>
     ids = (B1_DIAGNOSTIC_OBJECTIVE_CHECK_IDS, B1_VALID_MANDATORY_OBJECTIVE_CHECK_IDS)"
  unfolding parse_early_rejection_def sealed_early_rejection_def holds_def Let_def
  by (simp, elim exE conjE, drule parse_authorization_rule_sound,
      drule parse_trusted_acquisition_sound, unfold holds_def, elim exE conjE,
      simp add: pyeq_JObj)

lemma parse_human_gate_sound:
  "parse_human_gate d ctx = Inr u \<Longrightarrow> holds d ''human_net_preference'' sealed_human_gate"
  unfolding parse_human_gate_def sealed_human_gate_def holds_def Let_def
  by (simp, elim exE conjE, simp add: pyeq_JObj)

lemma delta_gate_sound:
  "delta_gate d ctx name b m = Inr u \<Longrightarrow> holds d name (sealed_delta_gate b m)"
  unfolding delta_gate_def sealed_delta_gate_def holds_def Let_def
  by (simp, elim exE conjE, simp add: pyeq_JObj)

lemma parse_category_gate_sound:
  "parse_category_gate d ctx = Inr u \<Longrightarrow> holds d ''per_category_top1'' sealed_category_gate"
  unfolding parse_category_gate_def sealed_category_gate_def holds_def Let_def
  by (simp, elim exE conjE, simp add: pyeq_JObj)

lemma ratio_gate_sound:
  "ratio_gate d ctx name m = Inr u \<Longrightarrow> holds d name (sealed_ratio_gate m)"
  unfolding ratio_gate_def sealed_ratio_gate_def holds_def Let_def
  by (simp, elim exE conjE, simp add: pyeq_JObj)

lemma parse_both_bad_gate_sound:
  "parse_both_bad_gate d ctx = Inr u \<Longrightarrow> holds d ''both_bad'' both_bad_contract"
  by (auto simp: parse_both_bad_gate_def holds_def)

lemma parse_stability_gate_sound:
  "parse_stability_gate d ctx = Inr u \<Longrightarrow> holds d ''long_running_stability'' sealed_stability_gate"
  unfolding parse_stability_gate_def sealed_stability_gate_def holds_def Let_def
  by (simp, elim exE conjE, simp add: pyeq_JObj)

lemma parse_gates_sound:
  "parse_gates d ctx = Inr u \<Longrightarrow> holds d ''gates'' sealed_gates"
  unfolding parse_gates_def sealed_gates_def Let_def
  by (simp, elim exE conjE, drule parse_human_gate_sound, (drule delta_gate_sound)+,
      drule parse_category_gate_sound, drule frozen_contract_pyeq [OF contract_literals(5)],
      drule parse_both_bad_gate_sound, (drule ratio_gate_sound)+,
      drule parse_stability_gate_sound, unfold holds_def, elim exE conjE, simp add: pyeq_JObj)

lemma parse_api_contract_sound:
  "parse_api_contract d ctx = Inr u \<Longrightarrow> holds d ''api_contract'' sealed_api_contract"
  unfolding parse_api_contract_def sealed_api_contract_def holds_def Let_def
  by (simp, elim exE conjE, simp add: pyeq_JObj)

lemma parse_policy_root_sound:
  "parse_policy_root v ctx sha = Inr p \<Longrightarrow>
     pyeq v sealed_policy_document \<and> p = sealed_policy sha"
  unfolding parse_policy_root_def sealed_policy_document_def sealed_policy_def policy_sections_def
  by (simp split: prod.splits, elim exE conjE, drule parse_corpus_binding_sound,
      drule parse_protected_protocol_sound, drule parse_mixed_protocol_sound,
      drule parse_candidate_artifacts_sound, drule parse_candidate_sequence_sound,
      drule parse_early_rejection_sound, drule parse_gates_sound, drule parse_api_contract_sound,
      unfold holds_def, elim exE conjE, simp add: pyeq_JObj)

end
