(* ===== verification/Gate_Metrics.thy ===== *)
theory Gate_Metrics
  imports Gate_Policy
begin

text \<open>
  \<open>_normalize_metrics\<close> of \<open>evaluate_mozc_adoption_v2_gate.py\<close>: a strict reader of the
  metrics object under a parsed policy.  The Python dictionary that it returns is the record
  \<open>NormMetrics\<close>; \<open>metrics_json\<close> is the same value as the JSON object that the result embeds.
\<close>

record CategoryHits =
  cat_cases :: int
  cat_top1_hits :: int
  cat_top10_hits :: int

record HumanCounts =
  wins :: int
  losses :: int
  ties :: int
  both_bad :: int

record NormMetrics =
  candidate_id :: string
  norm_corpus :: obj
  hazkey_categories :: "(string \<times> CategoryHits) list"
  candidate_categories :: "(string \<times> CategoryHits) list"
  human_categories :: "(string \<times> HumanCounts) list option"
  latency_p95 :: "(string \<times> string) option" \<comment> \<open>hazkey, candidate, as decimal text\<close>
  pss_kib :: "(int \<times> int) option" \<comment> \<open>hazkey, candidate\<close>
  stability_checks :: "(string \<times> bool) list option"

section \<open>Decimal text\<close>

text \<open>\<open>re.fullmatch(r"[0-9]+(?:\.[0-9]+)?", raw)\<close> and the exact value \<open>Decimal(raw)\<close>.\<close>

definition integer_part :: "string \<Rightarrow> string" where
  "integer_part s = takeWhile is_digit s"

definition fraction_part :: "string \<Rightarrow> string" where
  "fraction_part s = drop 1 (dropWhile is_digit s)"

definition decimal_pattern :: "string \<Rightarrow> bool" where
  "decimal_pattern s \<longleftrightarrow>
     integer_part s \<noteq> [] \<and>
     (case dropWhile is_digit s of
        [] \<Rightarrow> True
      | c # fraction \<Rightarrow> c = CHR ''.'' \<and> fraction \<noteq> [] \<and> list_all is_digit fraction)"

definition decimal_value :: "string \<Rightarrow> rat" where
  "decimal_value s =
     of_nat (undec (integer_part s @ fraction_part s)) / 10 ^ length (fraction_part s)"

lemma decimal_value_nonneg [simp]: "0 \<le> decimal_value s"
  by (simp add: decimal_value_def)

section \<open>Sections of the metrics\<close>

definition normalize_corpus :: "ParsedPolicy \<Rightarrow> obj \<Rightarrow> obj res" where
  "normalize_corpus policy metrics =
     bindE (get_item metrics ''corpus'') (\<lambda>v.
     bindE (as_object v ''metrics.corpus'') (\<lambda>corpus.
     bindE (exact_fields corpus [''sha256'', ''total_cases'', ''quality_cases''] ''metrics.corpus'') (\<lambda>_.
     bindE (item as_sha256 corpus ''sha256'' ''metrics.corpus'') (\<lambda>sha256.
     bindE (item as_positive_int corpus ''total_cases'' ''metrics.corpus'') (\<lambda>total.
     bindE (item as_positive_int corpus ''quality_cases'' ''metrics.corpus'') (\<lambda>quality.
     let normalized = [(''sha256'', JStr sha256), (''total_cases'', JInt total),
                       (''quality_cases'', JInt quality)] in
     bindE (expect (JObj normalized)
              (JObj [(''sha256'', JStr (corpus_sha256 policy)),
                     (''total_cases'', JInt (total_cases (gate policy))),
                     (''quality_cases'', JInt (quality_cases (gate policy)))])
              ''metrics.corpus'') (\<lambda>_.
     Inr normalized)))))))"

definition normalize_category ::
  "obj \<Rightarrow> string \<Rightarrow> string \<times> int \<Rightarrow> (string \<times> CategoryHits) res" where
  "normalize_category categories ctx = (\<lambda>(category, expected_cases).
     bindE (get_item categories category) (\<lambda>v.
     let cctx = dot ctx category in
     bindE (as_object v cctx) (\<lambda>it.
     bindE (exact_fields it [''cases'', ''top1_hits'', ''top10_hits''] cctx) (\<lambda>_.
     bindE (item as_positive_int it ''cases'' cctx) (\<lambda>cases.
     bindE (item as_nonnegative_int it ''top1_hits'' cctx) (\<lambda>top1.
     bindE (item as_nonnegative_int it ''top10_hits'' cctx) (\<lambda>top10.
     bindE (raise_if (cases \<noteq> expected_cases \<or> top10 < top1 \<or> cases < top10)
              (ValueError (cctx @ '' totals are inconsistent with policy''))) (\<lambda>_.
     Inr (category, \<lparr>cat_cases = cases, cat_top1_hits = top1, cat_top10_hits = top10\<rparr>)))))))))"

definition normalize_backend ::
  "ParsedPolicy \<Rightarrow> obj \<Rightarrow> string \<Rightarrow> (string \<times> CategoryHits) list res" where
  "normalize_backend policy quality backend =
     bindE (get_item quality backend) (\<lambda>v.
     let ctx = dot ''metrics.quality'' backend in
     bindE (as_object v ctx) (\<lambda>payload.
     bindE (exact_fields payload [''categories''] ctx) (\<lambda>_.
     bindE (item as_object payload ''categories'' ctx) (\<lambda>categories.
     bindE (raise_if (set (keys categories) \<noteq> set (keys (all_categories (gate policy))))
              (ValueError (ctx @ ''.categories do not exactly match policy''))) (\<lambda>_.
     bindE (mapE (normalize_category categories (dot ctx ''categories''))
              (all_categories (gate policy))) (\<lambda>normalized.
     bindE (raise_if (sum_list (map (cat_cases \<circ> snd) normalized) \<noteq> total_cases (gate policy))
              (ValueError (ctx @ ''.categories do not add up to total_cases''))) (\<lambda>_.
     Inr normalized)))))))"

definition normalize_human_category ::
  "obj \<Rightarrow> string \<times> int \<Rightarrow> (string \<times> HumanCounts) res" where
  "normalize_human_category by_category = (\<lambda>(category, expected_cases).
     bindE (get_item by_category category) (\<lambda>v.
     let ctx = dot ''metrics.human.by_category'' category in
     bindE (as_object v ctx) (\<lambda>it.
     bindE (exact_fields it [''wins'', ''losses'', ''ties'', ''both_bad''] ctx) (\<lambda>_.
     bindE (item as_nonnegative_int it ''wins'' ctx) (\<lambda>w.
     bindE (item as_nonnegative_int it ''losses'' ctx) (\<lambda>l.
     bindE (item as_nonnegative_int it ''ties'' ctx) (\<lambda>t.
     bindE (item as_nonnegative_int it ''both_bad'' ctx) (\<lambda>b.
     bindE (raise_if (w + l + t + b \<noteq> expected_cases)
              (ValueError (ctx @ '' counts do not add up to category cases''))) (\<lambda>_.
     Inr (category, \<lparr>wins = w, losses = l, ties = t, both_bad = b\<rparr>))))))))))"

definition normalize_human ::
  "ParsedPolicy \<Rightarrow> json \<Rightarrow> (string \<times> HumanCounts) list option res" where
  "normalize_human policy human_value =
     (if human_value = JNull then Inr None
      else
        bindE (as_object human_value ''metrics.human'') (\<lambda>human.
        bindE (exact_fields human [''by_category''] ''metrics.human'') (\<lambda>_.
        bindE (item as_object human ''by_category'' ''metrics.human'') (\<lambda>by_category.
        bindE (raise_if (set (keys by_category) \<noteq> set (keys (quality_categories (gate policy))))
                 (ValueError ''metrics.human.by_category must contain only quality categories'')) (\<lambda>_.
        bindE (mapE (normalize_human_category by_category) (quality_categories (gate policy)))
          (\<lambda>normalized. Inr (Some normalized)))))))"

definition normalize_latency_value :: "obj \<Rightarrow> string \<Rightarrow> string res" where
  "normalize_latency_value latency backend =
     (let bad = ValueError ''metrics warm latency values must be finite positive decimals'' in
      bindE (item as_string latency backend ''metrics.warm_latency_p95_ms'') (\<lambda>raw.
      bindE (raise_if (256 < length raw \<or> \<not> decimal_pattern raw) bad) (\<lambda>_.
      bindE (raise_if (decimal_value raw \<le> 0) bad) (\<lambda>_.
      Inr raw))))"

definition normalize_latency :: "json \<Rightarrow> (string \<times> string) option res" where
  "normalize_latency latency_value =
     (if latency_value = JNull then Inr None
      else
        bindE (as_object latency_value ''metrics.warm_latency_p95_ms'') (\<lambda>latency.
        bindE (exact_fields latency [''hazkey'', ''candidate''] ''metrics.warm_latency_p95_ms'') (\<lambda>_.
        bindE (normalize_latency_value latency ''hazkey'') (\<lambda>hazkey.
        bindE (normalize_latency_value latency ''candidate'') (\<lambda>candidate.
        Inr (Some (hazkey, candidate)))))))"

definition normalize_pss :: "json \<Rightarrow> (int \<times> int) option res" where
  "normalize_pss pss_value =
     (if pss_value = JNull then Inr None
      else
        bindE (as_object pss_value ''metrics.total_pss_kib'') (\<lambda>pss.
        bindE (exact_fields pss [''hazkey'', ''candidate''] ''metrics.total_pss_kib'') (\<lambda>_.
        bindE (item as_positive_int pss ''hazkey'' ''metrics.total_pss_kib'') (\<lambda>hazkey.
        bindE (item as_positive_int pss ''candidate'' ''metrics.total_pss_kib'') (\<lambda>candidate.
        Inr (Some (hazkey, candidate)))))))"

definition normalize_stability ::
  "ParsedPolicy \<Rightarrow> json \<Rightarrow> (string \<times> bool) list option res" where
  "normalize_stability policy stability_value =
     (if stability_value = JNull then Inr None
      else
        bindE (as_object stability_value ''metrics.stability'') (\<lambda>stability.
        bindE (raise_if (set (keys stability) \<noteq> set (required_stability_ids (gate policy)))
                 (ValueError ''metrics.stability IDs do not exactly match policy'')) (\<lambda>_.
        bindE (mapE (\<lambda>check_id.
                  bindE (item as_boolean stability check_id ''metrics.stability'') (\<lambda>b.
                  Inr (check_id, b)))
                (required_stability_ids (gate policy))) (\<lambda>checks.
        Inr (Some checks)))))"

section \<open>The whole object\<close>

definition metrics_fields :: "string list" where
  "metrics_fields =
     [''schema'', ''candidate_id'', ''corpus'', ''quality'', ''human'', ''warm_latency_p95_ms'',
      ''total_pss_kib'', ''stability'']"

definition normalize_metrics :: "ParsedPolicy \<Rightarrow> obj \<Rightarrow> NormMetrics res" where
  "normalize_metrics policy metrics =
     bindE (exact_fields metrics metrics_fields ''metrics'') (\<lambda>_.
     bindE (expect_item metrics ''schema'' (JStr METRICS_SCHEMA) ''metrics'') (\<lambda>_.
     bindE (item as_string metrics ''candidate_id'' ''metrics'') (\<lambda>candidate.
     bindE (raise_if (candidate \<notin> set (keys (candidate_resource_fingerprints policy)))
              (ValueError ''metrics.candidate_id must be B0 or B1'')) (\<lambda>_.
     bindE (normalize_corpus policy metrics) (\<lambda>corpus.
     bindE (item as_object metrics ''quality'' ''metrics'') (\<lambda>quality.
     bindE (exact_fields quality [''hazkey'', ''candidate''] ''metrics.quality'') (\<lambda>_.
     bindE (normalize_backend policy quality ''hazkey'') (\<lambda>hazkey.
     bindE (normalize_backend policy quality ''candidate'') (\<lambda>cand.
     bindE (get_item metrics ''human'') (\<lambda>human_value.
     bindE (normalize_human policy human_value) (\<lambda>human.
     bindE (get_item metrics ''warm_latency_p95_ms'') (\<lambda>latency_value.
     bindE (normalize_latency latency_value) (\<lambda>latency.
     bindE (get_item metrics ''total_pss_kib'') (\<lambda>pss_value.
     bindE (normalize_pss pss_value) (\<lambda>pss.
     bindE (get_item metrics ''stability'') (\<lambda>stability_value.
     bindE (normalize_stability policy stability_value) (\<lambda>stability.
     Inr \<lparr>candidate_id = candidate, norm_corpus = corpus, hazkey_categories = hazkey,
          candidate_categories = cand, human_categories = human, latency_p95 = latency,
          pss_kib = pss, stability_checks = stability\<rparr>)))))))))))))))))"

text \<open>The returned dictionary.\<close>

definition category_json :: "CategoryHits \<Rightarrow> json" where
  "category_json c =
     JObj [(''cases'', JInt (cat_cases c)), (''top1_hits'', JInt (cat_top1_hits c)),
           (''top10_hits'', JInt (cat_top10_hits c))]"

definition human_json :: "HumanCounts \<Rightarrow> json" where
  "human_json h =
     JObj [(''wins'', JInt (wins h)), (''losses'', JInt (losses h)), (''ties'', JInt (ties h)),
           (''both_bad'', JInt (both_bad h))]"

definition map_values :: "('a \<Rightarrow> 'b) \<Rightarrow> (string \<times> 'a) list \<Rightarrow> (string \<times> 'b) list" where
  "map_values f d = map (\<lambda>(k, v). (k, f v)) d"

definition metrics_json :: "NormMetrics \<Rightarrow> obj" where
  "metrics_json m =
     [(''schema'', JStr METRICS_SCHEMA),
      (''candidate_id'', JStr (candidate_id m)),
      (''corpus'', JObj (norm_corpus m)),
      (''quality'', JObj
        [(''hazkey'', JObj [(''categories'', JObj (map_values category_json (hazkey_categories m)))]),
         (''candidate'', JObj [(''categories'', JObj (map_values category_json (candidate_categories m)))])]),
      (''human'', case human_categories m of None \<Rightarrow> JNull
         | Some h \<Rightarrow> JObj [(''by_category'', JObj (map_values human_json h))]),
      (''warm_latency_p95_ms'', case latency_p95 m of None \<Rightarrow> JNull
         | Some (h, c) \<Rightarrow> JObj [(''hazkey'', JStr h), (''candidate'', JStr c)]),
      (''total_pss_kib'', case pss_kib m of None \<Rightarrow> JNull
         | Some (h, c) \<Rightarrow> JObj [(''hazkey'', JInt h), (''candidate'', JInt c)]),
      (''stability'', case stability_checks m of None \<Rightarrow> JNull
         | Some s \<Rightarrow> JObj (map_values JBool s))]"

section \<open>What a normalized object satisfies\<close>

definition hits_ok :: "string \<times> int \<Rightarrow> string \<times> CategoryHits \<Rightarrow> bool" where
  "hits_ok = (\<lambda>(category, n) (k, c).
     k = category \<and> cat_cases c = n \<and> 1 \<le> n \<and>
     0 \<le> cat_top1_hits c \<and> cat_top1_hits c \<le> cat_top10_hits c \<and> cat_top10_hits c \<le> n)"

definition backend_ok :: "ParsedPolicy \<Rightarrow> (string \<times> CategoryHits) list \<Rightarrow> bool" where
  "backend_ok policy cats \<longleftrightarrow>
     list_all2 hits_ok (all_categories (gate policy)) cats \<and>
     sum_list (map (cat_cases \<circ> snd) cats) = total_cases (gate policy)"

definition counts_ok :: "string \<times> int \<Rightarrow> string \<times> HumanCounts \<Rightarrow> bool" where
  "counts_ok = (\<lambda>(category, n) (k, h).
     k = category \<and> 0 \<le> wins h \<and> 0 \<le> losses h \<and> 0 \<le> ties h \<and> 0 \<le> both_bad h \<and>
     wins h + losses h + ties h + both_bad h = n)"

definition latency_ok :: "string \<Rightarrow> bool" where
  "latency_ok s \<longleftrightarrow> length s \<le> 256 \<and> decimal_pattern s \<and> 0 < decimal_value s"

definition bound_corpus :: "ParsedPolicy \<Rightarrow> obj" where
  "bound_corpus policy =
     [(''sha256'', JStr (corpus_sha256 policy)), (''total_cases'', JInt (total_cases (gate policy))),
      (''quality_cases'', JInt (quality_cases (gate policy)))]"

definition corpus_ok :: "ParsedPolicy \<Rightarrow> obj \<Rightarrow> bool" where
  "corpus_ok policy c \<longleftrightarrow>
     c = bound_corpus policy \<and> sha256_pattern (corpus_sha256 policy) \<and>
     1 \<le> total_cases (gate policy) \<and> 1 \<le> quality_cases (gate policy)"

definition norm_ok :: "ParsedPolicy \<Rightarrow> NormMetrics \<Rightarrow> bool" where
  "norm_ok policy m \<longleftrightarrow>
     candidate_id m \<noteq> [] \<and> candidate_id m \<in> set (keys (candidate_resource_fingerprints policy)) \<and>
     corpus_ok policy (norm_corpus m) \<and>
     backend_ok policy (hazkey_categories m) \<and> backend_ok policy (candidate_categories m) \<and>
     (\<forall>h. human_categories m = Some h \<longrightarrow> list_all2 counts_ok (quality_categories (gate policy)) h) \<and>
     (\<forall>h c. latency_p95 m = Some (h, c) \<longrightarrow> latency_ok h \<and> latency_ok c) \<and>
     (\<forall>h c. pss_kib m = Some (h, c) \<longrightarrow> 1 \<le> h \<and> 1 \<le> c) \<and>
     (\<forall>s. stability_checks m = Some s \<longrightarrow> keys s = required_stability_ids (gate policy))"

lemma normalize_corpus_ok: "normalize_corpus policy metrics = Inr c \<Longrightarrow> corpus_ok policy c"
  unfolding normalize_corpus_def corpus_ok_def bound_corpus_def Let_def
  by (simp, elim exE conjE, clarsimp simp: pyeq_JObj)

lemma normalize_category_ok:
  "normalize_category categories ctx x = Inr y \<Longrightarrow> hits_ok x y"
  unfolding normalize_category_def hits_ok_def Let_def
  by (cases x, simp, elim exE conjE, clarsimp)

lemma normalize_backend_ok:
  "normalize_backend policy quality backend = Inr cats \<Longrightarrow> backend_ok policy cats"
  unfolding normalize_backend_def backend_ok_def Let_def mapE_Inr_iff bindE_Inr_iff
  by (elim exE conjE, simp add: mapE_Inr_iff)
    (blast intro: list_all2_mono normalize_category_ok)

lemma normalize_human_category_ok:
  "normalize_human_category by_category x = Inr y \<Longrightarrow> counts_ok x y"
  unfolding normalize_human_category_def counts_ok_def Let_def
  by (cases x, simp, elim exE conjE, clarsimp)

lemma normalize_human_ok:
  "normalize_human policy v = Inr (Some h) \<Longrightarrow>
     list_all2 counts_ok (quality_categories (gate policy)) h"
  unfolding normalize_human_def
  by (simp add: mapE_Inr_iff split: if_splits)
    (blast intro: list_all2_mono normalize_human_category_ok)

lemma normalize_latency_ok:
  "normalize_latency v = Inr (Some (h, c)) \<Longrightarrow> latency_ok h \<and> latency_ok c"
  unfolding normalize_latency_def normalize_latency_value_def latency_ok_def Let_def
  by (simp split: if_splits, elim exE conjE, clarsimp)

lemma normalize_pss_ok: "normalize_pss v = Inr (Some (h, c)) \<Longrightarrow> 1 \<le> h \<and> 1 \<le> c"
  by (auto simp: normalize_pss_def split: if_splits)

lemma normalize_stability_ok:
  "normalize_stability policy v = Inr (Some s) \<Longrightarrow> keys s = required_stability_ids (gate policy)"
proof -
  assume "normalize_stability policy v = Inr (Some s)"
  then have "list_all2 (\<lambda>x y. fst y = x) (required_stability_ids (gate policy)) s"
    by (auto simp: normalize_stability_def mapE_Inr_iff split: if_splits elim!: list_all2_mono)
  then show ?thesis
    by (auto simp: keys_def list_all2_conv_all_nth intro: nth_equalityI)
qed

lemma normalize_metrics_ok: "normalize_metrics policy metrics = Inr m \<Longrightarrow> norm_ok policy m"
  unfolding normalize_metrics_def norm_ok_def
  by (simp, elim exE conjE, drule normalize_corpus_ok, (drule normalize_backend_ok)+,
      hypsubst, simp)
    (metis normalize_human_ok normalize_latency_ok normalize_pss_ok normalize_stability_ok)

section \<open>A normalized object is a fixed point\<close>

lemma normalize_null [simp]:
  "normalize_human policy JNull = Inr None" "normalize_latency JNull = Inr None"
  "normalize_pss JNull = Inr None" "normalize_stability policy JNull = Inr None"
  by (simp_all add: normalize_human_def normalize_latency_def normalize_pss_def
      normalize_stability_def)


lemma keys_map_values [simp]: "keys (map_values f d) = keys d"
  by (induction d) (auto simp: map_values_def)

lemma map_of_map_values: "map_of (map_values f d) k = map_option f (map_of d k)"
  by (induction d) (auto simp: map_values_def)

lemma list_all2_keys:
  "list_all2 P xs ys \<Longrightarrow> (\<And>x y. P x y \<Longrightarrow> fst x = fst y) \<Longrightarrow> keys ys = keys xs"
  by (induction rule: list_all2_induct) auto

lemma map_of_member: "distinct (keys d) \<Longrightarrow> (k, v) \<in> set d \<Longrightarrow> map_of d k = Some v"
  by (simp add: keys_def)

lemma normalize_category_complete:
  assumes "distinct (keys cats)" and "y \<in> set cats" and "hits_ok x y"
  shows "normalize_category (map_values category_json cats) ctx x = Inr y"
proof -
  obtain category n k c where xy: "x = (category, n)" "y = (k, c)" by (cases x; cases y) auto
  have "map_of cats category = Some c"
    using assms xy by (auto simp: hits_ok_def intro: map_of_member)
  then show ?thesis
    using assms(3) by (auto simp: xy hits_ok_def normalize_category_def map_of_map_values
        category_json_def Let_def get_item_def item_def)
qed

lemma normalize_backend_complete:
  assumes ok: "backend_ok policy cats" and dist: "distinct (keys (all_categories (gate policy)))"
    and b: "map_of quality backend =
              Some (JObj [(''categories'', JObj (map_values category_json cats))])"
  shows "normalize_backend policy quality backend = Inr cats"
proof -
  have l2: "list_all2 hits_ok (all_categories (gate policy)) cats"
    and sum: "sum_list (map (cat_cases \<circ> snd) cats) = total_cases (gate policy)"
    using ok by (auto simp: backend_ok_def)
  have ks: "keys cats = keys (all_categories (gate policy))"
    using l2 by (rule list_all2_keys) (auto simp: hits_ok_def)
  have "list_all2 (\<lambda>x y. normalize_category (map_values category_json cats) ctx x = Inr y)
          (all_categories (gate policy)) cats" for ctx
    using l2 by (rule list.rel_mono_strong) (auto intro: normalize_category_complete simp: ks dist)
  then show ?thesis
    using b sum ks by (simp add: normalize_backend_def Let_def mapE_Inr_iff)
qed

lemma normalize_human_category_complete:
  assumes "distinct (keys hs)" and "y \<in> set hs" and "counts_ok x y"
  shows "normalize_human_category (map_values human_json hs) x = Inr y"
proof -
  obtain category n k h where xy: "x = (category, n)" "y = (k, h)" by (cases x; cases y) auto
  have "map_of hs category = Some h"
    using assms xy by (auto simp: counts_ok_def intro: map_of_member)
  then show ?thesis
    using assms(3) by (auto simp: xy counts_ok_def normalize_human_category_def map_of_map_values
        human_json_def Let_def)
qed

lemma normalize_human_complete:
  assumes "list_all2 counts_ok (quality_categories (gate policy)) hs"
    and dist: "distinct (keys (quality_categories (gate policy)))"
  shows "normalize_human policy (JObj [(''by_category'', JObj (map_values human_json hs))]) =
           Inr (Some hs)"
proof -
  have ks: "keys hs = keys (quality_categories (gate policy))"
    using assms(1) by (rule list_all2_keys) (auto simp: counts_ok_def)
  have "list_all2 (\<lambda>x y. normalize_human_category (map_values human_json hs) x = Inr y)
          (quality_categories (gate policy)) hs"
    using assms(1) by (rule list.rel_mono_strong)
      (auto intro: normalize_human_category_complete simp: ks dist)
  then show ?thesis using ks by (simp add: normalize_human_def mapE_Inr_iff)
qed

lemma normalize_stability_complete:
  assumes "keys s = required_stability_ids (gate policy)"
    and dist: "distinct (required_stability_ids (gate policy))"
  shows "normalize_stability policy (JObj (map_values JBool s)) = Inr (Some s)"
proof -
  have "list_all2 (\<lambda>k y. bindE (item as_boolean (map_values JBool s) k ''metrics.stability'')
          (\<lambda>b. Inr (k, b)) = Inr y) (keys s) s"
    unfolding keys_def list_all2_map1
    by (rule list.rel_refl_strong)
      (use assms map_of_member [of s] in \<open>auto simp: map_of_map_values keys_def\<close>)
  then show ?thesis using assms by (simp add: normalize_stability_def mapE_Inr_iff)
qed

lemma latency_value_complete:
  "latency_ok h \<Longrightarrow> map_of d k = Some (JStr h) \<Longrightarrow> normalize_latency_value d k = Inr h"
  by (auto simp: normalize_latency_value_def latency_ok_def decimal_pattern_def Let_def
      integer_part_def)

lemma normalize_corpus_complete:
  "corpus_ok policy c \<Longrightarrow> map_of metrics ''corpus'' = Some (JObj c) \<Longrightarrow>
     normalize_corpus policy metrics = Inr c"
  by (auto simp: normalize_corpus_def corpus_ok_def bound_corpus_def Let_def pyeq_JObj)

lemma normalize_metrics_complete:
  assumes ok: "norm_ok policy m"
    and dist: "distinct (keys (all_categories (gate policy)))"
      "distinct (keys (quality_categories (gate policy)))"
      "distinct (required_stability_ids (gate policy))"
  shows "normalize_metrics policy (metrics_json m) = Inr m"
proof -
  let ?d = "metrics_json m"
  have corpus: "normalize_corpus policy ?d = Inr (norm_corpus m)"
    using ok by (intro normalize_corpus_complete) (auto simp: norm_ok_def metrics_json_def)
  let ?q = "[(''hazkey'', JObj [(''categories'', JObj (map_values category_json (hazkey_categories m)))]),
         (''candidate'', JObj [(''categories'', JObj (map_values category_json (candidate_categories m)))])]"
  have q: "normalize_backend policy ?q ''hazkey'' = Inr (hazkey_categories m)"
      "normalize_backend policy ?q ''candidate'' = Inr (candidate_categories m)"
    using ok dist by (auto intro!: normalize_backend_complete simp: norm_ok_def)
  obtain hv lv pv sv where f: "map_of ?d ''human'' = Some hv" "map_of ?d ''warm_latency_p95_ms'' = Some lv"
      "map_of ?d ''total_pss_kib'' = Some pv" "map_of ?d ''stability'' = Some sv"
    by (auto simp: metrics_json_def)
  have h: "normalize_human policy hv = Inr (human_categories m)"
    using ok f dist by (cases "human_categories m")
      (auto simp: norm_ok_def metrics_json_def normalize_human_complete)
  have l: "normalize_latency lv = Inr (latency_p95 m)"
    using ok f by (cases "latency_p95 m")
      (auto simp: norm_ok_def metrics_json_def normalize_latency_def latency_value_complete)
  have p: "normalize_pss pv = Inr (pss_kib m)"
    using ok f by (cases "pss_kib m") (auto simp: norm_ok_def metrics_json_def normalize_pss_def)
  have s: "normalize_stability policy sv = Inr (stability_checks m)"
    using ok f dist by (cases "stability_checks m")
      (auto simp: norm_ok_def metrics_json_def normalize_stability_complete)
  have k: "set (keys ?d) = set metrics_fields"
    by (simp add: metrics_json_def metrics_fields_def)
  have r: "map_of ?d ''schema'' = Some (JStr METRICS_SCHEMA)"
      "map_of ?d ''candidate_id'' = Some (JStr (candidate_id m))" "map_of ?d ''quality'' = Some (JObj ?q)"
    by (simp_all add: metrics_json_def)
  show ?thesis
    unfolding normalize_metrics_def
    using ok by (simp add: k r corpus q f h l p s norm_ok_def)
qed
end
