(* ===== verification/Gate_Checks.thy ===== *)
theory Gate_Checks
  imports Gate_Metrics
begin

text \<open>
  \<open>_evaluate_checks\<close> and \<open>derive_formal_result\<close> of \<open>evaluate_mozc_adoption_v2_gate.py\<close>:
  exact integer comparisons over normalized metrics, and the verdict they give.
\<close>

section \<open>Check records\<close>

definition check_obj :: "string \<Rightarrow> bool option \<Rightarrow> json \<Rightarrow> json \<Rightarrow> json \<Rightarrow> obj" where
  "check_obj check_id passed actual comparison limit =
     [(''id'', JStr check_id),
      (''passed'', case passed of None \<Rightarrow> JNull | Some b \<Rightarrow> JBool b),
      (''actual'', actual), (''comparison'', comparison), (''limit'', limit)]"

definition not_run :: "string \<Rightarrow> json \<Rightarrow> obj" where
  "not_run check_id limit =
     check_obj check_id None JNull (JObj [(''status'', JStr ''not_run'')]) limit"

definition invalid_interaction_check :: "string \<Rightarrow> json \<Rightarrow> json \<Rightarrow> obj" where
  "invalid_interaction_check check_id actual limit =
     check_obj check_id None actual
       (JObj [(''status'', JStr ''invalid''), (''reason'', JStr ''interaction-model-mismatch'')]) limit"

definition comparison_obj :: "int \<Rightarrow> string \<Rightarrow> int \<Rightarrow> json" where
  "comparison_obj left operator right =
     JObj [(''left'', JInt left), (''operator'', JStr operator), (''right'', JInt right)]"

section \<open>The checks, in order\<close>

definition human_limit :: "GatePolicy \<Rightarrow> json" where
  "human_limit g =
     JObj [(''minimum_basis_points'', JInt (minimum_human_basis_points g)),
           (''minimum_net_cases'', JInt (minimum_human_net_cases g))]"

definition human_check :: "GatePolicy \<Rightarrow> (string \<times> HumanCounts) list option \<Rightarrow> obj" where
  "human_check g human =
     (case human of
        None \<Rightarrow> not_run ''human-net-preference'' (human_limit g)
      | Some categories \<Rightarrow>
          let w = sum_list (map (wins \<circ> snd) categories);
              l = sum_list (map (losses \<circ> snd) categories);
              net = w - l
          in invalid_interaction_check ''human-net-preference''
               (JObj [(''wins'', JInt w), (''losses'', JInt l), (''net_cases'', JInt net),
                      (''cases'', JInt (quality_cases g)),
                      (''diagnostic_comparison'',
                        comparison_obj (net * 10000) ''>=''
                          (minimum_human_basis_points g * quality_cases g))])
               (human_limit g))"

text \<open>\<open>categories[category][metric]\<close>: a missing category is a \<open>KeyError\<close>.\<close>

definition category_hits ::
  "(CategoryHits \<Rightarrow> int) \<Rightarrow> (string \<times> CategoryHits) list \<Rightarrow> string \<Rightarrow> int res" where
  "category_hits metric categories category =
     (case map_of categories category of
        None \<Rightarrow> Inl (KeyError category)
      | Some c \<Rightarrow> Inr (metric c))"

definition total_hits ::
  "GatePolicy \<Rightarrow> (CategoryHits \<Rightarrow> int) \<Rightarrow> (string \<times> CategoryHits) list \<Rightarrow> int res" where
  "total_hits g metric categories =
     bindE (mapE (category_hits metric categories) (keys (quality_categories g))) (\<lambda>hits.
     Inr (sum_list hits))"

definition delta_check ::
  "string \<Rightarrow> int \<Rightarrow> int \<Rightarrow> int \<Rightarrow> int \<Rightarrow> int \<Rightarrow> obj" where
  "delta_check check_id baseline candidate cases basis_points minimum_hits =
     (let delta = candidate - baseline
      in invalid_interaction_check check_id
           (JObj [(''hazkey_hits'', JInt baseline), (''candidate_hits'', JInt candidate),
                  (''delta_hits'', JInt delta), (''cases'', JInt cases),
                  (''diagnostic_comparison'',
                    comparison_obj (delta * 10000) ''>='' (basis_points * cases))])
           (JObj [(''minimum_basis_points'', JInt basis_points),
                  (''minimum_delta_hits'', JInt minimum_hits)]))"

definition total_delta_checks :: "GatePolicy \<Rightarrow> NormMetrics \<Rightarrow> obj list res" where
  "total_delta_checks g m =
     bindE (total_hits g cat_top1_hits (hazkey_categories m)) (\<lambda>h1.
     bindE (total_hits g cat_top10_hits (hazkey_categories m)) (\<lambda>h10.
     bindE (total_hits g cat_top1_hits (candidate_categories m)) (\<lambda>c1.
     bindE (total_hits g cat_top10_hits (candidate_categories m)) (\<lambda>c10.
     Inr [delta_check ''top1-delta'' h1 c1 (quality_cases g)
            (minimum_top1_basis_points g) (minimum_top1_delta_hits g),
          delta_check ''top10-delta'' h10 c10 (quality_cases g)
            (minimum_top10_basis_points g) (minimum_top10_delta_hits g)]))))"

definition category_delta_check :: "GatePolicy \<Rightarrow> NormMetrics \<Rightarrow> string \<times> int \<Rightarrow> obj res" where
  "category_delta_check g m = (\<lambda>(category, cases).
     bindE (category_hits cat_top1_hits (hazkey_categories m) category) (\<lambda>baseline.
     bindE (category_hits cat_top1_hits (candidate_categories m) category) (\<lambda>candidate.
     case map_of (minimum_category_delta_hits g) category of
       None \<Rightarrow> Inl (KeyError category)
     | Some minimum_hits \<Rightarrow>
         Inr (delta_check (''category-top1-delta:'' @ category) baseline candidate cases
                (minimum_category_basis_points g) minimum_hits))))"

definition protected_check :: "NormMetrics \<Rightarrow> obj res" where
  "protected_check m =
     bindE (category_hits cat_top1_hits (candidate_categories m) PROTECTED_CATEGORY) (\<lambda>hits.
     Inr (invalid_interaction_check ''protected-input-protocol''
            (JObj [(''legacy_abprobe_top1_hits'', JInt hits), (''legacy_cases'', JInt PROTECTED_CASES)])
            (JObj [(''status'', JStr PROTECTED_INPUT_PROTOCOL_STATUS),
                   (''required_suite_ids'', str_arr PROTECTED_INPUT_REQUIRED_SUITE_IDS)])))"

definition both_bad_check :: "GatePolicy \<Rightarrow> (string \<times> HumanCounts) list option \<Rightarrow> obj" where
  "both_bad_check g human =
     (case human of
        None \<Rightarrow> not_run ''both-bad'' (JInt (maximum_both_bad g))
      | Some categories \<Rightarrow>
          invalid_interaction_check ''both-bad''
            (JObj [(''diagnostic_cases'', JInt (sum_list (map (both_bad \<circ> snd) categories)))])
            (JInt (maximum_both_bad g)))"

text \<open>\<open>Decimal.as_integer_ratio\<close> gives the lowest terms, as \<^const>\<open>quotient_of\<close> does.\<close>

definition latency_check :: "GatePolicy \<Rightarrow> (string \<times> string) option \<Rightarrow> obj" where
  "latency_check g latency =
     (case latency of
        None \<Rightarrow> not_run ''warm-latency-p95-ratio'' (JInt (maximum_latency_ratio_basis_points g))
      | Some (hazkey, candidate) \<Rightarrow>
          let (candidate_numerator, candidate_denominator) = quotient_of (decimal_value candidate);
              (baseline_numerator, baseline_denominator) = quotient_of (decimal_value hazkey);
              left = candidate_numerator * 10000 * baseline_denominator;
              right = baseline_numerator * maximum_latency_ratio_basis_points g * candidate_denominator
          in check_obj ''warm-latency-p95-ratio'' (Some (left \<le> right))
               (JObj [(''hazkey'', JStr hazkey), (''candidate'', JStr candidate)])
               (comparison_obj left ''<='' right)
               (JInt (maximum_latency_ratio_basis_points g)))"

definition pss_check :: "GatePolicy \<Rightarrow> (int \<times> int) option \<Rightarrow> obj" where
  "pss_check g pss =
     (case pss of
        None \<Rightarrow> not_run ''total-pss-ratio'' (JInt (maximum_pss_ratio_basis_points g))
      | Some (hazkey, candidate) \<Rightarrow>
          let left = candidate * 10000; right = hazkey * maximum_pss_ratio_basis_points g
          in check_obj ''total-pss-ratio'' (Some (left \<le> right))
               (JObj [(''hazkey'', JInt hazkey), (''candidate'', JInt candidate)])
               (comparison_obj left ''<='' right)
               (JInt (maximum_pss_ratio_basis_points g)))"

definition stability_check :: "(string \<times> bool) list option \<Rightarrow> string \<Rightarrow> obj res" where
  "stability_check stability check_id =
     (case stability of
        None \<Rightarrow> Inr (not_run (''stability:'' @ check_id) (JBool True))
      | Some s \<Rightarrow>
          (case map_of s check_id of
             None \<Rightarrow> Inl (KeyError check_id)
           | Some passed \<Rightarrow>
               Inr (check_obj (''stability:'' @ check_id) (Some passed) (JBool passed)
                      (JObj [(''operator'', JStr ''=='')]) (JBool True))))"

definition evaluate_checks :: "GatePolicy \<Rightarrow> NormMetrics \<Rightarrow> obj list res" where
  "evaluate_checks g m =
     bindE (total_delta_checks g m) (\<lambda>totals.
     bindE (mapE (category_delta_check g m) (quality_categories g)) (\<lambda>deltas.
     bindE (protected_check m) (\<lambda>protected.
     bindE (mapE (stability_check (stability_checks m)) (required_stability_ids g)) (\<lambda>stability.
     Inr ([human_check g (human_categories m)] @ totals @ deltas @
          [protected, both_bad_check g (human_categories m), latency_check g (latency_p95 m),
           pss_check g (pss_kib m)] @ stability)))))"

section \<open>The verdict\<close>

datatype verdict = Formal_Fail | Inconclusive | Formal_Pass

definition verdict_name :: "verdict \<Rightarrow> string" where
  "verdict_name v =
     (case v of Formal_Fail \<Rightarrow> ''formal_fail'' | Inconclusive \<Rightarrow> ''inconclusive''
      | Formal_Pass \<Rightarrow> ''formal_pass'')"

text \<open>\<open>check.get("passed")\<close> must be a boolean or null.\<close>

definition check_state :: "obj \<Rightarrow> bool option res" where
  "check_state check =
     (case get_or_null check ''passed'' of
        JBool b \<Rightarrow> Inr (Some b)
      | JNull \<Rightarrow> Inr None
      | _ \<Rightarrow> Inl (ValueError ''.passed must be boolean or null''))"

definition derive_formal_result :: "obj list \<Rightarrow> verdict res" where
  "derive_formal_result checks =
     bindE (mapE check_state checks) (\<lambda>states.
     bindE (raise_if (states = []) (ValueError ''formal gate requires at least one check'')) (\<lambda>_.
     Inr (if list_ex (\<lambda>s. s = Some False) states then Formal_Fail
          else if list_all (\<lambda>s. s = Some True) states then Formal_Pass
          else Inconclusive)))"

text \<open>
  Verdicts are ordered by how much they allow; the verdict of a set of checks is then the
  least verdict of its members.
\<close>

fun verdict_rank :: "verdict \<Rightarrow> nat" where
  "verdict_rank Formal_Fail = 0"
| "verdict_rank Inconclusive = 1"
| "verdict_rank Formal_Pass = 2"

instantiation verdict :: linorder
begin

definition less_eq_verdict :: "verdict \<Rightarrow> verdict \<Rightarrow> bool" where
  "less_eq_verdict a b \<longleftrightarrow> verdict_rank a \<le> verdict_rank b"

definition less_verdict :: "verdict \<Rightarrow> verdict \<Rightarrow> bool" where
  "less_verdict a b \<longleftrightarrow> verdict_rank a < verdict_rank b"

instance
proof
  fix a b c :: verdict
  show "a < b \<longleftrightarrow> a \<le> b \<and> \<not> b \<le> a" by (auto simp: less_eq_verdict_def less_verdict_def)
  show "a \<le> a" by (simp add: less_eq_verdict_def)
  show "a \<le> b \<Longrightarrow> b \<le> c \<Longrightarrow> a \<le> c" by (simp add: less_eq_verdict_def)
  show "a \<le> b \<Longrightarrow> b \<le> a \<Longrightarrow> a = b" by (cases a; cases b) (auto simp: less_eq_verdict_def)
  show "a \<le> b \<or> b \<le> a" by (auto simp: less_eq_verdict_def)
qed

end

fun state_verdict :: "bool option \<Rightarrow> verdict" where
  "state_verdict (Some True) = Formal_Pass"
| "state_verdict None = Inconclusive"
| "state_verdict (Some False) = Formal_Fail"

section \<open>Verdicts of check lists\<close>

lemma check_state_check_obj [simp]: "check_state (check_obj i p a c l) = Inr p"
  by (auto simp: check_state_def check_obj_def get_or_null_def split: option.splits)

lemma check_state_undecided [simp]:
  "check_state (not_run i l) = Inr None"
  "check_state (invalid_interaction_check i a l) = Inr None"
  by (simp_all add: not_run_def invalid_interaction_check_def)

lemma Min_state_verdict:
  assumes "states \<noteq> []"
  shows "Min (state_verdict ` set states) =
    (if Some False \<in> set states then Formal_Fail
     else if \<forall>s \<in> set states. s = Some True then Formal_Pass else Inconclusive)"
proof -
  have fail: "Formal_Fail \<le> v" for v by (cases v) (auto simp: less_eq_verdict_def)
  have pass: "v \<le> Formal_Pass" for v by (cases v) (auto simp: less_eq_verdict_def)
  show ?thesis
  proof (cases "Some False \<in> set states")
    case True
    then have "Formal_Fail \<in> state_verdict ` set states" by force
    then show ?thesis using True fail by (auto intro: Min_eqI)
  next
    case nofail: False
    then have ge: "Inconclusive \<le> state_verdict s" if "s \<in> set states" for s
      using that by (cases s rule: state_verdict.cases) (auto simp: less_eq_verdict_def)
    show ?thesis
    proof (cases "\<forall>s \<in> set states. s = Some True")
      case True
      then have "state_verdict ` set states = {Formal_Pass}" using assms by (cases states) auto
      then show ?thesis using True nofail by simp
    next
      case False
      then obtain s where "s \<in> set states" "s \<noteq> Some True" by blast
      moreover from this nofail have "s = None" by (metis (full_types) not_None_eq)
      ultimately have "Inconclusive \<in> state_verdict ` set states" by force
      then show ?thesis using False nofail ge by (auto intro!: Min_eqI)
    qed
  qed
qed

lemma derive_formal_result_iff:
  "derive_formal_result checks = Inr v \<longleftrightarrow>
     (\<exists>states. mapE check_state checks = Inr states \<and> states \<noteq> [] \<and>
        v = Min (state_verdict ` set states))"
proof (cases "mapE check_state checks")
  case (Inr states)
  have "(list_ex (\<lambda>s. s = Some False) states) = (Some False \<in> set states)"
      "(list_all (\<lambda>s. s = Some True) states) = (\<forall>s \<in> set states. s = Some True)"
    by (auto simp: list_ex_iff list_all_iff)
  then show ?thesis
    by (cases "states = []") (auto simp: derive_formal_result_def Inr Min_state_verdict)
qed (simp add: derive_formal_result_def)

section \<open>Exact ratios\<close>

definition within_basis_points :: "rat \<Rightarrow> rat \<Rightarrow> int \<Rightarrow> bool" where
  "within_basis_points baseline candidate limit \<longleftrightarrow>
     candidate \<le> baseline * (of_int limit / 10000)"

lemma latency_check_state:
  "check_state (latency_check g (Some (h, c))) =
     Inr (Some (within_basis_points (decimal_value h) (decimal_value c)
       (maximum_latency_ratio_basis_points g)))"
proof -
  obtain cn cd where c: "quotient_of (decimal_value c) = (cn, cd)" by fastforce
  obtain bn bd where b: "quotient_of (decimal_value h) = (bn, bd)" by fastforce
  let ?m = "maximum_latency_ratio_basis_points g"
  have pos: "(0 :: rat) < of_int cd" "(0 :: rat) < of_int bd"
    using quotient_of_denom_pos [OF c] quotient_of_denom_pos [OF b] by simp_all
  have "cn * 10000 * bd \<le> bn * ?m * cd \<longleftrightarrow>
      (of_int (cn * 10000 * bd) :: rat) \<le> of_int (bn * ?m * cd)"
    by (rule of_int_le_iff [symmetric])
  also have "\<dots> \<longleftrightarrow> (of_int cn / of_int cd :: rat) \<le> (of_int bn / of_int bd) * (of_int ?m / 10000)"
    using pos by (simp add: field_simps)
  also have "\<dots> \<longleftrightarrow> within_basis_points (decimal_value h) (decimal_value c) ?m"
    by (simp only: within_basis_points_def quotient_of_div [OF c] quotient_of_div [OF b])
  finally show ?thesis
    by (simp add: latency_check_def c b Let_def)
qed

lemma pss_check_state:
  "check_state (pss_check g (Some (h, c))) =
     Inr (Some (within_basis_points (of_int h) (of_int c) (maximum_pss_ratio_basis_points g)))"
proof -
  let ?m = "maximum_pss_ratio_basis_points g"
  have "c * 10000 \<le> h * ?m \<longleftrightarrow> (of_int (c * 10000) :: rat) \<le> of_int (h * ?m)"
    by (rule of_int_le_iff [symmetric])
  then show ?thesis by (simp add: pss_check_def Let_def within_basis_points_def field_simps)
qed

lemma unmeasured_check_state [simp]:
  "check_state (latency_check g None) = Inr None" "check_state (pss_check g None) = Inr None"
  "check_state (human_check g h) = Inr None" "check_state (both_bad_check g h) = Inr None"
  by (auto simp: latency_check_def pss_check_def human_check_def both_bad_check_def Let_def
      split: option.splits)

text \<open>What a measurement contributes to the verdict.\<close>

definition latency_state :: "GatePolicy \<Rightarrow> NormMetrics \<Rightarrow> bool option" where
  "latency_state g m = map_option (\<lambda>(h, c). within_basis_points (decimal_value h) (decimal_value c)
     (maximum_latency_ratio_basis_points g)) (latency_p95 m)"

definition pss_state :: "GatePolicy \<Rightarrow> NormMetrics \<Rightarrow> bool option" where
  "pss_state g m = map_option (\<lambda>(h, c). within_basis_points (of_int h) (of_int c)
     (maximum_pss_ratio_basis_points g)) (pss_kib m)"

definition stability_state :: "NormMetrics \<Rightarrow> string \<Rightarrow> bool option" where
  "stability_state m check_id = (case stability_checks m of None \<Rightarrow> None | Some s \<Rightarrow> map_of s check_id)"

definition measured_states :: "GatePolicy \<Rightarrow> NormMetrics \<Rightarrow> bool option list" where
  "measured_states g m =
     latency_state g m # pss_state g m # map (stability_state m) (required_stability_ids g)"

lemma stability_check_state:
  "stability_check (stability_checks m) i = Inr c \<Longrightarrow> check_state c = Inr (stability_state m i)"
  by (auto simp: stability_check_def stability_state_def split: option.splits)

lemma mapE_check_state_undecided:
  "(\<And>c. c \<in> set cs \<Longrightarrow> check_state c = Inr None) \<Longrightarrow>
     mapE check_state cs = Inr (replicate (length cs) None)"
  using mapE_pure [of cs check_state "\<lambda>_. None"] by (simp add: map_replicate_const)

lemma delta_check_state [simp]: "check_state (delta_check i b c n p h) = Inr None"
  by (simp add: delta_check_def Let_def)

lemma category_delta_check_state:
  assumes "category_delta_check g m x = Inr c"
  shows "check_state c = Inr None"
proof -
  obtain category cases where x: "x = (category, cases)" by fastforce
  from assms obtain b k where
    "(case map_of (minimum_category_delta_hits g) category of
        None \<Rightarrow> Inl (KeyError category)
      | Some h \<Rightarrow> Inr (delta_check (''category-top1-delta:'' @ category) b k cases
                (minimum_category_basis_points g) h)) = Inr c"
    unfolding x category_delta_check_def prod.case bindE_Inr_iff by blast
  then show ?thesis by (cases "map_of (minimum_category_delta_hits g) category") auto
qed

lemma mapE_stability_states:
  "mapE (stability_check (stability_checks m)) ids = Inr cs \<Longrightarrow>
     mapE check_state cs = Inr (map (stability_state m) ids)"
proof (induction ids arbitrary: cs)
  case (Cons i ids)
  then show ?case by (auto simp: stability_check_state)
qed simp

text \<open>
  Every check but latency, PSS and stability is undecided, so the verdict is that of the
  measured states together with an undecided one.
\<close>

lemma evaluate_checks_states:
  assumes "evaluate_checks g m = Inr checks"
  shows "\<exists>n. mapE check_state checks = Inr (replicate (Suc n) None @ measured_states g m)"
proof -
  from assms obtain totals deltas protected stability where parts:
    "total_delta_checks g m = Inr totals"
    "mapE (category_delta_check g m) (quality_categories g) = Inr deltas"
    "protected_check m = Inr protected"
    "mapE (stability_check (stability_checks m)) (required_stability_ids g) = Inr stability"
    and checks: "checks = [human_check g (human_categories m)] @ totals @ deltas @
          [protected, both_bad_check g (human_categories m), latency_check g (latency_p95 m),
           pss_check g (pss_kib m)] @ stability"
    by (auto simp: evaluate_checks_def)
  let ?front = "human_check g (human_categories m) # totals @ deltas @
       [protected, both_bad_check g (human_categories m)]"
  have t: "\<forall>c \<in> set totals. check_state c = Inr None"
    using parts(1) by (auto simp: total_delta_checks_def)
  have d: "\<forall>c \<in> set deltas. check_state c = Inr None"
  proof
    fix c assume "c \<in> set deltas"
    then obtain x where "category_delta_check g m x = Inr c"
      using mapE_member [OF parts(2)] by blast
    then show "check_state c = Inr None" by (rule category_delta_check_state)
  qed
  have p: "check_state protected = Inr None" using parts(3) by (auto simp: protected_check_def)
  have all: "\<forall>c \<in> set ?front. check_state c = Inr None" using t d p by (simp add: ball_Un)
  have front: "mapE check_state ?front = Inr (replicate (length ?front) None)"
    by (rule mapE_check_state_undecided, rule bspec [OF all])
  have "check_state (latency_check g (latency_p95 m)) = Inr (latency_state g m)"
    by (cases "latency_p95 m") (auto simp: latency_state_def latency_check_state)
  moreover have "check_state (pss_check g (pss_kib m)) = Inr (pss_state g m)"
    by (cases "pss_kib m") (auto simp: pss_state_def pss_check_state)
  ultimately have rest: "mapE check_state
       (latency_check g (latency_p95 m) # pss_check g (pss_kib m) # stability) =
       Inr (measured_states g m)"
    using mapE_stability_states [OF parts(4)] by (simp add: measured_states_def)
  have "checks = ?front @ latency_check g (latency_p95 m) # pss_check g (pss_kib m) # stability"
    by (simp add: checks)
  then have "mapE check_state checks = Inr (replicate (length ?front) None @ measured_states g m)"
    by (simp only: mapE_append front rest bindE.simps)
  then show ?thesis by (intro exI [of _ "length ?front - 1"]) simp
qed

lemma evaluate_checks_verdict:
  assumes "evaluate_checks g m = Inr checks"
  shows "derive_formal_result checks =
     Inr (if Some False \<in> set (measured_states g m) then Formal_Fail else Inconclusive)"
proof -
  from evaluate_checks_states [OF assms] obtain n where
    st: "mapE check_state checks = Inr (replicate (Suc n) None @ measured_states g m)" by blast
  show ?thesis
    unfolding derive_formal_result_def st by (auto simp: list_ex_iff)
qed

section \<open>No lookup fails on normalized metrics\<close>

definition gate_ok :: "GatePolicy \<Rightarrow> bool" where
  "gate_ok g \<longleftrightarrow>
     distinct (keys (all_categories g)) \<and> distinct (keys (quality_categories g)) \<and>
     distinct (required_stability_ids g) \<and>
     set (keys (quality_categories g)) \<subseteq> set (keys (all_categories g)) \<and>
     PROTECTED_CATEGORY \<in> set (keys (all_categories g)) \<and>
     set (keys (quality_categories g)) \<subseteq> set (keys (minimum_category_delta_hits g))"

lemma sealed_gate_ok: "gate_ok sealed_gate"
  by code_simp

lemma category_hits_defined:
  "backend_ok policy cats \<Longrightarrow> c \<in> set (keys (all_categories (gate policy))) \<Longrightarrow>
     \<exists>n. category_hits metric cats c = Inr n"
proof -
  assume "backend_ok policy cats" and c: "c \<in> set (keys (all_categories (gate policy)))"
  then have "keys cats = keys (all_categories (gate policy))"
    by (auto simp: backend_ok_def hits_ok_def intro: list_all2_keys)
  with c obtain v where "map_of cats c = Some v" by (metis keys_map_of_obtain)
  then show ?thesis by (simp add: category_hits_def)
qed

lemma total_hits_defined:
  "backend_ok policy cats \<Longrightarrow> gate_ok (gate policy) \<Longrightarrow> \<exists>n. total_hits (gate policy) metric cats = Inr n"
  using mapE_defined [of "keys (quality_categories (gate policy))" "category_hits metric cats"]
    category_hits_defined [of policy cats _ metric]
  by (fastforce simp: total_hits_def gate_ok_def)

lemma evaluate_checks_defined:
  assumes "norm_ok policy m" and "gate_ok (gate policy)"
  shows "\<exists>checks. evaluate_checks (gate policy) m = Inr checks"
proof -
  let ?g = "gate policy"
  have bk: "backend_ok policy (hazkey_categories m)" "backend_ok policy (candidate_categories m)"
    using assms(1) by (auto simp: norm_ok_def)
  have "\<exists>y. total_delta_checks ?g m = Inr y"
    using total_hits_defined [OF bk(1) assms(2)] total_hits_defined [OF bk(2) assms(2)]
    by (auto simp: total_delta_checks_def) metis
  moreover have "\<exists>y. mapE (category_delta_check ?g m) (quality_categories ?g) = Inr y"
  proof (rule mapE_defined)
    fix x assume x: "x \<in> set (quality_categories ?g)"
    obtain c n where xc: "x = (c, n)" by fastforce
    have c: "c \<in> set (keys (quality_categories ?g))" using x xc by (force simp: keys_def)
    then obtain h where "map_of (minimum_category_delta_hits ?g) c = Some h"
      using assms(2) by (metis gate_ok_def keys_map_of_obtain subset_iff)
    moreover have "c \<in> set (keys (all_categories ?g))" using c assms(2) by (auto simp: gate_ok_def)
    ultimately show "\<exists>y. category_delta_check ?g m x = Inr y"
      using category_hits_defined [OF bk(1)] category_hits_defined [OF bk(2)]
      by (auto simp: category_delta_check_def xc) metis
  qed
  moreover have "\<exists>y. protected_check m = Inr y"
    using category_hits_defined [OF bk(2), of PROTECTED_CATEGORY cat_top1_hits] assms(2)
    by (auto simp: protected_check_def gate_ok_def)
  moreover have "\<exists>y. mapE (stability_check (stability_checks m)) (required_stability_ids ?g) = Inr y"
  proof (rule mapE_defined)
    fix i assume i: "i \<in> set (required_stability_ids ?g)"
    show "\<exists>y. stability_check (stability_checks m) i = Inr y"
    proof (cases "stability_checks m")
      case (Some s)
      then have "i \<in> set (keys s)" using assms(1) i by (auto simp: norm_ok_def)
      then show ?thesis using Some by (auto simp: stability_check_def elim!: keys_map_of_obtain)
    qed (simp add: stability_check_def)
  qed
  ultimately show ?thesis by (auto simp: evaluate_checks_def)
qed
end
