(* ===== verification/Json_Text.thy ===== *)
theory Json_Text
  imports Json
begin

text \<open>
  \<open>json.dumps\<close> and \<open>json.loads\<close> as the tools call them.  The writer is the canonical one
  (\<open>ensure_ascii=False, sort_keys=True, separators=(",", ":")\<close>); the reader is the scanner of
  the standard library with the duplicate-key hook.  Texts are UTF-8 byte strings.  A lone
  surrogate escape, which a Python string can hold and UTF-8 cannot, is kept as its three
  generalised bytes, and encoding a text that holds one fails as \<open>str.encode\<close> does.  The
  interpreter's limits on nesting depth and on the number of digits are not modelled.
\<close>

section \<open>UTF-8\<close>

definition code :: "char \<Rightarrow> nat" where
  "code c = of_char c"

definition in_range :: "nat \<Rightarrow> nat \<Rightarrow> char \<Rightarrow> bool" where
  "in_range lo hi c \<longleftrightarrow> lo \<le> code c \<and> code c \<le> hi"

text \<open>
  The well-formed byte sequences: no overlong form, no surrogate, nothing above U+10FFFF.
  \<open>utf8_width\<close> is the number of bytes of the first character, 0 when it is ill-formed.
\<close>

fun follows :: "(nat \<times> nat) list \<Rightarrow> string \<Rightarrow> bool" where
  "follows [] s = True"
| "follows (r # rs) [] = False"
| "follows (r # rs) (c # s) = (in_range (fst r) (snd r) c \<and> follows rs s)"

text \<open>What a lead byte lets follow it.\<close>

definition continuation :: "char \<Rightarrow> (nat \<times> nat) list option" where
  "continuation a =
     (if in_range 194 223 a then Some [(128, 191)]
      else if in_range 224 239 a then
        Some [(if code a = 224 then 160 else 128, if code a = 237 then 159 else 191), (128, 191)]
      else if in_range 240 244 a then
        Some [(if code a = 240 then 144 else 128, if code a = 244 then 143 else 191),
              (128, 191), (128, 191)]
      else None)"

definition utf8_width :: "string \<Rightarrow> nat" where
  "utf8_width s =
     (case s of
        [] \<Rightarrow> 0
      | a # r \<Rightarrow>
          if code a < 128 then 1
          else (case continuation a of
                  None \<Rightarrow> 0
                | Some rs \<Rightarrow> if follows rs r then Suc (length rs) else 0))"

function utf8_ok :: "string \<Rightarrow> bool" where
  "utf8_ok s =
     (if s = [] then True
      else if utf8_width s = 0 then False
      else utf8_ok (drop (utf8_width s) s))"
  by auto
termination by (relation "measure length") auto

declare utf8_ok.simps [simp del]

lemma utf8_ok_Nil [simp]: "utf8_ok []"
  by (simp add: utf8_ok.simps)

lemma utf8_ok_ascii_Cons [simp]: "code a < 128 \<Longrightarrow> utf8_ok (a # s) \<longleftrightarrow> utf8_ok s"
  by (subst utf8_ok.simps) (simp add: utf8_width_def)

definition utf8_encode :: "nat \<Rightarrow> string" where
  "utf8_encode u =
     map char_of
       (if u < 128 then [u]
        else if u < 2048 then [192 + u div 64, 128 + u mod 64]
        else if u < 65536 then [224 + u div 4096, 128 + u div 64 mod 64, 128 + u mod 64]
        else [240 + u div 262144, 128 + u div 4096 mod 64, 128 + u div 64 mod 64, 128 + u mod 64])"

section \<open>Numbers as text\<close>

definition int_text :: "int \<Rightarrow> string" where
  "int_text i = (if i < 0 then CHR ''-'' # dec (nat (- i)) else dec (nat i))"

text \<open>
  \<open>float.__repr__\<close>: the shortest decimal that reads back as the same double.  \<open>exp10 x\<close> is
  the decimal exponent of a positive rational, \<open>shortest\<close> tries 1 to 17 digits.
\<close>

definition exp10 :: "rat \<Rightarrow> int" where
  "exp10 x =
     (if 1 \<le> x then int (length (dec (nat \<lfloor>x\<rfloor>))) - 1
      else let j = int (length (dec (nat \<lfloor>1 / x\<rfloor>))) - 1
           in if 10 powi (- j) \<le> x then - j else - j - 1)"

fun shortest :: "nat \<Rightarrow> nat \<Rightarrow> rat \<Rightarrow> string \<times> int" where
  "shortest 0 p x = (dec (nat (round_half_even (x / 10 powi (exp10 x - int p + 1)))), exp10 x + 1)"
| "shortest (Suc tries) p x =
     (let m = round_half_even (x / 10 powi (exp10 x - int p + 1));
          digits = dec (nat m)
      in if fl (of_int m * 10 powi (exp10 x - int p + 1)) = x
         then (digits, exp10 x + 1 + (int (length digits) - int p))
         else shortest tries (Suc p) x)"

definition zeros :: "int \<Rightarrow> string" where
  "zeros n = replicate (nat n) (CHR ''0'')"

definition strip_zeros :: "string \<Rightarrow> string" where
  "strip_zeros ds = rev (dropWhile (\<lambda>c. c = CHR ''0'') (rev ds))"

text \<open>Fixed notation for decimal exponents from -4 to 15, scientific notation otherwise.\<close>

definition float_layout :: "string \<Rightarrow> int \<Rightarrow> string" where
  "float_layout digits point =
     (let n = int (length digits)
      in if - 4 < point \<and> point \<le> 16 then
           (if point \<le> 0 then ''0.'' @ zeros (- point) @ digits
            else if n \<le> point then digits @ zeros (point - n) @ ''.0''
            else take (nat point) digits @ ''.'' @ drop (nat point) digits)
         else
           (take 1 digits @ (if n = 1 then [] else ''.'' @ drop 1 digits) @ ''e'' @
            (if point - 1 < 0 then ''-'' else ''+'') @
            (let e = dec (nat \<bar>point - 1\<bar>) in if length e = 1 then ''0'' @ e else e)))"

definition positive_float_text :: "rat \<Rightarrow> string" where
  "positive_float_text x =
     (let (digits, point) = shortest 16 1 x in float_layout (strip_zeros digits) point)"

fun float_text :: "pyfloat \<Rightarrow> string" where
  "float_text NaN = ''NaN''"
| "float_text (Infinity positive) = (if positive then ''Infinity'' else ''-Infinity'')"
| "float_text (Fin x) =
     (if x = 0 then ''0.0''
      else if x < 0 then CHR ''-'' # positive_float_text (- x) else positive_float_text x)"

section \<open>The canonical writer\<close>

definition hex_digit :: "nat \<Rightarrow> char" where
  "hex_digit d = char_of (if d < 10 then 48 + d else 87 + d)"

definition escape_char :: "char \<Rightarrow> string" where
  "escape_char c =
     (if c = CHR 0x22 then [CHR 0x5C, CHR 0x22]
      else if c = CHR 0x5C then [CHR 0x5C, CHR 0x5C]
      else if code c = 10 then [CHR 0x5C, CHR ''n'']
      else if code c = 13 then [CHR 0x5C, CHR ''r'']
      else if code c = 9 then [CHR 0x5C, CHR ''t'']
      else if code c = 12 then [CHR 0x5C, CHR ''f'']
      else if code c = 8 then [CHR 0x5C, CHR ''b'']
      else if code c < 32 then
        [CHR 0x5C, CHR ''u'', CHR ''0'', CHR ''0'', hex_digit (code c div 16), hex_digit (code c mod 16)]
      else [c])"

definition string_text :: "string \<Rightarrow> string" where
  "string_text s = CHR 0x22 # concat (map escape_char s) @ [CHR 0x22]"

fun comma_join :: "string list \<Rightarrow> string" where
  "comma_join [] = []"
| "comma_join [t] = t"
| "comma_join (t # u # ts) = t @ CHR '','' # comma_join (u # ts)"

definition member_text :: "string \<times> string \<Rightarrow> string" where
  "member_text = (\<lambda>(k, t). string_text k @ CHR '':'' # t)"

fun dumps :: "json \<Rightarrow> string"
and dumps_list :: "json list \<Rightarrow> string list"
and dumps_fields :: "obj \<Rightarrow> (string \<times> string) list" where
  "dumps JNull = ''null''"
| "dumps (JBool b) = (if b then ''true'' else ''false'')"
| "dumps (JInt i) = int_text i"
| "dumps (JFloat f) = float_text f"
| "dumps (JStr s) = string_text s"
| "dumps (JArr vs) = CHR ''['' # comma_join (dumps_list vs) @ '']''"
| "dumps (JObj d) =
     CHR ''{'' # comma_join (map member_text (sort_key fst (dumps_fields d))) @ ''}''"
| "dumps_list [] = []"
| "dumps_list (v # vs) = dumps v # dumps_list vs"
| "dumps_fields [] = []"
| "dumps_fields ((k, v) # d) = (k, dumps v) # dumps_fields d"

text \<open>\<open>_canonical_json\<close>: the text, encoded.\<close>

definition canonical_json :: "json \<Rightarrow> string res" where
  "canonical_json v =
     (if utf8_ok (dumps v) then Inr (dumps v) else Inl (ValueError ''surrogates not allowed''))"

section \<open>The scanner\<close>

definition is_ws :: "char \<Rightarrow> bool" where
  "is_ws c \<longleftrightarrow> code c = 32 \<or> code c = 9 \<or> code c = 10 \<or> code c = 13"

definition skip_ws :: "string \<Rightarrow> string" where
  "skip_ws s = dropWhile is_ws s"

definition hex_value :: "char \<Rightarrow> nat option" where
  "hex_value c =
     (if in_range 48 57 c then Some (code c - 48)
      else if in_range 97 102 c then Some (code c - 87)
      else if in_range 65 70 c then Some (code c - 55)
      else None)"

fun hex4 :: "string \<Rightarrow> (nat \<times> string) option" where
  "hex4 (a # b # c # d # s) =
     (case (hex_value a, hex_value b, hex_value c, hex_value d) of
        (Some w, Some x, Some y, Some z) \<Rightarrow> Some (4096 * w + 256 * x + 16 * y + z, s)
      | _ \<Rightarrow> None)"
| "hex4 s = None"

text \<open>A high surrogate takes a following \<open>\u\<close> escape with it when that is a low one.\<close>

fun surrogate_pair :: "nat \<Rightarrow> string \<Rightarrow> (nat \<times> string) option" where
  "surrogate_pair u (a # b # s) =
     (if 55296 \<le> u \<and> u \<le> 56319 \<and> a = CHR 0x5C \<and> b = CHR ''u'' then
        case hex4 s of
          None \<Rightarrow> None
        | Some (u2, s') \<Rightarrow>
            if 56320 \<le> u2 \<and> u2 \<le> 57343
            then Some (65536 + (u - 55296) * 1024 + (u2 - 56320), s')
            else Some (u, a # b # s)
      else Some (u, a # b # s))"
| "surrogate_pair u s = Some (u, s)"

definition simple_escape :: "char \<Rightarrow> char option" where
  "simple_escape e =
     (if e = CHR 0x22 \<or> e = CHR 0x5C \<or> e = CHR ''/'' then Some e
      else if e = CHR ''b'' then Some (char_of (8 :: nat))
      else if e = CHR ''f'' then Some (char_of (12 :: nat))
      else if e = CHR ''n'' then Some (char_of (10 :: nat))
      else if e = CHR ''r'' then Some (char_of (13 :: nat))
      else if e = CHR ''t'' then Some (char_of (9 :: nat))
      else None)"

definition prepend :: "string \<Rightarrow> (string \<times> string) option \<Rightarrow> (string \<times> string) option" where
  "prepend p r = map_option (\<lambda>(t, rest). (p @ t, rest)) r"

lemma hex4_length: "hex4 s = Some (u, r) \<Longrightarrow> length r + 4 = length s"
  by (induction s rule: hex4.induct) (auto split: option.splits)

lemma surrogate_pair_length: "surrogate_pair u s = Some (v, r) \<Longrightarrow> length r \<le> length s"
  by (induction u s rule: surrogate_pair.induct)
    (auto split: if_splits option.splits dest!: hex4_length)

text \<open>The rest of a string literal after its opening quote.\<close>

function scan_string :: "string \<Rightarrow> (string \<times> string) option" where
  "scan_string [] = None"
| "scan_string (c # s) =
     (if c = CHR 0x22 then Some ([], s)
      else if c = CHR 0x5C then
        (case s of
           [] \<Rightarrow> None
         | e # s1 \<Rightarrow>
             if e = CHR ''u'' then
               (case hex4 s1 of
                  None \<Rightarrow> None
                | Some (u, s2) \<Rightarrow>
                    (case surrogate_pair u s2 of
                       None \<Rightarrow> None
                     | Some (v, s3) \<Rightarrow> prepend (utf8_encode v) (scan_string s3)))
             else (case simple_escape e of
                     None \<Rightarrow> None
                   | Some d \<Rightarrow> prepend [d] (scan_string s1)))
      else if code c < 32 then None
      else prepend [c] (scan_string s))"
  by pat_completeness auto
termination
  by (relation "measure length") (auto dest!: hex4_length surrogate_pair_length)

declare scan_string.simps(2) [simp del]

text \<open>\<open>(-?(?:0|[1-9][0-9]*))(\.[0-9]+)?([eE][-+]?[0-9]+)?\<close>: the parts and the rest.\<close>

definition scan_int :: "string \<Rightarrow> (string \<times> string) option" where
  "scan_int s =
     (case s of
        [] \<Rightarrow> None
      | c # r \<Rightarrow>
          if c = CHR ''0'' then Some (''0'', r)
          else if is_digit c then Some (takeWhile is_digit s, dropWhile is_digit s)
          else None)"

definition scan_frac :: "string \<Rightarrow> string \<times> string" where
  "scan_frac s =
     (case s of
        [] \<Rightarrow> ([], s)
      | c # r \<Rightarrow>
          if c = CHR ''.'' \<and> takeWhile is_digit r \<noteq> []
          then (takeWhile is_digit r, dropWhile is_digit r) else ([], s))"

definition scan_exp :: "string \<Rightarrow> int option \<times> string" where
  "scan_exp s =
     (case s of
        [] \<Rightarrow> (None, s)
      | c # r \<Rightarrow>
          if c = CHR ''e'' \<or> c = CHR ''E'' then
            (let sign = (case r of [] \<Rightarrow> 0 | x # _ \<Rightarrow> if x = CHR ''-'' then - 1 else if x = CHR ''+'' then 1 else (0 :: int));
                 r1 = (if sign = 0 then r else drop 1 r)
             in if takeWhile is_digit r1 = [] then (None, s)
                else (Some ((if sign < 0 then - 1 else 1) * int (undec (takeWhile is_digit r1))),
                      dropWhile is_digit r1))
          else (None, s))"

definition decimal_float :: "rat \<Rightarrow> pyfloat" where
  "decimal_float x = (if fl_overflows x then Infinity (0 < x) else Fin (fl x))"

definition scan_number :: "string \<Rightarrow> (json \<times> string) option" where
  "scan_number s =
     (let negative = (case s of [] \<Rightarrow> False | c # _ \<Rightarrow> c = CHR ''-'');
          sign = (if negative then - 1 else 1);
          body = (if negative then drop 1 s else s)
      in case scan_int body of
           None \<Rightarrow> None
         | Some (whole, r) \<Rightarrow>
             let (frac, r1) = scan_frac r; (exponent, r2) = scan_exp r1
             in if frac = [] \<and> exponent = None then Some (JInt (sign * int (undec whole)), r)
                else Some (JFloat (decimal_float
                       (of_int sign * of_nat (undec (whole @ frac)) / 10 ^ length frac *
                        10 powi (case exponent of None \<Rightarrow> 0 | Some e \<Rightarrow> e))), r2))"

definition after_prefix :: "string \<Rightarrow> string \<Rightarrow> string option" where
  "after_prefix p s = (if take (length p) s = p then Some (drop (length p) s) else None)"

section \<open>Values\<close>

text \<open>
  \<open>PBad\<close> is a \<open>JSONDecodeError\<close>, \<open>PDup\<close> the exception of the hook; \<open>PFuel\<close> marks an
  exhausted recursion bound and does not occur with the bound that \<open>parse_document\<close> passes.
\<close>

datatype 'a presult = POk 'a string | PBad | PDup | PFuel

definition parse_literal :: "string \<Rightarrow> json presult" where
  "parse_literal s =
     (case after_prefix ''null'' s of Some r \<Rightarrow> POk JNull r | None \<Rightarrow>
     (case after_prefix ''true'' s of Some r \<Rightarrow> POk (JBool True) r | None \<Rightarrow>
     (case after_prefix ''false'' s of Some r \<Rightarrow> POk (JBool False) r | None \<Rightarrow>
     (case scan_number s of Some (v, r) \<Rightarrow> POk v r | None \<Rightarrow>
     (case after_prefix ''NaN'' s of Some r \<Rightarrow> POk (JFloat NaN) r | None \<Rightarrow>
     (case after_prefix ''Infinity'' s of Some r \<Rightarrow> POk (JFloat (Infinity True)) r | None \<Rightarrow>
     (case after_prefix ''-Infinity'' s of Some r \<Rightarrow> POk (JFloat (Infinity False)) r | None \<Rightarrow>
      PBad)))))))"

definition close_object :: "obj presult \<Rightarrow> json presult" where
  "close_object r =
     (case r of
        POk pairs rest \<Rightarrow>
          (case no_duplicate_keys pairs of Inl _ \<Rightarrow> PDup | Inr d \<Rightarrow> POk (JObj d) rest)
      | PBad \<Rightarrow> PBad | PDup \<Rightarrow> PDup | PFuel \<Rightarrow> PFuel)"

definition close_array :: "json list presult \<Rightarrow> json presult" where
  "close_array r =
     (case r of POk vs rest \<Rightarrow> POk (JArr vs) rest | PBad \<Rightarrow> PBad | PDup \<Rightarrow> PDup | PFuel \<Rightarrow> PFuel)"

fun parse_value :: "nat \<Rightarrow> string \<Rightarrow> json presult"
and parse_members :: "nat \<Rightarrow> obj \<Rightarrow> string \<Rightarrow> obj presult"
and parse_elements :: "nat \<Rightarrow> json list \<Rightarrow> string \<Rightarrow> json list presult" where
  "parse_value 0 s = PFuel"
| "parse_value (Suc n) s =
     (case s of
        [] \<Rightarrow> PBad
      | c # s1 \<Rightarrow>
          if c = CHR 0x22 then
            (case scan_string s1 of None \<Rightarrow> PBad | Some (t, r) \<Rightarrow> POk (JStr t) r)
          else if c = CHR ''{'' then
            (case skip_ws s1 of
               [] \<Rightarrow> PBad
             | d # s2 \<Rightarrow>
                 if d = CHR ''}'' then POk (JObj []) s2
                 else close_object (parse_members n [] (d # s2)))
          else if c = CHR ''['' then
            (case skip_ws s1 of
               [] \<Rightarrow> PBad
             | d # s2 \<Rightarrow>
                 if d = CHR '']'' then POk (JArr []) s2
                 else close_array (parse_elements n [] (d # s2)))
          else parse_literal s)"
| "parse_members 0 pairs s = PFuel"
| "parse_members (Suc n) pairs s =
     (case s of
        [] \<Rightarrow> PBad
      | q # s1 \<Rightarrow>
          if q \<noteq> CHR 0x22 then PBad
          else (case scan_string s1 of
             None \<Rightarrow> PBad
           | Some (key, s2) \<Rightarrow>
               (case skip_ws s2 of
                  [] \<Rightarrow> PBad
                | colon # s3 \<Rightarrow>
                    if colon \<noteq> CHR '':'' then PBad
                    else (case parse_value n (skip_ws s3) of
                       POk v s4 \<Rightarrow>
                         (case skip_ws s4 of
                            [] \<Rightarrow> PBad
                          | d # s5 \<Rightarrow>
                              if d = CHR ''}'' then POk (pairs @ [(key, v)]) s5
                              else if d = CHR '','' then parse_members n (pairs @ [(key, v)]) (skip_ws s5)
                              else PBad)
                     | PBad \<Rightarrow> PBad | PDup \<Rightarrow> PDup | PFuel \<Rightarrow> PFuel))))"
| "parse_elements 0 vs s = PFuel"
| "parse_elements (Suc n) vs s =
     (case parse_value n s of
        POk v s1 \<Rightarrow>
          (case skip_ws s1 of
             [] \<Rightarrow> PBad
           | d # s2 \<Rightarrow>
               if d = CHR '']'' then POk (vs @ [v]) s2
               else if d = CHR '','' then parse_elements n (vs @ [v]) (skip_ws s2)
               else PBad)
      | PBad \<Rightarrow> PBad | PDup \<Rightarrow> PDup | PFuel \<Rightarrow> PFuel)"

definition parse_document :: "string \<Rightarrow> json presult" where
  "parse_document text =
     (case parse_value (Suc (2 * length text)) (skip_ws text) of
        POk v r \<Rightarrow> if skip_ws r = [] then POk v [] else PBad
      | PBad \<Rightarrow> PBad | PDup \<Rightarrow> PDup | PFuel \<Rightarrow> PFuel)"

text \<open>\<open>_load_json_bytes\<close>\<close>

definition load_json_bytes :: "string \<Rightarrow> string \<Rightarrow> json res" where
  "load_json_bytes data context =
     (if \<not> utf8_ok data then Inl (ValueError (context @ '': invalid UTF-8''))
      else case parse_document data of
        POk v _ \<Rightarrow> Inr v
      | PDup \<Rightarrow> Inl (ValueError ''duplicate JSON key'')
      | _ \<Rightarrow> Inl (ValueError (context @ '': invalid JSON: '')))"

end
