(* ===== verification/Json_Roundtrip.thy ===== *)
theory Json_Roundtrip
  imports Json_Text
begin

text \<open>
  The reader and the writer of \<open>Json_Text\<close> against each other: every scanner consumes input,
  the recursion bound that \<open>parse_document\<close> passes is enough for every text, and reading what
  the canonical writer produced gives the document back with its fields sorted.  The interface
  \<open>codec\<close> states what a writer/reader pair promises; it is interpreted on the canonical JSON
  text and on decimal numbers.
\<close>

section \<open>What a scanner leaves\<close>

lemma skip_ws_length: "length (skip_ws s) \<le> length s"
  by (simp add: skip_ws_def length_dropWhile_le)

lemma prepend_Some [simp]: "prepend p x = Some (t, r) \<longleftrightarrow> (\<exists>t'. x = Some (t', r) \<and> t = p @ t')"
  by (auto simp: prepend_def)

lemma scan_string_length: "scan_string s = Some (t, r) \<Longrightarrow> length r < length s"
proof (induction s arbitrary: t r rule: scan_string.induct)
  case (2 c s)
  from "2.prems" "2.IH" show ?case
    by (subst (asm) scan_string.simps(2))
      (fastforce split: if_splits list.splits option.splits dest!: hex4_length surrogate_pair_length)
qed simp

lemma scan_int_length: "scan_int s = Some (w, r) \<Longrightarrow> length r < length s"
  by (auto simp: scan_int_def le_imp_less_Suc length_dropWhile_le split: list.splits if_splits)

lemma scan_frac_length: "scan_frac s = (w, r) \<Longrightarrow> length r \<le> length s"
  by (auto simp: scan_frac_def le_SucI length_dropWhile_le split: list.splits if_splits)

lemma scan_exp_length: "scan_exp s = (w, r) \<Longrightarrow> length r \<le> length s"
  by (auto simp: scan_exp_def Let_def le_SucI length_dropWhile_le
      intro!: le_trans [OF length_dropWhile_le] split: list.splits if_splits)

lemma scan_number_length: "scan_number s = Some (v, r) \<Longrightarrow> length r < length s"
  by (cases s)
    (auto simp: scan_number_def Let_def split: option.splits prod.splits if_splits
      dest!: scan_int_length scan_frac_length scan_exp_length)

lemma after_prefix_length: "after_prefix p s = Some r \<Longrightarrow> p \<noteq> [] \<Longrightarrow> length r < length s"
  by (cases s; cases p) (auto simp: after_prefix_def le_imp_less_Suc split: if_splits)

lemma parse_literal_length: "parse_literal s = POk v r \<Longrightarrow> length r < length s"
  by (auto simp: parse_literal_def split: option.splits prod.splits
      dest!: after_prefix_length scan_number_length)

lemma parse_literal_defined [simp]: "parse_literal s \<noteq> PFuel"
  by (auto simp: parse_literal_def split: option.splits prod.splits)

lemma close_object_POk:
  "close_object x = POk v r \<Longrightarrow> \<exists>pairs. x = POk pairs r"
  by (auto simp: close_object_def split: presult.splits sum.splits)

lemma close_array_POk:
  "close_array x = POk v r \<Longrightarrow> \<exists>vs. x = POk vs r \<and> v = JArr vs"
  by (auto simp: close_array_def split: presult.splits)

lemma close_PFuel [simp]:
  "close_object x = PFuel \<longleftrightarrow> x = PFuel" "close_array y = PFuel \<longleftrightarrow> y = PFuel"
  by (auto simp: close_object_def close_array_def split: presult.splits sum.splits)

lemma skip_ws_Cons: "skip_ws s = c # r \<Longrightarrow> length r < length s"
  using skip_ws_length [of s] by simp

lemmas scanner_lengths = scan_string_length parse_literal_length skip_ws_Cons

lemma parse_length:
  "parse_value n s = POk v r \<Longrightarrow> length r < length s"
  "parse_members n pairs s = POk ps r \<Longrightarrow> length r < length s"
  "parse_elements n vs s = POk us r \<Longrightarrow> length r < length s"
proof (induction n arbitrary: s v r pairs ps vs us)
  case (Suc n)
  note IH = Suc.IH(1) Suc.IH(2, 3) [THEN less_le_trans, OF _ skip_ws_length]
  {
    case 1
    then show ?case
      by (auto split: list.splits if_splits option.splits
          dest!: scanner_lengths close_object_POk close_array_POk Suc.IH)
  next
    case 2
    then show ?case
      by (auto split: list.splits if_splits option.splits presult.splits
          dest!: scanner_lengths IH(2) less_le_trans [OF Suc.IH(1) skip_ws_length])
  next
    case 3
    then show ?case
      by (auto split: list.splits if_splits option.splits presult.splits
          dest!: scanner_lengths IH)
  }
qed simp_all

lemma skip_ws_less: "length s < n \<Longrightarrow> length (skip_ws s) < n"
  using skip_ws_length [of s] by linarith

lemma parse_enough_fuel:
  "2 * length s < n \<Longrightarrow> parse_value n s \<noteq> PFuel"
  "2 * length s < n \<Longrightarrow> parse_members n pairs s \<noteq> PFuel"
  "Suc (2 * length s) < n \<Longrightarrow> parse_elements n vs s \<noteq> PFuel"
proof (induction n arbitrary: s pairs vs)
  case (Suc n)
  have starved:
    "parse_value n (skip_ws t) = PFuel \<Longrightarrow> n \<le> 2 * length t"
    "parse_members n ps (skip_ws t) = PFuel \<Longrightarrow> n \<le> 2 * length t"
    "parse_elements n us (skip_ws t) = PFuel \<Longrightarrow> n \<le> Suc (2 * length t)" for t ps us
    using Suc.IH(1) [of "skip_ws t"] Suc.IH(2) [of "skip_ws t"] Suc.IH(3) [of "skip_ws t"]
      skip_ws_length [of t] by fastforce+
  note shorter = parse_length(1) [THEN less_le_trans, OF _ skip_ws_length]
  {
    case 1
    then show ?case
      by (auto split: list.split option.split dest!: skip_ws_Cons
          simp: Suc.IH(2) [THEN not_sym] Suc.IH(2, 3))
  next
    case 2
    then show ?case
      by (auto split: list.split option.split presult.split
          dest!: scan_string_length skip_ws_Cons shorter starved)
  next
    case 3
    then show ?case
      by (auto split: list.split presult.split dest!: skip_ws_Cons parse_length(1) starved
          dest: Suc.IH(1) [rotated])
  }
qed simp_all

lemma parse_document_defined: "parse_document doc \<noteq> PFuel"
  using parse_enough_fuel(1) [of "skip_ws doc" "Suc (2 * length doc)"] skip_ws_length [of doc]
  by (auto simp: parse_document_def split: presult.split)

section \<open>Reading what was written\<close>

lemma hex_value_hex_digit: "d < 16 \<Longrightarrow> hex_value (hex_digit d) = Some d"
  by (auto simp: hex_value_def hex_digit_def in_range_def code_def)

lemma code_eq_iff: "code c = code d \<longleftrightarrow> c = d"
  by (simp add: code_def)

lemma char_of_code [simp]: "char_of (code c) = c"
  by (simp add: code_def)

lemma scan_string_plain:
  "c \<noteq> CHR 0x22 \<Longrightarrow> c \<noteq> CHR 0x5C \<Longrightarrow> 32 \<le> code c \<Longrightarrow> scan_string (c # s) = prepend [c] (scan_string s)"
  by (simp add: scan_string.simps(2))

lemma scan_string_escape:
  "scan_string (escape_char c @ s) = prepend [c] (scan_string s)"
proof (cases "c = CHR 0x22 \<or> c = CHR 0x5C \<or> code c = 10 \<or> code c = 13 \<or> code c = 9 \<or> code c = 12 \<or> code c = 8")
  case True
  have "c = char_of n" if "code c = n" for n
    using that by (simp add: code_def flip: that)
  note char = this
  from True show ?thesis
    by (elim disjE; simp add: escape_char_def scan_string.simps(2) simple_escape_def)
      (drule char; simp add: escape_char_def scan_string.simps(2) simple_escape_def code_def)+
next
  case False
  show ?thesis
  proof (cases "code c < 32")
    case True
    have "hex4 (CHR ''0'' # CHR ''0'' # hex_digit (code c div 16) # hex_digit (code c mod 16) # s)
        = Some (code c, s)"
      using True by (simp add: hex_value_hex_digit) (simp add: hex_value_def in_range_def code_def)
    moreover have "surrogate_pair (code c) s = Some (code c, s)"
      using True by (cases "(code c, s)" rule: surrogate_pair.cases) auto
    ultimately show ?thesis
      using True False by (simp add: escape_char_def scan_string.simps(2) utf8_encode_def)
  qed (use False in \<open>simp add: escape_char_def scan_string_plain\<close>)
qed

lemma scan_string_text: "scan_string (concat (map escape_char s) @ CHR 0x22 # r) = Some (s, r)"
  by (induction s) (simp_all add: scan_string_escape scan_string.simps(2) prepend_def)

text \<open>What may follow a number without being read as a part of it.\<close>

definition stops_number :: "string \<Rightarrow> bool" where
  "stops_number r \<longleftrightarrow>
     (case r of [] \<Rightarrow> True
      | c # _ \<Rightarrow> \<not> is_digit c \<and> c \<noteq> CHR ''.'' \<and> c \<noteq> CHR ''e'' \<and> c \<noteq> CHR ''E'')"

lemma stops_number_scan:
  "stops_number r \<Longrightarrow> scan_frac r = ([], r)" "stops_number r \<Longrightarrow> scan_exp r = (None, r)"
  "stops_number r \<Longrightarrow> takeWhile is_digit (dec n @ r) = dec n"
  "stops_number r \<Longrightarrow> dropWhile is_digit (dec n @ r) = r"
  using dec_digits [of _ n]
  by (cases r; auto simp: stops_number_def scan_frac_def scan_exp_def
      takeWhile_append2 dropWhile_append2)+

lemma dec_head_zero: "dec n = CHR ''0'' # s \<Longrightarrow> n = 0 \<and> s = []"
proof (induction n arbitrary: s rule: dec.induct)
  case (1 n)
  show ?case
  proof (cases "n < 10")
    case True
    with 1(2) have "digit_char n = CHR ''0'' \<and> s = []" by (subst (asm) dec.simps) simp
    moreover from this have "48 + n = of_char (CHR ''0'')"
      using of_char_digit [OF True] by (simp del: digit_char.simps)
    ultimately show ?thesis by simp
  next
    case False
    obtain c t where ct: "dec (n div 10) = c # t" by (cases "dec (n div 10)") auto
    from False 1(2) ct have "c = CHR ''0''" by (subst (asm) dec.simps) simp
    with 1(1) [of t] ct False have "n div 10 = 0" by auto
    with False show ?thesis by simp
  qed
qed

lemma scan_int_dec: "stops_number r \<Longrightarrow> scan_int (dec n @ r) = Some (dec n, r)"
proof (cases "dec n")
  case (Cons c s)
  assume r: "stops_number r"
  show ?thesis
  proof (cases "c = CHR ''0''")
    case True
    with Cons dec_head_zero [of n s] show ?thesis by (simp add: scan_int_def)
  next
    case False
    with Cons dec_digits [of c n] stops_number_scan(3, 4) [OF r, of n]
    show ?thesis by (simp add: scan_int_def)
  qed
qed simp

lemma scan_number_int: "stops_number r \<Longrightarrow> scan_number (int_text i @ r) = Some (JInt i, r)"
proof -
  assume r: "stops_number r"
  obtain c s where cs: "dec (nat i) = c # s" by (cases "dec (nat i)") auto
  with dec_digits [of c "nat i"] have "c \<noteq> CHR ''-''" by (auto simp: is_digit_def)
  then show ?thesis
    using cs scan_int_dec [OF r, of "nat i"] scan_int_dec [OF r, of "nat (- i)"]
      undec_dec [of "nat i"] undec_dec [of "nat (- i)"]
    by (cases "i < 0") (simp_all add: int_text_def scan_number_def stops_number_scan r del: undec.simps undec_dec)
qed

section \<open>Documents\<close>

fun float_free :: "json \<Rightarrow> bool" where
  "float_free (JFloat f) \<longleftrightarrow> False"
| "float_free (JArr vs) \<longleftrightarrow> (\<forall>v \<in> set vs. float_free v)"
| "float_free (JObj d) \<longleftrightarrow> (\<forall>kv \<in> set d. float_free (snd kv))"
| "float_free v \<longleftrightarrow> True"

text \<open>The same document with the fields of every object in the order the writer puts them.\<close>

fun key_sorted :: "json \<Rightarrow> json" where
  "key_sorted (JArr vs) = JArr (map key_sorted vs)"
| "key_sorted (JObj d) = JObj (sort_key fst (map (\<lambda>kv. (fst kv, key_sorted (snd kv))) d))"
| "key_sorted v = v"

lemma dumps_list_map: "dumps_list vs = map dumps vs"
  by (induction vs) auto

lemma dumps_fields_map: "dumps_fields d = map (\<lambda>kv. (fst kv, dumps (snd kv))) d"
  by (induction d) auto

lemma dumps_object:
  "dumps (JObj d) =
     CHR ''{'' # comma_join (map (\<lambda>kv. member_text (fst kv, dumps (snd kv))) (sort_key fst d)) @ ''}''"
  by (simp add: dumps_fields_map sort_key_map comp_def)

lemma key_sorted_object:
  "key_sorted (JObj d) = JObj (map (\<lambda>kv. (fst kv, key_sorted (snd kv))) (sort_key fst d))"
  by (simp add: sort_key_map comp_def)

definition stops_value :: "string \<Rightarrow> bool" where
  "stops_value r \<longleftrightarrow> (r = [] \<or> hd r \<in> set '',]}'')"

lemma stops_value_number: "stops_value r \<Longrightarrow> stops_number r"
  by (cases r) (auto simp: stops_value_def stops_number_def is_digit_def)

lemma stops_value_skip [simp]: "stops_value r \<Longrightarrow> skip_ws r = r"
  by (cases r) (auto simp: stops_value_def skip_ws_def is_ws_def code_def)

text \<open>What a value can start with.\<close>

definition starts_value :: "string \<Rightarrow> bool" where
  "starts_value s \<longleftrightarrow>
     (case s of [] \<Rightarrow> False
      | c # _ \<Rightarrow> \<not> is_ws c \<and> c \<noteq> CHR '']'' \<and> c \<noteq> CHR ''}'' \<and> c \<noteq> CHR '','' \<and> c \<noteq> CHR '':'')"

lemma int_text_head: "\<exists>c s. int_text i = c # s \<and> (is_digit c \<or> c = CHR ''-'')"
  using dec_digits [of "hd (dec (nat i))" "nat i"]
  by (cases "dec (nat i)") (auto simp: int_text_def)

lemma starts_value_dumps: "float_free v \<Longrightarrow> starts_value (dumps v @ r)"
proof (cases v)
  case (JInt i)
  then show ?thesis
    using int_text_head [of i] by (auto simp: starts_value_def is_digit_def is_ws_def code_def)
qed (auto simp: starts_value_def is_ws_def code_def string_text_def)

lemma starts_value_skip [simp]: "starts_value s \<Longrightarrow> skip_ws s = s"
  by (cases s) (auto simp: starts_value_def skip_ws_def)

lemma parse_literal_text:
  "parse_literal (''null'' @ r) = POk JNull r"
  "parse_literal (''true'' @ r) = POk (JBool True) r"
  "parse_literal (''false'' @ r) = POk (JBool False) r"
  by (simp_all add: parse_literal_def after_prefix_def)

lemma parse_literal_int:
  assumes "stops_number r" shows "parse_literal (int_text i @ r) = POk (JInt i) r"
proof -
  obtain c s where c: "int_text i = c # s" and "is_digit c \<or> c = CHR ''-''"
    using int_text_head by blast
  then have "c \<noteq> CHR ''n''" "c \<noteq> CHR ''t''" "c \<noteq> CHR ''f''" by (auto simp: is_digit_def)
  with c scan_number_int [OF assms, of i] show ?thesis
    by (simp add: parse_literal_def after_prefix_def)
qed

lemma no_duplicate_keys_distinct: "distinct (keys d) \<Longrightarrow> no_duplicate_keys d = Inr d"
  by (simp add: no_duplicate_keys_iff)

lemma comma_join_Cons: "comma_join (t # ts) = t @ (if ts = [] then [] else CHR '','' # comma_join ts)"
  by (cases ts) auto

lemma parse_elements_text:
  assumes "us \<noteq> []" and "Suc (2 * length (comma_join (map dumps us) @ CHR '']'' # r)) < n"
    and "\<And>u n r. u \<in> set us \<Longrightarrow> stops_number r \<Longrightarrow> 2 * length (dumps u @ r) < n \<Longrightarrow>
           parse_value n (dumps u @ r) = POk (key_sorted u) r"
    and "\<forall>u \<in> set us. float_free u"
  shows "parse_elements n vs (comma_join (map dumps us) @ CHR '']'' # r)
       = POk (vs @ map key_sorted us) r"
  using assms
proof (induction us arbitrary: n vs)
  case (Cons u us)
  obtain m where n: "n = Suc m" using Cons.prems(2) by (cases n) auto
  let ?rest = "(if us = [] then [] else CHR '','' # comma_join (map dumps us)) @ CHR '']'' # r"
  have rest: "stops_value ?rest" by (simp add: stops_value_def)
  note rest_number = stops_value_number [OF rest]
  have "parse_value m (dumps u @ ?rest) = POk (key_sorted u) ?rest"
    using Cons.prems n rest_number by (intro Cons.prems(3)) (auto simp: comma_join_Cons split: if_splits)
  then show ?case
    using Cons.IH [of m "vs @ [key_sorted u]"] Cons.prems n rest
      starts_value_dumps [of "hd us"]
    by (cases us) (auto simp: comma_join_Cons)
qed simp

abbreviation field_text :: "string \<times> json \<Rightarrow> string" where
  "field_text kv \<equiv> member_text (fst kv, dumps (snd kv))"

lemma field_text_head: "\<exists>t. field_text kv @ s = CHR 0x22 # t \<and> length t < length (field_text kv @ s)"
  by (simp add: member_text_def string_text_def)

lemma starts_value_field [simp]: "starts_value (field_text kv @ s)"
  by (simp add: member_text_def string_text_def starts_value_def is_ws_def code_def)

lemma starts_value_fields: "d \<noteq> [] \<Longrightarrow> starts_value (comma_join (map field_text d) @ s)"
proof (cases d)
  case (Cons kv d')
  then show ?thesis by (simp only: list.map comma_join_Cons append_assoc starts_value_field)
qed simp

lemma parse_members_text:
  assumes "d \<noteq> []" and "2 * length (comma_join (map field_text d) @ CHR ''}'' # r) < n"
    and "\<And>kv n r. kv \<in> set d \<Longrightarrow> stops_number r \<Longrightarrow> 2 * length (dumps (snd kv) @ r) < n \<Longrightarrow>
           parse_value n (dumps (snd kv) @ r) = POk (key_sorted (snd kv)) r"
    and "\<forall>kv \<in> set d. float_free (snd kv)"
  shows "parse_members n ps (comma_join (map field_text d) @ CHR ''}'' # r)
       = POk (ps @ map (\<lambda>kv. (fst kv, key_sorted (snd kv))) d) r"
  using assms
proof (induction d arbitrary: n ps)
  case (Cons kv d)
  obtain m where n: "n = Suc m" using Cons.prems(2) by (cases n) auto
  let ?rest = "(if d = [] then [] else CHR '','' # comma_join (map field_text d)) @ CHR ''}'' # r"
  have rest: "stops_value ?rest" by (simp add: stops_value_def)
  note rest_number = stops_value_number [OF rest]
  have whole: "comma_join (map field_text (kv # d)) @ CHR ''}'' # r =
      CHR 0x22 # concat (map escape_char (fst kv)) @ CHR 0x22 # CHR '':'' # dumps (snd kv) @ ?rest"
    by (simp add: comma_join_Cons member_text_def string_text_def)
  have val: "parse_value m (dumps (snd kv) @ ?rest) = POk (key_sorted (snd kv)) ?rest"
    using Cons.prems(2) n rest_number unfolding whole by (intro Cons.prems(3)) auto
  have colon: "skip_ws (CHR '':'' # s) = CHR '':'' # s" for s
    by (simp add: skip_ws_def is_ws_def code_def)
  have start: "starts_value (dumps (snd kv) @ ?rest)"
    using Cons.prems(4) by (intro starts_value_dumps) simp
  have following: "starts_value (comma_join (map field_text d) @ CHR ''}'' # r)" if "d \<noteq> []"
    using that by (rule starts_value_fields)
  have room: "2 * length (comma_join (map field_text d) @ CHR ''}'' # r) < m" if "d \<noteq> []"
    using Cons.prems(2) that n unfolding whole by simp
  show ?case
    unfolding whole n
    using val colon start rest Cons.IH [of m "ps @ [(fst kv, key_sorted (snd kv))]"] Cons.prems room following
    by (cases "d = []") (simp_all add: scan_string_text)
qed simp

theorem parse_value_dumps:
  "float_free v \<Longrightarrow> wf_json v \<Longrightarrow> stops_number r \<Longrightarrow> 2 * length (dumps v @ r) < n \<Longrightarrow>
   parse_value n (dumps v @ r) = POk (key_sorted v) r"
proof (induction v arbitrary: n r)
  case (JArr us)
  then obtain m where n: "n = Suc m" by (cases n) auto
  show ?case
  proof (cases "us = []")
    case True
    with n show ?thesis by (simp add: skip_ws_def is_ws_def code_def)
  next
    case False
    have "starts_value (comma_join (map dumps us) @ CHR '']'' # r)"
      using False JArr.prems(1) starts_value_dumps [of "hd us"]
      by (cases us) (auto simp: comma_join_Cons)
    moreover have "parse_elements m [] (comma_join (map dumps us) @ CHR '']'' # r) = POk ([] @ map key_sorted us) r"
      using JArr n False by (intro parse_elements_text) (auto simp: dumps_list_map)
    ultimately show ?thesis
      using n by (auto simp: dumps_list_map close_array_def starts_value_def split: list.splits)
  qed
next
  case (JObj d)
  then obtain m where n: "n = Suc m" by (cases n) auto
  show ?case
  proof (cases "d = []")
    case True
    with n show ?thesis by (simp add: skip_ws_def is_ws_def code_def)
  next
    case False
    let ?d = "sort_key fst d"
    have ne: "?d \<noteq> []" using False by (metis set_empty set_sort)
    have "starts_value (comma_join (map field_text ?d) @ CHR ''}'' # r)"
      using ne by (rule starts_value_fields)
    moreover have "parse_members m [] (comma_join (map field_text ?d) @ CHR ''}'' # r)
        = POk ([] @ map (\<lambda>kv. (fst kv, key_sorted (snd kv))) ?d) r"
      using JObj n ne unfolding dumps_object
      by (intro parse_members_text) (auto simp: snds.simps)
    moreover have "distinct (keys (map (\<lambda>kv. (fst kv, key_sorted (snd kv))) ?d))"
      using JObj.prems(2) by (simp add: keys_def comp_def distinct_map)
    ultimately show ?thesis
      using n unfolding dumps_object key_sorted_object
      by (auto simp: close_object_def no_duplicate_keys_distinct starts_value_def split: list.splits)
  qed
next
  case (JInt i)
  obtain c s where c: "int_text i = c # s" and "is_digit c \<or> c = CHR ''-''"
    using int_text_head by blast
  then have "c \<noteq> CHR 0x22" "c \<noteq> CHR ''{''" "c \<noteq> CHR ''[''" by (auto simp: is_digit_def)
  with parse_literal_int [OF JInt.prems(3), of i] JInt.prems(4) c
  show ?case by (cases n) auto
next
  case (JStr s)
  then show ?case by (cases n) (simp_all add: string_text_def scan_string_text)
qed (case_tac n; simp add: parse_literal_text [simplified] split: if_splits)+

text \<open>White space after the document, such as a final line feed, is accepted.\<close>

lemma parse_document_dumps:
  assumes "float_free v" and "wf_json v" and "list_all is_ws tail"
  shows "parse_document (dumps v @ tail) = POk (key_sorted v) []"
proof -
  have "stops_number tail"
    using assms(3) by (cases tail) (auto simp: stops_number_def is_ws_def code_def is_digit_def)
  then have "parse_value (Suc (2 * length (dumps v @ tail))) (dumps v @ tail) = POk (key_sorted v) tail"
    by (intro parse_value_dumps assms) auto
  moreover have "skip_ws (dumps v @ tail) = dumps v @ tail"
    using starts_value_dumps [OF assms(1)] by simp
  moreover have "skip_ws tail = []"
    using assms(3) by (simp add: skip_ws_def list_all_iff)
  ultimately show ?thesis by (simp add: parse_document_def)
qed

lemma map_of_map_snd: "map_of (map (\<lambda>kv. (fst kv, f (snd kv))) d) k = map_option f (map_of d k)"
  by (induction d) auto

text \<open>Sorting the fields is invisible to Python's equality.\<close>

lemma pyeq_key_sorted: "float_free v \<Longrightarrow> wf_json v \<Longrightarrow> pyeq (key_sorted v) v"
proof (induction v)
  case (JArr us)
  then show ?case by (auto simp: pyeq_JArr list_all2_conv_all_nth)
next
  case (JObj d)
  have "\<exists>u. map_of (map (\<lambda>kv. (fst kv, key_sorted (snd kv))) (sort_key fst d)) k = Some u \<and> pyeq u e"
    if kv: "(k, e) \<in> set d" for k e
    using JObj kv by (force simp: map_of_map_snd map_of_sort_key keys_def)
  then show ?case
    unfolding key_sorted_object pyeq_JObj by (auto simp: keys_def image_image)
qed auto

section \<open>Writer and reader as an interface\<close>

locale codec =
  fixes enc :: "'a \<Rightarrow> 'b" and decode :: "'b \<Rightarrow> 'a option" and ok :: "'a \<Rightarrow> bool" and nrm :: "'a \<Rightarrow> 'a"
  assumes decode_enc: "ok x \<Longrightarrow> decode (enc x) = Some (nrm x)"
begin

lemma enc_eq: "ok x \<Longrightarrow> ok y \<Longrightarrow> enc x = enc y \<Longrightarrow> nrm x = nrm y"
  by (metis decode_enc option.inject)

lemma decode_range: "ok x \<Longrightarrow> \<exists>y. decode (enc x) = Some y"
  by (simp add: decode_enc)

end

text \<open>Codecs that lose nothing.\<close>

locale exact_codec = codec enc decode ok "\<lambda>x. x"
  for enc :: "'a \<Rightarrow> 'b" and decode :: "'b \<Rightarrow> 'a option" and ok :: "'a \<Rightarrow> bool"
begin

lemma enc_inject: "ok x \<Longrightarrow> ok y \<Longrightarrow> enc x = enc y \<longleftrightarrow> x = y"
  using enc_eq by blast

end

definition read_document :: "string \<Rightarrow> json option" where
  "read_document s = (case parse_document s of POk v _ \<Rightarrow> Some v | _ \<Rightarrow> None)"

definition read_literal :: "string \<Rightarrow> string option" where
  "read_literal s = (case s of [] \<Rightarrow> None | _ # t \<Rightarrow> map_option fst (scan_string t))"

interpretation canonical: codec dumps read_document "\<lambda>v. float_free v \<and> wf_json v" key_sorted
  using parse_document_dumps [where tail = "[]"] by unfold_locales (simp add: read_document_def)

interpretation literal: exact_codec string_text read_literal "\<lambda>_. True"
  by unfold_locales (simp add: read_literal_def string_text_def scan_string_text)

interpretation decimal: exact_codec dec "\<lambda>s. Some (undec s)" "\<lambda>_. True"
  by unfold_locales (simp del: undec.simps)

section \<open>Well-formed text from well-formed strings\<close>

lemma follows_append: "follows rs s \<Longrightarrow> follows rs (s @ t)"
  by (induction rs s rule: follows.induct) auto

lemma follows_length: "follows rs s \<Longrightarrow> length rs \<le> length s"
  by (induction rs s rule: follows.induct) auto

lemma follows_take:
  "follows rs s \<Longrightarrow> \<forall>r \<in> set rs. 128 \<le> fst r \<Longrightarrow> \<forall>c \<in> set (take (length rs) s). 128 \<le> code c"
  by (induction rs s rule: follows.induct) (auto simp: in_range_def)

lemma continuation_high: "continuation a = Some rs \<Longrightarrow> \<forall>r \<in> set rs. 128 \<le> fst r"
  by (auto simp: continuation_def split: if_splits)

lemma utf8_width_append: "utf8_width s \<noteq> 0 \<Longrightarrow> utf8_width (s @ t) = utf8_width s"
  by (cases s) (auto simp: utf8_width_def follows_append split: option.splits if_splits)

lemma utf8_width_length: "utf8_width s \<le> length s"
  by (cases s) (auto simp: utf8_width_def split: option.splits dest!: follows_length)

lemma utf8_width_high:
  "utf8_width (a # s) \<noteq> 0 \<Longrightarrow> 128 \<le> code a \<Longrightarrow>
     \<forall>c \<in> set (take (utf8_width (a # s)) (a # s)). 128 \<le> code c"
  by (auto simp: utf8_width_def split: if_splits option.splits dest!: follows_take continuation_high)

lemma utf8_ok_append: "utf8_ok s \<Longrightarrow> utf8_ok t \<Longrightarrow> utf8_ok (s @ t)"
proof (induction s rule: utf8_ok.induct)
  case (1 s)
  show ?case
  proof (cases "s = []")
    case False
    then have "utf8_width s \<noteq> 0" "utf8_ok (drop (utf8_width s) s)"
      using "1.prems"(1) utf8_ok.simps [of s] by (auto split: if_splits)
    with False 1 show ?thesis
      by (subst utf8_ok.simps) (simp add: utf8_width_append utf8_width_length)
  qed (use 1 in simp)
qed

lemma utf8_ok_chunk:
  assumes "\<forall>c \<in> set p. escape_char c = [c]" and "utf8_width p = length p" and "p \<noteq> []"
    and "utf8_ok s"
  shows "utf8_ok (concat (map escape_char p) @ s)"
proof -
  have "concat (map escape_char p) = p" using assms(1) by (induction p) auto
  with assms(2-4) show ?thesis by (subst utf8_ok.simps) (simp add: utf8_width_append)
qed

lemma utf8_ok_ascii: "list_all (\<lambda>c. code c < 128) s \<Longrightarrow> utf8_ok s"
  by (induction s) auto

lemma code_hex_digit: "d < 16 \<Longrightarrow> code (hex_digit d) < 128"
  by (auto simp: hex_digit_def code_def)

lemma escape_char_utf8: "code c < 128 \<Longrightarrow> utf8_ok (escape_char c)"
  using code_hex_digit [of "code c div 16"] code_hex_digit [of "code c mod 16"]
  by (intro utf8_ok_ascii) (auto simp: escape_char_def code_def)

lemma escape_char_high: "128 \<le> code c \<Longrightarrow> escape_char c = [c]"
  by (auto simp: escape_char_def code_def)

lemma follows_prefix: "length rs \<le> n \<Longrightarrow> follows rs (take n s) = follows rs s"
  by (induction rs s arbitrary: n rule: follows.induct) (auto simp: take_Cons')

lemma utf8_width_take: "utf8_width s \<noteq> 0 \<Longrightarrow> utf8_width (take (utf8_width s) s) = utf8_width s"
  by (cases s) (auto simp: utf8_width_def follows_prefix split: option.splits)

lemma escaped_utf8: "utf8_ok s \<Longrightarrow> utf8_ok (concat (map escape_char s))"
proof (induction s rule: utf8_ok.induct)
  case (1 s)
  show ?case
  proof (cases s)
    case (Cons a r)
    let ?w = "utf8_width s"
    have w: "?w \<noteq> 0" and rest: "utf8_ok (concat (map escape_char (drop ?w s)))"
      using 1 Cons utf8_ok.simps [of s] by (auto split: if_splits)
    show ?thesis
    proof (cases "code a < 128")
      case True
      then have "?w = 1" by (simp add: Cons utf8_width_def)
      with True rest Cons show ?thesis by (simp add: utf8_ok_append escape_char_utf8)
    next
      case False
      then have "\<forall>c \<in> set (take ?w s). escape_char c = [c]"
        using utf8_width_high [of a r] w Cons by (auto intro!: escape_char_high)
      then have "utf8_ok (concat (map escape_char (take ?w s)) @ concat (map escape_char (drop ?w s)))"
        using w Cons rest utf8_width_take [OF w] utf8_width_length [of s]
        by (intro utf8_ok_chunk) (simp_all add: min_absorb2)
      then show ?thesis
        by (simp flip: concat_append map_append)
    qed
  qed simp
qed

lemma string_text_utf8: "utf8_ok s \<Longrightarrow> utf8_ok (string_text s)"
  by (simp add: string_text_def utf8_ok_append escaped_utf8 code_def)

lemma dec_ascii: "list_all (\<lambda>c. code c < 128) (dec n)"
  using dec_digits [of _ n] by (force simp: list_all_iff is_digit_def code_def)

lemma int_text_utf8: "utf8_ok (int_text i)"
  using dec_ascii by (intro utf8_ok_ascii) (simp add: int_text_def code_def)

lemma shortest_digits: "\<exists>n. fst (shortest k p x) = dec n"
  by (induction k p x rule: shortest.induct) (auto simp: Let_def)

lemma list_all_take_drop: "list_all P s \<Longrightarrow> list_all P (take n s)" "list_all P s \<Longrightarrow> list_all P (drop n s)"
  by (auto simp: list_all_iff dest: in_set_takeD in_set_dropD)

lemma zeros_ascii: "list_all (\<lambda>c. code c < 128) (zeros n)"
  by (simp add: zeros_def code_def list_all_iff)

lemma float_layout_ascii:
  assumes "list_all (\<lambda>c. code c < 128) digits"
  shows "list_all (\<lambda>c. code c < 128) (float_layout digits point)"
proof -
  have ch: "code (CHR ''0'') < 128" "code (CHR ''.'') < 128" "code (CHR ''e'') < 128"
    "code (CHR ''-'') < 128" "code (CHR ''+'') < 128"
    by (simp_all add: code_def)
  show ?thesis
    unfolding float_layout_def Let_def
    by (simp only: split: if_split)
      (simp only: list_all_append list_all_append list.pred_inject ch assms dec_ascii zeros_ascii
        list_all_take_drop simp_thms split: if_split)
qed

lemma positive_float_ascii: "list_all (\<lambda>c. code c < 128) (positive_float_text x)"
proof -
  obtain n point where sh: "shortest 16 1 x = (dec n, point)"
    using shortest_digits [of 16 1 x] by (metis prod.collapse)
  have "list_all (\<lambda>c. code c < 128) (strip_zeros (dec n))"
    using dec_ascii [of n] by (auto simp: strip_zeros_def list_all_iff dest: set_dropWhileD)
  then show ?thesis
    unfolding positive_float_text_def sh by (simp add: float_layout_ascii)
qed

lemma float_text_utf8: "utf8_ok (float_text f)"
proof (cases f)
  case (Fin x)
  then show ?thesis
    using positive_float_ascii [of x] positive_float_ascii [of "- x"]
    by (intro utf8_ok_ascii) (simp add: code_def)
qed (simp_all add: code_def)

fun utf8_json :: "json \<Rightarrow> bool" where
  "utf8_json (JStr s) \<longleftrightarrow> utf8_ok s"
| "utf8_json (JArr vs) \<longleftrightarrow> (\<forall>v \<in> set vs. utf8_json v)"
| "utf8_json (JObj d) \<longleftrightarrow> (\<forall>kv \<in> set d. utf8_ok (fst kv) \<and> utf8_json (snd kv))"
| "utf8_json v \<longleftrightarrow> True"

lemma comma_join_utf8: "\<forall>t \<in> set ts. utf8_ok t \<Longrightarrow> utf8_ok (comma_join ts)"
  by (induction ts rule: comma_join.induct) (auto intro!: utf8_ok_append simp: code_def)

lemma dumps_utf8: "utf8_json v \<Longrightarrow> utf8_ok (dumps v)"
proof (induction v)
  case (JArr vs)
  then have "utf8_ok (comma_join (dumps_list vs))"
    by (intro comma_join_utf8) (auto simp: dumps_list_map)
  then show ?case by (simp add: utf8_ok_append code_def)
next
  case (JObj d)
  have "utf8_ok (comma_join (map field_text (sort_key fst d)))"
    using JObj by (intro comma_join_utf8)
      (fastforce simp: member_text_def code_def intro!: utf8_ok_append string_text_utf8)
  then show ?case unfolding dumps_object by (simp add: utf8_ok_append code_def)
qed (simp_all add: int_text_utf8 float_text_utf8 string_text_utf8 code_def)

lemma canonical_json_defined: "utf8_json v \<Longrightarrow> canonical_json v = Inr (dumps v)"
  by (simp add: canonical_json_def dumps_utf8)

text \<open>Loading what the canonical writer produced.\<close>

lemma load_canonical_json:
  assumes "float_free v" "wf_json v" "canonical_json v = Inr data" "list_all is_ws tail"
  shows "load_json_bytes (data @ tail) ctx = Inr (key_sorted v)"
proof -
  have data: "data = dumps v" "utf8_ok (dumps v)"
    using assms(3) by (auto simp: canonical_json_def split: if_splits)
  moreover have "utf8_ok tail"
    using assms(4) by (intro utf8_ok_ascii) (auto simp: list_all_iff is_ws_def)
  ultimately show ?thesis
    using parse_document_dumps [OF assms(1, 2, 4)] by (simp add: load_json_bytes_def utf8_ok_append)
qed

end
