(* ===== verification/Sha256.thy ===== *)
theory Sha256
  imports Json "HOL-Library.Word"
begin

text \<open>
  \<open>hashlib.sha256\<close>: the digest of FIPS 180-4 on byte strings, in 32-bit words, and the two
  spellings the tools use: the bare hexadecimal digest and the one with the \<open>sha256:\<close> prefix.
\<close>

unbundle bit_operations_syntax

type_synonym w32 = "32 word"

definition rotr :: "nat \<Rightarrow> w32 \<Rightarrow> w32" where
  "rotr n x = drop_bit n x OR push_bit (32 - n) x"

text \<open>
  The constants of the standard are the first 32 fractional bits of roots of primes: cube roots for
  the rounds, square roots for the initial state.  \<open>int_root e bits n\<close> is the largest number of so
  many bits whose power is at most \<open>n\<close>; the word drops the integer part.
\<close>

definition int_root :: "nat \<Rightarrow> nat \<Rightarrow> nat \<Rightarrow> nat" where
  "int_root e bits n =
     foldl (\<lambda>r i. if (r + 2 ^ i) ^ e \<le> n then r + 2 ^ i else r) 0 (rev [0..<bits])"

definition round_primes :: "nat list" where
  "round_primes =
     [2, 3, 5, 7, 11, 13, 17, 19, 23, 29, 31, 37, 41, 43, 47, 53,
      59, 61, 67, 71, 73, 79, 83, 89, 97, 101, 103, 107, 109, 113, 127, 131,
      137, 139, 149, 151, 157, 163, 167, 173, 179, 181, 191, 193, 197, 199, 211, 223,
      227, 229, 233, 239, 241, 251, 257, 263, 269, 271, 277, 281, 283, 293, 307, 311]"

definition sha_k :: "w32 list" where
  "sha_k = map (\<lambda>p. of_nat (int_root 3 36 (p * 2 ^ 96))) round_primes"

definition sha_init :: "w32 list" where
  "sha_init = map (\<lambda>p. of_nat (int_root 2 36 (p * 2 ^ 64))) (take 8 round_primes)"

section \<open>Padding\<close>

fun byte_words :: "nat list \<Rightarrow> w32 list" where
  "byte_words (a # b # c # d # s) =
     of_nat (16777216 * a + 65536 * b + 256 * c + d) # byte_words s"
| "byte_words s = []"

text \<open>The bit length as eight bytes, most significant first.\<close>

definition length_bytes :: "nat \<Rightarrow> nat list" where
  "length_bytes n = map (\<lambda>i. 8 * n div 256 ^ i mod 256) [7, 6, 5, 4, 3, 2, 1, 0]"

definition sha_pad :: "nat list \<Rightarrow> nat list" where
  "sha_pad s = s @ 128 # replicate ((119 - length s mod 64) mod 64) 0 @ length_bytes (length s)"

section \<open>Compression\<close>

definition sha_next :: "w32 \<Rightarrow> w32 \<Rightarrow> w32 \<Rightarrow> w32 \<Rightarrow> w32" where
  "sha_next w0 w1 w9 w14 =
     w0 + (rotr 7 w1 XOR rotr 18 w1 XOR drop_bit 3 w1) + w9 +
     (rotr 17 w14 XOR rotr 19 w14 XOR drop_bit 10 w14)"

text \<open>The 16 newest schedule words are a sliding window; each round consumes its oldest.\<close>

fun sha_rounds :: "w32 list \<Rightarrow> w32 list \<Rightarrow> w32 list \<Rightarrow> w32 list" where
  "sha_rounds (k # ks) (w0 # w1 # ws) [a, b, c, d, e, f, g, h] =
     (let t1 = h + (rotr 6 e XOR rotr 11 e XOR rotr 25 e) + ((e AND f) XOR (NOT e AND g)) + k + w0;
          t2 = (rotr 2 a XOR rotr 13 a XOR rotr 22 a) +
               ((a AND b) XOR (a AND c) XOR (b AND c))
      in sha_rounds ks (w1 # ws @ [sha_next w0 w1 (ws ! 7) (ws ! 12)])
           [t1 + t2, a, b, c, d + t1, e, f, g])"
| "sha_rounds ks ws st = st"

definition sha_block :: "w32 list \<Rightarrow> w32 list \<Rightarrow> w32 list" where
  "sha_block st ws = map2 (+) st (sha_rounds sha_k ws st)"

fun sha_blocks :: "nat \<Rightarrow> w32 list \<Rightarrow> w32 list \<Rightarrow> w32 list" where
  "sha_blocks 0 ws st = st"
| "sha_blocks (Suc n) ws st = sha_blocks n (drop 16 ws) (sha_block st (take 16 ws))"

definition sha_words :: "nat list \<Rightarrow> w32 list" where
  "sha_words s = (let ws = byte_words (sha_pad s) in sha_blocks (length ws div 16) ws sha_init)"

section \<open>The digest as text\<close>

definition hex_char :: "nat \<Rightarrow> char" where
  "hex_char d = char_of (if d < 10 then 48 + d else 87 + d)"

definition word_hex :: "w32 \<Rightarrow> string" where
  "word_hex w = map (\<lambda>i. hex_char (unat w div 16 ^ i mod 16)) [7, 6, 5, 4, 3, 2, 1, 0]"

definition sha256_hex :: "string \<Rightarrow> string" where
  "sha256_hex s = concat (map word_hex (sha_words (map of_char s)))"

text \<open>\<open>_sha256_bytes\<close>\<close>

definition sha256_bytes :: "string \<Rightarrow> string" where
  "sha256_bytes s = ''sha256:'' @ sha256_hex s"

lemma sha_rounds_length [simp]: "length st = 8 \<Longrightarrow> length (sha_rounds ks ws st) = 8"
  by (induction ks ws st rule: sha_rounds.induct) (auto simp: Let_def)

lemma sha_blocks_length [simp]: "length st = 8 \<Longrightarrow> length (sha_blocks n ws st) = 8"
  by (induction n ws st rule: sha_blocks.induct) (auto simp: sha_block_def)

lemma length_word_hex [simp]: "length (word_hex w) = 8"
  by (simp add: word_hex_def)

lemma length_concat_word_hex: "length (concat (map word_hex ws)) = 8 * length ws"
  by (induction ws) auto

text \<open>A digest has 64 digits, all of them lower-case hexadecimal, as \<open>_sha256\<close> demands.\<close>

lemma sha256_hex_length [simp]: "length (sha256_hex s) = 64"
  by (simp add: sha256_hex_def length_concat_word_hex sha_words_def Let_def sha_init_def round_primes_def)

lemma hex_char_digit: "d < 16 \<Longrightarrow> is_lower_hex (hex_char d)"
  by (auto simp: hex_char_def is_lower_hex_def is_digit_def)

lemma sha256_hex_digits: "list_all is_lower_hex (sha256_hex s)"
  by (auto simp: sha256_hex_def word_hex_def list_all_iff intro!: hex_char_digit)

lemma sha256_bytes_nonempty [simp]: "sha256_bytes s \<noteq> []"
  by (simp add: sha256_bytes_def)

lemma sha256_bytes_pattern [simp]: "sha256_pattern (sha256_bytes s)"
  by (simp add: sha256_pattern_def sha256_bytes_def sha256_hex_digits)

end
