(* ===== verification/Gate_Result.thy ===== *)
theory Gate_Result
  imports Sealed_Policy Gate_Checks Json_Roundtrip Sha256
begin

text \<open>
  The outer functions of \<open>evaluate_mozc_adoption_v2_gate.py\<close>: reading bound files, loading the
  policy from bytes, the result document with its integrity digest, the check of a prior B0
  result and \<open>evaluate_metrics\<close>.
\<close>

section \<open>Files\<close>

text \<open>
  What the operating system shows of one opened file: the two \<open>fstat\<close> results and what the
  successive \<open>os.read\<close> calls return, up to the first empty one.
\<close>

record FileStat =
  st_regular :: bool
  st_dev :: nat
  st_ino :: nat
  st_size :: nat
  st_mtime_ns :: int

record OpenFile =
  stat_before :: FileStat
  os_reads :: "string list"
  stat_after :: FileStat

fun read_chunks :: "string list \<Rightarrow> string list" where
  "read_chunks [] = []"
| "read_chunks (chunk # later) = (if chunk = [] then [] else chunk # read_chunks later)"

definition identity :: "FileStat \<Rightarrow> nat \<times> nat \<times> nat \<times> int" where
  "identity s = (st_dev s, st_ino s, st_size s, st_mtime_ns s)"

text \<open>\<open>_read_regular\<close>; \<open>None\<close> is an \<open>open\<close> that fails, a symbolic link included (\<open>O_NOFOLLOW\<close>).\<close>

definition read_regular :: "OpenFile option \<Rightarrow> string \<Rightarrow> string res" where
  "read_regular opened ctx =
     (case opened of
        None \<Rightarrow> Inl OSError
      | Some f \<Rightarrow>
          bindE (raise_if (\<not> st_regular (stat_before f))
                   (ValueError (ctx @ '' must be a regular non-symlink file''))) (\<lambda>_.
          let data = concat (read_chunks (os_reads f)) in
          bindE (raise_if (identity (stat_before f) \<noteq> identity (stat_after f)
                           \<or> length data \<noteq> st_size (stat_before f))
                   (ValueError (ctx @ '' changed while it was read''))) (\<lambda>_.
          Inr data)))"

definition safe_bound_path :: "string list \<Rightarrow> string \<Rightarrow> string \<Rightarrow> string list res" where
  "safe_bound_path base raw ctx =
     bindE (raise_if (is_absolute raw \<or> ''..'' \<in> set (path_parts raw)
                      \<or> path_name (path_parts raw) \<in> {[], ''.'', ''..''})
              (ValueError (ctx @ '' must be a self-contained relative path''))) (\<lambda>_.
     Inr (base @ path_parts raw))"

section \<open>The policy\<close>

definition parse_policy :: "string \<Rightarrow> string \<Rightarrow> ParsedPolicy res" where
  "parse_policy data context =
     bindE (load_json_bytes data context) (\<lambda>loaded.
     parse_policy_root loaded context (sha256_bytes data))"

definition verify_bound_file ::
  "(string list \<Rightarrow> OpenFile option) \<Rightarrow> string list \<Rightarrow> string \<times> string \<times> string \<Rightarrow> unit res" where
  "verify_bound_file files base = (\<lambda>(label, raw_path, digest).
     bindE (safe_bound_path base raw_path label) (\<lambda>bound.
     bindE (read_regular (files bound) label) (\<lambda>data.
     raise_if (sha256_bytes data \<noteq> digest) (ValueError (label @ '' hash mismatch: '')))))"

text \<open>\<open>load_policy\<close>; a path is the list of its parts, \<open>files\<close> what opening a path gives.\<close>

definition bound_files :: "ParsedPolicy \<Rightarrow> (string \<times> string \<times> string) list" where
  "bound_files policy =
     [(''sealed corpus manifest'', manifest_path policy, manifest_sha256 policy),
      (''sealed formal corpus'', corpus_path policy, corpus_sha256 policy),
      (''sealed corpus policy'', source_policy_path policy, source_policy_sha256 policy)]"

definition load_policy ::
  "(string list \<Rightarrow> OpenFile option) \<Rightarrow> string list \<Rightarrow> bool \<Rightarrow> ParsedPolicy res" where
  "load_policy files path verify_bound_files =
     bindE (read_regular (files path) ''formal gate policy'') (\<lambda>data.
     bindE (parse_policy data (join_with (CHR ''/'') path)) (\<lambda>policy.
     bindE (if verify_bound_files
            then eachE (verify_bound_file files (butlast path)) (bound_files policy)
            else Inr ()) (\<lambda>_.
     Inr policy)))"

section \<open>The result document\<close>

definition encode_result :: "json \<Rightarrow> string res" where
  "encode_result result = bindE (canonical_json result) (\<lambda>encoded. Inr (encoded @ [CHR 0x0A]))"

definition corpus_json :: "ParsedPolicy \<Rightarrow> json" where
  "corpus_json policy =
     JObj [(''manifest_sha256'', JStr (manifest_sha256 policy)),
           (''sha256'', JStr (corpus_sha256 policy)),
           (''total_cases'', JInt (total_cases (gate policy))),
           (''quality_cases'', JInt (quality_cases (gate policy)))]"

text \<open>The verdict that the document carries: nothing is decided while a protocol is not ready.\<close>

definition reported_verdict :: "ParsedPolicy \<Rightarrow> verdict \<Rightarrow> verdict" where
  "reported_verdict policy derived =
     (if protected_input_protocol_status policy \<noteq> ''ready''
         \<or> mixed_input_protocol_status policy \<noteq> ''ready''
      then Inconclusive else derived)"

definition fingerprint_of :: "ParsedPolicy \<Rightarrow> string \<Rightarrow> string res" where
  "fingerprint_of policy candidate =
     (case map_of (candidate_resource_fingerprints policy) candidate of
        None \<Rightarrow> Inl (KeyError candidate) | Some f \<Rightarrow> Inr f)"

definition result_base ::
  "ParsedPolicy \<Rightarrow> NormMetrics \<Rightarrow> obj list \<Rightarrow> string option \<Rightarrow> obj res" where
  "result_base policy metrics checks prior_sha256 =
     bindE (derive_formal_result checks) (\<lambda>derived.
     bindE (fingerprint_of policy (candidate_id metrics)) (\<lambda>fingerprint.
     Inr [(''schema'', JStr RESULT_SCHEMA),
          (''decision_tier'', JStr DECISION_TIER),
          (''formal_evidence_status'', JStr (formal_evidence_status policy)),
          (''formal_adoption_allowed'', JBool (formal_adoption_allowed policy)),
          (''gate_result'', JStr (verdict_name (reported_verdict policy derived))),
          (''policy_id'', JStr (policy_id policy)),
          (''policy_sha256'', JStr (policy_sha256 policy)),
          (''candidate_id'', JStr (candidate_id metrics)),
          (''candidate_resource_fingerprint'', JStr fingerprint),
          (''corpus'', corpus_json policy),
          (''prior_b0_result_sha256'',
            case prior_sha256 of None \<Rightarrow> JNull | Some d \<Rightarrow> JStr d),
          (''metrics'', JObj (metrics_json metrics)),
          (''checks'', JArr (map JObj checks))]))"

section \<open>A prior B0 result\<close>

definition result_fields :: "string list" where
  "result_fields =
     [''schema'', ''decision_tier'', ''formal_evidence_status'', ''formal_adoption_allowed'',
      ''gate_result'', ''policy_id'', ''policy_sha256'', ''candidate_id'',
      ''candidate_resource_fingerprint'', ''corpus'', ''prior_b0_result_sha256'', ''metrics'',
      ''checks'', ''integrity'']"

definition validate_prior_b0_result :: "ParsedPolicy \<Rightarrow> string \<Rightarrow> string res" where
  "validate_prior_b0_result policy data =
     (let ctx = ''prior B0 result'' in
      bindE (load_json_bytes data ctx) (\<lambda>loaded.
      bindE (as_object loaded ctx) (\<lambda>payload.
      bindE (encode_result (JObj payload)) (\<lambda>encoded.
      bindE (raise_if (data \<noteq> encoded)
               (ValueError ''prior B0 result must use canonical JSON encoding'')) (\<lambda>_.
      bindE (exact_fields payload result_fields ctx) (\<lambda>_.
      bindE (item as_sha256 payload ''integrity'' ctx) (\<lambda>integrity.
      bindE (canonical_json (JObj (filter (\<lambda>kv. fst kv \<noteq> ''integrity'') payload))) (\<lambda>base.
      bindE (expect (JStr integrity) (JStr (sha256_bytes base)) (dot ctx ''integrity'')) (\<lambda>_.
      bindE (expect_item payload ''schema'' (JStr RESULT_SCHEMA) ctx) (\<lambda>_.
      bindE (expect_item payload ''decision_tier'' (JStr DECISION_TIER) ctx) (\<lambda>_.
      bindE (expect_item payload ''formal_evidence_status''
               (JStr (formal_evidence_status policy)) ctx) (\<lambda>_.
      bindE (expect_item payload ''formal_adoption_allowed''
               (JBool (formal_adoption_allowed policy)) ctx) (\<lambda>_.
      bindE (expect_item payload ''policy_id'' (JStr (policy_id policy)) ctx) (\<lambda>_.
      bindE (expect_item payload ''policy_sha256'' (JStr (policy_sha256 policy)) ctx) (\<lambda>_.
      bindE (expect_item payload ''candidate_id'' (JStr ''B0'') ctx) (\<lambda>_.
      bindE (fingerprint_of policy ''B0'') (\<lambda>fingerprint.
      bindE (expect_item payload ''candidate_resource_fingerprint'' (JStr fingerprint) ctx) (\<lambda>_.
      bindE (expect_item payload ''prior_b0_result_sha256'' JNull ctx) (\<lambda>_.
      bindE (expect_item payload ''corpus'' (corpus_json policy) ctx) (\<lambda>_.
      bindE (item as_object payload ''metrics'' ctx) (\<lambda>raw.
      bindE (normalize_metrics policy raw) (\<lambda>metrics.
      bindE (expect (JStr (candidate_id metrics)) (JStr ''B0'') (dot ctx ''metrics.candidate_id'')) (\<lambda>_.
      bindE (evaluate_checks (gate policy) metrics) (\<lambda>expected_checks.
      bindE (expect_item payload ''checks'' (JArr (map JObj expected_checks)) ctx) (\<lambda>_.
      bindE (derive_formal_result expected_checks) (\<lambda>expected_result.
      bindE (expect_item payload ''gate_result'' (JStr (verdict_name expected_result)) ctx) (\<lambda>_.
      bindE (expect (JStr (verdict_name expected_result)) (JStr ''formal_fail'')
               (dot ctx ''gate_result'')) (\<lambda>_.
      Inr (sha256_bytes data)))))))))))))))))))))))))))))"

section \<open>The evaluator\<close>

definition prior_digest ::
  "ParsedPolicy \<Rightarrow> string \<Rightarrow> string option \<Rightarrow> string option res" where
  "prior_digest policy candidate prior_b0_result =
     (if candidate = ''B0'' then
        bindE (raise_if (prior_b0_result \<noteq> None)
                 (ValueError ''B0 evaluation must not supply a prior B0 result'')) (\<lambda>_.
        Inr None)
      else if candidate = ''B1'' then
        bindE (raise_if (formal_evidence_status policy \<noteq> ''ready'')
                 (ValueError ''B1 evaluation is blocked until a raw-evidence wrapper can verify a B0 formal_fail result''))
          (\<lambda>_.
        case prior_b0_result of
          None \<Rightarrow> Inl (ValueError ''B1 evaluation requires an integrity-bound B0 formal_fail result'')
        | Some data \<Rightarrow> bindE (validate_prior_b0_result policy data) (\<lambda>digest. Inr (Some digest)))
      else Inl (ValueError ''only B0 and B1 are eligible for the v2 holdout''))"

definition evaluate_metrics :: "ParsedPolicy \<Rightarrow> obj \<Rightarrow> string option \<Rightarrow> obj res" where
  "evaluate_metrics policy metrics prior_b0_result =
     bindE (normalize_metrics policy metrics) (\<lambda>normalized.
     bindE (prior_digest policy (candidate_id normalized) prior_b0_result) (\<lambda>prior_sha256.
     bindE (evaluate_checks (gate policy) normalized) (\<lambda>checks.
     bindE (result_base policy normalized checks prior_sha256) (\<lambda>base.
     bindE (canonical_json (JObj base)) (\<lambda>encoded.
     Inr (base @ [(''integrity'', JStr (sha256_bytes encoded))]))))))"

section \<open>Documents that the canonical form represents exactly\<close>

definition canonical_ok :: "json \<Rightarrow> bool" where
  "canonical_ok v \<longleftrightarrow> float_free v \<and> wf_json v \<and> utf8_json v"

lemma canonical_ok_simps [simp]:
  "canonical_ok JNull" "canonical_ok (JBool b)" "canonical_ok (JInt i)"
  "canonical_ok (JStr s) \<longleftrightarrow> utf8_ok s"
  "canonical_ok (JArr vs) \<longleftrightarrow> (\<forall>v \<in> set vs. canonical_ok v)"
  "canonical_ok (JObj d) \<longleftrightarrow> distinct (keys d) \<and> (\<forall>kv \<in> set d. utf8_ok (fst kv) \<and> canonical_ok (snd kv))"
  by (auto simp: canonical_ok_def)

lemma utf8_ok_literal [simp]: "utf8_ok (Char b0 b1 b2 b3 b4 b5 b6 False # s) \<longleftrightarrow> utf8_ok s"
  by (rule utf8_ok_ascii_Cons) (simp add: code_def)

lemma sha256_hex_utf8: "sha256_pattern s \<Longrightarrow> utf8_ok s"
proof -
  assume s: "sha256_pattern s"
  then have "s = ''sha256:'' @ drop 7 s" by (metis append_take_drop_id sha256_pattern_def)
  moreover have "utf8_ok (drop 7 s)"
    using s by (intro utf8_ok_ascii)
      (auto simp: sha256_pattern_def list_all_iff is_lower_hex_def is_digit_def code_def)
  ultimately show ?thesis by (metis utf8_ok_append utf8_ok_literal utf8_ok_Nil)
qed

lemma decimal_pattern_utf8: "decimal_pattern s \<Longrightarrow> utf8_ok s"
proof (rule utf8_ok_ascii)
  assume p: "decimal_pattern s"
  have digit: "is_digit c \<Longrightarrow> code c < 128" for c by (simp add: is_digit_def code_def)
  have "list_all (\<lambda>c. code c < 128) (takeWhile is_digit s)"
    by (auto simp: list_all_iff digit dest: set_takeWhileD)
  moreover have "list_all (\<lambda>c. code c < 128) (dropWhile is_digit s)"
  proof (cases "dropWhile is_digit s")
    case Nil
    show ?thesis unfolding Nil by simp
  next
    case (Cons c t)
    with p have "c = CHR ''.''" "list_all is_digit t" by (simp_all add: decimal_pattern_def)
    then show ?thesis unfolding Cons by (simp add: list_all_iff digit) (simp add: code_def)
  qed
  ultimately show "list_all (\<lambda>c. code c < 128) s"
    by (metis list_all_append takeWhile_dropWhile_id)
qed

text \<open>The strings of a gate and of normalized metrics are well-formed UTF-8.\<close>

definition gate_text_ok :: "GatePolicy \<Rightarrow> bool" where
  "gate_text_ok g \<longleftrightarrow>
     list_all utf8_ok (keys (quality_categories g)) \<and> list_all utf8_ok (required_stability_ids g) \<and>
     list_all utf8_ok (keys (all_categories g))"

lemma sealed_gate_text_ok: "gate_text_ok sealed_gate"
  by (simp add: gate_text_ok_def sealed_gate_def QUALITY_CATEGORIES_def ALL_CATEGORIES_def
      REQUIRED_STABILITY_IDS_def PROTECTED_CATEGORY_def)

lemma check_obj_ok:
  "canonical_ok (JObj (check_obj i p a c l)) \<longleftrightarrow>
     utf8_ok i \<and> canonical_ok a \<and> canonical_ok c \<and> canonical_ok l"
  by (auto simp: check_obj_def split: option.splits)

lemma check_shapes_ok:
  "canonical_ok (JObj (not_run i l)) \<longleftrightarrow> utf8_ok i \<and> canonical_ok l"
  "canonical_ok (JObj (invalid_interaction_check i a l)) \<longleftrightarrow> utf8_ok i \<and> canonical_ok a \<and> canonical_ok l"
  "canonical_ok (comparison_obj x operator y) \<longleftrightarrow> utf8_ok operator"
  by (auto simp: not_run_def invalid_interaction_check_def check_obj_ok comparison_obj_def
      simp del: canonical_ok_simps(6)) (auto simp: comparison_obj_def)

lemma delta_check_ok: "utf8_ok i \<Longrightarrow> canonical_ok (JObj (delta_check i b c n p h))"
  by (simp add: delta_check_def Let_def check_shapes_ok del: canonical_ok_simps(6))
    (simp add: check_shapes_ok)

lemma evaluate_checks_ok:
  assumes checks: "evaluate_checks (gate policy) m = Inr checks"
    and strings: "gate_text_ok (gate policy)" and m: "norm_ok policy m"
  shows "\<forall>c \<in> set checks. canonical_ok (JObj c)"
proof -
  let ?g = "gate policy"
  from checks obtain totals deltas protected stability where parts:
    "total_delta_checks ?g m = Inr totals"
    "mapE (category_delta_check ?g m) (quality_categories ?g) = Inr deltas"
    "protected_check m = Inr protected"
    "mapE (stability_check (stability_checks m)) (required_stability_ids ?g) = Inr stability"
    and cs: "checks = [human_check ?g (human_categories m)] @ totals @ deltas @
          [protected, both_bad_check ?g (human_categories m), latency_check ?g (latency_p95 m),
           pss_check ?g (pss_kib m)] @ stability"
    by (auto simp: evaluate_checks_def)
  note shapes = check_obj_ok check_shapes_ok delta_check_ok
  have "canonical_ok (JObj c)" if "c \<in> set totals" for c
    using that parts(1) by (auto simp: total_delta_checks_def shapes simp del: canonical_ok_simps(6))
  moreover have "canonical_ok (JObj c)" if c: "c \<in> set deltas" for c
  proof -
    obtain x where x: "x \<in> set (quality_categories ?g)" "category_delta_check ?g m x = Inr c"
      using mapE_member [OF parts(2) c] by blast
    then have "utf8_ok (fst x)" using strings by (auto simp: gate_text_ok_def list_all_iff keys_def)
    with x(2) show ?thesis
      by (auto simp: category_delta_check_def shapes simp del: canonical_ok_simps(6)
          split: prod.splits option.splits)
  qed
  moreover have "canonical_ok (JObj c)" if c: "c \<in> set stability" for c
  proof -
    obtain x where x: "x \<in> set (required_stability_ids ?g)" "stability_check (stability_checks m) x = Inr c"
      using mapE_member [OF parts(4) c] by blast
    then have "utf8_ok x" using strings by (auto simp: gate_text_ok_def list_all_iff)
    with x(2) show ?thesis
      by (auto simp: stability_check_def shapes simp del: canonical_ok_simps(6) split: option.splits)
        simp
  qed
  moreover have "canonical_ok (JObj protected)"
    using parts(3)
    by (auto simp: protected_check_def shapes simp del: canonical_ok_simps(6))
      (auto simp: str_arr_def PROTECTED_INPUT_PROTOCOL_STATUS_def PROTECTED_INPUT_REQUIRED_SUITE_IDS_def)
  moreover have "canonical_ok (JObj (human_check ?g (human_categories m)))"
    by (simp add: human_check_def Let_def shapes split: option.split del: canonical_ok_simps(6))
      (simp add: human_limit_def shapes)
  moreover have "canonical_ok (JObj (both_bad_check ?g (human_categories m)))"
    by (simp add: both_bad_check_def shapes split: option.split del: canonical_ok_simps(6)) simp
  moreover have "canonical_ok (JObj (latency_check ?g (latency_p95 m)))"
    using m by (auto simp: latency_check_def Let_def shapes norm_ok_def latency_ok_def decimal_pattern_utf8
        simp del: canonical_ok_simps(6) split: option.split prod.split) (auto simp: decimal_pattern_utf8)
  moreover have "canonical_ok (JObj (pss_check ?g (pss_kib m)))"
    by (simp add: pss_check_def Let_def shapes split: option.split del: canonical_ok_simps(6)) simp
  ultimately show ?thesis unfolding cs by (simp only: set_append set_simps ball_Un) blast
qed

section \<open>The shipped policy in the evaluator\<close>

lemma sealed_policy_simps [simp]:
  "gate (sealed_policy d) = sealed_gate"
  "policy_sha256 (sealed_policy d) = d"
  "formal_evidence_status (sealed_policy d) = FORMAL_EVIDENCE_STATUS"
  "formal_adoption_allowed (sealed_policy d) = FORMAL_ADOPTION_ALLOWED"
  "protected_input_protocol_status (sealed_policy d) = PROTECTED_INPUT_PROTOCOL_STATUS"
  "mixed_input_protocol_status (sealed_policy d) = MIXED_INPUT_PROTOCOL_STATUS"
  "policy_id (sealed_policy d) = POLICY_ID"
  "manifest_path (sealed_policy d) = expected_manifest_path"
  "corpus_path (sealed_policy d) = expected_corpus_path"
  "source_policy_path (sealed_policy d) = expected_source_policy_path"
  "manifest_sha256 (sealed_policy d) = MANIFEST_SHA256"
  "corpus_sha256 (sealed_policy d) = CORPUS_SHA256"
  "source_policy_sha256 (sealed_policy d) = SOURCE_POLICY_SHA256"
  "candidate_resource_fingerprints (sealed_policy d) = RUNTIME_RESOURCE_FINGERPRINTS"
  by (simp_all add: sealed_policy_def make_policy_def)

lemma parse_policy_sound:
  "parse_policy data ctx = Inr p \<Longrightarrow>
     p = sealed_policy (sha256_bytes data) \<and>
     (\<exists>v. load_json_bytes data ctx = Inr v \<and> pyeq v sealed_policy_document)"
  using parse_policy_root_sound by (auto simp: parse_policy_def)

lemma sealed_not_ready:
  "FORMAL_EVIDENCE_STATUS \<noteq> ''ready''" "PROTECTED_INPUT_PROTOCOL_STATUS \<noteq> ''ready''"
  "FORMAL_ADOPTION_ALLOWED = False"
  by (simp_all add: FORMAL_EVIDENCE_STATUS_def PROTECTED_INPUT_PROTOCOL_STATUS_def
      FORMAL_ADOPTION_ALLOWED_def)

lemma reported_verdict_sealed [simp]: "reported_verdict (sealed_policy d) v = Inconclusive"
  by (simp add: reported_verdict_def sealed_not_ready)

lemma prior_digest_sealed:
  "prior_digest (sealed_policy d) c prior = Inr x \<longleftrightarrow> c = ''B0'' \<and> prior = None \<and> x = None"
  by (auto simp: prior_digest_def sealed_not_ready)

text \<open>What a result of the evaluator consists of.\<close>

lemma evaluate_metrics_iff:
  "evaluate_metrics policy metrics prior = Inr r \<longleftrightarrow>
     (\<exists>m sha checks base. normalize_metrics policy metrics = Inr m \<and>
        prior_digest policy (candidate_id m) prior = Inr sha \<and>
        evaluate_checks (gate policy) m = Inr checks \<and>
        result_base policy m checks sha = Inr base \<and> utf8_ok (dumps (JObj base)) \<and>
        r = base @ [(''integrity'', JStr (sha256_bytes (dumps (JObj base))))])"
  by (auto simp: evaluate_metrics_def canonical_json_def simp del: dumps.simps)

lemma map_values_ok:
  "distinct (keys d) \<Longrightarrow> list_all utf8_ok (keys d) \<Longrightarrow> (\<And>kv. kv \<in> set d \<Longrightarrow> canonical_ok (f (snd kv))) \<Longrightarrow>
     canonical_ok (JObj (map_values f d))"
  by (auto simp: map_values_def keys_def list_all_iff split_def comp_def)

lemma norm_ok_keys:
  assumes "norm_ok policy m"
  shows "keys (hazkey_categories m) = keys (all_categories (gate policy))"
    "keys (candidate_categories m) = keys (all_categories (gate policy))"
    "human_categories m = Some h \<Longrightarrow> keys h = keys (quality_categories (gate policy))"
    "stability_checks m = Some st \<Longrightarrow> keys st = required_stability_ids (gate policy)"
  using assms
  by (auto simp: norm_ok_def backend_ok_def hits_ok_def counts_ok_def intro!: list_all2_keys split: prod.splits)

lemma optional_ok: "(\<And>x. v = Some x \<Longrightarrow> canonical_ok (f x)) \<Longrightarrow>
    canonical_ok (case v of None \<Rightarrow> JNull | Some x \<Rightarrow> f x)"
  by (cases v) auto

lemma object_ok:
  "distinct (keys d) \<Longrightarrow> list_all utf8_ok (keys d) \<Longrightarrow> list_all canonical_ok (map snd d) \<Longrightarrow>
     canonical_ok (JObj d)"
  by (auto simp: list_all_iff keys_def)

lemma metrics_json_ok:
  assumes m: "norm_ok policy m" and strings: "gate_text_ok (gate policy)" and g: "gate_ok (gate policy)"
    and cand: "utf8_ok (candidate_id m)"
  shows "canonical_ok (JObj (metrics_json m))"
proof -
  note keys_m = norm_ok_keys [OF m]
  have cats: "canonical_ok (JObj (map_values category_json (hazkey_categories m)))"
    "canonical_ok (JObj (map_values category_json (candidate_categories m)))"
    using g strings keys_m
    by (intro map_values_ok; simp add: gate_ok_def gate_text_ok_def category_json_def)+
  have human: "canonical_ok (JObj (map_values human_json h))" if "human_categories m = Some h" for h
    using g strings keys_m(3) [OF that]
    by (intro map_values_ok; simp add: gate_ok_def gate_text_ok_def human_json_def)+
  have stab: "canonical_ok (JObj (map_values JBool st))" if "stability_checks m = Some st" for st
    using g strings keys_m(4) [OF that]
    by (intro map_values_ok; simp add: gate_ok_def gate_text_ok_def)+
  have corpus: "canonical_ok (JObj (norm_corpus m))"
    using m by (auto simp: norm_ok_def corpus_ok_def bound_corpus_def sha256_hex_utf8)
  have latency: "utf8_ok h \<and> utf8_ok c" if "latency_p95 m = Some (h, c)" for h c
    using m that by (auto simp: norm_ok_def latency_ok_def decimal_pattern_utf8)
  have quality: "canonical_ok (JObj
        [(''hazkey'', JObj [(''categories'', JObj (map_values category_json (hazkey_categories m)))]),
         (''candidate'', JObj [(''categories'', JObj (map_values category_json (candidate_categories m)))])])"
    using cats by (intro object_ok) (simp_all del: canonical_ok_simps(6), (intro object_ok conjI; simp del: canonical_ok_simps(6))+)
  have h: "canonical_ok (case human_categories m of None \<Rightarrow> JNull
         | Some h \<Rightarrow> JObj [(''by_category'', JObj (map_values human_json h))])"
    using human by (intro optional_ok object_ok; simp del: canonical_ok_simps(6))
  have l: "canonical_ok (case latency_p95 m of None \<Rightarrow> JNull
         | Some (h, c) \<Rightarrow> JObj [(''hazkey'', JStr h), (''candidate'', JStr c)])"
    using latency by (auto split: option.split prod.split)
  have p: "canonical_ok (case pss_kib m of None \<Rightarrow> JNull
         | Some (h, c) \<Rightarrow> JObj [(''hazkey'', JInt h), (''candidate'', JInt c)])"
    by (auto split: option.split prod.split)
  have t: "canonical_ok (case stability_checks m of None \<Rightarrow> JNull | Some s \<Rightarrow> JObj (map_values JBool s))"
    using stab by (intro optional_ok)
  show ?thesis
    unfolding metrics_json_def
    by (rule object_ok)
      (simp_all add: METRICS_SCHEMA_def corpus quality h l p t cand del: canonical_ok_simps(6))
qed

lemma sealed_categories_distinct:
  "distinct (keys (all_categories sealed_gate))" "distinct (keys (quality_categories sealed_gate))"
  "distinct (required_stability_ids sealed_gate)"
  using sealed_gate_ok by (simp_all add: gate_ok_def)

lemma fingerprint_sealed:
  "fingerprint_of (sealed_policy d) ''B0'' = Inr ''sha256:2ba2cccb3c7489def988b63b0f0fd2cd96469521569c4807b63c80d2b50d3063''"
  by (simp add: fingerprint_of_def RUNTIME_RESOURCE_FINGERPRINTS_def)

lemma result_base_sealed:
  assumes checks: "evaluate_checks sealed_gate m = Inr checks" and cand: "candidate_id m = ''B0''"
  shows "\<exists>fp. utf8_ok fp \<and> result_base (sealed_policy d) m checks None = Inr
     [(''schema'', JStr RESULT_SCHEMA), (''decision_tier'', JStr DECISION_TIER),
      (''formal_evidence_status'', JStr FORMAL_EVIDENCE_STATUS),
      (''formal_adoption_allowed'', JBool False), (''gate_result'', JStr ''inconclusive''),
      (''policy_id'', JStr POLICY_ID), (''policy_sha256'', JStr d), (''candidate_id'', JStr ''B0''),
      (''candidate_resource_fingerprint'', JStr fp), (''corpus'', corpus_json (sealed_policy d)),
      (''prior_b0_result_sha256'', JNull), (''metrics'', JObj (metrics_json m)),
      (''checks'', JArr (map JObj checks))]"
  using evaluate_checks_verdict [OF checks] cand
  by (simp add: result_base_def fingerprint_sealed verdict_name_def sealed_not_ready)

lemma corpus_json_ok: "canonical_ok (corpus_json (sealed_policy d))"
  by (simp add: corpus_json_def MANIFEST_SHA256_def CORPUS_SHA256_def)

lemma result_base_ok:
  assumes base: "result_base (sealed_policy d) m checks None = Inr base"
    and checks: "evaluate_checks sealed_gate m = Inr checks"
    and m: "norm_ok (sealed_policy d) m" and cand: "candidate_id m = ''B0''" and d: "utf8_ok d"
  shows "canonical_ok (JObj base)"
proof -
  have cs: "\<forall>c \<in> set checks. canonical_ok (JObj c)"
    by (rule evaluate_checks_ok [of "sealed_policy d" m])
      (use checks m sealed_gate_text_ok in \<open>simp_all del: canonical_ok_simps(6)\<close>)
  have mj: "canonical_ok (JObj (metrics_json m))"
    by (rule metrics_json_ok [OF m])
      (use cand sealed_gate_text_ok sealed_gate_ok in simp_all)
  obtain fp where fp: "utf8_ok fp" and b: "base =
     [(''schema'', JStr RESULT_SCHEMA), (''decision_tier'', JStr DECISION_TIER),
      (''formal_evidence_status'', JStr FORMAL_EVIDENCE_STATUS),
      (''formal_adoption_allowed'', JBool False), (''gate_result'', JStr ''inconclusive''),
      (''policy_id'', JStr POLICY_ID), (''policy_sha256'', JStr d), (''candidate_id'', JStr ''B0''),
      (''candidate_resource_fingerprint'', JStr fp), (''corpus'', corpus_json (sealed_policy d)),
      (''prior_b0_result_sha256'', JNull), (''metrics'', JObj (metrics_json m)),
      (''checks'', JArr (map JObj checks))]"
    using result_base_sealed [OF checks cand, of d] base by auto
  show ?thesis
    unfolding b by (rule object_ok)
      (use cs mj corpus_json_ok [of d] fp d in
        \<open>simp_all add: RESULT_SCHEMA_def DECISION_TIER_def FORMAL_EVIDENCE_STATUS_def POLICY_ID_def
          del: canonical_ok_simps(6)\<close>)
qed

section \<open>Results\<close>

lemma evaluate_metrics_sealed:
  assumes "evaluate_metrics (sealed_policy d) metrics prior = Inr r"
  shows "prior = None"
    "\<exists>m checks base. normalize_metrics (sealed_policy d) metrics = Inr m \<and> candidate_id m = ''B0'' \<and>
       evaluate_checks sealed_gate m = Inr checks \<and> result_base (sealed_policy d) m checks None = Inr base \<and>
       r = base @ [(''integrity'', JStr (sha256_bytes (dumps (JObj base))))]"
  using assms by (auto simp: evaluate_metrics_iff prior_digest_sealed simp del: dumps.simps)

lemma evaluate_metrics_fields:
  assumes "evaluate_metrics (sealed_policy d) metrics prior = Inr r"
  shows "map_of r ''gate_result'' = Some (JStr ''inconclusive'')"
    "map_of r ''formal_adoption_allowed'' = Some (JBool False)"
    "map_of r ''candidate_id'' = Some (JStr ''B0'')"
    "map_of r ''prior_b0_result_sha256'' = Some JNull"
proof -
  obtain m checks base where "candidate_id m = ''B0''" and cs: "evaluate_checks sealed_gate m = Inr checks"
    and base: "result_base (sealed_policy d) m checks None = Inr base"
    and r: "r = base @ [(''integrity'', JStr (sha256_bytes (dumps (JObj base))))]"
    using evaluate_metrics_sealed(2) [OF assms] by auto
  with result_base_sealed [OF cs, of d] show
    "map_of r ''gate_result'' = Some (JStr ''inconclusive'')"
    "map_of r ''formal_adoption_allowed'' = Some (JBool False)"
    "map_of r ''candidate_id'' = Some (JStr ''B0'')"
    "map_of r ''prior_b0_result_sha256'' = Some JNull"
    by (auto simp del: dumps.simps)
qed

lemma evaluate_metrics_ok:
  assumes "evaluate_metrics (sealed_policy d) metrics prior = Inr r" and "utf8_ok d"
  shows "canonical_ok (JObj r)"
proof -
  obtain m checks base where m: "normalize_metrics (sealed_policy d) metrics = Inr m" "candidate_id m = ''B0''"
    and cs: "evaluate_checks sealed_gate m = Inr checks"
    and base: "result_base (sealed_policy d) m checks None = Inr base"
    and r: "r = base @ [(''integrity'', JStr (sha256_bytes (dumps (JObj base))))]"
    using evaluate_metrics_sealed(2) [OF assms(1)] by auto
  have ok: "canonical_ok (JObj base)"
    by (rule result_base_ok [OF base cs normalize_metrics_ok [OF m(1)] m(2) assms(2)])
  moreover have "''integrity'' \<notin> set (keys base)"
    using result_base_sealed [OF cs m(2), of d] base by auto
  ultimately show ?thesis
    unfolding r by (auto simp: keys_def sha256_hex_utf8)
qed

lemma evaluate_metrics_defined:
  assumes norm: "normalize_metrics (sealed_policy d) metrics = Inr m"
    and cand: "candidate_id m = ''B0''" and d: "utf8_ok d"
  shows "\<exists>r. evaluate_metrics (sealed_policy d) metrics None = Inr r"
proof -
  have ok: "norm_ok (sealed_policy d) m" by (rule normalize_metrics_ok [OF norm])
  obtain checks where cs: "evaluate_checks sealed_gate m = Inr checks"
    using evaluate_checks_defined [OF ok] sealed_gate_ok by auto
  obtain base where base: "result_base (sealed_policy d) m checks None = Inr base"
    using result_base_sealed [OF cs cand] by blast
  have "utf8_ok (dumps (JObj base))"
    using result_base_ok [OF base cs ok cand d] dumps_utf8 unfolding canonical_ok_def by blast
  with norm cand cs base show ?thesis
    by (auto simp: evaluate_metrics_iff prior_digest_sealed simp del: dumps.simps)
qed

text \<open>What an accepted prior result says.\<close>

lemma validate_prior_b0_result_accepts:
  assumes "validate_prior_b0_result policy data = Inr digest"
  shows "digest = sha256_bytes data"
    "\<exists>payload raw m. load_json_bytes data ''prior B0 result'' = Inr (JObj payload) \<and>
       encode_result (JObj payload) = Inr data \<and>
       map_of payload ''metrics'' = Some (JObj raw) \<and> normalize_metrics policy raw = Inr m \<and>
       candidate_id m = ''B0'' \<and> Some False \<in> set (measured_states (gate policy) m) \<and>
       map_of payload ''gate_result'' = Some (JStr ''formal_fail'') \<and>
       map_of payload ''integrity'' = Some (JStr (sha256_bytes
         (dumps (JObj (filter (\<lambda>kv. fst kv \<noteq> ''integrity'') payload)))))"
proof -
  from assms show "digest = sha256_bytes data"
    unfolding validate_prior_b0_result_def Let_def by (simp, elim exE conjE, simp)
  from assms obtain payload raw m base checks v integ where
    p: "load_json_bytes data ''prior B0 result'' = Inr (JObj payload)"
    "encode_result (JObj payload) = Inr data"
    "map_of payload ''integrity'' = Some (JStr integ)"
    "canonical_json (JObj (filter (\<lambda>kv. fst kv \<noteq> ''integrity'') payload)) = Inr base"
    "integ = sha256_bytes base"
    "map_of payload ''metrics'' = Some (JObj raw)" "normalize_metrics policy raw = Inr m"
    "candidate_id m = ''B0''" "evaluate_checks (gate policy) m = Inr checks"
    "derive_formal_result checks = Inr v"
    "map_of payload ''gate_result'' = Some (JStr (verdict_name v))"
    "verdict_name v = ''formal_fail''"
    unfolding validate_prior_b0_result_def Let_def by (simp, elim exE conjE, simp)
  have "v = Formal_Fail" using p(12) by (cases v) (simp_all add: verdict_name_def)
  then have "Some False \<in> set (measured_states (gate policy) m)"
    using evaluate_checks_verdict [OF p(9)] p(10) by (auto split: if_splits)
  moreover have "base = dumps (JObj (filter (\<lambda>kv. fst kv \<noteq> ''integrity'') payload))"
    using p(4) unfolding canonical_json_def by (simp split: if_splits del: dumps.simps)
  ultimately show "\<exists>payload raw m. load_json_bytes data ''prior B0 result'' = Inr (JObj payload) \<and>
       encode_result (JObj payload) = Inr data \<and>
       map_of payload ''metrics'' = Some (JObj raw) \<and> normalize_metrics policy raw = Inr m \<and>
       candidate_id m = ''B0'' \<and> Some False \<in> set (measured_states (gate policy) m) \<and>
       map_of payload ''gate_result'' = Some (JStr ''formal_fail'') \<and>
       map_of payload ''integrity'' = Some (JStr (sha256_bytes
         (dumps (JObj (filter (\<lambda>kv. fst kv \<noteq> ''integrity'') payload)))))"
    using p by (intro exI [of _ payload] exI [of _ raw] exI [of _ m]) simp
qed

lemma load_encoded:
  assumes "canonical_ok v" and "encode_result v = Inr data"
  shows "load_json_bytes data ctx = Inr (key_sorted v)"
proof -
  obtain t where t: "canonical_json v = Inr t" "data = t @ [CHR 0x0A]"
    using assms(2) by (auto simp: encode_result_def)
  show ?thesis unfolding t(2)
    using assms(1) by (intro load_canonical_json [OF _ _ t(1)])
      (simp_all add: canonical_ok_def is_ws_def code_def)
qed

lemma own_result_not_prior:
  assumes r: "evaluate_metrics (sealed_policy d) metrics prior = Inr r" and d: "utf8_ok d"
    and enc: "encode_result (JObj r) = Inr data"
  shows "validate_prior_b0_result policy data \<noteq> Inr digest"
proof
  assume "validate_prior_b0_result policy data = Inr digest"
  then obtain payload where load: "load_json_bytes data ''prior B0 result'' = Inr (JObj payload)"
    and fail: "map_of payload ''gate_result'' = Some (JStr ''formal_fail'')"
    using validate_prior_b0_result_accepts(2) by blast
  have ok: "canonical_ok (JObj r)" by (rule evaluate_metrics_ok [OF r d])
  have "JObj payload = key_sorted (JObj r)"
    using load load_encoded [OF ok enc] by simp
  then have "map_of payload ''gate_result'' = map_option key_sorted (map_of r ''gate_result'')"
    using ok unfolding key_sorted_object by (simp add: map_of_map_snd map_of_sort_key)
  with fail evaluate_metrics_fields(1) [OF r] show False by simp
qed

section \<open>Reading and binding files\<close>

lemma read_regular_iff:
  "read_regular opened ctx = Inr data \<longleftrightarrow>
     (\<exists>f. opened = Some f \<and> st_regular (stat_before f) \<and> identity (stat_before f) = identity (stat_after f) \<and>
        length data = st_size (stat_before f) \<and> data = concat (read_chunks (os_reads f)))"
  by (auto simp: read_regular_def Let_def split: option.splits)

lemma load_policy_bound:
  assumes "load_policy files path True = Inr policy"
  shows "\<exists>data. read_regular (files path) ''formal gate policy'' = Inr data \<and>
           policy = sealed_policy (sha256_bytes data)"
    "(label, raw, digest) \<in> set (bound_files policy) \<Longrightarrow>
       \<exists>data. read_regular (files (butlast path @ path_parts raw)) label = Inr data \<and>
         sha256_bytes data = digest"
proof -
  from assms obtain data where data: "read_regular (files path) ''formal gate policy'' = Inr data"
    and p: "parse_policy data (join_with (CHR ''/'') path) = Inr policy"
    and each: "\<forall>b \<in> set (bound_files policy). verify_bound_file files (butlast path) b = Inr ()"
    unfolding load_policy_def by (simp, elim exE conjE, simp)
  from data p show "\<exists>data. read_regular (files path) ''formal gate policy'' = Inr data \<and>
           policy = sealed_policy (sha256_bytes data)"
    using parse_policy_sound by blast
  assume "(label, raw, digest) \<in> set (bound_files policy)"
  with each have "verify_bound_file files (butlast path) (label, raw, digest) = Inr ()" by blast
  then show "\<exists>data. read_regular (files (butlast path @ path_parts raw)) label = Inr data \<and>
         sha256_bytes data = digest"
    by (auto simp: verify_bound_file_def safe_bound_path_def)
qed

end
