(* ===== verification/Gate_Acceptance.thy ===== *)
theory Gate_Acceptance
  imports Gate_Result
begin

text \<open>
  Concrete inputs on which the gate succeeds: the canonical bytes of the shipped policy, a
  metrics object, and a prior B0 result that the validator accepts.  They show that the success
  branches of \<open>parse_policy\<close>, \<open>evaluate_metrics\<close> and \<open>_validate_prior_b0_result\<close> are reachable.
\<close>

section \<open>The shipped bytes are accepted\<close>

text \<open>Every section parser looks at its own field only.\<close>

lemma section_lookup:
  assumes "map_of d k = Some v"
  shows "get_item d k = get_item [(k, v)] k" "item chk d k ctx = item chk [(k, v)] k ctx"
  using assms by (simp_all add: get_item_def item_def)

lemma sorted_corpus_binding_accepted:
  "parse_corpus_binding [(''corpus_binding'', key_sorted sealed_corpus_binding)] ctx = Inr ()"
  by code_simp

lemma sorted_protected_protocol_accepted:
  "parse_protected_protocol [(''protected_input_protocol'', key_sorted sealed_protected_protocol)] ctx = Inr ()"
  by code_simp

lemma sorted_mixed_protocol_accepted:
  "parse_mixed_protocol [(''mixed_input_protocol'', key_sorted mixed_protocol_contract)] ctx = Inr ()"
  by code_simp

lemma sorted_candidate_artifacts_accepted:
  "parse_candidate_artifacts [(''candidate_artifacts'', key_sorted sealed_candidate_artifacts)] ctx =
     Inr RUNTIME_RESOURCE_FINGERPRINTS"
  by code_simp

lemma sorted_candidate_sequence_accepted:
  "parse_candidate_sequence [(''candidate_sequence'', key_sorted sealed_candidate_sequence)] ctx = Inr ()"
  by code_simp

lemma sorted_early_rejection_accepted:
  "parse_early_rejection [(''b0_early_rejection'', key_sorted sealed_early_rejection)] ctx =
     Inr (B1_DIAGNOSTIC_OBJECTIVE_CHECK_IDS, B1_VALID_MANDATORY_OBJECTIVE_CHECK_IDS)"
  by code_simp

lemma sorted_gates_accepted:
  "parse_gates [(''gates'', key_sorted sealed_gates)] ctx = Inr ()"
  by code_simp

lemma sorted_api_contract_accepted:
  "parse_api_contract [(''api_contract'', key_sorted sealed_api_contract)] ctx = Inr ()"
  by code_simp

lemma sorted_policy_accepted:
  "parse_policy_root (key_sorted sealed_policy_document) ctx sha = Inr (sealed_policy sha)"
proof -
  define d where "d = (case sealed_policy_document of JObj fs \<Rightarrow> fs | _ \<Rightarrow> [])"
  define e where "e = map (\<lambda>kv. (fst kv, key_sorted (snd kv))) (sort_key fst d)"
  have doc: "sealed_policy_document = JObj d" by (simp add: d_def sealed_policy_document_def)
  have keys_d: "keys d = policy_sections"
    by (simp add: d_def sealed_policy_document_def policy_sections_def)
  have dist: "distinct (keys d)" unfolding keys_d by (simp add: policy_sections_def)
  have e: "map_of e k = map_option key_sorted (map_of d k)" for k
    unfolding e_def using dist by (simp add: map_of_map_snd map_of_sort_key)
  have keys_e: "set (keys e) = set policy_sections"
    unfolding e_def keys_d [symmetric] by (simp add: keys_def image_image)
  have at: "map_of e ''schema'' = Some (JStr POLICY_SCHEMA)" "map_of e ''policy_id'' = Some (JStr POLICY_ID)"
    "map_of e ''decision_tier'' = Some (JStr DECISION_TIER)"
    "map_of e ''corpus_binding'' = Some (key_sorted sealed_corpus_binding)"
    "map_of e ''candidate_artifacts'' = Some (key_sorted sealed_candidate_artifacts)"
    "map_of e ''protected_input_protocol'' = Some (key_sorted sealed_protected_protocol)"
    "map_of e ''mixed_input_protocol'' = Some (key_sorted mixed_protocol_contract)"
    "map_of e ''candidate_sequence'' = Some (key_sorted sealed_candidate_sequence)"
    "map_of e ''b0_early_rejection'' = Some (key_sorted sealed_early_rejection)"
    "map_of e ''gates'' = Some (key_sorted sealed_gates)"
    "map_of e ''api_contract'' = Some (key_sorted sealed_api_contract)"
    unfolding e d_def sealed_policy_document_def by simp_all
  have parts:
    "parse_corpus_binding e ctx = Inr ()" "parse_protected_protocol e ctx = Inr ()"
    "parse_mixed_protocol e ctx = Inr ()"
    "parse_candidate_artifacts e ctx = Inr RUNTIME_RESOURCE_FINGERPRINTS"
    "parse_candidate_sequence e ctx = Inr ()" "parse_gates e ctx = Inr ()" "parse_api_contract e ctx = Inr ()"
    "parse_early_rejection e ctx =
       Inr (B1_DIAGNOSTIC_OBJECTIVE_CHECK_IDS, B1_VALID_MANDATORY_OBJECTIVE_CHECK_IDS)"
    using sorted_corpus_binding_accepted [of ctx] sorted_protected_protocol_accepted [of ctx]
      sorted_mixed_protocol_accepted [of ctx] sorted_candidate_artifacts_accepted [of ctx]
      sorted_candidate_sequence_accepted [of ctx] sorted_gates_accepted [of ctx]
      sorted_api_contract_accepted [of ctx] sorted_early_rejection_accepted [of ctx]
    unfolding parse_corpus_binding_def parse_protected_protocol_def parse_mixed_protocol_def
      parse_candidate_artifacts_def parse_candidate_sequence_def parse_gates_def
      parse_api_contract_def parse_early_rejection_def Let_def
    by (simp_all only: section_lookup [OF at(4)] section_lookup [OF at(5)] section_lookup [OF at(6)]
        section_lookup [OF at(7)] section_lookup [OF at(8)] section_lookup [OF at(9)]
        section_lookup [OF at(10)] section_lookup [OF at(11)])
  show ?thesis
    unfolding parse_policy_root_def doc key_sorted_object e_def [symmetric]
    by (simp add: as_object_def exact_fields_def keys_e expect_item_def get_item_def at parts
        expect_def sealed_policy_def)
qed

lemma list_objects_ok:
  "canonical_ok (str_arr ss) \<longleftrightarrow> list_all utf8_ok ss"
  "canonical_ok (str_obj d) \<longleftrightarrow> distinct (keys d) \<and> list_all utf8_ok (keys d) \<and> list_all utf8_ok (map snd d)"
  "canonical_ok (int_obj e) \<longleftrightarrow> distinct (keys e) \<and> list_all utf8_ok (keys e)"
  by (auto simp: str_arr_def str_obj_def int_obj_def list_all_iff keys_def split_def comp_def)

lemma sealed_document_ok: "canonical_ok sealed_policy_document"
  unfolding sealed_policy_document_def sealed_corpus_binding_def sealed_candidate_artifacts_def
    sealed_protected_protocol_def sealed_candidate_sequence_def sealed_early_rejection_def
    sealed_historical_paths_def sealed_authorization_rule_def sealed_accepted_evidence_def
    sealed_trusted_acquisition_def sealed_delta_gate_def sealed_ratio_gate_def sealed_human_gate_def
    sealed_category_gate_def sealed_stability_gate_def sealed_gates_def sealed_api_contract_def
  by (simp add: list_objects_ok contract_constants legacy_probe_contract_def
      required_suites_contract_def superseded_evidence_contract_def mixed_protocol_contract_def
      protected_gate_contract_def both_bad_contract_def expected_manifest_path_def
      expected_corpus_path_def expected_source_policy_path_def)

definition sealed_policy_bytes :: string where
  "sealed_policy_bytes = dumps sealed_policy_document"

lemma sealed_policy_bytes_accepted:
  "parse_policy sealed_policy_bytes ctx = Inr (sealed_policy (sha256_bytes sealed_policy_bytes))"
proof -
  have "canonical_json sealed_policy_document = Inr sealed_policy_bytes"
    unfolding sealed_policy_bytes_def
    by (rule canonical_json_defined) (use sealed_document_ok in \<open>simp add: canonical_ok_def\<close>)
  then have "load_json_bytes (sealed_policy_bytes @ []) ctx = Inr (key_sorted sealed_policy_document)"
    using sealed_document_ok by (intro load_canonical_json) (simp_all add: canonical_ok_def)
  then show ?thesis by (simp add: parse_policy_def sorted_policy_accepted)
qed

section \<open>A metrics object that normalizes\<close>

definition empty_hits :: "(string \<times> int) list \<Rightarrow> (string \<times> CategoryHits) list" where
  "empty_hits cats = map (\<lambda>(k, n). (k, \<lparr>cat_cases = n, cat_top1_hits = 0, cat_top10_hits = 0\<rparr>)) cats"

definition sample_metrics :: NormMetrics where
  "sample_metrics = \<lparr>candidate_id = ''B0'', norm_corpus = bound_corpus (sealed_policy ''''),
     hazkey_categories = empty_hits ALL_CATEGORIES, candidate_categories = empty_hits ALL_CATEGORIES,
     human_categories = None, latency_p95 = Some (''10.0'', ''9.5''), pss_kib = Some (1000, 1000),
     stability_checks = None\<rparr>"

lemma norm_ok_digest: "norm_ok (sealed_policy d) m \<longleftrightarrow> norm_ok (sealed_policy e) m"
  by (simp add: norm_ok_def corpus_ok_def bound_corpus_def backend_ok_def)

lemma sample_norm_ok: "norm_ok (sealed_policy d) sample_metrics"
proof -
  have dv: "decimal_value ''10.0'' = 10" "decimal_value ''9.5'' = 19 / 2"
    "decimal_pattern ''10.0''" "decimal_pattern ''9.5''"
    by code_simp+
  have "backend_ok (sealed_policy d) (empty_hits ALL_CATEGORIES)"
    by (simp add: backend_ok_def empty_hits_def sealed_gate_def ALL_CATEGORIES_def hits_ok_def
        QUALITY_CATEGORIES_def PROTECTED_CATEGORY_def PROTECTED_CASES_def TOTAL_CASES_def)
  moreover have "corpus_ok (sealed_policy d) (bound_corpus (sealed_policy ''''))"
    by (simp add: corpus_ok_def bound_corpus_def sealed_gate_def TOTAL_CASES_def QUALITY_CASES_def
        CORPUS_SHA256_def sha256_pattern_def is_lower_hex_def is_digit_def)
  ultimately show ?thesis
    by (simp add: norm_ok_def sample_metrics_def latency_ok_def dv RUNTIME_RESOURCE_FINGERPRINTS_def)
qed

lemma sample_normalizes:
  "normalize_metrics (sealed_policy d) (metrics_json sample_metrics) = Inr sample_metrics"
  by (rule normalize_metrics_complete) (simp_all add: sample_norm_ok sealed_categories_distinct)

lemma sample_evaluates:
  "utf8_ok d \<Longrightarrow> \<exists>r. evaluate_metrics (sealed_policy d) (metrics_json sample_metrics) None = Inr r"
  by (rule evaluate_metrics_defined [OF sample_normalizes]) (simp_all add: sample_metrics_def)

section \<open>A prior result that is accepted\<close>

definition sorted_metrics :: obj where
  "sorted_metrics =
     (case key_sorted (JObj (metrics_json sample_metrics)) of JObj d \<Rightarrow> d | _ \<Rightarrow> [])"

lemma sorted_sample_normalizes:
  "normalize_metrics (sealed_policy d) sorted_metrics = Inr sample_metrics"
  by code_simp

lemma sort_key_sorted: "sort_key f (sort_key f xs) = sort_key f xs"
  by (rule sort_key_id_if_sorted) (rule sorted_sort_key)

lemma dumps_key_sorted: "dumps (key_sorted v) = dumps v"
proof (induction v)
  case (JArr vs)
  then have "dumps_list (map key_sorted vs) = dumps_list vs" by (simp add: dumps_list_map)
  then show ?case by simp
next
  case (JObj d)
  let ?g = "\<lambda>kv. (fst kv, key_sorted (snd kv))"
  have "sort_key fst (map ?g (sort_key fst d)) = map ?g (sort_key fst d)"
    by (simp add: sort_key_map sort_key_sorted)
  moreover have "map field_text (map ?g (sort_key fst d)) = map field_text (sort_key fst d)"
    using JObj by (force simp: snds.simps)
  ultimately show ?case unfolding key_sorted_object dumps_object by (simp only:)
qed simp_all

definition prior_base :: "string \<Rightarrow> NormMetrics \<Rightarrow> obj list \<Rightarrow> obj" where
  "prior_base d m checks =
     [(''schema'', JStr RESULT_SCHEMA), (''decision_tier'', JStr DECISION_TIER),
      (''formal_evidence_status'', JStr FORMAL_EVIDENCE_STATUS),
      (''formal_adoption_allowed'', JBool False), (''gate_result'', JStr ''formal_fail''),
      (''policy_id'', JStr POLICY_ID), (''policy_sha256'', JStr d), (''candidate_id'', JStr ''B0''),
      (''candidate_resource_fingerprint'',
        JStr ''sha256:2ba2cccb3c7489def988b63b0f0fd2cd96469521569c4807b63c80d2b50d3063''),
      (''corpus'', corpus_json (sealed_policy d)),
      (''prior_b0_result_sha256'', JNull), (''metrics'', JObj (metrics_json m)),
      (''checks'', JArr (map JObj checks))]"

definition prior_document :: "string \<Rightarrow> NormMetrics \<Rightarrow> obj list \<Rightarrow> obj" where
  "prior_document d m checks =
     prior_base d m checks @ [(''integrity'', JStr (sha256_bytes (dumps (JObj (prior_base d m checks)))))]"

lemma prior_base_ok:
  assumes checks: "evaluate_checks sealed_gate m = Inr checks"
    and m: "norm_ok (sealed_policy d) m" and cand: "candidate_id m = ''B0''" and d: "utf8_ok d"
  shows "canonical_ok (JObj (prior_base d m checks))"
proof -
  have cs: "\<forall>c \<in> set checks. canonical_ok (JObj c)"
    by (rule evaluate_checks_ok [of "sealed_policy d" m])
      (use checks m sealed_gate_text_ok in \<open>simp_all del: canonical_ok_simps(6)\<close>)
  have mj: "canonical_ok (JObj (metrics_json m))"
    by (rule metrics_json_ok [OF m])
      (use cand sealed_gate_text_ok sealed_gate_ok in simp_all)
  show ?thesis
    unfolding prior_base_def by (rule object_ok)
      (use cs mj corpus_json_ok [of d] d in
        \<open>simp_all add: RESULT_SCHEMA_def DECISION_TIER_def FORMAL_EVIDENCE_STATUS_def POLICY_ID_def
          del: canonical_ok_simps(6)\<close>)
qed

lemma prior_document_ok:
  assumes "evaluate_checks sealed_gate m = Inr checks" "norm_ok (sealed_policy d) m"
    "candidate_id m = ''B0''" "utf8_ok d"
  shows "canonical_ok (JObj (prior_document d m checks))"
  using prior_base_ok [OF assms]
  by (auto simp: prior_document_def prior_base_def sha256_hex_utf8 simp del: dumps.simps)

lemma encode_result_defined: "canonical_ok v \<Longrightarrow> encode_result v = Inr (dumps v @ [CHR 0x0A])"
  by (simp add: encode_result_def canonical_json_def dumps_utf8 canonical_ok_def)

lemma pyeq_JBool [simp]: "pyeq (JBool b) (JBool c) \<longleftrightarrow> b = c"
  by simp

lemma prior_document_accepted:
  assumes checks: "evaluate_checks sealed_gate m = Inr checks" and m: "norm_ok (sealed_policy d) m"
    and cand: "candidate_id m = ''B0''" and d: "utf8_ok d"
    and failed: "Some False \<in> set (measured_states sealed_gate m)"
    and sorted: "key_sorted (JObj (metrics_json m)) = JObj raw" "normalize_metrics (sealed_policy d) raw = Inr m"
  shows "\<exists>data. encode_result (JObj (prior_document d m checks)) = Inr data \<and>
           validate_prior_b0_result (sealed_policy d) data = Inr (sha256_bytes data)"
proof -
  let ?doc = "prior_document d m checks" and ?base = "prior_base d m checks"
  define payload where "payload = map (\<lambda>kv. (fst kv, key_sorted (snd kv))) (sort_key fst ?doc)"
  have ok: "canonical_ok (JObj ?doc)" by (rule prior_document_ok [OF checks m cand d])
  have okb: "canonical_ok (JObj ?base)" by (rule prior_base_ok [OF checks m cand d])
  define data where "data = dumps (JObj ?doc) @ [CHR 0x0A]"
  have enc: "encode_result (JObj ?doc) = Inr data"
    unfolding data_def by (rule encode_result_defined [OF ok])
  have payload: "JObj payload = key_sorted (JObj ?doc)"
    unfolding payload_def by (rule key_sorted_object [symmetric])
  have load: "load_json_bytes data ctx = Inr (JObj payload)" for ctx
    unfolding payload by (rule load_encoded [OF ok enc])
  have bytes: "dumps (JObj payload) = dumps (JObj ?doc)" unfolding payload by (rule dumps_key_sorted)
  have enc2: "encode_result (JObj payload) = Inr data"
    using enc by (simp only: encode_result_def canonical_json_def bytes)
  have at: "map_of payload k = map_option key_sorted (map_of ?doc k)" for k
    using ok unfolding payload_def by (simp add: map_of_map_snd map_of_sort_key)
  have keys: "set (keys payload) = set result_fields"
    by (auto simp: payload_def keys_def image_image prior_document_def prior_base_def result_fields_def)
  have "filter (\<lambda>kv. fst kv \<noteq> ''integrity'') ?doc = ?base"
    by (simp add: prior_document_def prior_base_def)
  then have "filter (\<lambda>kv. fst kv \<noteq> ''integrity'') payload =
      map (\<lambda>kv. (fst kv, key_sorted (snd kv))) (sort_key fst ?base)"
    by (simp add: payload_def filter_map comp_def filter_sort)
  then have "JObj (filter (\<lambda>kv. fst kv \<noteq> ''integrity'') payload) = key_sorted (JObj ?base)"
    by (simp add: key_sorted_object del: key_sorted.simps)
  then have base: "canonical_json (JObj (filter (\<lambda>kv. fst kv \<noteq> ''integrity'') payload)) = Inr (dumps (JObj ?base))"
    using okb by (simp add: canonical_json_def dumps_key_sorted dumps_utf8 canonical_ok_def del: dumps.simps key_sorted.simps)
  have checks_eq: "pyeq (key_sorted (JArr (map JObj checks))) (JArr (map JObj checks))"
    using okb by (intro pyeq_key_sorted) (auto simp: canonical_ok_def prior_base_def)
  have corpus_eq: "pyeq (key_sorted (corpus_json (sealed_policy d))) (corpus_json (sealed_policy d))"
    using corpus_json_ok [of d] by (intro pyeq_key_sorted) (simp_all add: canonical_ok_def)
  have verdict: "derive_formal_result checks = Inr Formal_Fail"
    using evaluate_checks_verdict [OF checks] failed by simp
  have fields: "map_of ?doc ''integrity'' = Some (JStr (sha256_bytes (dumps (JObj ?base))))"
    "map_of ?doc ''schema'' = Some (JStr RESULT_SCHEMA)"
    "map_of ?doc ''decision_tier'' = Some (JStr DECISION_TIER)"
    "map_of ?doc ''formal_evidence_status'' = Some (JStr FORMAL_EVIDENCE_STATUS)"
    "map_of ?doc ''formal_adoption_allowed'' = Some (JBool False)"
    "map_of ?doc ''gate_result'' = Some (JStr ''formal_fail'')"
    "map_of ?doc ''policy_id'' = Some (JStr POLICY_ID)"
    "map_of ?doc ''policy_sha256'' = Some (JStr d)"
    "map_of ?doc ''candidate_id'' = Some (JStr ''B0'')"
    "map_of ?doc ''candidate_resource_fingerprint'' =
       Some (JStr ''sha256:2ba2cccb3c7489def988b63b0f0fd2cd96469521569c4807b63c80d2b50d3063'')"
    "map_of ?doc ''corpus'' = Some (corpus_json (sealed_policy d))"
    "map_of ?doc ''prior_b0_result_sha256'' = Some JNull"
    "map_of ?doc ''metrics'' = Some (JObj (metrics_json m))"
    "map_of ?doc ''checks'' = Some (JArr (map JObj checks))"
    by (simp_all add: prior_document_def prior_base_def del: dumps.simps)
  have "validate_prior_b0_result (sealed_policy d) data = Inr (sha256_bytes data)"
    unfolding validate_prior_b0_result_def Let_def
    by (simp add: load as_object_def enc2 exact_fields_def keys item_def get_item_def at fields as_sha256_def
        as_string_def sha256_bytes_pattern base expect_item_def expect_def corpus_eq checks_eq sorted
        sealed_not_ready fingerprint_sealed cand checks verdict verdict_name_def
        del: dumps.simps key_sorted.simps(1,2))
  with enc show ?thesis by blast
qed

lemma sample_measurement_fails: "Some False \<in> set (measured_states sealed_gate sample_metrics)"
proof -
  have "decimal_value ''10.0'' = 10" "decimal_value ''9.5'' = 19 / 2" by code_simp+
  then show ?thesis
    by (simp add: measured_states_def latency_state_def sample_metrics_def within_basis_points_def
        sealed_gate_def)
qed

lemma sample_prior_accepted:
  assumes "utf8_ok d"
  shows "\<exists>data. validate_prior_b0_result (sealed_policy d) data = Inr (sha256_bytes data)"
proof -
  obtain checks where checks: "evaluate_checks sealed_gate sample_metrics = Inr checks"
    using evaluate_checks_defined [OF sample_norm_ok [of d]] sealed_gate_ok by auto
  have raw: "key_sorted (JObj (metrics_json sample_metrics)) = JObj sorted_metrics"
    by (simp add: sorted_metrics_def)
  from prior_document_accepted [OF checks sample_norm_ok _ assms sample_measurement_fails raw sorted_sample_normalizes]
  show ?thesis by (auto simp: sample_metrics_def)
qed

section \<open>The bound paths\<close>

lemma bound_paths_safe:
  "safe_bound_path base expected_manifest_path l = Inr (base @ path_parts expected_manifest_path)"
  "safe_bound_path base expected_corpus_path l = Inr (base @ path_parts expected_corpus_path)"
  "safe_bound_path base expected_source_policy_path l = Inr (base @ path_parts expected_source_policy_path)"
proof -
  have "\<not> is_absolute expected_manifest_path" "''..'' \<notin> set (path_parts expected_manifest_path)"
    "path_name (path_parts expected_manifest_path) \<notin> {[], ''.'', ''..''}"
    "\<not> is_absolute expected_corpus_path" "''..'' \<notin> set (path_parts expected_corpus_path)"
    "path_name (path_parts expected_corpus_path) \<notin> {[], ''.'', ''..''}"
    "\<not> is_absolute expected_source_policy_path" "''..'' \<notin> set (path_parts expected_source_policy_path)"
    "path_name (path_parts expected_source_policy_path) \<notin> {[], ''.'', ''..''}"
    by code_simp+
  then show 
  "safe_bound_path base expected_manifest_path l = Inr (base @ path_parts expected_manifest_path)"
  "safe_bound_path base expected_corpus_path l = Inr (base @ path_parts expected_corpus_path)"
  "safe_bound_path base expected_source_policy_path l = Inr (base @ path_parts expected_source_policy_path)"
    by (simp_all add: safe_bound_path_def)
qed

lemma verify_bound_file_iff:
  "verify_bound_file files base (label, raw, digest) = Inr u \<longleftrightarrow>
     (\<exists>bound data. safe_bound_path base raw label = Inr bound \<and>
        read_regular (files bound) label = Inr data \<and> sha256_bytes data = digest)"
  by (auto simp: verify_bound_file_def)

end
