(* ===== verification/Gate_Properties.thy ===== *)
theory Gate_Properties
  imports Gate_Acceptance
begin

text \<open>The properties of the formal gate, each with a concrete instance.\<close>

section \<open>The policy\<close>

text \<open>C1: whatever bytes are given, \<open>parse_policy\<close> either raises or returns the one sealed policy,
  carrying the SHA-256 digest of exactly those bytes, and the document loaded from them equals the
  shipped document under Python's \<open>==\<close>.  No threshold, digest, category or check identifier can be
  varied by a policy file that is accepted.\<close>

theorem parsed_policy_is_sealed:
  assumes "parse_policy data context = Inr policy"
  shows "policy = sealed_policy (sha256_bytes data) \<and>
    (\<exists>v. load_json_bytes data context = Inr v \<and> pyeq v sealed_policy_document)"
  using parse_policy_sound [OF assms] .

theorem parsed_policy_is_sealed_witness:
  "\<exists>v. load_json_bytes sealed_policy_bytes ''p'' = Inr v \<and> pyeq v sealed_policy_document"
  using parsed_policy_is_sealed [OF sealed_policy_bytes_accepted [of "''p''"]] by blast

text \<open>C2: with any policy that parses, a result of \<open>evaluate_metrics\<close> always reports
  \<open>inconclusive\<close>, never allows adoption, is about candidate B0 and binds no prior result: the
  normalized API cannot produce a formal pass or fail.\<close>

theorem evaluator_never_decides:
  assumes "parse_policy data context = Inr policy"
    and "evaluate_metrics policy metrics prior_b0_result = Inr result"
  shows "prior_b0_result = None \<and>
    map_of result ''gate_result'' = Some (JStr ''inconclusive'') \<and>
    map_of result ''formal_adoption_allowed'' = Some (JBool False) \<and>
    map_of result ''candidate_id'' = Some (JStr ''B0'') \<and>
    map_of result ''prior_b0_result_sha256'' = Some JNull"
proof -
  have "policy = sealed_policy (sha256_bytes data)" using parse_policy_sound [OF assms(1)] by simp
  then have r: "evaluate_metrics (sealed_policy (sha256_bytes data)) metrics prior_b0_result = Inr result"
    using assms(2) by simp
  then show ?thesis using evaluate_metrics_sealed(1) [OF r] evaluate_metrics_fields [OF r] by simp
qed

lemma digest_utf8 [simp]: "utf8_ok (sha256_bytes data)"
  by (rule sha256_hex_utf8) simp

lemma sample_result:
  obtains r where "evaluate_metrics (sealed_policy (sha256_bytes sealed_policy_bytes))
    (metrics_json sample_metrics) None = Inr r"
  using sample_evaluates [of "sha256_bytes sealed_policy_bytes"] by auto

theorem evaluator_never_decides_witness:
  "\<exists>policy result. parse_policy sealed_policy_bytes ''p'' = Inr policy \<and>
     evaluate_metrics policy (metrics_json sample_metrics) None = Inr result \<and>
     map_of result ''gate_result'' = Some (JStr ''inconclusive'')"
proof (rule sample_result)
  fix r assume r: "evaluate_metrics (sealed_policy (sha256_bytes sealed_policy_bytes))
    (metrics_json sample_metrics) None = Inr r"
  show ?thesis
    using sealed_policy_bytes_accepted [of "''p''"] r
      evaluator_never_decides [OF sealed_policy_bytes_accepted [of "''p''"] r] by blast
qed

text \<open>with a policy that parses and metrics that normalize, evaluation without a prior result
  succeeds exactly for candidate B0; no lookup of a category, threshold, fingerprint or stability
  identifier can fail on the way, and the result can always be encoded.\<close>

theorem evaluator_total_on_B0:
  assumes "parse_policy data context = Inr policy" and "normalize_metrics policy metrics = Inr m"
  shows "(\<exists>result. evaluate_metrics policy metrics None = Inr result) \<longleftrightarrow> candidate_id m = ''B0''"
proof -
  have p: "policy = sealed_policy (sha256_bytes data)" using parse_policy_sound [OF assms(1)] by simp
  show ?thesis
    using evaluate_metrics_defined [OF assms(2) [unfolded p]] assms(2)
      evaluate_metrics_sealed(2) [of "sha256_bytes data" metrics None]
    unfolding p by auto
qed

theorem evaluator_total_on_B0_witness:
  "\<exists>policy. parse_policy sealed_policy_bytes ''p'' = Inr policy \<and>
     (\<exists>result. evaluate_metrics policy (metrics_json sample_metrics) None = Inr result)"
proof -
  have "candidate_id sample_metrics = ''B0''" by (simp add: sample_metrics_def)
  then show ?thesis
    using evaluator_total_on_B0 [OF sealed_policy_bytes_accepted [of "''p''"] sample_normalizes]
      sealed_policy_bytes_accepted [of "''p''"] by blast
qed

text \<open>C3: an accepted prior B0 result is bound by its digest, is byte for byte the canonical
  encoding of the document it carries, has the integrity digest of that document without the
  integrity field, and reports \<open>formal_fail\<close> on metrics of B0 in which a measured ratio or
  stability check really fails.\<close>

theorem prior_result_binding:
  assumes "validate_prior_b0_result policy data = Inr digest"
  shows "digest = sha256_bytes data \<and>
    (\<exists>payload raw m. load_json_bytes data ''prior B0 result'' = Inr (JObj payload) \<and>
       encode_result (JObj payload) = Inr data \<and>
       map_of payload ''gate_result'' = Some (JStr ''formal_fail'') \<and>
       map_of payload ''integrity'' = Some (JStr (sha256_bytes
         (dumps (JObj (filter (\<lambda>kv. fst kv \<noteq> ''integrity'') payload))))) \<and>
       map_of payload ''metrics'' = Some (JObj raw) \<and> normalize_metrics policy raw = Inr m \<and>
       candidate_id m = ''B0'' \<and> Some False \<in> set (measured_states (gate policy) m))"
  using validate_prior_b0_result_accepts [OF assms] by blast

theorem prior_result_binding_witness:
  "\<exists>data. validate_prior_b0_result (sealed_policy ''d'') data = Inr (sha256_bytes data) \<and>
     (\<exists>payload. encode_result (JObj payload) = Inr data)"
  using sample_prior_accepted [of "''d''"] prior_result_binding [of "sealed_policy ''d''"] by fastforce

text \<open>C5: what the evaluator itself emits is never accepted as a prior B0 result, under any policy:
  its verdict is \<open>inconclusive\<close> and the validator insists on \<open>formal_fail\<close>.\<close>

theorem own_result_rejected_as_prior:
  assumes "parse_policy bytes context = Inr policy"
    and "evaluate_metrics policy metrics prior = Inr result"
    and "encode_result (JObj result) = Inr data"
  shows "\<exists>e. validate_prior_b0_result other data = Inl e"
proof -
  have "policy = sealed_policy (sha256_bytes bytes)" using parse_policy_sound [OF assms(1)] by simp
  then have "validate_prior_b0_result other data \<noteq> Inr digest" for digest
    using own_result_not_prior [OF _ _ assms(3)] assms(2) by simp
  then show ?thesis by (cases "validate_prior_b0_result other data") auto
qed

theorem own_result_rejected_as_prior_witness:
  "\<exists>policy result data e. evaluate_metrics policy (metrics_json sample_metrics) None = Inr result \<and>
     encode_result (JObj result) = Inr data \<and> validate_prior_b0_result policy data = Inl e"
proof (rule sample_result)
  fix r assume r: "evaluate_metrics (sealed_policy (sha256_bytes sealed_policy_bytes))
    (metrics_json sample_metrics) None = Inr r"
  have "encode_result (JObj r) = Inr (dumps (JObj r) @ [CHR 0x0A])"
    by (rule encode_result_defined [OF evaluate_metrics_ok [OF r]]) simp
  with r own_result_rejected_as_prior [OF sealed_policy_bytes_accepted [of "''p''"] r this]
  show ?thesis by blast
qed

text \<open>C4: \<open>load_policy\<close> with bound-file verification succeeds exactly when the policy file reads
  unchanged as a regular file and parses, and the corpus manifest, the corpus and the source
  policy, at their fixed relative paths beside it, read the same way with exactly the sealed
  digests.\<close>

theorem load_policy_iff:
  "load_policy files path True = Inr policy \<longleftrightarrow>
     (\<exists>data manifest corpus source.
        read_regular (files path) ''formal gate policy'' = Inr data \<and>
        parse_policy data (join_with (CHR ''/'') path) = Inr policy \<and>
        read_regular (files (butlast path @ path_parts expected_manifest_path))
          ''sealed corpus manifest'' = Inr manifest \<and> sha256_bytes manifest = MANIFEST_SHA256 \<and>
        read_regular (files (butlast path @ path_parts expected_corpus_path))
          ''sealed formal corpus'' = Inr corpus \<and> sha256_bytes corpus = CORPUS_SHA256 \<and>
        read_regular (files (butlast path @ path_parts expected_source_policy_path))
          ''sealed corpus policy'' = Inr source \<and> sha256_bytes source = SOURCE_POLICY_SHA256)"
proof (cases "\<exists>data. read_regular (files path) ''formal gate policy'' = Inr data \<and>
        parse_policy data (join_with (CHR ''/'') path) = Inr policy")
  case True
  then obtain data where d: "read_regular (files path) ''formal gate policy'' = Inr data"
    "parse_policy data (join_with (CHR ''/'') path) = Inr policy" by blast
  have "policy = sealed_policy (sha256_bytes data)" using parse_policy_sound [OF d(2)] by simp
  then have "bound_files policy =
     [(''sealed corpus manifest'', expected_manifest_path, MANIFEST_SHA256),
      (''sealed formal corpus'', expected_corpus_path, CORPUS_SHA256),
      (''sealed corpus policy'', expected_source_policy_path, SOURCE_POLICY_SHA256)]"
    by (simp only: bound_files_def sealed_policy_simps)
  with d show ?thesis
    by (simp add: load_policy_def verify_bound_file_iff bound_paths_safe) blast
next
  case False
  then show ?thesis by (auto simp: load_policy_def)
qed

section \<open>Metrics\<close>

text \<open>C5: with a policy that parses, normalization accepts exactly the well-formed metrics: the
  result always satisfies \<open>norm_ok\<close> (hits nested and within the cases, counts that add up, bound
  corpus, positive measurements, the exact stability identifiers), and every record that satisfies
  it is the normal form of its own document.\<close>

theorem normalized_metrics_exactly:
  assumes "parse_policy data context = Inr policy"
  shows "((\<exists>metrics. normalize_metrics policy metrics = Inr m) \<longleftrightarrow> norm_ok policy m) \<and>
    (norm_ok policy m \<longleftrightarrow> normalize_metrics policy (metrics_json m) = Inr m)"
proof -
  have "policy = sealed_policy (sha256_bytes data)" using parse_policy_sound [OF assms] by simp
  then show ?thesis
    using normalize_metrics_ok normalize_metrics_complete [of policy m] sealed_categories_distinct
    by auto
qed

theorem normalized_metrics_exactly_witness:
  "\<exists>policy. parse_policy sealed_policy_bytes ''p'' = Inr policy \<and>
     normalize_metrics policy (metrics_json sample_metrics) = Inr sample_metrics"
  using sealed_policy_bytes_accepted [of "''p''"] sample_norm_ok
    normalized_metrics_exactly [OF sealed_policy_bytes_accepted [of "''p''"], of sample_metrics]
  by blast

section \<open>Checks and verdicts\<close>

text \<open>the derived verdict is the least one of the checks, in the order fail, inconclusive, pass;
  it is an error exactly for an empty list or a check whose state is neither boolean nor null.\<close>

theorem derived_result_is_least:
  "derive_formal_result checks = Inr v \<longleftrightarrow>
     (\<exists>states. mapE check_state checks = Inr states \<and> states \<noteq> [] \<and>
        v = Min (state_verdict ` set states))"
  by (rule derive_formal_result_iff)

text \<open>C6: of the checks that \<open>_evaluate_checks\<close> produces only the latency, memory and stability
  ones carry a verdict; the derived result is a fail exactly when one of those measurements fails,
  and it is never a pass.\<close>

theorem checks_fail_by_measurement:
  assumes "evaluate_checks g m = Inr checks"
  shows "derive_formal_result checks =
    Inr (if Some False \<in> set (measured_states g m) then Formal_Fail else Inconclusive)"
  by (rule evaluate_checks_verdict [OF assms])

theorem checks_fail_by_measurement_witness:
  "\<exists>checks. evaluate_checks sealed_gate sample_metrics = Inr checks \<and>
     derive_formal_result checks = Inr Formal_Fail"
proof -
  obtain checks where checks: "evaluate_checks sealed_gate sample_metrics = Inr checks"
    using evaluate_checks_defined [OF sample_norm_ok [of "[]"]] sealed_gate_ok by auto
  show ?thesis
    using checks_fail_by_measurement [OF checks] sample_measurement_fails checks by auto
qed

text \<open>the latency check compares exactly: its cross-multiplied integers decide whether the
  candidate decimal is at most the given share of the baseline decimal, as rationals.\<close>

theorem latency_check_exact:
  "check_state (latency_check g (Some (hazkey, candidate))) =
     Inr (Some (decimal_value candidate \<le>
       decimal_value hazkey * (of_int (maximum_latency_ratio_basis_points g) / 10000)))"
  using latency_check_state by (simp add: within_basis_points_def)

text \<open>C7: the frozen-contract comparison accepts exactly the values that are equal to the contract
  and of the same JSON types throughout; a \<open>1.0\<close> or \<open>true\<close> never passes for \<open>1\<close>.\<close>

theorem typed_contract_decides_typed_equality:
  assumes "contract_literal expected"
  shows "expect_typed_contract v expected context = Inr () \<longleftrightarrow> typed_eq expected v"
  using expect_typed_iff(1) [OF assms] .

theorem typed_contract_decides_typed_equality_witness:
  "expect_typed_contract (JObj [(''a'', JFloat (Fin 1))]) (JObj [(''a'', JInt 1)]) ''c'' \<noteq> Inr () \<and>
   expect_typed_contract (JObj [(''a'', JInt 1)]) (JObj [(''a'', JInt 1)]) ''c'' = Inr ()"
  using typed_contract_decides_typed_equality [of "JObj [(''a'', JInt 1)]"] by simp

text \<open>the authorization check sets pass exactly when both lists are free of duplicates and
  disjoint and every valid mandatory identifier is one of the reviewed interaction suites followed
  by a slug.\<close>

theorem authorization_check_sets_decided:
  "validate_b1_authorization_check_sets diagnostic_ids valid_ids context = Inr () \<longleftrightarrow>
     distinct diagnostic_ids \<and> distinct valid_ids \<and> set diagnostic_ids \<inter> set valid_ids = {} \<and>
     list_all b1_interaction_check_id valid_ids"
  by (rule validate_b1_authorization_check_sets_iff)

section \<open>Canonical JSON\<close>




end
