(* ===== verification/Quality_Evaluate.thy ===== *)
theory Quality_Evaluate
  imports Json
begin

text \<open>
  \<open>evaluate_conversion_quality.py\<close>: the checks on a corpus after the tab-separated reader, the
  candidate texts of a result line, the collection of results, the evaluation and its report, and
  the self test.  A row of the reader is a dictionary from column names to optional cells, absent
  trailing cells being \<open>None\<close>; the reader itself is not modelled.
\<close>

section \<open>The corpus\<close>

type_synonym row = "(string \<times> string option) list"

record CorpusRow =
  row_id :: string
  row_reading :: string
  row_expected :: string
  row_category :: string

definition required_columns :: "string list" where
  "required_columns = [''id'', ''reading'', ''expected'', ''category'']"

definition cell :: "row \<Rightarrow> string \<Rightarrow> string option res" where
  "cell r k = (case map_of r k of None \<Rightarrow> Inl (KeyError k) | Some v \<Rightarrow> Inr v)"

text \<open>Truth of an optional string: neither \<open>None\<close> nor empty.\<close>

definition truthy :: "string option \<Rightarrow> bool" where
  "truthy v \<longleftrightarrow> v \<noteq> None \<and> v \<noteq> Some []"

text \<open>\<open>row["expected"].split("|")\<close>; a missing cell has no \<open>split\<close>.\<close>

definition alternatives :: "string \<Rightarrow> string list" where
  "alternatives s = split_on (CHR ''|'') s"

definition check_row :: "string \<Rightarrow> row \<Rightarrow> CorpusRow res" where
  "check_row line r =
     bindE (cell r ''id'') (\<lambda>i.
     bindE (cell r ''reading'') (\<lambda>reading.
     bindE (raise_if (\<not> truthy reading) (ValueError (line @ '': reading must not be empty''))) (\<lambda>_.
     bindE (cell r ''category'') (\<lambda>category.
     bindE (raise_if (\<not> truthy category) (ValueError (line @ '': category must not be empty''))) (\<lambda>_.
     bindE (cell r ''expected'') (\<lambda>expected.
     case expected of
       None \<Rightarrow> Inl AttributeError
     | Some text \<Rightarrow>
         bindE (raise_if (alternatives text = [] \<or> list_ex (\<lambda>a. a = []) (alternatives text))
                  (ValueError (line @ '': expected alternatives must not be empty''))) (\<lambda>_.
         Inr \<lparr>row_id = the i, row_reading = the reading, row_expected = text,
              row_category = the category\<rparr>)))))))"

text \<open>\<open>load_corpus_bytes\<close> on the rows of the reader.\<close>

definition load_corpus_rows :: "row list \<Rightarrow> string \<Rightarrow> CorpusRow list res" where
  "load_corpus_rows rows ctx =
     bindE (raise_if (rows = [] \<or> \<not> set required_columns \<subseteq> set (keys (hd rows)))
              (ValueError (ctx @ '': required columns are ''))) (\<lambda>_.
     bindE (mapE (\<lambda>r. cell r ''id'') rows) (\<lambda>ids.
     bindE (raise_if (list_ex (\<lambda>i. \<not> truthy i) ids \<or> length ids \<noteq> card (set ids))
              (ValueError (ctx @ '': ids must be non-empty and unique''))) (\<lambda>_.
     mapiE (\<lambda>line_number r. check_row (ctx @ '':'' @ dec line_number) r) 2 rows)))"

section \<open>Result lines\<close>

definition candidate_item :: "json \<Rightarrow> string res" where
  "candidate_item v =
     (case v of
        JStr s \<Rightarrow> Inr s
      | JObj d \<Rightarrow>
          (case get_or_null d ''text'' of
             JStr s \<Rightarrow> Inr s
           | _ \<Rightarrow> Inl (ValueError ''unsupported candidate item: ''))
      | _ \<Rightarrow> Inl (ValueError ''unsupported candidate item: ''))"

definition raw_candidates :: "obj \<Rightarrow> json res" where
  "raw_candidates payload =
     (case map_of payload ''candidates'' of
        Some raw \<Rightarrow> Inr raw
      | None \<Rightarrow>
          (case get_or_null payload ''candidate_window'' of
             JObj window \<Rightarrow>
               (case map_of window ''items'' of
                  None \<Rightarrow> Inl (ValueError ''candidate_window requires an items array'')
                | Some raw \<Rightarrow> Inr raw)
           | _ \<Rightarrow> Inl (ValueError ''result requires a candidates array or candidate_window object'')))"

definition candidate_texts :: "obj \<Rightarrow> string list res" where
  "candidate_texts payload =
     bindE (raw_candidates payload) (\<lambda>raw.
     case raw of
       JArr items \<Rightarrow> mapE candidate_item items
     | _ \<Rightarrow> Inl (ValueError ''result candidates must be a list''))"

type_synonym results = "(string \<times> string list) list"

text \<open>
  \<open>load_results\<close> on the parsed lines that are not blank, each with the prefix
  \<open>f"{path}:{line_number}"\<close> of its messages.
\<close>

definition add_result :: "results \<Rightarrow> string \<times> json \<Rightarrow> results res" where
  "add_result results = (\<lambda>(line, value).
     case value of
       JObj payload \<Rightarrow>
         (case get_or_null payload ''id'' of
            JStr result_id \<Rightarrow>
              bindE (raise_if (result_id = []) (ValueError (line @ '': result id must not be empty''))) (\<lambda>_.
              bindE (raise_if (result_id \<in> set (keys results))
                       (ValueError (line @ '': duplicate result id '' @ result_id))) (\<lambda>_.
              bindE (candidate_texts payload) (\<lambda>texts.
              Inr (results @ [(result_id, texts)]))))
          | _ \<Rightarrow> Inl (ValueError (line @ '': result requires string id'')))
     | _ \<Rightarrow> Inl (ValueError (line @ '': result requires string id'')))"

definition load_results :: "(string \<times> json) list \<Rightarrow> results res" where
  "load_results lines = foldE add_result [] lines"

section \<open>Evaluation\<close>

record CaseReport =
  case_id :: string
  case_category :: string
  case_reading :: string
  case_expected :: "string list"
  case_top1 :: bool
  case_top_k :: bool
  case_observed :: "string list"

definition evaluate_case :: "nat \<Rightarrow> CorpusRow \<Rightarrow> string list \<Rightarrow> CaseReport" where
  "evaluate_case top_k r result =
     (let expected = filter (\<lambda>v. v \<noteq> []) (alternatives (row_expected r))
      in \<lparr>case_id = row_id r, case_category = row_category r, case_reading = row_reading r,
          case_expected = expected,
          case_top1 = (result \<noteq> [] \<and> hd result \<in> set expected),
          case_top_k = list_ex (\<lambda>v. v \<in> set expected) (take top_k result),
          case_observed = take top_k result\<rparr>)"

text \<open>The counters of a category: total, top 1 hits, top k hits.\<close>

record HitCounter =
  hits_total :: int
  hits_top1 :: int
  hits_top_k :: int

definition empty_counter :: HitCounter where
  "empty_counter = \<lparr>hits_total = 0, hits_top1 = 0, hits_top_k = 0\<rparr>"

definition count_hit :: "bool \<Rightarrow> bool \<Rightarrow> HitCounter \<Rightarrow> HitCounter" where
  "count_hit top1 top_k c =
     \<lparr>hits_total = hits_total c + 1, hits_top1 = hits_top1 c + of_bool top1,
      hits_top_k = hits_top_k c + of_bool top_k\<rparr>"

definition bump ::
  "string \<Rightarrow> bool \<Rightarrow> bool \<Rightarrow> (string \<times> HitCounter) list \<Rightarrow> (string \<times> HitCounter) list" where
  "bump category top1 top_k counters =
     dict_set category
       (count_hit top1 top_k
          (case map_of counters category of None \<Rightarrow> empty_counter | Some c \<Rightarrow> c)) counters"

record EvalState =
  eval_cases :: "CaseReport list"
  eval_counters :: "(string \<times> HitCounter) list"
  eval_missing :: "string list"

definition evaluate_row :: "results \<Rightarrow> nat \<Rightarrow> EvalState \<Rightarrow> CorpusRow \<Rightarrow> EvalState" where
  "evaluate_row results top_k st r =
     (case map_of results (row_id r) of
        None \<Rightarrow> st\<lparr>eval_missing := eval_missing st @ [row_id r]\<rparr>
      | Some result \<Rightarrow>
          let c = evaluate_case top_k r result
          in st\<lparr>eval_cases := eval_cases st @ [c],
                eval_counters := bump (row_category r) (case_top1 c) (case_top_k c) (eval_counters st)\<rparr>)"

definition evaluate_rows :: "CorpusRow list \<Rightarrow> results \<Rightarrow> nat \<Rightarrow> EvalState" where
  "evaluate_rows corpus results top_k =
     foldl (evaluate_row results top_k)
       \<lparr>eval_cases = [], eval_counters = [], eval_missing = []\<rparr> corpus"

section \<open>The report\<close>

definition top_metric :: "int \<Rightarrow> string" where
  "top_metric k = ''top'' @ dec (nat k)"

definition case_json :: "nat \<Rightarrow> CaseReport \<Rightarrow> json" where
  "case_json top_k c = JObj (
     [(''id'', JStr (case_id c)), (''category'', JStr (case_category c)),
      (''reading'', JStr (case_reading c)), (''expected'', JArr (map JStr (case_expected c))),
      (''top1'', JBool (case_top1 c)), (''observed'', JArr (map JStr (case_observed c)))] @
     (if top_k = 1 then [] else [(top_metric top_k, JBool (case_top_k c))]))"

definition counter_json :: "nat \<Rightarrow> HitCounter \<Rightarrow> json res" where
  "counter_json top_k c =
     bindE (int_div_float (hits_top1 c) (hits_total c)) (\<lambda>top1_rate.
     bindE (int_div_float (hits_top_k c) (hits_total c)) (\<lambda>top_k_rate.
     Inr (JObj (
       [(''total'', JInt (hits_total c)), (''top1'', JInt (hits_top1 c))] @
       (if top_k = 1 then [] else [(top_metric top_k, JInt (hits_top_k c))]) @
       [(''top1_rate'', JFloat top1_rate)] @
       (if top_k = 1 then [] else [(top_metric top_k @ ''_rate'', JFloat top_k_rate)])))))"

definition category_reports :: "nat \<Rightarrow> (string \<times> HitCounter) list \<Rightarrow> obj res" where
  "category_reports top_k counters =
     mapE (\<lambda>(category, c). bindE (counter_json top_k c) (\<lambda>v. Inr (category, v)))
       (sort_key fst counters)"

text \<open>\<open>hits / evaluated if evaluated else 0.0\<close>\<close>

definition rate_or_zero :: "int \<Rightarrow> int \<Rightarrow> pyfloat res" where
  "rate_or_zero hits evaluated =
     (if evaluated = 0 then Inr (Fin 0) else int_div_float hits evaluated)"

definition count_cases :: "(CaseReport \<Rightarrow> bool) \<Rightarrow> CaseReport list \<Rightarrow> int" where
  "count_cases hit cases = sum_list (map (\<lambda>c. of_bool (hit c)) cases)"

definition REPORT_SCHEMA :: string where
  "REPORT_SCHEMA = ''hazkey.conversion-quality-report.v1''"

definition evaluate :: "CorpusRow list \<Rightarrow> results \<Rightarrow> nat \<Rightarrow> obj res" where
  "evaluate corpus results top_k =
     (let st = evaluate_rows corpus results top_k;
          evaluated = int (length (eval_cases st));
          top1_hits = count_cases case_top1 (eval_cases st);
          top_k_hits = (if top_k = 1 then top1_hits else count_cases case_top_k (eval_cases st))
      in bindE (category_reports top_k (eval_counters st)) (\<lambda>by_category.
         bindE (rate_or_zero top1_hits evaluated) (\<lambda>top1_rate.
         bindE (rate_or_zero top_k_hits evaluated) (\<lambda>top_k_rate.
         Inr ([(''schema'', JStr REPORT_SCHEMA), (''top_k'', JInt (int top_k)),
               (''corpus_cases'', JInt (int (length corpus))),
               (''evaluated_cases'', JInt evaluated),
               (''missing_results'', JArr (map JStr (eval_missing st))),
               (''top1_hits'', JInt top1_hits), (''top1_rate'', JFloat top1_rate),
               (''by_category'', JObj by_category),
               (''cases'', JArr (map (case_json top_k) (eval_cases st)))] @
              (if top_k = 1 then []
               else [(top_metric top_k @ ''_hits'', JInt top_k_hits),
                     (top_metric top_k @ ''_rate'', JFloat top_k_rate)]))))))"

section \<open>The self test\<close>

definition protected_surface :: "CorpusRow \<Rightarrow> unit res" where
  "protected_surface r =
     raise_if (row_category r = ''protected'' \<and>
               row_reading r \<notin> set (filter (\<lambda>v. v \<noteq> []) (alternatives (row_expected r))))
       (AssertionError (''protected case '' @ row_id r @ '' must accept its exact input surface''))"

definition synthetic_payload :: "CorpusRow \<Rightarrow> obj" where
  "synthetic_payload r =
     [(''id'', JStr (row_id r)), (''candidates'', JArr [JStr (hd (alternatives (row_expected r)))])]"

text \<open>A dictionary comprehension over the rows: a repeated id keeps the last payload.\<close>

definition synthetic_results :: "CorpusRow list \<Rightarrow> results res" where
  "synthetic_results corpus =
     foldE (\<lambda>d r. bindE (candidate_texts (synthetic_payload r)) (\<lambda>texts.
              Inr (dict_set (row_id r) texts d))) [] corpus"

definition self_test :: "CorpusRow list \<Rightarrow> bool \<Rightarrow> unit res" where
  "self_test corpus require_protected_input_surface =
     bindE (if require_protected_input_surface then eachE protected_surface corpus else Inr ()) (\<lambda>_.
     bindE (synthetic_results corpus) (\<lambda>results.
     bindE (evaluate corpus results 10) (\<lambda>report.
     bindE (get_item report ''top1_rate'') (\<lambda>rate.
     bindE (get_item report ''missing_results'') (\<lambda>missing.
     raise_if (\<not> pyeq rate (JFloat (Fin 1)) \<or> missing \<noteq> JArr [])
       (AssertionError ''synthetic corpus evaluation did not reach 100%''))))))"

section \<open>Counting by category\<close>

text \<open>The reference for the counters: what is counted under a category is a matter of filtering.\<close>

type_synonym tag = "string \<times> bool \<times> bool"

definition tally :: "tag list \<Rightarrow> (string \<times> HitCounter) list" where
  "tally tags = foldl (\<lambda>d (c, t1, tk). bump c t1 tk d) [] tags"

definition counter_of :: "string \<Rightarrow> tag list \<Rightarrow> HitCounter" where
  "counter_of c tags =
     \<lparr>hits_total = int (length (filter (\<lambda>(k, _, _). k = c) tags)),
      hits_top1 = int (length (filter (\<lambda>(k, t1, _). k = c \<and> t1) tags)),
      hits_top_k = int (length (filter (\<lambda>(k, _, tk). k = c \<and> tk) tags))\<rparr>"

lemma tally_snoc: "tally (tags @ [(c, t1, tk)]) = bump c t1 tk (tally tags)"
  by (simp add: tally_def)

lemma tally_Nil [simp]: "tally [] = []"
  by (simp add: tally_def)

lemma counter_of_snoc:
  "counter_of c (tags @ [(k, t1, tk)]) = (if k = c then count_hit t1 tk (counter_of c tags) else counter_of c tags)"
  by (simp add: counter_of_def count_hit_def)

lemma counter_of_absent: "c \<notin> fst ` set tags \<Longrightarrow> counter_of c tags = empty_counter"
proof -
  assume "c \<notin> fst ` set tags"
  then have "filter (\<lambda>(k, _, _). k = c) tags = []" "filter (\<lambda>(k, t1, _). k = c \<and> t1) tags = []"
    "filter (\<lambda>(k, _, tk). k = c \<and> tk) tags = []"
    by (force simp: filter_empty_conv)+
  then show ?thesis by (simp add: counter_of_def empty_counter_def)
qed

lemma keys_bump: "set (keys (bump c t1 tk d)) = insert c (set (keys d))"
  by (auto simp: bump_def keys_dict_set)

lemma tally_keys [simp]: "set (keys (tally tags)) = fst ` set tags"
proof (induction tags rule: rev_induct)
  case (snoc t tags)
  then show ?case by (cases t) (simp add: tally_snoc keys_bump)
qed (simp add: keys_def)

lemma tally_distinct [simp]: "distinct (keys (tally tags))"
proof (induction tags rule: rev_induct)
  case (snoc t tags)
  then show ?case by (cases t) (simp add: tally_snoc bump_def)
qed (simp add: keys_def)

lemma tally_lookup:
  "map_of (tally tags) c = (if c \<in> fst ` set tags then Some (counter_of c tags) else None)"
proof (induction tags rule: rev_induct)
  case (snoc t tags)
  then show ?case
    by (cases t) (auto simp: tally_snoc bump_def counter_of_snoc counter_of_absent)
qed simp

lemma tally_member: "(c, h) \<in> set (tally tags) \<Longrightarrow> h = counter_of c tags \<and> c \<in> fst ` set tags"
  using tally_lookup [of tags c] map_of_is_SomeI [of "tally tags" c h] tally_distinct [of tags]
  by (auto simp: keys_def split: if_splits)

lemma length_filter_mono: "(\<And>x. x \<in> set xs \<Longrightarrow> P x \<Longrightarrow> Q x) \<Longrightarrow> length (filter P xs) \<le> length (filter Q xs)"
  by (induction xs) auto

lemma counter_bounds:
  "0 \<le> hits_top1 (counter_of c tags)" "0 \<le> hits_top_k (counter_of c tags)"
  "hits_top1 (counter_of c tags) \<le> hits_total (counter_of c tags)"
  "hits_top_k (counter_of c tags) \<le> hits_total (counter_of c tags)"
  "c \<in> fst ` set tags \<Longrightarrow> 0 < hits_total (counter_of c tags)"
  "\<forall>(k, t1, tk) \<in> set tags. t1 \<longrightarrow> tk \<Longrightarrow> hits_top1 (counter_of c tags) \<le> hits_top_k (counter_of c tags)"
  by (auto simp: counter_of_def filter_empty_conv intro!: length_filter_mono)

text \<open>Adding the counters up over the categories counts every tag once.\<close>

lemma sum_dict_set:
  assumes "distinct (keys d)"
  shows "sum_list (map (\<lambda>kv. f (snd kv)) (dict_set k v d)) =
    sum_list (map (\<lambda>kv. f (snd kv)) d) - (case map_of d k of None \<Rightarrow> 0 | Some w \<Rightarrow> f w) + (f v :: int)"
  using assms
proof (induction k v d rule: dict_set.induct)
  case (2 k v k' v' d)
  then show ?case by (auto simp: keys_def split: option.splits dest: map_of_SomeD)
qed simp

lemma tally_sums:
  "sum_list (map (\<lambda>kv. hits_total (snd kv)) (tally tags)) = int (length tags)"
  "sum_list (map (\<lambda>kv. hits_top1 (snd kv)) (tally tags)) = sum_list (map (\<lambda>(_, t1, _). of_bool t1) tags)"
  "sum_list (map (\<lambda>kv. hits_top_k (snd kv)) (tally tags)) = sum_list (map (\<lambda>(_, _, tk). of_bool tk) tags)"
proof (induction tags rule: rev_induct)
  case (snoc t tags)
  {
    case 1 with snoc show ?case
      by (cases t) (auto simp: tally_snoc bump_def sum_dict_set count_hit_def empty_counter_def split: option.splits)
  next
    case 2 with snoc show ?case
      by (cases t) (auto simp: tally_snoc bump_def sum_dict_set count_hit_def empty_counter_def split: option.splits)
  next
    case 3 with snoc show ?case
      by (cases t) (auto simp: tally_snoc bump_def sum_dict_set count_hit_def empty_counter_def split: option.splits)
  }
qed simp_all

section \<open>What the evaluation computes\<close>

definition has_result :: "results \<Rightarrow> CorpusRow \<Rightarrow> bool" where
  "has_result results r \<longleftrightarrow> map_of results (row_id r) \<noteq> None"

definition result_of :: "results \<Rightarrow> CorpusRow \<Rightarrow> string list" where
  "result_of results r = (case map_of results (row_id r) of None \<Rightarrow> [] | Some v \<Rightarrow> v)"

definition case_tag :: "CaseReport \<Rightarrow> tag" where
  "case_tag c = (case_category c, case_top1 c, case_top_k c)"

lemma evaluate_case_simps [simp]:
  "case_id (evaluate_case k r v) = row_id r" "case_category (evaluate_case k r v) = row_category r"
  "case_reading (evaluate_case k r v) = row_reading r" "case_observed (evaluate_case k r v) = take k v"
  "case_expected (evaluate_case k r v) = filter (\<lambda>v. v \<noteq> []) (alternatives (row_expected r))"
  by (simp_all add: evaluate_case_def Let_def)

lemma evaluate_rows_eq:
  "evaluate_rows corpus results k =
     (let cases = map (\<lambda>r. evaluate_case k r (result_of results r)) (filter (has_result results) corpus)
      in \<lparr>eval_cases = cases, eval_counters = tally (map case_tag cases),
          eval_missing = map row_id (filter (\<lambda>r. \<not> has_result results r) corpus)\<rparr>)"
proof (induction corpus rule: rev_induct)
  case (snoc r corpus)
  have "evaluate_rows (corpus @ [r]) results k = evaluate_row results k (evaluate_rows corpus results k) r"
    by (simp add: evaluate_rows_def)
  moreover have "\<not> has_result results r" if "map_of results (row_id r) = None"
    using that by (simp add: has_result_def)
  moreover have "has_result results r" "result_of results r = v" if "map_of results (row_id r) = Some v" for v
    using that by (simp_all add: has_result_def result_of_def)
  ultimately show ?case
    unfolding snoc evaluate_row_def Let_def
    by (cases "map_of results (row_id r)") (simp_all add: case_tag_def [of "evaluate_case k r _"] tally_snoc)
qed (simp add: evaluate_rows_def)

lemma top1_implies_top_k: "1 \<le> k \<Longrightarrow> case_top1 (evaluate_case k r v) \<Longrightarrow> case_top_k (evaluate_case k r v)"
  by (cases v; cases k) (auto simp: evaluate_case_def Let_def)

lemma case_top_k_1: "case_top_k (evaluate_case 1 r v) = case_top1 (evaluate_case 1 r v)"
  by (cases v) (auto simp: evaluate_case_def Let_def)

lemma counter_json_defined:
  "0 \<le> hits_top1 c \<Longrightarrow> hits_top1 c \<le> hits_total c \<Longrightarrow> 0 \<le> hits_top_k c \<Longrightarrow> hits_top_k c \<le> hits_total c \<Longrightarrow>
   0 < hits_total c \<Longrightarrow>
   counter_json k c = Inr (JObj (
       [(''total'', JInt (hits_total c)), (''top1'', JInt (hits_top1 c))] @
       (if k = 1 then [] else [(top_metric k, JInt (hits_top_k c))]) @
       [(''top1_rate'', JFloat (Fin (fl (of_int (hits_top1 c) / of_int (hits_total c)))))] @
       (if k = 1 then []
        else [(top_metric k @ ''_rate'', JFloat (Fin (fl (of_int (hits_top_k c) / of_int (hits_total c)))))])))"
  by (simp add: counter_json_def int_div_float_rate)

text \<open>The category part of a report over counted tags.\<close>

definition counter_value :: "nat \<Rightarrow> HitCounter \<Rightarrow> json" where
  "counter_value k c = (case counter_json k c of Inr v \<Rightarrow> v | Inl _ \<Rightarrow> JNull)"

lemma counter_json_tally:
  "(c, h) \<in> set (tally tags) \<Longrightarrow> counter_json k h = Inr (counter_value k h)"
  using tally_member [of c h tags] counter_bounds [where c = c and tags = tags]
  by (simp add: counter_json_defined counter_value_def)

lemma category_reports_tally:
  "category_reports k (tally tags) = Inr (map (\<lambda>(c, h). (c, counter_value k h)) (sort_key fst (tally tags)))"
proof -
  have "mapE (\<lambda>(c, h). bindE (counter_json k h) (\<lambda>v. Inr (c, v))) (sort_key fst (tally tags)) =
      Inr (map (\<lambda>(c, h). (c, counter_value k h)) (sort_key fst (tally tags)))"
    by (rule mapE_pure) (auto simp: counter_json_tally)
  then show ?thesis by (simp add: category_reports_def)
qed

lemma count_cases_bounds: "0 \<le> count_cases h cs" "count_cases h cs \<le> int (length cs)"
  by (induction cs) (auto simp: count_cases_def)

definition rate_of :: "int \<Rightarrow> int \<Rightarrow> pyfloat" where
  "rate_of hits n = Fin (if n = 0 then 0 else fl (of_int hits / of_int n))"

lemma rate_or_zero_defined: "0 \<le> h \<Longrightarrow> h \<le> n \<Longrightarrow> rate_or_zero h n = Inr (rate_of h n)"
  by (auto simp: rate_or_zero_def rate_of_def int_div_float_rate)

text \<open>The evaluation never fails, and its report is this one.\<close>

definition report_of :: "CorpusRow list \<Rightarrow> results \<Rightarrow> nat \<Rightarrow> obj" where
  "report_of corpus results k =
     (let cases = map (\<lambda>r. evaluate_case k r (result_of results r)) (filter (has_result results) corpus);
          n = int (length cases); h1 = count_cases case_top1 cases; hk = count_cases case_top_k cases
      in [(''schema'', JStr REPORT_SCHEMA), (''top_k'', JInt (int k)),
          (''corpus_cases'', JInt (int (length corpus))),
          (''evaluated_cases'', JInt n),
          (''missing_results'', JArr (map JStr (map row_id (filter (\<lambda>r. \<not> has_result results r) corpus)))),
          (''top1_hits'', JInt h1), (''top1_rate'', JFloat (rate_of h1 n)),
          (''by_category'', JObj (map (\<lambda>(c, h). (c, counter_value k h)) (sort_key fst (tally (map case_tag cases))))),
          (''cases'', JArr (map (case_json k) cases))] @
         (if k = 1 then []
          else [(top_metric k @ ''_hits'', JInt hk), (top_metric k @ ''_rate'', JFloat (rate_of hk n))]))"

lemma evaluate_eq: "evaluate corpus results k = Inr (report_of corpus results k)"
proof -
  have le: "count_cases h (map f xs) \<le> int (length xs)" for h and f :: "CorpusRow \<Rightarrow> CaseReport" and xs
    using count_cases_bounds(2) [of h "map f xs"] by simp
  show ?thesis
    unfolding evaluate_def evaluate_rows_eq report_of_def Let_def
    by (simp add: category_reports_tally rate_or_zero_defined count_cases_bounds(1) le)
qed

section \<open>Loaded corpora and the self test\<close>

lemma check_row_iff:
  "check_row line r = Inr c \<longleftrightarrow>
     map_of r ''id'' \<noteq> None \<and>
     (\<exists>reading category expected.
        map_of r ''reading'' = Some (Some reading) \<and> reading \<noteq> [] \<and>
        map_of r ''category'' = Some (Some category) \<and> category \<noteq> [] \<and>
        map_of r ''expected'' = Some (Some expected) \<and> [] \<notin> set (alternatives expected) \<and>
        c = \<lparr>row_id = the (the (map_of r ''id'')), row_reading = reading, row_expected = expected,
             row_category = category\<rparr>)"
  by (auto simp: check_row_def cell_def truthy_def alternatives_def list_ex_iff split: option.splits)

definition sound_row :: "CorpusRow \<Rightarrow> bool" where
  "sound_row r \<longleftrightarrow>
     row_id r \<noteq> [] \<and> row_reading r \<noteq> [] \<and> row_category r \<noteq> [] \<and> [] \<notin> set (alternatives (row_expected r))"

lemma loaded_corpus_sound:
  assumes "load_corpus_rows rows ctx = Inr corpus"
  shows "corpus \<noteq> [] \<and> length corpus = length rows \<and> distinct (map row_id corpus) \<and> (\<forall>r \<in> set corpus. sound_row r)"
proof -
  from assms obtain ids where rows: "rows \<noteq> []" and ids: "mapE (\<lambda>r. cell r ''id'') rows = Inr ids"
    "\<forall>i \<in> set ids. truthy i" "length ids = card (set ids)"
    and corpus: "mapiE (\<lambda>n r. check_row (ctx @ '':'' @ dec n) r) 2 rows = Inr corpus"
    by (auto simp: load_corpus_rows_def list_ex_iff)
  have len: "length corpus = length rows" and row: "\<And>j. j < length rows \<Longrightarrow> \<exists>l. check_row l (rows ! j) = Inr (corpus ! j)"
    using corpus by (auto simp: mapiE_Inr_iff)
  have id: "length ids = length rows" "\<And>j. j < length rows \<Longrightarrow> cell (rows ! j) ''id'' = Inr (ids ! j)"
    using ids(1) by (auto simp: mapE_Inr_iff list_all2_conv_all_nth)
  have same: "ids ! j = Some (row_id (corpus ! j))" if "j < length rows" for j
    using row [OF that] id(2) [OF that] ids(2) id(1) that
    by (auto simp: check_row_iff cell_def truthy_def split: option.splits dest!: nth_mem)
  then have "ids = map (Some \<circ> row_id) corpus"
    using len id(1) by (intro nth_equalityI) auto
  then have "distinct (map row_id corpus)"
    using ids(3) card_distinct [of ids] by (simp add: distinct_map comp_def inj_on_def)
  moreover have "sound_row (corpus ! j)" if "j < length rows" for j
  proof -
    have "truthy (ids ! j)" using ids(2) id(1) that by simp
    then show ?thesis using row [OF that] same [OF that] by (auto simp: check_row_iff sound_row_def truthy_def)
  qed
  ultimately show ?thesis using rows len by (auto simp: in_set_conv_nth)
qed

lemma synthetic_results_fold:
  "foldE (\<lambda>d r. bindE (candidate_texts (synthetic_payload r)) (\<lambda>texts. Inr (dict_set (row_id r) texts d))) d corpus =
     Inr (foldl (\<lambda>d r. dict_set (row_id r) [hd (alternatives (row_expected r))] d) d corpus)"
  by (induction corpus arbitrary: d)
    (auto simp: candidate_texts_def raw_candidates_def synthetic_payload_def candidate_item_def)

lemma synthetic_lookup:
  "map_of (foldl (\<lambda>d r. dict_set (row_id r) (f r) d) d corpus) i =
     (case filter (\<lambda>r. row_id r = i) (rev corpus) of [] \<Rightarrow> map_of d i | r # _ \<Rightarrow> Some (f r))"
proof (induction corpus rule: rev_induct)
  case (snoc r corpus)
  then show ?case by (auto split: list.splits)
qed simp

lemma self_test_passes:
  assumes sound: "corpus \<noteq> []" "\<forall>r \<in> set corpus. sound_row r" and ids: "distinct (map row_id corpus)"
  shows "self_test corpus False = Inr ()"
proof -
  let ?f = "\<lambda>r. [hd (alternatives (row_expected r))]"
  define results where "results = foldl (\<lambda>d r. dict_set (row_id r) (?f r) d) [] corpus"
  have synthetic: "synthetic_results corpus = Inr results"
    unfolding synthetic_results_def results_def by (rule synthetic_results_fold)
  have found: "map_of results (row_id r) = Some (?f r)" if "r \<in> set corpus" for r
  proof -
    have "filter (\<lambda>x. row_id x = row_id r) (rev corpus) \<noteq> []"
      using that by (auto simp: filter_empty_conv)
    moreover have "x = r" if "x \<in> set (filter (\<lambda>x. row_id x = row_id r) (rev corpus))" for x
      using that \<open>r \<in> set corpus\<close> ids by (auto simp: distinct_map inj_on_def)
    ultimately have "\<exists>xs. filter (\<lambda>x. row_id x = row_id r) (rev corpus) = r # xs"
      by (cases "filter (\<lambda>x. row_id x = row_id r) (rev corpus)") auto
    then show ?thesis unfolding results_def synthetic_lookup by auto
  qed
  then have all: "filter (has_result results) corpus = corpus" "filter (\<lambda>r. \<not> has_result results r) corpus = []"
    by (auto simp: filter_id_conv filter_empty_conv has_result_def)
  have hit: "case_top1 (evaluate_case 10 r (result_of results r))" if "r \<in> set corpus" for r
  proof -
    have "alternatives (row_expected r) \<noteq> []" by (simp add: alternatives_def)
    then have "hd (alternatives (row_expected r)) \<in> set (alternatives (row_expected r))" by simp
    moreover have "[] \<notin> set (alternatives (row_expected r))" using sound that by (auto simp: sound_row_def)
    ultimately show ?thesis
      using found [OF that] by (auto simp: evaluate_case_def Let_def result_of_def)
  qed
  then have hits: "count_cases case_top1 (map (\<lambda>r. evaluate_case 10 r (result_of results r)) corpus) = int (length corpus)"
    unfolding count_cases_def by (induction corpus) auto
  have one: "rate_of (int (length corpus)) (int (length corpus)) = Fin 1"
    using sound(1) by (simp add: rate_of_def)
  show ?thesis
    unfolding self_test_def
    by (simp add: synthetic evaluate_eq report_of_def Let_def all hits one num_eq_def)
qed

end
