(* ===== verification/Quality_Compare.thy ===== *)
theory Quality_Compare
  imports Quality_Evaluate Json_Text
begin

text \<open>
  \<open>compare_conversion_quality.py\<close>: the validation of a report, the rank of the first expected
  candidate and the comparison of two reports case by case.  The categories of a report are
  counted with the counters of \<^theory_text>\<open>Quality_Evaluate\<close>, which the two files share in shape.
\<close>

section \<open>Typed values\<close>

definition count_value :: "json \<Rightarrow> string \<Rightarrow> int res" where
  "count_value v ctx =
     (case v of
        JInt i \<Rightarrow> (if i < 0 then Inl (ValueError (ctx @ '' must be a non-negative integer'')) else Inr i)
      | _ \<Rightarrow> Inl (ValueError (ctx @ '' must be a non-negative integer'')))"

definition positive_value :: "json \<Rightarrow> string \<Rightarrow> int res" where
  "positive_value v ctx =
     bindE (count_value v ctx) (\<lambda>result.
     bindE (raise_if (result < 1) (ValueError (ctx @ '' must be a positive integer''))) (\<lambda>_.
     Inr result))"

text \<open>
  \<open>float(value)\<close> of an integer beyond the range of doubles raises \<open>OverflowError\<close>, before any
  comparison with the unit interval.
\<close>

definition to_float :: "json \<Rightarrow> string \<Rightarrow> pyfloat res" where
  "to_float v ctx =
     (case v of
        JInt i \<Rightarrow> rat_to_float (of_int i)
      | JFloat f \<Rightarrow> Inr f
      | _ \<Rightarrow> Inl (ValueError (ctx @ '' must be a finite number'')))"

definition rate_value :: "json \<Rightarrow> string \<Rightarrow> rat res" where
  "rate_value v ctx =
     bindE (to_float v ctx) (\<lambda>result.
     case result of
       Fin x \<Rightarrow>
         bindE (raise_if (\<not> (0 \<le> x \<and> x \<le> 1)) (ValueError (ctx @ '' must be between zero and one''))) (\<lambda>_.
         Inr x)
     | _ \<Rightarrow> Inl (ValueError (ctx @ '' must be between zero and one'')))"

definition require_equal :: "'a \<Rightarrow> 'a \<Rightarrow> string \<Rightarrow> unit res" where
  "require_equal actual expected ctx =
     raise_if (actual \<noteq> expected) (ValueError (ctx @ '' is inconsistent: ''))"

text \<open>\<open>math.isclose(a, b, rel_tol=0.0, abs_tol=1e-12)\<close> on finite doubles.\<close>

definition is_close :: "rat \<Rightarrow> rat \<Rightarrow> bool" where
  "is_close a b \<longleftrightarrow>
     a = b \<or>
     (case float_sub (Fin b) (Fin a) of Fin d \<Rightarrow> \<bar>d\<bar> \<le> fl (1 / 10 ^ 12) | _ \<Rightarrow> False)"

text \<open>The expected rate is the float \<open>hits / total\<close>; its division can raise first.\<close>

definition require_rate :: "json \<Rightarrow> int \<Rightarrow> int \<Rightarrow> string \<Rightarrow> unit res" where
  "require_rate actual hits cases_n ctx =
     bindE (int_div_float hits cases_n) (\<lambda>expected.
     bindE (rate_value actual ctx) (\<lambda>value.
     raise_if (\<not> (case expected of Fin e \<Rightarrow> is_close value e | _ \<Rightarrow> False))
       (ValueError (ctx @ '' is inconsistent: ''))))"

section \<open>Ranks\<close>

text \<open>The one-based position of the first observed candidate that is expected.\<close>

fun rank_from :: "int \<Rightarrow> string set \<Rightarrow> string list \<Rightarrow> int option" where
  "rank_from index expected_values [] = None"
| "rank_from index expected_values (candidate # observed) =
     (if candidate \<in> expected_values then Some index
      else rank_from (index + 1) expected_values observed)"

definition expected_rank :: "string list \<Rightarrow> string list \<Rightarrow> int option" where
  "expected_rank expected observed = rank_from 1 (set expected) observed"

section \<open>Validation of a report\<close>

record RankedCase =
  ranked_id :: string
  ranked_category :: string
  ranked_reading :: string
  ranked_expected :: "string list"
  ranked_observed :: "string list"
  ranked_rank :: "int option"

definition top1_hit :: "RankedCase \<Rightarrow> bool" where
  "top1_hit c \<longleftrightarrow> ranked_rank c = Some 1"

definition top_k_hit :: "RankedCase \<Rightarrow> bool" where
  "top_k_hit c \<longleftrightarrow> ranked_rank c \<noteq> None"

definition string_items :: "obj \<Rightarrow> string \<Rightarrow> string \<Rightarrow> string list res" where
  "string_items d k ctx =
     bindE (as_array (get_or_null d k) (dot ctx k)) (\<lambda>values.
     mapiE (\<lambda>item_index v. as_string v (at_index (dot ctx k) item_index)) 0 values)"

definition validate_case ::
  "int \<Rightarrow> string \<Rightarrow> string list \<Rightarrow> nat \<Rightarrow> json \<Rightarrow> RankedCase res" where
  "validate_case top_k label seen_ids index raw_case =
     (let ctx = at_index (label @ ''.cases'') index in
      bindE (as_object raw_case ctx) (\<lambda>d.
      bindE (as_string (get_or_null d ''id'') (dot ctx ''id'')) (\<lambda>i.
      bindE (raise_if (i \<in> set seen_ids) (ValueError (label @ ''.cases contains duplicate id ''))) (\<lambda>_.
      bindE (as_string (get_or_null d ''category'') (dot ctx ''category'')) (\<lambda>category.
      bindE (as_string (get_or_null d ''reading'') (dot ctx ''reading'')) (\<lambda>reading.
      bindE (string_items d ''expected'' ctx) (\<lambda>expected.
      bindE (raise_if (expected = []) (ValueError (ctx @ ''.expected must not be empty''))) (\<lambda>_.
      bindE (raise_if (length expected \<noteq> card (set expected))
               (ValueError (ctx @ ''.expected contains duplicate alternatives''))) (\<lambda>_.
      bindE (string_items d ''observed'' ctx) (\<lambda>observed.
      bindE (raise_if (top_k < int (length observed))
               (ValueError (ctx @ ''.observed exceeds top_k ''))) (\<lambda>_.
      let rank = expected_rank expected observed in
      bindE (as_boolean (get_or_null d ''top1'') (dot ctx ''top1'')) (\<lambda>top1.
      bindE (require_equal top1 (rank = Some 1) (dot ctx ''top1'')) (\<lambda>_.
      bindE (if top_k = 1 then Inr ()
             else bindE (as_boolean (get_or_null d (top_metric top_k)) (dot ctx (top_metric top_k)))
                    (\<lambda>hit. require_equal hit (rank \<noteq> None) (dot ctx (top_metric top_k)))) (\<lambda>_.
      Inr \<lparr>ranked_id = i, ranked_category = category, ranked_reading = reading,
           ranked_expected = expected, ranked_observed = observed, ranked_rank = rank\<rparr>))))))))))))))"

fun validate_cases ::
  "int \<Rightarrow> string \<Rightarrow> string list \<Rightarrow> nat \<Rightarrow> json list \<Rightarrow> RankedCase list res" where
  "validate_cases top_k label seen_ids index [] = Inr []"
| "validate_cases top_k label seen_ids index (raw_case # raw_cases) =
     bindE (validate_case top_k label seen_ids index raw_case) (\<lambda>c.
     bindE (validate_cases top_k label (ranked_id c # seen_ids) (Suc index) raw_cases) (\<lambda>cs.
     Inr (c # cs)))"

definition category_counts :: "RankedCase list \<Rightarrow> (string \<times> HitCounter) list" where
  "category_counts cases =
     foldl (\<lambda>counts c. bump (ranked_category c) (top1_hit c) (top_k_hit c) counts) [] cases"

definition hit_count :: "(RankedCase \<Rightarrow> bool) \<Rightarrow> RankedCase list \<Rightarrow> int" where
  "hit_count hit cases = sum_list (map (\<lambda>c. of_bool (hit c)) cases)"

definition validate_category ::
  "int \<Rightarrow> string \<Rightarrow> obj \<Rightarrow> string \<times> HitCounter \<Rightarrow> unit res" where
  "validate_category top_k label raw_categories = (\<lambda>(category, c).
     let ctx = label @ ''.by_category[]''; metric = top_metric top_k in
     bindE (get_item raw_categories category) (\<lambda>v.
     bindE (as_object v ctx) (\<lambda>values.
     bindE (count_value (get_or_null values ''total'') (dot ctx ''total'')) (\<lambda>n.
     bindE (require_equal n (hits_total c) (dot ctx ''total'')) (\<lambda>_.
     bindE (count_value (get_or_null values ''top1'') (dot ctx ''top1'')) (\<lambda>n1.
     bindE (require_equal n1 (hits_top1 c) (dot ctx ''top1'')) (\<lambda>_.
     bindE (require_rate (get_or_null values ''top1_rate'') (hits_top1 c) (hits_total c)
              (dot ctx ''top1_rate'')) (\<lambda>_.
     if top_k = 1 then Inr ()
     else
       bindE (count_value (get_or_null values metric) (dot ctx metric)) (\<lambda>nk.
       bindE (require_equal nk (hits_top_k c) (dot ctx metric)) (\<lambda>_.
       require_rate (get_or_null values (metric @ ''_rate'')) (hits_top_k c) (hits_total c)
         (dot ctx (metric @ ''_rate''))))))))))))"

record ValidReport =
  valid_top_k :: int
  valid_cases :: "RankedCase list"

definition validate_report :: "json \<Rightarrow> string \<Rightarrow> ValidReport res" where
  "validate_report report label =
     bindE (as_object report label) (\<lambda>payload.
     let field = get_or_null payload; ctx = dot label in
     bindE (raise_if (\<not> pyeq (field ''schema'') (JStr REPORT_SCHEMA))
              (ValueError (label @ ''.schema must be ''))) (\<lambda>_.
     bindE (positive_value (field ''top_k'') (ctx ''top_k'')) (\<lambda>top_k.
     bindE (count_value (field ''corpus_cases'') (ctx ''corpus_cases'')) (\<lambda>corpus_cases.
     bindE (count_value (field ''evaluated_cases'') (ctx ''evaluated_cases'')) (\<lambda>evaluated_cases.
     bindE (as_array (field ''missing_results'') (ctx ''missing_results'')) (\<lambda>missing_results.
     bindE (raise_if (missing_results \<noteq> [])
              (ValueError (label @ '' is incomplete: missing_results must be empty''))) (\<lambda>_.
     bindE (as_array (field ''cases'') (ctx ''cases'')) (\<lambda>raw_cases.
     bindE (raise_if (raw_cases = []) (ValueError (label @ ''.cases must not be empty''))) (\<lambda>_.
     bindE (require_equal corpus_cases (int (length raw_cases)) (ctx ''corpus_cases'')) (\<lambda>_.
     bindE (require_equal evaluated_cases (int (length raw_cases)) (ctx ''evaluated_cases'')) (\<lambda>_.
     bindE (validate_cases top_k label [] 0 raw_cases) (\<lambda>cases.
     let n = int (length cases); top1_hits = hit_count top1_hit cases;
         top_k_hits = hit_count top_k_hit cases; metric = top_metric top_k in
     bindE (count_value (field ''top1_hits'') (ctx ''top1_hits'')) (\<lambda>reported.
     bindE (require_equal reported top1_hits (ctx ''top1_hits'')) (\<lambda>_.
     bindE (require_rate (field ''top1_rate'') top1_hits n (ctx ''top1_rate'')) (\<lambda>_.
     bindE (if top_k = 1 then Inr ()
            else
              bindE (count_value (field (metric @ ''_hits'')) (ctx (metric @ ''_hits''))) (\<lambda>reported_k.
              bindE (require_equal reported_k top_k_hits (ctx (metric @ ''_hits''))) (\<lambda>_.
              require_rate (field (metric @ ''_rate'')) top_k_hits n (ctx (metric @ ''_rate''))))) (\<lambda>_.
     bindE (as_object (field ''by_category'') (ctx ''by_category'')) (\<lambda>raw_categories.
     bindE (require_equal (set (keys raw_categories)) (set (keys (category_counts cases)))
              (label @ ''.by_category categories'')) (\<lambda>_.
     bindE (eachE (validate_category top_k label raw_categories) (category_counts cases)) (\<lambda>_.
     Inr \<lparr>valid_top_k = top_k, valid_cases = cases\<rparr>)))))))))))))))))))"

section \<open>The comparison\<close>

text \<open>\<open>str.strip()\<close> on UTF-8 text: the code points that Python counts as white space.\<close>

definition py_whitespace :: "string list" where
  "py_whitespace =
     map utf8_encode ([9, 10, 11, 12, 13, 28, 29, 30, 31, 32, 133, 160, 5760] @ [8192..<8203] @
       [8232, 8233, 8239, 8287, 12288])"

definition without_prefix :: "string \<Rightarrow> string \<Rightarrow> string option" where
  "without_prefix p s =
     (if p \<noteq> [] \<and> take (length p) s = p then Some (drop (length p) s) else None)"

definition drop_one_of :: "string list \<Rightarrow> string \<Rightarrow> string option" where
  "drop_one_of ps s = (case filter (\<lambda>p. without_prefix p s \<noteq> None) ps of [] \<Rightarrow> None | p # _ \<Rightarrow> without_prefix p s)"

lemma drop_one_of_length: "drop_one_of ps s = Some t \<Longrightarrow> length t < length s"
  by (cases s) (auto simp: drop_one_of_def without_prefix_def split: list.splits if_splits)

function drop_all_of :: "string list \<Rightarrow> string \<Rightarrow> string" where
  "drop_all_of ps s = (case drop_one_of ps s of None \<Rightarrow> s | Some t \<Rightarrow> drop_all_of ps t)"
  by auto
termination by (relation "measure (length \<circ> snd)") (auto dest: drop_one_of_length)

declare drop_all_of.simps [simp del]

definition strip :: "string \<Rightarrow> string" where
  "strip s = rev (drop_all_of (map rev py_whitespace) (rev (drop_all_of py_whitespace s)))"

record BackendMetrics =
  m_top1_hits :: int
  m_top1_rate :: pyfloat
  m_top_k_hits :: int
  m_top_k_rate :: pyfloat

definition backend_metrics :: "RankedCase list \<Rightarrow> BackendMetrics res" where
  "backend_metrics cases =
     (let n = int (length cases); top1_hits = hit_count top1_hit cases;
          top_k_hits = hit_count top_k_hit cases
      in bindE (int_div_float top1_hits n) (\<lambda>top1_rate.
         bindE (int_div_float top_k_hits n) (\<lambda>top_k_rate.
         Inr \<lparr>m_top1_hits = top1_hits, m_top1_rate = top1_rate,
              m_top_k_hits = top_k_hits, m_top_k_rate = top_k_rate\<rparr>)))"

datatype winner = A_wins | B_wins | Tie

fun winner_of :: "int option \<Rightarrow> int option \<Rightarrow> winner" where
  "winner_of None None = Tie"
| "winner_of None (Some b_rank) = B_wins"
| "winner_of (Some a_rank) None = A_wins"
| "winner_of (Some a_rank) (Some b_rank) =
     (if a_rank < b_rank then A_wins else if b_rank < a_rank then B_wins else Tie)"

fun rank_delta :: "int option \<Rightarrow> int option \<Rightarrow> int option" where
  "rank_delta (Some a_rank) (Some b_rank) = Some (b_rank - a_rank)"
| "rank_delta _ _ = None"

record ComparedCase =
  compared_a :: RankedCase
  compared_b :: RankedCase
  compared_winner :: winner
  compared_delta :: "int option"

definition compare_case :: "RankedCase \<times> RankedCase \<Rightarrow> ComparedCase res" where
  "compare_case = (\<lambda>(a, b).
     let ctx = ''case '' in
     bindE (require_equal (ranked_category b) (ranked_category a) (dot ctx ''category'')) (\<lambda>_.
     bindE (require_equal (ranked_reading b) (ranked_reading a) (dot ctx ''reading'')) (\<lambda>_.
     bindE (require_equal (ranked_expected b) (ranked_expected a) (dot ctx ''expected'')) (\<lambda>_.
     Inr \<lparr>compared_a = a, compared_b = b,
          compared_winner = winner_of (ranked_rank a) (ranked_rank b),
          compared_delta = rank_delta (ranked_rank a) (ranked_rank b)\<rparr>))))"

record MetricsDelta =
  d_top1_hits :: int
  d_top1_rate :: pyfloat
  d_top_k_hits :: int
  d_top_k_rate :: pyfloat

definition metrics_delta :: "BackendMetrics \<Rightarrow> BackendMetrics \<Rightarrow> MetricsDelta" where
  "metrics_delta a b =
     \<lparr>d_top1_hits = m_top1_hits b - m_top1_hits a,
      d_top1_rate = float_sub (m_top1_rate b) (m_top1_rate a),
      d_top_k_hits = m_top_k_hits b - m_top_k_hits a,
      d_top_k_rate = float_sub (m_top_k_rate b) (m_top_k_rate a)\<rparr>"

record Comparison =
  cmp_top_k :: int
  cmp_a_name :: string
  cmp_b_name :: string
  cmp_a_metrics :: BackendMetrics
  cmp_b_metrics :: BackendMetrics
  cmp_delta :: MetricsDelta
  cmp_a_wins :: int
  cmp_b_wins :: int
  cmp_ties :: int
  cmp_cases :: "ComparedCase list"

definition won_by :: "winner \<Rightarrow> ComparedCase list \<Rightarrow> int" where
  "won_by w cases = int (length (filter (\<lambda>c. compared_winner c = w) cases))"

definition compare_reports :: "json \<Rightarrow> json \<Rightarrow> string \<Rightarrow> string \<Rightarrow> Comparison res" where
  "compare_reports a_report b_report a_raw_name b_raw_name =
     bindE (as_string (JStr (strip a_raw_name)) ''a_name'') (\<lambda>a_name.
     bindE (as_string (JStr (strip b_raw_name)) ''b_name'') (\<lambda>b_name.
     bindE (raise_if (a_name = b_name) (ValueError ''a_name and b_name must be distinct'')) (\<lambda>_.
     bindE (validate_report a_report ''a_report'') (\<lambda>a.
     bindE (validate_report b_report ''b_report'') (\<lambda>b.
     bindE (require_equal (valid_top_k b) (valid_top_k a) ''report top_k'') (\<lambda>_.
     bindE (require_equal (map ranked_id (valid_cases b)) (map ranked_id (valid_cases a))
              ''report case ids'') (\<lambda>_.
     bindE (mapE compare_case (zip (valid_cases a) (valid_cases b))) (\<lambda>cases.
     bindE (backend_metrics (valid_cases a)) (\<lambda>a_metrics.
     bindE (backend_metrics (valid_cases b)) (\<lambda>b_metrics.
     Inr \<lparr>cmp_top_k = valid_top_k a, cmp_a_name = a_name, cmp_b_name = b_name,
          cmp_a_metrics = a_metrics, cmp_b_metrics = b_metrics,
          cmp_delta = metrics_delta a_metrics b_metrics,
          cmp_a_wins = won_by A_wins cases, cmp_b_wins = won_by B_wins cases,
          cmp_ties = won_by Tie cases, cmp_cases = cases\<rparr>))))))))))"

text \<open>The comparison as the document that is written.\<close>

definition OUTPUT_SCHEMA :: string where
  "OUTPUT_SCHEMA = ''hazkey.conversion-quality-ab-report.v1''"

definition int_or_null :: "int option \<Rightarrow> json" where
  "int_or_null n = (case n of None \<Rightarrow> JNull | Some i \<Rightarrow> JInt i)"

fun winner_text :: "winner \<Rightarrow> string" where
  "winner_text A_wins = ''a''"
| "winner_text B_wins = ''b''"
| "winner_text Tie = ''tie''"

definition ranked_side_json :: "RankedCase \<Rightarrow> json" where
  "ranked_side_json c = JObj
     [(''observed'', str_arr (ranked_observed c)), (''expected_rank'', int_or_null (ranked_rank c)),
      (''top1_hit'', JBool (top1_hit c)), (''top_k_hit'', JBool (top_k_hit c))]"

definition compared_case_json :: "ComparedCase \<Rightarrow> json" where
  "compared_case_json c =
     (let a = compared_a c in JObj
       [(''id'', JStr (ranked_id a)), (''category'', JStr (ranked_category a)),
        (''reading'', JStr (ranked_reading a)), (''expected'', str_arr (ranked_expected a)),
        (''a'', ranked_side_json a), (''b'', ranked_side_json (compared_b c)),
        (''winner'', JStr (winner_text (compared_winner c))),
        (''rank_delta'', int_or_null (compared_delta c))])"

definition backend_metrics_json :: "BackendMetrics \<Rightarrow> json" where
  "backend_metrics_json m = JObj
     [(''top1_hits'', JInt (m_top1_hits m)), (''top1_rate'', JFloat (m_top1_rate m)),
      (''top_k_hits'', JInt (m_top_k_hits m)), (''top_k_rate'', JFloat (m_top_k_rate m))]"

definition comparison_json :: "Comparison \<Rightarrow> json" where
  "comparison_json c = JObj
     [(''schema'', JStr OUTPUT_SCHEMA), (''top_k'', JInt (cmp_top_k c)),
      (''rank_scope'', JStr ''observed_top_k''), (''delta_direction'', JStr ''b_minus_a''),
      (''backends'', JObj [(''a'', JStr (cmp_a_name c)), (''b'', JStr (cmp_b_name c))]),
      (''metrics'', JObj
        [(''a'', backend_metrics_json (cmp_a_metrics c)), (''b'', backend_metrics_json (cmp_b_metrics c)),
         (''delta'', JObj
           [(''top1_hits'', JInt (d_top1_hits (cmp_delta c))), (''top1_rate'', JFloat (d_top1_rate (cmp_delta c))),
            (''top_k_hits'', JInt (d_top_k_hits (cmp_delta c))), (''top_k_rate'', JFloat (d_top_k_rate (cmp_delta c)))])]),
      (''wins'', JObj [(''a'', JInt (cmp_a_wins c)), (''b'', JInt (cmp_b_wins c)), (''ties'', JInt (cmp_ties c))]),
      (''cases'', JArr (map compared_case_json (cmp_cases c)))]"

section \<open>Facts about the checks\<close>

lemma count_value_iff [simp]: "count_value v ctx = Inr i \<longleftrightarrow> v = JInt i \<and> 0 \<le> i"
  by (cases v) (auto simp: count_value_def)

lemma positive_value_iff [simp]: "positive_value v ctx = Inr i \<longleftrightarrow> v = JInt i \<and> 1 \<le> i"
  by (auto simp: positive_value_def)

lemma require_equal_iff [simp]: "require_equal a b ctx = Inr u \<longleftrightarrow> a = b"
  by (simp add: require_equal_def)

lemma is_close_refl [simp]: "is_close x x"
  by (simp add: is_close_def)

lemma require_rate_own:
  assumes "0 \<le> h" "h \<le> n" "0 < n"
  shows "require_rate (JFloat (Fin (fl (of_int h / of_int n)))) h n ctx = Inr ()"
  using double.rnd_ratio_unit [OF assms]
  by (simp add: require_rate_def int_div_float_rate assms rate_value_def to_float_def)

lemma mapiE_as_string:
  "mapiE (\<lambda>j v. as_string v (f j)) i (map JStr ss) = Inr ts \<longleftrightarrow> ts = ss \<and> [] \<notin> set ss"
  by (induction ss arbitrary: i ts) auto

lemma string_items_iff:
  "get_or_null d k = JArr (map JStr ss) \<Longrightarrow> string_items d k ctx = Inr ts \<longleftrightarrow> ts = ss \<and> [] \<notin> set ss"
  by (simp add: string_items_def mapiE_as_string)

section \<open>Ranks\<close>

lemma rank_from_bounds: "rank_from i S xs = Some n \<Longrightarrow> i \<le> n \<and> n < i + int (length xs)"
  by (induction i S xs rule: rank_from.induct) (auto split: if_splits)

lemma rank_from_iff:
  "rank_from i S xs = Some n \<longleftrightarrow>
     i \<le> n \<and> n < i + int (length xs) \<and> xs ! nat (n - i) \<in> S \<and> (\<forall>x \<in> set (take (nat (n - i)) xs). x \<notin> S)"
proof (induction i S xs rule: rank_from.induct)
  case (2 i S x xs)
  show ?case
  proof (cases "x \<in> S")
    case True
    then show ?thesis by (cases "n = i") (auto simp: take_Cons')
  next
    case False
    have "n \<noteq> i \<Longrightarrow> i \<le> n \<Longrightarrow> nat (n - i) = Suc (nat (n - (i + 1)))" by simp
    with False 2 show ?thesis by (cases "n = i") auto
  qed
qed simp

lemma rank_from_None [simp]: "rank_from i S xs = None \<longleftrightarrow> (\<forall>x \<in> set xs. x \<notin> S)"
  by (induction i S xs rule: rank_from.induct) auto

lemma expected_rank_1: "expected_rank es os = Some 1 \<longleftrightarrow> os \<noteq> [] \<and> hd os \<in> set es"
  by (cases os) (auto simp: expected_rank_def dest: rank_from_bounds)

lemma expected_rank_None: "expected_rank es os = None \<longleftrightarrow> \<not> list_ex (\<lambda>v. v \<in> set es) os"
  by (auto simp: expected_rank_def list_ex_iff)

section \<open>Reports of the evaluation\<close>

definition ranked_of :: "CaseReport \<Rightarrow> RankedCase" where
  "ranked_of c = \<lparr>ranked_id = case_id c, ranked_category = case_category c,
     ranked_reading = case_reading c, ranked_expected = case_expected c,
     ranked_observed = case_observed c, ranked_rank = expected_rank (case_expected c) (case_observed c)\<rparr>"

lemma top_metric_neq:
  "top_metric k \<noteq> ''id''" "top_metric k \<noteq> ''category''" "top_metric k \<noteq> ''reading''"
  "top_metric k \<noteq> ''expected''" "top_metric k \<noteq> ''observed''" "top_metric k \<noteq> ''total''"
  "top_metric k \<noteq> ''schema''" "top_metric k @ s \<noteq> ''schema''"  "top_metric k @ s \<noteq> ''total''"
  "top_metric k @ s \<noteq> ''corpus_cases''" "top_metric k @ s \<noteq> ''evaluated_cases''"
  "top_metric k @ s \<noteq> ''missing_results''" "top_metric k @ s \<noteq> ''by_category''" "top_metric k @ s \<noteq> ''cases''"
  by (simp_all add: top_metric_def)

lemma top_metric_digits: "top_metric k = ''top'' @ s \<Longrightarrow> s = dec (nat k)"
  by (simp add: top_metric_def)

lemma dec_not_1: "k \<noteq> 1 \<Longrightarrow> 0 \<le> k \<Longrightarrow> dec (nat k) \<noteq> ''1''"
  using dec_inject [of "nat k" 1] by (auto simp: dec_one [symmetric])

lemma underscore_digits: "dec n \<noteq> CHR ''_'' # s"
  using dec_digits [of "CHR ''_''" n] by (auto simp: is_digit_def)

lemma case_json_fields:
  fixes c :: CaseReport and k :: nat
  defines "d \<equiv> [(''id'', JStr (case_id c)), (''category'', JStr (case_category c)),
      (''reading'', JStr (case_reading c)), (''expected'', JArr (map JStr (case_expected c))),
      (''top1'', JBool (case_top1 c)), (''observed'', JArr (map JStr (case_observed c)))] @
     (if k = 1 then [] else [(top_metric (int k), JBool (case_top_k c))])"
  shows "case_json k c = JObj d" "get_or_null d ''id'' = JStr (case_id c)"
    "get_or_null d ''category'' = JStr (case_category c)" "get_or_null d ''reading'' = JStr (case_reading c)"
    "get_or_null d ''expected'' = JArr (map JStr (case_expected c))"
    "get_or_null d ''top1'' = JBool (case_top1 c)"
    "get_or_null d ''observed'' = JArr (map JStr (case_observed c))"
    "k \<noteq> 1 \<Longrightarrow> get_or_null d (top_metric (int k)) = JBool (case_top_k c)"
proof -
  have "k \<noteq> 1 \<Longrightarrow> top_metric (int k) \<noteq> ''top1''"
    using dec_not_1 [of "int k"] by (auto simp: top_metric_def)
  then show "case_json k c = JObj d" "get_or_null d ''id'' = JStr (case_id c)"
    "get_or_null d ''category'' = JStr (case_category c)" "get_or_null d ''reading'' = JStr (case_reading c)"
    "get_or_null d ''expected'' = JArr (map JStr (case_expected c))"
    "get_or_null d ''top1'' = JBool (case_top1 c)"
    "get_or_null d ''observed'' = JArr (map JStr (case_observed c))"
    "k \<noteq> 1 \<Longrightarrow> get_or_null d (top_metric (int k)) = JBool (case_top_k c)"
    by (simp_all add: d_def case_json_def get_or_null_def top_metric_neq)
qed

definition case_ok :: "nat \<Rightarrow> CaseReport \<Rightarrow> bool" where
  "case_ok k c \<longleftrightarrow>
     case_id c \<noteq> [] \<and> case_category c \<noteq> [] \<and> case_reading c \<noteq> [] \<and> case_expected c \<noteq> [] \<and>
     [] \<notin> set (case_expected c) \<and> distinct (case_expected c) \<and> [] \<notin> set (case_observed c) \<and>
     length (case_observed c) \<le> k \<and>
     (case_top1 c \<longleftrightarrow> expected_rank (case_expected c) (case_observed c) = Some 1) \<and>
     (k \<noteq> 1 \<longrightarrow> (case_top_k c \<longleftrightarrow> expected_rank (case_expected c) (case_observed c) \<noteq> None))"

lemma validate_case_iff:
  "validate_case (int k) label seen i (case_json k c) = Inr v \<longleftrightarrow>
     v = ranked_of c \<and> case_ok k c \<and> case_id c \<notin> set seen"
proof -
  obtain d where d: "case_json k c = JObj d" "get_or_null d ''id'' = JStr (case_id c)"
    "get_or_null d ''category'' = JStr (case_category c)" "get_or_null d ''reading'' = JStr (case_reading c)"
    "get_or_null d ''expected'' = JArr (map JStr (case_expected c))"
    "get_or_null d ''top1'' = JBool (case_top1 c)"
    "get_or_null d ''observed'' = JArr (map JStr (case_observed c))"
    "k \<noteq> 1 \<Longrightarrow> get_or_null d (top_metric (int k)) = JBool (case_top_k c)"
    using case_json_fields [where c = c and k = k] by blast
  have card: "length (case_expected c) = card (set (case_expected c)) \<longleftrightarrow> distinct (case_expected c)"
    by (metis card_distinct distinct_card)
  show ?thesis
    unfolding validate_case_def Let_def d(1)
    by (cases "k = 1")
      (simp_all add: d(2-7) d(8) string_items_iff [OF d(5)] string_items_iff [OF d(7)] card case_ok_def
        ranked_of_def not_less,
       (rule iffI; elim conjE; intro conjI; (assumption | erule sym))+)
qed

lemma validate_cases_iff:
  "validate_cases (int k) label seen i (map (case_json k) cs) = Inr vs \<longleftrightarrow>
     vs = map ranked_of cs \<and> (\<forall>c \<in> set cs. case_ok k c) \<and> distinct (map case_id cs) \<and>
     set (map case_id cs) \<inter> set seen = {}"
  by (induction cs arbitrary: seen i vs) (auto simp: validate_case_iff ranked_of_def)

lemma evaluated_ranks:
  assumes "1 \<le> k" and c: "c = evaluate_case k r v"
  shows "case_top1 c \<longleftrightarrow> expected_rank (case_expected c) (case_observed c) = Some 1"
    "case_top_k c \<longleftrightarrow> expected_rank (case_expected c) (case_observed c) \<noteq> None"
proof -
  show "case_top1 c \<longleftrightarrow> expected_rank (case_expected c) (case_observed c) = Some 1"
    unfolding expected_rank_1 c using assms(1) by (cases v; cases k) (auto simp: evaluate_case_def Let_def)
  show "case_top_k c \<longleftrightarrow> expected_rank (case_expected c) (case_observed c) \<noteq> None"
    unfolding expected_rank_None c by (simp add: evaluate_case_def Let_def)
qed

lemma counter_value_fields:
  fixes k :: nat
  assumes "0 \<le> hits_top1 h" "hits_top1 h \<le> hits_total h" "0 \<le> hits_top_k h" "hits_top_k h \<le> hits_total h"
    "0 < hits_total h"
  obtains d where "counter_value k h = JObj d" "get_or_null d ''total'' = JInt (hits_total h)"
    "get_or_null d ''top1'' = JInt (hits_top1 h)"
    "get_or_null d ''top1_rate'' = JFloat (Fin (fl (of_int (hits_top1 h) / of_int (hits_total h))))"
    "k \<noteq> 1 \<Longrightarrow> get_or_null d (top_metric (int k)) = JInt (hits_top_k h)"
    "k \<noteq> 1 \<Longrightarrow> get_or_null d (top_metric (int k) @ ''_rate'') =
       JFloat (Fin (fl (of_int (hits_top_k h) / of_int (hits_total h))))"
proof -
  have "dec k \<noteq> s @ ''_rate''" for s
    using dec_digits [of "CHR ''_''" k] by (auto simp: is_digit_def)
  note no_rate = this this [of "''1''"] this [of "[]"]
  have n1: "dec k \<noteq> ''1''" if "k \<noteq> 1" using dec_not_1 [of "int k"] that by simp
  define d where "d = [(''total'', JInt (hits_total h)), (''top1'', JInt (hits_top1 h))] @
       (if k = 1 then [] else [(top_metric k, JInt (hits_top_k h))]) @
       [(''top1_rate'', JFloat (Fin (fl (of_int (hits_top1 h) / of_int (hits_total h)))))] @
       (if k = 1 then []
        else [(top_metric k @ ''_rate'', JFloat (Fin (fl (of_int (hits_top_k h) / of_int (hits_total h)))))])"
  have "counter_value k h = JObj d"
    by (simp add: counter_value_def counter_json_defined [OF assms] d_def)
  then show thesis
    by (rule that) (use n1 no_rate in \<open>auto simp: d_def get_or_null_def top_metric_def\<close>)
qed

lemma validate_category_own:
  assumes "0 \<le> hits_top1 h" "hits_top1 h \<le> hits_total h" "0 \<le> hits_top_k h" "hits_top_k h \<le> hits_total h"
    "0 < hits_total h" and "map_of cats c = Some (counter_value k h)"
  shows "validate_category (int k) label cats (c, h) = Inr ()"
proof -
  obtain d where d: "counter_value k h = JObj d" "get_or_null d ''total'' = JInt (hits_total h)"
    "get_or_null d ''top1'' = JInt (hits_top1 h)"
    "get_or_null d ''top1_rate'' = JFloat (Fin (fl (of_int (hits_top1 h) / of_int (hits_total h))))"
    "k \<noteq> 1 \<Longrightarrow> get_or_null d (top_metric (int k)) = JInt (hits_top_k h)"
    "k \<noteq> 1 \<Longrightarrow> get_or_null d (top_metric (int k) @ ''_rate'') =
       JFloat (Fin (fl (of_int (hits_top_k h) / of_int (hits_total h))))"
    using counter_value_fields [OF assms(1-5), of k] by blast
  have step: "validate_category (int k) label cats (c, h) =
      (if int k = 1 then Inr ()
       else bindE (count_value (get_or_null d (top_metric (int k))) (dot (label @ ''.by_category[]'') (top_metric (int k))))
         (\<lambda>nk. bindE (require_equal nk (hits_top_k h) (dot (label @ ''.by_category[]'') (top_metric (int k))))
         (\<lambda>_. require_rate (get_or_null d (top_metric (int k) @ ''_rate'')) (hits_top_k h) (hits_total h)
           (dot (label @ ''.by_category[]'') (top_metric (int k) @ ''_rate'')))))"
    using assms by (simp add: validate_category_def Let_def get_item_def as_object_def count_value_def
        require_equal_def d(1-4) require_rate_own)
  show ?thesis
    unfolding step using assms d(5,6) by (auto simp: require_rate_own)
qed

lemma category_counts_tally:
  "category_counts cases = tally (map (\<lambda>c. (ranked_category c, top1_hit c, top_k_hit c)) cases)"
  by (simp add: category_counts_def tally_def foldl_map)

lemma report_fields:
  fixes k :: nat
  assumes "cases = map (\<lambda>r. evaluate_case k r (result_of results r)) (filter (has_result results) corpus)"
  obtains d where "JObj (report_of corpus results k) = JObj d"
    "get_or_null d ''schema'' = JStr REPORT_SCHEMA" "get_or_null d ''top_k'' = JInt (int k)"
    "get_or_null d ''corpus_cases'' = JInt (int (length corpus))"
    "get_or_null d ''evaluated_cases'' = JInt (int (length cases))"
    "get_or_null d ''missing_results'' = JArr (map JStr (map row_id (filter (\<lambda>r. \<not> has_result results r) corpus)))"
    "get_or_null d ''top1_hits'' = JInt (count_cases case_top1 cases)"
    "get_or_null d ''top1_rate'' = JFloat (rate_of (count_cases case_top1 cases) (int (length cases)))"
    "get_or_null d ''by_category'' =
       JObj (map (\<lambda>(c, h). (c, counter_value k h)) (sort_key fst (tally (map case_tag cases))))"
    "get_or_null d ''cases'' = JArr (map (case_json k) cases)"
    "k \<noteq> 1 \<Longrightarrow> get_or_null d (top_metric (int k) @ ''_hits'') = JInt (count_cases case_top_k cases)"
    "k \<noteq> 1 \<Longrightarrow> get_or_null d (top_metric (int k) @ ''_rate'') =
       JFloat (rate_of (count_cases case_top_k cases) (int (length cases)))"
proof -
  have n1: "dec k \<noteq> ''1''" if "k \<noteq> 1" using dec_not_1 [of "int k"] that by simp
  have under: "dec k \<noteq> s @ CHR ''_'' # t" for s t
    using dec_digits [of "CHR ''_''" k] by (auto simp: is_digit_def)
  have hk: "dec k @ ''_rate'' \<noteq> s @ ''_hits''" "dec k @ ''_hits'' \<noteq> s @ ''_rate''" for s
    by (auto dest: arg_cong [of _ _ rev])
  have same: "dec k @ ''_rate'' = s @ ''_rate'' \<longleftrightarrow> dec k = s" "dec k @ ''_hits'' = s @ ''_hits'' \<longleftrightarrow> dec k = s" for s
    by auto
  note facts = n1 hk [of "''1''", simplified] same [of "''1''", simplified] hk [of "[]", simplified]
  have "JObj (report_of corpus results k) = JObj (report_of corpus results k)" ..
  then show thesis
    by (rule that)
      (use facts in \<open>auto simp: report_of_def Let_def get_or_null_def top_metric_def assms\<close>)
qed

lemma hit_counts_agree:
  assumes "1 \<le> k" and "cases = map (\<lambda>r. evaluate_case k r (f r)) rows"
  shows "hit_count top1_hit (map ranked_of cases) = count_cases case_top1 cases"
    "hit_count top_k_hit (map ranked_of cases) = count_cases case_top_k cases"
    "category_counts (map ranked_of cases) = tally (map case_tag cases)"
proof -
  have tags: "top1_hit (ranked_of c) = case_top1 c \<and> top_k_hit (ranked_of c) = case_top_k c" if "c \<in> set cases" for c
    using that assms evaluated_ranks [OF assms(1)] by (auto simp: ranked_of_def top1_hit_def top_k_hit_def)
  then show "hit_count top1_hit (map ranked_of cases) = count_cases case_top1 cases"
    "hit_count top_k_hit (map ranked_of cases) = count_cases case_top_k cases"
    unfolding hit_count_def count_cases_def by (auto intro!: arg_cong [where f = sum_list])
  have "map (\<lambda>c. (ranked_category c, top1_hit c, top_k_hit c)) (map ranked_of cases) = map case_tag cases"
    using tags by (auto simp: case_tag_def ranked_of_def)
  then show "category_counts (map ranked_of cases) = tally (map case_tag cases)"
    unfolding category_counts_tally by (simp only:)
qed

lemma rate_of_own: "0 < n \<Longrightarrow> 0 \<le> h \<Longrightarrow> h \<le> n \<Longrightarrow> require_rate (JFloat (rate_of h n)) h n ctx = Inr ()"
  by (simp add: rate_of_def require_rate_own)

lemma validate_own_report:
  fixes k :: nat
  assumes k: "1 \<le> k"
    and cases: "cases = map (\<lambda>r. evaluate_case k r (result_of results r)) (filter (has_result results) corpus)"
  shows "validate_report (JObj (report_of corpus results k)) label = Inr v \<longleftrightarrow>
    v = \<lparr>valid_top_k = int k, valid_cases = map ranked_of cases\<rparr> \<and>
    corpus \<noteq> [] \<and> (\<forall>r \<in> set corpus. has_result results r) \<and>
    (\<forall>c \<in> set cases. case_ok k c) \<and> distinct (map case_id cases)"
proof -
  obtain d where d: "JObj (report_of corpus results k) = JObj d"
    "get_or_null d ''schema'' = JStr REPORT_SCHEMA" "get_or_null d ''top_k'' = JInt (int k)"
    "get_or_null d ''corpus_cases'' = JInt (int (length corpus))"
    "get_or_null d ''evaluated_cases'' = JInt (int (length cases))"
    "get_or_null d ''missing_results'' = JArr (map JStr (map row_id (filter (\<lambda>r. \<not> has_result results r) corpus)))"
    "get_or_null d ''top1_hits'' = JInt (count_cases case_top1 cases)"
    "get_or_null d ''top1_rate'' = JFloat (rate_of (count_cases case_top1 cases) (int (length cases)))"
    "get_or_null d ''by_category'' =
       JObj (map (\<lambda>(c, h). (c, counter_value k h)) (sort_key fst (tally (map case_tag cases))))"
    "get_or_null d ''cases'' = JArr (map (case_json k) cases)"
    "k \<noteq> 1 \<Longrightarrow> get_or_null d (top_metric (int k) @ ''_hits'') = JInt (count_cases case_top_k cases)"
    "k \<noteq> 1 \<Longrightarrow> get_or_null d (top_metric (int k) @ ''_rate'') =
       JFloat (rate_of (count_cases case_top_k cases) (int (length cases)))"
    using report_fields [OF cases] by blast
  let ?cats = "map (\<lambda>(c, h). (c, counter_value k h)) (sort_key fst (tally (map case_tag cases)))"
  have full: "filter (\<lambda>r. \<not> has_result results r) corpus = [] \<longleftrightarrow> (\<forall>r \<in> set corpus. has_result results r)"
    by (simp add: filter_empty_conv)
  have len: "length cases = length corpus" if "\<forall>r \<in> set corpus. has_result results r"
    using that cases by simp
  note agree = hit_counts_agree [OF k cases]
  have cats_keys: "set (keys ?cats) = set (keys (tally (map case_tag cases)))"
    by (force simp: keys_def image_image split_def)
  have cats: "\<forall>ch \<in> set (tally (map case_tag cases)). validate_category (int k) label ?cats ch = Inr ()"
  proof
    fix ch assume ch: "ch \<in> set (tally (map case_tag cases))"
    obtain c h where h: "ch = (c, h)" by fastforce
    then have hc: "h = counter_of c (map case_tag cases)" "c \<in> fst ` set (map case_tag cases)"
      using tally_member ch by blast+
    have "map_of ?cats c = Some (counter_value k h)"
    proof (rule map_of_is_SomeI)
      have "map fst ?cats = map fst (sort_key fst (tally (map case_tag cases)))" by auto
      moreover have "distinct (map fst (sort_key fst (tally (map case_tag cases))))"
        using tally_distinct [of "map case_tag cases"] unfolding keys_def by (simp add: distinct_map)
      ultimately show "distinct (map fst ?cats)" by (simp only:)
      show "(c, counter_value k h) \<in> set ?cats" using ch h by force
    qed
    then show "validate_category (int k) label ?cats ch = Inr ()"
      unfolding h using counter_bounds(1-4) counter_bounds(5) [OF hc(2)]
      by (intro validate_category_own) (simp_all add: hc)
  qed
  have bounds: "0 \<le> count_cases f cases" "count_cases f cases \<le> int (length cases)" for f
    by (simp_all add: count_cases_bounds)
  show ?thesis
  proof (cases "corpus \<noteq> [] \<and> (\<forall>r \<in> set corpus. has_result results r)")
    case True
    then have ne: "cases \<noteq> []" and pos: "0 < int (length cases)" and full': "map row_id (filter (\<lambda>r. \<not> has_result results r) corpus) = []"
      using len by auto
    have rates: "require_rate (JFloat (rate_of (count_cases f cases) (int (length corpus))))
        (count_cases f cases) (int (length corpus)) ctx = Inr ()" for f ctx
      using rate_of_own [OF pos bounds] len True by simp
    show ?thesis
      unfolding validate_report_def Let_def d(1) using True k ne d(11,12) cats
      by (simp add: d(2-10) full' len validate_cases_iff agree cats_keys rates bounds(1)) blast
  next
    case False
    have missing_ne: "map row_id (filter (\<lambda>r. \<not> has_result results r) corpus) \<noteq> [] \<or> cases = []"
      using False full cases by auto
    then show ?thesis
      using False unfolding validate_report_def Let_def d(1)
      by (auto simp: d(2-10) full)
  qed
qed

section \<open>Comparisons\<close>

lemma compare_case_iff:
  "compare_case (a, b) = Inr c \<longleftrightarrow>
     ranked_category b = ranked_category a \<and> ranked_reading b = ranked_reading a \<and>
     ranked_expected b = ranked_expected a \<and>
     c = \<lparr>compared_a = a, compared_b = b, compared_winner = winner_of (ranked_rank a) (ranked_rank b),
          compared_delta = rank_delta (ranked_rank a) (ranked_rank b)\<rparr>"
  by (auto simp: compare_case_def Let_def require_equal_def)

lemma winner_total: "won_by A_wins cs + won_by B_wins cs + won_by Tie cs = int (length cs)"
proof (induction cs)
  case (Cons c cs)
  then show ?case by (cases "compared_winner c") (auto simp: won_by_def)
qed (simp add: won_by_def)

text \<open>Exchanging the two sides.\<close>

fun swap_winner :: "winner \<Rightarrow> winner" where
  "swap_winner A_wins = B_wins" | "swap_winner B_wins = A_wins" | "swap_winner Tie = Tie"

definition swap_case :: "ComparedCase \<Rightarrow> ComparedCase" where
  "swap_case c = \<lparr>compared_a = compared_b c, compared_b = compared_a c,
     compared_winner = swap_winner (compared_winner c),
     compared_delta = map_option uminus (compared_delta c)\<rparr>"

fun float_neg :: "pyfloat \<Rightarrow> pyfloat" where
  "float_neg (Fin x) = Fin (- x)" | "float_neg (Infinity s) = Infinity (\<not> s)" | "float_neg NaN = NaN"

definition negate_delta :: "MetricsDelta \<Rightarrow> MetricsDelta" where
  "negate_delta d = \<lparr>d_top1_hits = - d_top1_hits d, d_top1_rate = float_neg (d_top1_rate d),
     d_top_k_hits = - d_top_k_hits d, d_top_k_rate = float_neg (d_top_k_rate d)\<rparr>"

definition swap_comparison :: "Comparison \<Rightarrow> Comparison" where
  "swap_comparison c = \<lparr>cmp_top_k = cmp_top_k c, cmp_a_name = cmp_b_name c, cmp_b_name = cmp_a_name c,
     cmp_a_metrics = cmp_b_metrics c, cmp_b_metrics = cmp_a_metrics c,
     cmp_delta = negate_delta (cmp_delta c), cmp_a_wins = cmp_b_wins c, cmp_b_wins = cmp_a_wins c,
     cmp_ties = cmp_ties c, cmp_cases = map swap_case (cmp_cases c)\<rparr>"

lemma winner_of_swap: "winner_of y x = swap_winner (winner_of x y)"
  by (cases x; cases y) auto

lemma rank_delta_swap: "rank_delta y x = map_option uminus (rank_delta x y)"
  by (cases x; cases y) auto

lemma float_sub_swap: "float_sub b a = float_neg (float_sub a b)"
proof (cases "\<exists>x y. a = Fin x \<and> b = Fin y")
  case True
  then obtain x y where xy: "a = Fin x" "b = Fin y" by blast
  have ov: "fl_overflows (y - x) = fl_overflows (x - y)"
    by (simp add: fl_overflows_def abs_minus_commute)
  have "fl (y - x) = - fl (x - y)" by (rule double.rnd_difference_antisym)
  moreover have "0 < y - x \<longleftrightarrow> \<not> 0 < x - y" if "fl_overflows (x - y)"
  proof -
    have "0 < float_limit" unfolding float_limit_def by (simp add: power_strict_increasing)
    then have "x - y \<noteq> 0" using that unfolding fl_overflows_def by (metis abs_zero not_le)
    then show ?thesis by linarith
  qed
  ultimately show ?thesis by (simp add: xy ov)
next
  case False
  then show ?thesis by (cases a; cases b) auto
qed

lemma metrics_delta_swap: "metrics_delta b a = negate_delta (metrics_delta a b)"
  by (simp add: metrics_delta_def negate_delta_def float_sub_swap [of "m_top1_rate a"] float_sub_swap [of "m_top_k_rate a"])

lemma won_by_swap: "won_by (swap_winner w) (map swap_case cs) = won_by w cs"
proof -
  have "swap_winner x = swap_winner y \<longleftrightarrow> x = y" for x y by (cases x; cases y) auto
  then show ?thesis by (simp add: won_by_def filter_map comp_def swap_case_def)
qed

lemma compare_cases_swap:
  "mapE compare_case (zip as bs) = Inr cs \<Longrightarrow> mapE compare_case (zip bs as) = Inr (map swap_case cs)"
proof (induction as bs arbitrary: cs rule: list_induct2')
  case (4 a as b bs)
  then show ?case
    by (auto simp: compare_case_iff swap_case_def winner_of_swap [of "ranked_rank b"]
        rank_delta_swap [of "ranked_rank b"])
qed auto

text \<open>The label of a report occurs in messages only.\<close>

definition the_ok :: "'a res \<Rightarrow> 'a option" where
  "the_ok r = (case r of Inl _ \<Rightarrow> None | Inr x \<Rightarrow> Some x)"

lemma the_ok_iff: "r = Inr x \<longleftrightarrow> the_ok r = Some x"
  by (cases r) (auto simp: the_ok_def)

lemma the_ok_bind: "the_ok (bindE m f) = Option.bind (the_ok m) (\<lambda>x. the_ok (f x))"
  by (cases m) (auto simp: the_ok_def)

lemma the_ok_basic:
  "the_ok (Inr x) = Some x" "the_ok (raise_if c e) = (if c then None else Some ())"
  "the_ok (require_equal a b ctx) = (if a = b then Some () else None)"
  by (auto simp: the_ok_def raise_if_def require_equal_def)

lemma the_ok_cong: "(\<And>x. r = Inr x \<longleftrightarrow> r' = Inr x) \<Longrightarrow> the_ok r = the_ok r'"
  by (cases r; cases r') (auto simp: the_ok_def)

lemma the_ok_accessors:
  assumes "NO_MATCH [] ctx"
  shows "the_ok (as_object v ctx) = the_ok (as_object v [])" "the_ok (as_array v ctx) = the_ok (as_array v [])"
    "the_ok (as_string v ctx) = the_ok (as_string v [])" "the_ok (as_boolean v ctx) = the_ok (as_boolean v [])"
    "the_ok (count_value v ctx) = the_ok (count_value v [])"
    "the_ok (positive_value v ctx) = the_ok (positive_value v [])"
  by (rule the_ok_cong, simp)+

lemma the_ok_require_rate: "NO_MATCH [] ctx \<Longrightarrow> the_ok (require_rate v h n ctx) = the_ok (require_rate v h n [])"
proof -
  have "the_ok (rate_value v ctx) = the_ok (rate_value v [])"
    by (cases v) (auto simp: the_ok_def rate_value_def to_float_def raise_if_def rat_to_float_def
        split: pyfloat.splits)
  then show ?thesis by (simp add: require_rate_def the_ok_bind the_ok_basic)
qed

lemma mapiE_strings:
  "mapiE (\<lambda>j v. as_string v (f j)) i vs = Inr ts \<longleftrightarrow> vs = map JStr ts \<and> [] \<notin> set ts"
proof (induction vs arbitrary: i ts)
  case (Cons v vs)
  then show ?case by (cases ts) auto
qed auto

lemma string_items_Inr: "string_items d k ctx = Inr ts \<longleftrightarrow> get_or_null d k = JArr (map JStr ts) \<and> [] \<notin> set ts"
  by (auto simp: string_items_def mapiE_strings)

lemma the_ok_string_items: "NO_MATCH [] ctx \<Longrightarrow> the_ok (string_items d k ctx) = the_ok (string_items d k [])"
  by (rule the_ok_cong) (simp only: string_items_Inr)

lemma the_ok_if: "the_ok (if c then r else s) = (if c then the_ok r else the_ok s)"
  by simp

lemmas the_ok_simps = the_ok_bind the_ok_basic the_ok_accessors the_ok_require_rate the_ok_string_items the_ok_if

lemma the_ok_validate_case:
  "the_ok (validate_case k l seen i v) = the_ok (validate_case k l' seen i' v)"
  unfolding validate_case_def Let_def by (simp add: the_ok_simps cong del: if_weak_cong)

lemma validate_cases_label:
  "validate_cases k l seen i vs = Inr cs \<Longrightarrow> validate_cases k l' seen i' vs = Inr cs"
proof (induction k l seen i vs arbitrary: cs i' rule: validate_cases.induct)
  case (2 k l seen i v vs)
  then show ?case
    using the_ok_validate_case [of k l seen i v l' i'] by (fastforce simp: the_ok_iff the_ok_bind bind_eq_Some_conv)
qed simp

lemma the_ok_validate_cases: "NO_MATCH [] l \<Longrightarrow> the_ok (validate_cases k l seen i vs) = the_ok (validate_cases k [] seen i vs)"
  by (rule the_ok_cong) (blast intro: validate_cases_label)

lemma the_ok_eachE: "the_ok (eachE f xs) = (if \<forall>x \<in> set xs. the_ok (f x) = Some () then Some () else None)"
proof (induction xs)
  case (Cons x xs)
  then show ?case by (cases "f x") (auto simp: the_ok_def)
qed (simp add: the_ok_def)

lemma the_ok_get_item: "the_ok (get_item d k) = map_of d k"
  by (simp add: get_item_def the_ok_def split: option.splits)

lemma the_ok_validate_category:
  "the_ok (validate_category k l d ch) = the_ok (validate_category k l' d ch)"
  unfolding validate_category_def Let_def by (cases ch) (simp add: the_ok_simps cong del: if_weak_cong)

lemma validate_report_label: "the_ok (validate_report r l) = the_ok (validate_report r l')"
  unfolding validate_report_def Let_def
  by (simp add: the_ok_simps the_ok_validate_cases the_ok_eachE the_ok_validate_category [of _ l _ _ l'] cong del: if_weak_cong)

end
