(* ===== verification/Quality_Summary.thy ===== *)
theory Quality_Summary
  imports Quality_Compare "HOL-Library.Multiset"
begin

text \<open>
  \<open>summarize_conversion_quality.py\<close>: the validation of a report by its totals, and the summary
  of several reports.  The reports are the parsed documents, each with the text of its path.
\<close>

section \<open>Validation\<close>

definition nonnegative_int :: "json \<Rightarrow> string \<Rightarrow> int res" where
  "nonnegative_int v fld =
     (case v of
        JInt i \<Rightarrow> (if i < 0 then Inl (ValueError (fld @ '' must be a non-negative integer'')) else Inr i)
      | _ \<Rightarrow> Inl (ValueError (fld @ '' must be a non-negative integer'')))"

definition plus_counter :: "HitCounter \<Rightarrow> HitCounter \<Rightarrow> HitCounter" where
  "plus_counter a b =
     \<lparr>hits_total = hits_total a + hits_total b, hits_top1 = hits_top1 a + hits_top1 b,
      hits_top_k = hits_top_k a + hits_top_k b\<rparr>"

text \<open>One category: its counters are checked against each other and added to the totals.\<close>

definition add_category :: "int \<Rightarrow> string \<Rightarrow> HitCounter \<Rightarrow> string \<times> json \<Rightarrow> HitCounter res" where
  "add_category top_k path acc = (\<lambda>(category, raw_values).
     let ctx = path @ '': '' @ category; metric = top_metric top_k in
     bindE (raise_if (category = []) (ValueError (path @ '': category names must be non-empty strings''))) (\<lambda>_.
     case raw_values of
       JObj values \<Rightarrow>
         bindE (nonnegative_int (get_or_null values ''total'') (dot ctx ''total'')) (\<lambda>n.
         bindE (nonnegative_int (get_or_null values ''top1'') (dot ctx ''top1'')) (\<lambda>category_top1.
         bindE (raise_if (n < category_top1) (ValueError (ctx @ ''.top1 exceeds total''))) (\<lambda>_.
         bindE (if metric = ''top1'' then Inr 0
                else
                  bindE (nonnegative_int (get_or_null values metric) (dot ctx metric)) (\<lambda>category_top_k.
                  bindE (raise_if (n < category_top_k) (ValueError (dot ctx metric @ '' exceeds total''))) (\<lambda>_.
                  bindE (raise_if (category_top_k < category_top1)
                           (ValueError (dot ctx metric @ '' is less than ''))) (\<lambda>_.
                  Inr category_top_k)))) (\<lambda>category_top_k.
         Inr (plus_counter acc
           \<lparr>hits_total = n, hits_top1 = category_top1, hits_top_k = category_top_k\<rparr>)))))
     | _ \<Rightarrow> Inl (ValueError (path @ '': category must be an object''))))"

definition summary_report :: "string \<times> json \<Rightarrow> obj res" where
  "summary_report = (\<lambda>(path, raw_report).
     case raw_report of
       JObj report \<Rightarrow>
         (let field = get_or_null report; ctx = (\<lambda>name. path @ '': '' @ name) in
          bindE (raise_if (\<not> pyeq (field ''schema'') (JStr REPORT_SCHEMA))
                   (ValueError (ctx ''schema must be ''))) (\<lambda>_.
          bindE (case field ''top_k'' of
                   JInt k \<Rightarrow> (if k < 1 then Inl (ValueError (ctx ''top_k must be a positive integer'')) else Inr k)
                 | _ \<Rightarrow> Inl (ValueError (ctx ''top_k must be a positive integer''))) (\<lambda>top_k.
          bindE (nonnegative_int (field ''corpus_cases'') (ctx ''corpus_cases'')) (\<lambda>corpus_cases.
          bindE (nonnegative_int (field ''evaluated_cases'') (ctx ''evaluated_cases'')) (\<lambda>evaluated_cases.
          bindE (nonnegative_int (field ''top1_hits'') (ctx ''top1_hits'')) (\<lambda>top1_hits.
          bindE (raise_if (corpus_cases < evaluated_cases)
                   (ValueError (ctx ''evaluated_cases exceeds corpus_cases''))) (\<lambda>_.
          bindE (raise_if (evaluated_cases < top1_hits)
                   (ValueError (ctx ''top1_hits exceeds evaluated_cases''))) (\<lambda>_.
          let metric = top_metric top_k in
          bindE (if metric = ''top1'' then Inr 0
                 else
                   bindE (nonnegative_int (field (metric @ ''_hits'')) (ctx (metric @ ''_hits''))) (\<lambda>top_k_hits.
                   bindE (raise_if (evaluated_cases < top_k_hits)
                            (ValueError (ctx (metric @ ''_hits exceeds evaluated_cases'')))) (\<lambda>_.
                   bindE (raise_if (top_k_hits < top1_hits)
                            (ValueError (ctx (metric @ ''_hits is less than top1_hits'')))) (\<lambda>_.
                   Inr top_k_hits)))) (\<lambda>top_k_hits.
          case field ''by_category'' of
            JObj categories \<Rightarrow>
              bindE (foldE (add_category top_k path) empty_counter categories) (\<lambda>acc.
              bindE (raise_if (hits_total acc \<noteq> evaluated_cases)
                       (ValueError (ctx ''by_category total total ''))) (\<lambda>_.
              bindE (raise_if (hits_top1 acc \<noteq> top1_hits)
                       (ValueError (ctx ''by_category top1 total ''))) (\<lambda>_.
              bindE (raise_if (metric \<noteq> ''top1'' \<and> hits_top_k acc \<noteq> top_k_hits)
                       (ValueError (ctx (''by_category '' @ metric @ '' total '')))) (\<lambda>_.
              Inr report))))
          | _ \<Rightarrow> Inl (ValueError (ctx ''by_category must be an object'')))))))))))
     | _ \<Rightarrow> Inl (ValueError (path @ '': report must be an object'')))"

section \<open>The summary\<close>

text \<open>
  \<open>report.get(key, 0)\<close> where the key holds an integer; the validated reports hold integers under
  every key that is added up.
\<close>

definition int_field :: "obj \<Rightarrow> string \<Rightarrow> int" where
  "int_field d k = (case map_of d k of Some (JInt i) \<Rightarrow> i | _ \<Rightarrow> 0)"

definition category_counter :: "string \<Rightarrow> json \<Rightarrow> HitCounter" where
  "category_counter metric v =
     (case v of
        JObj values \<Rightarrow>
          \<lparr>hits_total = int_field values ''total'', hits_top1 = int_field values ''top1'',
           hits_top_k = (if metric = ''top1'' then 0 else int_field values metric)\<rparr>
      | _ \<Rightarrow> empty_counter)"

definition add_counter ::
  "(string \<times> HitCounter) list \<Rightarrow> string \<times> HitCounter \<Rightarrow> (string \<times> HitCounter) list" where
  "add_counter counters = (\<lambda>(category, c).
     dict_set category
       (plus_counter (case map_of counters category of None \<Rightarrow> empty_counter | Some b \<Rightarrow> b) c) counters)"

definition report_counters :: "string \<Rightarrow> obj \<Rightarrow> (string \<times> HitCounter) list" where
  "report_counters metric report =
     (case get_or_null report ''by_category'' of
        JObj categories \<Rightarrow> map (\<lambda>(category, v). (category, category_counter metric v)) categories
      | _ \<Rightarrow> [])"

definition category_summary :: "string \<Rightarrow> HitCounter \<Rightarrow> json res" where
  "category_summary metric c =
     bindE (rate_or_zero (hits_top1 c) (hits_total c)) (\<lambda>top1_rate.
     bindE (if metric = ''top1'' then Inr (Fin 0) else rate_or_zero (hits_top_k c) (hits_total c)) (\<lambda>top_k_rate.
     Inr (JObj (
       [(''total'', JInt (hits_total c)), (''top1'', JInt (hits_top1 c))] @
       (if metric = ''top1'' then [] else [(metric, JInt (hits_top_k c))]) @
       [(''top1_rate'', JFloat top1_rate)] @
       (if metric = ''top1'' then [] else [(metric @ ''_rate'', JFloat top_k_rate)])))))"

definition summarize :: "(string \<times> json) list \<Rightarrow> obj res" where
  "summarize paths =
     bindE (raise_if (paths = []) (ValueError ''at least one report is required'')) (\<lambda>_.
     bindE (mapE summary_report paths) (\<lambda>reports.
     bindE (get_item (hd reports) ''top_k'') (\<lambda>top_k.
     bindE (raise_if (list_ex (\<lambda>r. \<not> pyeq (get_or_null r ''top_k'') top_k) reports)
              (ValueError ''all reports must use the same top_k'')) (\<lambda>_.
     let metric = top_metric (int_field (hd reports) ''top_k'');
         sum_of = (\<lambda>k. sum_list (map (\<lambda>r. int_field r k) reports));
         evaluated = sum_of ''evaluated_cases'';
         categories = foldl add_counter [] (concat (map (report_counters metric) reports))
     in
     bindE (mapE (\<lambda>(category, c). bindE (category_summary metric c) (\<lambda>v. Inr (category, v)))
              (sort_key fst categories)) (\<lambda>by_category.
     bindE (rate_or_zero (sum_of ''top1_hits'') evaluated) (\<lambda>top1_rate.
     bindE (if metric = ''top1'' then Inr (Fin 0)
            else rate_or_zero (sum_of (metric @ ''_hits'')) evaluated) (\<lambda>top_k_rate.
     Inr ([(''schema'', JStr ''hazkey.conversion-quality-summary.v1''),
           (''reports'', JArr (map (\<lambda>p. JStr (fst p)) paths)), (''top_k'', top_k),
           (''corpus_cases'', JInt (sum_of ''corpus_cases'')), (''evaluated_cases'', JInt evaluated),
           (''top1_hits'', JInt (sum_of ''top1_hits''))] @
          (if metric = ''top1'' then [] else [(metric @ ''_hits'', JInt (sum_of (metric @ ''_hits'')))]) @
          [(''top1_rate'', JFloat top1_rate), (''by_category'', JObj by_category)] @
          (if metric = ''top1'' then [] else [(metric @ ''_rate'', JFloat top_k_rate)])))))))))"

section \<open>Facts about the validation\<close>

lemma nonnegative_int_iff [simp]: "nonnegative_int v ctx = Inr i \<longleftrightarrow> v = JInt i \<and> 0 \<le> i"
  by (auto simp: nonnegative_int_def split: json.splits)

lemma top_metric_top1 [simp]: "top_metric (int k) = ''top1'' \<longleftrightarrow> k = 1"
proof -
  have "''top1'' = ''top'' @ dec 1" by (simp only: dec_one append.simps)
  then show ?thesis by (simp only: top_metric_def same_append_eq dec_inject nat_int)
qed

lemma top_metric_1 [simp]: "top_metric 1 = ''top1''"
  using top_metric_top1 [of 1] by simp

text \<open>A dictionary with distinct keys, sorted by them, is determined by its lookups.\<close>

lemma sort_key_lookup:
  assumes "distinct (keys d)" "distinct (keys e)" "map_of d = map_of e"
  shows "sort_key fst d = sort_key fst (e :: (string \<times> 'v) list)"
proof -
  have "set d = set e" using assms map_of_eqI [of d e] by (metis keys_def set_map_of_compr)
  then have "set (sort_key fst d) = set (sort_key fst e)" by simp
  moreover have "distinct (map fst (sort_key fst d))" "distinct (map fst (sort_key fst e))"
    using assms by (simp_all add: keys_def distinct_map) 
  ultimately show ?thesis
    by (intro map_sorted_distinct_set_unique [of fst]) (auto simp: distinct_map)
qed

lemma counter_of_append: "counter_of c (s @ t) = plus_counter (counter_of c s) (counter_of c t)"
  by (simp add: counter_of_def plus_counter_def)

lemma plus_counter_empty [simp]: "plus_counter empty_counter h = h" "plus_counter h empty_counter = h"
  by (simp_all add: plus_counter_def empty_counter_def)

lemma add_counter_lookup:
  "map_of (add_counter d (c, h)) = (map_of d)(c \<mapsto> plus_counter (case map_of d c of None \<Rightarrow> empty_counter | Some b \<Rightarrow> b) h)"
  by (simp add: add_counter_def)

lemma add_counters_distinct: "distinct (keys d) \<Longrightarrow> distinct (keys (foldl add_counter d xs))"
  by (induction xs arbitrary: d) (auto simp: add_counter_def)

lemma add_counters_lookup:
  "distinct (map fst xs) \<Longrightarrow>
   map_of (foldl add_counter d xs) c =
     (case map_of xs c of None \<Rightarrow> map_of d c
      | Some h \<Rightarrow> Some (plus_counter (case map_of d c of None \<Rightarrow> empty_counter | Some b \<Rightarrow> b) h))"
proof (induction xs arbitrary: d)
  case (Cons x xs)
  obtain k h where x: "x = (k, h)" by fastforce
  have "k \<notin> fst ` set xs" using Cons.prems x by simp
  then have "map_of xs k = None" by (simp add: map_of_eq_None_iff)
  then show ?case using Cons by (auto simp: x add_counter_lookup split: option.splits)
qed simp

lemma map_of_map_value: "map_of (map (\<lambda>(c, h). (c, f h)) xs) c = map_option f (map_of xs c)"
  by (induction xs) auto

text \<open>
  With \<open>top_k = 1\<close> the reports carry no separate top k count, and the summary has none to add.
\<close>

definition visible :: "nat \<Rightarrow> HitCounter \<Rightarrow> HitCounter" where
  "visible k h = (if k = 1 then h\<lparr>hits_top_k := 0\<rparr> else h)"

lemma visible_plus: "visible k (plus_counter a b) = plus_counter (visible k a) (visible k b)"
  by (simp add: visible_def plus_counter_def)

lemma visible_empty [simp]: "visible k empty_counter = empty_counter"
  by (simp add: visible_def empty_counter_def)

lemma counter_value_object:
  assumes "(c, h) \<in> set (tally tags)"
  obtains d where "counter_value k h = JObj d" "get_or_null d ''total'' = JInt (hits_total h)"
    "get_or_null d ''top1'' = JInt (hits_top1 h)"
    "k \<noteq> 1 \<Longrightarrow> get_or_null d (top_metric (int k)) = JInt (hits_top_k h)"
proof -
  have h: "h = counter_of c tags" "c \<in> fst ` set tags" using tally_member [OF assms] by auto
  note b = counter_bounds [where c = c and tags = tags]
  show thesis
    by (rule counter_value_fields [OF b(1,3,2,4) b(5) [OF h(2)], of k], rule that) (simp_all add: h(1))
qed

lemma int_field_iff: "get_or_null d k = JInt i \<Longrightarrow> int_field d k = i"
  by (auto simp: get_or_null_def int_field_def split: option.splits)

lemma get_or_null_JInt: "get_or_null d k = JInt i \<Longrightarrow> map_of d k = Some (JInt i)"
  by (auto simp: get_or_null_def split: option.splits)

lemma category_counter_value:
  assumes "(c, h) \<in> set (tally tags)"
  shows "category_counter (top_metric (int k)) (counter_value k h) = visible k h"
proof -
  obtain d where "counter_value k h = JObj d" "get_or_null d ''total'' = JInt (hits_total h)"
    "get_or_null d ''top1'' = JInt (hits_top1 h)"
    "k \<noteq> 1 \<Longrightarrow> get_or_null d (top_metric (int k)) = JInt (hits_top_k h)"
    using counter_value_object [OF assms] by metis
  then show ?thesis by (simp add: category_counter_def int_field_iff visible_def)
qed

lemma category_summary_value:
  assumes "(c, h) \<in> set (tally tags)"
  shows "category_summary (top_metric (int k)) (visible k h) = Inr (counter_value k h)"
proof -
  have h: "h = counter_of c tags" "c \<in> fst ` set tags" using tally_member [OF assms] by auto
  note b = counter_bounds [where c = c and tags = tags]
  have pos: "rate_or_zero (hits_top1 h) (hits_total h) = int_div_float (hits_top1 h) (hits_total h)"
    "rate_or_zero (hits_top_k h) (hits_total h) = int_div_float (hits_top_k h) (hits_total h)"
    using b(5) h by (simp_all add: rate_or_zero_def)
  show ?thesis
    using counter_json_tally [OF assms, of k] b(1-4) b(5) [OF h(2)]
    by (auto simp: category_summary_def visible_def pos [unfolded h(1)] counter_json_def h(1) int_div_float_rate)
qed

section \<open>Reports of the evaluator\<close>

lemma add_category_value:
  fixes k :: nat
  assumes "(c, h) \<in> set (tally tags)" and "c \<noteq> []" and "\<forall>(k, t1, tk) \<in> set tags. t1 \<longrightarrow> tk"
  shows "add_category (int k) path acc (c, counter_value k h) = Inr (plus_counter acc (visible k h))"
proof -
  have h: "h = counter_of c tags" "c \<in> fst ` set tags" using tally_member [OF assms(1)] by auto
  note b = counter_bounds(1-4) [where c = c and tags = tags] counter_bounds(6) [OF assms(3), of c]
  obtain d where d: "counter_value k h = JObj d" "get_or_null d ''total'' = JInt (hits_total h)"
    "get_or_null d ''top1'' = JInt (hits_top1 h)"
    "k \<noteq> 1 \<Longrightarrow> get_or_null d (top_metric (int k)) = JInt (hits_top_k h)"
    using counter_value_object [OF assms(1)] by metis
  have v: "visible k h = \<lparr>hits_total = hits_total h, hits_top1 = hits_top1 h,
      hits_top_k = (if k = 1 then 0 else hits_top_k h)\<rparr>"
    by (simp add: visible_def)
  have n: "0 \<le> hits_total h" "0 \<le> hits_top1 h" "hits_top1 h \<le> hits_total h" "0 \<le> hits_top_k h"
    "hits_top_k h \<le> hits_total h" "hits_top1 h \<le> hits_top_k h"
    using b h by auto
  show ?thesis
    unfolding v add_category_def Let_def d(1) using n assms(2)
    by (cases "k = 1") (simp_all add: d(2,3) d(4) nonnegative_int_def)
qed

definition plus_counters :: "HitCounter list \<Rightarrow> HitCounter" where
  "plus_counters hs =
     \<lparr>hits_total = sum_list (map hits_total hs), hits_top1 = sum_list (map hits_top1 hs),
      hits_top_k = sum_list (map hits_top_k hs)\<rparr>"

lemma foldl_plus_counter: "foldl plus_counter a hs = plus_counter a (plus_counters hs)"
  by (induction hs arbitrary: a) (simp_all add: plus_counter_def plus_counters_def)

lemma plus_counters_perm: "mset hs = mset hs' \<Longrightarrow> plus_counters hs = plus_counters hs'"
  unfolding plus_counters_def by (metis mset_map sum_mset_sum_list)

lemma add_categories_values:
  assumes "set xs \<subseteq> set (tally tags)" and "\<forall>(c, h) \<in> set xs. c \<noteq> []" and "\<forall>(k, t1, tk) \<in> set tags. t1 \<longrightarrow> tk"
  shows "foldE (add_category (int k) path) acc (map (\<lambda>(c, h). (c, counter_value k h)) xs) =
    Inr (foldl plus_counter acc (map (\<lambda>(c, h). visible k h) xs))"
  using assms(1,2)
proof (induction xs arbitrary: acc)
  case (Cons x xs)
  then show ?case using add_category_value [OF _ _ assms(3)] by (cases x) auto
qed simp

lemma tally_plus:
  "plus_counters (map (\<lambda>(c, h). visible k h) (sort_key fst (tally (map case_tag cases)))) =
     visible k \<lparr>hits_total = int (length cases), hits_top1 = count_cases case_top1 cases,
       hits_top_k = count_cases case_top_k cases\<rparr>"
proof -
  have "plus_counters (map (\<lambda>(c, h). visible k h) (sort_key fst (tally (map case_tag cases)))) =
      plus_counters (map (\<lambda>(c, h). visible k h) (tally (map case_tag cases)))"
    by (rule plus_counters_perm) simp
  also have "\<dots> = visible k (plus_counters (map snd (tally (map case_tag cases))))"
    by (auto simp: plus_counters_def visible_def split_def comp_def)
  also have "plus_counters (map snd (tally (map case_tag cases))) =
      \<lparr>hits_total = int (length cases), hits_top1 = count_cases case_top1 cases,
       hits_top_k = count_cases case_top_k cases\<rparr>"
    using tally_sums [of "map case_tag cases"]
    by (simp add: plus_counters_def comp_def count_cases_def case_tag_def split_def)
  finally show ?thesis .
qed

lemma report_get:
  fixes corpus results and k :: nat
  defines "cases \<equiv> map (\<lambda>r. evaluate_case k r (result_of results r)) (filter (has_result results) corpus)"
  defines "d \<equiv> report_of corpus results k"
  shows "get_or_null d ''top_k'' = JInt (int k)"
    "get_or_null d ''corpus_cases'' = JInt (int (length corpus))"
    "get_or_null d ''evaluated_cases'' = JInt (int (length cases))"
    "get_or_null d ''top1_hits'' = JInt (count_cases case_top1 cases)"
    "get_or_null d ''top1_rate'' = JFloat (rate_of (count_cases case_top1 cases) (int (length cases)))"
    "get_or_null d ''by_category'' =
       JObj (map (\<lambda>(c, h). (c, counter_value k h)) (sort_key fst (tally (map case_tag cases))))"
    "k \<noteq> 1 \<Longrightarrow> get_or_null d (top_metric (int k) @ ''_hits'') = JInt (count_cases case_top_k cases)"
    "k \<noteq> 1 \<Longrightarrow> get_or_null d (top_metric (int k) @ ''_rate'') =
       JFloat (rate_of (count_cases case_top_k cases) (int (length cases)))"
proof -
  obtain e where e: "JObj d = JObj e"
    "get_or_null e ''top_k'' = JInt (int k)" "get_or_null e ''corpus_cases'' = JInt (int (length corpus))"
    "get_or_null e ''evaluated_cases'' = JInt (int (length cases))"
    "get_or_null e ''top1_hits'' = JInt (count_cases case_top1 cases)"
    "get_or_null e ''top1_rate'' = JFloat (rate_of (count_cases case_top1 cases) (int (length cases)))"
    "get_or_null e ''by_category'' =
       JObj (map (\<lambda>(c, h). (c, counter_value k h)) (sort_key fst (tally (map case_tag cases))))"
    "k \<noteq> 1 \<Longrightarrow> get_or_null e (top_metric (int k) @ ''_hits'') = JInt (count_cases case_top_k cases)"
    "k \<noteq> 1 \<Longrightarrow> get_or_null e (top_metric (int k) @ ''_rate'') =
       JFloat (rate_of (count_cases case_top_k cases) (int (length cases)))"
    unfolding d_def using report_fields [OF cases_def [THEN meta_eq_to_obj_eq]] by blast
  then have "d = e" by simp
  then show "get_or_null d ''top_k'' = JInt (int k)"
    "get_or_null d ''corpus_cases'' = JInt (int (length corpus))"
    "get_or_null d ''evaluated_cases'' = JInt (int (length cases))"
    "get_or_null d ''top1_hits'' = JInt (count_cases case_top1 cases)"
    "get_or_null d ''top1_rate'' = JFloat (rate_of (count_cases case_top1 cases) (int (length cases)))"
    "get_or_null d ''by_category'' =
       JObj (map (\<lambda>(c, h). (c, counter_value k h)) (sort_key fst (tally (map case_tag cases))))"
    "k \<noteq> 1 \<Longrightarrow> get_or_null d (top_metric (int k) @ ''_hits'') = JInt (count_cases case_top_k cases)"
    "k \<noteq> 1 \<Longrightarrow> get_or_null d (top_metric (int k) @ ''_rate'') =
       JFloat (rate_of (count_cases case_top_k cases) (int (length cases)))"
    using e by simp_all
qed

text \<open>Every report of the evaluator passes the validation of the summary.\<close>

lemma summary_accepts_report:
  fixes k :: nat
  assumes k: "1 \<le> k" and categories: "\<forall>r \<in> set corpus. row_category r \<noteq> []"
  shows "summary_report (path, JObj (report_of corpus results k)) = Inr (report_of corpus results k)"
proof -
  define cases where "cases = map (\<lambda>r. evaluate_case k r (result_of results r)) (filter (has_result results) corpus)"
  have schema: "get_or_null (report_of corpus results k) ''schema'' = JStr REPORT_SCHEMA"
    by (simp add: report_of_def Let_def get_or_null_def)
  define rep where "rep = report_of corpus results k"
  note d = schema [folded rep_def]
    report_get [where corpus = corpus and results = results and k = k, folded cases_def rep_def]
  have top1_top_k: "case_top1 c \<Longrightarrow> case_top_k c" if "c \<in> set cases" for c
    using that top1_implies_top_k [OF k] by (auto simp: cases_def)
  have tags: "\<forall>(g, t1, tk) \<in> set (map case_tag cases). t1 \<longrightarrow> tk"
    using top1_top_k by (auto simp: case_tag_def)
  have named: "\<forall>(c, h) \<in> set (tally (map case_tag cases)). c \<noteq> []"
  proof (clarsimp)
    fix h assume "([], h) \<in> set (tally (map case_tag cases))"
    then have "[] \<in> fst ` set (map case_tag cases)" using tally_member by blast
    then show False using categories by (auto simp: case_tag_def cases_def)
  qed
  have le: "count_cases case_top1 cases \<le> count_cases case_top_k cases"
    unfolding count_cases_def using top1_top_k by (induction cases) auto
  have "foldE (add_category (int k) path) empty_counter
      (map (\<lambda>(c, h). (c, counter_value k h)) (sort_key fst (tally (map case_tag cases)))) =
      Inr (visible k \<lparr>hits_total = int (length cases), hits_top1 = count_cases case_top1 cases,
        hits_top_k = count_cases case_top_k cases\<rparr>)"
    by (subst add_categories_values [where tags = "map case_tag cases"]) (use tags named in \<open>simp_all add: foldl_plus_counter tally_plus\<close>)
  moreover have "length cases \<le> length corpus" unfolding cases_def by simp
  moreover note count_cases_bounds [of case_top1 cases] count_cases_bounds [of case_top_k cases]
  ultimately show ?thesis
    using k le unfolding summary_report_def Let_def rep_def [symmetric]
    by (cases "k = 1")
      (simp_all add: d(1-5,7) d(8) nonnegative_int_def not_less visible_def)
qed

lemma report_counters_report:
  assumes "cases = map (\<lambda>r. evaluate_case k r (result_of results r)) (filter (has_result results) corpus)"
  shows "report_counters (top_metric (int k)) (report_of corpus results k) =
    map (\<lambda>(c, h). (c, visible k h)) (sort_key fst (tally (map case_tag cases)))"
  unfolding report_counters_def report_get(6) assms by (auto simp: category_counter_value)

text \<open>Adding the categories of reports amounts to counting the concatenated cases.\<close>

lemma add_tally:
  assumes "map_of d = map_of (map (\<lambda>(c, h). (c, visible k h)) (tally ts))"
  shows "map_of (foldl add_counter d (map (\<lambda>(c, h). (c, visible k h)) (sort_key fst (tally tags)))) =
    map_of (map (\<lambda>(c, h). (c, visible k h)) (tally (ts @ tags)))"
proof
  fix c
  have "distinct (map fst (map (\<lambda>(c, h). (c, visible k h)) (sort_key fst (tally tags))))"
    using tally_distinct [of tags] by (simp add: keys_def distinct_map comp_def split_def)
  note look = add_counters_lookup [OF this]
  show "map_of (foldl add_counter d (map (\<lambda>(c, h). (c, visible k h)) (sort_key fst (tally tags)))) c =
      map_of (map (\<lambda>(c, h). (c, visible k h)) (tally (ts @ tags))) c"
    unfolding look assms map_of_map_value map_of_sort_key [OF tally_distinct] tally_lookup
    by (auto simp: counter_of_append visible_plus counter_of_absent)
qed

lemma add_tallies:
  "map_of (foldl add_counter [] (concat (map (\<lambda>ts. map (\<lambda>(c, h). (c, visible k h)) (sort_key fst (tally ts))) tss))) =
     map_of (map (\<lambda>(c, h). (c, visible k h)) (tally (concat tss)))"
proof (induction tss rule: rev_induct)
  case (snoc ts tss)
  show ?case using add_tally [OF snoc, of ts] by simp
qed simp

lemma add_tallies_sorted:
  "sort_key fst (foldl add_counter [] (concat (map (\<lambda>ts. map (\<lambda>(c, h). (c, visible k h)) (sort_key fst (tally ts))) tss))) =
     map (\<lambda>(c, h). (c, visible k h)) (sort_key fst (tally (concat tss)))"
proof -
  let ?f = "\<lambda>(c, h). (c, visible k h)"
  have "distinct (keys (map ?f (tally (concat tss))))"
    using tally_distinct [of "concat tss"] by (simp add: keys_def comp_def split_def)
  then have "sort_key fst (foldl add_counter [] (concat (map (\<lambda>ts. map ?f (sort_key fst (tally ts))) tss))) =
      sort_key fst (map ?f (tally (concat tss)))"
    by (intro sort_key_lookup add_counters_distinct add_tallies) (simp add: keys_def)
  also have "\<dots> = map ?f (sort_key fst (tally (concat tss)))"
    by (simp add: sort_key_map split_def)
  finally show ?thesis .
qed

text \<open>The keys under which a summary and a report hold figures of the cases.\<close>

definition summary_keys :: "nat \<Rightarrow> string list" where
  "summary_keys k =
     [''top_k'', ''corpus_cases'', ''evaluated_cases'', ''top1_hits'', ''top1_rate'', ''by_category''] @
     (if k = 1 then [] else [top_metric (int k) @ ''_hits'', top_metric (int k) @ ''_rate''])"

lemma count_cases_concat: "count_cases hit (concat css) = sum_list (map (count_cases hit) css)"
  by (induction css) (simp_all add: count_cases_def)

lemma length_concat_int: "int (length (concat xss)) = sum_list (map (\<lambda>xs. int (length xs)) xss)"
  by (induction xss) simp_all

lemma summary_fields:
  fixes k :: nat
  assumes "s = [(''schema'', sc), (''reports'', rs), (''top_k'', JInt (int k)), (''corpus_cases'', cc),
      (''evaluated_cases'', ec), (''top1_hits'', h1)] @
     (if k = 1 then [] else [(top_metric (int k) @ ''_hits'', hk)]) @
     [(''top1_rate'', r1), (''by_category'', bc)] @
     (if k = 1 then [] else [(top_metric (int k) @ ''_rate'', rk)])"
  shows "get_or_null s ''top_k'' = JInt (int k)" "get_or_null s ''corpus_cases'' = cc"
    "get_or_null s ''evaluated_cases'' = ec" "get_or_null s ''top1_hits'' = h1" "get_or_null s ''top1_rate'' = r1"
    "get_or_null s ''by_category'' = bc" "k \<noteq> 1 \<Longrightarrow> get_or_null s (top_metric (int k) @ ''_hits'') = hk"
    "k \<noteq> 1 \<Longrightarrow> get_or_null s (top_metric (int k) @ ''_rate'') = rk"
proof -
  have n1: "dec k \<noteq> ''1''" if "k \<noteq> 1" using dec_not_1 [of "int k"] that by simp
  have under: "dec k \<noteq> a @ CHR ''_'' # b" for a b
    using dec_digits [of "CHR ''_''" k] by (auto simp: is_digit_def)
  have hk: "dec k @ ''_rate'' \<noteq> a @ ''_hits''" "dec k @ ''_hits'' \<noteq> a @ ''_rate''" for a
    by (auto dest: arg_cong [of _ _ rev])
  have same: "dec k @ ''_rate'' = a @ ''_rate'' \<longleftrightarrow> dec k = a" "dec k @ ''_hits'' = a @ ''_hits'' \<longleftrightarrow> dec k = a" for a
    by auto
  note facts = n1 hk [of "''1''", simplified] same [of "''1''", simplified] hk [of "[]", simplified]
  show "get_or_null s ''top_k'' = JInt (int k)" "get_or_null s ''corpus_cases'' = cc"
    "get_or_null s ''evaluated_cases'' = ec" "get_or_null s ''top1_hits'' = h1" "get_or_null s ''top1_rate'' = r1"
    "get_or_null s ''by_category'' = bc" "k \<noteq> 1 \<Longrightarrow> get_or_null s (top_metric (int k) @ ''_hits'') = hk"
    "k \<noteq> 1 \<Longrightarrow> get_or_null s (top_metric (int k) @ ''_rate'') = rk"
    using facts by (auto simp: assms get_or_null_def top_metric_def)
qed

lemma category_summaries:
  "set xs \<subseteq> set (tally tags) \<Longrightarrow>
   mapE (\<lambda>(category, c). bindE (category_summary (top_metric (int k)) c) (\<lambda>v. Inr (category, v)))
      (map (\<lambda>(c, h). (c, visible k h)) xs) = Inr (map (\<lambda>(c, h). (c, counter_value k h)) xs)"
  by (induction xs) (auto simp: category_summary_value)

text \<open>The summary in terms of the validated reports.\<close>

lemma summarize_eq:
  fixes k :: nat
  assumes k: "1 \<le> k" and parts: "parts \<noteq> []"
    and categories: "\<forall>(p, c) \<in> set parts. \<forall>r \<in> set c. row_category r \<noteq> []"
    and all: "cases = map (\<lambda>r. evaluate_case k r (result_of results r)) (filter (has_result results) (concat (map snd parts)))"
    and n: "n = int (length cases)" and h1: "h1 = count_cases case_top1 cases" and hk: "hk = count_cases case_top_k cases"
  shows "summarize (map (\<lambda>(p, c). (p, JObj (report_of c results k))) parts) =
    Inr ([(''schema'', JStr ''hazkey.conversion-quality-summary.v1''),
       (''reports'', JArr (map (\<lambda>p. JStr (fst p)) parts)), (''top_k'', JInt (int k)),
       (''corpus_cases'', JInt (int (length (concat (map snd parts))))), (''evaluated_cases'', JInt n),
       (''top1_hits'', JInt h1)] @
      (if k = 1 then [] else [(top_metric (int k) @ ''_hits'', JInt hk)]) @
      [(''top1_rate'', JFloat (rate_of h1 n)),
       (''by_category'', JObj (map (\<lambda>(c, h). (c, counter_value k h)) (sort_key fst (tally (map case_tag cases)))))] @
      (if k = 1 then [] else [(top_metric (int k) @ ''_rate'', JFloat (rate_of hk n))]))"
proof -
  let ?in = "map (\<lambda>(p, c). (p, JObj (report_of c results k))) parts"
  let ?reports = "map (\<lambda>pc. report_of (snd pc) results k) parts"
  let ?cases = "\<lambda>pc :: string \<times> CorpusRow list.
    map (\<lambda>r. evaluate_case k r (result_of results r)) (filter (has_result results) (snd pc))"
  have all': "cases = concat (map ?cases parts)"
    by (simp add: all map_concat filter_concat comp_def)
  have valid: "mapE summary_report ?in = Inr ?reports"
    using categories summary_accepts_report [OF k] by (induction parts) auto
  note field = report_get [where results = results and k = k] report_get(1-4) [where results = results and k = k, THEN int_field_iff]
    report_get(7) [where results = results and k = k, THEN int_field_iff]
  have sums: "sum_list (map (\<lambda>r. int_field r ''corpus_cases'') ?reports) = int (length (concat (map snd parts)))"
    "sum_list (map (\<lambda>r. int_field r ''evaluated_cases'') ?reports) = n"
    "sum_list (map (\<lambda>r. int_field r ''top1_hits'') ?reports) = h1"
    "k \<noteq> 1 \<Longrightarrow> sum_list (map (\<lambda>r. int_field r (top_metric (int k) @ ''_hits'')) ?reports) = hk"
    unfolding n h1 hk all' length_concat_int count_cases_concat by (simp_all add: field comp_def)
  have cats: "sort_key fst (foldl add_counter [] (concat (map (report_counters (top_metric (int k))) ?reports))) =
      map (\<lambda>(c, h). (c, visible k h)) (sort_key fst (tally (map case_tag cases)))"
    using add_tallies_sorted [of k "map (\<lambda>pc. map case_tag (?cases pc)) parts"]
    by (simp only: map_map comp_def report_counters_report [OF refl] all' map_concat)
  have by_category: "mapE (\<lambda>(category, c). bindE (category_summary (top_metric (int k)) c) (\<lambda>v. Inr (category, v)))
      (map (\<lambda>(c, h). (c, visible k h)) (sort_key fst (tally (map case_tag cases)))) =
      Inr (map (\<lambda>(c, h). (c, counter_value k h)) (sort_key fst (tally (map case_tag cases))))"
    by (rule category_summaries [where tags = "map case_tag cases"]) simp
  have bounds: "0 \<le> h1" "h1 \<le> n" "0 \<le> hk" "hk \<le> n" unfolding n h1 hk by (simp_all add: count_cases_bounds)
  have paths: "map (\<lambda>p. JStr (fst p)) ?in = map (\<lambda>p. JStr (fst p)) parts" "(?in = []) = False"
    using parts by (simp_all add: split_def)
  have head: "get_item (hd ?reports) ''top_k'' = Inr (JInt (int k))" "int_field (hd ?reports) ''top_k'' = int k"
    "list_ex (\<lambda>r. \<not> pyeq (get_or_null r ''top_k'') (JInt (int k))) ?reports = False"
    using parts by (simp_all add: hd_map field field(1) [THEN get_or_null_JInt] list_ex_iff)
  have rates: "rate_or_zero h1 n = Inr (rate_of h1 n)"
    "(if top_metric (int k) = ''top1'' then Inr (Fin 0) else rate_or_zero hk n) =
       Inr (if k = 1 then Fin 0 else rate_of hk n)"
    using bounds by (simp_all add: rate_or_zero_defined)
  have top_k_sum: "(if k = 1 then [] else [(m, JInt (sum_list (map (\<lambda>r. int_field r (top_metric (int k) @ ''_hits'')) ?reports)))]) =
      (if k = 1 then [] else [(m, JInt hk)])"
    "(if top_metric (int k) = ''top1'' then Inr (Fin 0)
      else rate_or_zero (sum_list (map (\<lambda>r. int_field r (top_metric (int k) @ ''_hits'')) ?reports)) n) =
     (if top_metric (int k) = ''top1'' then Inr (Fin 0) else rate_or_zero hk n)" for m :: string
    using sums(4) by auto
  show ?thesis
    unfolding summarize_def Let_def paths raise_if_simps bindE.simps valid head sums(1-3) cats by_category
      top_k_sum rates top_metric_top1
    using sums(4) bounds by (simp add: rate_or_zero_defined)
qed

end
