(* ===== verification/Quality_Properties.thy ===== *)
theory Quality_Properties
  imports Quality_Summary
begin

text \<open>
  The properties of the quality tools: what the evaluation counts, which of its reports the
  comparison and the summary accept, and what these two compute from them.
\<close>

section \<open>A sample corpus\<close>

definition sample_rows :: "row list" where
  "sample_rows =
     [[(''id'', Some ''a''), (''reading'', Some ''x''), (''expected'', Some ''X|Y''), (''category'', Some ''word'')],
      [(''id'', Some ''b''), (''reading'', Some ''y''), (''expected'', Some ''y''), (''category'', Some ''protected'')]]"

definition sample_corpus :: "CorpusRow list" where
  "sample_corpus =
     [\<lparr>row_id = ''a'', row_reading = ''x'', row_expected = ''X|Y'', row_category = ''word''\<rparr>,
      \<lparr>row_id = ''b'', row_reading = ''y'', row_expected = ''y'', row_category = ''protected''\<rparr>]"

definition sample_results :: results where
  "sample_results = [(''a'', [''Y'', ''X'']), (''b'', [''z'', ''y''])]"

lemma sample_alternatives: "alternatives ''X|Y'' = [''X'', ''Y'']" "alternatives ''y'' = [''y'']"
  by (simp_all add: alternatives_def)

definition other_results :: results where
  "other_results = [(''a'', [''Z'']), (''b'', [''y''])]"

definition visible_ascii :: "char \<Rightarrow> bool" where
  "visible_ascii c \<longleftrightarrow> 32 < (of_char c :: nat) \<and> (of_char c :: nat) < 127"

lemma sample_evaluated:
  "sample_corpus \<noteq> []" "distinct (map row_id sample_corpus)"
  "\<forall>r \<in> set sample_corpus. has_result sample_results r \<and> has_result other_results r"
  "\<forall>r \<in> set sample_corpus. case_ok 2 (evaluate_case 2 r (result_of sample_results r)) \<and>
     case_ok 2 (evaluate_case 2 r (result_of other_results r))"
  by (auto simp: sample_corpus_def sample_results_def other_results_def has_result_def result_of_def case_ok_def
      evaluate_case_def sample_alternatives expected_rank_def Let_def)

text \<open>Stripping leaves a text alone whose first and last bytes are visible ASCII.\<close>

lemma whitespace_ends:
  assumes "w \<in> set py_whitespace"
  shows "w \<noteq> [] \<and> \<not> visible_ascii (hd w) \<and> \<not> visible_ascii (last w)"
proof -
  from assms obtain u where w: "w = utf8_encode u" and u: "u \<le> 32 \<or> 128 \<le> u \<and> u < 65536"
    by (auto simp: py_whitespace_def)
  have low: "visible_ascii (char_of n) \<Longrightarrow> n < 256 \<Longrightarrow> 32 < n \<and> n < 127" for n :: nat
    by (simp add: visible_ascii_def)
  show ?thesis
  proof (cases "u < 128")
    case True
    with u low [of u] show ?thesis by (auto simp: w utf8_encode_def)
  next
    case False
    have "u div 4096 < 16" using u False by auto
    moreover have "u mod 64 < 64" by simp
    ultimately have "\<not> visible_ascii (char_of (224 + u div 4096))" "\<not> visible_ascii (char_of (128 + u mod 64))"
      using low [of "224 + u div 4096"] low [of "128 + u mod 64"] by linarith+
    moreover have "\<not> visible_ascii (char_of (192 + u div 64))" if "u < 2048"
      using that low [of "192 + u div 64"] by fastforce
    ultimately show ?thesis
      using False u by (auto simp: w utf8_encode_def)
  qed
qed

lemma drop_all_of_id:
  assumes "s \<noteq> []" "\<forall>w \<in> set ws. w \<noteq> [] \<longrightarrow> hd w \<noteq> hd s" shows "drop_all_of ws s = s"
proof -
  have "without_prefix w s = None" if "w \<in> set ws" for w
    using assms that by (cases s; cases w) (auto simp: without_prefix_def)
  then have "drop_one_of ws s = None"
    by (auto simp: drop_one_of_def filter_empty_conv split: list.splits dest: arg_cong [of _ _ set])
  then show ?thesis by (subst drop_all_of.simps) simp
qed

lemma strip_visible:
  assumes "s \<noteq> []" "visible_ascii (hd s)" "visible_ascii (last s)" shows "strip s = s"
proof -
  have "drop_all_of py_whitespace s = s"
    using assms by (intro drop_all_of_id) (auto dest!: whitespace_ends)
  moreover have "drop_all_of (map rev py_whitespace) (rev s) = rev s"
    using assms by (intro drop_all_of_id) (auto simp: hd_rev dest!: whitespace_ends)
  ultimately show ?thesis by (simp add: strip_def)
qed

lemma sample_names: "strip ''mozc'' = ''mozc''" "strip ''zenz'' = ''zenz''"
  by (rule strip_visible; simp add: visible_ascii_def)+

lemma sample_loads: "load_corpus_rows sample_rows ctx = Inr sample_corpus"
  by (simp add: load_corpus_rows_def sample_rows_def sample_corpus_def required_columns_def keys_def cell_def
      truthy_def check_row_def sample_alternatives)

lemma rank_from_cong: "(\<And>x. x \<in> set xs \<Longrightarrow> x \<in> S \<longleftrightarrow> x \<in> T) \<Longrightarrow> rank_from i S xs = rank_from i T xs"
  by (induction i S xs rule: rank_from.induct) auto

lemma backend_metrics_defined:
  assumes "cases \<noteq> []" shows "\<exists>m. backend_metrics cases = Inr m"
proof -
  have bounds: "0 \<le> hit_count h cases" "hit_count h cases \<le> int (length cases)" for h
    by (induction cases) (auto simp: hit_count_def)
  have "0 < int (length cases)" using assms by simp
  then show ?thesis
    unfolding backend_metrics_def Let_def by (simp add: int_div_float_rate bounds)
qed

section \<open>The evaluation\<close>

text \<open>the self test of a loaded corpus fails only on a protected row that does not accept its
  own reading: the synthetic results always reach the rate 1.\<close>

theorem loaded_corpus_self_test:
  assumes "load_corpus_rows rows ctx = Inr corpus"
  shows "self_test corpus protected = Inr () \<longleftrightarrow>
    (protected \<longrightarrow> (\<forall>r \<in> set corpus. row_category r = ''protected'' \<longrightarrow>
       row_reading r \<in> set (alternatives (row_expected r))))"
proof -
  have sound: "corpus \<noteq> []" "\<forall>r \<in> set corpus. sound_row r" "distinct (map row_id corpus)"
    using loaded_corpus_sound [OF assms] by auto
  have "self_test corpus protected =
      bindE (if protected then eachE protected_surface corpus else Inr ()) (\<lambda>_. self_test corpus False)"
    by (simp add: self_test_def)
  moreover have "row_reading r \<noteq> []" if "r \<in> set corpus" for r
    using sound(2) that by (auto simp: sound_row_def)
  ultimately show ?thesis
    using self_test_passes [OF sound] by (auto simp: protected_surface_def)
qed

theorem loaded_corpus_self_test_witness: "self_test sample_corpus True = Inr ()"
  using loaded_corpus_self_test [OF sample_loads [of "''corpus''"], of True]
  by (simp add: sample_corpus_def sample_alternatives)

text \<open>C10: the evaluation never fails, and its one pass with counters reports what filtering the
  corpus gives: the rows with a result, the ids without one, and under each category that occurs
  the counts of its cases.\<close>

theorem evaluation_by_filtering:
  fixes corpus results and k :: nat
  defines "cases \<equiv> map (\<lambda>r. evaluate_case k r (result_of results r)) (filter (has_result results) corpus)"
  shows "\<exists>d by_category. evaluate corpus results k = Inr d \<and>
    get_or_null d ''evaluated_cases'' = JInt (int (length (filter (has_result results) corpus))) \<and>
    get_or_null d ''missing_results'' = JArr (map (JStr \<circ> row_id) (filter (Not \<circ> has_result results) corpus)) \<and>
    get_or_null d ''cases'' = JArr (map (case_json k) cases) \<and>
    get_or_null d ''by_category'' = JObj by_category \<and> sorted (keys by_category) \<and>
    (\<forall>c. map_of by_category c =
       (if c \<in> set (map case_category cases) then Some (counter_value k (counter_of c (map case_tag cases))) else None))"
proof (intro exI conjI)
  let ?tally = "tally (map case_tag cases)"
  show "evaluate corpus results k = Inr (report_of corpus results k)" by (rule evaluate_eq)
  show "get_or_null (report_of corpus results k) ''by_category'' =
      JObj (map (\<lambda>(c, h). (c, counter_value k h)) (sort_key fst ?tally))"
    using report_get(6) [of corpus results k] unfolding cases_def by simp
  have "map fst (map (\<lambda>(c, h). (c, counter_value k h)) (sort_key fst ?tally)) = map fst (sort_key fst ?tally)"
    by auto
  then show "sorted (keys (map (\<lambda>(c, h). (c, counter_value k h)) (sort_key fst ?tally)))"
    by (simp only: keys_def sorted_sort_key)
  show "\<forall>c. map_of (map (\<lambda>(c, h). (c, counter_value k h)) (sort_key fst ?tally)) c =
      (if c \<in> set (map case_category cases) then Some (counter_value k (counter_of c (map case_tag cases))) else None)"
    unfolding map_of_map_value map_of_sort_key [OF tally_distinct] tally_lookup
    by (auto simp: case_tag_def image_image)
qed (simp_all add: report_of_def Let_def get_or_null_def cases_def comp_def)

section \<open>Acceptance of reports\<close>

text \<open>C11: the comparison accepts a report of the evaluator exactly when the corpus is not empty,
  every row has a result, every case has non-empty texts and distinct alternatives, and the ids are
  distinct; it then reads back the evaluated cases with the ranks of their first hits.\<close>

theorem report_accepted_iff:
  fixes k :: nat
  assumes "1 \<le> k" and "evaluate corpus results k = Inr report"
    and "cases = map (\<lambda>r. evaluate_case k r (result_of results r)) (filter (has_result results) corpus)"
  shows "validate_report (JObj report) label = Inr v \<longleftrightarrow>
    v = \<lparr>valid_top_k = int k, valid_cases = map ranked_of cases\<rparr> \<and>
    corpus \<noteq> [] \<and> (\<forall>r \<in> set corpus. has_result results r) \<and>
    (\<forall>c \<in> set cases. case_ok k c) \<and> distinct (map case_id cases)"
  using validate_own_report [OF assms(1,3)] assms(2) by (simp add: evaluate_eq)

theorem report_accepted_iff_witness:
  "\<exists>report v. evaluate sample_corpus sample_results 2 = Inr report \<and>
     validate_report (JObj report) ''a_report'' = Inr v"
proof -
  let ?cases = "map (\<lambda>r. evaluate_case 2 r (result_of sample_results r)) (filter (has_result sample_results) sample_corpus)"
  have "sample_corpus \<noteq> [] \<and> (\<forall>r \<in> set sample_corpus. has_result sample_results r) \<and>
      (\<forall>c \<in> set ?cases. case_ok 2 c) \<and> distinct (map case_id ?cases)"
    by (simp add: sample_corpus_def sample_results_def has_result_def result_of_def case_ok_def
        evaluate_case_def sample_alternatives expected_rank_def Let_def)
  then show ?thesis
    using report_accepted_iff [OF _ evaluate_eq refl, of 2 sample_corpus sample_results "''a_report''"]
    by (auto simp: evaluate_eq)
qed

text \<open>the first expected candidate is at the rank that is found, and no earlier one is expected.\<close>

theorem expected_rank_is_least:
  "expected_rank es os = Some n \<longleftrightarrow>
     1 \<le> n \<and> n \<le> int (length os) \<and> os ! nat (n - 1) \<in> set es \<and> (\<forall>j < nat (n - 1). os ! j \<notin> set es)"
proof -
  have "(\<forall>x \<in> set (take m os). x \<notin> set es) \<longleftrightarrow> (\<forall>j < m. os ! j \<notin> set es)" if "m < length os" for m
    using that by (auto simp: nth_image [symmetric])
  then show ?thesis
    unfolding expected_rank_def rank_from_iff
    by (cases "1 \<le> n \<and> n \<le> int (length os)") (auto simp: nat_less_iff)
qed

theorem expected_rank_is_least_witness: "expected_rank [''X'', ''Y''] [''Z'', ''Y'', ''X''] = Some 2"
  using expected_rank_is_least [of "[''X'', ''Y'']" "[''Z'', ''Y'', ''X'']" 2] by simp

section \<open>The comparison\<close>

definition compared_row :: "nat \<Rightarrow> results \<Rightarrow> results \<Rightarrow> CorpusRow \<Rightarrow> ComparedCase" where
  "compared_row k ra rb r =
     (let rank = (\<lambda>results. expected_rank (alternatives (row_expected r)) (take k (result_of results r)))
      in \<lparr>compared_a = ranked_of (evaluate_case k r (result_of ra r)),
          compared_b = ranked_of (evaluate_case k r (result_of rb r)),
          compared_winner = winner_of (rank ra) (rank rb), compared_delta = rank_delta (rank ra) (rank rb)\<rparr>)"

text \<open>Two backends evaluated on one corpus can be compared, row by row.\<close>

lemma compared_evaluations:
  fixes k :: nat
  assumes k: "1 \<le> k" and names: "strip na \<noteq> []" "strip nb \<noteq> []" "strip na \<noteq> strip nb"
    and corpus: "corpus \<noteq> []" "distinct (map row_id corpus)"
    and complete: "\<forall>r \<in> set corpus. has_result ra r \<and> has_result rb r"
    and ok: "\<forall>r \<in> set corpus. case_ok k (evaluate_case k r (result_of ra r)) \<and> case_ok k (evaluate_case k r (result_of rb r))"
  shows "\<exists>ma mb. compare_reports (JObj (report_of corpus ra k)) (JObj (report_of corpus rb k)) na nb =
    Inr \<lparr>cmp_top_k = int k, cmp_a_name = strip na, cmp_b_name = strip nb, cmp_a_metrics = ma,
      cmp_b_metrics = mb, cmp_delta = metrics_delta ma mb,
      cmp_a_wins = won_by A_wins (map (compared_row k ra rb) corpus),
      cmp_b_wins = won_by B_wins (map (compared_row k ra rb) corpus),
      cmp_ties = won_by Tie (map (compared_row k ra rb) corpus),
      cmp_cases = map (compared_row k ra rb) corpus\<rparr>"
proof -
  define rank where "rank = (\<lambda>results r. expected_rank (alternatives (row_expected r)) (take k (result_of results r)))"
  let ?rc = "\<lambda>results r. ranked_of (evaluate_case k r (result_of results r))"
  have all: "filter (has_result ra) corpus = corpus" "filter (has_result rb) corpus = corpus"
    using complete by (auto simp: filter_id_conv)
  have valid: "validate_report (JObj (report_of corpus ra k)) ''a_report'' =
      Inr \<lparr>valid_top_k = int k, valid_cases = map (?rc ra) corpus\<rparr>"
    "validate_report (JObj (report_of corpus rb k)) ''b_report'' =
      Inr \<lparr>valid_top_k = int k, valid_cases = map (?rc rb) corpus\<rparr>"
    using validate_own_report [OF k refl] corpus complete ok by (simp_all add: all comp_def)
  have rank: "ranked_rank (?rc results r) = rank results r" if "[] \<notin> set (take k (result_of results r))" for results r
    using that unfolding rank_def ranked_of_def expected_rank_def
    by (auto intro!: rank_from_cong)
  have ranks: "ranked_rank (?rc ra r) = rank ra r" "ranked_rank (?rc rb r) = rank rb r" if "r \<in> set corpus" for r
    using ok that by (auto intro!: rank simp: case_ok_def)
  let ?cmp = "\<lambda>r. \<lparr>compared_a = ?rc ra r, compared_b = ?rc rb r,
      compared_winner = winner_of (rank ra r) (rank rb r), compared_delta = rank_delta (rank ra r) (rank rb r)\<rparr>"
  have "mapE compare_case (zip (map (?rc ra) rs) (map (?rc rb) rs)) = Inr (map ?cmp rs)" if "set rs \<subseteq> set corpus" for rs
    using that
  proof (induction rs)
    case (Cons r rs)
    have "compare_case (?rc ra r, ?rc rb r) = Inr (?cmp r)"
      unfolding compare_case_iff using Cons.prems ranks [of r] by (simp add: ranked_of_def)
    then show ?case using Cons by simp
  qed simp
  then have cases: "mapE compare_case (zip (map (?rc ra) corpus) (map (?rc rb) corpus)) = Inr (map ?cmp corpus)"
    by simp
  have "\<exists>m. backend_metrics (map (?rc results) corpus) = Inr m" for results
    using corpus(1) by (intro backend_metrics_defined) simp
  then obtain ma mb where metrics: "backend_metrics (map (?rc ra) corpus) = Inr ma"
    "backend_metrics (map (?rc rb) corpus) = Inr mb" by metis
  have ids: "map ranked_id (map (?rc rb) corpus) = map ranked_id (map (?rc ra) corpus)"
    by (simp add: ranked_of_def)
  have row: "?cmp = compared_row k ra rb"
    by (simp add: fun_eq_iff compared_row_def rank_def Let_def)
  show ?thesis
    unfolding compare_reports_def using names
    by (simp add: valid ids [unfolded map_map] cases [unfolded row] metrics)
qed

text \<open>C12: two backends evaluated on one corpus are compared row by row: each row goes to the
  better rank, and every row is counted once.\<close>

theorem comparison_of_evaluations:
  fixes k :: nat
  assumes k: "1 \<le> k" and names: "strip na \<noteq> []" "strip nb \<noteq> []" "strip na \<noteq> strip nb"
    and corpus: "corpus \<noteq> []" "distinct (map row_id corpus)"
    and complete: "\<forall>r \<in> set corpus. has_result ra r \<and> has_result rb r"
    and ok: "\<forall>r \<in> set corpus. case_ok k (evaluate_case k r (result_of ra r)) \<and> case_ok k (evaluate_case k r (result_of rb r))"
  defines "rank \<equiv> \<lambda>results r. expected_rank (alternatives (row_expected r)) (take k (result_of results r))"
  shows "\<exists>c. compare_reports (JObj (report_of corpus ra k)) (JObj (report_of corpus rb k)) na nb = Inr c \<and>
    map compared_winner (cmp_cases c) = map (\<lambda>r. winner_of (rank ra r) (rank rb r)) corpus \<and>
    cmp_a_wins c = int (length (filter (\<lambda>r. winner_of (rank ra r) (rank rb r) = A_wins) corpus)) \<and>
    cmp_a_wins c + cmp_b_wins c + cmp_ties c = int (length corpus)"
proof -
  let ?rows = "map (compared_row k ra rb) corpus"
  have "map compared_winner ?rows = map (\<lambda>r. winner_of (rank ra r) (rank rb r)) corpus"
    "won_by A_wins ?rows = int (length (filter (\<lambda>r. winner_of (rank ra r) (rank rb r) = A_wins) corpus))"
    by (simp_all add: compared_row_def rank_def won_by_def filter_map comp_def Let_def)
  then show ?thesis
    using compared_evaluations [OF k names corpus complete ok] winner_total [of ?rows] by fastforce
qed


theorem comparison_of_evaluations_witness:
  "\<exists>c. compare_reports (JObj (report_of sample_corpus sample_results 2)) (JObj (report_of sample_corpus other_results 2))
       ''mozc'' ''zenz'' = Inr c \<and> map compared_winner (cmp_cases c) = [A_wins, B_wins] \<and>
     cmp_a_wins c + cmp_b_wins c + cmp_ties c = 2"
proof -
  have "map (\<lambda>r. winner_of (expected_rank (alternatives (row_expected r)) (take 2 (result_of sample_results r)))
      (expected_rank (alternatives (row_expected r)) (take 2 (result_of other_results r)))) sample_corpus = [A_wins, B_wins]"
    by (simp add: sample_corpus_def sample_results_def other_results_def result_of_def sample_alternatives expected_rank_def)
  moreover have "int (length sample_corpus) = 2" by (simp add: sample_corpus_def)
  ultimately show ?thesis
    using comparison_of_evaluations [of 2 "''mozc''" "''zenz''", OF _ _ _ _ sample_evaluated]
    by (auto simp: sample_names)
qed

text \<open>exchanging the reports and their names exchanges the metrics, the wins and the sides of
  every case, and negates the differences.\<close>

theorem comparison_swap:
  assumes "compare_reports ra rb na nb = Inr c"
  shows "compare_reports rb ra nb na = Inr (swap_comparison c)"
proof -
  from assms obtain a b cases ma mb where
    names: "strip na \<noteq> []" "strip nb \<noteq> []" "strip na \<noteq> strip nb"
    and valid: "validate_report ra ''a_report'' = Inr a" "validate_report rb ''b_report'' = Inr b"
    and same: "valid_top_k b = valid_top_k a" "map ranked_id (valid_cases b) = map ranked_id (valid_cases a)"
    and cases: "mapE compare_case (zip (valid_cases a) (valid_cases b)) = Inr cases"
    and metrics: "backend_metrics (valid_cases a) = Inr ma" "backend_metrics (valid_cases b) = Inr mb"
    and c: "c = \<lparr>cmp_top_k = valid_top_k a, cmp_a_name = strip na, cmp_b_name = strip nb,
          cmp_a_metrics = ma, cmp_b_metrics = mb, cmp_delta = metrics_delta ma mb,
          cmp_a_wins = won_by A_wins cases, cmp_b_wins = won_by B_wins cases,
          cmp_ties = won_by Tie cases, cmp_cases = cases\<rparr>"
    unfolding compare_reports_def by (simp, elim exE conjE, simp)
  have label: "validate_report r l = Inr v \<Longrightarrow> validate_report r l' = Inr v" for r l l' v
    using validate_report_label [of r l l'] by (simp add: the_ok_iff)
  have w: "won_by A_wins (map swap_case cases) = won_by B_wins cases"
    "won_by B_wins (map swap_case cases) = won_by A_wins cases"
    "won_by Tie (map swap_case cases) = won_by Tie cases"
    using won_by_swap [of B_wins cases] won_by_swap [of A_wins cases] won_by_swap [of Tie cases] by simp_all
  show ?thesis
    unfolding compare_reports_def
    using names valid [THEN label] same metrics compare_cases_swap [OF cases]
    by (simp add: c swap_comparison_def metrics_delta_swap [of mb ma] w)
qed


theorem comparison_swap_witness:
  "\<exists>c. compare_reports (JObj (report_of sample_corpus other_results 2)) (JObj (report_of sample_corpus sample_results 2))
       ''zenz'' ''mozc'' = Inr (swap_comparison c)"
  using comparison_swap compared_evaluations [of 2 "''mozc''" "''zenz''", OF _ _ _ _ sample_evaluated]
  by (simp add: sample_names) blast

section \<open>The summary\<close>

text \<open>C13: summarizing the reports of the parts of a corpus gives the totals, the rates and the
  categories of one report on the whole corpus.\<close>

theorem summary_of_parts:
  fixes k :: nat
  assumes k: "1 \<le> k" and parts: "parts \<noteq> []"
    and categories: "\<forall>(p, c) \<in> set parts. \<forall>r \<in> set c. row_category r \<noteq> []"
  shows "\<exists>s. summarize (map (\<lambda>(p, c). (p, JObj (report_of c results k))) parts) = Inr s \<and>
    (\<forall>key \<in> set (summary_keys k).
       get_or_null s key = get_or_null (report_of (concat (map snd parts)) results k) key)"
proof -
  obtain s where s: "summarize (map (\<lambda>(p, c). (p, JObj (report_of c results k))) parts) = Inr s"
    and fields: "\<And>cases. cases = map (\<lambda>r. evaluate_case k r (result_of results r))
      (filter (has_result results) (concat (map snd parts))) \<Longrightarrow>
      get_or_null s ''top_k'' = JInt (int k) \<and>
      get_or_null s ''corpus_cases'' = JInt (int (length (concat (map snd parts)))) \<and>
      get_or_null s ''evaluated_cases'' = JInt (int (length cases)) \<and>
      get_or_null s ''top1_hits'' = JInt (count_cases case_top1 cases) \<and>
      get_or_null s ''top1_rate'' = JFloat (rate_of (count_cases case_top1 cases) (int (length cases))) \<and>
      get_or_null s ''by_category'' =
        JObj (map (\<lambda>(c, h). (c, counter_value k h)) (sort_key fst (tally (map case_tag cases)))) \<and>
      (k \<noteq> 1 \<longrightarrow> get_or_null s (top_metric (int k) @ ''_hits'') = JInt (count_cases case_top_k cases)) \<and>
      (k \<noteq> 1 \<longrightarrow> get_or_null s (top_metric (int k) @ ''_rate'') =
        JFloat (rate_of (count_cases case_top_k cases) (int (length cases))))"
  proof -
    note eq = summarize_eq [OF k parts categories refl refl refl refl, of results]
    show thesis
      by (rule that, rule eq, hypsubst) (intro conjI impI summary_fields [OF refl])
  qed
  show ?thesis
    using s fields [OF refl] report_get [where corpus = "concat (map snd parts)" and k = k and results = results]
    by (simp add: summary_keys_def)
qed


theorem summary_of_parts_witness:
  "\<exists>s. summarize [(''p'', JObj (report_of [hd sample_corpus] sample_results 2)),
                  (''q'', JObj (report_of (tl sample_corpus) sample_results 2))] = Inr s \<and>
     get_or_null s ''evaluated_cases'' = JInt 2"
proof -
  have "\<forall>(p, c) \<in> set [(''p'', [hd sample_corpus]), (''q'', tl sample_corpus)]. \<forall>r \<in> set c. row_category r \<noteq> []"
    by (simp add: sample_corpus_def)
  from summary_of_parts [OF _ _ this, of 2 sample_results] obtain s where
    s: "summarize [(''p'', JObj (report_of [hd sample_corpus] sample_results 2)),
      (''q'', JObj (report_of (tl sample_corpus) sample_results 2))] = Inr s"
    and "get_or_null s ''evaluated_cases'' = get_or_null (report_of sample_corpus sample_results 2) ''evaluated_cases''"
    by (auto simp: summary_keys_def sample_corpus_def)
  moreover have "get_or_null (report_of sample_corpus sample_results 2) ''evaluated_cases'' = JInt 2"
    unfolding report_get(3) by (simp add: sample_corpus_def sample_results_def has_result_def)
  ultimately show ?thesis by metis
qed

end
