(* ===== verification/Edit_Distance.thy ===== *)
theory Edit_Distance
  imports Prelude
begin

text \<open>
  The text metrics of \<open>build_frozen_corpus_v2.py\<close>: character trigrams with the Jaccard index, and
  the Levenshtein distance by rows of the dynamic program.  Texts are lists of code points.
  Similarities are in basis points, computed with Python's floor division.
\<close>

section \<open>The metrics as the code computes them\<close>

type_synonym codes = "nat list"

text \<open>\<open>frozenset\<close> of the trigrams; a text shorter than three is its own gram.\<close>

definition trigrams :: "codes \<Rightarrow> codes set" where
  "trigrams s =
     (if s = [] then {}
      else if length s < 3 then {s}
      else set (map (\<lambda>index. take 3 (drop index s)) [0..<length s - 2]))"

definition jaccard_basis_points :: "codes \<Rightarrow> codes \<Rightarrow> int" where
  "jaccard_basis_points left right =
     (let left_grams = trigrams left; right_grams = trigrams right;
          union = left_grams \<union> right_grams
      in if union = {} then 10000
         else int (card (left_grams \<inter> right_grams)) * 10000 div int (card union))"

text \<open>
  One row of the distance table: \<open>current\<close> grows at its end while the loop walks over \<open>right\<close> and
  the \<open>previous\<close> row together.
\<close>

fun levenshtein_row :: "nat \<Rightarrow> nat list \<Rightarrow> nat list \<Rightarrow> codes \<Rightarrow> nat list" where
  "levenshtein_row left_character current (diagonal # upper # previous) (right_character # right) =
     levenshtein_row left_character
       (current @ [min (min (last current + 1) (upper + 1))
                       (diagonal + of_bool (left_character \<noteq> right_character))])
       (upper # previous) right"
| "levenshtein_row left_character current previous right = current"

fun levenshtein_rows :: "nat \<Rightarrow> nat list \<Rightarrow> codes \<Rightarrow> codes \<Rightarrow> nat list" where
  "levenshtein_rows left_index previous [] right = previous"
| "levenshtein_rows left_index previous (left_character # left) right =
     levenshtein_rows (Suc left_index)
       (levenshtein_row left_character [left_index] previous right) left right"

definition levenshtein_distance :: "codes \<Rightarrow> codes \<Rightarrow> nat" where
  "levenshtein_distance left right =
     (if length left < length right
      then last (levenshtein_rows 1 [0..<length left + 1] right left)
      else last (levenshtein_rows 1 [0..<length right + 1] left right))"

definition levenshtein_similarity_basis_points :: "codes \<Rightarrow> codes \<Rightarrow> int" where
  "levenshtein_similarity_basis_points left right =
     (let denominator = int (max (length left) (length right))
      in if denominator = 0 then 10000
         else (denominator - int (levenshtein_distance left right)) * 10000 div denominator)"

section \<open>The edit distance\<close>

text \<open>
  The reference: \<open>edits s t n\<close> when \<open>s\<close> becomes \<open>t\<close> by keeping characters and by \<open>n\<close> insertions,
  deletions and substitutions, from left to right.
\<close>

inductive edits :: "codes \<Rightarrow> codes \<Rightarrow> nat \<Rightarrow> bool" where
  Done: "edits [] [] 0"
| Keep: "edits s t n \<Longrightarrow> edits (x # s) (x # t) n"
| Subst: "edits s t n \<Longrightarrow> edits (x # s) (y # t) (Suc n)"
| Delete: "edits s t n \<Longrightarrow> edits (x # s) t (Suc n)"
| Insert: "edits s t n \<Longrightarrow> edits s (y # t) (Suc n)"

inductive_cases edits_Cons: "edits (x # s) t n"

fun lev :: "codes \<Rightarrow> codes \<Rightarrow> nat" where
  "lev [] t = length t"
| "lev s [] = length s"
| "lev (x # s) (y # t) =
     min (min (lev (x # s) t + 1) (lev s (y # t) + 1)) (lev s t + of_bool (x \<noteq> y))"

lemma lev_Nil2 [simp]: "lev s [] = length s"
  by (cases s) auto

lemma lev_Cons_le: "lev (x # s) t \<le> lev s t + 1" "lev s (y # t) \<le> lev s t + 1"
proof -
  show "lev (x # s) t \<le> lev s t + 1" by (cases t) auto
  show "lev s (y # t) \<le> lev s t + 1" by (cases s) auto
qed

lemma edits_insert_all: "edits [] t (length t)"
  by (induction t) (auto intro: edits.intros)

lemma edits_delete_all: "edits s [] (length s)"
  by (induction s) (auto intro: edits.intros)

lemma edits_lev: "edits s t (lev s t)"
proof (induction s t rule: lev.induct)
  case (3 x s y t)
  let ?i = "lev (x # s) t + 1" and ?d = "lev s (y # t) + 1" and ?k = "lev s t + of_bool (x \<noteq> y)"
  have "edits (x # s) (y # t) ?i" "edits (x # s) (y # t) ?d" "edits (x # s) (y # t) ?k"
    using 3 by (auto intro: edits.intros)
  moreover have "lev (x # s) (y # t) \<in> {?i, ?d, ?k}" by (auto simp: min_def)
  ultimately show ?case by auto
next
  case (2 x s)
  show ?case using edits_delete_all [of "x # s"] by simp
qed (auto intro: edits_insert_all)

lemma lev_least: "edits s t n \<Longrightarrow> lev s t \<le> n"
proof (induction rule: edits.induct)
  case (Delete s t n x)
  then show ?case using lev_Cons_le(1) [of x s t] by simp
next
  case (Insert s t n y)
  then show ?case using lev_Cons_le(2) [of s y t] by simp
qed auto

lemma lev_iff: "lev s t \<le> n \<longleftrightarrow> (\<exists>m \<le> n. edits s t m)"
  using edits_lev lev_least by (meson le_trans order_refl)

lemma lev_eqI: "(\<And>n. edits s t n \<longleftrightarrow> edits s' t' n) \<Longrightarrow> lev s t = lev s' t'"
  using edits_lev lev_least by (metis le_antisym)

lemma edits_sym: "edits s t n \<Longrightarrow> edits t s n"
  by (induction rule: edits.induct) (auto intro: edits.intros)

lemma lev_sym: "lev s t = lev t s"
  by (rule lev_eqI) (blast intro: edits_sym)

lemma edits_append: "edits s t m \<Longrightarrow> edits u v n \<Longrightarrow> edits (s @ u) (t @ v) (m + n)"
  by (induction rule: edits.induct) (auto intro: edits.intros)

lemma edits_rev: "edits s t n \<Longrightarrow> edits (rev s) (rev t) n"
proof (induction rule: edits.induct)
  case (Keep s t n x)
  then show ?case using edits_append [of "rev s" "rev t" n "[x]" "[x]" 0] by (auto intro: edits.intros)
next
  case (Subst s t n x y)
  then show ?case using edits_append [of "rev s" "rev t" n "[x]" "[y]" 1] by (auto intro: edits.intros)
next
  case (Delete s t n x)
  then show ?case using edits_append [of "rev s" "rev t" n "[x]" "[]" 1] by (auto intro: edits.intros)
next
  case (Insert s t n y)
  then show ?case using edits_append [of "rev s" "rev t" n "[]" "[y]" 1] by (auto intro: edits.intros)
qed (auto intro: edits.intros)

lemma lev_rev: "lev (rev s) (rev t) = lev s t"
  by (rule lev_eqI) (metis edits_rev rev_rev_ident)

lemma edits_refl: "edits s s 0"
  by (induction s) (auto intro: edits.intros)

lemma edits_0: "edits s t 0 \<Longrightarrow> s = t"
  by (induction s t "0 :: nat" rule: edits.induct) auto

lemma lev_0 [simp]: "lev s t = 0 \<longleftrightarrow> s = t"
  using edits_0 edits_lev [of s t] lev_least [OF edits_refl, of s] by (metis le_zero_eq)

lemma lev_self [simp]: "lev s s = 0"
  by simp

text \<open>Scripts compose, so the distance is a metric.\<close>

definition reaches :: "codes \<Rightarrow> codes \<Rightarrow> nat \<Rightarrow> bool" where
  "reaches s t n \<longleftrightarrow> (\<exists>k \<le> n. edits s t k)"

lemma reaches_intros:
  "reaches s t n \<Longrightarrow> reaches (x # s) (x # t) n" "reaches s t n \<Longrightarrow> reaches (x # s) (y # t) (Suc n)"
  "reaches s t n \<Longrightarrow> reaches (x # s) t (Suc n)" "reaches s t n \<Longrightarrow> reaches s (y # t) (Suc n)"
  unfolding reaches_def by (meson edits.intros Suc_le_mono le_SucI)+

lemma edits_reaches: "edits s t n \<Longrightarrow> n \<le> m \<Longrightarrow> reaches s t m"
  by (auto simp: reaches_def)

lemma reaches_mono: "reaches s t n \<Longrightarrow> n \<le> m \<Longrightarrow> reaches s t m"
  unfolding reaches_def by (meson le_trans)

lemma edits_ConsE:
  assumes "edits (y # t) u n"
  obtains (Delete) n' where "n = Suc n'" "edits t u n'"
  | (Keep) u' where "u = y # u'" "edits t u' n"
  | (Subst) z u' n' where "u = z # u'" "n = Suc n'" "edits t u' n'"
  | (Insert) z u' n' where "u = z # u'" "n = Suc n'" "edits (y # t) u' n'"
  using assms by (auto elim: edits_Cons)

lemma compose_kept:
  assumes "edits (x # t) u n" and IH: "\<And>u n. edits t u n \<Longrightarrow> reaches s u (m + n)"
  shows "reaches (x # s) u (m + n)"
  using assms(1)
proof (induction u arbitrary: n)
  case Nil
  then show ?case
    by (cases rule: edits_ConsE) (use IH reaches_intros(3) in auto)
next
  case (Cons z u)
  from Cons.prems show ?case
    by (cases rule: edits_ConsE) (use IH Cons.IH reaches_intros in auto)
qed

lemma compose_substituted:
  assumes "edits (y # t) u n" and IH: "\<And>u n. edits t u n \<Longrightarrow> reaches s u (m + n)"
  shows "reaches (x # s) u (Suc (m + n))"
  using assms(1)
proof (induction u arbitrary: n)
  case Nil
  then show ?case
  proof (cases rule: edits_ConsE)
    case (Delete n')
    then show ?thesis using reaches_mono [OF reaches_intros(3) [OF IH]] by simp
  qed auto
next
  case (Cons z u)
  from Cons.prems show ?case
  proof (cases rule: edits_ConsE)
    case (Delete n')
    then show ?thesis using reaches_mono [OF reaches_intros(3) [OF IH]] by simp
  next
    case (Keep u')
    then show ?thesis using reaches_intros(2) [OF IH] by simp
  next
    case (Subst z' u' n')
    then show ?thesis using reaches_mono [OF reaches_intros(2) [OF IH]] by simp
  next
    case (Insert z' u' n')
    then show ?thesis using reaches_intros(4) [OF Cons.IH] by simp
  qed
qed

lemma compose_inserted:
  assumes "edits (y # t) u n" and IH: "\<And>u n. edits t u n \<Longrightarrow> reaches s u (m + n)"
  shows "reaches s u (Suc (m + n))"
  using assms(1)
proof (induction u arbitrary: n)
  case Nil
  then show ?case
  proof (cases rule: edits_ConsE)
    case (Delete n')
    then show ?thesis using reaches_mono [OF IH] by simp
  qed auto
next
  case (Cons z u)
  from Cons.prems show ?case
  proof (cases rule: edits_ConsE)
    case (Delete n')
    then show ?thesis using reaches_mono [OF IH] by simp
  next
    case (Keep u')
    then show ?thesis using reaches_intros(4) [OF IH] by simp
  next
    case (Subst z' u' n')
    then show ?thesis using reaches_mono [OF reaches_intros(4) [OF IH]] by simp
  next
    case (Insert z' u' n')
    then show ?thesis using reaches_intros(4) [OF Cons.IH] by simp
  qed
qed

lemma edits_compose: "edits s t m \<Longrightarrow> edits t u n \<Longrightarrow> reaches s u (m + n)"
proof (induction arbitrary: u n rule: edits.induct)
  case Done
  then show ?case by (simp add: edits_reaches)
next
  case (Keep s t m x)
  show ?case using compose_kept [OF Keep.prems] Keep.IH by blast
next
  case (Subst s t m x y)
  show ?case using compose_substituted [OF Subst.prems] Subst.IH by simp
next
  case (Delete s t m x)
  then show ?case by (simp add: reaches_intros)
next
  case (Insert s t m y)
  show ?case using compose_inserted [OF Insert.prems] Insert.IH by simp
qed

lemma lev_triangle: "lev s u \<le> lev s t + lev t u"
  using edits_compose [OF edits_lev [of s t] edits_lev [of t u]] lev_least unfolding reaches_def by (meson le_trans)

text \<open>The bounds of the distance.\<close>

lemma lev_le_max: "lev s t \<le> max (length s) (length t)"
  by (induction s t rule: lev.induct) (auto simp: min_le_iff_disj)

lemma length_diff_le_lev: "length s \<le> length t + lev s t"
proof -
  have "length s \<le> length t + n" if "edits s t n" for n
    using that by (induction rule: edits.induct) auto
  then show ?thesis using edits_lev by blast
qed

section \<open>The rows compute the distance\<close>

lemma lev_snoc:
  "lev (s @ [x]) (t @ [y]) =
     min (min (lev (s @ [x]) t + 1) (lev s (t @ [y]) + 1)) (lev s t + of_bool (x \<noteq> y))"
  using lev.simps(3) [of x "rev s" y "rev t"] lev_rev [of "s @ [x]" "t @ [y]"] lev_rev [of s t]
    lev_rev [of "s @ [x]" t] lev_rev [of s "t @ [y]"] by simp

definition distances :: "codes \<Rightarrow> codes \<Rightarrow> nat \<Rightarrow> nat \<Rightarrow> nat list" where
  "distances p right i j = map (\<lambda>k. lev p (take k right)) [i..<j]"

lemma levenshtein_row_distances:
  assumes "j \<le> length right"
  shows "levenshtein_row c (distances (p @ [c]) right 0 (Suc j)) (distances p right j (Suc (length right))) (drop j right) =
    distances (p @ [c]) right 0 (Suc (length right))"
  using assms
proof (induction "length right - j" arbitrary: j)
  case 0
  then have j: "j = length right" by simp
  then show ?case by simp
next
  case (Suc n)
  then have j: "j < length right" by simp
  let ?y = "right ! j"
  have take: "take (Suc j) right = take j right @ [?y]" using j by (rule take_Suc_conv_app_nth)
  have previous: "distances p right j (Suc (length right)) =
      lev p (take j right) # lev p (take (Suc j) right) # distances p right (Suc (Suc j)) (Suc (length right))"
    "distances p right (Suc j) (Suc (length right)) =
      lev p (take (Suc j) right) # distances p right (Suc (Suc j)) (Suc (length right))"
    using j by (simp_all add: distances_def upt_conv_Cons)
  have "last (distances (p @ [c]) right 0 (Suc j)) = lev (p @ [c]) (take j right)"
    by (simp add: distances_def)
  then have "levenshtein_row c (distances (p @ [c]) right 0 (Suc j)) (distances p right j (Suc (length right))) (drop j right) =
      levenshtein_row c (distances (p @ [c]) right 0 (Suc j) @ [lev (p @ [c]) (take (Suc j) right)])
        (distances p right (Suc j) (Suc (length right))) (drop (Suc j) right)"
    unfolding previous Cons_nth_drop_Suc [OF j, symmetric] by (simp add: take lev_snoc)
  also have "distances (p @ [c]) right 0 (Suc j) @ [lev (p @ [c]) (take (Suc j) right)] =
      distances (p @ [c]) right 0 (Suc (Suc j))"
    by (simp add: distances_def)
  finally show ?case using Suc j by simp
qed

lemma levenshtein_rows_distances:
  "levenshtein_rows (Suc (length p)) (distances p right 0 (Suc (length right))) left right =
     distances (p @ left) right 0 (Suc (length right))"
proof (induction left arbitrary: p)
  case (Cons c left)
  have "[Suc (length p)] = distances (p @ [c]) right 0 (Suc 0)" by (simp add: distances_def)
  then show ?case
    using levenshtein_row_distances [of 0 right c p] Cons [of "p @ [c]"] by simp
qed simp

lemma levenshtein_distance_lev: "levenshtein_distance left right = lev left right"
proof -
  have init: "[0..<length t + 1] = distances [] t 0 (Suc (length t))" for t
    by (rule nth_equalityI) (auto simp: distances_def simp del: upt_Suc)
  have "last (levenshtein_rows 1 [0..<length t + 1] s t) = lev s t" for s t
    using levenshtein_rows_distances [of "[]" t s] unfolding init by (simp add: distances_def)
  then show ?thesis by (simp add: levenshtein_distance_def lev_sym [of right])
qed

section \<open>Trigrams and the distance\<close>

text \<open>
  A script with few edits keeps a run of three characters: between and around \<open>n\<close> edits there are
  at most \<open>n + 1\<close> kept runs.
\<close>

definition factor :: "codes \<Rightarrow> codes \<Rightarrow> bool" where
  "factor g s \<longleftrightarrow> (\<exists>p q. s = p @ g @ q)"

definition common_trigram :: "codes \<Rightarrow> codes \<Rightarrow> bool" where
  "common_trigram s t \<longleftrightarrow> (\<exists>g. length g = 3 \<and> factor g s \<and> factor g t)"

lemma common_trigram_Cons:
  "common_trigram s t \<Longrightarrow> common_trigram (p @ s) (q @ t)"
  unfolding common_trigram_def factor_def by (metis append.assoc)

lemma kept_run:
  assumes "edits s t n" and "length p < 3" and "\<not> common_trigram (p @ s) (p @ t)"
  shows "length s + length p \<le> 3 * n + 2"
  using assms
proof (induction arbitrary: p rule: edits.induct)
  case (Keep s t n x)
  show ?case
  proof (cases "length p = 2")
    case True
    then have "length (p @ [x]) = 3" by simp
    moreover have "p @ x # u = [] @ (p @ [x]) @ u" for u by simp
    ultimately have "common_trigram (p @ x # s) (p @ x # t)"
      unfolding common_trigram_def factor_def by metis
    then show ?thesis using Keep.prems by blast
  next
    case False
    then show ?thesis using Keep.IH [of "p @ [x]"] Keep.prems by simp
  qed
next
  case (Subst s t n x y)
  then show ?case using Subst.IH [of "[]"] common_trigram_Cons [of s t "p @ [x]" "p @ [y]"] by fastforce
next
  case (Delete s t n x)
  then show ?case using Delete.IH [of "[]"] common_trigram_Cons [of s t "p @ [x]" p] by fastforce
next
  case (Insert s t n y)
  then show ?case using Insert.IH [of "[]"] common_trigram_Cons [of s t p "p @ [y]"] by fastforce
qed auto

lemma close_texts_share_trigram:
  assumes "3 * lev s t + 3 \<le> max (length s) (length t)"
  shows "common_trigram s t"
proof -
  have "length s \<le> 3 * lev s t + 2 \<and> length t \<le> 3 * lev s t + 2" if "\<not> common_trigram s t"
    using kept_run [OF edits_lev, of "[]" s t] kept_run [OF edits_lev, of "[]" t s] that
    by (auto simp: lev_sym [of t] common_trigram_def)
  then show ?thesis using assms by linarith
qed

lemma trigrams_iff: "g \<in> trigrams s \<longleftrightarrow> s \<noteq> [] \<and> (if length s < 3 then g = s else length g = 3 \<and> factor g s)"
proof (cases "length s < 3")
  case False
  have "factor g s \<and> length g = 3 \<longleftrightarrow> (\<exists>i < length s - 2. g = take 3 (drop i s))"
  proof
    assume "factor g s \<and> length g = 3"
    then obtain p q where "s = p @ g @ q" "length g = 3" by (auto simp: factor_def)
    then show "\<exists>i < length s - 2. g = take 3 (drop i s)" by (intro exI [of _ "length p"]) simp
  next
    assume "\<exists>i < length s - 2. g = take 3 (drop i s)"
    then obtain i where i: "i < length s - 2" "g = take 3 (drop i s)" by blast
    then have "s = take i s @ g @ drop 3 (drop i s)" by (metis append_take_drop_id)
    with i show "factor g s \<and> length g = 3" unfolding factor_def by force
  qed
  then show ?thesis using False by (auto simp: trigrams_def)
qed (auto simp: trigrams_def)

lemma common_trigram_indexed: "common_trigram s t \<Longrightarrow> trigrams s \<inter> trigrams t \<noteq> {}"
  unfolding common_trigram_def
proof (elim exE conjE)
  fix g assume g: "length g = 3" "factor g s" "factor g t"
  then have "g \<in> trigrams s" "g \<in> trigrams t" by (auto simp: trigrams_iff factor_def)
  then show ?thesis by blast
qed

lemma finite_trigrams [simp]: "finite (trigrams s)"
  by (simp add: trigrams_def)

lemma trigrams_empty [simp]: "trigrams s = {} \<longleftrightarrow> s = []"
  by (auto simp: trigrams_def)

section \<open>Similarity measures found by the index\<close>

text \<open>
  What the search for near duplicates needs of a measure: it is symmetric, lies between 0 and
  10000, is 10000 on equal texts, and a value at the threshold is only reached by texts that
  share a trigram, unless both are empty.
\<close>

locale indexed_measure =
  fixes similarity :: "codes \<Rightarrow> codes \<Rightarrow> int" and threshold :: int
  assumes symmetric: "similarity s t = similarity t s"
    and bounded: "0 \<le> similarity s t" "similarity s t \<le> 10000"
    and equal_texts: "similarity s s = 10000"
    and threshold_bound: "threshold \<le> 10000"
    and shares: "threshold \<le> similarity s t \<Longrightarrow> s \<noteq> [] \<Longrightarrow> trigrams s \<inter> trigrams t \<noteq> {}"
begin

definition close :: "codes \<Rightarrow> codes \<Rightarrow> bool" where
  "close s t \<longleftrightarrow> threshold \<le> similarity s t"

lemma close_refl: "close s s"
  by (simp add: close_def equal_texts threshold_bound)

lemma close_sym: "close s t \<longleftrightarrow> close t s"
  by (simp add: close_def symmetric)

lemma found_by_gram: "close s t \<Longrightarrow> s \<noteq> [] \<Longrightarrow> \<exists>g \<in> trigrams s. g \<in> trigrams t"
  using shares unfolding close_def by blast

lemma disjoint_not_close: "trigrams s \<inter> trigrams t = {} \<Longrightarrow> s \<noteq> [] \<Longrightarrow> \<not> close s t"
  using found_by_gram by blast

end

lemma basis_points_bounds:
  fixes a b :: int
  assumes "0 \<le> a" "a \<le> b" "0 < b"
  shows "0 \<le> a * 10000 div b" "a * 10000 div b \<le> 10000"
proof -
  show "0 \<le> a * 10000 div b" using assms by (simp add: pos_imp_zdiv_nonneg_iff)
  have "a * 10000 div b \<le> b * 10000 div b" using assms by (intro zdiv_mono1) auto
  then show "a * 10000 div b \<le> 10000" using assms by simp
qed

lemma basis_points_ge:
  fixes a b :: int
  assumes "0 < b" shows "k \<le> a * 10000 div b \<longleftrightarrow> k * b \<le> a * 10000"
proof
  assume "k \<le> a * 10000 div b"
  then have "k * b \<le> a * 10000 div b * b" using assms by simp
  also have "\<dots> \<le> a * 10000"
    using div_mult_mod_eq [of "a * 10000" b] pos_mod_sign [OF assms, of "a * 10000"] by linarith
  finally show "k * b \<le> a * 10000" .
next
  assume "k * b \<le> a * 10000"
  then have "k * b div b \<le> a * 10000 div b" using assms by (intro zdiv_mono1) auto
  then show "k \<le> a * 10000 div b" using assms by simp
qed

definition JACCARD_THRESHOLD_BASIS_POINTS :: int where
  "JACCARD_THRESHOLD_BASIS_POINTS = 8000"

definition LEVENSHTEIN_THRESHOLD_BASIS_POINTS :: int where
  "LEVENSHTEIN_THRESHOLD_BASIS_POINTS = 9000"

interpretation jaccard: indexed_measure jaccard_basis_points JACCARD_THRESHOLD_BASIS_POINTS
proof
  fix s t :: codes
  show "jaccard_basis_points s t = jaccard_basis_points t s"
    by (simp add: jaccard_basis_points_def Let_def Int_commute Un_commute conj_commute)
  have card: "card (trigrams s \<inter> trigrams t) \<le> card (trigrams s \<union> trigrams t)"
    by (rule card_mono) auto
  have pos: "0 < card (trigrams s \<union> trigrams t)" if "trigrams s \<union> trigrams t \<noteq> {}"
    using that by (simp add: card_gt_0_iff)
  show "0 \<le> jaccard_basis_points s t" "jaccard_basis_points s t \<le> 10000"
    using card pos basis_points_bounds [of "int (card (trigrams s \<inter> trigrams t))" "int (card (trigrams s \<union> trigrams t))"]
    by (auto simp: jaccard_basis_points_def Let_def)
  show "jaccard_basis_points s s = 10000"
    using pos by (auto simp: jaccard_basis_points_def Let_def)
  show "JACCARD_THRESHOLD_BASIS_POINTS \<le> 10000" by (simp add: JACCARD_THRESHOLD_BASIS_POINTS_def)
  show "trigrams s \<inter> trigrams t \<noteq> {}" if "JACCARD_THRESHOLD_BASIS_POINTS \<le> jaccard_basis_points s t" "s \<noteq> []"
    using that by (auto simp: jaccard_basis_points_def JACCARD_THRESHOLD_BASIS_POINTS_def Let_def)
qed

interpretation levenshtein: indexed_measure levenshtein_similarity_basis_points LEVENSHTEIN_THRESHOLD_BASIS_POINTS
proof
  fix s t :: codes
  let ?D = "int (max (length s) (length t))"
  show "levenshtein_similarity_basis_points s t = levenshtein_similarity_basis_points t s"
    by (simp add: levenshtein_similarity_basis_points_def Let_def levenshtein_distance_lev lev_sym [of t] max.commute)
  define D where "D = ?D"
  have le: "int (lev s t) \<le> D" using lev_le_max [of s t] by (simp add: D_def)
  have sim: "levenshtein_similarity_basis_points s t = (if D = 0 then 10000 else (D - int (lev s t)) * 10000 div D)"
    by (simp only: levenshtein_similarity_basis_points_def Let_def levenshtein_distance_lev D_def)
  have "0 \<le> D" by (simp add: D_def)
  then show "0 \<le> levenshtein_similarity_basis_points s t" "levenshtein_similarity_basis_points s t \<le> 10000"
    using le basis_points_bounds [of "D - int (lev s t)" D] unfolding sim by simp_all
  show "levenshtein_similarity_basis_points s s = 10000"
    by (simp add: levenshtein_similarity_basis_points_def Let_def levenshtein_distance_lev)
  show "LEVENSHTEIN_THRESHOLD_BASIS_POINTS \<le> 10000" by (simp add: LEVENSHTEIN_THRESHOLD_BASIS_POINTS_def)
  assume close: "LEVENSHTEIN_THRESHOLD_BASIS_POINTS \<le> levenshtein_similarity_basis_points s t" and ne: "s \<noteq> []"
  then have D: "0 < D" by (simp add: D_def less_max_iff_disj)
  then have "9000 * D \<le> (D - int (lev s t)) * 10000"
    using close basis_points_ge [of D 9000 "D - int (lev s t)"]
    unfolding sim LEVENSHTEIN_THRESHOLD_BASIS_POINTS_def by simp
  then have "10000 * int (lev s t) \<le> 1000 * D" by (simp add: left_diff_distrib)
  then have "10 * lev s t \<le> max (length s) (length t)" unfolding D_def by simp
  then show "trigrams s \<inter> trigrams t \<noteq> {}"
    using ne close_texts_share_trigram [of s t] common_trigram_indexed [of s t]
    by (cases "lev s t = 0") (simp, linarith)
qed

end
