(* ===== verification/Near_Duplicates.thy ===== *)
theory Near_Duplicates
  imports Edit_Distance Json_Text "HOL-Library.Product_Lexorder"
begin

text \<open>
  \<open>build_frozen_corpus_v2.py\<close>: the normalization of readings, the search for near duplicates over
  an inverted index of trigrams, and the check of the closed review of the pairs found.  The
  Unicode tables of Python's \<open>unicodedata\<close> are a parameter.
\<close>

section \<open>Normalized readings\<close>

text \<open>\<open>unicodedata.normalize\<close> to NFC and NFKC, \<open>str.casefold\<close> and \<open>unicodedata.category\<close>.\<close>

record unicode =
  uc_nfc :: "codes \<Rightarrow> codes"
  uc_nfkc :: "codes \<Rightarrow> codes"
  uc_casefold :: "codes \<Rightarrow> codes"
  uc_category :: "nat \<Rightarrow> string"

definition kana_shift :: "nat \<Rightarrow> nat" where
  "kana_shift codepoint =
     (if 0x30A1 \<le> codepoint \<and> codepoint \<le> 0x30F6 \<or> 0x30FD \<le> codepoint \<and> codepoint \<le> 0x30FE
      then codepoint - 0x60 else codepoint)"

definition katakana_to_hiragana :: "unicode \<Rightarrow> codes \<Rightarrow> codes" where
  "katakana_to_hiragana u s = uc_nfc u (map kana_shift (uc_nfc u s))"

definition canonical_reading :: "unicode \<Rightarrow> codes \<Rightarrow> codes" where
  "canonical_reading u s = uc_casefold u (katakana_to_hiragana u (uc_nfkc u s))"

definition near_text :: "unicode \<Rightarrow> codes \<Rightarrow> codes" where
  "near_text u s = filter (\<lambda>c. take 1 (uc_category u c) \<notin> {''P'', ''Z''}) (canonical_reading u s)"

section \<open>The search\<close>

text \<open>The columns of a corpus row as texts; ids as UTF-8 bytes wherever they enter JSON.\<close>

record FrozenRow =
  fr_id :: codes
  fr_reading :: codes
  fr_expected :: codes
  fr_category :: codes

definition text_of :: "codes \<Rightarrow> string" where
  "text_of s = concat (map utf8_encode s)"

record NearPair =
  near_ids :: "string list"
  near_scope :: string
  near_jaccard :: int
  near_levenshtein :: int

text \<open>\<open>postings.setdefault(gram, []).append(index)\<close> for every gram of the text.\<close>

definition add_posting :: "nat \<Rightarrow> (codes \<times> nat list) list \<Rightarrow> codes \<Rightarrow> (codes \<times> nat list) list" where
  "add_posting index d gram =
     dict_set gram ((case map_of d gram of None \<Rightarrow> [] | Some is \<Rightarrow> is) @ [index]) d"

definition add_text :: "(codes \<times> nat list) list \<Rightarrow> nat \<times> codes \<Rightarrow> (codes \<times> nat list) list" where
  "add_text d = (\<lambda>(index, s). foldl (add_posting index) d (sorted_list_of_set (trigrams s)))"

definition postings :: "codes list \<Rightarrow> (codes \<times> nat list) list" where
  "postings texts = foldl add_text [] (zip [0..<length texts] texts)"

fun later_pairs :: "'a list \<Rightarrow> ('a \<times> 'a) list" where
  "later_pairs [] = []"
| "later_pairs (x # xs) = map (Pair x) xs @ later_pairs xs"

definition formal_candidates :: "(codes \<times> nat list) list \<Rightarrow> (nat \<times> nat) set" where
  "formal_candidates formal_postings = set (concat (map (\<lambda>(gram, indices). later_pairs indices) formal_postings))"

definition pilot_candidates ::
  "(codes \<times> nat list) list \<Rightarrow> (codes \<times> nat list) list \<Rightarrow> (nat \<times> nat) set" where
  "pilot_candidates formal_postings pilot_postings =
     set (concat (map (\<lambda>(gram, indices).
       List.product indices (case map_of pilot_postings gram of None \<Rightarrow> [] | Some js \<Rightarrow> js)) formal_postings))"

definition consider_pair :: "string \<Rightarrow> string \<times> codes \<Rightarrow> string \<times> codes \<Rightarrow> NearPair list" where
  "consider_pair scope left right =
     (let jaccard = jaccard_basis_points (snd left) (snd right);
          maximum_length = max (length (snd left)) (length (snd right));
          maximum_possible_levenshtein =
            (if maximum_length = 0 then 10000
             else int (min (length (snd left)) (length (snd right))) * 10000 div int maximum_length)
      in if jaccard < JACCARD_THRESHOLD_BASIS_POINTS
            \<and> maximum_possible_levenshtein < LEVENSHTEIN_THRESHOLD_BASIS_POINTS then []
         else
           let levenshtein = levenshtein_similarity_basis_points (snd left) (snd right)
           in if jaccard < JACCARD_THRESHOLD_BASIS_POINTS
                 \<and> levenshtein < LEVENSHTEIN_THRESHOLD_BASIS_POINTS then []
              else [\<lparr>near_ids = sort [fst left, fst right], near_scope = scope,
                     near_jaccard = jaccard, near_levenshtein = levenshtein\<rparr>])"

definition near_texts :: "unicode \<Rightarrow> string \<Rightarrow> FrozenRow list \<Rightarrow> (string \<times> codes) list" where
  "near_texts u prefix rows = map (\<lambda>r. (prefix @ text_of (fr_id r), near_text u (fr_reading r))) rows"

definition find_near_duplicate_pairs ::
  "unicode \<Rightarrow> FrozenRow list \<Rightarrow> FrozenRow list \<Rightarrow> NearPair list res" where
  "find_near_duplicate_pairs u formal_rows pilot_rows =
     (let formal = near_texts u [] formal_rows; pilot = near_texts u ''pilot-v1:'' pilot_rows in
      bindE (raise_if (list_ex (\<lambda>(_, s). s = []) formal)
               (ValueError ''formal reading becomes empty under near-duplicate normalization'')) (\<lambda>_.
      let formal_postings = postings (map snd formal); pilot_postings = postings (map snd pilot)
      in Inr (sort_key (\<lambda>p. (near_scope p, near_ids p))
           (concat (map (\<lambda>(i, j). consider_pair ''formal-v2'' (formal ! i) (formal ! j))
              (sorted_list_of_set (formal_candidates formal_postings))) @
            concat (map (\<lambda>(i, j). consider_pair ''pilot-v1-to-formal-v2'' (formal ! i) (pilot ! j))
              (sorted_list_of_set (pilot_candidates formal_postings pilot_postings)))))))"

section \<open>The index\<close>

lemma add_posting_lookup:
  "map_of (add_posting index d gram) g =
     (if g = gram then Some ((case map_of d g of None \<Rightarrow> [] | Some l \<Rightarrow> l) @ [index]) else map_of d g)"
  by (simp add: add_posting_def)

lemma add_postings_lookup:
  "distinct grams \<Longrightarrow>
   map_of (foldl (add_posting index) d grams) g =
     (if g \<in> set grams then Some ((case map_of d g of None \<Rightarrow> [] | Some l \<Rightarrow> l) @ [index]) else map_of d g)"
  by (induction grams arbitrary: d) (auto simp: add_posting_lookup)

lemma add_text_lookup:
  "map_of (add_text d (index, s)) g =
     (if g \<in> trigrams s then Some ((case map_of d g of None \<Rightarrow> [] | Some l \<Rightarrow> l) @ [index]) else map_of d g)"
  by (simp add: add_text_def add_postings_lookup)

lemma add_text_distinct: "distinct (keys d) \<Longrightarrow> distinct (keys (add_text d t))"
proof -
  have "distinct (keys d) \<Longrightarrow> distinct (keys (foldl (add_posting index) d grams))" for index grams
    by (induction grams arbitrary: d) (auto simp: add_posting_def)
  then show "distinct (keys d) \<Longrightarrow> distinct (keys (add_text d t))"
    by (simp add: add_text_def split_def)
qed

definition having_gram :: "codes list \<Rightarrow> codes \<Rightarrow> nat list" where
  "having_gram texts g = filter (\<lambda>i. g \<in> trigrams (texts ! i)) [0..<length texts]"

lemma postings_snoc: "postings (texts @ [s]) = add_text (postings texts) (length texts, s)"
  by (simp add: postings_def)

lemma having_gram_snoc:
  "having_gram (texts @ [s]) g = having_gram texts g @ (if g \<in> trigrams s then [length texts] else [])"
  by (auto simp: having_gram_def nth_append intro!: filter_cong)

lemma postings_lookup:
  "map_of (postings texts) g = (if having_gram texts g = [] then None else Some (having_gram texts g))"
proof (induction texts rule: rev_induct)
  case Nil
  then show ?case by (simp add: postings_def having_gram_def)
next
  case (snoc s texts)
  then show ?case by (auto simp: postings_snoc add_text_lookup having_gram_snoc)
qed

lemma postings_distinct: "distinct (keys (postings texts))"
proof (induction texts rule: rev_induct)
  case Nil
  then show ?case by (simp add: postings_def)
qed (simp add: postings_snoc add_text_distinct)

lemma postings_member:
  "(g, l) \<in> set (postings texts) \<longleftrightarrow> l = having_gram texts g \<and> l \<noteq> []"
  using postings_lookup [of texts g] postings_distinct [of texts]
  by (metis (no_types, lifting) keys_def map_of_SomeD map_of_eq_Some_iff option.distinct(1) option.inject)

lemma having_gram_set [simp]: "set (having_gram texts g) = {i. i < length texts \<and> g \<in> trigrams (texts ! i)}"
  by (auto simp: having_gram_def)

lemma later_pairs_sorted:
  "sorted_wrt (<) xs \<Longrightarrow> set (later_pairs xs) = {(x, y). x \<in> set xs \<and> y \<in> set xs \<and> x < (y :: nat)}"
  by (induction xs) auto

lemma formal_candidates_iff:
  "formal_candidates (postings texts) =
     {(i, j). i < j \<and> j < length texts \<and> trigrams (texts ! i) \<inter> trigrams (texts ! j) \<noteq> {}}"
proof -
  have "sorted_wrt (<) (having_gram texts g)" for g
    by (simp add: having_gram_def sorted_wrt_filter)
  then have "set (later_pairs (having_gram texts g)) =
      {(i, j). i < j \<and> j < length texts \<and> g \<in> trigrams (texts ! i) \<and> g \<in> trigrams (texts ! j)}" for g
    by (subst later_pairs_sorted) auto
  moreover have "formal_candidates (postings texts) = (\<Union>g. set (later_pairs (having_gram texts g)))"
    unfolding formal_candidates_def by (fastforce simp: postings_member)
  ultimately show ?thesis by auto
qed

lemma pilot_candidates_iff:
  "pilot_candidates (postings texts) (postings pilot) =
     {(i, j). i < length texts \<and> j < length pilot \<and> trigrams (texts ! i) \<inter> trigrams (pilot ! j) \<noteq> {}}"
proof -
  have look: "(case map_of (postings pilot) g of None \<Rightarrow> [] | Some js \<Rightarrow> js) = having_gram pilot g" for g
    by (simp add: postings_lookup)
  have "x \<in> pilot_candidates (postings texts) (postings pilot) \<longleftrightarrow>
      (\<exists>g l. (g, l) \<in> set (postings texts) \<and> x \<in> set l \<times> set (having_gram pilot g))" for x
    unfolding pilot_candidates_def look by (auto simp del: having_gram_set)
  then have "x \<in> pilot_candidates (postings texts) (postings pilot) \<longleftrightarrow>
      (\<exists>g. x \<in> set (having_gram texts g) \<times> set (having_gram pilot g))" for x
    unfolding postings_member by (metis empty_iff empty_set mem_Times_iff)
  then show ?thesis by (simp add: set_eq_iff) blast
qed

section \<open>The pruned comparison\<close>

definition near :: "codes \<Rightarrow> codes \<Rightarrow> bool" where
  "near s t \<longleftrightarrow> jaccard.close s t \<or> levenshtein.close s t"

definition near_pair :: "string \<Rightarrow> string \<times> codes \<Rightarrow> string \<times> codes \<Rightarrow> NearPair" where
  "near_pair scope left right =
     \<lparr>near_ids = sort [fst left, fst right], near_scope = scope,
      near_jaccard = jaccard_basis_points (snd left) (snd right),
      near_levenshtein = levenshtein_similarity_basis_points (snd left) (snd right)\<rparr>"

lemma similarity_length_bound:
  assumes "0 < max (length s) (length t)"
  shows "levenshtein_similarity_basis_points s t \<le>
    int (min (length s) (length t)) * 10000 div int (max (length s) (length t))"
proof -
  have "max (length s) (length t) \<le> min (length s) (length t) + lev s t"
    using length_diff_le_lev [of s t] length_diff_le_lev [of t s] lev_sym [of s t] by auto
  then have "int (max (length s) (length t)) - int (lev s t) \<le> int (min (length s) (length t))" by linarith
  then show ?thesis
    using assms by (auto simp: levenshtein_similarity_basis_points_def Let_def levenshtein_distance_lev
        simp del: of_nat_max of_nat_min intro!: zdiv_mono1)
qed

lemma consider_pair_eq:
  "consider_pair scope left right = (if near (snd left) (snd right) then [near_pair scope left right] else [])"
proof -
  let ?s = "snd left" and ?t = "snd right"
  have "levenshtein_similarity_basis_points ?s ?t \<le>
      (if max (length ?s) (length ?t) = 0 then 10000
       else int (min (length ?s) (length ?t)) * 10000 div int (max (length ?s) (length ?t)))"
  proof (cases "max (length ?s) (length ?t) = 0")
    case True
    then show ?thesis using levenshtein.bounded(2) [of ?s ?t] by (simp only: refl if_True)
  next
    case False
    then show ?thesis using similarity_length_bound [of ?s ?t] by (simp only: if_False)
  qed
  then show ?thesis
    unfolding consider_pair_def Let_def near_def jaccard.close_def levenshtein.close_def near_pair_def
    by (auto simp: not_le)
qed

section \<open>The search finds every near pair\<close>

lemma concat_map_superset:
  assumes "sorted_list_of_set A = xs" "finite B" "A \<subseteq> B" "\<And>x. x \<in> B \<Longrightarrow> x \<notin> A \<Longrightarrow> f x = []"
  shows "concat (map f xs) = concat (map f (sorted_list_of_set (B :: (nat \<times> nat) set)))"
proof -
  have "finite A" using assms(2,3) finite_subset by blast
  have "sorted_list_of_set A = filter (\<lambda>x. x \<in> A) (sorted_list_of_set B)"
  proof (rule sorted_list_of_set_unique [THEN iffD1, OF \<open>finite A\<close>], intro conjI)
    show "sorted_wrt (<) (filter (\<lambda>x. x \<in> A) (sorted_list_of_set B))"
      by (rule sorted_wrt_filter) simp
    show "set (filter (\<lambda>x. x \<in> A) (sorted_list_of_set B)) = A" using assms(2,3) by auto
    then show "length (filter (\<lambda>x. x \<in> A) (sorted_list_of_set B)) = card A"
      using distinct_card [of "filter (\<lambda>x. x \<in> A) (sorted_list_of_set B)"] by simp
  qed
  moreover have "concat (map f (filter (\<lambda>x. x \<in> A) ys)) = concat (map f ys)" if "set ys \<subseteq> B" for ys
    using that assms(4) by (induction ys) auto
  ultimately show ?thesis using assms(1,2) by simp
qed

text \<open>The reference: every pair is compared, without an index and without pruning.\<close>

definition compare_all :: "string \<Rightarrow> (nat \<times> nat) set \<Rightarrow> (string \<times> codes) list \<Rightarrow> (string \<times> codes) list \<Rightarrow> NearPair list" where
  "compare_all scope indices xs ys =
     map (\<lambda>(i, j). near_pair scope (xs ! i) (ys ! j))
       (filter (\<lambda>(i, j). near (snd (xs ! i)) (snd (ys ! j))) (sorted_list_of_set indices))"

definition all_near_pairs :: "(string \<times> codes) list \<Rightarrow> (string \<times> codes) list \<Rightarrow> NearPair list" where
  "all_near_pairs formal pilot =
     sort_key (\<lambda>p. (near_scope p, near_ids p))
       (compare_all ''formal-v2'' {(i, j). i < j \<and> j < length formal} formal formal @
        compare_all ''pilot-v1-to-formal-v2'' ({..<length formal} \<times> {..<length pilot}) formal pilot)"

lemma near_shares: "near s t \<Longrightarrow> s \<noteq> [] \<Longrightarrow> trigrams s \<inter> trigrams t \<noteq> {}"
  using jaccard.disjoint_not_close levenshtein.disjoint_not_close unfolding near_def by blast

lemma concat_consider:
  "concat (map (\<lambda>(i, j). consider_pair scope (xs ! i) (ys ! j)) is) =
     map (\<lambda>(i, j). near_pair scope (xs ! i) (ys ! j)) (filter (\<lambda>(i, j). near (snd (xs ! i)) (snd (ys ! j))) is)"
  by (induction "is") (auto simp: consider_pair_eq)

lemma indexed_search:
  assumes "finite B" "A \<subseteq> B" "\<And>i j. (i, j) \<in> B \<Longrightarrow> (i, j) \<notin> A \<Longrightarrow> \<not> near (snd (xs ! i)) (snd (ys ! j))"
  shows "concat (map (\<lambda>(i, j). consider_pair scope (xs ! i) (ys ! j)) (sorted_list_of_set A)) =
    compare_all scope B xs ys"
  unfolding compare_all_def concat_consider [symmetric]
  using assms by (intro concat_map_superset [OF refl]) (auto simp: consider_pair_eq)

lemma find_near_eq:
  "find_near_duplicate_pairs u formal_rows pilot_rows =
     (let formal = near_texts u [] formal_rows; pilot = near_texts u ''pilot-v1:'' pilot_rows in
      if \<exists>t \<in> set formal. snd t = []
      then Inl (ValueError ''formal reading becomes empty under near-duplicate normalization'')
      else Inr (all_near_pairs formal pilot))"
proof -
  define formal where "formal = near_texts u [] formal_rows"
  define pilot where "pilot = near_texts u ''pilot-v1:'' pilot_rows"
  have empty: "list_ex (\<lambda>(_, s). s = []) formal \<longleftrightarrow> (\<exists>t \<in> set formal. snd t = [])"
    by (force simp: list_ex_iff)
  have "concat (map (\<lambda>(i, j). consider_pair ''formal-v2'' (formal ! i) (formal ! j))
      (sorted_list_of_set (formal_candidates (postings (map snd formal))))) =
      compare_all ''formal-v2'' {(i, j). i < j \<and> j < length formal} formal formal"
    "concat (map (\<lambda>(i, j). consider_pair ''pilot-v1-to-formal-v2'' (formal ! i) (pilot ! j))
      (sorted_list_of_set (pilot_candidates (postings (map snd formal)) (postings (map snd pilot))))) =
      compare_all ''pilot-v1-to-formal-v2'' ({..<length formal} \<times> {..<length pilot}) formal pilot"
    if ne: "\<forall>t \<in> set formal. snd t \<noteq> []"
  proof -
    have fin: "finite {(i, j). i < j \<and> j < length formal}"
      by (rule finite_subset [of _ "{..<length formal} \<times> {..<length formal}"]) auto
    have ne': "snd (formal ! i) \<noteq> []" if "i < length formal" for i using ne that by simp
    show "concat (map (\<lambda>(i, j). consider_pair ''formal-v2'' (formal ! i) (formal ! j))
      (sorted_list_of_set (formal_candidates (postings (map snd formal))))) =
      compare_all ''formal-v2'' {(i, j). i < j \<and> j < length formal} formal formal"
      using near_shares ne' by (intro indexed_search [OF fin]) (auto simp: formal_candidates_iff)
    show "concat (map (\<lambda>(i, j). consider_pair ''pilot-v1-to-formal-v2'' (formal ! i) (pilot ! j))
      (sorted_list_of_set (pilot_candidates (postings (map snd formal)) (postings (map snd pilot))))) =
      compare_all ''pilot-v1-to-formal-v2'' ({..<length formal} \<times> {..<length pilot}) formal pilot"
      using near_shares ne' by (intro indexed_search) (auto simp: pilot_candidates_iff)
  qed
  then show ?thesis
    unfolding find_near_duplicate_pairs_def Let_def formal_def [symmetric] pilot_def [symmetric] empty all_near_pairs_def
    by (cases "\<exists>t \<in> set formal. snd t = []") auto
qed

section \<open>Strings of the v2 documents\<close>

text \<open>
  Category Cc in UTF-8: the ASCII controls, and U+0080 to U+009F, which start with the byte C2.
\<close>

definition ascii_control :: "char \<Rightarrow> bool" where
  "ascii_control c \<longleftrightarrow> code c < 32 \<or> code c = 127"

fun has_control :: "string \<Rightarrow> bool" where
  "has_control [] = False"
| "has_control [a] = ascii_control a"
| "has_control (a # b # s) =
     (ascii_control a \<or> code a = 194 \<and> 128 \<le> code b \<and> code b < 160 \<or> has_control (b # s))"

definition plain_string :: "json \<Rightarrow> string \<Rightarrow> string res" where
  "plain_string v ctx =
     bindE (as_string v ctx) (\<lambda>s.
     bindE (raise_if (has_control s) (ValueError (ctx @ '' must not contain control characters''))) (\<lambda>_.
     Inr s))"

text \<open>\<open>[a-z0-9][a-z0-9._:-]{2,127}\<close>\<close>

definition identifier_start :: "char \<Rightarrow> bool" where
  "identifier_start c \<longleftrightarrow> is_digit c \<or> 97 \<le> code c \<and> code c \<le> 122"

definition review_identifier_pattern :: "string \<Rightarrow> bool" where
  "review_identifier_pattern s \<longleftrightarrow>
     s \<noteq> [] \<and> identifier_start (hd s) \<and> 3 \<le> length s \<and> length s \<le> 128 \<and>
     list_all (\<lambda>c. identifier_start c \<or> c \<in> set ''._:-'') (tl s)"

definition review_identifier :: "json \<Rightarrow> string \<Rightarrow> string res" where
  "review_identifier v ctx =
     bindE (plain_string v ctx) (\<lambda>s.
     bindE (raise_if (\<not> review_identifier_pattern s)
              (ValueError (ctx @ '' must be a canonical lowercase review identifier''))) (\<lambda>_.
     Inr s))"

section \<open>The closed review\<close>

definition NEAR_REVIEW_SCHEMA :: string where
  "NEAR_REVIEW_SCHEMA = ''hazkey.frozen-conversion-near-duplicate-review.v2''"

definition NEAR_NORMALIZATION :: string where
  "NEAR_NORMALIZATION = ''NFKC-casefold-strip-punctuation-and-separators-katakana-to-hiragana.v1''"

definition NEAR_ALGORITHMS :: json where
  "NEAR_ALGORITHMS = JArr
     [JObj [(''id'', JStr ''normalized-reading-character-3gram-jaccard.v1''),
            (''threshold_basis_points'', JInt JACCARD_THRESHOLD_BASIS_POINTS)],
      JObj [(''id'', JStr ''normalized-reading-levenshtein-similarity.v1''),
            (''threshold_basis_points'', JInt LEVENSHTEIN_THRESHOLD_BASIS_POINTS)]]"

definition near_algorithm :: json where
  "near_algorithm = JObj
     [(''normalization'', JStr NEAR_NORMALIZATION), (''match'', JStr ''either''),
      (''algorithms'', NEAR_ALGORITHMS)]"

definition near_key :: "NearPair \<Rightarrow> string \<times> string list" where
  "near_key p = (near_scope p, near_ids p)"

definition expected_by_key :: "NearPair list \<Rightarrow> ((string \<times> string list) \<times> NearPair) list" where
  "expected_by_key expected_pairs = foldl (\<lambda>d p. dict_set (near_key p) p d) [] expected_pairs"

definition case_id_strings :: "json list \<Rightarrow> string list option" where
  "case_id_strings vs =
     (if length vs = 2 \<and> list_all (\<lambda>v. case v of JStr s \<Rightarrow> s \<noteq> [] | _ \<Rightarrow> False) vs
      then Some (map (\<lambda>v. case v of JStr s \<Rightarrow> s | _ \<Rightarrow> []) vs) else None)"

type_synonym reviewed = "((string \<times> string list) \<times> obj) list"

definition reviewed_key :: "obj \<Rightarrow> string \<Rightarrow> (string \<times> string list) res" where
  "reviewed_key d ctx =
     bindE (item as_array d ''case_ids'' ctx) (\<lambda>raw_ids.
     case case_id_strings raw_ids of
       None \<Rightarrow> Inl (ValueError (ctx @ ''.case_ids must contain two non-empty strings''))
     | Some case_ids \<Rightarrow>
         bindE (raise_if (sort case_ids \<noteq> case_ids \<or> case_ids ! 0 = case_ids ! 1)
                  (ValueError (ctx @ ''.case_ids must be distinct and sorted''))) (\<lambda>_.
         bindE (item plain_string d ''scope'' ctx) (\<lambda>scope.
         Inr (scope, case_ids))))"

definition check_field :: "obj \<Rightarrow> string \<Rightarrow> json \<Rightarrow> string \<Rightarrow> unit res" where
  "check_field d k e message =
     bindE (get_item d k) (\<lambda>v. raise_if (\<not> pyeq v e) (ValueError message))"

definition check_reviewed :: "obj \<Rightarrow> NearPair \<Rightarrow> string \<Rightarrow> unit res" where
  "check_reviewed d p ctx =
     bindE (check_field d ''jaccard_basis_points'' (JInt (near_jaccard p))
              (ctx @ ''.jaccard_basis_points is stale or forged'')) (\<lambda>_.
     bindE (check_field d ''levenshtein_basis_points'' (JInt (near_levenshtein p))
              (ctx @ ''.levenshtein_basis_points is stale or forged'')) (\<lambda>_.
     bindE (check_field d ''disposition'' (JStr ''distinct-reviewed'')
              (ctx @ ''.disposition must be distinct-reviewed'')) (\<lambda>_.
     bindE (item plain_string d ''reviewer_id'' ctx) (\<lambda>_.
     bindE (item plain_string d ''rationale'' ctx) (\<lambda>_.
     Inr ())))))"

definition review_fields :: "string list" where
  "review_fields = [''case_ids'', ''scope'', ''jaccard_basis_points'', ''levenshtein_basis_points'',
     ''disposition'', ''reviewer_id'', ''rationale'']"

definition review_pair ::
  "((string \<times> string list) \<times> NearPair) list \<Rightarrow> reviewed \<Rightarrow> nat \<times> json \<Rightarrow> reviewed res" where
  "review_pair expected reviewed = (\<lambda>(index, raw_record).
     let ctx = at_index ''near review.pairs'' index in
     bindE (as_object raw_record ctx) (\<lambda>d.
     bindE (exact_fields d review_fields ctx) (\<lambda>_.
     bindE (reviewed_key d ctx) (\<lambda>key.
     bindE (raise_if (key \<in> set (keys reviewed))
              (ValueError (ctx @ '' duplicates a reviewed near pair''))) (\<lambda>_.
     case map_of expected key of
       None \<Rightarrow> Inl (ValueError (ctx @ '' is not a computed near-duplicate pair''))
     | Some p \<Rightarrow> bindE (check_reviewed d p ctx) (\<lambda>_. Inr (dict_set key d reviewed)))))))"

definition validate_near_review ::
  "obj \<Rightarrow> NearPair list \<Rightarrow> string option \<Rightarrow> unit res" where
  "validate_near_review review expected_pairs expected_reviewer_id =
     bindE (exact_fields review [''schema'', ''status'', ''reviewer_id'', ''algorithm'', ''pairs'']
              ''near review'') (\<lambda>_.
     bindE (get_item review ''schema'') (\<lambda>schema.
     bindE (get_item review ''status'') (\<lambda>status.
     bindE (raise_if (\<not> pyeq schema (JStr NEAR_REVIEW_SCHEMA) \<or> \<not> pyeq status (JStr ''closed''))
              (ValueError ''near review schema or status is not closed'')) (\<lambda>_.
     bindE (get_item review ''reviewer_id'') (\<lambda>raw_reviewer.
     bindE (review_identifier raw_reviewer ''near review.reviewer_id'') (\<lambda>reviewer_id.
     bindE (raise_if (expected_reviewer_id \<noteq> None \<and> expected_reviewer_id \<noteq> Some reviewer_id)
              (ValueError ''near review reviewer does not match approval'')) (\<lambda>_.
     bindE (get_item review ''algorithm'') (\<lambda>algorithm.
     bindE (raise_if (\<not> pyeq algorithm near_algorithm)
              (ValueError ''near review algorithm does not match the v2 contract'')) (\<lambda>_.
     let expected = expected_by_key expected_pairs in
     bindE (get_item review ''pairs'') (\<lambda>raw_pairs.
     bindE (as_array raw_pairs ''near review.pairs'') (\<lambda>records.
     bindE (foldE (review_pair expected) [] (zip [0..<length records] records)) (\<lambda>reviewed.
     raise_if (set (keys reviewed) \<noteq> set (keys expected))
       (ValueError ''near review is not closed; missing computed pairs: '')))))))))))))"

section \<open>What a closed review says\<close>

lemma plain_string_iff [simp]: "plain_string v ctx = Inr s \<longleftrightarrow> v = JStr s \<and> s \<noteq> [] \<and> \<not> has_control s"
  by (auto simp: plain_string_def)

lemma review_identifier_iff [simp]:
  "review_identifier v ctx = Inr s \<longleftrightarrow> v = JStr s \<and> \<not> has_control s \<and> review_identifier_pattern s"
  by (auto simp: review_identifier_def review_identifier_pattern_def)

lemma case_id_strings_iff:
  "case_id_strings vs = Some ids \<longleftrightarrow> vs = map JStr ids \<and> length ids = 2 \<and> [] \<notin> set ids"
proof
  assume "case_id_strings vs = Some ids"
  then have two: "length vs = 2" and ok: "list_all (\<lambda>v. case v of JStr s \<Rightarrow> s \<noteq> [] | _ \<Rightarrow> False) vs"
    and ids: "ids = map (\<lambda>v. case v of JStr s \<Rightarrow> s | _ \<Rightarrow> []) vs"
    by (auto simp: case_id_strings_def split: if_splits)
  have "vs = map JStr (map (\<lambda>v. case v of JStr s \<Rightarrow> s | _ \<Rightarrow> []) vs) \<and> [] \<notin> set (map (\<lambda>v. case v of JStr s \<Rightarrow> s | _ \<Rightarrow> []) vs)"
    using ok by (induction vs) (auto split: json.splits)
  then show "vs = map JStr ids \<and> length ids = 2 \<and> [] \<notin> set ids" using two ids by simp
next
  assume "vs = map JStr ids \<and> length ids = 2 \<and> [] \<notin> set ids"
  then show "case_id_strings vs = Some ids"
    by (auto simp: case_id_strings_def list_all_iff comp_def)
qed

lemma expected_by_key_lookup:
  "map_of (expected_by_key pairs) k = (case filter (\<lambda>p. near_key p = k) (rev pairs) of [] \<Rightarrow> None | p # _ \<Rightarrow> Some p)"
  unfolding expected_by_key_def by (induction pairs rule: rev_induct) (auto split: list.splits)

lemma expected_by_key_keys: "set (keys (expected_by_key pairs)) = near_key ` set pairs"
  unfolding expected_by_key_def
  by (induction pairs rule: rev_induct) (auto simp: keys_dict_set)

lemma expected_by_key_Some:
  assumes "map_of (expected_by_key pairs) k = Some p" shows "p \<in> set pairs \<and> near_key p = k"
proof -
  have "p \<in> set (filter (\<lambda>p. near_key p = k) (rev pairs))"
    using assms unfolding expected_by_key_lookup by (cases "filter (\<lambda>p. near_key p = k) (rev pairs)") auto
  then show ?thesis by simp
qed

lemma dict_set_new: "k \<notin> set (keys d) \<Longrightarrow> dict_set k v d = d @ [(k, v)]"
  by (induction k v d rule: dict_set.induct) auto

definition reviewable_key :: "string \<times> string list \<Rightarrow> bool" where
  "reviewable_key = (\<lambda>(scope, ids).
     length ids = 2 \<and> [] \<notin> set ids \<and> sort ids = ids \<and> ids ! 0 \<noteq> ids ! 1 \<and> scope \<noteq> [] \<and> \<not> has_control scope)"

lemma map_JStr_inject [simp]: "map JStr a = map JStr b \<longleftrightarrow> a = b"
  by (simp add: inj_map_eq_map inj_def)

lemma reviewed_key_iff:
  "reviewed_key d ctx = Inr k \<longleftrightarrow>
     map_of d ''case_ids'' = Some (JArr (map JStr (snd k))) \<and> map_of d ''scope'' = Some (JStr (fst k)) \<and>
     reviewable_key k"
  by (cases k) (fastforce simp: reviewed_key_def reviewable_key_def case_id_strings_iff split: option.splits)

text \<open>What a record says of the pair that it reviews.\<close>

definition reviews :: "NearPair \<Rightarrow> obj \<Rightarrow> bool" where
  "reviews p d \<longleftrightarrow>
     map_of d ''case_ids'' = Some (JArr (map JStr (near_ids p))) \<and> map_of d ''scope'' = Some (JStr (near_scope p)) \<and>
     (\<exists>v. map_of d ''jaccard_basis_points'' = Some v \<and> pyeq v (JInt (near_jaccard p))) \<and>
     (\<exists>v. map_of d ''levenshtein_basis_points'' = Some v \<and> pyeq v (JInt (near_levenshtein p))) \<and>
     map_of d ''disposition'' = Some (JStr ''distinct-reviewed'') \<and>
     (\<exists>who. map_of d ''reviewer_id'' = Some (JStr who) \<and> who \<noteq> [] \<and> \<not> has_control who) \<and>
     (\<exists>why. map_of d ''rationale'' = Some (JStr why) \<and> why \<noteq> [] \<and> \<not> has_control why)"

lemma check_field_iff [simp]: "check_field d k e m = Inr u \<longleftrightarrow> (\<exists>v. map_of d k = Some v \<and> pyeq v e)"
  by (simp add: check_field_def)

lemma check_reviewed_iff:
  "reviews p d \<longleftrightarrow> check_reviewed d p ctx = Inr () \<and>
     map_of d ''case_ids'' = Some (JArr (map JStr (near_ids p))) \<and> map_of d ''scope'' = Some (JStr (near_scope p))"
  by (auto simp: check_reviewed_def reviews_def)

lemma review_pair_iff:
  assumes keyed: "\<And>k p. map_of expected k = Some p \<Longrightarrow> near_key p = k"
  shows "review_pair expected reviewed (index, v) = Inr reviewed' \<longleftrightarrow>
    (\<exists>d p. v = JObj d \<and> set (keys d) = set review_fields \<and> map_of expected (near_key p) = Some p \<and>
       near_key p \<notin> set (keys reviewed) \<and> reviewable_key (near_key p) \<and> reviews p d \<and>
       reviewed' = reviewed @ [(near_key p, d)])" (is "?l \<longleftrightarrow> ?r")
proof
  assume ?l
  then obtain d k p where d: "v = JObj d" "set (keys d) = set review_fields"
    and k: "reviewed_key d (at_index ''near review.pairs'' index) = Inr k" "k \<notin> set (keys reviewed)" "map_of expected k = Some p"
    and c: "check_reviewed d p (at_index ''near review.pairs'' index) = Inr ()" and r: "reviewed' = dict_set k d reviewed"
    by (auto simp: review_pair_def Let_def split: option.splits)
  have key: "near_key p = k" using keyed [OF k(3)] .
  have "reviews p d"
    using k(1) c key unfolding check_reviewed_iff [where ctx = "at_index ''near review.pairs'' index"] reviewed_key_iff
    by (auto simp: near_key_def)
  moreover have "reviewable_key k" using k(1) by (simp add: reviewed_key_iff)
  ultimately show ?r using d k r key by (auto simp: dict_set_new)
next
  assume ?r
  then obtain d p where d: "v = JObj d" "set (keys d) = set review_fields" "map_of expected (near_key p) = Some p"
    "near_key p \<notin> set (keys reviewed)" "reviewable_key (near_key p)" "reviews p d"
    "reviewed' = reviewed @ [(near_key p, d)]" by blast
  have "reviewed_key d ctx = Inr (near_key p)" "check_reviewed d p ctx = Inr ()" for ctx
    using d(5,6) unfolding reviewed_key_iff check_reviewed_iff [where ctx = ctx] by (auto simp: near_key_def)
  then show ?l using d by (cases "near_key p") (simp add: review_pair_def Let_def dict_set_new)
qed

definition reviewed_as ::
  "((string \<times> string list) \<times> NearPair) list \<Rightarrow> NearPair \<Rightarrow> obj \<Rightarrow> bool" where
  "reviewed_as expected p d \<longleftrightarrow>
     map_of expected (near_key p) = Some p \<and> set (keys d) = set review_fields \<and>
     reviewable_key (near_key p) \<and> reviews p d"

text \<open>The loop accepts the records that review distinct expected pairs, in any order.\<close>

lemma review_pairs_iff:
  assumes keyed: "\<And>k p. map_of expected k = Some p \<Longrightarrow> near_key p = k"
  shows "foldE (review_pair expected) reviewed (zip [n..<n + length records] records) = Inr result \<longleftrightarrow>
    (\<exists>ds ps. records = map JObj ds \<and> list_all2 (reviewed_as expected) ps ds \<and> result = reviewed @ zip (map near_key ps) ds \<and>
       distinct (map near_key ps) \<and> set (map near_key ps) \<inter> set (keys reviewed) = {})"
proof (induction records arbitrary: reviewed n)
  case Nil
  then show ?case by auto
next
  case (Cons v records)
  have upt: "[n..<n + length (v # records)] = n # [Suc n..<Suc n + length records]"
    using upt_conv_Cons [of n "Suc n + length records"] by (simp del: upt_Suc)
  have step: "review_pair expected reviewed (n, v) = Inr r \<longleftrightarrow>
      (\<exists>d p. v = JObj d \<and> reviewed_as expected p d \<and> near_key p \<notin> set (keys reviewed) \<and>
         r = reviewed @ [(near_key p, d)])" for r
    using review_pair_iff [of expected reviewed n v r, OF keyed] unfolding reviewed_as_def by blast
  show ?case (is "?l \<longleftrightarrow> ?r")
  proof
    assume ?l
    then obtain r where r: "review_pair expected reviewed (n, v) = Inr r"
      and rest: "foldE (review_pair expected) r (zip [Suc n..<Suc n + length records] records) = Inr result"
      unfolding upt by auto
    from r obtain d p where d: "v = JObj d" "reviewed_as expected p d"
      "near_key p \<notin> set (keys reviewed)" "r = reviewed @ [(near_key p, d)]"
      unfolding step by blast
    from rest obtain ds ps where "records = map JObj ds" "list_all2 (reviewed_as expected) ps ds"
      "result = r @ zip (map near_key ps) ds" "distinct (map near_key ps)" "set (map near_key ps) \<inter> set (keys r) = {}"
      unfolding Cons.IH by blast
    then show ?r
      using d by (intro exI [of _ "d # ds"] exI [of _ "p # ps"]) (auto simp: keys_def)
  next
    assume ?r
    then obtain ds' ps' where r: "v # records = map JObj ds'" "list_all2 (reviewed_as expected) ps' ds'"
      "result = reviewed @ zip (map near_key ps') ds'" "distinct (map near_key ps')"
      "set (map near_key ps') \<inter> set (keys reviewed) = {}" by (elim exE conjE)
    obtain d ds where ds: "ds' = d # ds" "v = JObj d" "records = map JObj ds" using r(1) by (cases ds') auto
    obtain p ps where ps: "ps' = p # ps" using r(2) ds by (cases ps') auto
    have "review_pair expected reviewed (n, v) = Inr (reviewed @ [(near_key p, d)])"
      unfolding step using r ds ps by auto
    moreover have "foldE (review_pair expected) (reviewed @ [(near_key p, d)]) (zip [Suc n..<Suc n + length records] records) = Inr result"
      unfolding Cons.IH using r ds ps by (intro exI [of _ ds] exI [of _ ps]) (auto simp: keys_def)
    ultimately show ?l unfolding upt by simp
  qed
qed

definition closed_header :: "obj \<Rightarrow> string option \<Rightarrow> bool" where
  "closed_header review expected_reviewer_id \<longleftrightarrow>
     set (keys review) = set [''schema'', ''status'', ''reviewer_id'', ''algorithm'', ''pairs''] \<and>
     map_of review ''schema'' = Some (JStr NEAR_REVIEW_SCHEMA) \<and> map_of review ''status'' = Some (JStr ''closed'') \<and>
     (\<exists>r. map_of review ''reviewer_id'' = Some (JStr r) \<and> \<not> has_control r \<and> review_identifier_pattern r \<and>
        (expected_reviewer_id = None \<or> expected_reviewer_id = Some r)) \<and>
     (\<exists>a. map_of review ''algorithm'' = Some a \<and> pyeq a near_algorithm)"

lemma validate_near_review_iff:
  "validate_near_review review expected_pairs rid = Inr () \<longleftrightarrow>
     closed_header review rid \<and>
     (\<exists>ds ps. map_of review ''pairs'' = Some (JArr (map JObj ds)) \<and>
        list_all2 (reviewed_as (expected_by_key expected_pairs)) ps ds \<and> distinct (map near_key ps) \<and>
        near_key ` set ps = near_key ` set expected_pairs)"
proof -
  let ?e = "expected_by_key expected_pairs"
  have keyed: "map_of ?e k = Some p \<Longrightarrow> near_key p = k" for k p using expected_by_key_Some by blast
  have keys: "set (keys (zip (map near_key ps) ds)) = near_key ` set ps" if "list_all2 (reviewed_as ?e) ps ds" for ps ds
    using list_all2_lengthD [OF that] by (simp add: keys_def)
  have fold: "foldE (review_pair ?e) [] (zip [0..<length records] records) = Inr reviewed \<longleftrightarrow>
      (\<exists>ds ps. records = map JObj ds \<and> list_all2 (reviewed_as ?e) ps ds \<and> reviewed = zip (map near_key ps) ds \<and>
       distinct (map near_key ps))" for records reviewed
    using review_pairs_iff [of ?e "[]" 0 records reviewed, OF keyed] by simp
  have loop: "(\<exists>reviewed. foldE (review_pair ?e) [] (zip [0..<length records] records) = Inr reviewed \<and>
        set (keys reviewed) = near_key ` set expected_pairs) \<longleftrightarrow>
      (\<exists>ds ps. records = map JObj ds \<and> list_all2 (reviewed_as ?e) ps ds \<and> distinct (map near_key ps) \<and>
        near_key ` set ps = near_key ` set expected_pairs)" (is "?L \<longleftrightarrow> ?R") for records
  proof
    assume ?L
    then obtain ds ps where ds: "records = map JObj ds" "list_all2 (reviewed_as ?e) ps ds" "distinct (map near_key ps)"
      and "set (keys (zip (map near_key ps) ds)) = near_key ` set expected_pairs"
      unfolding fold by (elim exE conjE) simp
    then show ?R using keys [OF ds(2)] by (intro exI [of _ ds] exI [of _ ps]) simp
  next
    assume ?R
    then obtain ds ps where ds: "records = map JObj ds" "list_all2 (reviewed_as ?e) ps ds" "distinct (map near_key ps)"
      "near_key ` set ps = near_key ` set expected_pairs" by (elim exE conjE)
    then show ?L
      unfolding fold using keys [OF ds(2)] by (intro exI [of _ "zip (map near_key ps) ds"]) auto
  qed
  define Q where "Q ds \<longleftrightarrow> (\<exists>ps. list_all2 (reviewed_as ?e) ps ds \<and> distinct (map near_key ps) \<and>
      near_key ` set ps = near_key ` set expected_pairs)" for ds
  have loop': "(\<exists>reviewed. foldE (review_pair ?e) [] (zip [0..<length records] records) = Inr reviewed \<and>
        set (keys reviewed) = near_key ` set expected_pairs) \<longleftrightarrow> (\<exists>ds. records = map JObj ds \<and> Q ds)" for records
    unfolding loop Q_def by simp
  have field: "(\<exists>x. a = Some x \<and> (\<exists>y. x = f y \<and> P y)) \<longleftrightarrow> (\<exists>y. a = Some (f y) \<and> P y)"
    for a :: "json option" and f :: "'x \<Rightarrow> json" and P by auto
  have pairs: "(\<exists>ds ps. map_of review ''pairs'' = Some (JArr (map JObj ds)) \<and> list_all2 (reviewed_as ?e) ps ds \<and>
      distinct (map near_key ps) \<and> near_key ` set ps = near_key ` set expected_pairs) \<longleftrightarrow>
      (\<exists>ds. map_of review ''pairs'' = Some (JArr (map JObj ds)) \<and> Q ds)"
    unfolding Q_def by simp
  show ?thesis
    unfolding validate_near_review_def Let_def closed_header_def pairs
    by (simp add: expected_by_key_keys loop' field)
      (rule iffI; elim conjE exE; hypsubst?; intro conjI exI, (assumption | rule refl)+)
qed

end
