(* ===== verification/Corpus_Text.thy ===== *)
theory Corpus_Text
  imports Near_Duplicates
begin

text \<open>
  The tab-separated corpus files of \<open>build_frozen_corpus.py\<close>: UTF-8 decoding, Python's
  \<open>str.splitlines\<close>, the validation of the rows and their encoding.
\<close>

section \<open>UTF-8 decoding\<close>

text \<open>The code point of a well-formed sequence of one to four bytes.\<close>

definition utf8_point :: "string \<Rightarrow> nat" where
  "utf8_point bytes =
     (case map code bytes of
        [a] \<Rightarrow> a
      | [a, b] \<Rightarrow> (a - 192) * 64 + (b - 128)
      | [a, b, c] \<Rightarrow> (a - 224) * 4096 + (b - 128) * 64 + (c - 128)
      | [a, b, c, d] \<Rightarrow> (a - 240) * 262144 + (b - 128) * 4096 + (c - 128) * 64 + (d - 128)
      | _ \<Rightarrow> 0)"

function utf8_decode :: "string \<Rightarrow> codes option" where
  "utf8_decode s =
     (if s = [] then Some []
      else if utf8_width s = 0 then None
      else map_option (Cons (utf8_point (take (utf8_width s) s))) (utf8_decode (drop (utf8_width s) s)))"
  by auto
termination by (relation "measure length") auto

declare utf8_decode.simps [simp del]

definition scalar :: "nat \<Rightarrow> bool" where
  "scalar u \<longleftrightarrow> u < 0xD800 \<or> 0xE000 \<le> u \<and> u < 0x110000"

lemma code_char_of: "n < 256 \<Longrightarrow> code (char_of n) = n"
  by (simp add: code_def)

lemma utf8_width_2:
  fixes a b c d :: nat
  shows "194 \<le> a \<Longrightarrow> a \<le> 223 \<Longrightarrow> 128 \<le> b \<Longrightarrow> b \<le> 191 \<Longrightarrow>
    utf8_width (char_of a # char_of b # s) = 2"
  by (simp add: utf8_width_def continuation_def in_range_def code_char_of)

lemma utf8_width_3:
  fixes a b c d :: nat
  shows "224 \<le> a \<Longrightarrow> a \<le> 239 \<Longrightarrow> (if a = 224 then 160 else 128) \<le> b \<Longrightarrow>
    b \<le> (if a = 237 then 159 else 191) \<Longrightarrow> 128 \<le> c \<Longrightarrow> c \<le> 191 \<Longrightarrow>
    utf8_width (char_of a # char_of b # char_of c # s) = 3"
  by (auto simp: utf8_width_def continuation_def in_range_def code_char_of split: if_splits)

lemma utf8_width_4:
  fixes a b c d :: nat
  shows "240 \<le> a \<Longrightarrow> a \<le> 244 \<Longrightarrow> (if a = 240 then 144 else 128) \<le> b \<Longrightarrow>
    b \<le> (if a = 244 then 143 else 191) \<Longrightarrow> 128 \<le> c \<Longrightarrow> c \<le> 191 \<Longrightarrow> 128 \<le> d \<Longrightarrow> d \<le> 191 \<Longrightarrow>
    utf8_width (char_of a # char_of b # char_of c # char_of d # s) = 4"
  by (auto simp: utf8_width_def continuation_def in_range_def code_char_of split: if_splits)

lemma digits64:
  fixes u :: nat
  shows "u = u div 4096 * 4096 + u div 64 mod 64 * 64 + u mod 64"
    "u = u div 262144 * 262144 + u div 4096 mod 64 * 4096 + u div 64 mod 64 * 64 + u mod 64"
proof -
  have 1: "u = u div 64 * 64 + u mod 64" by simp
  have 2: "u div 64 = u div 4096 * 64 + u div 64 mod 64"
    using div_mult_mod_eq [of "u div 64" 64] by (simp add: div_mult2_eq [symmetric])
  have 3: "u div 4096 = u div 262144 * 64 + u div 4096 mod 64"
    using div_mult_mod_eq [of "u div 4096" 64] by (simp add: div_mult2_eq [symmetric])
  show "u = u div 4096 * 4096 + u div 64 mod 64 * 64 + u mod 64" using 1 2 by linarith
  show "u = u div 262144 * 262144 + u div 4096 mod 64 * 4096 + u div 64 mod 64 * 64 + u mod 64"
    using 1 2 3 by linarith
qed

lemma utf8_encode_width:
  assumes "scalar u"
  shows "utf8_width (utf8_encode u @ s) = length (utf8_encode u)" "utf8_point (utf8_encode u) = u"
proof -
  consider "u < 128" | "128 \<le> u" "u < 2048" | "2048 \<le> u" "u < 65536" | "65536 \<le> u" "u < 0x110000"
    using assms by (auto simp: scalar_def) linarith+
  then have "utf8_width (utf8_encode u @ s) = length (utf8_encode u) \<and> utf8_point (utf8_encode u) = u"
  proof cases
    case 1
    then show ?thesis by (simp add: utf8_encode_def utf8_width_def utf8_point_def code_char_of)
  next
    case 2
    have "2 \<le> u div 64" "u div 64 < 32" "u mod 64 < 64" using 2 by auto
    then show ?thesis
      using 2 utf8_width_2 [of "192 + u div 64" "128 + u mod 64" s]
      by (simp add: utf8_encode_def utf8_point_def code_char_of)
  next
    case 3
    define a b c where "a = u div 4096" and "b = u div 64 mod 64" and "c = u mod 64"
    have abc: "a < 16" "b < 64" "c < 64" using 3 by (auto simp: a_def b_def c_def)
    have u: "u = a * 4096 + b * 64 + c" using digits64(1) [of u] by (simp add: a_def b_def c_def)
    have "a = 0 \<Longrightarrow> 32 \<le> b" using 3 abc u by linarith
    moreover have "a = 13 \<Longrightarrow> b < 32" using 3 abc u assms by (auto simp: scalar_def)
    ultimately have "utf8_width (map char_of [224 + a, 128 + b, 128 + c] @ s) = 3"
      using abc utf8_width_3 [of "224 + a" "128 + b" "128 + c" s]
      by (cases "a = 0"; cases "a = 13") auto
    moreover have "utf8_encode u = map char_of [224 + a, 128 + b, 128 + c]"
      using 3 by (simp add: utf8_encode_def a_def b_def c_def)
    moreover have "utf8_point (map char_of [224 + a, 128 + b, 128 + c]) = u"
      using abc by (simp add: utf8_point_def code_char_of u)
    ultimately show ?thesis by simp
  next
    case 4
    define a b c d where "a = u div 262144" and "b = u div 4096 mod 64" and "c = u div 64 mod 64" and "d = u mod 64"
    have abcd: "a < 5" "b < 64" "c < 64" "d < 64" using 4 by (auto simp: a_def b_def c_def d_def)
    have u: "u = a * 262144 + b * 4096 + c * 64 + d"
      using digits64(2) [of u] by (simp add: a_def b_def c_def d_def)
    have "a = 0 \<Longrightarrow> 16 \<le> b" "a = 4 \<Longrightarrow> b < 16" using 4 abcd u by linarith+
    then have "utf8_width (map char_of [240 + a, 128 + b, 128 + c, 128 + d] @ s) = 4"
      using abcd utf8_width_4 [of "240 + a" "128 + b" "128 + c" "128 + d" s]
      by (cases "a = 0"; cases "a = 4") auto
    moreover have "utf8_encode u = map char_of [240 + a, 128 + b, 128 + c, 128 + d]"
      using 4 by (simp add: utf8_encode_def a_def b_def c_def d_def)
    moreover have "utf8_point (map char_of [240 + a, 128 + b, 128 + c, 128 + d]) = u"
      using abcd by (simp add: utf8_point_def code_char_of u)
    ultimately show ?thesis by simp
  qed
  then show "utf8_width (utf8_encode u @ s) = length (utf8_encode u)" "utf8_point (utf8_encode u) = u" by auto
qed

lemma utf8_encode_nonempty [simp]: "utf8_encode u \<noteq> []"
  by (simp add: utf8_encode_def)

lemma utf8_decode_encode:
  assumes "\<forall>u \<in> set s. scalar u" shows "utf8_decode (text_of s) = Some s"
  using assms
proof (induction s)
  case Nil
  then show ?case by (simp add: text_of_def utf8_decode.simps)
next
  case (Cons u s)
  have t: "text_of (u # s) = utf8_encode u @ text_of s" by (simp add: text_of_def)
  have "scalar u" using Cons.prems by simp
  then show ?case
    using Cons utf8_encode_width(1) [of u "text_of s"] utf8_encode_width(2) [of u]
    by (subst utf8_decode.simps) (simp add: t)
qed

section \<open>Lines\<close>

text \<open>The line boundaries of \<open>str.splitlines\<close>; a carriage return takes a following line feed along.\<close>

definition line_break :: "nat \<Rightarrow> bool" where
  "line_break c \<longleftrightarrow> c \<in> {10, 11, 12, 13, 28, 29, 30, 133, 0x2028, 0x2029}"

function splitlines :: "codes \<Rightarrow> codes list" where
  "splitlines [] = []"
| "splitlines (c # s) =
     (if line_break c then [] # splitlines (if c = 13 \<and> take 1 s = [10] then tl s else s)
      else case splitlines s of [] \<Rightarrow> [[c]] | l # ls \<Rightarrow> (c # l) # ls)"
  by pat_completeness auto
termination by (relation "measure length") auto

definition ascii :: "string \<Rightarrow> codes" where
  "ascii s = map of_char s"

section \<open>Rows\<close>

definition TSV_HEADER :: codes where
  "TSV_HEADER = ascii ''id'' @ [9] @ ascii ''reading'' @ [9] @ ascii ''expected'' @ [9] @ ascii ''category'' @ [10]"

text \<open>Category Cc of Unicode.\<close>

definition control_code :: "nat \<Rightarrow> bool" where
  "control_code c \<longleftrightarrow> c < 32 \<or> 127 \<le> c \<and> c < 160"

definition validate_text_field :: "unicode \<Rightarrow> codes \<Rightarrow> string \<Rightarrow> codes res" where
  "validate_text_field u s ctx =
     bindE (raise_if (s = []) (ValueError (ctx @ '' must be a non-empty string''))) (\<lambda>_.
     bindE (raise_if (s \<noteq> uc_nfc u s) (ValueError (ctx @ '' must be NFC-normalized''))) (\<lambda>_.
     bindE (raise_if (list_ex (\<lambda>c. c \<in> set s) [9, 13, 10])
              (ValueError (ctx @ '' must not contain TSV control characters''))) (\<lambda>_.
     bindE (raise_if (list_ex control_code s)
              (ValueError (ctx @ '' must not contain control characters''))) (\<lambda>_.
     Inr s))))"

definition parse_row :: "unicode \<Rightarrow> string \<Rightarrow> nat \<Rightarrow> codes \<Rightarrow> FrozenRow res" where
  "parse_row u context line_number line =
     (let ctx = context @ '':'' @ dec line_number in
      case split_on 9 line of
        [raw_id, raw_reading, raw_expected, raw_category] \<Rightarrow>
          bindE (validate_text_field u raw_id (dot ctx ''id'')) (\<lambda>i.
          bindE (validate_text_field u raw_reading (dot ctx ''reading'')) (\<lambda>reading.
          bindE (validate_text_field u raw_expected (dot ctx ''expected'')) (\<lambda>expected.
          bindE (validate_text_field u raw_category (dot ctx ''category'')) (\<lambda>category.
          let alternatives = split_on 124 expected in
          bindE (raise_if (list_ex (\<lambda>a. a = []) alternatives)
                   (ValueError (ctx @ ''.expected has an empty alternative''))) (\<lambda>_.
          bindE (raise_if (length alternatives \<noteq> card (set alternatives))
                   (ValueError (ctx @ ''.expected has duplicate alternatives''))) (\<lambda>_.
          bindE (raise_if (katakana_to_hiragana u reading \<noteq> reading)
                   (ValueError (ctx @ ''.reading is not normalized by ''))) (\<lambda>_.
          Inr \<lparr>fr_id = i, fr_reading = reading, fr_expected = expected, fr_category = category\<rparr>)))))))
      | _ \<Rightarrow> Inl (ValueError (ctx @ '' must contain exactly four columns'')))"

definition parse_tsv :: "unicode \<Rightarrow> string \<Rightarrow> string \<Rightarrow> FrozenRow list res" where
  "parse_tsv u data context =
     bindE (raise_if (CHR 0x0D \<in> set data) (ValueError (context @ '' must use LF line endings''))) (\<lambda>_.
     bindE (raise_if (data = [] \<or> last data \<noteq> CHR 0x0A) (ValueError (context @ '' must end with LF''))) (\<lambda>_.
     case utf8_decode data of
       None \<Rightarrow> Inl (ValueError (context @ '' is not valid UTF-8''))
     | Some s \<Rightarrow>
         let lines = splitlines s in
         bindE (raise_if (lines = [] \<or> hd lines @ [10] \<noteq> TSV_HEADER)
                  (ValueError (context @ '' must have the exact four-column TSV header''))) (\<lambda>_.
         mapiE (parse_row u context) 2 (tl lines))))"

definition row_codes :: "FrozenRow \<Rightarrow> codes" where
  "row_codes r = fr_id r @ [9] @ fr_reading r @ [9] @ fr_expected r @ [9] @ fr_category r @ [10]"

definition encode_rows :: "FrozenRow list \<Rightarrow> string" where
  "encode_rows rows = text_of (TSV_HEADER @ concat (map row_codes rows))"

section \<open>Rows that the parser returns\<close>

definition field_ok :: "unicode \<Rightarrow> codes \<Rightarrow> bool" where
  "field_ok u s \<longleftrightarrow> s \<noteq> [] \<and> uc_nfc u s = s \<and> (\<forall>c \<in> set s. \<not> control_code c)"

definition row_ok :: "unicode \<Rightarrow> FrozenRow \<Rightarrow> bool" where
  "row_ok u r \<longleftrightarrow>
     field_ok u (fr_id r) \<and> field_ok u (fr_reading r) \<and> field_ok u (fr_expected r) \<and> field_ok u (fr_category r) \<and>
     [] \<notin> set (split_on 124 (fr_expected r)) \<and> distinct (split_on 124 (fr_expected r)) \<and>
     katakana_to_hiragana u (fr_reading r) = fr_reading r"

definition row_texts :: "FrozenRow \<Rightarrow> codes list" where
  "row_texts r = [fr_id r, fr_reading r, fr_expected r, fr_category r]"

lemma validate_text_field_iff [simp]:
  "validate_text_field u s ctx = Inr t \<longleftrightarrow> t = s \<and> field_ok u s"
  by (auto simp: validate_text_field_def field_ok_def list_ex_iff control_code_def)

lemma field_ok_no_tab: "field_ok u s \<Longrightarrow> 9 \<notin> set s" "field_ok u s \<Longrightarrow> 10 \<notin> set s"
  by (auto simp: field_ok_def control_code_def)

lemma card_distinct_iff: "length xs = card (set xs) \<longleftrightarrow> distinct xs"
  by (metis card_distinct distinct_card)

lemma parse_row_iff:
  "parse_row u context n line = Inr r \<longleftrightarrow> line = join_with 9 (row_texts r) \<and> row_ok u r"
proof
  assume "parse_row u context n line = Inr r"
  then obtain i reading expected category where split: "split_on 9 line = [i, reading, expected, category]"
    and r: "r = \<lparr>fr_id = i, fr_reading = reading, fr_expected = expected, fr_category = category\<rparr>" "row_ok u r"
    unfolding parse_row_def Let_def row_ok_def
    by (auto simp: list_ex_iff card_distinct_iff split: list.splits)
  have "line = join_with 9 (split_on 9 line)" by simp
  then show "line = join_with 9 (row_texts r) \<and> row_ok u r" using split r by (simp add: row_texts_def)
next
  assume ok: "line = join_with 9 (row_texts r) \<and> row_ok u r"
  then have "split_on 9 line = row_texts r"
    using split_join [of "row_texts r" 9] field_ok_no_tab by (auto simp: row_texts_def row_ok_def)
  then show "parse_row u context n line = Inr r"
    using ok unfolding parse_row_def Let_def row_ok_def
    by (auto simp: row_texts_def list_ex_iff card_distinct_iff)
qed

section \<open>Encoding and parsing back\<close>

lemma splitlines_unterminated: "\<forall>c \<in> set l. \<not> line_break c \<Longrightarrow> splitlines (l @ 10 # s) = l # splitlines s"
  by (induction l) (auto simp: line_break_def)

lemma splitlines_lines:
  "\<forall>l \<in> set ls. \<forall>c \<in> set l. \<not> line_break c \<Longrightarrow> splitlines (concat (map (\<lambda>l. l @ [10]) ls)) = ls"
  by (induction ls) (auto simp: splitlines_unterminated)

lemma splitlines_no_break: "l \<in> set (splitlines s) \<Longrightarrow> c \<in> set l \<Longrightarrow> \<not> line_break c"
proof (induction s arbitrary: l rule: splitlines.induct)
  case (2 a s)
  show ?case
  proof (cases "line_break a")
    case True
    then show ?thesis using 2 by (auto split: if_splits)
  next
    case False
    then show ?thesis using 2 by (cases "splitlines s") (auto, blast)
  qed
qed simp

definition encodable :: "codes \<Rightarrow> bool" where
  "encodable s \<longleftrightarrow> (\<forall>c \<in> set s. scalar c \<and> \<not> line_break c)"

lemma utf8_encode_high: "scalar u \<Longrightarrow> 128 \<le> u \<Longrightarrow> c \<in> set (utf8_encode u) \<Longrightarrow> 128 \<le> code c"
  by (auto simp: utf8_encode_def code_char_of scalar_def split: if_splits)

lemma text_of_low: "\<forall>u \<in> set s. scalar u \<Longrightarrow> code c < 128 \<Longrightarrow> c \<in> set (text_of s) \<Longrightarrow> code c \<in> set s"
proof (induction s)
  case (Cons u s)
  then show ?case
    using utf8_encode_high [of u c]
    by (cases "u < 128") (auto simp: text_of_def code_char_of utf8_encode_def)
qed (simp add: text_of_def)

lemma header_codes: "butlast TSV_HEADER @ [10] = TSV_HEADER" "\<forall>c \<in> set TSV_HEADER. scalar c \<and> c \<noteq> 13"
    "\<forall>c \<in> set (butlast TSV_HEADER). \<not> line_break c"
  by (simp_all add: TSV_HEADER_def ascii_def scalar_def line_break_def)

lemma row_codes_scalar:
  assumes "\<forall>s \<in> set (row_texts r). encodable s" "c \<in> set (row_codes r)" shows "scalar c" "c \<noteq> 13"
proof -
  have "scalar 9" "scalar 10" by (simp_all add: scalar_def)
  moreover have "c \<in> \<Union> (set ` set (row_texts r)) \<or> c = 9 \<or> c = 10"
    using assms(2) by (auto simp: row_codes_def row_texts_def)
  ultimately show "scalar c" "c \<noteq> 13"
    using assms(1) by (auto simp: encodable_def line_break_def)
qed

lemma row_lines:
  "TSV_HEADER @ concat (map row_codes rows) =
     concat (map (\<lambda>l. l @ [10]) (butlast TSV_HEADER # map (\<lambda>r. join_with 9 (row_texts r)) rows))"
proof -
  have row: "row_codes = (\<lambda>r. join_with 9 (row_texts r) @ [10])"
    by (simp add: fun_eq_iff row_codes_def row_texts_def)
  show ?thesis
    unfolding row by (simp only: list.map concat.simps header_codes(1) map_map comp_def)
qed

lemma encode_rows_scalar:
  "\<forall>r \<in> set rows. \<forall>s \<in> set (row_texts r). encodable s \<Longrightarrow>
     \<forall>c \<in> set (TSV_HEADER @ concat (map row_codes rows)). scalar c \<and> c \<noteq> 13"
  using header_codes(2) by (auto dest: row_codes_scalar)

lemma decode_encode_rows:
  "\<forall>r \<in> set rows. \<forall>s \<in> set (row_texts r). encodable s \<Longrightarrow>
     utf8_decode (encode_rows rows) = Some (TSV_HEADER @ concat (map row_codes rows))"
  unfolding encode_rows_def by (intro utf8_decode_encode) (use encode_rows_scalar in blast)

lemma parse_encode_rows:
  assumes ok: "\<forall>r \<in> set rows. row_ok u r" and enc: "\<forall>r \<in> set rows. \<forall>s \<in> set (row_texts r). encodable s"
  shows "parse_tsv u (encode_rows rows) context = Inr rows"
proof -
  let ?lines = "butlast TSV_HEADER # map (\<lambda>r. join_with 9 (row_texts r)) rows"
  define s where "s = TSV_HEADER @ concat (map row_codes rows)"
  have s: "s = concat (map (\<lambda>l. l @ [10]) ?lines)"
    unfolding s_def by (rule row_lines)
  have scalars: "\<forall>c \<in> set s. scalar c \<and> c \<noteq> 13"
    unfolding s_def by (rule encode_rows_scalar [OF enc])
  have dec: "utf8_decode (encode_rows rows) = Some s"
    unfolding s_def by (rule decode_encode_rows [OF enc])
  have no_cr: "CHR 0x0D \<notin> set (encode_rows rows)"
    using text_of_low [of s "CHR 0x0D"] scalars unfolding encode_rows_def s_def [symmetric]
    by (auto simp: code_def)
  have "\<exists>t. s = t @ [10]"
  proof (cases rows rule: rev_cases)
    case Nil
    then show ?thesis unfolding s_def using header_codes(1) by (metis append_Nil2 concat.simps(1) list.simps(8))
  qed (simp add: s_def row_codes_def)
  then have last: "encode_rows rows \<noteq> [] \<and> last (encode_rows rows) = CHR 0x0A"
    unfolding encode_rows_def s_def [symmetric] text_of_def
    using char_of_char [of "CHR 0x0A", where 'a = nat] by (auto simp: utf8_encode_def)
  have lines: "splitlines s = ?lines"
    unfolding s
  proof (rule splitlines_lines, intro ballI)
    fix l c assume "l \<in> set ?lines" "c \<in> set l"
    then show "\<not> line_break c"
      using header_codes(3) enc by (fastforce simp: row_texts_def encodable_def line_break_def)
  qed
  have "mapiE (parse_row u context) 2 (map (\<lambda>r. join_with 9 (row_texts r)) rows) = Inr rows"
    using ok by (simp add: mapiE_Inr_iff parse_row_iff)
  then show ?thesis
    unfolding parse_tsv_def using no_cr last dec lines header_codes(1) by simp
qed

lemma parsed_rows_ok:
  assumes "parse_tsv u data context = Inr rows"
  shows "\<forall>r \<in> set rows. row_ok u r"
  using assms unfolding parse_tsv_def
  by (auto simp: Let_def mapiE_Inr_iff parse_row_iff in_set_conv_nth split: option.splits)

lemma utf8_point_scalar:
  assumes "utf8_width s \<noteq> 0" shows "scalar (utf8_point (take (utf8_width s) s))"
proof -
  from assms obtain a r where s: "s = a # r" by (cases s) (auto simp: utf8_width_def)
  show ?thesis
  proof (cases "code a < 128")
    case True
    then show ?thesis by (simp add: s utf8_width_def utf8_point_def scalar_def)
  next
    case False
    with assms obtain rs where rs: "continuation a = Some rs" "follows rs r"
      by (auto simp: s utf8_width_def split: option.splits if_splits)
    then have w: "utf8_width s = Suc (length rs)" using False by (simp add: s utf8_width_def)
    consider "194 \<le> code a" "code a \<le> 223" "rs = [(128, 191)]"
      | "224 \<le> code a" "code a \<le> 239"
        "rs = [(if code a = 224 then 160 else 128, if code a = 237 then 159 else 191), (128, 191)]"
      | "240 \<le> code a" "code a \<le> 244"
        "rs = [(if code a = 240 then 144 else 128, if code a = 244 then 143 else 191), (128, 191), (128, 191)]"
      using rs(1) by (auto simp: continuation_def in_range_def split: if_splits)
    then show ?thesis
    proof cases
      case 1
      then obtain b r' where r: "r = b # r'" "128 \<le> code b" "code b \<le> 191"
        using rs(2) by (cases r) (auto simp: in_range_def)
      have t: "take (utf8_width s) s = [a, b]" unfolding w using 1(3) by (simp add: s r(1))
      have "utf8_point [a, b] < 55296" using 1 r by (simp add: utf8_point_def)
      then show ?thesis unfolding t by (simp add: scalar_def)
    next
      case 2
      then obtain b c r' where r: "r = b # c # r'" "128 \<le> code c" "code c \<le> 191" "128 \<le> code b" "code b \<le> 191"
        "code a = 237 \<Longrightarrow> code b \<le> 159"
        using rs(2) by (cases r; cases "tl r") (auto simp: in_range_def split: if_splits)
      define x y z where "x = code a - 224" and "y = code b - 128" and "z = code c - 128"
      have "x = 13 \<Longrightarrow> code a = 237" using 2 by (simp add: x_def)
      then have xyz: "x < 16" "y < 64" "z < 64" "x = 13 \<Longrightarrow> y < 32"
        using 2(1,2) r(2-6) by (fastforce simp: x_def y_def z_def)+
      have "utf8_point (take (utf8_width s) s) = x * 4096 + y * 64 + z"
      proof -
        have "take (utf8_width s) s = [a, b, c]" unfolding w using 2(3) by (simp add: s r(1))
        then show ?thesis by (simp add: utf8_point_def x_def y_def z_def)
      qed
      moreover have "x * 4096 + y * 64 + z < 55296 \<or> 57344 \<le> x * 4096 + y * 64 + z \<and> x * 4096 + y * 64 + z < 65536"
        using xyz by (cases "x < 13"; cases "x = 13") linarith+
      ultimately show ?thesis by (auto simp: scalar_def)
    next
      case 3
      then obtain b c d r' where r: "r = b # c # d # r'" "128 \<le> code c" "code c \<le> 191" "128 \<le> code d" "code d \<le> 191"
        "128 \<le> code b" "code b \<le> 191" "code a = 240 \<Longrightarrow> 144 \<le> code b" "code a = 244 \<Longrightarrow> code b \<le> 143"
        using rs(2) by (cases r; cases "tl r"; cases "tl (tl r)") (auto simp: in_range_def split: if_splits)
      define x y z v where "x = code a - 240" and "y = code b - 128" and "z = code c - 128" and "v = code d - 128"
      have "x = 0 \<Longrightarrow> code a = 240" "x = 4 \<Longrightarrow> code a = 244" using 3 by (simp_all add: x_def)
      then have xyz: "x < 5" "y < 64" "z < 64" "v < 64" "x = 0 \<Longrightarrow> 16 \<le> y" "x = 4 \<Longrightarrow> y < 16"
        using 3(1,2) r(2-9) by (fastforce simp: x_def y_def z_def v_def)+
      have "utf8_point (take (utf8_width s) s) = x * 262144 + y * 4096 + z * 64 + v"
      proof -
        have "take (utf8_width s) s = [a, b, c, d]" unfolding w using 3(3) by (simp add: s r(1))
        then show ?thesis by (simp add: utf8_point_def x_def y_def z_def v_def)
      qed
      moreover have "65536 \<le> x * 262144 + y * 4096 + z * 64 + v \<and> x * 262144 + y * 4096 + z * 64 + v < 1114112"
        using xyz by (cases "x = 0"; cases "x = 4") linarith+
      ultimately show ?thesis by (simp add: scalar_def)
    qed
  qed
qed

lemma utf8_decode_scalar: "utf8_decode s = Some cs \<Longrightarrow> c \<in> set cs \<Longrightarrow> scalar c"
proof (induction s arbitrary: cs rule: utf8_decode.induct)
  case (1 s)
  then show ?case
    using utf8_point_scalar [of s]
    by (subst (asm) (2) utf8_decode.simps) (auto split: if_splits)
qed

lemma splitlines_subset: "l \<in> set (splitlines s) \<Longrightarrow> c \<in> set l \<Longrightarrow> c \<in> set s"
proof (induction s arbitrary: l rule: splitlines.induct)
  case (2 a s)
  show ?case
  proof (cases "line_break a")
    case True
    then show ?thesis using 2 by (cases s) (auto split: if_splits)
  next
    case False
    then show ?thesis using 2 by (cases "splitlines s") (auto, blast)
  qed
qed simp

lemma row_texts_subset: "s \<in> set (row_texts r) \<Longrightarrow> c \<in> set s \<Longrightarrow> c \<in> set (join_with 9 (row_texts r))"
  by (auto simp: row_texts_def)

lemma parsed_rows_encodable:
  assumes "parse_tsv u data context = Inr rows"
  shows "\<forall>r \<in> set rows. row_ok u r \<and> (\<forall>s \<in> set (row_texts r). encodable s)"
proof
  fix r assume r: "r \<in> set rows"
  from assms obtain s where s: "utf8_decode data = Some s" "splitlines s \<noteq> []"
    and rows: "mapiE (parse_row u context) 2 (tl (splitlines s)) = Inr rows"
    unfolding parse_tsv_def by (auto simp: Let_def split: option.splits)
  from rows r obtain line where line: "line \<in> set (tl (splitlines s))" "line = join_with 9 (row_texts r)" "row_ok u r"
    by (auto simp: mapiE_Inr_iff parse_row_iff in_set_conv_nth)
  then have "line \<in> set (splitlines s)" by (meson list.set_sel(2) s(2))
  then have "scalar c \<and> \<not> line_break c" if "c \<in> set line" for c
    using that splitlines_no_break splitlines_subset utf8_decode_scalar [OF s(1)] by blast
  then show "row_ok u r \<and> (\<forall>t \<in> set (row_texts r). encodable t)"
    using line(2,3) row_texts_subset unfolding encodable_def by blast
qed

text \<open>What was parsed is parsed again from its encoding.\<close>

lemma parse_again: "parse_tsv u data context = Inr rows \<Longrightarrow> parse_tsv u (encode_rows rows) context' = Inr rows"
  using parsed_rows_encodable parse_encode_rows by metis

end
