(* ===== verification/Corpus_Pilot.thy ===== *)
theory Corpus_Pilot
  imports Corpus_Text Sha256
begin

text \<open>
  \<open>build_frozen_corpus.py\<close>: reading of files, the contracts of the three components of the pilot
  corpus and the assembly of its aggregate from a manifest.
\<close>

section \<open>Files\<close>

text \<open>
  What the operating system shows during one read: \<open>fstat\<close> after opening, the results of
  \<open>os.read\<close> up to the empty one, \<open>fstat\<close> at the end, and \<open>os.stat\<close> of the path without following
  links, which fails when the path is gone.  A failed \<open>open\<close> is \<open>None\<close>.
\<close>

record PathStat =
  ps_regular :: bool
  ps_dev :: nat
  ps_ino :: nat
  ps_size :: nat
  ps_mode :: nat
  ps_nlink :: nat
  ps_mtime_ns :: int
  ps_ctime_ns :: int

record FileRead =
  fstat_before :: PathStat
  read_results :: "string list"
  fstat_after :: PathStat
  path_stat :: "PathStat option"

type_synonym filesystem = "string list \<Rightarrow> FileRead option"

fun chunks_before_empty :: "string list \<Rightarrow> string list" where
  "chunks_before_empty [] = []"
| "chunks_before_empty (chunk # later) = (if chunk = [] then [] else chunk # chunks_before_empty later)"

definition read_pilot_file :: "FileRead option \<Rightarrow> string \<Rightarrow> string res" where
  "read_pilot_file opened ctx =
     (case opened of
        None \<Rightarrow> Inl (ValueError (ctx @ '' must be a regular non-symlink file''))
      | Some f \<Rightarrow>
          bindE (raise_if (\<not> ps_regular (fstat_before f))
                   (ValueError (ctx @ '' must be a regular non-symlink file''))) (\<lambda>_.
          case path_stat f of
            None \<Rightarrow> Inl OSError
          | Some p \<Rightarrow>
              bindE (raise_if (ps_dev p \<noteq> ps_dev (fstat_before f) \<or> ps_ino p \<noteq> ps_ino (fstat_before f)
                               \<or> \<not> ps_regular p)
                       (ValueError (ctx @ '' changed during the exact-byte read''))) (\<lambda>_.
              Inr (concat (chunks_before_empty (read_results f))))))"

definition load_frozen_json :: "string \<Rightarrow> string \<Rightarrow> json res" where
  "load_frozen_json data context =
     bindE (raise_if (map code (take 3 data) = [239, 187, 191])
              (ValueError (context @ '' must not contain a UTF-8 BOM''))) (\<lambda>_.
     if \<not> utf8_ok data then Inl (ValueError (context @ '' is not valid UTF-8''))
     else case parse_document data of
       POk v _ \<Rightarrow> Inr v
     | PDup \<Rightarrow> Inl (ValueError ''duplicate JSON key'')
     | _ \<Rightarrow> Inl (ValueError (context @ '' is invalid JSON: '')))"

definition digest_text :: "json \<Rightarrow> string \<Rightarrow> string res" where
  "digest_text v ctx =
     bindE (as_string v ctx) (\<lambda>s.
     bindE (raise_if (\<not> sha256_pattern s) (ValueError (ctx @ '' must be sha256:<64 lowercase hex>''))) (\<lambda>_.
     Inr s))"

definition positive_integer :: "json \<Rightarrow> string \<Rightarrow> int res" where
  "positive_integer v ctx =
     (case v of
        JInt i \<Rightarrow> (if i \<le> 0 then Inl (ValueError (ctx @ '' must be a positive integer'')) else Inr i)
      | _ \<Rightarrow> Inl (ValueError (ctx @ '' must be a positive integer'')))"

section \<open>Contracts\<close>

record PilotContract =
  pc_id :: string
  pc_path :: string
  pc_cases :: int
  pc_prefix :: string
  pc_categories :: "(string \<times> int) list"
  pc_provenance :: obj

definition PILOT_CONTRACTS :: "PilotContract list" where
  "PILOT_CONTRACTS =
     [\<lparr>pc_id = ''ajimee-unconditional'', pc_path = ''external-ajimee-unconditional.tsv'', pc_cases = 100,
       pc_prefix = ''ajimee-jwtd-v2-'', pc_categories = [(''ajimee-unconditional'', 100)],
       pc_provenance =
         [(''kind'', JStr ''external''), (''repository'', JStr ''https://github.com/azooKey/AJIMEE-Bench''),
          (''revision'', JStr ''401666cd56d1a570c2021798b64b6da4396bfd45''),
          (''raw_path'', JStr ''JWTD_v2/v1/evaluation_items.json''),
          (''raw_sha256'', JStr ''sha256:e9eb668fd6aa14b1e26436f429b5550108af0a1dfd443b8cea0bcb3ab3028fca''),
          (''license'', JStr ''CC-BY-SA-3.0''), (''transform'', JStr ''ajimee-unconditional-to-tsv.v1'')]\<rparr>,
      \<lparr>pc_id = ''product-curated'', pc_path = ''product-curated.tsv'', pc_cases = 140,
       pc_prefix = ''product-'',
       pc_categories = [(''technical-mixed'', 32), (''proper-noun'', 24), (''colloquial'', 24),
         (''homophone-context'', 20), (''long-structural'', 20), (''grimodex-regression'', 20)],
       pc_provenance =
         [(''kind'', JStr ''project''), (''license'', JStr ''MIT''), (''source'', JStr ''grimodex-curated-v1'')]\<rparr>,
      \<lparr>pc_id = ''protected'', pc_path = ''protected.tsv'', pc_cases = 16,
       pc_prefix = ''protected-'', pc_categories = [(''protected'', 16)],
       pc_provenance =
         [(''kind'', JStr ''project''), (''license'', JStr ''MIT''), (''source'', JStr ''grimodex-protected-v1'')]\<rparr>]"

definition PILOT_CATEGORIES :: "(string \<times> int) list" where
  "PILOT_CATEGORIES = concat (map pc_categories PILOT_CONTRACTS)"

definition FORBIDDEN_COMPONENT_TOKENS :: "string list" where
  "FORBIDDEN_COMPONENT_TOKENS = [''contextual'', ''sentinel'', ''stress'', ''microsoft'', ''zenz'']"

text \<open>\<open>token in s\<close> for strings.\<close>

fun occurs_in :: "string \<Rightarrow> string \<Rightarrow> bool" where
  "occurs_in token s = (take (length token) s = token \<or> (case s of [] \<Rightarrow> False | _ # r \<Rightarrow> occurs_in token r))"

text \<open>\<open>str.lower\<close> and \<open>str.casefold\<close> on ASCII text.\<close>

definition lower_ascii :: "string \<Rightarrow> string" where
  "lower_ascii s = map (\<lambda>c. if 65 \<le> code c \<and> code c \<le> 90 then char_of (code c + 32) else c) s"

definition counts_json :: "(string \<times> int) list \<Rightarrow> json" where
  "counts_json counts = JObj (map (\<lambda>(k, n). (k, JInt n)) counts)"

text \<open>\<open>Counter(row["category"] for row in rows)\<close>\<close>

definition count_categories :: "FrozenRow list \<Rightarrow> (string \<times> int) list" where
  "count_categories rows =
     foldl (\<lambda>d r. let c = text_of (fr_category r)
            in dict_set c ((case map_of d c of None \<Rightarrow> 0 | Some n \<Rightarrow> n) + 1) d) [] rows"

section \<open>One component\<close>

definition check_pilot_row ::
  "PilotContract \<Rightarrow> string \<Rightarrow> codes list \<Rightarrow> FrozenRow \<Rightarrow> codes list res" where
  "check_pilot_row expected ctx seen_ids r =
     bindE (raise_if (take (length (pc_prefix expected)) (text_of (fr_id r)) \<noteq> pc_prefix expected)
              (ValueError (ctx @ '' case has the wrong ID prefix''))) (\<lambda>_.
     bindE (raise_if (fr_id r \<in> set seen_ids) (ValueError ''aggregate has duplicate case ID '')) (\<lambda>_.
     Inr (fr_id r # seen_ids)))"

definition validate_pilot_component ::
  "unicode \<Rightarrow> filesystem \<Rightarrow> string list \<Rightarrow> codes list \<Rightarrow> json \<times> PilotContract \<Rightarrow>
     (FrozenRow list \<times> codes list) res" where
  "validate_pilot_component u files directory seen_ids = (\<lambda>(actual, expected).
     let ctx = ''component '' @ pc_id expected in
     bindE (as_object actual ctx) (\<lambda>d.
     bindE (exact_fields d [''id'', ''path'', ''sha256'', ''cases'', ''id_prefix'', ''categories'', ''provenance''] ctx) (\<lambda>_.
     bindE (check_field d ''id'' (JStr (pc_id expected)) (ctx @ ''.id does not match the v1 contract'')) (\<lambda>_.
     bindE (check_field d ''path'' (JStr (pc_path expected)) (ctx @ ''.path does not match the v1 contract'')) (\<lambda>_.
     bindE (check_field d ''cases'' (JInt (pc_cases expected)) (ctx @ ''.cases does not match the v1 contract'')) (\<lambda>_.
     bindE (check_field d ''id_prefix'' (JStr (pc_prefix expected)) (ctx @ ''.id_prefix does not match the v1 contract'')) (\<lambda>_.
     bindE (raise_if (list_ex (\<lambda>token. occurs_in token (lower_ascii (pc_id expected))) FORBIDDEN_COMPONENT_TOKENS)
              (ValueError (ctx @ '' is an excluded auxiliary suite''))) (\<lambda>_.
     bindE (item digest_text d ''sha256'' ctx) (\<lambda>digest.
     bindE (item as_object d ''categories'' ctx) (\<lambda>categories.
     bindE (raise_if (\<not> pyeq (JObj categories) (counts_json (pc_categories expected)))
              (ValueError (ctx @ ''.categories does not match the v1 contract''))) (\<lambda>_.
     bindE (item as_object d ''provenance'' ctx) (\<lambda>provenance.
     bindE (exact_fields provenance (keys (pc_provenance expected)) (ctx @ ''.provenance'')) (\<lambda>_.
     bindE (raise_if (\<not> pyeq (JObj provenance) (JObj (pc_provenance expected)))
              (ValueError (ctx @ ''.provenance does not match the frozen source contract''))) (\<lambda>_.
     bindE (read_pilot_file (files (directory @ [pc_path expected])) ctx) (\<lambda>data.
     bindE (raise_if (sha256_bytes data \<noteq> digest) (ValueError (ctx @ '' exact-byte SHA-256 mismatch''))) (\<lambda>_.
     bindE (parse_tsv u data ctx) (\<lambda>rows.
     bindE (raise_if (int (length rows) \<noteq> pc_cases expected) (ValueError (ctx @ '' case count mismatch''))) (\<lambda>_.
     bindE (raise_if (set (count_categories rows) \<noteq> set (pc_categories expected))
              (ValueError (ctx @ '' category counts mismatch''))) (\<lambda>_.
     bindE (foldE (check_pilot_row expected ctx) seen_ids rows) (\<lambda>seen.
     Inr (rows, seen)))))))))))))))))))))"

section \<open>The aggregate\<close>

definition pilot_normalization :: json where
  "pilot_normalization = JObj
     [(''unicode'', JStr ''NFC''), (''line_endings'', JStr ''LF''),
      (''reading_transform'', JStr ''katakana-to-hiragana.v1'')]"

text \<open>The loop over the components; the ids seen so far are shared by all of them.\<close>

definition pilot_rows ::
  "unicode \<Rightarrow> filesystem \<Rightarrow> string list \<Rightarrow> json list \<Rightarrow> (FrozenRow list \<times> codes list) res" where
  "pilot_rows u files directory components =
     foldE (\<lambda>(all_rows, seen_ids) component.
        bindE (validate_pilot_component u files directory seen_ids component) (\<lambda>(rows, seen).
        Inr (all_rows @ rows, seen))) ([], []) (zip components PILOT_CONTRACTS)"

definition build_pilot_aggregate :: "unicode \<Rightarrow> filesystem \<Rightarrow> string list \<Rightarrow> string res" where
  "build_pilot_aggregate u files manifest_path =
     (let ctx = join_with (CHR ''/'') manifest_path in
      bindE (read_pilot_file (files manifest_path) ''corpus manifest'') (\<lambda>manifest_data.
      bindE (load_frozen_json manifest_data ctx) (\<lambda>loaded.
      bindE (as_object loaded ctx) (\<lambda>manifest.
      bindE (exact_fields manifest [''schema'', ''normalization'', ''components'', ''aggregate''] ctx) (\<lambda>_.
      bindE (check_field manifest ''schema'' (JStr ''hazkey.frozen-conversion-corpus-manifest.v1'')
               (ctx @ ''.schema must be '')) (\<lambda>_.
      bindE (item as_object manifest ''normalization'' ctx) (\<lambda>normalization.
      bindE (raise_if (\<not> pyeq (JObj normalization) pilot_normalization)
               (ValueError (ctx @ ''.normalization does not match the v1 contract''))) (\<lambda>_.
      bindE (item as_array manifest ''components'' ctx) (\<lambda>components.
      bindE (raise_if (length components \<noteq> length PILOT_CONTRACTS)
               (ValueError (ctx @ ''.components must contain exactly three entries''))) (\<lambda>_.
      bindE (pilot_rows u files (butlast manifest_path) components) (\<lambda>(all_rows, _).
      let aggregate_bytes = encode_rows all_rows in
      bindE (item as_object manifest ''aggregate'' ctx) (\<lambda>aggregate.
      bindE (exact_fields aggregate [''cases'', ''sha256'', ''categories''] (ctx @ ''.aggregate'')) (\<lambda>_.
      bindE (item positive_integer aggregate ''cases'' (ctx @ ''.aggregate'')) (\<lambda>cases_n.
      bindE (raise_if (cases_n \<noteq> 256) (ValueError ''aggregate must contain exactly 256 cases'')) (\<lambda>_.
      bindE (item as_object aggregate ''categories'' (ctx @ ''.aggregate'')) (\<lambda>categories.
      bindE (raise_if (\<not> pyeq (JObj categories) (counts_json PILOT_CATEGORIES))
               (ValueError ''aggregate category counts do not match the v1 contract'')) (\<lambda>_.
      bindE (raise_if (set (count_categories all_rows) \<noteq> set PILOT_CATEGORIES)
               (ValueError ''generated aggregate category counts do not match the manifest'')) (\<lambda>_.
      bindE (item digest_text aggregate ''sha256'' (ctx @ ''.aggregate'')) (\<lambda>expected_sha256.
      bindE (raise_if (sha256_bytes aggregate_bytes \<noteq> expected_sha256)
               (ValueError ''generated aggregate exact-byte SHA-256 mismatch'')) (\<lambda>_.
      Inr aggregate_bytes))))))))))))))))))))"

section \<open>What an accepted pilot corpus is\<close>

lemma digest_text_iff [simp]: "digest_text v ctx = Inr s \<longleftrightarrow> v = JStr s \<and> sha256_pattern s"
  by (auto simp: digest_text_def sha256_pattern_def)

lemma positive_integer_iff [simp]: "positive_integer v ctx = Inr i \<longleftrightarrow> v = JInt i \<and> 0 < i"
  by (auto simp: positive_integer_def split: json.splits)

lemma check_pilot_rows:
  "foldE (check_pilot_row e ctx) seen rows = Inr seen' \<longleftrightarrow>
     seen' = rev (map fr_id rows) @ seen \<and> distinct (map fr_id rows) \<and>
     set (map fr_id rows) \<inter> set seen = {} \<and>
     (\<forall>r \<in> set rows. take (length (pc_prefix e)) (text_of (fr_id r)) = pc_prefix e)"
  by (induction rows arbitrary: seen) (auto simp: check_pilot_row_def)

definition rows_of_file :: "unicode \<Rightarrow> filesystem \<Rightarrow> string list \<Rightarrow> string \<Rightarrow> FrozenRow list \<Rightarrow> bool" where
  "rows_of_file u files path digest rows \<longleftrightarrow>
     (\<exists>data ctx. read_pilot_file (files path) ctx = Inr data \<and> sha256_bytes data = digest \<and>
        parse_tsv u data ctx = Inr rows)"

definition component_rows_ok :: "PilotContract \<Rightarrow> FrozenRow list \<Rightarrow> bool" where
  "component_rows_ok e rows \<longleftrightarrow>
     int (length rows) = pc_cases e \<and> set (count_categories rows) = set (pc_categories e) \<and>
     (\<forall>r \<in> set rows. take (length (pc_prefix e)) (text_of (fr_id r)) = pc_prefix e)"

lemma validate_pilot_component_sound:
  assumes "validate_pilot_component u files directory seen_ids (actual, e) = Inr (rows, seen)"
  shows "component_rows_ok e rows" "seen = rev (map fr_id rows) @ seen_ids" "distinct (map fr_id rows)"
    "set (map fr_id rows) \<inter> set seen_ids = {}"
    "\<exists>d digest. actual = JObj d \<and> map_of d ''sha256'' = Some (JStr digest) \<and>
       rows_of_file u files (directory @ [pc_path e]) digest rows"
  using assms unfolding validate_pilot_component_def Let_def rows_of_file_def component_rows_ok_def
  by (auto simp: check_pilot_rows)

lemma rows_of_file_ok: "rows_of_file u files path digest rows \<Longrightarrow> r \<in> set rows \<Longrightarrow> row_ok u r \<and> (\<forall>s \<in> set (row_texts r). encodable s)"
  unfolding rows_of_file_def using parsed_rows_encodable by blast

text \<open>The parts of the aggregate, one per component, with the file each was read from.\<close>

definition pilot_part :: "unicode \<Rightarrow> filesystem \<Rightarrow> string list \<Rightarrow> json \<times> PilotContract \<Rightarrow> FrozenRow list \<Rightarrow> bool" where
  "pilot_part u files directory = (\<lambda>(actual, e) rows.
     component_rows_ok e rows \<and>
     (\<exists>d digest. actual = JObj d \<and> map_of d ''sha256'' = Some (JStr digest) \<and>
        rows_of_file u files (directory @ [pc_path e]) digest rows))"

lemma pilot_rows_sound:
  assumes "foldE (\<lambda>(all_rows, seen_ids) component.
        bindE (validate_pilot_component u files directory seen_ids component) (\<lambda>(rows, seen).
        Inr (all_rows @ rows, seen))) (all, map fr_id (rev all)) components = Inr (result, seen)"
    and "distinct (map fr_id all)"
  shows "\<exists>parts. list_all2 (pilot_part u files directory) components parts \<and> result = all @ concat parts \<and>
    distinct (map fr_id result)"
  using assms
proof (induction components arbitrary: all)
  case (Cons c cs)
  obtain actual e where c: "c = (actual, e)" by fastforce
  from Cons.prems(1) obtain rows seen' where v: "validate_pilot_component u files directory (map fr_id (rev all)) (actual, e) = Inr (rows, seen')"
    and rest: "foldE (\<lambda>(all_rows, seen_ids) component.
        bindE (validate_pilot_component u files directory seen_ids component) (\<lambda>(rows, seen).
        Inr (all_rows @ rows, seen))) (all @ rows, seen') cs = Inr (result, seen)"
    by (auto simp: c)
  note sound = validate_pilot_component_sound [OF v]
  have seen': "seen' = map fr_id (rev (all @ rows))" using sound(2) by (simp add: rev_map)
  have "distinct (map fr_id (all @ rows))" using sound(3,4) Cons.prems(2) by auto
  from Cons.IH [OF rest [unfolded seen'] this] obtain parts where
    "list_all2 (pilot_part u files directory) cs parts" "result = (all @ rows) @ concat parts" "distinct (map fr_id result)"
    by blast
  then show ?case
    using sound(1,5) by (intro exI [of _ "rows # parts"]) (auto simp: c pilot_part_def)
qed auto

lemma list_all2_contracts:
  assumes "list_all2 (pilot_part u files directory) (zip components PILOT_CONTRACTS) parts"
    "length components = length PILOT_CONTRACTS"
  shows "list_all2 component_rows_ok PILOT_CONTRACTS parts"
  using assms by (auto simp: list_all2_conv_all_nth pilot_part_def)

lemma pilot_part_rows_ok:
  assumes "list_all2 (pilot_part u files directory) components parts" "r \<in> set (concat parts)"
  shows "row_ok u r \<and> (\<forall>s \<in> set (row_texts r). encodable s)"
  using assms
proof (induction components parts rule: list_all2_induct)
  case (Cons c components rows parts)
  then show ?case
    using rows_of_file_ok [of u files] by (cases c) (auto simp: pilot_part_def)
qed simp

lemma contract_rows_length:
  assumes "list_all2 component_rows_ok PILOT_CONTRACTS parts" shows "length (concat parts) = 256"
proof -
  have "list_all2 component_rows_ok es ps \<Longrightarrow> int (length (concat ps)) = sum_list (map pc_cases es)" for es ps
    by (induction rule: list_all2_induct) (auto simp: component_rows_ok_def)
  from this [OF assms] show ?thesis by (simp add: PILOT_CONTRACTS_def)
qed

lemma build_pilot_aggregate_sound:
  assumes "build_pilot_aggregate u files path = Inr bytes"
  shows "\<exists>parts. list_all2 component_rows_ok PILOT_CONTRACTS parts \<and> distinct (map fr_id (concat parts)) \<and>
    length (concat parts) = 256 \<and> bytes = encode_rows (concat parts) \<and>
    (\<forall>context. parse_tsv u bytes context = Inr (concat parts)) \<and>
    (\<exists>data manifest aggregate. read_pilot_file (files path) ''corpus manifest'' = Inr data \<and>
       load_frozen_json data (join_with (CHR ''/'') path) = Inr (JObj manifest) \<and>
       map_of manifest ''aggregate'' = Some (JObj aggregate) \<and>
       map_of aggregate ''sha256'' = Some (JStr (sha256_bytes bytes)))"
proof -
  from assms obtain data manifest components all_rows seen aggregate digest where
    data: "read_pilot_file (files path) ''corpus manifest'' = Inr data"
    and manifest: "load_frozen_json data (join_with (CHR ''/'') path) = Inr (JObj manifest)"
    and components: "length components = length PILOT_CONTRACTS"
    and rows: "pilot_rows u files (butlast path) components = Inr (all_rows, seen)"
    and aggregate: "map_of manifest ''aggregate'' = Some (JObj aggregate)"
      "map_of aggregate ''sha256'' = Some (JStr digest)" "sha256_bytes (encode_rows all_rows) = digest"
    and bytes: "bytes = encode_rows all_rows"
    unfolding build_pilot_aggregate_def Let_def by (auto simp: split_def)
  obtain parts where parts: "list_all2 (pilot_part u files (butlast path)) (zip components PILOT_CONTRACTS) parts"
    "all_rows = concat parts" "distinct (map fr_id all_rows)"
    using pilot_rows_sound [of u files "butlast path" "[]" "zip components PILOT_CONTRACTS" all_rows seen] rows
    unfolding pilot_rows_def by auto
  have "parse_tsv u bytes ctx = Inr (concat parts)" for ctx
    unfolding bytes parts(2) using pilot_part_rows_ok [OF parts(1)] by (intro parse_encode_rows) blast+
  then show ?thesis
    using data manifest aggregate bytes parts contract_rows_length list_all2_contracts [OF parts(1) components] by blast
qed

end
