(* ===== verification/Corpus_Formal.thy ===== *)
theory Corpus_Formal
  imports Corpus_Pilot
begin

text \<open>
  \<open>build_frozen_corpus_v2.py\<close>: the policy of the formal corpus, the review approvals, the
  provenance of a case and the assembly of the aggregate of seven components.
\<close>

section \<open>Files and texts\<close>

text \<open>The v2 reader compares the whole identity of the file, before, after and by its path.\<close>

definition stat_identity :: "PathStat \<Rightarrow> nat \<times> nat \<times> nat \<times> nat \<times> nat \<times> int \<times> int" where
  "stat_identity s = (ps_dev s, ps_ino s, ps_size s, ps_mode s, ps_nlink s, ps_mtime_ns s, ps_ctime_ns s)"

definition read_formal_file :: "FileRead option \<Rightarrow> string \<Rightarrow> string res" where
  "read_formal_file opened ctx =
     (case opened of
        None \<Rightarrow> Inl (ValueError (ctx @ '' must be a regular non-symlink file''))
      | Some f \<Rightarrow>
          bindE (raise_if (\<not> ps_regular (fstat_before f))
                   (ValueError (ctx @ '' must be a regular non-symlink file''))) (\<lambda>_.
          case path_stat f of
            None \<Rightarrow> Inl OSError
          | Some p \<Rightarrow>
              bindE (raise_if (stat_identity (fstat_before f) \<noteq> stat_identity (fstat_after f)
                               \<or> stat_identity (fstat_before f) \<noteq> stat_identity p)
                       (ValueError (ctx @ '' changed during the exact-byte read''))) (\<lambda>_.
              Inr (concat (chunks_before_empty (read_results f))))))"

definition load_json_file :: "FileRead option \<Rightarrow> string \<Rightarrow> (obj \<times> string) res" where
  "load_json_file opened ctx =
     bindE (read_formal_file opened ctx) (\<lambda>data.
     bindE (load_frozen_json data ctx) (\<lambda>v.
     bindE (as_object v ctx) (\<lambda>d.
     Inr (d, data))))"

definition plain_digest :: "json \<Rightarrow> string \<Rightarrow> string res" where
  "plain_digest v ctx =
     bindE (plain_string v ctx) (\<lambda>s.
     bindE (raise_if (\<not> sha256_pattern s) (ValueError (ctx @ '' must be sha256:<64 lowercase hex>''))) (\<lambda>_.
     Inr s))"

definition resolve_component_path ::
  "string list \<Rightarrow> json \<Rightarrow> string \<Rightarrow> string \<Rightarrow> string list res" where
  "resolve_component_path base actual expected ctx =
     bindE (plain_string actual ctx) (\<lambda>s.
     bindE (raise_if (s \<noteq> expected) (ValueError (ctx @ '' does not match the v2 policy''))) (\<lambda>_.
     bindE (raise_if (is_absolute expected \<or> length (path_parts expected) \<noteq> 1
                      \<or> path_name (path_parts expected) \<in> {[], ''.'', ''..''})
              (ValueError (ctx @ '' is not a safe component filename''))) (\<lambda>_.
     Inr (base @ [expected]))))"

text \<open>One JSON object per line; \<open>data[:-1].split(b"\n")\<close>.\<close>

definition jsonl_line :: "string \<Rightarrow> nat \<Rightarrow> string \<Rightarrow> obj res" where
  "jsonl_line context line_number raw_line =
     (let ctx = context @ '':'' @ dec line_number in
      bindE (raise_if (raw_line = []) (ValueError (ctx @ '' must not be blank''))) (\<lambda>_.
      if \<not> utf8_ok raw_line then Inl (ValueError (ctx @ '' is not valid UTF-8''))
      else case parse_document raw_line of
        POk v _ \<Rightarrow> as_object v ctx
      | PDup \<Rightarrow> Inl (ValueError ''duplicate JSON key'')
      | _ \<Rightarrow> Inl (ValueError (ctx @ '' is invalid JSON: ''))))"

definition load_jsonl :: "string \<Rightarrow> string \<Rightarrow> obj list res" where
  "load_jsonl data context =
     bindE (raise_if (CHR 0x0D \<in> set data \<or> data = [] \<or> last data \<noteq> CHR 0x0A
                      \<or> map code (take 3 data) = [239, 187, 191])
              (ValueError (context @ '' must be BOM-free UTF-8 JSONL with LF endings''))) (\<lambda>_.
     mapiE (jsonl_line context) 1 (split_on (CHR 0x0A) (butlast data)))"

section \<open>Contracts\<close>

record FormalContract =
  fc_id :: string
  fc_category :: string
  fc_cases :: int
  fc_tsv_path :: string
  fc_provenance_path :: string
  fc_prefix :: string

definition formal_contract :: "string \<Rightarrow> int \<Rightarrow> string \<Rightarrow> FormalContract" where
  "formal_contract name cases_n prefix_token =
     \<lparr>fc_id = name, fc_category = name, fc_cases = cases_n, fc_tsv_path = name @ ''.tsv'',
      fc_provenance_path = name @ ''.provenance.jsonl'', fc_prefix = ''v2-'' @ prefix_token @ ''-''\<rparr>"

definition FORMAL_CONTRACTS :: "FormalContract list" where
  "FORMAL_CONTRACTS =
     [formal_contract ''technical-mixed'' 240 ''technical'',
      formal_contract ''proper-noun'' 200 ''proper'',
      formal_contract ''colloquial'' 200 ''colloquial'',
      formal_contract ''homophone-context'' 200 ''homophone'',
      formal_contract ''long-structural'' 200 ''long'',
      formal_contract ''grimodex-regression'' 220 ''grimodex'',
      formal_contract ''protected'' 100 ''protected'']"

definition FORMAL_TOTAL_CASES :: int where "FORMAL_TOTAL_CASES = 1360"
definition FORMAL_QUALITY_CASES :: int where "FORMAL_QUALITY_CASES = 1260"

definition FORMAL_QUALITY_CATEGORIES :: "(string \<times> int) list" where
  "FORMAL_QUALITY_CATEGORIES =
     map (\<lambda>c. (fc_category c, fc_cases c)) (filter (\<lambda>c. fc_category c \<noteq> ''protected'') FORMAL_CONTRACTS)"

definition FORMAL_ALL_CATEGORIES :: "(string \<times> int) list" where
  "FORMAL_ALL_CATEGORIES = map (\<lambda>c. (fc_category c, fc_cases c)) FORMAL_CONTRACTS"

definition ELIGIBLE_CANDIDATE_IDS :: json where
  "ELIGIBLE_CANDIDATE_IDS = JArr [JStr ''B0'', JStr ''B1'']"

definition REQUIRED_CONTAMINATION_SCREENS :: json where
  "REQUIRED_CONTAMINATION_SCREENS = JArr (map JStr
     [''pilot-v1'', ''ajimee-bench'', ''sentinel-v1'', ''mozc-stress'', ''microsoft-ime-corpus'', ''zenz-v2.5-dataset''])"

definition FORBIDDEN_SOURCE_TOKENS :: "string list" where
  "FORBIDDEN_SOURCE_TOKENS = [''pilot'', ''ajimee'', ''sentinel'', ''stress'', ''microsoft'', ''zenz'']"

definition PROVENANCE_SCHEMA :: string where
  "PROVENANCE_SCHEMA = ''hazkey.frozen-conversion-case-provenance.v2''"

definition REVIEW_APPROVALS_SCHEMA :: string where
  "REVIEW_APPROVALS_SCHEMA = ''hazkey.frozen-conversion-review-approvals.v2''"

definition candidate_freeze :: "string \<Rightarrow> int \<Rightarrow> string \<Rightarrow> string \<Rightarrow> json" where
  "candidate_freeze generation helper_size helper_digest manifest_digest = JObj
     [(''generation'', JStr generation), (''helper_size_bytes'', JInt helper_size),
      (''helper_sha256'', JStr helper_digest), (''data_size_bytes'', JInt 18887468),
      (''data_sha256'', JStr ''sha256:b9884362e37772f772a0d28d1e12622455c14353497b3435deed60aa7e592c5e''),
      (''manifest_sha256'', JStr manifest_digest)]"

definition EXPECTED_ARTIFACT_FREEZES :: json where
  "EXPECTED_ARTIFACT_FREEZES = JObj
     [(''eligible_candidate_ids'', ELIGIBLE_CANDIDATE_IDS),
      (''evaluation_runner'', JObj
        [(''product_source_revision'', JStr ''7373b1a59b2c94a9fada5650984c28ed352c3be1''),
         (''size_bytes'', JInt 106269232),
         (''sha256'', JStr ''sha256:249c43c8eb02651b685291ad47fd6bd85efac3438abd0a4d284dd1caec11f30a''),
         (''runtime_dependencies_integrity'',
            JStr ''sha256:5d847919dbfb4b866546104cfbc73f5ffa9ff45ee9d8bc85889bf1de6c299f2d'')]),
      (''candidates'', JObj
        [(''B0'', candidate_freeze ''sha256-ad277af2ad5a634f23c7b84b7f346b02f341905f10fcfa6eb9912db78a0866cb'' 5695048
            ''sha256:8676275bb47aefe963c8b82047cc66fb7a5140caec72d1ebbfa17556b281577d''
            ''sha256:ebdc1bff4da9fbafe3971de7e5f095c90ad78e00e3f40b10fa5a7249d78a7c16''),
         (''B1'', candidate_freeze ''sha256-046bcfa093aac43ad6ee64afd4b3a3e8325bab0f3d20b8cb083c447ba8c91a2f'' 5746568
            ''sha256:728d9a79c0f540a832d3f404a2603f49080e1f9e7ee1d24df1a0a69f5a4a75e8''
            ''sha256:c06ab9c7374ae1c4d114da6c0cabf2a6ef586e94449cb658a3c7927e4d30cb79'')]),
      (''one_shot_exposure'', JObj
        [(''publish_only_after_all_eligible_candidates_are_frozen'', JBool True),
         (''post_publication_candidate_policy'', JStr ''new_holdout_required''),
         (''B2_eligible'', JBool False)])]"

definition EXPECTED_EXCLUSIONS :: json where
  "EXPECTED_EXCLUSIONS = JObj
     [(''pilot_v1'', JObj
        [(''counted'', JBool False),
         (''manifest_sha256'', JStr ''sha256:b1319e356ba025e1e06221330479d48b12cc44ebb502ddda970ea5fa583336e3''),
         (''aggregate_sha256'', JStr ''sha256:123f47cb6f747135451e5969b32d9868ec61d9574fa6eb4b0001e5409287c807''),
         (''maximum_exact_overlap_cases'', JInt 0)]),
      (''auxiliary_suites'', JArr (map JStr
        [''pilot-v1-256'', ''ajimee-unconditional'', ''sentinel-v1-15'', ''mozc-stress'', ''contextual'']))]"

definition EXPECTED_CASE_CONTRACT :: json where
  "EXPECTED_CASE_CONTRACT = JObj
     [(''tsv_columns'', JArr (map JStr [''id'', ''reading'', ''expected'', ''category''])),
      (''provenance_schema'', JStr PROVENANCE_SCHEMA), (''unique_case_ids'', JBool True),
      (''unique_normalized_readings'', JBool True), (''unique_family_ids'', JBool True),
      (''quality_cases_require_conversion'', JBool True),
      (''component_id_sequence'', JStr ''id_prefix-plus-four-digit-decimal-0001-through-cases.v1''),
      (''locator_contract'', JStr ''canonical-case-and-family-json.v1''),
      (''allowed_source_kinds'', JArr [JStr ''project-authored'']),
      (''allowed_licenses'', JArr [JStr ''MIT'']),
      (''required_exposure_status'', JStr ''sealed-for-b0-b1''),
      (''required_contamination_screens'', REQUIRED_CONTAMINATION_SCREENS)]"

definition EXPECTED_NEAR_REVIEW_CONTRACT :: json where
  "EXPECTED_NEAR_REVIEW_CONTRACT = JObj
     [(''schema'', JStr NEAR_REVIEW_SCHEMA), (''match'', JStr ''either''),
      (''algorithms'', NEAR_ALGORITHMS), (''required_status'', JStr ''closed'')]"

definition contract_json :: "FormalContract \<Rightarrow> json" where
  "contract_json c = JObj
     [(''id'', JStr (fc_id c)), (''category'', JStr (fc_category c)), (''cases'', JInt (fc_cases c)),
      (''tsv_path'', JStr (fc_tsv_path c)), (''provenance_path'', JStr (fc_provenance_path c)),
      (''id_prefix'', JStr (fc_prefix c))]"

definition expected_formal_suite :: json where
  "expected_formal_suite = JObj
     [(''total_cases'', JInt FORMAL_TOTAL_CASES), (''quality_cases'', JInt FORMAL_QUALITY_CASES),
      (''components'', JArr (map contract_json FORMAL_CONTRACTS)),
      (''quality_categories'', counts_json FORMAL_QUALITY_CATEGORIES),
      (''quality_metrics'', JArr (map JStr [''top1'', ''top10'', ''human_preference'', ''both_bad''])),
      (''protected'', JObj
        [(''cases'', JInt 100), (''required_passes'', JInt 100), (''metric'', JStr ''top1_exact''),
         (''included_in_overall_quality_rates'', JBool False)])]"

section \<open>The policy\<close>

definition check_collection :: "obj \<Rightarrow> bool \<Rightarrow> string option \<Rightarrow> unit res" where
  "check_collection collection require_ready expected_manifest_name =
     bindE (exact_fields collection [''status'', ''manifest_path''] ''collection'') (\<lambda>_.
     bindE (get_item collection ''status'') (\<lambda>status.
     bindE (get_item collection ''manifest_path'') (\<lambda>raw_path.
     if pyeq status (JStr ''pending_collection'') then
       bindE (raise_if (raw_path \<noteq> JNull)
                (ValueError ''pending collection must not claim a manifest path'')) (\<lambda>_.
       raise_if require_ready (ValueError ''v2 corpus policy is still pending_collection''))
     else if pyeq status (JStr ''ready'') then
       bindE (plain_string raw_path ''collection.manifest_path'') (\<lambda>manifest_name.
       raise_if (expected_manifest_name \<noteq> None \<and> expected_manifest_name \<noteq> Some manifest_name)
         (ValueError ''ready policy does not bind the supplied manifest filename''))
     else Inl (ValueError ''collection.status must be pending_collection or ready''))))"

definition validate_formal_policy ::
  "FileRead option \<Rightarrow> bool \<Rightarrow> string option \<Rightarrow> (obj \<times> string) res" where
  "validate_formal_policy opened require_ready expected_manifest_name =
     bindE (load_json_file opened ''v2 corpus policy'') (\<lambda>(policy, data).
     bindE (exact_fields policy [''schema'', ''policy_id'', ''decision_tier'', ''collection'', ''formal_suite'',
              ''artifact_freezes'', ''exclusions'', ''case_contract'', ''near_duplicate_review'']
              ''v2 corpus policy'') (\<lambda>_.
     bindE (get_item policy ''schema'') (\<lambda>schema.
     bindE (get_item policy ''policy_id'') (\<lambda>policy_id.
     bindE (raise_if (\<not> pyeq schema (JStr ''hazkey.mozc-adoption-corpus-policy.v2'')
                      \<or> \<not> pyeq policy_id (JStr ''mozc-adoption-v2''))
              (ValueError ''v2 corpus policy schema or policy_id mismatch'')) (\<lambda>_.
     bindE (check_field policy ''decision_tier'' (JStr ''formal'') ''v2 corpus policy must remain formal'') (\<lambda>_.
     bindE (check_field policy ''formal_suite'' expected_formal_suite
              ''v2 corpus policy formal_suite does not match the fixed contract'') (\<lambda>_.
     bindE (check_field policy ''artifact_freezes'' EXPECTED_ARTIFACT_FREEZES
              ''v2 corpus policy artifact freezes do not match B0/B1'') (\<lambda>_.
     bindE (check_field policy ''exclusions'' EXPECTED_EXCLUSIONS
              ''v2 corpus policy exclusions do not match the fixed contract'') (\<lambda>_.
     bindE (check_field policy ''case_contract'' EXPECTED_CASE_CONTRACT
              ''v2 corpus policy case contract mismatch'') (\<lambda>_.
     bindE (check_field policy ''near_duplicate_review'' EXPECTED_NEAR_REVIEW_CONTRACT
              ''v2 corpus policy near-duplicate contract mismatch'') (\<lambda>_.
     bindE (get_item policy ''collection'') (\<lambda>raw_collection.
     bindE (as_object raw_collection ''v2 corpus policy.collection'') (\<lambda>collection.
     bindE (check_collection collection require_ready expected_manifest_name) (\<lambda>_.
     Inr (policy, data)))))))))))))))"

end
