(* ===== verification/Corpus_Build.thy ===== *)
theory Corpus_Build
  imports Corpus_Formal
begin

text \<open>
  \<open>build_frozen_corpus_v2.py\<close>: the review approvals, the provenance of each case, and the assembly
  of the aggregate of seven components with every check of the manifest.
\<close>

section \<open>Review approvals\<close>

definition FAMILY_ASSIGNMENT_CONTRACT :: string where
  "FAMILY_ASSIGNMENT_CONTRACT = ''reviewed-case-to-family-map.v1''"

text \<open>\<open>_boolean(d[k], ctx) is not wanted\<close> raises.\<close>

definition require_boolean :: "obj \<Rightarrow> string \<Rightarrow> bool \<Rightarrow> string \<Rightarrow> string \<Rightarrow> unit res" where
  "require_boolean d k wanted ctx message =
     bindE (item as_boolean d k ctx) (\<lambda>b. raise_if (b \<noteq> wanted) (ValueError message))"

text \<open>Identifiers are ASCII, where \<open>casefold\<close> is the ASCII lower case.\<close>

definition check_approval :: "FormalContract \<Rightarrow> json \<Rightarrow> obj res" where
  "check_approval contract raw =
     (let ctx = ''review approval '' @ fc_id contract in
      bindE (as_object raw ctx) (\<lambda>approval.
      bindE (exact_fields approval [''id'', ''status'', ''tsv_sha256'', ''source_id'', ''author_id'', ''reviewer_id'',
               ''redistribution_approved'', ''privacy_reviewed'', ''family_assignment''] ctx) (\<lambda>_.
      bindE (check_field approval ''id'' (JStr (fc_id contract)) (ctx @ '' is missing or not approved'')) (\<lambda>_.
      bindE (check_field approval ''status'' (JStr ''approved'') (ctx @ '' is missing or not approved'')) (\<lambda>_.
      bindE (item plain_digest approval ''tsv_sha256'' ctx) (\<lambda>_.
      bindE (item review_identifier approval ''source_id'' ctx) (\<lambda>_.
      bindE (item review_identifier approval ''author_id'' ctx) (\<lambda>author_id.
      bindE (item review_identifier approval ''reviewer_id'' ctx) (\<lambda>reviewer_id.
      bindE (raise_if (lower_ascii author_id = lower_ascii reviewer_id)
               (ValueError (ctx @ '' author and reviewer must be independent''))) (\<lambda>_.
      bindE (require_boolean approval ''redistribution_approved'' True ctx
               (ctx @ '' lacks redistribution approval'')) (\<lambda>_.
      bindE (require_boolean approval ''privacy_reviewed'' True ctx (ctx @ '' lacks privacy approval'')) (\<lambda>_.
      bindE (item as_object approval ''family_assignment'' ctx) (\<lambda>family.
      bindE (exact_fields family [''contract'', ''sha256''] (dot ctx ''family_assignment'')) (\<lambda>_.
      bindE (check_field family ''contract'' (JStr FAMILY_ASSIGNMENT_CONTRACT)
               (ctx @ '' family assignment contract mismatch'')) (\<lambda>_.
      bindE (item plain_digest family ''sha256'' (dot ctx ''family_assignment'')) (\<lambda>_.
      Inr approval))))))))))))))))"

definition check_near_approval :: "obj \<Rightarrow> unit res" where
  "check_near_approval near_part =
     bindE (exact_fields near_part [''status'', ''computed_pairs'', ''reviewer_id'', ''algorithm'']
              ''review approvals.near_duplicate_review'') (\<lambda>_.
     bindE (get_item near_part ''computed_pairs'') (\<lambda>computed_pairs.
     bindE (get_item near_part ''status'') (\<lambda>status.
     bindE (raise_if (\<not> pyeq status (JStr ''closed'') \<or>
                      (case computed_pairs of JInt n \<Rightarrow> n < 0 | _ \<Rightarrow> True))
              (ValueError ''review approvals do not close the near review'')) (\<lambda>_.
     bindE (item review_identifier near_part ''reviewer_id'' ''review approvals.near_duplicate_review'') (\<lambda>_.
     check_field near_part ''algorithm'' near_algorithm
       ''review approvals near-duplicate algorithm mismatch'')))))"

definition load_review_approvals ::
  "FormalContract list \<Rightarrow> FileRead option \<Rightarrow> ((string \<times> obj) list \<times> obj \<times> string) res" where
  "load_review_approvals contracts opened =
     bindE (load_json_file opened ''v2 review approvals'') (\<lambda>(approvals, data).
     bindE (exact_fields approvals [''schema'', ''status'', ''components'', ''near_duplicate_review'']
              ''v2 review approvals'') (\<lambda>_.
     bindE (check_field approvals ''schema'' (JStr REVIEW_APPROVALS_SCHEMA)
              ''v2 review approvals schema mismatch'') (\<lambda>_.
     bindE (check_field approvals ''status'' (JStr ''approved'') ''v2 review approvals are not approved'') (\<lambda>_.
     bindE (item as_array approvals ''components'' ''review approvals'') (\<lambda>raw_components.
     bindE (raise_if (length raw_components \<noteq> length contracts)
              (ValueError ''review approvals must cover all seven components'')) (\<lambda>_.
     bindE (foldE (\<lambda>result (raw, contract).
              bindE (check_approval contract raw) (\<lambda>approval.
              Inr (dict_set (fc_id contract) approval result))) [] (zip raw_components contracts)) (\<lambda>result.
     bindE (item as_object approvals ''near_duplicate_review'' ''review approvals'') (\<lambda>near_part.
     bindE (check_near_approval near_part) (\<lambda>_.
     Inr (result, near_part, data))))))))))"

section \<open>Hashes of cases and families\<close>

definition case_fingerprint :: "unicode \<Rightarrow> FrozenRow \<Rightarrow> string res" where
  "case_fingerprint u r =
     (let expected = sort (map (\<lambda>v. uc_casefold u (uc_nfkc u v)) (split_on 124 (fr_expected r))) in
      bindE (canonical_json (JObj
        [(''reading'', JStr (text_of (canonical_reading u (fr_reading r)))),
         (''expected'', JArr (map (\<lambda>v. JStr (text_of v)) expected))])) (\<lambda>data.
      Inr (sha256_bytes data)))"

definition case_locator_sha256 :: "FrozenRow \<Rightarrow> string \<Rightarrow> string res" where
  "case_locator_sha256 r family_id =
     bindE (canonical_json (JObj
        [(''category'', JStr (text_of (fr_category r))), (''expected'', JStr (text_of (fr_expected r))),
         (''family_id'', JStr family_id), (''id'', JStr (text_of (fr_id r))),
         (''reading'', JStr (text_of (fr_reading r)))])) (\<lambda>data.
     Inr (sha256_bytes data))"

definition family_assignment_sha256 :: "FrozenRow list \<Rightarrow> string list \<Rightarrow> string res" where
  "family_assignment_sha256 rows family_ids =
     bindE (raise_if (length rows \<noteq> length family_ids)
              (ValueError ''family assignment count does not match TSV rows'')) (\<lambda>_.
     bindE (canonical_json (JArr (map (\<lambda>(r, family_id).
              JObj [(''case_id'', JStr (text_of (fr_id r))), (''family_id'', JStr family_id)])
              (zip rows family_ids)))) (\<lambda>data.
     Inr (sha256_bytes data)))"

section \<open>Provenance of one case\<close>

definition check_source :: "obj \<Rightarrow> FrozenRow \<Rightarrow> string \<Rightarrow> string \<Rightarrow> (string \<times> string) res" where
  "check_source source r family_id ctx =
     bindE (exact_fields source [''kind'', ''source_id'', ''author_id'', ''locator_sha256'', ''license'', ''new_holdout'']
              (dot ctx ''source'')) (\<lambda>_.
     bindE (check_field source ''kind'' (JStr ''project-authored'') (ctx @ ''.source.kind is not allowed'')) (\<lambda>_.
     bindE (item review_identifier source ''source_id'' (dot ctx ''source'')) (\<lambda>source_id.
     bindE (item review_identifier source ''author_id'' (dot ctx ''source'')) (\<lambda>author_id.
     bindE (raise_if (list_ex (\<lambda>token. occurs_in token (lower_ascii source_id)) FORBIDDEN_SOURCE_TOKENS)
              (ValueError (ctx @ ''.source.source_id names an excluded auxiliary source''))) (\<lambda>_.
     bindE (item plain_digest source ''locator_sha256'' (dot ctx ''source'')) (\<lambda>locator.
     bindE (case_locator_sha256 r family_id) (\<lambda>expected_locator.
     bindE (raise_if (locator \<noteq> expected_locator)
              (ValueError (ctx @ ''.source.locator_sha256 does not match case bytes''))) (\<lambda>_.
     bindE (check_field source ''license'' (JStr ''MIT'') (ctx @ ''.source.license is not approved'')) (\<lambda>_.
     bindE (require_boolean source ''new_holdout'' True (dot ctx ''source'')
              (ctx @ ''.source must be a new holdout'')) (\<lambda>_.
     Inr (source_id, author_id)))))))))))"

definition check_rights :: "obj \<Rightarrow> string \<Rightarrow> string \<Rightarrow> string res" where
  "check_rights rights author_id ctx =
     bindE (exact_fields rights [''redistribution_approved'', ''privacy_reviewed'', ''reviewer_id'']
              (dot ctx ''rights'')) (\<lambda>_.
     bindE (require_boolean rights ''redistribution_approved'' True (dot ctx ''rights'')
              (ctx @ '' lacks redistribution approval'')) (\<lambda>_.
     bindE (require_boolean rights ''privacy_reviewed'' True (dot ctx ''rights'') (ctx @ '' lacks privacy review'')) (\<lambda>_.
     bindE (item review_identifier rights ''reviewer_id'' (dot ctx ''rights'')) (\<lambda>reviewer_id.
     bindE (raise_if (lower_ascii author_id = lower_ascii reviewer_id)
              (ValueError (ctx @ '' author and reviewer are not independent''))) (\<lambda>_.
     Inr reviewer_id)))))"

definition check_approved_identities :: "obj option \<Rightarrow> string \<Rightarrow> string \<Rightarrow> string \<Rightarrow> string \<Rightarrow> unit res" where
  "check_approved_identities approval source_id author_id reviewer_id ctx =
     (let message = ctx @ '' identities do not match review approval'' in
      case approval of
        None \<Rightarrow> Inr ()
      | Some a \<Rightarrow>
          bindE (check_field a ''source_id'' (JStr source_id) message) (\<lambda>_.
          bindE (check_field a ''author_id'' (JStr author_id) message) (\<lambda>_.
          check_field a ''reviewer_id'' (JStr reviewer_id) message)))"

definition check_exposure :: "obj \<Rightarrow> string \<Rightarrow> unit res" where
  "check_exposure exposure ctx =
     bindE (exact_fields exposure [''status'', ''eligible_candidate_ids'', ''disclosed_before_candidate_freezes'']
              (dot ctx ''exposure'')) (\<lambda>_.
     bindE (check_field exposure ''status'' (JStr ''sealed-for-b0-b1'') (ctx @ ''.exposure.status mismatch'')) (\<lambda>_.
     bindE (check_field exposure ''eligible_candidate_ids'' ELIGIBLE_CANDIDATE_IDS
              (ctx @ ''.exposure must bind exact B0/B1 candidate IDs'')) (\<lambda>_.
     require_boolean exposure ''disclosed_before_candidate_freezes'' False (dot ctx ''exposure'')
       (ctx @ '' was disclosed before candidate freeze''))))"

definition check_contamination :: "obj \<Rightarrow> string \<Rightarrow> unit res" where
  "check_contamination contamination ctx =
     bindE (exact_fields contamination [''status'', ''screened_against''] (dot ctx ''contamination'')) (\<lambda>_.
     bindE (check_field contamination ''status'' (JStr ''no-known-overlap'')
              (ctx @ ''.contamination.status is not no-known-overlap'')) (\<lambda>_.
     check_field contamination ''screened_against'' REQUIRED_CONTAMINATION_SCREENS
       (ctx @ ''.contamination screens are incomplete'')))"

definition validate_provenance_record ::
  "obj \<Rightarrow> FrozenRow \<Rightarrow> string \<Rightarrow> obj option \<Rightarrow> string res" where
  "validate_provenance_record d r ctx approval =
     bindE (exact_fields d [''schema'', ''case_id'', ''family_id'', ''source'', ''rights'', ''exposure'', ''contamination'']
              ctx) (\<lambda>_.
     bindE (check_field d ''schema'' (JStr PROVENANCE_SCHEMA) (ctx @ ''.schema mismatch'')) (\<lambda>_.
     bindE (check_field d ''case_id'' (JStr (text_of (fr_id r))) (ctx @ ''.case_id does not match its TSV row'')) (\<lambda>_.
     bindE (item plain_string d ''family_id'' ctx) (\<lambda>family_id.
     bindE (item as_object d ''source'' ctx) (\<lambda>source.
     bindE (check_source source r family_id ctx) (\<lambda>(source_id, author_id).
     bindE (item as_object d ''rights'' ctx) (\<lambda>rights.
     bindE (check_rights rights author_id ctx) (\<lambda>reviewer_id.
     bindE (check_approved_identities approval source_id author_id reviewer_id ctx) (\<lambda>_.
     bindE (item as_object d ''exposure'' ctx) (\<lambda>exposure.
     bindE (check_exposure exposure ctx) (\<lambda>_.
     bindE (item as_object d ''contamination'' ctx) (\<lambda>contamination.
     bindE (check_contamination contamination ctx) (\<lambda>_.
     Inr family_id)))))))))))))"


section \<open>The rows of a component\<close>

text \<open>What the loops of \<open>build_aggregate\<close> remember across all components.\<close>

record FormalSeen =
  seen_case_ids :: "codes list"
  seen_readings :: "codes list"
  seen_families :: "string list"

text \<open>\<open>f"{position:04d}"\<close>\<close>

definition dec4 :: "nat \<Rightarrow> string" where
  "dec4 n = replicate (4 - length (dec n)) (CHR ''0'') @ dec n"

definition check_formal_row ::
  "unicode \<Rightarrow> FormalContract \<Rightarrow> obj \<Rightarrow> FormalSeen \<times> string list \<Rightarrow> nat \<times> FrozenRow \<times> obj \<Rightarrow>
     (FormalSeen \<times> string list) res" where
  "check_formal_row u contract approval = (\<lambda>(seen, component_family_ids) (position, r, provenance).
     let ctx = ''component '' @ fc_id contract in
     bindE (raise_if (text_of (fr_id r) \<noteq> fc_prefix contract @ dec4 position)
              (ValueError (ctx @ '' case ID sequence mismatch: expected ''))) (\<lambda>_.
     bindE (raise_if (fr_id r \<in> set (seen_case_ids seen)) (ValueError ''duplicate formal case ID '')) (\<lambda>_.
     bindE (raise_if (text_of (fr_category r) \<noteq> ''protected'' \<and> fr_reading r \<in> set (split_on 124 (fr_expected r)))
              (ValueError ''quality case permits unchanged reading for '')) (\<lambda>_.
     let reading_key = canonical_reading u (fr_reading r) in
     bindE (raise_if (reading_key \<in> set (seen_readings seen))
              (ValueError ''duplicate normalized formal reading for '')) (\<lambda>_.
     bindE (validate_provenance_record provenance r (''provenance '' @ text_of (fr_id r)) (Some approval)) (\<lambda>family_id.
     bindE (raise_if (family_id \<in> set (seen_families seen)) (ValueError ''duplicate formal family_id '')) (\<lambda>_.
     Inr (\<lparr>seen_case_ids = fr_id r # seen_case_ids seen, seen_readings = reading_key # seen_readings seen,
           seen_families = family_id # seen_families seen\<rparr>, component_family_ids @ [family_id]))))))))"

definition check_formal_rows ::
  "unicode \<Rightarrow> FormalContract \<Rightarrow> obj \<Rightarrow> FormalSeen \<Rightarrow> FrozenRow list \<Rightarrow> obj list \<Rightarrow>
     (FormalSeen \<times> string list) res" where
  "check_formal_rows u contract approval seen rows provenance_records =
     foldE (check_formal_row u contract approval) (seen, [])
       (zip [1..<Suc (length rows)] (zip rows provenance_records))"

section \<open>A component\<close>

definition formal_rows_of_tsv ::
  "unicode \<Rightarrow> filesystem \<Rightarrow> string list \<Rightarrow> FormalContract \<Rightarrow> obj \<Rightarrow> obj \<Rightarrow> FrozenRow list res" where
  "formal_rows_of_tsv u files base contract approval tsv =
     (let ctx = ''component '' @ fc_id contract in
      bindE (exact_fields tsv [''path'', ''sha256'', ''cases''] (dot ctx ''tsv'')) (\<lambda>_.
      bindE (get_item tsv ''path'') (\<lambda>raw_path.
      bindE (resolve_component_path base raw_path (fc_tsv_path contract) (ctx @ ''.tsv.path'')) (\<lambda>tsv_path.
      bindE (read_formal_file (files tsv_path) (ctx @ '' TSV'')) (\<lambda>tsv_data.
      bindE (item plain_digest tsv ''sha256'' (dot ctx ''tsv'')) (\<lambda>digest.
      bindE (raise_if (digest \<noteq> sha256_bytes tsv_data)
               (ValueError (ctx @ '' TSV exact-byte SHA-256 mismatch''))) (\<lambda>_.
      bindE (check_field approval ''tsv_sha256'' (JStr (sha256_bytes tsv_data))
               (ctx @ '' TSV does not match its review approval'')) (\<lambda>_.
      bindE (item positive_integer tsv ''cases'' (dot ctx ''tsv'')) (\<lambda>cases_n.
      bindE (raise_if (cases_n \<noteq> fc_cases contract) (ValueError (ctx @ '' TSV case contract mismatch''))) (\<lambda>_.
      bindE (parse_tsv u tsv_data (ctx @ '' TSV'')) (\<lambda>rows.
      bindE (raise_if (int (length rows) \<noteq> fc_cases contract)
               (ValueError (ctx @ '' TSV row count mismatch''))) (\<lambda>_.
      bindE (raise_if (set (count_categories rows) \<noteq> {(fc_category contract, fc_cases contract)})
               (ValueError (ctx @ '' category count mismatch''))) (\<lambda>_.
      Inr rows)))))))))))))"

definition provenance_records ::
  "filesystem \<Rightarrow> string list \<Rightarrow> FormalContract \<Rightarrow> obj \<Rightarrow> nat \<Rightarrow> obj list res" where
  "provenance_records files base contract provenance row_count =
     (let ctx = ''component '' @ fc_id contract in
      bindE (exact_fields provenance [''path'', ''sha256'', ''records''] (dot ctx ''provenance'')) (\<lambda>_.
      bindE (get_item provenance ''path'') (\<lambda>raw_path.
      bindE (resolve_component_path base raw_path (fc_provenance_path contract) (ctx @ ''.provenance.path'')) (\<lambda>provenance_path.
      bindE (read_formal_file (files provenance_path) (ctx @ '' provenance'')) (\<lambda>provenance_data.
      bindE (item plain_digest provenance ''sha256'' (dot ctx ''provenance'')) (\<lambda>digest.
      bindE (raise_if (digest \<noteq> sha256_bytes provenance_data)
               (ValueError (ctx @ '' provenance exact-byte SHA-256 mismatch''))) (\<lambda>_.
      bindE (item positive_integer provenance ''records'' (dot ctx ''provenance'')) (\<lambda>records_n.
      bindE (raise_if (records_n \<noteq> fc_cases contract)
               (ValueError (ctx @ '' provenance record contract mismatch''))) (\<lambda>_.
      bindE (load_jsonl provenance_data (ctx @ '' provenance'')) (\<lambda>records.
      bindE (raise_if (length records \<noteq> row_count) (ValueError (ctx @ '' TSV/provenance count mismatch''))) (\<lambda>_.
      Inr records)))))))))))"

definition validate_formal_component ::
  "unicode \<Rightarrow> filesystem \<Rightarrow> string list \<Rightarrow> (string \<times> obj) list \<Rightarrow>
     FrozenRow list \<times> FormalSeen \<Rightarrow> json \<times> FormalContract \<Rightarrow> (FrozenRow list \<times> FormalSeen) res" where
  "validate_formal_component u files base approvals_by_id = (\<lambda>(all_rows, seen) (raw_component, contract).
     let ctx = ''component '' @ fc_id contract in
     case map_of approvals_by_id (fc_id contract) of
       None \<Rightarrow> Inl (KeyError (fc_id contract))
     | Some approval \<Rightarrow>
         bindE (as_object raw_component ctx) (\<lambda>component.
         bindE (exact_fields component [''id'', ''tsv'', ''provenance''] ctx) (\<lambda>_.
         bindE (check_field component ''id'' (JStr (fc_id contract)) (ctx @ ''.id or order does not match policy'')) (\<lambda>_.
         bindE (item as_object component ''tsv'' ctx) (\<lambda>tsv.
         bindE (formal_rows_of_tsv u files base contract approval tsv) (\<lambda>rows.
         bindE (item as_object component ''provenance'' ctx) (\<lambda>provenance.
         bindE (provenance_records files base contract provenance (length rows)) (\<lambda>records.
         bindE (check_formal_rows u contract approval seen rows records) (\<lambda>(seen', component_family_ids).
         bindE (family_assignment_sha256 rows component_family_ids) (\<lambda>family_digest.
         bindE (item as_object approval ''family_assignment'' ctx) (\<lambda>family.
         bindE (check_field family ''sha256'' (JStr family_digest)
                  (ctx @ '' family assignment review hash mismatch'')) (\<lambda>_.
         Inr (all_rows @ rows, seen')))))))))))))"

section \<open>The aggregate\<close>

definition REVIEW_APPROVALS_NAME :: string where
  "REVIEW_APPROVALS_NAME = ''review-approvals.json''"

definition validate_pilot_v1 ::
  "unicode \<Rightarrow> filesystem \<Rightarrow> string list \<Rightarrow> obj \<Rightarrow> (FrozenRow list \<times> string) res" where
  "validate_pilot_v1 u files pilot_manifest_path pilot_contract =
     bindE (read_formal_file (files pilot_manifest_path) ''pinned pilot v1 manifest'') (\<lambda>manifest_bytes.
     bindE (check_field pilot_contract ''manifest_sha256'' (JStr (sha256_bytes manifest_bytes))
              ''pilot v1 manifest SHA-256 mismatch'') (\<lambda>_.
     bindE (build_pilot_aggregate u files pilot_manifest_path) (\<lambda>aggregate.
     bindE (check_field pilot_contract ''aggregate_sha256'' (JStr (sha256_bytes aggregate))
              ''pilot v1 aggregate SHA-256 mismatch'') (\<lambda>_.
     bindE (parse_tsv u aggregate ''pilot v1 aggregate'') (\<lambda>rows.
     Inr (rows, aggregate))))))"

definition manifest_fields :: "string list" where
  "manifest_fields =
     [''schema'', ''policy'', ''review_approvals'', ''components'', ''near_duplicate_review'', ''pilot_v1'', ''aggregate'']"

definition check_manifest_policy :: "obj \<Rightarrow> string \<Rightarrow> string \<Rightarrow> unit res" where
  "check_manifest_policy manifest policy_name policy_bytes =
     bindE (item as_object manifest ''policy'' ''v2 corpus manifest'') (\<lambda>manifest_policy.
     bindE (exact_fields manifest_policy [''path'', ''sha256''] ''manifest.policy'') (\<lambda>_.
     bindE (check_field manifest_policy ''path'' (JStr policy_name)
              ''manifest.policy.path does not name the supplied policy'') (\<lambda>_.
     bindE (item plain_digest manifest_policy ''sha256'' ''manifest.policy'') (\<lambda>digest.
     raise_if (digest \<noteq> sha256_bytes policy_bytes)
       (ValueError ''manifest policy exact-byte SHA-256 mismatch'')))))"

definition bound_approvals ::
  "FormalContract list \<Rightarrow> filesystem \<Rightarrow> string list \<Rightarrow> obj \<Rightarrow> ((string \<times> obj) list \<times> obj) res" where
  "bound_approvals contracts files base manifest =
     bindE (item as_object manifest ''review_approvals'' ''v2 corpus manifest'') (\<lambda>approval_binding.
     bindE (exact_fields approval_binding [''path'', ''sha256'', ''schema'', ''status''] ''manifest.review_approvals'') (\<lambda>_.
     bindE (get_item approval_binding ''path'') (\<lambda>raw_path.
     bindE (resolve_component_path base raw_path REVIEW_APPROVALS_NAME ''manifest.review_approvals.path'') (\<lambda>approvals_path.
     bindE (load_review_approvals contracts (files approvals_path)) (\<lambda>(approvals_by_id, near_approval, approval_bytes).
     bindE (raise_if (\<not> pyeq (JObj approval_binding) (JObj
              [(''path'', JStr REVIEW_APPROVALS_NAME), (''sha256'', JStr (sha256_bytes approval_bytes)),
               (''schema'', JStr REVIEW_APPROVALS_SCHEMA), (''status'', JStr ''approved'')]))
              (ValueError ''manifest review approval binding mismatch'')) (\<lambda>_.
     Inr (approvals_by_id, near_approval)))))))"

definition bound_pilot_rows ::
  "unicode \<Rightarrow> filesystem \<Rightarrow> string list \<Rightarrow> obj \<Rightarrow> obj \<Rightarrow> FrozenRow list res" where
  "bound_pilot_rows u files pilot_manifest_path manifest policy =
     bindE (item as_object manifest ''pilot_v1'' ''manifest'') (\<lambda>pilot_contract.
     bindE (exact_fields pilot_contract [''manifest_sha256'', ''aggregate_sha256'', ''maximum_exact_overlap_cases'']
              ''manifest.pilot_v1'') (\<lambda>_.
     bindE (item as_object policy ''exclusions'' ''policy'') (\<lambda>exclusions.
     bindE (item as_object exclusions ''pilot_v1'' ''exclusions'') (\<lambda>policy_pilot.
     let expected_pilot = filter (\<lambda>(k, v). k \<noteq> ''counted'') policy_pilot in
     bindE (raise_if (\<not> pyeq (JObj pilot_contract) (JObj expected_pilot))
              (ValueError ''manifest pilot v1 binding does not match policy'')) (\<lambda>_.
     bindE (validate_pilot_v1 u files pilot_manifest_path policy_pilot) (\<lambda>(rows, _).
     Inr rows))))))"

definition formal_rows ::
  "unicode \<Rightarrow> filesystem \<Rightarrow> string list \<Rightarrow> FormalContract list \<Rightarrow> (string \<times> obj) list \<Rightarrow> obj \<Rightarrow>
     FrozenRow list res" where
  "formal_rows u files base contracts approvals_by_id manifest =
     bindE (item as_array manifest ''components'' ''manifest'') (\<lambda>raw_components.
     bindE (raise_if (length raw_components \<noteq> length contracts)
              (ValueError ''manifest must contain exactly seven category components'')) (\<lambda>_.
     bindE (foldE (validate_formal_component u files base approvals_by_id)
              ([], \<lparr>seen_case_ids = [], seen_readings = [], seen_families = []\<rparr>)
              (zip raw_components contracts)) (\<lambda>(all_rows, _).
     Inr all_rows)))"

text \<open>The fingerprint of a row is computed only when its reading is new.\<close>

definition overlaps_pilot ::
  "unicode \<Rightarrow> codes set \<Rightarrow> string set \<Rightarrow> FrozenRow \<Rightarrow> bool res" where
  "overlaps_pilot u pilot_readings pilot_fingerprints r =
     (if canonical_reading u (fr_reading r) \<in> pilot_readings then Inr True
      else bindE (case_fingerprint u r) (\<lambda>f. Inr (f \<in> pilot_fingerprints)))"

definition check_no_overlap :: "unicode \<Rightarrow> FrozenRow list \<Rightarrow> FrozenRow list \<Rightarrow> unit res" where
  "check_no_overlap u all_rows pilot =
     (let pilot_readings = set (map (\<lambda>r. canonical_reading u (fr_reading r)) pilot) in
      bindE (mapE (case_fingerprint u) pilot) (\<lambda>pilot_fingerprints.
      bindE (mapE (overlaps_pilot u pilot_readings (set pilot_fingerprints)) all_rows) (\<lambda>overlaps.
      raise_if (set (map fst (filter snd (zip (map fr_id all_rows) overlaps))) \<noteq> {})
        (ValueError ''formal v2 has exact overlaps with pilot v1''))))"

definition check_near_review ::
  "unicode \<Rightarrow> filesystem \<Rightarrow> string list \<Rightarrow> obj \<Rightarrow> obj \<Rightarrow> FrozenRow list \<Rightarrow> FrozenRow list \<Rightarrow> unit res" where
  "check_near_review u files base manifest near_approval all_rows pilot =
     bindE (item as_object manifest ''near_duplicate_review'' ''manifest'') (\<lambda>near_binding.
     bindE (exact_fields near_binding [''path'', ''sha256'', ''status''] ''manifest.near_duplicate_review'') (\<lambda>_.
     bindE (check_field near_binding ''status'' (JStr ''closed'')
              ''manifest near-duplicate review is not closed'') (\<lambda>_.
     bindE (get_item near_binding ''path'') (\<lambda>raw_path.
     bindE (resolve_component_path base raw_path ''near-duplicate-review.json''
              ''manifest.near_duplicate_review.path'') (\<lambda>near_path.
     bindE (load_json_file (files near_path) ''near-duplicate review'') (\<lambda>(near_review, near_bytes).
     bindE (item plain_digest near_binding ''sha256'' ''manifest.near_duplicate_review'') (\<lambda>digest.
     bindE (raise_if (digest \<noteq> sha256_bytes near_bytes)
              (ValueError ''near-duplicate review exact-byte SHA-256 mismatch'')) (\<lambda>_.
     bindE (find_near_duplicate_pairs u all_rows pilot) (\<lambda>expected_pairs.
     bindE (check_field near_approval ''computed_pairs'' (JInt (int (length expected_pairs)))
              ''near review pair count does not match approval'') (\<lambda>_.
     bindE (item as_string near_approval ''reviewer_id'' ''review approvals.near_duplicate_review'') (\<lambda>reviewer_id.
     validate_near_review near_review expected_pairs (Some reviewer_id))))))))))))"

definition formal_aggregate_json :: "string \<Rightarrow> json" where
  "formal_aggregate_json aggregate_bytes = JObj
     [(''cases'', JInt FORMAL_TOTAL_CASES), (''quality_cases'', JInt FORMAL_QUALITY_CASES),
      (''sha256'', JStr (sha256_bytes aggregate_bytes)), (''categories'', counts_json FORMAL_ALL_CATEGORIES),
      (''protected_included_in_overall_quality_rates'', JBool False),
      (''exact_pilot_overlap_cases'', JInt 0)]"

definition check_aggregate :: "obj \<Rightarrow> string \<Rightarrow> unit res" where
  "check_aggregate manifest aggregate_bytes =
     bindE (item as_object manifest ''aggregate'' ''manifest'') (\<lambda>aggregate.
     bindE (exact_fields aggregate [''cases'', ''quality_cases'', ''sha256'', ''categories'',
              ''protected_included_in_overall_quality_rates'', ''exact_pilot_overlap_cases''] ''manifest.aggregate'') (\<lambda>_.
     raise_if (\<not> pyeq (JObj aggregate) (formal_aggregate_json aggregate_bytes))
       (ValueError ''manifest aggregate does not match the exact v2 output'')))"

definition build_formal_aggregate ::
  "unicode \<Rightarrow> filesystem \<Rightarrow> string list \<Rightarrow> string list \<Rightarrow> string list \<Rightarrow> string res" where
  "build_formal_aggregate u files policy_path manifest_path pilot_manifest_path =
     bindE (validate_formal_policy (files policy_path) True (Some (path_name manifest_path))) (\<lambda>(policy, policy_bytes).
     bindE (load_json_file (files manifest_path) ''v2 corpus manifest'') (\<lambda>(manifest, _).
     bindE (exact_fields manifest manifest_fields ''v2 corpus manifest'') (\<lambda>_.
     bindE (check_field manifest ''schema'' (JStr ''hazkey.frozen-conversion-corpus-manifest.v2'')
              ''v2 corpus manifest schema mismatch'') (\<lambda>_.
     bindE (check_manifest_policy manifest (path_name policy_path) policy_bytes) (\<lambda>_.
     let base = butlast manifest_path in
     bindE (bound_approvals FORMAL_CONTRACTS files base manifest) (\<lambda>(approvals_by_id, near_approval).
     bindE (bound_pilot_rows u files pilot_manifest_path manifest policy) (\<lambda>pilot.
     bindE (formal_rows u files base FORMAL_CONTRACTS approvals_by_id manifest) (\<lambda>all_rows.
     bindE (raise_if (int (length all_rows) \<noteq> FORMAL_TOTAL_CASES
                      \<or> set (count_categories all_rows) \<noteq> set FORMAL_ALL_CATEGORIES)
              (ValueError ''formal aggregate counts do not match the 1,360-case policy'')) (\<lambda>_.
     bindE (check_no_overlap u all_rows pilot) (\<lambda>_.
     bindE (check_near_review u files base manifest near_approval all_rows pilot) (\<lambda>_.
     let aggregate_bytes = encode_rows all_rows in
     bindE (check_aggregate manifest aggregate_bytes) (\<lambda>_.
     Inr aggregate_bytes))))))))))))"

end
