(* ===== verification/Corpus_Sealed.thy ===== *)
theory Corpus_Sealed
  imports Corpus_Build
begin

text \<open>
  What the v2 corpus builder accepts: its loops with shared state are equivalent to conditions on
  each component alone together with uniqueness over the whole corpus, and the bytes it returns
  encode a corpus with every promise of the policy.
\<close>

section \<open>What the row loop admits\<close>

definition fresh_rows :: "unicode \<Rightarrow> FrozenRow list \<Rightarrow> string list \<Rightarrow> FormalSeen \<Rightarrow> bool" where
  "fresh_rows u rows families seen \<longleftrightarrow>
     distinct (map fr_id rows) \<and> set (map fr_id rows) \<inter> set (seen_case_ids seen) = {} \<and>
     distinct (map (\<lambda>r. canonical_reading u (fr_reading r)) rows) \<and>
     set (map (\<lambda>r. canonical_reading u (fr_reading r)) rows) \<inter> set (seen_readings seen) = {} \<and>
     distinct families \<and> set families \<inter> set (seen_families seen) = {}"

definition remember :: "unicode \<Rightarrow> FrozenRow list \<Rightarrow> string list \<Rightarrow> FormalSeen \<Rightarrow> FormalSeen" where
  "remember u rows families seen =
     \<lparr>seen_case_ids = rev (map fr_id rows) @ seen_case_ids seen,
      seen_readings = rev (map (\<lambda>r. canonical_reading u (fr_reading r)) rows) @ seen_readings seen,
      seen_families = rev families @ seen_families seen\<rparr>"

lemma fresh_rows_append:
  "fresh_rows u (rows @ rows') (families @ families') seen \<longleftrightarrow>
     fresh_rows u rows families seen \<and> fresh_rows u rows' families' (remember u rows families seen)"
  by (auto simp: fresh_rows_def remember_def)

lemma remember_append:
  "remember u (rows @ rows') (families @ families') seen = remember u rows' families' (remember u rows families seen)"
  by (simp add: remember_def)

lemma fresh_rows_Nil [simp]: "fresh_rows u [] [] seen"
  by (simp add: fresh_rows_def)

lemma remember_Nil [simp]: "remember u [] [] seen = seen"
  by (simp add: remember_def)

definition admitted_row :: "FormalContract \<Rightarrow> obj \<Rightarrow> nat \<Rightarrow> FrozenRow \<Rightarrow> obj \<Rightarrow> string \<Rightarrow> bool" where
  "admitted_row contract approval position r provenance family_id \<longleftrightarrow>
     text_of (fr_id r) = fc_prefix contract @ dec4 position \<and>
     (text_of (fr_category r) = ''protected'' \<or> fr_reading r \<notin> set (split_on 124 (fr_expected r))) \<and>
     validate_provenance_record provenance r (''provenance '' @ text_of (fr_id r)) (Some approval) = Inr family_id"

fun admitted_from ::
  "FormalContract \<Rightarrow> obj \<Rightarrow> nat \<Rightarrow> FrozenRow list \<Rightarrow> obj list \<Rightarrow> string list \<Rightarrow> bool" where
  "admitted_from contract approval n [] [] [] = True"
| "admitted_from contract approval n (r # rows) (d # ds) (f # fs) =
     (admitted_row contract approval n r d f \<and> admitted_from contract approval (Suc n) rows ds fs)"
| "admitted_from contract approval n _ _ _ = False"

lemma admitted_from_lengths:
  "admitted_from c a n rows ds fs \<Longrightarrow> length ds = length rows \<and> length fs = length rows"
  by (induction c a n rows ds fs rule: admitted_from.induct) auto

lemma check_formal_row_iff:
  "check_formal_row u c a (seen, families) (n, r, d) = Inr (seen', families') \<longleftrightarrow>
     (\<exists>f. admitted_row c a n r d f \<and> fresh_rows u [r] [f] seen \<and>
        seen' = remember u [r] [f] seen \<and> families' = families @ [f])"
  by (auto simp: check_formal_row_def Let_def admitted_row_def fresh_rows_def remember_def)

lemma check_formal_rows_from:
  assumes "length ds = length rows"
  shows "foldE (check_formal_row u c a) (seen, families) (zip [n..<n + length rows] (zip rows ds)) = Inr (seen', families') \<longleftrightarrow>
     (\<exists>fs. admitted_from c a n rows ds fs \<and> fresh_rows u rows fs seen \<and>
        seen' = remember u rows fs seen \<and> families' = families @ fs)"
  using assms
proof (induction rows arbitrary: n ds seen families)
  case Nil
  then show ?case by (auto elim: admitted_from.elims)
next
  case (Cons r rows)
  then obtain d ds' where ds: "ds = d # ds'" "length ds' = length rows" by (cases ds) auto
  have upt: "[n..<n + length (r # rows)] = n # [Suc n..<Suc n + length rows]"
    using upt_conv_Cons [of n "Suc n + length rows"] by (simp del: upt_Suc)
  have step: "fresh_rows u (r # rows) (f # fs) seen \<longleftrightarrow>
      fresh_rows u [r] [f] seen \<and> fresh_rows u rows fs (remember u [r] [f] seen)"
    "remember u (r # rows) (f # fs) seen = remember u rows fs (remember u [r] [f] seen)" for f fs seen
    using fresh_rows_append [of u "[r]" rows "[f]" fs] remember_append [of u "[r]" rows "[f]" fs] by simp_all
  have cons: "(\<exists>fs. admitted_from c a n (r # rows) (d # ds') fs \<and> P fs) \<longleftrightarrow>
      (\<exists>f fs. admitted_row c a n r d f \<and> admitted_from c a (Suc n) rows ds' fs \<and> P (f # fs))" for P
  proof
    assume "\<exists>fs. admitted_from c a n (r # rows) (d # ds') fs \<and> P fs"
    then obtain fs where "admitted_from c a n (r # rows) (d # ds') fs" "P fs" by blast
    then show "\<exists>f fs. admitted_row c a n r d f \<and> admitted_from c a (Suc n) rows ds' fs \<and> P (f # fs)"
      by (cases fs) auto
  next
    assume "\<exists>f fs. admitted_row c a n r d f \<and> admitted_from c a (Suc n) rows ds' fs \<and> P (f # fs)"
    then show "\<exists>fs. admitted_from c a n (r # rows) (d # ds') fs \<and> P fs"
      by (metis admitted_from.simps(2))
  qed
  show ?case (is "?l \<longleftrightarrow> ?r")
  proof
    assume ?l
    then obtain seen1 families1 where
      1: "check_formal_row u c a (seen, families) (n, r, d) = Inr (seen1, families1)" and
      2: "foldE (check_formal_row u c a) (seen1, families1) (zip [Suc n..<Suc n + length rows] (zip rows ds')) = Inr (seen', families')"
      unfolding ds upt by auto
    obtain f where f: "admitted_row c a n r d f" "fresh_rows u [r] [f] seen" "seen1 = remember u [r] [f] seen"
      "families1 = families @ [f]" using 1 unfolding check_formal_row_iff by blast
    obtain fs where "admitted_from c a (Suc n) rows ds' fs" "fresh_rows u rows fs seen1"
      "seen' = remember u rows fs seen1" "families' = families1 @ fs"
      using 2 unfolding Cons.IH [OF ds(2)] by blast
    then show ?r using f unfolding ds by (intro exI [of _ "f # fs"]) (simp add: step)
  next
    assume ?r
    then obtain f fs where f: "admitted_row c a n r d f" "admitted_from c a (Suc n) rows ds' fs"
      "fresh_rows u (r # rows) (f # fs) seen" "seen' = remember u (r # rows) (f # fs) seen" "families' = families @ f # fs"
      unfolding ds cons by blast
    have "check_formal_row u c a (seen, families) (n, r, d) = Inr (remember u [r] [f] seen, families @ [f])"
      unfolding check_formal_row_iff using f by (auto simp: step)
    moreover have "foldE (check_formal_row u c a) (remember u [r] [f] seen, families @ [f])
        (zip [Suc n..<Suc n + length rows] (zip rows ds')) = Inr (seen', families')"
      unfolding Cons.IH [OF ds(2)] using f by (auto simp: step)
    ultimately show ?l unfolding ds upt by simp
  qed
qed

lemma check_formal_rows_iff:
  assumes "length ds = length rows"
  shows "check_formal_rows u c a seen rows ds = Inr (seen', families) \<longleftrightarrow>
     admitted_from c a 1 rows ds families \<and> fresh_rows u rows families seen \<and> seen' = remember u rows families seen"
proof -
  have "[1..<Suc (length rows)] = [1..<1 + length rows]" by simp
  then show ?thesis
    unfolding check_formal_rows_def using check_formal_rows_from [OF assms, of u c a seen "[]" 1] by auto
qed

section \<open>Components without the shared state\<close>

definition component_part ::
  "unicode \<Rightarrow> filesystem \<Rightarrow> string list \<Rightarrow> (string \<times> obj) list \<Rightarrow> json \<times> FormalContract \<Rightarrow>
     FrozenRow list \<times> string list \<Rightarrow> bool" where
  "component_part u files base approvals_by_id = (\<lambda>(raw, contract) (rows, families).
     \<exists>approval component tsv provenance records family digest v.
       map_of approvals_by_id (fc_id contract) = Some approval \<and> raw = JObj component \<and>
       set (keys component) = {''id'', ''tsv'', ''provenance''} \<and>
       map_of component ''id'' = Some (JStr (fc_id contract)) \<and>
       map_of component ''tsv'' = Some (JObj tsv) \<and> map_of component ''provenance'' = Some (JObj provenance) \<and>
       formal_rows_of_tsv u files base contract approval tsv = Inr rows \<and>
       provenance_records files base contract provenance (length rows) = Inr records \<and>
       admitted_from contract approval 1 rows records families \<and>
       family_assignment_sha256 rows families = Inr digest \<and>
       map_of approval ''family_assignment'' = Some (JObj family) \<and>
       map_of family ''sha256'' = Some v \<and> pyeq v (JStr digest))"

lemma provenance_records_length:
  "provenance_records files base c d n = Inr records \<Longrightarrow> length records = n"
  by (auto simp: provenance_records_def Let_def)

lemma validate_formal_component_iff:
  "validate_formal_component u files base approvals (all_rows, seen) x = Inr (all_rows', seen') \<longleftrightarrow>
     (\<exists>rows families. component_part u files base approvals x (rows, families) \<and>
        fresh_rows u rows families seen \<and> all_rows' = all_rows @ rows \<and> seen' = remember u rows families seen)"
  (is "?l \<longleftrightarrow> ?r")
proof -
  obtain raw c where x: "x = (raw, c)" by (cases x)
  show ?thesis
  proof
    assume ?l
    then obtain approval component tsv rows provenance records families digest family v where
      "map_of approvals (fc_id c) = Some approval" "raw = JObj component"
      "set (keys component) = {''id'', ''tsv'', ''provenance''}"
      "map_of component ''id'' = Some (JStr (fc_id c))"
      "map_of component ''tsv'' = Some (JObj tsv)" "map_of component ''provenance'' = Some (JObj provenance)"
      "formal_rows_of_tsv u files base c approval tsv = Inr rows" and
      p: "provenance_records files base c provenance (length rows) = Inr records" and
      q: "check_formal_rows u c approval seen rows records = Inr (seen', families)" and
      "family_assignment_sha256 rows families = Inr digest"
      "map_of approval ''family_assignment'' = Some (JObj family)"
      "map_of family ''sha256'' = Some v" "pyeq v (JStr digest)" "all_rows' = all_rows @ rows"
      unfolding x validate_formal_component_def Let_def
      by (auto split: option.splits)
    then show ?r
      using q unfolding x component_part_def check_formal_rows_iff [OF provenance_records_length [OF p]] split_conv
      by blast
  next
    assume ?r
    then obtain rows families approval component tsv provenance records family digest v where
      h: "map_of approvals (fc_id c) = Some approval" "raw = JObj component"
      "set (keys component) = {''id'', ''tsv'', ''provenance''}"
      "map_of component ''id'' = Some (JStr (fc_id c))"
      "map_of component ''tsv'' = Some (JObj tsv)" "map_of component ''provenance'' = Some (JObj provenance)"
      "formal_rows_of_tsv u files base c approval tsv = Inr rows" and
      p: "provenance_records files base c provenance (length rows) = Inr records" and
      q: "admitted_from c approval 1 rows records families" "fresh_rows u rows families seen" and
      g: "family_assignment_sha256 rows families = Inr digest"
      "map_of approval ''family_assignment'' = Some (JObj family)"
      "map_of family ''sha256'' = Some v" "pyeq v (JStr digest)" "all_rows' = all_rows @ rows"
      "seen' = remember u rows families seen"
      unfolding x component_part_def split_conv by (elim exE conjE)
    have "check_formal_rows u c approval seen rows records = Inr (seen', families)"
      unfolding check_formal_rows_iff [OF provenance_records_length [OF p]] using q g by simp
    then show ?l
      using h p g unfolding x validate_formal_component_def Let_def by auto
  qed
qed


lemma components_iff:
  "foldE (validate_formal_component u files base approvals) (all_rows, seen) xs = Inr (all_rows', seen') \<longleftrightarrow>
     (\<exists>parts. list_all2 (component_part u files base approvals) xs parts \<and>
        fresh_rows u (concat (map fst parts)) (concat (map snd parts)) seen \<and>
        all_rows' = all_rows @ concat (map fst parts) \<and>
        seen' = remember u (concat (map fst parts)) (concat (map snd parts)) seen)"
proof (induction xs arbitrary: all_rows seen)
  case Nil
  then show ?case by auto
next
  case (Cons x xs)
  have cons: "(\<exists>parts. list_all2 (component_part u files base approvals) (x # xs) parts \<and> P parts) \<longleftrightarrow>
      (\<exists>rows fs parts. component_part u files base approvals x (rows, fs) \<and>
         list_all2 (component_part u files base approvals) xs parts \<and> P ((rows, fs) # parts))" for P
    by (auto simp: list_all2_Cons1)
  show ?case (is "?l \<longleftrightarrow> ?r")
  proof
    assume ?l
    then obtain rows1 seen1 where
      1: "validate_formal_component u files base approvals (all_rows, seen) x = Inr (rows1, seen1)" and
      2: "foldE (validate_formal_component u files base approvals) (rows1, seen1) xs = Inr (all_rows', seen')"
      by auto
    obtain rows fs where r: "component_part u files base approvals x (rows, fs)" "fresh_rows u rows fs seen"
      "rows1 = all_rows @ rows" "seen1 = remember u rows fs seen"
      using 1 unfolding validate_formal_component_iff by (elim exE conjE)
    obtain parts where "list_all2 (component_part u files base approvals) xs parts"
      "fresh_rows u (concat (map fst parts)) (concat (map snd parts)) seen1"
      "all_rows' = rows1 @ concat (map fst parts)"
      "seen' = remember u (concat (map fst parts)) (concat (map snd parts)) seen1"
      using 2 unfolding Cons.IH by (elim exE conjE)
    then show ?r
      using r by (intro exI [of _ "(rows, fs) # parts"]) (simp add: fresh_rows_append remember_append)
  next
    assume ?r
    then obtain rows fs parts where r: "component_part u files base approvals x (rows, fs)"
      "list_all2 (component_part u files base approvals) xs parts"
      "fresh_rows u (rows @ concat (map fst parts)) (fs @ concat (map snd parts)) seen"
      "all_rows' = all_rows @ rows @ concat (map fst parts)"
      "seen' = remember u (rows @ concat (map fst parts)) (fs @ concat (map snd parts)) seen"
      unfolding cons by auto
    have "validate_formal_component u files base approvals (all_rows, seen) x =
        Inr (all_rows @ rows, remember u rows fs seen)"
      unfolding validate_formal_component_iff using r by (auto simp: fresh_rows_append)
    moreover have "foldE (validate_formal_component u files base approvals)
        (all_rows @ rows, remember u rows fs seen) xs = Inr (all_rows', seen')"
      unfolding Cons.IH using r by (auto simp: fresh_rows_append remember_append)
    ultimately show ?l by simp
  qed
qed

text \<open>Uniqueness over the whole corpus, without the sets the loops remember.\<close>

definition unique_cases :: "unicode \<Rightarrow> FrozenRow list \<Rightarrow> string list \<Rightarrow> bool" where
  "unique_cases u rows families \<longleftrightarrow>
     distinct (map fr_id rows) \<and> distinct (map (\<lambda>r. canonical_reading u (fr_reading r)) rows) \<and> distinct families"

lemma formal_rows_parts:
  "formal_rows u files base contracts approvals manifest = Inr rows \<longleftrightarrow>
     (\<exists>raw parts. map_of manifest ''components'' = Some (JArr raw) \<and> length raw = length contracts \<and>
        list_all2 (component_part u files base approvals) (zip raw contracts) parts \<and>
        rows = concat (map fst parts) \<and> unique_cases u rows (concat (map snd parts)))"
  (is "?l \<longleftrightarrow> ?r")
proof
  assume ?l
  then obtain raw seen where "map_of manifest ''components'' = Some (JArr raw)" "length raw = length contracts"
    "foldE (validate_formal_component u files base approvals)
       ([], \<lparr>seen_case_ids = [], seen_readings = [], seen_families = []\<rparr>) (zip raw contracts) = Inr (rows, seen)"
    unfolding formal_rows_def by auto
  then show ?r unfolding components_iff unique_cases_def fresh_rows_def by auto
next
  assume ?r
  then obtain raw parts where r: "map_of manifest ''components'' = Some (JArr raw)" "length raw = length contracts"
    "list_all2 (component_part u files base approvals) (zip raw contracts) parts"
    "rows = concat (map fst parts)" "unique_cases u rows (concat (map snd parts))" by (elim exE conjE)
  have "\<exists>seen. foldE (validate_formal_component u files base approvals)
       ([], \<lparr>seen_case_ids = [], seen_readings = [], seen_families = []\<rparr>) (zip raw contracts) = Inr (rows, seen)"
    using r unfolding components_iff unique_cases_def fresh_rows_def by auto
  then show ?l using r unfolding formal_rows_def by auto
qed

section \<open>Provenance\<close>

lemma require_boolean_iff [simp]:
  "require_boolean d k b ctx m = Inr x \<longleftrightarrow> map_of d k = Some (JBool b)"
  by (auto simp: require_boolean_def)

lemma review_identifier_lower:
  assumes "review_identifier_pattern s" shows "lower_ascii s = s"
proof -
  have "\<not> (65 \<le> code c \<and> code c \<le> 90)" if "c \<in> set s" for c
  proof -
    have "identifier_start c \<or> c \<in> set ''._:-''"
      using assms that unfolding review_identifier_pattern_def by (cases s) (auto simp: list_all_iff)
    then show ?thesis by (auto simp: identifier_start_def is_digit_def code_def)
  qed
  then show ?thesis by (auto simp: lower_ascii_def intro!: map_idI)
qed

definition approved_for :: "obj \<Rightarrow> string \<Rightarrow> string \<Rightarrow> string \<Rightarrow> bool" where
  "approved_for a source_id author_id reviewer_id \<longleftrightarrow>
     map_of a ''source_id'' = Some (JStr source_id) \<and> map_of a ''author_id'' = Some (JStr author_id) \<and>
     map_of a ''reviewer_id'' = Some (JStr reviewer_id)"

section \<open>Overlap with the pilot corpus\<close>

lemma overlaps_pilot_iff:
  "overlaps_pilot u readings prints r = Inr b \<longleftrightarrow>
     (if canonical_reading u (fr_reading r) \<in> readings then b = True
      else (\<exists>f. case_fingerprint u r = Inr f \<and> b = (f \<in> prints)))"
  by (auto simp: overlaps_pilot_def)


definition new_to_pilot :: "unicode \<Rightarrow> FrozenRow list \<Rightarrow> FrozenRow \<Rightarrow> bool" where
  "new_to_pilot u pilot r \<longleftrightarrow>
     canonical_reading u (fr_reading r) \<notin> (\<lambda>p. canonical_reading u (fr_reading p)) ` set pilot \<and>
     (\<exists>f. case_fingerprint u r = Inr f \<and> Inr f \<notin> case_fingerprint u ` set pilot)"

lemma mapE_set:
  assumes "mapE f xs = Inr ys" shows "Inr ` set ys = f ` set xs"
proof -
  have "map Inr ys = map f xs" using assms by (induction xs arbitrary: ys) auto
  then show ?thesis by (metis set_map)
qed

lemma mapE_none_flagged:
  "(\<exists>flags. mapE f rows = Inr flags \<and> set (map fst (filter snd (zip (map g rows) flags))) = {}) \<longleftrightarrow>
     list_all (\<lambda>r. f r = Inr False) rows"
proof (induction rows)
  case (Cons r rows)
  have "set (map fst (filter snd (zip (map g (r # rows)) (b # flags)))) = {} \<longleftrightarrow>
      \<not> b \<and> set (map fst (filter snd (zip (map g rows) flags))) = {}" for b flags
    by (cases b) simp_all
  then have "(\<exists>flags. mapE f (r # rows) = Inr flags \<and> set (map fst (filter snd (zip (map g (r # rows)) flags))) = {}) \<longleftrightarrow>
      f r = Inr False \<and> (\<exists>flags. mapE f rows = Inr flags \<and> set (map fst (filter snd (zip (map g rows) flags))) = {})"
    by (cases "f r") (auto simp del: filter.simps zip_Cons_Cons list.map list.set set_map image_insert)
  then show ?case using Cons by simp
qed simp

lemma check_no_overlap_iff:
  "check_no_overlap u rows pilot = Inr x \<longleftrightarrow>
     (\<exists>prints. mapE (case_fingerprint u) pilot = Inr prints) \<and> list_all (new_to_pilot u pilot) rows"
proof -
  let ?readings = "(\<lambda>p. canonical_reading u (fr_reading p)) ` set pilot"
  have new: "list_all (\<lambda>r. overlaps_pilot u ?readings (set prints) r = Inr False) rows \<longleftrightarrow> list_all (new_to_pilot u pilot) rows"
    if prints: "mapE (case_fingerprint u) pilot = Inr prints" for prints
    unfolding new_to_pilot_def overlaps_pilot_iff mapE_set [OF prints, symmetric]
    by (intro list_all_cong refl) auto
  have "check_no_overlap u rows pilot = Inr x \<longleftrightarrow>
      (\<exists>prints. mapE (case_fingerprint u) pilot = Inr prints \<and>
         list_all (\<lambda>r. overlaps_pilot u ?readings (set prints) r = Inr False) rows)"
    unfolding check_no_overlap_def Let_def mapE_none_flagged [where g = fr_id, symmetric] by simp
  then show ?thesis using new by blast
qed

section \<open>The sealed corpus\<close>

lemma formal_rows_of_tsv_iff:
  "formal_rows_of_tsv u files base c approval tsv = Inr rows \<longleftrightarrow>
     set (keys tsv) = {''path'', ''sha256'', ''cases''} \<and>
     (\<exists>raw path data v. map_of tsv ''path'' = Some raw \<and>
        resolve_component_path base raw (fc_tsv_path c) (''component '' @ fc_id c @ ''.tsv.path'') = Inr path \<and>
        read_formal_file (files path) (''component '' @ fc_id c @ '' TSV'') = Inr data \<and>
        map_of tsv ''sha256'' = Some (JStr (sha256_bytes data)) \<and> \<not> has_control (sha256_bytes data) \<and>
        map_of approval ''tsv_sha256'' = Some v \<and> pyeq v (JStr (sha256_bytes data)) \<and>
        map_of tsv ''cases'' = Some (JInt (fc_cases c)) \<and> 0 < fc_cases c \<and>
        parse_tsv u data (''component '' @ fc_id c @ '' TSV'') = Inr rows \<and> int (length rows) = fc_cases c \<and>
        set (count_categories rows) = {(fc_category c, fc_cases c)})"
  by (auto simp: formal_rows_of_tsv_def Let_def plain_digest_def)

lemma component_part_rows:
  assumes "component_part u files base approvals (raw, c) (rows, families)"
  shows "int (length rows) = fc_cases c"
    "r \<in> set rows \<Longrightarrow> row_ok u r \<and> (\<forall>s \<in> set (row_texts r). encodable s)"
proof -
  obtain approval tsv where "formal_rows_of_tsv u files base c approval tsv = Inr rows"
    using assms unfolding component_part_def by auto
  then obtain data where parsed: "int (length rows) = fc_cases c" "parse_tsv u data (''component '' @ fc_id c @ '' TSV'') = Inr rows"
    unfolding formal_rows_of_tsv_iff by (elim exE conjE)
  show "int (length rows) = fc_cases c" by (rule parsed(1))
  show "r \<in> set rows \<Longrightarrow> row_ok u r \<and> (\<forall>s \<in> set (row_texts r). encodable s)"
    using parsed_rows_encodable [OF parsed(2)] by blast
qed

lemma parts_rows_ok:
  "list_all2 (component_part u files base approvals) xs parts \<Longrightarrow> r \<in> set (concat (map fst parts)) \<Longrightarrow>
     row_ok u r \<and> (\<forall>s \<in> set (row_texts r). encodable s)"
proof (induction rule: list_all2_induct)
  case (Cons x xs part parts)
  then show ?case using component_part_rows(2) [of u files base approvals] by (cases x; cases part) auto
qed simp

text \<open>
  What the returned bytes are: the encoding of 1,360 rows that parse back, each with a provenance
  that one reviewed approval covers, no two with one id, reading or family, none of them a case of
  the pilot, and with a closed review of exactly the near pairs that the full comparison finds.
\<close>

definition sealed_corpus ::
  "unicode \<Rightarrow> filesystem \<Rightarrow> string list \<Rightarrow> obj \<Rightarrow> FrozenRow list \<Rightarrow> FrozenRow list \<Rightarrow> string \<Rightarrow> bool" where
  "sealed_corpus u files base manifest rows pilot bytes \<longleftrightarrow>
     bytes = encode_rows rows \<and> parse_tsv u bytes ''aggregate'' = Inr rows \<and>
     int (length rows) = FORMAL_TOTAL_CASES \<and> set (count_categories rows) = set FORMAL_ALL_CATEGORIES \<and>
     list_all (new_to_pilot u pilot) rows \<and>
     (\<exists>approvals near_approval raw parts review reviewer.
        bound_approvals FORMAL_CONTRACTS files base manifest = Inr (approvals, near_approval) \<and>
        map_of manifest ''components'' = Some (JArr raw) \<and>
        list_all2 (component_part u files base approvals) (zip raw FORMAL_CONTRACTS) parts \<and>
        rows = concat (map fst parts) \<and> unique_cases u rows (concat (map snd parts)) \<and>
        map_of near_approval ''reviewer_id'' = Some (JStr reviewer) \<and>
        validate_near_review review
          (all_near_pairs (near_texts u [] rows) (near_texts u ''pilot-v1:'' pilot)) (Some reviewer) = Inr ()) \<and>
     (\<exists>aggregate. map_of manifest ''aggregate'' = Some (JObj aggregate) \<and>
        pyeq (JObj aggregate) (formal_aggregate_json bytes))"

lemma build_formal_aggregate_sound:
  assumes "build_formal_aggregate u files policy_path manifest_path pilot_path = Inr bytes"
  shows "\<exists>manifest data rows policy pilot.
     load_json_file (files manifest_path) ''v2 corpus manifest'' = Inr (manifest, data) \<and>
     bound_pilot_rows u files pilot_path manifest policy = Inr pilot \<and>
     sealed_corpus u files (butlast manifest_path) manifest rows pilot bytes"
proof -
  let ?base = "butlast manifest_path"
  from assms obtain policy policy_bytes manifest data approvals near_approval pilot rows where
    m: "load_json_file (files manifest_path) ''v2 corpus manifest'' = Inr (manifest, data)" and
    q: "bound_approvals FORMAL_CONTRACTS files ?base manifest = Inr (approvals, near_approval)" and
    p: "bound_pilot_rows u files pilot_path manifest policy = Inr pilot" and
    r: "formal_rows u files ?base FORMAL_CONTRACTS approvals manifest = Inr rows" and
    n: "int (length rows) = FORMAL_TOTAL_CASES" "set (count_categories rows) = set FORMAL_ALL_CATEGORIES" and
    o: "check_no_overlap u rows pilot = Inr ()" and
    c: "check_near_review u files ?base manifest near_approval rows pilot = Inr ()" and
    a: "check_aggregate manifest (encode_rows rows) = Inr ()" and b: "bytes = encode_rows rows"
    unfolding build_formal_aggregate_def Let_def by auto
  obtain raw parts where parts: "map_of manifest ''components'' = Some (JArr raw)"
    "list_all2 (component_part u files ?base approvals) (zip raw FORMAL_CONTRACTS) parts"
    "rows = concat (map fst parts)" "unique_cases u rows (concat (map snd parts))"
    using r unfolding formal_rows_parts by (elim exE conjE)
  have "parse_tsv u bytes ''aggregate'' = Inr rows"
    unfolding b using parts_rows_ok [OF parts(2)] unfolding parts(3) by (intro parse_encode_rows) blast+
  moreover have "list_all (new_to_pilot u pilot) rows" using o unfolding check_no_overlap_iff by blast
  moreover have "\<exists>review reviewer. map_of near_approval ''reviewer_id'' = Some (JStr reviewer) \<and>
      validate_near_review review
      (all_near_pairs (near_texts u [] rows) (near_texts u ''pilot-v1:'' pilot)) (Some reviewer) = Inr ()"
  proof -
    from c obtain review reviewer expected where
      "map_of near_approval ''reviewer_id'' = Some (JStr reviewer)" "find_near_duplicate_pairs u rows pilot = Inr expected" "validate_near_review review expected (Some reviewer) = Inr ()"
      unfolding check_near_review_def by auto
    then show ?thesis unfolding find_near_eq Let_def by (auto split: if_splits)
  qed
  moreover have "\<exists>aggregate. map_of manifest ''aggregate'' = Some (JObj aggregate) \<and>
      pyeq (JObj aggregate) (formal_aggregate_json bytes)"
    using a unfolding check_aggregate_def b by auto
  ultimately show ?thesis using m q p n parts b unfolding sealed_corpus_def by blast
qed

section \<open>Exact conditions\<close>

definition names_identifier :: "obj \<Rightarrow> string \<Rightarrow> string \<Rightarrow> bool" where
  "names_identifier d k s \<longleftrightarrow> map_of d k = Some (JStr s) \<and> \<not> has_control s \<and> review_identifier_pattern s"

definition names_digest :: "obj \<Rightarrow> string \<Rightarrow> string \<Rightarrow> bool" where
  "names_digest d k s \<longleftrightarrow> map_of d k = Some (JStr s) \<and> s \<noteq> [] \<and> \<not> has_control s \<and> sha256_pattern s"

lemma item_review_identifier [simp]: "item review_identifier d k ctx = Inr s \<longleftrightarrow> names_identifier d k s"
  by (auto simp: names_identifier_def)

lemma item_plain_digest [simp]: "item plain_digest d k ctx = Inr s \<longleftrightarrow> names_digest d k s"
  by (auto simp: names_digest_def plain_digest_def)

lemma item_as_object [simp]: "item as_object d k ctx = Inr x \<longleftrightarrow> map_of d k = Some (JObj x)"
  by auto

lemma names_identifier_lower: "names_identifier d k s \<Longrightarrow> lower_ascii s = s"
  by (simp add: names_identifier_def review_identifier_lower)

definition approval_given :: "FormalContract \<Rightarrow> obj \<Rightarrow> bool" where
  "approval_given c approval \<longleftrightarrow>
     set (keys approval) = {''id'', ''status'', ''tsv_sha256'', ''source_id'', ''author_id'', ''reviewer_id'',
       ''redistribution_approved'', ''privacy_reviewed'', ''family_assignment''} \<and>
     map_of approval ''id'' = Some (JStr (fc_id c)) \<and> map_of approval ''status'' = Some (JStr ''approved'') \<and>
     map_of approval ''redistribution_approved'' = Some (JBool True) \<and>
     map_of approval ''privacy_reviewed'' = Some (JBool True) \<and>
     (\<exists>digest source_id author_id reviewer_id family family_digest.
        names_digest approval ''tsv_sha256'' digest \<and> names_identifier approval ''source_id'' source_id \<and>
        names_identifier approval ''author_id'' author_id \<and> names_identifier approval ''reviewer_id'' reviewer_id \<and>
        author_id \<noteq> reviewer_id \<and>
        map_of approval ''family_assignment'' = Some (JObj family) \<and> set (keys family) = {''contract'', ''sha256''} \<and>
        map_of family ''contract'' = Some (JStr FAMILY_ASSIGNMENT_CONTRACT) \<and>
        names_digest family ''sha256'' family_digest)"

lemma check_approval_iff: "check_approval c raw = Inr approval \<longleftrightarrow> raw = JObj approval \<and> approval_given c approval"
proof
  assume "check_approval c raw = Inr approval"
  then show "raw = JObj approval \<and> approval_given c approval"
    unfolding check_approval_def Let_def approval_given_def
    by (simp del: item_iff) (elim exE conjE, hypsubst, intro conjI exI, (assumption | rule refl | rule notI, simp)+)
next
  assume "raw = JObj approval \<and> approval_given c approval"
  then show "check_approval c raw = Inr approval"
    unfolding check_approval_def Let_def approval_given_def
    by (simp del: item_iff) (elim exE conjE, intro conjI exI, (assumption | simp add: names_identifier_lower)+)
qed

definition source_ok :: "obj \<Rightarrow> FrozenRow \<Rightarrow> string \<Rightarrow> string \<Rightarrow> string \<Rightarrow> bool" where
  "source_ok source r family_id source_id author_id \<longleftrightarrow>
     set (keys source) = {''kind'', ''source_id'', ''author_id'', ''locator_sha256'', ''license'', ''new_holdout''} \<and>
     map_of source ''kind'' = Some (JStr ''project-authored'') \<and> map_of source ''license'' = Some (JStr ''MIT'') \<and>
     map_of source ''new_holdout'' = Some (JBool True) \<and>
     names_identifier source ''source_id'' source_id \<and> names_identifier source ''author_id'' author_id \<and>
     \<not> list_ex (\<lambda>token. occurs_in token source_id) FORBIDDEN_SOURCE_TOKENS \<and>
     (\<exists>locator. names_digest source ''locator_sha256'' locator \<and> case_locator_sha256 r family_id = Inr locator)"

lemma check_source_iff:
  "check_source source r family_id ctx = Inr (source_id, author_id) \<longleftrightarrow>
     source_ok source r family_id source_id author_id"
  unfolding check_source_def source_ok_def
  by (simp del: item_iff) (rule iffI; elim exE conjE; simp add: names_identifier_lower; blast)

definition rights_ok :: "obj \<Rightarrow> string \<Rightarrow> bool" where
  "rights_ok rights reviewer_id \<longleftrightarrow>
     set (keys rights) = {''redistribution_approved'', ''privacy_reviewed'', ''reviewer_id''} \<and>
     map_of rights ''redistribution_approved'' = Some (JBool True) \<and>
     map_of rights ''privacy_reviewed'' = Some (JBool True) \<and> names_identifier rights ''reviewer_id'' reviewer_id"

lemma check_rights_iff:
  "check_rights rights author_id ctx = Inr reviewer_id \<longleftrightarrow>
     rights_ok rights reviewer_id \<and> lower_ascii author_id \<noteq> reviewer_id"
  unfolding check_rights_def rights_ok_def
  by (simp del: item_iff) (rule iffI; elim exE conjE; simp add: names_identifier_lower)

definition exposure_sealed :: "obj \<Rightarrow> bool" where
  "exposure_sealed exposure \<longleftrightarrow>
     set (keys exposure) = {''status'', ''eligible_candidate_ids'', ''disclosed_before_candidate_freezes''} \<and>
     map_of exposure ''status'' = Some (JStr ''sealed-for-b0-b1'') \<and>
     (\<exists>v. map_of exposure ''eligible_candidate_ids'' = Some v \<and> pyeq v ELIGIBLE_CANDIDATE_IDS) \<and>
     map_of exposure ''disclosed_before_candidate_freezes'' = Some (JBool False)"

definition screened :: "obj \<Rightarrow> bool" where
  "screened contamination \<longleftrightarrow>
     set (keys contamination) = {''status'', ''screened_against''} \<and>
     map_of contamination ''status'' = Some (JStr ''no-known-overlap'') \<and>
     (\<exists>v. map_of contamination ''screened_against'' = Some v \<and> pyeq v REQUIRED_CONTAMINATION_SCREENS)"

lemma check_exposure_iff: "check_exposure exposure ctx = Inr x \<longleftrightarrow> exposure_sealed exposure"
  by (auto simp: check_exposure_def exposure_sealed_def)

lemma check_contamination_iff: "check_contamination contamination ctx = Inr x \<longleftrightarrow> screened contamination"
  by (auto simp: check_contamination_def screened_def)

lemma check_approved_identities_iff:
  "check_approved_identities (Some a) source_id author_id reviewer_id ctx = Inr x \<longleftrightarrow>
     approved_for a source_id author_id reviewer_id"
  by (auto simp: check_approved_identities_def approved_for_def Let_def)

definition provenance_ok :: "obj \<Rightarrow> FrozenRow \<Rightarrow> obj \<Rightarrow> string \<Rightarrow> bool" where
  "provenance_ok d r approval family_id \<longleftrightarrow>
     set (keys d) = {''schema'', ''case_id'', ''family_id'', ''source'', ''rights'', ''exposure'', ''contamination''} \<and>
     map_of d ''schema'' = Some (JStr PROVENANCE_SCHEMA) \<and>
     map_of d ''case_id'' = Some (JStr (text_of (fr_id r))) \<and>
     map_of d ''family_id'' = Some (JStr family_id) \<and> family_id \<noteq> [] \<and> \<not> has_control family_id \<and>
     (\<exists>source rights exposure contamination source_id author_id reviewer_id.
        map_of d ''source'' = Some (JObj source) \<and> source_ok source r family_id source_id author_id \<and>
        map_of d ''rights'' = Some (JObj rights) \<and> rights_ok rights reviewer_id \<and> author_id \<noteq> reviewer_id \<and>
        approved_for approval source_id author_id reviewer_id \<and>
        map_of d ''exposure'' = Some (JObj exposure) \<and> exposure_sealed exposure \<and>
        map_of d ''contamination'' = Some (JObj contamination) \<and> screened contamination)"

lemma provenance_record_iff:
  "validate_provenance_record d r ctx (Some approval) = Inr family_id \<longleftrightarrow> provenance_ok d r approval family_id"
proof -
  have lower: "source_ok source r f sid author \<Longrightarrow> lower_ascii author = author" for source f sid author
    unfolding source_ok_def by (blast intro: names_identifier_lower)
  show ?thesis
  proof
    assume "validate_provenance_record d r ctx (Some approval) = Inr family_id"
    then show "provenance_ok d r approval family_id"
      unfolding validate_provenance_record_def provenance_ok_def
      by (simp add: check_source_iff check_rights_iff check_exposure_iff check_contamination_iff check_approved_identities_iff)
        (elim exE conjE, (hypsubst)?, intro conjI exI, (assumption | rule refl | simp add: lower)+)
  next
    assume "provenance_ok d r approval family_id"
    then show "validate_provenance_record d r ctx (Some approval) = Inr family_id"
      unfolding validate_provenance_record_def provenance_ok_def
      by (simp add: check_source_iff check_rights_iff check_exposure_iff check_contamination_iff check_approved_identities_iff)
        (elim exE conjE, (hypsubst)?, intro conjI exI, (assumption | rule refl | simp add: lower)+)
  qed
qed

end
