(* ===== verification/Corpus_Reader.thy ===== *)
theory Corpus_Reader
  imports Quality_Evaluate Corpus_Text
begin

text \<open>
  The corpus reader of \<open>evaluate_conversion_quality.py\<close>: \<open>io.StringIO(text, newline="")\<close>, the state
  machine of \<open>csv.reader\<close> for the default dialect with a tab as delimiter, \<open>csv.DictReader\<close>, and
  \<open>load_corpus_bytes\<close> on the bytes of a file.
\<close>

section \<open>Lines\<close>

text \<open>With \<open>newline=""\<close> a line ends with a line feed, a carriage return, or both, and keeps its end.\<close>

function text_lines :: "codes \<Rightarrow> codes list" where
  "text_lines [] = []"
| "text_lines (c # s) =
     (if c = 10 then [10] # text_lines s
      else if c = 13 then (if take 1 s = [10] then [13, 10] # text_lines (tl s) else [13] # text_lines s)
      else case text_lines s of [] \<Rightarrow> [[c]] | l # ls \<Rightarrow> (c # l) # ls)"
  by pat_completeness auto
termination by (relation "measure length") auto

section \<open>The state machine of the reader\<close>

datatype csv_state =
  START_RECORD | START_FIELD | IN_FIELD | IN_QUOTED_FIELD | QUOTE_IN_QUOTED_FIELD | EAT_CRNL

record CsvReader =
  csv_state :: csv_state
  csv_fields :: "codes list"
  csv_field :: codes

definition csv_start :: CsvReader where
  "csv_start = \<lparr>csv_state = START_RECORD, csv_fields = [], csv_field = []\<rparr>"

definition FIELD_LIMIT :: nat where
  "FIELD_LIMIT = 131072"

definition save_field :: "csv_state \<Rightarrow> CsvReader \<Rightarrow> CsvReader" where
  "save_field next_state r =
     \<lparr>csv_state = next_state, csv_fields = csv_fields r @ [csv_field r], csv_field = []\<rparr>"

definition add_char :: "csv_state \<Rightarrow> nat \<Rightarrow> CsvReader \<Rightarrow> CsvReader res" where
  "add_char next_state c r =
     (if FIELD_LIMIT \<le> length (csv_field r) then Inl CsvError
      else Inr (r\<lparr>csv_state := next_state, csv_field := csv_field r @ [c]\<rparr>))"

text \<open>One character, or \<open>None\<close> for the end of a line of the input.\<close>

definition start_field :: "CsvReader \<Rightarrow> nat option \<Rightarrow> CsvReader res" where
  "start_field r c =
     (case c of
        None \<Rightarrow> Inr (save_field START_RECORD r)
      | Some a \<Rightarrow>
          if a = 10 \<or> a = 13 then Inr (save_field EAT_CRNL r)
          else if a = 34 then Inr (r\<lparr>csv_state := IN_QUOTED_FIELD\<rparr>)
          else if a = 9 then Inr (save_field START_FIELD r)
          else add_char IN_FIELD a r)"

definition process_char :: "CsvReader \<Rightarrow> nat option \<Rightarrow> CsvReader res" where
  "process_char r c =
     (case csv_state r of
        START_RECORD \<Rightarrow>
          if c = None then Inr r
          else if c = Some 10 \<or> c = Some 13 then Inr (r\<lparr>csv_state := EAT_CRNL\<rparr>)
          else start_field (r\<lparr>csv_state := START_FIELD\<rparr>) c
      | START_FIELD \<Rightarrow> start_field r c
      | IN_FIELD \<Rightarrow>
          (case c of
             None \<Rightarrow> Inr (save_field START_RECORD r)
           | Some a \<Rightarrow>
               if a = 10 \<or> a = 13 then Inr (save_field EAT_CRNL r)
               else if a = 9 then Inr (save_field START_FIELD r)
               else add_char IN_FIELD a r)
      | IN_QUOTED_FIELD \<Rightarrow>
          (case c of
             None \<Rightarrow> Inr r
           | Some a \<Rightarrow>
               if a = 34 then Inr (r\<lparr>csv_state := QUOTE_IN_QUOTED_FIELD\<rparr>)
               else add_char IN_QUOTED_FIELD a r)
      | QUOTE_IN_QUOTED_FIELD \<Rightarrow>
          (case c of
             None \<Rightarrow> Inr (save_field START_RECORD r)
           | Some a \<Rightarrow>
               if a = 34 then add_char IN_QUOTED_FIELD a r
               else if a = 9 then Inr (save_field START_FIELD r)
               else if a = 10 \<or> a = 13 then Inr (save_field EAT_CRNL r)
               else add_char IN_FIELD a r)
      | EAT_CRNL \<Rightarrow>
          (case c of
             None \<Rightarrow> Inr (r\<lparr>csv_state := START_RECORD\<rparr>)
           | Some a \<Rightarrow> if a = 10 \<or> a = 13 then Inr r else Inl CsvError))"

definition process_line :: "CsvReader \<Rightarrow> codes \<Rightarrow> CsvReader res" where
  "process_line r line = foldE process_char r (map Some line @ [None])"

text \<open>A record ends where a line leaves the reader at the start of a record; a quoted field that is
  still open at the end of the input is closed there.\<close>

fun csv_records :: "CsvReader \<Rightarrow> codes list \<Rightarrow> codes list list res" where
  "csv_records r [] =
     Inr (if csv_field r \<noteq> [] \<or> csv_state r = IN_QUOTED_FIELD then [csv_fields r @ [csv_field r]] else [])"
| "csv_records r (line # lines) =
     bindE (process_line r line) (\<lambda>r'.
     if csv_state r' = START_RECORD
     then bindE (csv_records csv_start lines) (\<lambda>records. Inr (csv_fields r' # records))
     else csv_records r' lines)"

section \<open>Rows\<close>

text \<open>
  \<open>dict(zip(fieldnames, record))\<close>, absent cells being \<open>None\<close>.  Cells beyond the header are collected
  under the key \<open>None\<close>, which no check reads.
\<close>

definition dict_row :: "codes list \<Rightarrow> codes list \<Rightarrow> row" where
  "dict_row fieldnames record =
     foldl (\<lambda>d (k, v). dict_set (text_of k) v d) []
       (zip fieldnames (map (\<lambda>v. Some (text_of v)) record @ replicate (length fieldnames - length record) None))"

text \<open>The first record holds the names, even when it is empty; later empty records are skipped.\<close>

definition dict_rows :: "codes \<Rightarrow> row list res" where
  "dict_rows contents =
     bindE (csv_records csv_start (text_lines contents)) (\<lambda>records.
     case records of
       [] \<Rightarrow> Inr []
     | fieldnames # rest \<Rightarrow> Inr (map (dict_row fieldnames) (filter (\<lambda>r. r \<noteq> []) rest)))"

definition load_corpus_bytes :: "string \<Rightarrow> string \<Rightarrow> CorpusRow list res" where
  "load_corpus_bytes data ctx =
     (case utf8_decode data of
        None \<Rightarrow> Inl (ValueError (ctx @ '': corpus is not valid UTF-8''))
      | Some contents \<Rightarrow> bindE (dict_rows contents) (\<lambda>rows. load_corpus_rows rows ctx))"

section \<open>Records of plain fields\<close>

definition plain_field :: "codes \<Rightarrow> bool" where
  "plain_field f \<longleftrightarrow>
     (\<forall>c \<in> set f. c \<noteq> 9 \<and> c \<noteq> 10 \<and> c \<noteq> 13) \<and> take 1 f \<noteq> [34] \<and> length f \<le> FIELD_LIMIT"

lemma text_lines_line:
  "\<forall>c \<in> set l. c \<noteq> 10 \<and> c \<noteq> 13 \<Longrightarrow> text_lines (l @ 10 # s) = (l @ [10]) # text_lines s"
  by (induction l) auto

lemma text_lines_lines:
  "\<forall>l \<in> set ls. \<forall>c \<in> set l. c \<noteq> 10 \<and> c \<noteq> 13 \<Longrightarrow>
     text_lines (concat (map (\<lambda>l. l @ [10]) ls)) = map (\<lambda>l. l @ [10]) ls"
  by (induction ls) (auto simp: text_lines_line)

text \<open>Inside a field every character but the separators is collected.\<close>

lemma in_field_chars:
  assumes "\<forall>c \<in> set s. c \<noteq> 9 \<and> c \<noteq> 10 \<and> c \<noteq> 13" "length f + length s \<le> FIELD_LIMIT"
  shows "foldE process_char \<lparr>csv_state = IN_FIELD, csv_fields = fs, csv_field = f\<rparr> (map Some s @ cs) =
    foldE process_char \<lparr>csv_state = IN_FIELD, csv_fields = fs, csv_field = f @ s\<rparr> cs"
  using assms by (induction s arbitrary: f) (auto simp: process_char_def add_char_def)

lemma plain_field_chars:
  assumes "plain_field f" "f \<noteq> []" "st = START_FIELD \<or> st = START_RECORD"
  shows "foldE process_char \<lparr>csv_state = st, csv_fields = fs, csv_field = []\<rparr> (map Some f @ cs) =
    foldE process_char \<lparr>csv_state = IN_FIELD, csv_fields = fs, csv_field = f\<rparr> cs"
proof -
  obtain c s where f: "f = c # s" using assms(2) by (cases f) auto
  have "process_char \<lparr>csv_state = st, csv_fields = fs, csv_field = []\<rparr> (Some c) =
      Inr \<lparr>csv_state = IN_FIELD, csv_fields = fs, csv_field = [c]\<rparr>"
    using assms unfolding f by (auto simp: process_char_def start_field_def add_char_def plain_field_def FIELD_LIMIT_def)
  then show ?thesis
    using assms(1) in_field_chars [of s "[c]" fs cs] unfolding f by (simp add: plain_field_def)
qed

lemma in_field_ends:
  "foldE process_char \<lparr>csv_state = IN_FIELD, csv_fields = fs, csv_field = f\<rparr> [Some 10, None] =
     Inr \<lparr>csv_state = START_RECORD, csv_fields = fs @ [f], csv_field = []\<rparr>"
  "process_char \<lparr>csv_state = IN_FIELD, csv_fields = fs, csv_field = f\<rparr> (Some 9) =
     Inr \<lparr>csv_state = START_FIELD, csv_fields = fs @ [f], csv_field = []\<rparr>"
  by (simp_all add: process_char_def save_field_def)

lemma process_plain_fields:
  assumes "\<forall>f \<in> set (f # fs). plain_field f \<and> f \<noteq> []" "st = START_FIELD \<or> st = START_RECORD"
  shows "foldE process_char \<lparr>csv_state = st, csv_fields = before, csv_field = []\<rparr>
      (map Some (join_with 9 (f # fs)) @ [Some 10, None]) =
    Inr \<lparr>csv_state = START_RECORD, csv_fields = before @ f # fs, csv_field = []\<rparr>"
  using assms
proof (induction fs arbitrary: f st before)
  case Nil
  then show ?case
    using plain_field_chars [of f st before "[Some 10, None]"] by (simp only: in_field_ends) simp
next
  case (Cons g gs)
  have "foldE process_char \<lparr>csv_state = st, csv_fields = before, csv_field = []\<rparr>
      (map Some (join_with 9 (f # g # gs)) @ [Some 10, None]) =
    foldE process_char \<lparr>csv_state = IN_FIELD, csv_fields = before, csv_field = f\<rparr>
      (Some 9 # map Some (join_with 9 (g # gs)) @ [Some 10, None])"
    using plain_field_chars [of f st before "Some 9 # map Some (join_with 9 (g # gs)) @ [Some 10, None]"] Cons.prems
    by simp
  also have "\<dots> = foldE process_char \<lparr>csv_state = START_FIELD, csv_fields = before @ [f], csv_field = []\<rparr>
      (map Some (join_with 9 (g # gs)) @ [Some 10, None])"
    by (simp add: in_field_ends)
  also have "\<dots> = Inr \<lparr>csv_state = START_RECORD, csv_fields = (before @ [f]) @ g # gs, csv_field = []\<rparr>"
    by (rule Cons.IH) (use Cons.prems in auto)
  finally show ?case by simp
qed

lemma csv_records_plain:
  assumes "\<forall>fs \<in> set rows. fs \<noteq> [] \<and> (\<forall>f \<in> set fs. plain_field f \<and> f \<noteq> [])"
  shows "csv_records csv_start (map (\<lambda>fs. join_with 9 fs @ [10]) rows) = Inr rows"
  using assms
proof (induction rows)
  case Nil
  then show ?case by (simp add: csv_start_def)
next
  case (Cons fs rows)
  obtain f gs where fs: "fs = f # gs" using Cons.prems by (cases fs) auto
  have "process_line csv_start (join_with 9 fs @ [10]) =
      Inr \<lparr>csv_state = START_RECORD, csv_fields = [] @ f # gs, csv_field = []\<rparr>"
    unfolding process_line_def csv_start_def fs
    using process_plain_fields [of f gs START_RECORD "[]"] Cons.prems by (simp add: fs)
  then show ?case using Cons by (simp add: fs)
qed

section \<open>Frozen corpora\<close>

text \<open>A row of a frozen corpus as a row of the evaluation.\<close>

definition corpus_row :: "FrozenRow \<Rightarrow> CorpusRow" where
  "corpus_row r = \<lparr>row_id = text_of (fr_id r), row_reading = text_of (fr_reading r),
     row_expected = text_of (fr_expected r), row_category = text_of (fr_category r)\<rparr>"

lemma text_of_append [simp]: "text_of (s @ t) = text_of s @ text_of t"
  by (simp add: text_of_def)

lemma text_of_Nil_iff [simp]: "text_of s = [] \<longleftrightarrow> s = []"
  by (cases s) (simp_all add: text_of_def)

lemma text_of_Cons: "text_of (c # s) = utf8_encode c @ text_of s"
  by (simp add: text_of_def)

lemma text_of_inject:
  "\<forall>c \<in> set s. scalar c \<Longrightarrow> \<forall>c \<in> set t. scalar c \<Longrightarrow> text_of s = text_of t \<longleftrightarrow> s = t"
  by (metis option.inject utf8_decode_encode)

lemma split_on_append_free: "c \<notin> set p \<Longrightarrow> split_on c (p @ s) = (case split_on c s of [] \<Rightarrow> [p] | q # qs \<Rightarrow> (p @ q) # qs)"
  by (induction p) (auto split: list.splits)

lemma split_on_text:
  "\<forall>c \<in> set s. scalar c \<Longrightarrow> split_on (CHR ''|'') (text_of s) = map text_of (split_on 124 s)"
proof (induction s)
  case (Cons c s)
  show ?case
  proof (cases "c = 124")
    case True
    then have "utf8_encode c = ''|''"
      using char_of_char [of "CHR ''|''", where 'a = nat] by (simp add: utf8_encode_def)
    with True Cons show ?thesis by (simp add: text_of_Cons text_of_def)
  next
    case False
    have "CHR ''|'' \<notin> set (utf8_encode c)"
    proof (cases "c < 128")
      case True
      then have "code (char_of c) \<noteq> code (CHR ''|'')" using False by (simp add: code_char_of code_def)
      then show ?thesis using True by (auto simp: utf8_encode_def)
    next
      case c: False
      then show ?thesis using Cons.prems utf8_encode_high [of c "CHR ''|''"] by (auto simp: code_def)
    qed
    with False Cons show ?thesis
      by (cases "split_on 124 s") (auto simp: text_of_Cons split_on_append_free)
  qed
qed (simp add: text_of_def)


definition loadable_row :: "FrozenRow \<Rightarrow> bool" where
  "loadable_row r \<longleftrightarrow> (\<forall>s \<in> set (row_texts r). plain_field s)"

lemma header_join: "butlast TSV_HEADER = join_with 9 [ascii ''id'', ascii ''reading'', ascii ''expected'', ascii ''category'']"
  by (simp add: TSV_HEADER_def ascii_def)

lemma text_of_ascii: "\<forall>c \<in> set s. code c < 128 \<Longrightarrow> text_of (ascii s) = s"
  by (induction s) (auto simp: text_of_def ascii_def utf8_encode_def code_def)

lemma header_names:
  "text_of (ascii ''id'') = ''id''" "text_of (ascii ''reading'') = ''reading''"
  "text_of (ascii ''expected'') = ''expected''" "text_of (ascii ''category'') = ''category''"
  by (simp_all add: text_of_ascii code_def)

lemma dict_row_texts:
  "dict_row [ascii ''id'', ascii ''reading'', ascii ''expected'', ascii ''category''] (row_texts r) =
     [(''id'', Some (text_of (fr_id r))), (''reading'', Some (text_of (fr_reading r))),
      (''expected'', Some (text_of (fr_expected r))), (''category'', Some (text_of (fr_category r)))]"
  by (simp add: dict_row_def row_texts_def header_names)

lemma dict_rows_encoded:
  assumes "\<forall>r \<in> set rows. row_ok u r \<and> loadable_row r"
  shows "dict_rows (TSV_HEADER @ concat (map row_codes rows)) =
    Inr (map (\<lambda>r. dict_row [ascii ''id'', ascii ''reading'', ascii ''expected'', ascii ''category''] (row_texts r)) rows)"
proof -
  let ?header = "[ascii ''id'', ascii ''reading'', ascii ''expected'', ascii ''category'']"
  let ?records = "?header # map row_texts rows"
  have plain: "\<forall>fs \<in> set ?records. fs \<noteq> [] \<and> (\<forall>f \<in> set fs. plain_field f \<and> f \<noteq> [])"
    using assms by (auto simp: loadable_row_def row_texts_def row_ok_def field_ok_def ascii_def plain_field_def FIELD_LIMIT_def)
  have lines: "TSV_HEADER @ concat (map row_codes rows) = concat (map (\<lambda>l. l @ [10]) (map (join_with 9) ?records))"
    unfolding row_lines header_join by (simp add: comp_def)
  have no_ends: "\<forall>l \<in> set (map (join_with 9) ?records). \<forall>c \<in> set l. c \<noteq> 10 \<and> c \<noteq> 13"
    using plain by (fastforce simp: row_texts_def plain_field_def)
  have "csv_records csv_start (text_lines (TSV_HEADER @ concat (map row_codes rows))) = Inr ?records"
    unfolding lines text_lines_lines [OF no_ends] using csv_records_plain [OF plain] by (simp add: comp_def)
  then show ?thesis
    unfolding dict_rows_def by (simp add: row_texts_def filter_True comp_def)
qed

lemma load_rows_encoded:
  assumes ok: "\<forall>r \<in> set rows. row_ok u r" and enc: "\<forall>r \<in> set rows. \<forall>s \<in> set (row_texts r). encodable s"
    and distinct: "distinct (map fr_id rows)" and "rows \<noteq> []"
  shows "load_corpus_rows (map (\<lambda>r. dict_row [ascii ''id'', ascii ''reading'', ascii ''expected'', ascii ''category'']
      (row_texts r)) rows) ctx = Inr (map corpus_row rows)"
proof -
  let ?dict = "\<lambda>r. dict_row [ascii ''id'', ascii ''reading'', ascii ''expected'', ascii ''category''] (row_texts r)"
  have scalars: "\<forall>c \<in> set s. scalar c" if "r \<in> set rows" "s \<in> set (row_texts r)" for r s
    using enc that by (auto simp: encodable_def)
  have ids: "mapE (\<lambda>r. cell r ''id'') (map ?dict rows) = Inr (map (\<lambda>r. Some (text_of (fr_id r))) rows)"
    by (induction rows) (simp_all add: dict_row_texts cell_def)
  have "inj_on (\<lambda>r. text_of (fr_id r)) (set rows)"
  proof (rule inj_onI)
    fix q r assume qr: "q \<in> set rows" "r \<in> set rows" "text_of (fr_id q) = text_of (fr_id r)"
    then have "fr_id q = fr_id r"
      using text_of_inject [OF scalars [OF qr(1), of "fr_id q"] scalars [OF qr(2), of "fr_id r"]]
      by (simp add: row_texts_def)
    then show "q = r" using distinct qr by (simp add: distinct_map inj_on_def)
  qed
  then have unique: "distinct (map (\<lambda>r. Some (text_of (fr_id r))) rows)"
    using distinct by (auto simp: distinct_map inj_on_def)
  have row: "check_row line (?dict r) = Inr (corpus_row r)" if "r \<in> set rows" for r line
  proof -
    have "fr_reading r \<noteq> []" "fr_category r \<noteq> []" "[] \<notin> set (split_on 124 (fr_expected r))"
      using ok that by (auto simp: row_ok_def field_ok_def)
    moreover have "alternatives (text_of (fr_expected r)) = map text_of (split_on 124 (fr_expected r))"
      unfolding alternatives_def using scalars [OF that, of "fr_expected r"]
      by (intro split_on_text) (simp add: row_texts_def)
    ultimately show ?thesis
      by (auto simp: check_row_def dict_row_texts cell_def truthy_def corpus_row_def list_ex_iff dest: sym)
  qed
  have checked: "mapiE (\<lambda>n r. check_row (ctx @ '':'' @ dec n) r) k (map ?dict rows) = Inr (map corpus_row rows)" for k
    using row by (simp add: mapiE_Inr_iff)
  have "list_ex (\<lambda>i. \<not> truthy i) (map (\<lambda>r. Some (text_of (fr_id r))) rows) = False"
    using ok by (auto simp: list_ex_iff truthy_def row_ok_def field_ok_def)
  moreover have "set required_columns \<subseteq> set (keys (hd (map ?dict rows)))"
    using \<open>rows \<noteq> []\<close> by (cases rows) (simp_all add: dict_row_texts required_columns_def)
  ultimately show ?thesis
    unfolding load_corpus_rows_def using \<open>rows \<noteq> []\<close> ids checked distinct_card [OF unique] by simp
qed

lemma load_corpus_encoded:
  assumes "\<forall>r \<in> set rows. row_ok u r \<and> loadable_row r" "\<forall>r \<in> set rows. \<forall>s \<in> set (row_texts r). encodable s"
    and "distinct (map fr_id rows)" "rows \<noteq> []"
  shows "load_corpus_bytes (encode_rows rows) ctx = Inr (map corpus_row rows)"
  unfolding load_corpus_bytes_def decode_encode_rows [OF assms(2)]
  using dict_rows_encoded [OF assms(1)] load_rows_encoded [OF _ assms(2-4), of u ctx] assms(1) by simp

end
