(* ===== verification/Corpus_Properties.thy ===== *)
theory Corpus_Properties
  imports Corpus_Sealed Corpus_Reader
begin

text \<open>
  The properties of the corpus builders: the distances behind the near-duplicate search, the search
  and its closed review, the corpus files, and what each check of the builders accepts.
\<close>

section \<open>Near duplicates\<close>

text \<open>C14: The edit distance computed row by row is the least number of insertions, deletions and
  substitutions that turn one text into the other.\<close>

theorem levenshtein_distance_is_least: "levenshtein_distance s t = (LEAST n. edits s t n)"
  unfolding levenshtein_distance_lev by (rule Least_equality [symmetric]) (auto intro: edits_lev lev_least)

text \<open>The edit distance is a metric bounded by the longer text.\<close>

theorem levenshtein_distance_metric:
  "levenshtein_distance s t = levenshtein_distance t s \<and>
   (levenshtein_distance s t = 0 \<longleftrightarrow> s = t) \<and>
   levenshtein_distance s u \<le> levenshtein_distance s t + levenshtein_distance t u \<and>
   levenshtein_distance s t \<le> max (length s) (length t)"
  unfolding levenshtein_distance_lev by (intro conjI lev_sym lev_0 lev_triangle lev_le_max)

text \<open>Both similarities are symmetric numbers of basis points, 10,000 on equal texts.\<close>

theorem similarities_in_basis_points:
  "jaccard_basis_points s t = jaccard_basis_points t s \<and> jaccard_basis_points s t \<in> {0..10000} \<and>
   jaccard_basis_points s s = 10000 \<and>
   levenshtein_similarity_basis_points s t = levenshtein_similarity_basis_points t s \<and>
   levenshtein_similarity_basis_points s t \<in> {0..10000} \<and> levenshtein_similarity_basis_points s s = 10000"
  using jaccard.symmetric jaccard.bounded jaccard.equal_texts levenshtein.symmetric levenshtein.bounded
    levenshtein.equal_texts by simp

text \<open>C15: The search over the inverted index, with its candidates and its early exit, returns what
  comparing every pair of readings returns; it fails exactly when a reading normalizes to nothing.\<close>

theorem near_search_is_full_comparison:
  "find_near_duplicate_pairs u formal pilot =
     (if list_ex (\<lambda>r. near_text u (fr_reading r) = []) formal
      then Inl (ValueError ''formal reading becomes empty under near-duplicate normalization'')
      else Inr (all_near_pairs (near_texts u [] formal) (near_texts u ''pilot-v1:'' pilot)))"
  unfolding find_near_eq Let_def by (auto simp: near_texts_def list_ex_iff)

text \<open>C16: A near-duplicate review is accepted exactly when its header is closed and its records review
  each computed pair once, with the computed figures, and nothing else.\<close>

theorem near_review_covers_computed_pairs:
  "validate_near_review review expected_pairs reviewer = Inr () \<longleftrightarrow>
     closed_header review reviewer \<and>
     (\<exists>records pairs. map_of review ''pairs'' = Some (JArr (map JObj records)) \<and>
        list_all2 (reviewed_as (expected_by_key expected_pairs)) pairs records \<and>
        distinct (map near_key pairs) \<and> near_key ` set pairs = near_key ` set expected_pairs)"
  by (rule validate_near_review_iff)

section \<open>Corpus files\<close>

text \<open>The rows that some file parses to are exactly the rows whose encoding parses back to them.\<close>

theorem tsv_round_trip:
  "(\<exists>data. parse_tsv u data context = Inr rows) \<longleftrightarrow> parse_tsv u (encode_rows rows) context = Inr rows"
  using parse_again by blast

text \<open>C17: what the corpus builders can write and \<open>csv.DictReader\<close> leaves alone, the evaluation loads as
  it was written: rows with distinct ids, no field beginning with a quotation mark or beyond the size limit.\<close>

theorem frozen_corpus_loads:
  "{rows. (\<exists>data. parse_tsv u data context = Inr rows) \<and> rows \<noteq> [] \<and> distinct (map fr_id rows) \<and>
      list_all loadable_row rows}
   \<subseteq> {rows. load_corpus_bytes (encode_rows rows) context' = Inr (map corpus_row rows)}"
  using parsed_rows_encodable load_corpus_encoded by (fastforce simp: list_all_iff)

text \<open>A field that begins with a quotation mark is not left alone: the reader takes the rest of the file for
  a quoted field, and a corpus that the builder accepts does not load.\<close>

definition quoted_row :: FrozenRow where
  "quoted_row = \<lparr>fr_id = ascii ''a'', fr_reading = [34], fr_expected = ascii ''b'', fr_category = ascii ''c''\<rparr>"

lemma quoted_reading_does_not_load:
  "\<exists>u. parse_tsv u (encode_rows [quoted_row]) ''corpus'' = Inr [quoted_row] \<and>
     load_corpus_bytes (encode_rows [quoted_row]) ''corpus'' = Inl (ValueError ''corpus:2: category must not be empty'')"
proof -
  let ?u = "\<lparr>uc_nfc = (\<lambda>s. s), uc_nfkc = (\<lambda>s. s), uc_casefold = (\<lambda>s. s), uc_category = (\<lambda>c. [])\<rparr>"
  have enc: "\<forall>r \<in> set [quoted_row]. \<forall>s \<in> set (row_texts r). encodable s"
    by (simp add: quoted_row_def row_texts_def encodable_def ascii_def scalar_def line_break_def)
  have "parse_tsv ?u (encode_rows [quoted_row]) ''corpus'' = Inr [quoted_row]"
    using enc by (intro parse_encode_rows)
      (simp_all add: quoted_row_def row_ok_def field_ok_def control_code_def ascii_def katakana_to_hiragana_def kana_shift_def)
  moreover have "dict_rows (TSV_HEADER @ concat (map row_codes [quoted_row])) = 
     Inr [[(''id'', Some ''a''), (''reading'', Some (text_of (9 # 98 # 9 # 99 # [10]))), (''expected'', None), (''category'', None)]]"
    by (simp add: dict_rows_def TSV_HEADER_def ascii_def row_codes_def quoted_row_def csv_start_def process_line_def
      process_char_def start_field_def add_char_def save_field_def FIELD_LIMIT_def dict_row_def text_of_def utf8_encode_def char_of_def bit_0)
  ultimately show ?thesis
    unfolding load_corpus_bytes_def decode_encode_rows [OF enc]
    by (auto simp: load_corpus_rows_def required_columns_def cell_def truthy_def check_row_def text_of_def char_of_def bit_0 dec.simps)
qed

definition pilot_promises :: "unicode \<Rightarrow> filesystem \<Rightarrow> string list \<Rightarrow> string \<Rightarrow> bool" where
  "pilot_promises u files path bytes \<longleftrightarrow>
     (\<exists>parts data manifest aggregate.
        list_all2 component_rows_ok PILOT_CONTRACTS parts \<and> distinct (map fr_id (concat parts)) \<and>
        length (concat parts) = 256 \<and> bytes = encode_rows (concat parts) \<and>
        parse_tsv u bytes ''aggregate'' = Inr (concat parts) \<and>
        read_pilot_file (files path) ''corpus manifest'' = Inr data \<and>
        load_frozen_json data (join_with (CHR ''/'') path) = Inr (JObj manifest) \<and>
        map_of manifest ''aggregate'' = Some (JObj aggregate) \<and>
        map_of aggregate ''sha256'' = Some (JStr (sha256_bytes bytes)))"

text \<open>C18: Every aggregate of the pilot corpus encodes 256 rows that parse back, with distinct ids, the
  counts and prefixes of the three contracts, and the digest that the manifest states.\<close>

theorem pilot_aggregate_promises:
  "{bytes. build_pilot_aggregate u files path = Inr bytes} \<subseteq> {bytes. pilot_promises u files path bytes}"
  unfolding pilot_promises_def using build_pilot_aggregate_sound by blast

section \<open>The formal corpus\<close>

text \<open>C19: The builder accepts the components exactly when each one is acceptable by itself and ids,
  normalized readings and families are unique over the whole corpus; the rows come in contract order.\<close>

theorem formal_rows_by_parts:
  "formal_rows u files base contracts approvals manifest = Inr rows \<longleftrightarrow>
     (\<exists>raw parts. map_of manifest ''components'' = Some (JArr raw) \<and> length raw = length contracts \<and>
        list_all2 (component_part u files base approvals) (zip raw contracts) parts \<and>
        rows = concat (map fst parts) \<and> unique_cases u rows (concat (map snd parts)))"
  by (rule formal_rows_parts)

text \<open>C20: A provenance record is accepted exactly when it names its row, binds the row's bytes, comes
  from the approved identities with a reviewer other than the author, and is sealed and screened.\<close>

theorem provenance_accepted_iff:
  "validate_provenance_record d r ctx (Some approval) = Inr family_id \<longleftrightarrow> provenance_ok d r approval family_id"
  by (rule provenance_record_iff)

text \<open>C21: A review approval is accepted exactly when it is complete and its reviewer is not its author.\<close>

theorem approval_accepted_iff:
  "check_approval c raw = Inr approval \<longleftrightarrow> raw = JObj approval \<and> approval_given c approval"
  by (rule check_approval_iff)

text \<open>C22: The overlap check passes exactly when the fingerprints exist and no formal row shares its
  normalized reading or its fingerprint with a pilot row.\<close>

theorem overlap_check_iff:
  "check_no_overlap u rows pilot = Inr () \<longleftrightarrow>
     (\<exists>prints. mapE (case_fingerprint u) pilot = Inr prints) \<and> list_all (new_to_pilot u pilot) rows"
  by (rule check_no_overlap_iff)


end
