(* ===== verification/Probe_Runs.thy ===== *)
theory Probe_Runs
  imports Quality_Compare Corpus_Text
begin

text \<open>
  \<open>summarize_ab_probe.py\<close>: one line of a probe run, a whole run, and the summary of several runs.
\<close>

section \<open>Values\<close>

definition INPUT_SCHEMA_V1 :: string where "INPUT_SCHEMA_V1 = ''hazkey.ab-probe-result.v1''"
definition INPUT_SCHEMA_V2 :: string where "INPUT_SCHEMA_V2 = ''hazkey.ab-probe-result.v2''"
definition INPUT_SCHEMA_V3 :: string where "INPUT_SCHEMA_V3 = ''hazkey.ab-probe-result.v3''"
definition OUTPUT_SCHEMA_V1 :: string where "OUTPUT_SCHEMA_V1 = ''hazkey.ab-probe-summary.v1''"
definition OUTPUT_SCHEMA_V2 :: string where "OUTPUT_SCHEMA_V2 = ''hazkey.ab-probe-summary.v2''"
definition OUTPUT_SCHEMA_V3 :: string where "OUTPUT_SCHEMA_V3 = ''hazkey.ab-probe-summary.v3''"

definition V2_RESOURCE_KIND_BY_CONVERTER :: "(string \<times> string) list" where
  "V2_RESOURCE_KIND_BY_CONVERTER =
     [(''hazkey'', ''hazkey_dictionary''), (''mozc'', ''mozc_runtime_inputs'')]"

definition required :: "obj \<Rightarrow> string \<Rightarrow> string \<Rightarrow> json res" where
  "required payload k ctx =
     (case map_of payload k of
        None \<Rightarrow> Inl (ValueError (dot ctx k @ '' is required''))
      | Some v \<Rightarrow> Inr v)"

text \<open>\<open>accessor(_required(payload, k, ctx), f"{ctx}.{k}")\<close>\<close>

definition required_as :: "(json \<Rightarrow> string \<Rightarrow> 'a res) \<Rightarrow> obj \<Rightarrow> string \<Rightarrow> string \<Rightarrow> 'a res" where
  "required_as accessor payload k ctx = bindE (required payload k ctx) (\<lambda>v. accessor v (dot ctx k))"

definition probe_count :: "json \<Rightarrow> string \<Rightarrow> int res" where
  "probe_count v ctx =
     (case v of
        JInt i \<Rightarrow> (if i < 0 then Inl (ValueError (ctx @ '' must be a non-negative integer'')) else Inr i)
      | _ \<Rightarrow> Inl (ValueError (ctx @ '' must be a non-negative integer'')))"

definition probe_positive :: "json \<Rightarrow> string \<Rightarrow> int res" where
  "probe_positive v ctx =
     bindE (probe_count v ctx) (\<lambda>i.
     bindE (raise_if (i = 0) (ValueError (ctx @ '' must be a positive integer''))) (\<lambda>_. Inr i))"

definition probe_digest :: "json \<Rightarrow> string \<Rightarrow> string res" where
  "probe_digest v ctx =
     bindE (as_string v ctx) (\<lambda>s.
     bindE (raise_if (\<not> sha256_pattern s)
              (ValueError (ctx @ '' must be sha256: followed by 64 lowercase hex digits''))) (\<lambda>_.
     Inr s))"

text \<open>\<open>float(value)\<close> of an integer beyond the range of doubles raises \<open>OverflowError\<close>.\<close>

definition nonnegative_number :: "json \<Rightarrow> string \<Rightarrow> rat res" where
  "nonnegative_number v ctx =
     (let failure = ValueError (ctx @ '' must be a finite non-negative number'') in
      bindE (case v of JInt i \<Rightarrow> rat_to_float (of_int i) | JFloat f \<Rightarrow> Inr f | _ \<Rightarrow> Inl failure) (\<lambda>result.
      case result of
        Fin x \<Rightarrow> (if x < 0 then Inl failure else Inr x)
      | _ \<Rightarrow> Inl failure))"

definition optional_rss :: "json \<Rightarrow> string \<Rightarrow> int option res" where
  "optional_rss v ctx =
     (case v of JNull \<Rightarrow> Inr None | _ \<Rightarrow> bindE (probe_count v ctx) (\<lambda>i. Inr (Some i)))"

definition optional_int_field :: "obj \<Rightarrow> string \<Rightarrow> string \<Rightarrow> int option res" where
  "optional_int_field payload k ctx =
     (case map_of payload k of None \<Rightarrow> Inr None | Some v \<Rightarrow> optional_rss v (dot ctx k))"

definition total_memory_snapshots :: "bool \<Rightarrow> int option list \<Rightarrow> int option list \<Rightarrow> int option list" where
  "total_memory_snapshots requires_backend parent backend =
     map2 (\<lambda>p b. case p of
             None \<Rightarrow> None
           | Some pv \<Rightarrow>
               (case b of
                  None \<Rightarrow> (if requires_backend then None else Some (pv + 0))
                | Some bv \<Rightarrow> Some (pv + bv))) parent backend"

section \<open>Statistics\<close>

text \<open>\<open>len(ordered) * 0.95\<close> is a product of doubles.\<close>

definition p95_index :: "nat \<Rightarrow> nat" where
  "p95_index n =
     nat (min (int n - 1) (max 0 (\<lceil>fl (fl (of_nat n) * fl (95 / 100))\<rceil> - 1)))"

definition nearest_rank_p95 :: "rat list \<Rightarrow> rat" where
  "nearest_rank_p95 samples = sort samples ! p95_index (length samples)"

text \<open>\<open>statistics.median\<close>: the middle value, or half the rounded sum of the two middle values.\<close>

definition median :: "rat list \<Rightarrow> pyfloat" where
  "median samples =
     (let ordered = sort samples; n = length samples in
      if odd n then Fin (ordered ! (n div 2))
      else let total = ordered ! (n div 2 - 1) + ordered ! (n div 2)
           in if fl_overflows total then Infinity True else Fin (fl (fl total / 2)))"

text \<open>\<open>math.isclose(value, expected, rel_tol=0.0, abs_tol=1e-9)\<close> for a finite value.\<close>

definition close_number :: "rat \<Rightarrow> pyfloat \<Rightarrow> bool" where
  "close_number v expected =
     (case expected of
        Fin e \<Rightarrow> v = e \<or> (case float_sub (Fin e) (Fin v) of Fin d \<Rightarrow> \<bar>d\<bar> \<le> fl (1 / 10 ^ 9) | _ \<Rightarrow> False)
      | _ \<Rightarrow> False)"

definition require_number :: "obj \<Rightarrow> string \<Rightarrow> pyfloat \<Rightarrow> string \<Rightarrow> unit res" where
  "require_number d k expected ctx =
     bindE (required_as nonnegative_number d k ctx) (\<lambda>v.
     raise_if (\<not> close_number v expected) (ValueError (dot ctx k @ '' is inconsistent: expected '')))"

section \<open>One result\<close>

record Resource =
  res_kind :: string
  res_path :: string
  res_fingerprint :: string

record ProbeCase =
  pr_schema :: string
  pr_id :: string
  pr_reading :: "string option"
  pr_category :: string
  pr_backend :: string
  pr_backend_version :: string
  pr_source_ref :: string
  pr_resource :: Resource
  pr_converter_backend :: "string option"
  pr_top_k :: "int option"
  pr_corpus :: "(string \<times> int) option"
  pr_candidates :: "string list"
  pr_warmups :: int
  pr_iterations :: int
  pr_samples :: "rat list"
  pr_rss :: "int option list"
  pr_parent_pss :: "int option list"
  pr_backend_rss :: "int option list"
  pr_backend_pss :: "int option list"
  pr_has_backend_evidence :: bool
  pr_backend_diagnostics :: "int option list"

text \<open>The resource and the converter; before v2 they are the dictionary alone.\<close>

definition probe_resource :: "obj \<Rightarrow> string \<Rightarrow> string \<Rightarrow> (Resource \<times> string option) res" where
  "probe_resource result schema ctx =
     (if schema = INPUT_SCHEMA_V1 then
        bindE (required_as as_string result ''dictionary_path'' ctx) (\<lambda>path.
        bindE (required_as as_string result ''dictionary_fingerprint'' ctx) (\<lambda>fingerprint.
        Inr (\<lparr>res_kind = ''hazkey_dictionary'', res_path = path, res_fingerprint = fingerprint\<rparr>, None)))
      else
        bindE (required_as as_object result ''resource'' ctx) (\<lambda>raw_resource.
        bindE (required_as as_string raw_resource ''kind'' (dot ctx ''resource'')) (\<lambda>kind.
        bindE (required_as as_string raw_resource ''path'' (dot ctx ''resource'')) (\<lambda>path.
        bindE (required_as as_string raw_resource ''fingerprint'' (dot ctx ''resource'')) (\<lambda>fingerprint.
        bindE (required_as as_string result ''converter_backend'' ctx) (\<lambda>converter_backend.
        case map_of V2_RESOURCE_KIND_BY_CONVERTER converter_backend of
          None \<Rightarrow> Inl (ValueError (ctx @ ''.converter_backend must be hazkey or mozc''))
        | Some expected_resource_kind \<Rightarrow>
            bindE (raise_if (kind \<noteq> expected_resource_kind)
                     (ValueError (ctx @ ''.resource.kind must be ''))) (\<lambda>_.
            Inr (\<lparr>res_kind = kind, res_path = path, res_fingerprint = fingerprint\<rparr>, Some converter_backend))))))))"

definition probe_scope ::
  "obj \<Rightarrow> string \<Rightarrow> string \<Rightarrow> (string option \<times> int option \<times> (string \<times> int) option) res" where
  "probe_scope result schema ctx =
     (if schema = INPUT_SCHEMA_V3 then
        bindE (required_as as_string result ''reading'' ctx) (\<lambda>reading.
        bindE (required_as probe_positive result ''top_k'' ctx) (\<lambda>top_k.
        bindE (raise_if (10 < top_k) (ValueError (ctx @ ''.top_k must be between 1 and 10''))) (\<lambda>_.
        bindE (required_as as_object result ''corpus'' ctx) (\<lambda>raw_corpus.
        bindE (raise_if (set (keys raw_corpus) \<noteq> {''sha256'', ''cases''})
                 (ValueError (ctx @ ''.corpus must contain exactly sha256 and cases; ''))) (\<lambda>_.
        bindE (item probe_digest raw_corpus ''sha256'' (dot ctx ''corpus'')) (\<lambda>digest.
        bindE (item probe_positive raw_corpus ''cases'' (dot ctx ''corpus'')) (\<lambda>cases_n.
        Inr (Some reading, Some top_k, Some (digest, cases_n)))))))))
      else Inr (None, None, None))"

definition probe_candidates :: "obj \<Rightarrow> int option \<Rightarrow> string \<Rightarrow> string list res" where
  "probe_candidates result top_k ctx =
     bindE (required_as as_array result ''candidates'' ctx) (\<lambda>candidates.
     bindE (mapiE (\<lambda>index v. as_string v (at_index (dot ctx ''candidates'') index)) 0 candidates) (\<lambda>texts.
     bindE (raise_if (case top_k of None \<Rightarrow> False | Some k \<Rightarrow> k < int (length candidates))
              (ValueError (ctx @ ''.candidates has ''))) (\<lambda>_.
     Inr texts)))"

definition probe_samples :: "obj \<Rightarrow> string \<Rightarrow> (int \<times> int \<times> rat list) res" where
  "probe_samples measurement ctx =
     bindE (required_as probe_count measurement ''warmups'' ctx) (\<lambda>warmups.
     bindE (required_as probe_positive measurement ''iterations'' ctx) (\<lambda>iterations.
     bindE (required_as as_object measurement ''latency_ms'' ctx) (\<lambda>latency.
     let lctx = dot ctx ''latency_ms'' in
     bindE (required_as as_array latency ''samples'' lctx) (\<lambda>raw_samples.
     bindE (mapiE (\<lambda>index v. nonnegative_number v (at_index (dot lctx ''samples'') index)) 0 raw_samples) (\<lambda>samples.
     bindE (raise_if (int (length samples) \<noteq> iterations)
              (ValueError (lctx @ ''.samples has ''))) (\<lambda>_.
     bindE (require_number latency ''median'' (median samples) lctx) (\<lambda>_.
     bindE (require_number latency ''p95'' (Fin (nearest_rank_p95 samples)) lctx) (\<lambda>_.
     bindE (require_number latency ''minimum'' (Fin (Min (set samples))) lctx) (\<lambda>_.
     bindE (require_number latency ''maximum'' (Fin (Max (set samples))) lctx) (\<lambda>_.
     Inr (warmups, iterations, samples)))))))))))"

definition probe_memory :: "obj \<Rightarrow> string \<Rightarrow> (int option list \<times> int option list \<times> int option list \<times> int option list) res" where
  "probe_memory measurement ctx =
     bindE (required_as as_object measurement ''rss'' ctx) (\<lambda>rss.
     let rctx = dot ctx ''rss'' in
     bindE (required_as optional_rss rss ''before_kib'' rctx) (\<lambda>rss_before.
     bindE (required_as optional_rss rss ''after_kib'' rctx) (\<lambda>rss_after.
     bindE (optional_int_field rss ''before_pss_kib'' rctx) (\<lambda>before_pss.
     bindE (optional_int_field rss ''after_pss_kib'' rctx) (\<lambda>after_pss.
     bindE (optional_int_field rss ''backend_before_kib'' rctx) (\<lambda>backend_before.
     bindE (optional_int_field rss ''backend_after_kib'' rctx) (\<lambda>backend_after.
     bindE (optional_int_field rss ''backend_before_pss_kib'' rctx) (\<lambda>backend_before_pss.
     bindE (optional_int_field rss ''backend_after_pss_kib'' rctx) (\<lambda>backend_after_pss.
     Inr ([rss_before, rss_after], [before_pss, after_pss], [backend_before, backend_after],
          [backend_before_pss, backend_after_pss]))))))))))"

definition probe_diagnostics :: "obj \<Rightarrow> string \<Rightarrow> int option list res" where
  "probe_diagnostics measurement ctx =
     (case map_of measurement ''backend_diagnostics'' of
        None \<Rightarrow> Inr [None, None]
      | Some v \<Rightarrow>
          let dctx = dot ctx ''backend_diagnostics'' in
          bindE (as_object v dctx) (\<lambda>diagnostics.
          bindE (optional_int_field diagnostics ''process_launch_count'' dctx) (\<lambda>process_launch_count.
          bindE (optional_int_field diagnostics ''cleanup_failure_count'' dctx) (\<lambda>cleanup_failure_count.
          Inr [process_launch_count, cleanup_failure_count]))))"

definition validate_result :: "json \<Rightarrow> string \<Rightarrow> ProbeCase res" where
  "validate_result payload ctx =
     bindE (as_object payload ctx) (\<lambda>result.
     bindE (case get_or_null result ''schema'' of
              JStr s \<Rightarrow> (if s \<in> {INPUT_SCHEMA_V1, INPUT_SCHEMA_V2, INPUT_SCHEMA_V3} then Inr s
                         else Inl (ValueError (ctx @ ''.schema must be '')))
            | _ \<Rightarrow> Inl (ValueError (ctx @ ''.schema must be ''))) (\<lambda>schema.
     bindE (required_as as_string result ''id'' ctx) (\<lambda>case_id.
     bindE (required_as as_string result ''category'' ctx) (\<lambda>category.
     bindE (required_as as_string result ''backend'' ctx) (\<lambda>backend.
     bindE (required_as as_string result ''backend_version'' ctx) (\<lambda>backend_version.
     bindE (required_as as_string result ''source_ref'' ctx) (\<lambda>source_ref.
     bindE (probe_resource result schema ctx) (\<lambda>(resource, converter_backend).
     bindE (probe_scope result schema ctx) (\<lambda>(reading, top_k, corpus).
     bindE (probe_candidates result top_k ctx) (\<lambda>candidates.
     bindE (required_as as_object result ''measurement'' ctx) (\<lambda>measurement.
     let mctx = dot ctx ''measurement'' in
     bindE (probe_samples measurement mctx) (\<lambda>(warmups, iterations, samples).
     bindE (probe_memory measurement mctx) (\<lambda>(parent_rss, parent_pss, backend_rss, backend_pss).
     bindE (probe_diagnostics measurement mctx) (\<lambda>diagnostics.
     Inr \<lparr>pr_schema = schema, pr_id = case_id, pr_reading = reading, pr_category = category,
          pr_backend = backend, pr_backend_version = backend_version, pr_source_ref = source_ref,
          pr_resource = resource, pr_converter_backend = converter_backend, pr_top_k = top_k,
          pr_corpus = corpus, pr_candidates = candidates, pr_warmups = warmups,
          pr_iterations = iterations, pr_samples = samples, pr_rss = parent_rss,
          pr_parent_pss = parent_pss, pr_backend_rss = backend_rss, pr_backend_pss = backend_pss,
          pr_has_backend_evidence =
            list_ex (\<lambda>v. v \<noteq> None) backend_rss \<or> list_ex (\<lambda>v. v \<noteq> None) backend_pss
            \<or> list_ex (\<lambda>v. v \<noteq> None) diagnostics,
          pr_backend_diagnostics = diagnostics\<rparr>))))))))))))))"


section \<open>A run\<close>

text \<open>\<open>str.isspace\<close>; a line is blank when \<open>strip\<close> leaves nothing of it.\<close>

definition space_code :: "nat \<Rightarrow> bool" where
  "space_code c \<longleftrightarrow>
     9 \<le> c \<and> c \<le> 13 \<or> 28 \<le> c \<and> c \<le> 32 \<or> 0x2000 \<le> c \<and> c \<le> 0x200A \<or>
     c \<in> {133, 160, 0x1680, 0x2028, 0x2029, 0x202F, 0x205F, 0x3000}"

definition probe_line :: "string \<Rightarrow> ProbeCase list \<Rightarrow> nat \<times> codes \<Rightarrow> ProbeCase list res" where
  "probe_line path cases = (\<lambda>(line_number, line).
     if list_all space_code line then Inr cases
     else
       let ctx = path @ '':'' @ dec line_number in
       case parse_document (text_of line) of
         POk payload _ \<Rightarrow>
           bindE (validate_result payload ctx) (\<lambda>result.
           bindE (raise_if (pr_id result \<in> pr_id ` set cases) (ValueError (path @ '': duplicate id ''))) (\<lambda>_.
           Inr (cases @ [result])))
       | PDup \<Rightarrow> Inl (ValueError (ctx @ '': duplicate JSON key''))
       | _ \<Rightarrow> Inl (ValueError (ctx @ '': invalid JSON: '')))"

text \<open>
  The fields on which all cases of a run, and the first cases of all runs, must agree; up to v1 the
  dictionary path and fingerprint take the place of the resource.
\<close>

definition same_fields :: "string \<Rightarrow> ProbeCase \<Rightarrow> ProbeCase \<Rightarrow> (string \<times> bool) list" where
  "same_fields schema first c =
     [(''backend'', pr_backend c = pr_backend first),
      (''backend_version'', pr_backend_version c = pr_backend_version first),
      (''source_ref'', pr_source_ref c = pr_source_ref first),
      (''converter_backend'', pr_converter_backend c = pr_converter_backend first),
      (''warmups'', pr_warmups c = pr_warmups first),
      (''iterations'', pr_iterations c = pr_iterations first)] @
     (if schema = INPUT_SCHEMA_V3
      then [(''top_k'', pr_top_k c = pr_top_k first), (''corpus'', pr_corpus c = pr_corpus first)] else []) @
     (if schema = INPUT_SCHEMA_V1
      then [(''dictionary_path'', res_path (pr_resource c) = res_path (pr_resource first)),
            (''dictionary_fingerprint'', res_fingerprint (pr_resource c) = res_fingerprint (pr_resource first))]
      else [(''resource'', pr_resource c = pr_resource first)])"

definition require_same :: "(string \<times> bool) list \<Rightarrow> (string \<Rightarrow> string) \<Rightarrow> unit res" where
  "require_same fields_same message =
     eachE (\<lambda>(field, same). raise_if (\<not> same) (ValueError (message field))) fields_same"

definition consistent_with_first :: "string \<Rightarrow> ProbeCase \<Rightarrow> ProbeCase \<Rightarrow> unit res" where
  "consistent_with_first path first c =
     require_same ((''schema'', pr_schema c = pr_schema first) # same_fields (pr_schema first) first c)
       (\<lambda>field. path @ '': inconsistent '' @ field @ '' within run'')"

text \<open>The fields of a run beside its path and cases are those of its first case.\<close>

record ProbeRun =
  run_path :: string
  run_first :: ProbeCase
  run_cases :: "ProbeCase list"

definition load_run_bytes :: "string \<Rightarrow> string \<Rightarrow> ProbeRun res" where
  "load_run_bytes data path =
     (case utf8_decode data of
        None \<Rightarrow> Inl (ValueError (path @ '': invalid UTF-8: ''))
      | Some contents \<Rightarrow>
          let lines = splitlines contents in
          bindE (foldE (probe_line path) [] (zip [1..<Suc (length lines)] lines)) (\<lambda>cases.
          case cases of
            [] \<Rightarrow> Inl (ValueError (path @ '': probe run has no results''))
          | first # _ \<Rightarrow>
              bindE (eachE (consistent_with_first path first) cases) (\<lambda>_.
              bindE (raise_if (pr_schema first = INPUT_SCHEMA_V3 \<and>
                               (case pr_corpus first of None \<Rightarrow> False | Some (_, n) \<Rightarrow> n \<noteq> int (length cases)))
                       (ValueError (path @ '': corpus.cases does not match result count''))) (\<lambda>_.
              Inr \<lparr>run_path = path, run_first = first, run_cases = cases\<rparr>))))"

section \<open>The summary of several runs\<close>

definition case_of :: "ProbeRun \<Rightarrow> string \<Rightarrow> ProbeCase option" where
  "case_of run wanted = find (\<lambda>c. pr_id c = wanted) (run_cases run)"

definition same_case :: "string \<Rightarrow> ProbeRun \<Rightarrow> ProbeCase \<Rightarrow> unit res" where
  "same_case schema run expected =
     (case case_of run (pr_id expected) of
        None \<Rightarrow> Inl (KeyError (pr_id expected))
      | Some c \<Rightarrow>
          bindE (raise_if (pr_category c \<noteq> pr_category expected)
                   (ValueError (run_path run @ '': category for case does not match the first run''))) (\<lambda>_.
          bindE (raise_if (schema = INPUT_SCHEMA_V3 \<and> pr_reading c \<noteq> pr_reading expected)
                   (ValueError (run_path run @ '': reading for case does not match the first run''))) (\<lambda>_.
          raise_if (schema \<in> {INPUT_SCHEMA_V2, INPUT_SCHEMA_V3} \<and> pr_candidates c \<noteq> pr_candidates expected)
            (ValueError (run_path run @ '': candidates for case do not match the first run'')))))"

definition same_run :: "ProbeRun \<Rightarrow> ProbeRun \<Rightarrow> unit res" where
  "same_run first run =
     (let schema = pr_schema (run_first first) in
      bindE (raise_if (pr_schema (run_first run) \<noteq> schema) (ValueError (run_path run @ '': cannot mix ''))) (\<lambda>_.
      bindE (require_same (same_fields schema (run_first first) (run_first run))
               (\<lambda>field. run_path run @ '': '' @ field @ '' does not match the first run'')) (\<lambda>_.
      bindE (raise_if (pr_id ` set (run_cases run) \<noteq> pr_id ` set (run_cases first))
               (ValueError (run_path run @ '': case set does not match the first run; ''))) (\<lambda>_.
      eachE (same_case schema run) (run_cases first)))))"

text \<open>\<open>statistics.fmean\<close>: \<open>math.fsum\<close>, which is exact up to one rounding, over the count.\<close>

definition fsum :: "pyfloat list \<Rightarrow> pyfloat res" where
  "fsum xs =
     (if list_all (\<lambda>x. case x of Fin _ \<Rightarrow> True | _ \<Rightarrow> False) xs
      then rat_to_float (sum_list (map (\<lambda>x. case x of Fin r \<Rightarrow> r | _ \<Rightarrow> 0) xs))
      else Inr (Infinity True))"

definition fmean :: "pyfloat list \<Rightarrow> pyfloat res" where
  "fmean xs =
     bindE (fsum xs) (\<lambda>total.
     Inr (case total of Fin r \<Rightarrow> Fin (fl (r / of_nat (length xs))) | t \<Rightarrow> t))"

definition max_or_null :: "int list \<Rightarrow> json" where
  "max_or_null xs = (if xs = [] then JNull else JInt (Max (set xs)))"

definition present :: "'a option list \<Rightarrow> 'a list" where
  "present xs = map the (filter (\<lambda>x. x \<noteq> None) xs)"

definition requires_backend_memory :: "ProbeRun list \<Rightarrow> bool" where
  "requires_backend_memory runs \<longleftrightarrow>
     pr_converter_backend (run_first (hd runs)) \<notin> {None, Some ''hazkey''} \<or>
     list_ex (\<lambda>run. list_ex pr_has_backend_evidence (run_cases run)) runs"

definition text_or_null :: "string option \<Rightarrow> json" where
  "text_or_null s = (case s of None \<Rightarrow> JNull | Some t \<Rightarrow> JStr t)"

definition corpus_object :: "(string \<times> int) option \<Rightarrow> json" where
  "corpus_object corpus =
     (case corpus of None \<Rightarrow> JNull
      | Some (digest, n) \<Rightarrow> JObj [(''sha256'', JStr digest), (''cases'', JInt n)])"

definition resource_object :: "Resource \<Rightarrow> json" where
  "resource_object r = JObj [(''kind'', JStr (res_kind r)), (''path'', JStr (res_path r)),
     (''fingerprint'', JStr (res_fingerprint r))]"

definition probe_provenance :: "ProbeCase \<Rightarrow> json" where
  "probe_provenance first =
     (if pr_schema first = INPUT_SCHEMA_V1 then JObj
        [(''source_ref'', JStr (pr_source_ref first)), (''dictionary_path'', JStr (res_path (pr_resource first))),
         (''dictionary_fingerprint'', JStr (res_fingerprint (pr_resource first)))]
      else JObj
        ([(''source_ref'', JStr (pr_source_ref first)), (''resource'', resource_object (pr_resource first))] @
         (if pr_schema first = INPUT_SCHEMA_V3 then [(''corpus'', corpus_object (pr_corpus first))] else [])))"

text \<open>The built-in \<open>sum\<close> of floats rounds differently in different interpreters: a parameter.\<close>

definition summarize_runs :: "(rat list \<Rightarrow> pyfloat) \<Rightarrow> ProbeRun list \<Rightarrow> json res" where
  "summarize_runs float_sum runs =
     (let first_run = hd runs; first = run_first first_run; schema = pr_schema first;
          all_cases = concat (map run_cases runs);
          all_samples = concat (map pr_samples all_cases);
          run_totals = map (\<lambda>run. float_sum (concat (map pr_samples (run_cases run)))) runs;
          requires_backend = requires_backend_memory runs;
          values = (\<lambda>f. present (concat (map f all_cases)))
      in
      bindE (eachE (same_run first_run) (tl runs)) (\<lambda>_.
      bindE (raise_if (int (length all_samples) \<noteq>
                         int (length runs) * int (length (run_cases first_run)) * pr_iterations first)
               (ValueError ''measured conversion count is inconsistent with runs, cases, and iterations'')) (\<lambda>_.
      bindE (fmean (map Fin all_samples)) (\<lambda>mean_latency.
      bindE (fmean run_totals) (\<lambda>mean_total.
      Inr (JObj
        ([(''schema'', JStr (if schema = INPUT_SCHEMA_V1 then OUTPUT_SCHEMA_V1
                             else if schema = INPUT_SCHEMA_V2 then OUTPUT_SCHEMA_V2 else OUTPUT_SCHEMA_V3)),
          (''backend'', JStr (pr_backend first)), (''backend_version'', JStr (pr_backend_version first))] @
         (if schema = INPUT_SCHEMA_V1 then [] else [(''converter_backend'', text_or_null (pr_converter_backend first))]) @
         (if schema = INPUT_SCHEMA_V3
          then [(''top_k'', case pr_top_k first of None \<Rightarrow> JNull | Some k \<Rightarrow> JInt k)] else []) @
         [(''provenance'', probe_provenance first),
          (''runs'', JInt (int (length runs))),
          (''cases_per_run'', JInt (int (length (run_cases first_run)))),
          (''iterations'', JInt (pr_iterations first)),
          (''measured_conversions'', JInt (int (length all_samples))),
          (''mean_latency_ms'', JFloat mean_latency),
          (''median_latency_ms'', JFloat (median all_samples)),
          (''p95_latency_ms'', JFloat (Fin (nearest_rank_p95 all_samples))),
          (''min_latency_ms'', JFloat (Fin (Min (set all_samples)))),
          (''max_latency_ms'', JFloat (Fin (Max (set all_samples)))),
          (''mean_total_ms_per_run'', JFloat mean_total),
          (''max_observed_rss_kib'', max_or_null (values pr_rss)),
          (''max_observed_total_rss_kib'',
             max_or_null (values (\<lambda>c. total_memory_snapshots requires_backend (pr_rss c) (pr_backend_rss c)))),
          (''max_observed_parent_pss_kib'', max_or_null (values pr_parent_pss)),
          (''max_observed_backend_rss_kib'', max_or_null (values pr_backend_rss)),
          (''max_observed_backend_pss_kib'', max_or_null (values pr_backend_pss)),
          (''max_observed_total_pss_kib'',
             max_or_null (values (\<lambda>c. total_memory_snapshots requires_backend (pr_parent_pss c) (pr_backend_pss c)))),
          (''max_backend_process_launch_count'', max_or_null (values (\<lambda>c. take 1 (pr_backend_diagnostics c)))),
          (''max_backend_cleanup_failure_count'', max_or_null (values (\<lambda>c. drop 1 (pr_backend_diagnostics c))))])))))))"

definition summarize_probe_files :: "(rat list \<Rightarrow> pyfloat) \<Rightarrow> (string \<times> string) list \<Rightarrow> json res" where
  "summarize_probe_files float_sum files =
     bindE (raise_if (files = []) (ValueError ''at least one probe JSONL run is required'')) (\<lambda>_.
     bindE (mapE (\<lambda>(path, data). load_run_bytes data path) files) (\<lambda>runs.
     summarize_runs float_sum runs))"

end
