(* ===== verification/Hybrid_Merge.thy ===== *)
theory Hybrid_Merge
  imports Probe_Runs Sha256
begin

text \<open>
  \<open>evaluate_mozc_hybrid_spike.py\<close>: two policies that merge the candidates of the Hazkey and the Mozc
  backend, and their evaluation on a pair of probe runs.  \<open>nfc\<close> is \<open>unicodedata.normalize("NFC", _)\<close>
  on texts.
\<close>

section \<open>Merging candidates\<close>

definition MOZC_STABLE_PREFIX :: nat where "MOZC_STABLE_PREFIX = 3"

text \<open>The loop over the groups, with the surfaces seen and the candidates collected so far.\<close>

fun unique_from :: "(string \<Rightarrow> string) \<Rightarrow> int \<Rightarrow> string list \<Rightarrow> string list \<Rightarrow> string list \<Rightarrow> string list" where
  "unique_from nfc limit seen candidates [] = candidates"
| "unique_from nfc limit seen candidates (c # cs) =
     (if nfc c \<in> set seen then unique_from nfc limit seen candidates cs
      else if int (length (candidates @ [c])) = limit then candidates @ [c]
      else unique_from nfc limit (nfc c # seen) (candidates @ [c]) cs)"

definition unique_surfaces :: "(string \<Rightarrow> string) \<Rightarrow> string list list \<Rightarrow> int \<Rightarrow> string list" where
  "unique_surfaces nfc groups limit = unique_from nfc limit [] [] (concat groups)"

definition merge_candidates ::
  "(string \<Rightarrow> string) \<Rightarrow> string list \<Rightarrow> string list \<Rightarrow> int \<Rightarrow> (string list \<times> string) res" where
  "merge_candidates nfc hazkey mozc suggestion_limit =
     bindE (raise_if (suggestion_limit < 1) (ValueError ''suggestion_limit must be positive'')) (\<lambda>_.
     Inr
       (case mozc of
          [] \<Rightarrow>
            (if hazkey = [] then ([], ''no_candidates'')
             else (unique_surfaces nfc [hazkey] suggestion_limit, ''hazkey_fallback_mozc_empty''))
        | mozc_first # mozc_rest \<Rightarrow>
            (case hazkey of
               [] \<Rightarrow> (unique_surfaces nfc [mozc] suggestion_limit, ''keep_mozc_hazkey_empty'')
             | hazkey_first # hazkey_rest \<Rightarrow>
                 let hazkey_top = nfc hazkey_first; mozc_top = nfc mozc_first;
                     hazkey_top_below_mozc = list_ex (\<lambda>c. nfc c = hazkey_top) mozc_rest;
                     mozc_top_in_hazkey = list_ex (\<lambda>c. nfc c = mozc_top) hazkey
                 in if hazkey_top_below_mozc \<and> \<not> mozc_top_in_hazkey
                    then (unique_surfaces nfc [[hazkey_first], mozc, hazkey_rest] suggestion_limit,
                          ''promote_hazkey_one_sided_consensus'')
                    else (unique_surfaces nfc
                            [take MOZC_STABLE_PREFIX mozc, hazkey, drop MOZC_STABLE_PREFIX mozc] suggestion_limit,
                          ''keep_mozc_top1''))))"

definition merge_candidates_preserve_mozc_top1 ::
  "(string \<Rightarrow> string) \<Rightarrow> string list \<Rightarrow> string list \<Rightarrow> int \<Rightarrow> (string list \<times> string) res" where
  "merge_candidates_preserve_mozc_top1 nfc hazkey mozc suggestion_limit =
     bindE (raise_if (suggestion_limit < 1) (ValueError ''suggestion_limit must be positive'')) (\<lambda>_.
     Inr
       (if mozc = [] then
          (if hazkey = [] then ([], ''no_candidates'')
           else (unique_surfaces nfc [hazkey] suggestion_limit, ''hazkey_fallback_mozc_empty''))
        else if hazkey = [] then (unique_surfaces nfc [mozc] suggestion_limit, ''keep_mozc_hazkey_empty'')
        else (unique_surfaces nfc
                [take MOZC_STABLE_PREFIX mozc, hazkey, drop MOZC_STABLE_PREFIX mozc] suggestion_limit,
              ''keep_mozc_top1'')))"

section \<open>Misses of Mozc\<close>

definition HAZKEY_TOP1_RESCUE :: string where "HAZKEY_TOP1_RESCUE = ''hazkey_top1_rescue''"
definition BELOW_TOP1_BOTH :: string where "BELOW_TOP1_BOTH = ''below_top1_both''"
definition BELOW_TOP1_HAZKEY_ONLY :: string where "BELOW_TOP1_HAZKEY_ONLY = ''below_top1_hazkey_only''"
definition BELOW_TOP1_MOZC_ONLY :: string where "BELOW_TOP1_MOZC_ONLY = ''below_top1_mozc_only''"
definition BOTH_ABSENT :: string where "BOTH_ABSENT = ''both_absent''"

definition MISS_CLASSES :: "string list" where
  "MISS_CLASSES = [HAZKEY_TOP1_RESCUE, BELOW_TOP1_BOTH, BELOW_TOP1_HAZKEY_ONLY, BELOW_TOP1_MOZC_ONLY, BOTH_ABSENT]"

definition classify_mozc_top1_miss :: "int option \<Rightarrow> int option \<Rightarrow> string res" where
  "classify_mozc_top1_miss hazkey_rank mozc_rank =
     bindE (raise_if (mozc_rank = Some 1) (ValueError ''classification requires a Mozc Top-1 miss'')) (\<lambda>_.
     Inr (if hazkey_rank = Some 1 then HAZKEY_TOP1_RESCUE
          else if hazkey_rank \<noteq> None \<and> mozc_rank \<noteq> None then BELOW_TOP1_BOTH
          else if hazkey_rank \<noteq> None then BELOW_TOP1_HAZKEY_ONLY
          else if mozc_rank \<noteq> None then BELOW_TOP1_MOZC_ONLY
          else BOTH_ABSENT))"

section \<open>The inputs\<close>

definition same_probe_settings :: "ProbeCase \<Rightarrow> ProbeCase \<Rightarrow> unit res" where
  "same_probe_settings h m =
     bindE (raise_if (pr_source_ref h \<noteq> pr_source_ref m)
              (ValueError ''probe runs must have an identical source_ref'')) (\<lambda>_.
     require_same
       [(''backend_version'', pr_backend_version h = pr_backend_version m),
        (''warmups'', pr_warmups h = pr_warmups m), (''iterations'', pr_iterations h = pr_iterations m),
        (''top_k'', pr_top_k h = pr_top_k m), (''corpus'', pr_corpus h = pr_corpus m)]
       (\<lambda>field. ''probe runs must have an identical '' @ field))"

definition corpus_by_id :: "CorpusRow list \<Rightarrow> (string \<times> CorpusRow) list" where
  "corpus_by_id corpus = foldl (\<lambda>d r. dict_set (row_id r) r d) [] corpus"

definition probe_matches_row :: "string \<Rightarrow> ProbeRun \<Rightarrow> string \<times> CorpusRow \<Rightarrow> unit res" where
  "probe_matches_row context run = (\<lambda>(i, r).
     case case_of run i of
       None \<Rightarrow> Inl (KeyError i)
     | Some c \<Rightarrow>
         bindE (raise_if (pr_reading c \<noteq> Some (row_reading r))
                  (ValueError (context @ '': reading does not match corpus''))) (\<lambda>_.
         raise_if (pr_category c \<noteq> row_category r)
           (ValueError (context @ '': category does not match corpus''))))"

definition run_matches_corpus :: "CorpusRow list \<Rightarrow> string \<times> ProbeRun \<Rightarrow> unit res" where
  "run_matches_corpus corpus = (\<lambda>(context, run).
     bindE (raise_if (pr_id ` set (run_cases run) \<noteq> set (keys (corpus_by_id corpus)))
              (ValueError (context @ '': case set does not match corpus; ''))) (\<lambda>_.
     eachE (probe_matches_row context run) (corpus_by_id corpus)))"

definition validate_hybrid_inputs ::
  "CorpusRow list \<Rightarrow> string \<Rightarrow> ProbeRun \<Rightarrow> ProbeRun \<Rightarrow> string \<Rightarrow> string \<Rightarrow> unit res" where
  "validate_hybrid_inputs corpus corpus_digest hazkey_run mozc_run hazkey_context mozc_context =
     (let runs = [(hazkey_context, hazkey_run), (mozc_context, mozc_run)];
          h = run_first hazkey_run; m = run_first mozc_run in
      bindE (eachE (\<lambda>(context, run). raise_if (pr_schema (run_first run) \<noteq> INPUT_SCHEMA_V3)
               (ValueError (context @ '': hybrid spike requires ''))) runs) (\<lambda>_.
      bindE (raise_if (pr_converter_backend h \<noteq> Some ''hazkey'')
               (ValueError (hazkey_context @ '': converter_backend must be '' @ [CHR 0x27] @ ''hazkey'' @ [CHR 0x27] @ '', got ''))) (\<lambda>_.
      bindE (raise_if (pr_converter_backend m \<noteq> Some ''mozc'')
               (ValueError (mozc_context @ '': converter_backend must be '' @ [CHR 0x27] @ ''mozc'' @ [CHR 0x27] @ '', got ''))) (\<lambda>_.
      bindE (same_probe_settings h m) (\<lambda>_.
      bindE (raise_if (pr_corpus h \<noteq> Some (corpus_digest, int (length corpus)))
               (ValueError ''probe corpus provenance does not match the supplied corpus'')) (\<lambda>_.
      eachE (run_matches_corpus corpus) runs))))))"

section \<open>One case\<close>

record HybridCase =
  hc_row :: CorpusRow
  hc_expected :: "string list"
  hc_hazkey_rank :: "int option"
  hc_mozc_rank :: "int option"
  hc_hybrid_rank :: "int option"
  hc_h0_rank :: "int option"
  hc_classification :: "string option"
  hc_decision :: string
  hc_h0_decision :: string
  hc_outcome :: string
  hc_hazkey :: "string list"
  hc_mozc :: "string list"
  hc_hybrid :: "string list"
  hc_h0 :: "string list"

text \<open>\<open>run["cases"][case_id]["candidates"][:top_k]\<close>\<close>

definition top_candidates :: "ProbeRun \<Rightarrow> string \<Rightarrow> int option \<Rightarrow> string list res" where
  "top_candidates run i top_k =
     (case case_of run i of
        None \<Rightarrow> Inl (KeyError i)
      | Some c \<Rightarrow> Inr (case top_k of None \<Rightarrow> pr_candidates c | Some k \<Rightarrow> take (nat k) (pr_candidates c)))"

definition outcome_of :: "bool \<Rightarrow> bool \<Rightarrow> string" where
  "outcome_of mozc_top1 hybrid_top1 =
     (if \<not> mozc_top1 \<and> hybrid_top1 then ''rescued''
      else if mozc_top1 \<and> \<not> hybrid_top1 then ''regressed''
      else if mozc_top1 then ''unchanged_correct'' else ''unchanged_incorrect'')"

definition hybrid_case ::
  "(string \<Rightarrow> string) \<Rightarrow> ProbeRun \<Rightarrow> ProbeRun \<Rightarrow> int option \<Rightarrow> CorpusRow \<Rightarrow> HybridCase res" where
  "hybrid_case nfc hazkey_run mozc_run top_k r =
     (let expected = alternatives (row_expected r) in
      bindE (top_candidates hazkey_run (row_id r) top_k) (\<lambda>hazkey.
      bindE (top_candidates mozc_run (row_id r) top_k) (\<lambda>mozc.
      bindE (case top_k of None \<Rightarrow> Inl (TypeError ''suggestion_limit'') | Some k \<Rightarrow> Inr k) (\<lambda>limit.
      bindE (merge_candidates nfc hazkey mozc limit) (\<lambda>(hybrid, decision).
      bindE (merge_candidates_preserve_mozc_top1 nfc hazkey mozc limit) (\<lambda>(runtime_h0, runtime_h0_decision).
      let hazkey_rank = expected_rank expected hazkey; mozc_rank = expected_rank expected mozc;
          hybrid_rank = expected_rank expected hybrid; runtime_h0_rank = expected_rank expected runtime_h0
      in
      bindE (if mozc_rank = Some 1 then Inr None
             else bindE (classify_mozc_top1_miss hazkey_rank mozc_rank) (\<lambda>c. Inr (Some c))) (\<lambda>classification.
      Inr \<lparr>hc_row = r, hc_expected = expected, hc_hazkey_rank = hazkey_rank, hc_mozc_rank = mozc_rank,
           hc_hybrid_rank = hybrid_rank, hc_h0_rank = runtime_h0_rank, hc_classification = classification,
           hc_decision = decision, hc_h0_decision = runtime_h0_decision,
           hc_outcome = outcome_of (mozc_rank = Some 1) (hybrid_rank = Some 1),
           hc_hazkey = hazkey, hc_mozc = mozc, hc_hybrid = hybrid, hc_h0 = runtime_h0\<rparr>)))))))"

section \<open>The counters of the loop\<close>

record HybridCounts =
  hazkey_hits :: int
  mozc_hits :: int
  hybrid_hits :: int
  runtime_h0_hits :: int
  backend_top1_oracle_hits :: int
  candidate_union_oracle_hits :: int
  rescued :: int
  regressed :: int
  runtime_h0_rescued :: int
  runtime_h0_regressed :: int
  miss_counts :: "(string \<times> int) list"

definition no_counts :: HybridCounts where
  "no_counts = \<lparr>hazkey_hits = 0, mozc_hits = 0, hybrid_hits = 0, runtime_h0_hits = 0,
     backend_top1_oracle_hits = 0, candidate_union_oracle_hits = 0, rescued = 0, regressed = 0,
     runtime_h0_rescued = 0, runtime_h0_regressed = 0, miss_counts = map (\<lambda>n. (n, 0)) MISS_CLASSES\<rparr>"

definition miss_count :: "(string \<times> int) list \<Rightarrow> string \<Rightarrow> int" where
  "miss_count d k = (case map_of d k of None \<Rightarrow> 0 | Some n \<Rightarrow> n)"

definition count_case :: "HybridCounts \<Rightarrow> HybridCase \<Rightarrow> HybridCounts" where
  "count_case n c =
     (let hazkey_top1 = hc_hazkey_rank c = Some 1; mozc_top1 = hc_mozc_rank c = Some 1;
          hybrid_top1 = hc_hybrid_rank c = Some 1; runtime_h0_top1 = hc_h0_rank c = Some 1
      in \<lparr>hazkey_hits = hazkey_hits n + of_bool hazkey_top1,
          mozc_hits = mozc_hits n + of_bool mozc_top1,
          hybrid_hits = hybrid_hits n + of_bool hybrid_top1,
          runtime_h0_hits = runtime_h0_hits n + of_bool runtime_h0_top1,
          backend_top1_oracle_hits = backend_top1_oracle_hits n + of_bool (hazkey_top1 \<or> mozc_top1),
          candidate_union_oracle_hits =
            candidate_union_oracle_hits n + of_bool (hc_hazkey_rank c \<noteq> None \<or> hc_mozc_rank c \<noteq> None),
          rescued = rescued n + of_bool (hc_outcome c = ''rescued''),
          regressed = regressed n + of_bool (hc_outcome c = ''regressed''),
          runtime_h0_rescued = runtime_h0_rescued n + of_bool (\<not> mozc_top1 \<and> runtime_h0_top1),
          runtime_h0_regressed = runtime_h0_regressed n + of_bool (mozc_top1 \<and> \<not> runtime_h0_top1),
          miss_counts = (case hc_classification c of
             None \<Rightarrow> miss_counts n
           | Some k \<Rightarrow> dict_set k (miss_count (miss_counts n) k + 1) (miss_counts n))\<rparr>)"

definition hybrid_step ::
  "(string \<Rightarrow> string) \<Rightarrow> ProbeRun \<Rightarrow> ProbeRun \<Rightarrow> int option \<Rightarrow> HybridCounts \<times> HybridCase list \<Rightarrow> CorpusRow \<Rightarrow>
     (HybridCounts \<times> HybridCase list) res" where
  "hybrid_step nfc hazkey_run mozc_run top_k = (\<lambda>(counts, cases) r.
     bindE (hybrid_case nfc hazkey_run mozc_run top_k r) (\<lambda>c.
     Inr (count_case counts c, cases @ [c])))"

section \<open>The report\<close>

definition rate :: "int \<Rightarrow> int \<Rightarrow> json res" where
  "rate numerator denominator =
     (if denominator = 0 then Inr (JFloat (Fin 0))
      else bindE (int_div_float numerator denominator) (\<lambda>f. Inr (JFloat f)))"

definition hits_and_rate :: "int \<Rightarrow> int \<Rightarrow> json res" where
  "hits_and_rate hits total_n =
     bindE (rate hits total_n) (\<lambda>q. Inr (JObj [(''hits'', JInt hits), (''rate'', q)]))"

definition rank_json :: "int option \<Rightarrow> json" where
  "rank_json rank = (case rank of None \<Rightarrow> JNull | Some i \<Rightarrow> JInt i)"

definition hybrid_case_json :: "HybridCase \<Rightarrow> json" where
  "hybrid_case_json c = JObj
     [(''id'', JStr (row_id (hc_row c))), (''reading'', JStr (row_reading (hc_row c))),
      (''category'', JStr (row_category (hc_row c))), (''expected'', JArr (map JStr (hc_expected c))),
      (''expected_rank'', JObj
        [(''hazkey'', rank_json (hc_hazkey_rank c)), (''mozc'', rank_json (hc_mozc_rank c)),
         (''hybrid'', rank_json (hc_hybrid_rank c)), (''runtime_h0'', rank_json (hc_h0_rank c))]),
      (''mozc_top1_miss_classification'', text_or_null (hc_classification c)),
      (''policy_decision'', JStr (hc_decision c)), (''runtime_h0_policy_decision'', JStr (hc_h0_decision c)),
      (''top1_outcome'', JStr (hc_outcome c)),
      (''candidates'', JObj
        [(''hazkey'', JArr (map JStr (hc_hazkey c))), (''mozc'', JArr (map JStr (hc_mozc c))),
         (''hybrid'', JArr (map JStr (hc_hybrid c))), (''runtime_h0'', JArr (map JStr (hc_h0 c)))])]"

definition input_metadata :: "string \<Rightarrow> ProbeRun \<Rightarrow> json" where
  "input_metadata data run =
     (let f = run_first run in JObj
       [(''sha256'', JStr (sha256_bytes data)), (''schema'', JStr (pr_schema f)), (''backend'', JStr (pr_backend f)),
        (''backend_version'', JStr (pr_backend_version f)),
        (''converter_backend'', text_or_null (pr_converter_backend f)),
        (''source_ref'', JStr (pr_source_ref f)), (''resource'', resource_object (pr_resource f))])"

definition hybrid_policy_json :: json where
  "hybrid_policy_json = JObj
     [(''id'', JStr ''mozc-first-one-sided-consensus-v1''), (''uses_expected_labels'', JBool False),
      (''normalized_surface'', JStr ''Unicode NFC''), (''mozc_stable_prefix'', JInt (int MOZC_STABLE_PREFIX)),
      (''rules'', JArr (map JStr
        [''Use Hazkey when Mozc returns no candidates.'',
         ''Otherwise keep Mozc Top-1 unless Hazkey Top-1 occurs below Mozc Top-1 and Mozc Top-1 is absent from Hazkey.'',
         ''On one-sided consensus, promote Hazkey Top-1, then retain Mozc order, then append remaining unique Hazkey candidates.'',
         ''Without promotion, retain Mozc Top-3, append unique Hazkey candidates, then append remaining Mozc candidates.'',
         ''Deduplicate by Unicode NFC surface and stop at top_k.'']))]"

definition runtime_policy_json :: json where
  "runtime_policy_json = JObj
     [(''id'', JStr ''mozc-first-preserve-top1-h0''), (''deployed_by_default'', JBool True),
      (''uses_expected_labels'', JBool False),
      (''rules'', JArr (map JStr
        [''Use Hazkey only when Mozc returns no candidates.'',
         ''Otherwise preserve Mozc Top-1 and stable Top-3 order.'',
         ''Append unique Hazkey candidates, then remaining Mozc candidates.'']))]"

definition top1_json :: "HybridCounts \<Rightarrow> int \<Rightarrow> json res" where
  "top1_json n total_n =
     bindE (hits_and_rate (hazkey_hits n) total_n) (\<lambda>hazkey.
     bindE (hits_and_rate (mozc_hits n) total_n) (\<lambda>mozc.
     bindE (hits_and_rate (hybrid_hits n) total_n) (\<lambda>hybrid.
     bindE (rate (rescued n - regressed n) total_n) (\<lambda>net_rate.
     Inr (JObj [(''cases'', JInt total_n), (''hazkey'', hazkey), (''mozc'', mozc), (''hybrid'', hybrid),
       (''rescued'', JInt (rescued n)), (''regressed'', JInt (regressed n)),
       (''net_hits'', JInt (rescued n - regressed n)), (''net_rate'', net_rate)])))))"

definition h0_json :: "HybridCounts \<Rightarrow> int \<Rightarrow> json res" where
  "h0_json n total_n =
     bindE (rate (runtime_h0_hits n) total_n) (\<lambda>q.
     bindE (rate (runtime_h0_rescued n - runtime_h0_regressed n) total_n) (\<lambda>net_rate.
     Inr (JObj [(''cases'', JInt total_n), (''hits'', JInt (runtime_h0_hits n)), (''rate'', q),
       (''rescued'', JInt (runtime_h0_rescued n)), (''regressed'', JInt (runtime_h0_regressed n)),
       (''net_hits'', JInt (runtime_h0_rescued n - runtime_h0_regressed n)), (''net_rate'', net_rate)])))"

definition oracle_json :: "HybridCounts \<Rightarrow> int \<Rightarrow> json res" where
  "oracle_json n total_n =
     bindE (rate (backend_top1_oracle_hits n) total_n) (\<lambda>top1_rate.
     bindE (rate (candidate_union_oracle_hits n) total_n) (\<lambda>union_rate.
     Inr (JObj
       [(''backend_top1_union'', JObj
          [(''definition'', JStr ''expected is Top-1 in Hazkey or Mozc''),
           (''hits'', JInt (backend_top1_oracle_hits n)), (''rate'', top1_rate),
           (''incremental_hits_over_mozc'', JInt (backend_top1_oracle_hits n - mozc_hits n))]),
        (''candidate_union'', JObj
          [(''definition'', JStr ''expected occurs anywhere in either observed candidate window''),
           (''hits'', JInt (candidate_union_oracle_hits n)), (''rate'', union_rate),
           (''incremental_hits_over_mozc'', JInt (candidate_union_oracle_hits n - mozc_hits n))])])))"

definition misses_json :: "HybridCounts \<Rightarrow> int \<Rightarrow> json res" where
  "misses_json n mozc_misses =
     (let m = miss_count (miss_counts n);
          below_total = m BELOW_TOP1_BOTH + m BELOW_TOP1_HAZKEY_ONLY + m BELOW_TOP1_MOZC_ONLY in
      bindE (rate (m HAZKEY_TOP1_RESCUE) mozc_misses) (\<lambda>rescue_rate.
      bindE (rate below_total mozc_misses) (\<lambda>below_rate.
      bindE (rate (m BOTH_ABSENT) mozc_misses) (\<lambda>absent_rate.
      Inr (JObj
        [(''scope'', JStr ''exact expected surface within observed top_k''), (''exhaustive'', JBool True),
         (''disjoint'', JBool True), (''total'', JInt mozc_misses),
         (HAZKEY_TOP1_RESCUE, JObj
            [(''count'', JInt (m HAZKEY_TOP1_RESCUE)), (''rate_of_mozc_top1_misses'', rescue_rate)]),
         (''below_top1_presence'', JObj
            [(''count'', JInt below_total), (''rate_of_mozc_top1_misses'', below_rate),
             (''both'', JInt (m BELOW_TOP1_BOTH)), (''hazkey_only'', JInt (m BELOW_TOP1_HAZKEY_ONLY)),
             (''mozc_only'', JInt (m BELOW_TOP1_MOZC_ONLY))]),
         (BOTH_ABSENT, JObj
            [(''count'', JInt (m BOTH_ABSENT)), (''rate_of_mozc_top1_misses'', absent_rate)])])))))"

definition evaluate_runs ::
  "(string \<Rightarrow> string) \<Rightarrow> CorpusRow list \<Rightarrow> ProbeRun \<Rightarrow> ProbeRun \<Rightarrow> string \<Rightarrow> string \<Rightarrow> string \<Rightarrow> string \<Rightarrow>
     string \<Rightarrow> string \<Rightarrow> json res" where
  "evaluate_runs nfc corpus hazkey_run mozc_run corpus_digest corpus_data hazkey_data mozc_data
     hazkey_context mozc_context =
     (let actual_corpus_sha256 = sha256_bytes corpus_data in
      bindE (raise_if (corpus_digest \<noteq> actual_corpus_sha256)
               (ValueError ''corpus_sha256 does not match corpus_bytes'')) (\<lambda>_.
      bindE (validate_hybrid_inputs corpus actual_corpus_sha256 hazkey_run mozc_run hazkey_context mozc_context) (\<lambda>_.
      let top_k = pr_top_k (run_first hazkey_run) in
      bindE (foldE (hybrid_step nfc hazkey_run mozc_run top_k) (no_counts, []) corpus) (\<lambda>(n, cases).
      let total_n = int (length cases); mozc_misses = total_n - mozc_hits n;
          classified = sum_list (map snd (miss_counts n)) in
      bindE (raise_if (classified \<noteq> mozc_misses)
               (AssertionError ''Mozc Top-1 miss classification is not exhaustive and disjoint'')) (\<lambda>_.
      bindE (raise_if (hybrid_hits n - mozc_hits n \<noteq> rescued n - regressed n)
               (AssertionError ''Top-1 rescue/regression accounting is inconsistent'')) (\<lambda>_.
      bindE (top1_json n total_n) (\<lambda>top1.
      bindE (h0_json n total_n) (\<lambda>runtime_h0.
      bindE (oracle_json n total_n) (\<lambda>oracle.
      bindE (misses_json n mozc_misses) (\<lambda>misses.
      Inr (JObj
        [(''schema'', JStr ''hazkey.mozc-hybrid-spike-evaluation.v1''), (''diagnostic_only'', JBool True),
         (''formal_authorized'', JBool False), (''new_holdout_required'', JBool True),
         (''rank_scope'', JStr ''observed_top_k''),
         (''top_k'', rank_json top_k), (''policy'', hybrid_policy_json), (''runtime_policy'', runtime_policy_json),
         (''inputs'', JObj
           [(''corpus'', JObj [(''sha256'', JStr actual_corpus_sha256), (''cases'', JInt (int (length corpus)))]),
            (''hazkey'', input_metadata hazkey_data hazkey_run), (''mozc'', input_metadata mozc_data mozc_run)]),
         (''top1'', top1), (''runtime_h0_top1'', runtime_h0), (''oracle_ceiling'', oracle),
         (''mozc_top1_miss_classification'', misses),
         (''cases'', JArr (map hybrid_case_json cases))])))))))))))"

end
