(* ===== verification/Probe_Facts.thy ===== *)
theory Probe_Facts
  imports Hybrid_Merge
begin

text \<open>
  Facts of the probe runs and of the hybrid merge: the p95 index on binary64 is the nearest rank, a loaded
  run has the samples and the provenance its first line declares, and a merge policy that lists every
  candidate of both backends yields a window without repeated surfaces.
\<close>

section \<open>Floats that are exact\<close>

lemma fl_grid:
  assumes "x = of_int k * ulp_of x" shows "fl x = x"
  using fl_le_grid [of x k] grid_le_fl [of k x] assms by simp

lemma floor_log2_less:
  assumes "0 < x" "x < 2 powi m" shows "floor_log2 x < m"
proof (rule ccontr)
  assume "\<not> floor_log2 x < m"
  then have "(2 :: rat) powi m \<le> 2 powi floor_log2 x" by (intro power_int_increasing) auto
  then show False using floor_log2_bounds(1) [OF assms(1)] assms(2) by linarith
qed

text \<open>Integers and thirty-seconds below 2 to the 53 are represented exactly.\<close>

lemma fl_dyadic:
  assumes "0 < k" "k < 2 ^ 53" "j \<le> 100" shows "fl (of_int k / 2 ^ j) = of_int k / 2 ^ j"
proof -
  define x :: rat where "x = of_int k / 2 ^ j"
  have pos: "0 < x" using assms by (simp add: x_def)
  have "(of_int k :: rat) < 2 ^ 53" using assms(2) by (metis of_int_less_iff of_int_numeral of_int_power)
  then have "x < 2 ^ 53 / 2 ^ j" by (simp add: x_def divide_strict_right_mono)
  also have "(2 ^ 53 / 2 ^ j :: rat) = 2 powi (53 - int j)"
    by (simp add: power_int_diff)
  finally have "floor_log2 x < 53 - int j" by (rule floor_log2_less [OF pos])
  then have d: "max (floor_log2 \<bar>x\<bar> - 52) (- 1074) \<le> - int j" using assms(3) pos by auto
  define d where "d = max (floor_log2 \<bar>x\<bar> - 52) (- 1074)"
  have "(2 :: rat) powi (- int j) = 2 powi (- int j - d) * 2 powi d" by (simp flip: power_int_add)
  moreover have "(2 :: rat) powi (- int j - d) = of_int (2 ^ nat (- int j - d))"
    using d unfolding d_def by (simp add: power_int_def)
  ultimately have "2 powi (- int j) = of_int (2 ^ nat (- int j - d)) * ulp_of x"
    by (simp add: ulp_of_def d_def)
  then have "x = of_int (k * 2 ^ nat (- int j - d)) * ulp_of x"
    by (simp add: x_def power_int_minus field_simps)
  then have "fl x = x" by (rule fl_grid)
  then show ?thesis by (simp add: x_def)
qed

lemma fl_integer: "0 < n \<Longrightarrow> n < 2 ^ 53 \<Longrightarrow> fl (of_nat n) = of_nat n"
  using fl_dyadic [of "int n" 0] by simp

lemma floor_log2_eq:
  assumes "2 powi e \<le> x" "x < 2 powi (e + 1)" shows "floor_log2 x = e"
proof -
  have pos: "0 < x" using assms(1) by (rule less_le_trans [rotated]) simp
  have "floor_log2 x < e + 1" using floor_log2_less [OF pos assms(2)] .
  moreover have "\<not> floor_log2 x < e"
  proof
    assume "floor_log2 x < e"
    then have "(2 :: rat) powi (floor_log2 x + 1) \<le> 2 powi e" by (intro power_int_increasing) auto
    then show False using floor_log2_bounds(2) [OF pos] assms(1) by linarith
  qed
  ultimately show ?thesis by simp
qed

lemma fl_19_20: "fl (95 / 100) = 8556839292003942 / 2 ^ 53"
proof -
  have "floor_log2 (19 / 20) = - 1" by (rule floor_log2_eq) (simp_all add: power_int_minus)
  then have u: "ulp_of (19 / 20) = 1 / 2 ^ 53" by (simp add: ulp_of_def power_int_minus field_simps)
  have "\<lfloor>42784196460019712 / 5 :: rat\<rfloor> = 8556839292003942" by (rule floor_unique) simp_all
  then have "round_half_even (19 / 20 * 2 ^ 53) = 8556839292003942"
    by (simp add: round_half_even_def Let_def)
  then show ?thesis by (simp add: fl_def u)
qed

text \<open>The product rounds to a value between the exact rank less one and the exact rank.\<close>

lemma p95_ceiling:
  assumes "0 < n" "n \<le> 2 ^ 40"
  shows "\<lceil>fl (fl (of_nat n) * fl (95 / 100))\<rceil> = int ((95 * n + 99) div 100)"
proof -
  define k where "k = (95 * n + 99) div 100"
  define x :: rat where "x = of_nat n * (8556839292003942 / 2 ^ 53)"
  have n: "(of_nat n :: rat) \<le> 2 ^ 40" using assms(2) by (metis of_nat_le_iff of_nat_numeral of_nat_power)
  have k: "95 * n \<le> 100 * k" "100 * k \<le> 95 * n + 99" unfolding k_def by auto
  have k0: "0 < k" and k1: "k \<le> 2 ^ 40" using k assms by auto
  have kr: "95 * of_nat n \<le> 100 * (of_nat k :: rat)"
    using k(1) of_nat_le_iff [of "95 * n" "100 * k", where 'a = rat] by simp
  have lim: "k < 2 ^ 53" using k1 by (rule le_less_trans) simp
  have hi: "x \<le> of_nat k" unfolding x_def using kr by simp
  have five: "100 * (of_nat k :: rat) \<le> 95 * of_nat n + 95"
  proof -
    have "20 * k < 19 * n + 20" using k(2) by linarith
    then have "100 * k \<le> 95 * n + 95" by linarith
    then show ?thesis using of_nat_le_iff [of "100 * k" "95 * n + 95", where 'a = rat] by simp
  qed
  have lo: "of_int (32 * int k - 31) / 2 ^ 5 \<le> x" unfolding x_def using five n by (simp add: field_simps)
  have "fl x \<le> of_nat k" using fl_mono [OF hi] fl_integer [OF k0 lim] by simp
  moreover have "of_int (32 * int k - 31) / 2 ^ 5 \<le> fl x"
  proof -
    have "int k \<le> 2 ^ 40" using k1 by (metis of_nat_le_iff of_nat_numeral of_nat_power)
    then have "32 * int k - 31 < 2 ^ 53" by simp
    then have "fl (of_int (32 * int k - 31) / 2 ^ 5) = of_int (32 * int k - 31) / 2 ^ 5"
      using k0 by (intro fl_dyadic) auto
    then show ?thesis using fl_mono [OF lo] by simp
  qed
  ultimately have "of_int (int k) - 1 < fl x" "fl x \<le> of_int (int k)" by (auto simp: field_simps)
  then have "\<lceil>fl x\<rceil> = int k" by (simp add: ceiling_eq_iff)
  moreover have "fl (of_nat n) = (of_nat n :: rat)" using assms by (intro fl_integer) auto
  ultimately show ?thesis unfolding fl_19_20 by (simp add: x_def k_def)
qed

lemma p95_index_exact:
  assumes "0 < n" "n \<le> 2 ^ 40" shows "p95_index n = (95 * n + 99) div 100 - 1"
proof -
  have "(95 * n + 99) div 100 \<le> n" "1 \<le> (95 * n + 99) div 100" using assms(1) by auto
  then show ?thesis unfolding p95_index_def p95_ceiling [OF assms] by (auto simp: nat_diff_distrib)
qed

section \<open>The nearest rank\<close>

lemma sorted_filter_le_nth:
  assumes "sorted xs" "i < length xs" shows "Suc i \<le> length (filter (\<lambda>x. x \<le> xs ! i) xs)"
proof -
  have "filter (\<lambda>x. x \<le> xs ! i) (take (Suc i) xs) = take (Suc i) xs"
    using assms sorted_nth_mono [OF assms(1)] by (auto simp: filter_id_conv in_set_conv_nth)
  then have "length (filter (\<lambda>x. x \<le> xs ! i) (take (Suc i) xs)) = Suc i" using assms(2) by simp
  moreover have "length (filter P (take m ys)) \<le> length (filter P ys)" for P m and ys :: "'a list"
    by (metis append_take_drop_id filter_append le_add1 length_append)
  ultimately show ?thesis by metis
qed

lemma sorted_filter_less_nth:
  assumes "sorted xs" "i < length xs" shows "length (filter (\<lambda>x. x < xs ! i) xs) \<le> i"
proof -
  have "filter (\<lambda>x. x < xs ! i) (drop i xs) = []"
    using assms sorted_nth_mono [OF assms(1)] by (auto simp: filter_empty_conv in_set_conv_nth not_less)
  then have "length (filter (\<lambda>x. x < xs ! i) xs) = length (filter (\<lambda>x. x < xs ! i) (take i xs))"
    by (metis append_Nil2 append_take_drop_id filter_append)
  then show ?thesis by (metis length_filter_le length_take min.cobounded2 order_trans)
qed

lemma length_filter_sort: "length (filter P (sort xs)) = length (filter P xs)"
  by (simp add: filter_sort)

lemma nearest_rank:
  assumes "samples \<noteq> []" "length samples \<le> 2 ^ 40"
  shows "nearest_rank_p95 samples \<in> set samples"
    "95 * length samples \<le> 100 * length (filter (\<lambda>x. x \<le> nearest_rank_p95 samples) samples)"
    "100 * length (filter (\<lambda>x. x < nearest_rank_p95 samples) samples) < 95 * length samples"
proof -
  let ?n = "length samples" and ?i = "p95_index (length samples)"
  have n: "0 < ?n" using assms(1) by simp
  have i: "?i = (95 * ?n + 99) div 100 - 1" by (rule p95_index_exact [OF n assms(2)])
  have rank: "(95 * m + 99) div 100 - 1 < m" "95 * m \<le> 100 * Suc ((95 * m + 99) div 100 - 1)"
      "100 * ((95 * m + 99) div 100 - 1) < 95 * m" if "0 < m" for m :: nat
  proof -
    define q where "q = (95 * m + 99) div 100"
    have q: "100 * q \<le> 95 * m + 99" "95 * m + 99 < 100 * q + 100" unfolding q_def by auto
    then have "0 < q" using that by linarith
    then obtain r where r: "q = Suc r" by (cases q) auto
    have s: "100 * r < 95 * m" using q(1) unfolding r by simp
    have "95 * m \<le> 100 * Suc r" using q(2) unfolding r by linarith
    moreover have "r < m" using s by linarith
    ultimately show "(95 * m + 99) div 100 - 1 < m" "95 * m \<le> 100 * Suc ((95 * m + 99) div 100 - 1)"
      "100 * ((95 * m + 99) div 100 - 1) < 95 * m"
      unfolding q_def [symmetric] r diff_Suc_1 using s by blast+
  qed
  have "(95 * ?n + 99) div 100 - 1 < ?n" by (rule rank(1) [OF n])
  then have lt: "?i < length (sort samples)" by (simp add: i)
  show "nearest_rank_p95 samples \<in> set samples"
    unfolding nearest_rank_p95_def using nth_mem [OF lt] by simp
  have "95 * ?n \<le> 100 * Suc ?i" unfolding i by (rule rank(2) [OF n])
  then show "95 * ?n \<le> 100 * length (filter (\<lambda>x. x \<le> nearest_rank_p95 samples) samples)"
    using sorted_filter_le_nth [OF sorted_sort lt]
    unfolding nearest_rank_p95_def length_filter_sort by (meson le_trans mult_le_mono2)
  have "100 * ?i < 95 * ?n" unfolding i by (rule rank(3) [OF n])
  then show "100 * length (filter (\<lambda>x. x < nearest_rank_p95 samples) samples) < 95 * ?n"
    using sorted_filter_less_nth [OF sorted_sort lt]
    unfolding nearest_rank_p95_def length_filter_sort by (meson le_less_trans mult_le_mono2)
qed


section \<open>Loaded runs\<close>

definition probe_ok :: "ProbeCase \<Rightarrow> bool" where
  "probe_ok c \<longleftrightarrow>
     pr_id c \<noteq> [] \<and> 0 < pr_iterations c \<and> int (length (pr_samples c)) = pr_iterations c \<and>
     (\<forall>x \<in> set (pr_samples c). 0 \<le> x) \<and> [] \<notin> set (pr_candidates c) \<and>
     (pr_schema c = INPUT_SCHEMA_V3 \<longrightarrow>
        (\<exists>reading k corpus. pr_reading c = Some reading \<and> pr_top_k c = Some k \<and> pr_corpus c = Some corpus \<and>
           1 \<le> k \<and> k \<le> 10 \<and> int (length (pr_candidates c)) \<le> k))"

lemma required_iff [simp]: "required d k ctx = Inr v \<longleftrightarrow> map_of d k = Some v"
  by (auto simp: required_def split: option.splits)

lemma required_as_iff [simp]:
  "required_as f d k ctx = Inr x \<longleftrightarrow> (\<exists>v. map_of d k = Some v \<and> f v (dot ctx k) = Inr x)"
  by (auto simp: required_as_def)

lemma probe_count_iff [simp]: "probe_count v ctx = Inr i \<longleftrightarrow> v = JInt i \<and> 0 \<le> i"
  by (auto simp: probe_count_def split: json.splits)

lemma probe_positive_iff [simp]: "probe_positive v ctx = Inr i \<longleftrightarrow> v = JInt i \<and> 0 < i"
  by (auto simp: probe_positive_def)

lemma nonnegative_number_nonneg:
  assumes "nonnegative_number v ctx = Inr x" shows "0 \<le> x"
proof -
  from assms obtain result where
    "(case result of Fin x \<Rightarrow> if x < 0 then Inl (ValueError (ctx @ '' must be a finite non-negative number'')) else Inr x
      | _ \<Rightarrow> Inl (ValueError (ctx @ '' must be a finite non-negative number''))) = Inr x"
    unfolding nonnegative_number_def Let_def bindE_Inr_iff by blast
  then show ?thesis by (cases result) (auto split: if_splits)
qed

lemma probe_samples_ok:
  assumes "probe_samples d ctx = Inr (warmups, iterations, samples)"
  shows "0 < iterations" "int (length samples) = iterations" "\<forall>x \<in> set samples. 0 \<le> x"
proof -
  from assms obtain raw lctx where
    m: "mapiE (\<lambda>index v. nonnegative_number v (at_index (dot lctx ''samples'') index)) 0 raw = Inr samples" and
    i: "0 < iterations" "int (length samples) = iterations"
    unfolding probe_samples_def Let_def by auto
  show "0 < iterations" "int (length samples) = iterations" using i by auto
  show "\<forall>x \<in> set samples. 0 \<le> x"
  proof
    fix x assume "x \<in> set samples"
    then obtain j where "j < length samples" "samples ! j = x" by (auto simp: in_set_conv_nth)
    then have "\<exists>v c. nonnegative_number v c = Inr x" using m by (auto simp: mapiE_Inr_iff)
    then show "0 \<le> x" using nonnegative_number_nonneg by blast
  qed
qed

lemma probe_candidates_ok:
  assumes "probe_candidates d top_k ctx = Inr cs"
  shows "[] \<notin> set cs" "top_k = Some k \<Longrightarrow> int (length cs) \<le> k"
proof -
  from assms obtain raw where
    m: "mapiE (\<lambda>index v. as_string v (at_index (dot ctx ''candidates'') index)) 0 raw = Inr cs"
    and l: "\<not> (case top_k of None \<Rightarrow> False | Some k \<Rightarrow> k < int (length raw))"
    unfolding probe_candidates_def by auto
  have len: "length cs = length raw" using m by (simp add: mapiE_Inr_iff)
  show "[] \<notin> set cs" using m by (auto simp: mapiE_Inr_iff in_set_conv_nth)
  show "top_k = Some k \<Longrightarrow> int (length cs) \<le> k" using l len by auto
qed

lemma probe_scope_ok:
  assumes "probe_scope d INPUT_SCHEMA_V3 ctx = Inr (reading, top_k, corpus)"
  shows "\<exists>r k c. reading = Some r \<and> top_k = Some k \<and> corpus = Some c \<and> 1 \<le> k \<and> k \<le> 10"
proof -
  from assms obtain k where "0 < k" "\<not> 10 < k" "top_k = Some k" "\<exists>r c. reading = Some r \<and> corpus = Some c"
    unfolding probe_scope_def if_P [OF refl]
    by (elim bindE_elim) (simp, blast)
  then show ?thesis by auto
qed

lemma validate_result_ok:
  assumes "validate_result payload ctx = Inr c" shows "probe_ok c"
proof -
  obtain d schema i m scope candidates samples where
    s: "required_as as_string d ''id'' ctx = Inr i"
    "probe_scope d schema ctx = Inr scope"
    "probe_candidates d (fst (snd scope)) ctx = Inr candidates"
    "probe_samples m (dot ctx ''measurement'') = Inr samples"
    "pr_candidates c = candidates" "pr_schema c = schema" "pr_id c = i" "pr_reading c = fst scope" "pr_top_k c = fst (snd scope)"
    "pr_corpus c = snd (snd scope)" "pr_iterations c = fst (snd samples)" "pr_samples c = snd (snd samples)"
    using assms unfolding validate_result_def Let_def split_def
    by (elim bindE_elim) (drule sum.inject(2) [THEN iffD1], hypsubst, rule that, assumption, assumption, assumption,
      assumption, (simp only: ProbeCase.select_convs)+)
  have "\<exists>r k co. pr_reading c = Some r \<and> pr_top_k c = Some k \<and> pr_corpus c = Some co \<and>
      1 \<le> k \<and> k \<le> 10 \<and> int (length (pr_candidates c)) \<le> k" if "pr_schema c = INPUT_SCHEMA_V3"
    using probe_scope_ok [of d ctx "fst scope" "fst (snd scope)" "snd (snd scope)"]
      probe_candidates_ok(2) [OF s(3)] s that by auto
  moreover have "i \<noteq> []" using s(1) by auto
  ultimately show ?thesis
    using probe_samples_ok [of m _ "fst samples" "fst (snd samples)" "snd (snd samples)"]
      probe_candidates_ok(1) [OF s(3)] s unfolding probe_ok_def by auto
qed

definition agrees :: "string \<Rightarrow> ProbeCase \<Rightarrow> ProbeCase \<Rightarrow> bool" where
  "agrees schema first c \<longleftrightarrow> list_all snd (same_fields schema first c)"

lemma require_same_iff [simp]: "require_same fs message = Inr x \<longleftrightarrow> list_all snd fs"
  by (auto simp: require_same_def list_all_iff)

definition run_ok :: "ProbeRun \<Rightarrow> bool" where
  "run_ok run \<longleftrightarrow>
     run_cases run \<noteq> [] \<and> run_first run = hd (run_cases run) \<and> distinct (map pr_id (run_cases run)) \<and>
     (\<forall>c \<in> set (run_cases run). probe_ok c \<and> pr_schema c = pr_schema (run_first run) \<and>
        agrees (pr_schema (run_first run)) (run_first run) c) \<and>
     (pr_schema (run_first run) = INPUT_SCHEMA_V3 \<longrightarrow>
        (\<exists>digest. pr_corpus (run_first run) = Some (digest, int (length (run_cases run)))))"

lemma probe_lines:
  assumes "foldE (probe_line path) cases numbered = Inr cases'"
    and "distinct (map pr_id cases)" "\<forall>c \<in> set cases. probe_ok c"
  shows "distinct (map pr_id cases') \<and> (\<forall>c \<in> set cases'. probe_ok c)"
proof (rule foldE_invariant [where P = "\<lambda>cs. distinct (map pr_id cs) \<and> (\<forall>c \<in> set cs. probe_ok c)", OF assms(1)])
  fix cs x cs'
  assume inv: "distinct (map pr_id cs) \<and> (\<forall>c \<in> set cs. probe_ok c)" and step: "probe_line path cs x = Inr cs'"
  obtain n line where x: "x = (n, line)" by (cases x)
  show "distinct (map pr_id cs') \<and> (\<forall>c \<in> set cs'. probe_ok c)"
  proof (cases "list_all space_code line")
    case True
    then show ?thesis using step inv by (simp add: probe_line_def x)
  next
    case False
    then obtain payload ctx c where "validate_result payload ctx = Inr c" "pr_id c \<notin> pr_id ` set cs" "cs' = cs @ [c]"
      using step by (auto simp: probe_line_def x Let_def split: presult.splits)
    then show ?thesis using inv validate_result_ok by auto
  qed
qed (use assms in auto)

lemma load_run_ok:
  assumes "load_run_bytes data path = Inr run" shows "run_ok run"
proof -
  from assms obtain numbered cases where
    f: "foldE (probe_line path) [] numbered = Inr cases" and
    g: "(case cases of
            [] \<Rightarrow> Inl (ValueError (path @ '': probe run has no results''))
          | first # _ \<Rightarrow>
              bindE (eachE (consistent_with_first path first) cases) (\<lambda>_.
              bindE (raise_if (pr_schema first = INPUT_SCHEMA_V3 \<and>
                               (case pr_corpus first of None \<Rightarrow> False | Some (_, n) \<Rightarrow> n \<noteq> int (length cases)))
                       (ValueError (path @ '': corpus.cases does not match result count''))) (\<lambda>_.
              Inr \<lparr>run_path = path, run_first = first, run_cases = cases\<rparr>))) = Inr run"
    unfolding load_run_bytes_def Let_def bindE_Inr_iff by (cases "utf8_decode data") auto
  then obtain first later where cs: "cases = first # later" by (cases cases) auto
  note f = f [unfolded cs] and g = g [unfolded cs list.case bindE_Inr_iff raise_if_Inr_iff eachE_Inr_iff]
  have c: "\<forall>c \<in> set (first # later). consistent_with_first path first c = Inr ()"
    and v: "pr_schema first = INPUT_SCHEMA_V3 \<Longrightarrow>
      \<not> (case pr_corpus first of None \<Rightarrow> False | Some (d, n) \<Rightarrow> n \<noteq> int (length (first # later)))"
    and r: "run = \<lparr>run_path = path, run_first = first, run_cases = first # later\<rparr>"
    using g by blast+
  have ok: "distinct (map pr_id (first # later)) \<and> (\<forall>c \<in> set (first # later). probe_ok c)"
    by (rule probe_lines [OF f]) auto
  have "\<exists>d. pr_corpus first = Some (d, int (length (first # later)))" if v3: "pr_schema first = INPUT_SCHEMA_V3"
  proof -
    have "probe_ok first" using ok by simp
    then obtain co where "pr_corpus first = Some co" using v3 unfolding probe_ok_def by blast
    then obtain d n where "pr_corpus first = Some (d, n)" by (cases co) auto
    then show ?thesis using v v3 by auto
  qed
  then show ?thesis
    using ok c unfolding r run_ok_def consistent_with_first_def agrees_def by auto
qed


section \<open>Summaries of loaded runs\<close>

lemma run_sample_count:
  assumes "run_ok run"
  shows "int (length (concat (map pr_samples (run_cases run)))) = int (length (run_cases run)) * pr_iterations (run_first run)"
proof -
  have each: "\<forall>c \<in> set (run_cases run). int (length (pr_samples c)) = pr_iterations (run_first run)"
  proof
    fix c assume "c \<in> set (run_cases run)"
    then have "probe_ok c" "agrees (pr_schema (run_first run)) (run_first run) c"
      using assms unfolding run_ok_def by blast+
    then show "int (length (pr_samples c)) = pr_iterations (run_first run)"
      by (simp add: probe_ok_def agrees_def same_fields_def)
  qed
  have "int (length (concat (map pr_samples cs))) = int (length cs) * k"
    if "\<forall>c \<in> set cs. int (length (pr_samples c)) = k" for cs k
    using that by (induction cs) (auto simp: algebra_simps)
  from this [OF each] show ?thesis .
qed

lemma same_run_length:
  assumes "same_run first run = Inr x" "run_ok first" "run_ok run"
  shows "length (run_cases run) = length (run_cases first)" "pr_iterations (run_first run) = pr_iterations (run_first first)"
proof -
  from assms(1) have "pr_id ` set (run_cases run) = pr_id ` set (run_cases first)"
    and f: "list_all snd (same_fields (pr_schema (run_first first)) (run_first first) (run_first run))"
    unfolding same_run_def Let_def by auto
  then have "set (map pr_id (run_cases run)) = set (map pr_id (run_cases first))" by simp
  then show "length (run_cases run) = length (run_cases first)"
    using assms(2,3) unfolding run_ok_def by (metis distinct_card length_map)
  show "pr_iterations (run_first run) = pr_iterations (run_first first)"
    using f by (simp add: same_fields_def)
qed

lemma measured_conversions:
  assumes "runs \<noteq> []" "\<forall>run \<in> set runs. run_ok run" "eachE (same_run (hd runs)) (tl runs) = Inr ()"
  shows "int (length (concat (map pr_samples (concat (map run_cases runs))))) =
    int (length runs) * int (length (run_cases (hd runs))) * pr_iterations (run_first (hd runs))"
proof -
  let ?n = "int (length (run_cases (hd runs))) * pr_iterations (run_first (hd runs))"
  have hd: "run_ok (hd runs)" using assms(1,2) by simp
  have each: "int (length (concat (map pr_samples (run_cases run)))) = ?n" if "run \<in> set runs" for run
  proof -
    have ok: "run_ok run" using that assms(2) by blast
    have "run = hd runs \<or> same_run (hd runs) run = Inr ()" using that assms(1,3) by (cases runs) auto
    then have "length (run_cases run) = length (run_cases (hd runs)) \<and>
        pr_iterations (run_first run) = pr_iterations (run_first (hd runs))"
      using same_run_length [OF _ hd ok] by blast
    then show ?thesis using run_sample_count [OF ok] by simp
  qed
  have "int (length (concat (map pr_samples (concat (map run_cases rs))))) = int (length rs) * n"
    if "\<forall>run \<in> set rs. int (length (concat (map pr_samples (run_cases run)))) = n" for rs n
    using that by (induction rs) (auto simp: algebra_simps)
  from this [of runs ?n] each show ?thesis by (simp add: mult.assoc)
qed

lemma fmean_no_value_error: "fmean xs \<noteq> Inl (ValueError m)"
  unfolding fmean_def fsum_def rat_to_float_def by simp

lemma summary_value_errors:
  assumes "runs \<noteq> []" "\<forall>run \<in> set runs. run_ok run"
  shows "summarize_runs float_sum runs = Inl (ValueError m) \<longleftrightarrow>
    eachE (same_run (hd runs)) (tl runs) = Inl (ValueError m)"
proof (cases "eachE (same_run (hd runs)) (tl runs)")
  case (Inl e)
  then show ?thesis by (simp add: summarize_runs_def Let_def)
next
  case (Inr x)
  then have "eachE (same_run (hd runs)) (tl runs) = Inr ()" by simp
  note count = measured_conversions [OF assms this]
  have "summarize_runs float_sum runs \<noteq> Inl (ValueError m)"
    using fmean_no_value_error
    unfolding summarize_runs_def Let_def Inr bindE.simps count raise_if_def if_not_P [OF not_not [THEN iffD2, OF refl]]
    by (auto simp: bindE_Inl_iff)
  moreover have "Inr x \<noteq> Inl (ValueError m)" by simp
  ultimately show ?thesis unfolding Inr by blast
qed

section \<open>Merging\<close>

text \<open>The reference: the first occurrence of every normalized surface, in order.\<close>

function first_by :: "('a \<Rightarrow> 'b) \<Rightarrow> 'a list \<Rightarrow> 'a list" where
  "first_by f [] = []"
| "first_by f (x # xs) = x # first_by f (filter (\<lambda>y. f y \<noteq> f x) xs)"
  by pat_completeness auto
termination by (relation "measure (\<lambda>(f, xs). length xs)") (auto simp: le_imp_less_Suc)

lemma set_first_by: "set (first_by f xs) \<subseteq> set xs"
  by (induction f xs rule: first_by.induct) auto

lemma image_first_by: "f ` set (first_by f xs) = f ` set xs"
proof (induction f xs rule: first_by.induct)
  case (2 f x xs)
  have "f ` set (first_by f (x # xs)) = insert (f x) (f ` {y \<in> set xs. f y \<noteq> f x})" using 2 by simp
  also have "\<dots> = f ` set (x # xs)" by auto
  finally show ?case .
qed simp

lemma distinct_first_by: "distinct (map f (first_by f xs))"
proof (induction f xs rule: first_by.induct)
  case (2 f x xs)
  have "f x \<notin> f ` set (first_by f (filter (\<lambda>y. f y \<noteq> f x) xs))" unfolding image_first_by by auto
  then show ?case using 2 by simp
qed simp

lemma unique_from_eq:
  assumes "int (length candidates) < limit"
  shows "unique_from f limit seen candidates xs =
    take (nat limit) (candidates @ first_by f (filter (\<lambda>y. f y \<notin> set seen) xs))"
  using assms
proof (induction xs arbitrary: seen candidates)
  case Nil
  then show ?case by simp
next
  case (Cons x xs)
  show ?case
  proof (cases "f x \<in> set seen")
    case True
    then show ?thesis using Cons by simp
  next
    case False
    have later: "filter (\<lambda>y. f y \<noteq> f x) (filter (\<lambda>y. f y \<notin> set seen) xs) = filter (\<lambda>y. f y \<notin> set (f x # seen)) xs"
      by (simp add: conj_commute)
    show ?thesis
    proof (cases "int (length (candidates @ [x])) = limit")
      case True
      then have "nat limit = Suc (length candidates)" by simp
      then show ?thesis using False True by simp
    next
      case neq: False
      then have "int (length (candidates @ [x])) < limit" using Cons.prems by simp
      from Cons.IH [OF this, of "f x # seen"] show ?thesis using False neq later by simp
    qed
  qed
qed

lemma unique_surfaces_eq: "0 < limit \<Longrightarrow> unique_surfaces f groups limit = take (nat limit) (first_by f (concat groups))"
  unfolding unique_surfaces_def by (subst unique_from_eq) auto

text \<open>A policy orders the candidates of both backends; whatever the order, the window is sound.\<close>

locale merge_policy =
  fixes groups :: "string list \<Rightarrow> string list \<Rightarrow> string list list"
  assumes all_inputs: "set (concat (groups hazkey mozc)) = set hazkey \<union> set mozc"
begin

lemma window:
  "distinct (map nfc (unique_surfaces nfc (groups h m) (int (Suc n))))"
  "length (unique_surfaces nfc (groups h m) (int (Suc n))) \<le> Suc n"
  "set (unique_surfaces nfc (groups h m) (int (Suc n))) \<subseteq> set h \<union> set m"
  "length (unique_surfaces nfc (groups h m) (int (Suc n))) = Suc n \<or>
   nfc ` set (unique_surfaces nfc (groups h m) (int (Suc n))) = nfc ` (set h \<union> set m)"
proof -
  let ?xs = "first_by nfc (concat (groups h m))"
  have eq: "unique_surfaces nfc (groups h m) (int (Suc n)) = take (Suc n) ?xs"
    using unique_surfaces_eq [of "int (Suc n)"] by (simp del: of_nat_Suc)
  show "distinct (map nfc (unique_surfaces nfc (groups h m) (int (Suc n))))"
    unfolding eq take_map [symmetric] by (rule distinct_take) (rule distinct_first_by)
  show "length (unique_surfaces nfc (groups h m) (int (Suc n))) \<le> Suc n" unfolding eq by simp
  show "set (unique_surfaces nfc (groups h m) (int (Suc n))) \<subseteq> set h \<union> set m"
    unfolding eq all_inputs [symmetric] by (meson order_trans set_first_by set_take_subset)
  show "length (unique_surfaces nfc (groups h m) (int (Suc n))) = Suc n \<or>
     nfc ` set (unique_surfaces nfc (groups h m) (int (Suc n))) = nfc ` (set h \<union> set m)"
  proof (cases "Suc n \<le> length ?xs")
    case True
    then show ?thesis unfolding eq by simp
  next
    case False
    then have "take (Suc n) ?xs = ?xs" by simp
    then show ?thesis unfolding eq using image_first_by [of nfc "concat (groups h m)"] all_inputs [of h m]
      by simp
  qed
qed

end

definition promotes :: "(string \<Rightarrow> string) \<Rightarrow> string list \<Rightarrow> string list \<Rightarrow> bool" where
  "promotes nfc h m \<longleftrightarrow> nfc (hd h) \<in> nfc ` set (tl m) \<and> nfc (hd m) \<notin> nfc ` set h"

definition preserve_groups :: "string list \<Rightarrow> string list \<Rightarrow> string list list" where
  "preserve_groups h m =
     (if m = [] then [h] else if h = [] then [m] else [take MOZC_STABLE_PREFIX m, h, drop MOZC_STABLE_PREFIX m])"

definition consensus_groups :: "(string \<Rightarrow> string) \<Rightarrow> string list \<Rightarrow> string list \<Rightarrow> string list list" where
  "consensus_groups nfc h m =
     (if m \<noteq> [] \<and> h \<noteq> [] \<and> promotes nfc h m then [[hd h], m, tl h] else preserve_groups h m)"

lemma set_take_drop: "set (take n xs) \<union> set (drop n xs) = set xs"
  by (metis append_take_drop_id set_append)

interpretation preserve: merge_policy preserve_groups
proof
  show "set (concat (preserve_groups h m)) = set h \<union> set m" for h m
    using set_take_drop [of MOZC_STABLE_PREFIX m] by (auto simp: preserve_groups_def)
qed

interpretation consensus: merge_policy "consensus_groups nfc" for nfc
proof
  show "set (concat (consensus_groups nfc h m)) = set h \<union> set m" for h m
    using preserve.all_inputs [of h m] by (cases h) (auto simp: consensus_groups_def)
qed

lemma unique_surfaces_nothing: "unique_surfaces nfc [[]] k = []"
  by (simp add: unique_surfaces_def)

lemma merge_candidates_eq:
  "\<exists>d. merge_candidates nfc h m (int (Suc n)) = Inr (unique_surfaces nfc (consensus_groups nfc h m) (int (Suc n)), d)"
proof (cases m)
  case Nil
  then show ?thesis
    by (cases h) (auto simp: merge_candidates_def consensus_groups_def preserve_groups_def unique_surfaces_nothing)
next
  case m: (Cons y ys)
  show ?thesis
  proof (cases h)
    case Nil
    then show ?thesis by (simp add: m merge_candidates_def consensus_groups_def preserve_groups_def)
  next
    case (Cons x xs)
    have "promotes nfc h m \<longleftrightarrow> list_ex (\<lambda>c. nfc c = nfc x) ys \<and> \<not> list_ex (\<lambda>c. nfc c = nfc y) h"
      unfolding promotes_def Cons m list_ex_iff image_iff by (simp, metis)
    then show ?thesis
      by (simp add: m Cons merge_candidates_def consensus_groups_def preserve_groups_def Let_def)
  qed
qed

lemma merge_preserve_eq:
  "\<exists>d. merge_candidates_preserve_mozc_top1 nfc h m (int (Suc n)) =
     Inr (unique_surfaces nfc (preserve_groups h m) (int (Suc n)), d)"
  by (auto simp: merge_candidates_preserve_mozc_top1_def preserve_groups_def unique_surfaces_nothing)

lemma unique_surfaces_first:
  "concat groups = x # xs \<Longrightarrow> \<exists>cs. unique_surfaces nfc groups (int (Suc n)) = x # cs"
  by (subst unique_surfaces_eq) (auto simp del: of_nat_Suc)

lemma preserve_first: "\<exists>xs. concat (preserve_groups h (y # ys)) = y # xs"
  by (auto simp: preserve_groups_def MOZC_STABLE_PREFIX_def)

lemma consensus_first: "\<exists>z xs. concat (consensus_groups nfc h (y # ys)) = z # xs \<and> z \<in> {y} \<union> set (take 1 h)"
  using preserve_first [of h y ys] by (cases h) (auto simp: consensus_groups_def)

end
