(* ===== verification/Hybrid_Facts.thy ===== *)
theory Hybrid_Facts
  imports Probe_Facts
begin

text \<open>
  The evaluation of a pair of probe runs: which of the merged lists can lead with an expected surface, and
  the invariant of the counters over the cases.  The two assertions of the report follow from it.
\<close>

section \<open>The facts of one evaluated case\<close>

lemma expected_rank_first: "expected_rank es os = Some 1 \<longleftrightarrow> (\<exists>o' os'. os = o' # os' \<and> o' \<in> set es)"
  by (cases os) (auto simp: expected_rank_def dest: rank_from_bounds)

definition case_ok :: "HybridCase \<Rightarrow> bool" where
  "case_ok c \<longleftrightarrow>
     (hc_mozc_rank c = Some 1 \<longrightarrow> hc_h0_rank c = Some 1) \<and>
     (hc_hybrid_rank c = Some 1 \<longrightarrow> hc_mozc_rank c = Some 1 \<or> hc_hazkey_rank c = Some 1) \<and>
     (hc_h0_rank c = Some 1 \<longrightarrow> hc_mozc_rank c = Some 1 \<or> hc_hazkey_rank c = Some 1) \<and>
     (hc_classification c = None \<longleftrightarrow> hc_mozc_rank c = Some 1) \<and>
     (\<forall>k. hc_classification c = Some k \<longrightarrow> k \<in> set MISS_CLASSES) \<and>
     (hc_classification c = Some HAZKEY_TOP1_RESCUE \<longleftrightarrow> hc_mozc_rank c \<noteq> Some 1 \<and> hc_hazkey_rank c = Some 1) \<and>
     hc_outcome c = outcome_of (hc_mozc_rank c = Some 1) (hc_hybrid_rank c = Some 1)"

lemma unique_surfaces_single: "\<exists>cs. unique_surfaces nfc [x # xs] (int (Suc n)) = x # cs"
  by (rule unique_surfaces_first) simp

lemma merged_first:
  assumes "merge_candidates nfc h m limit = Inr (cs, d)" "merge_candidates_preserve_mozc_top1 nfc h m limit = Inr (ks, e)"
  shows "take 1 cs = take 1 m \<or> take 1 cs = take 1 h"
    "take 1 ks = (if m = [] then take 1 h else take 1 m)"
proof -
  have "\<not> limit < 1" using assms(1) unfolding merge_candidates_def by auto
  then obtain n where n: "limit = int (Suc n)" using that [of "nat (limit - 1)"] by auto
  obtain d' e' where eqs: "merge_candidates nfc h m limit = Inr (unique_surfaces nfc (consensus_groups nfc h m) (int (Suc n)), d')"
    "merge_candidates_preserve_mozc_top1 nfc h m limit = Inr (unique_surfaces nfc (preserve_groups h m) (int (Suc n)), e')"
    using merge_candidates_eq [of nfc h m n] merge_preserve_eq [of nfc h m n] unfolding n by blast
  have cs: "cs = unique_surfaces nfc (consensus_groups nfc h m) (int (Suc n))"
    and ks: "ks = unique_surfaces nfc (preserve_groups h m) (int (Suc n))"
    using eqs assms by (simp_all del: of_nat_Suc)
  have empty: "consensus_groups nfc h [] = [h]" "preserve_groups h [] = [h]" for h
    by (simp_all add: consensus_groups_def preserve_groups_def)
  show "take 1 cs = take 1 m \<or> take 1 cs = take 1 h"
  proof (cases m)
    case Nil
    then show ?thesis
    proof (cases h)
      case (Cons x xs)
      then show ?thesis using unique_surfaces_single [of nfc x xs n] by (auto simp: cs Nil empty simp del: of_nat_Suc)
    qed (simp add: cs Nil empty unique_surfaces_nothing del: of_nat_Suc)
  next
    case (Cons y ys)
    obtain z xs where z: "concat (consensus_groups nfc h (y # ys)) = z # xs" "z \<in> {y} \<union> set (take 1 h)"
      using consensus_first by blast
    obtain cs' where "cs = z # cs'" using unique_surfaces_first [OF z(1)] unfolding cs Cons by blast
    then show ?thesis using z(2) Cons by (cases h) auto
  qed
  show "take 1 ks = (if m = [] then take 1 h else take 1 m)"
  proof (cases m)
    case Nil
    then show ?thesis
    proof (cases h)
      case (Cons x xs)
      then show ?thesis using unique_surfaces_single [of nfc x xs n] by (auto simp: ks Nil empty simp del: of_nat_Suc)
    qed (simp add: ks Nil empty unique_surfaces_nothing del: of_nat_Suc)
  next
    case (Cons y ys)
    obtain xs where "concat (preserve_groups h (y # ys)) = y # xs" using preserve_first by blast
    from unique_surfaces_first [OF this] obtain cs' where "ks = y # cs'" unfolding ks Cons by blast
    then show ?thesis using Cons by simp
  qed
qed

lemma rank_first_take: "take 1 xs = take 1 ys \<Longrightarrow> expected_rank es xs = Some 1 \<longleftrightarrow> expected_rank es ys = Some 1"
  unfolding expected_rank_first by (cases xs; cases ys) auto

lemma classify_miss:
  "classify_mozc_top1_miss h m = Inr k \<Longrightarrow>
     m \<noteq> Some 1 \<and> k \<in> set MISS_CLASSES \<and> (k = HAZKEY_TOP1_RESCUE \<longleftrightarrow> h = Some 1)"
  by (auto simp: classify_mozc_top1_miss_def MISS_CLASSES_def HAZKEY_TOP1_RESCUE_def BELOW_TOP1_BOTH_def
      BELOW_TOP1_HAZKEY_ONLY_def BELOW_TOP1_MOZC_ONLY_def BOTH_ABSENT_def split: if_splits)

lemma hybrid_case_ok:
  assumes "hybrid_case nfc hazkey_run mozc_run top_k r = Inr c" shows "case_ok c"
proof -
  obtain h m limit cs d ks e k where
    g: "merge_candidates nfc h m limit = Inr (cs, d)" "merge_candidates_preserve_mozc_top1 nfc h m limit = Inr (ks, e)"
    and k: "(if expected_rank (alternatives (row_expected r)) m = Some 1 then Inr None
             else bindE (classify_mozc_top1_miss (expected_rank (alternatives (row_expected r)) h)
               (expected_rank (alternatives (row_expected r)) m)) (\<lambda>c. Inr (Some c))) = Inr k"
    and c: "hc_hazkey_rank c = expected_rank (alternatives (row_expected r)) h"
      "hc_mozc_rank c = expected_rank (alternatives (row_expected r)) m"
      "hc_hybrid_rank c = expected_rank (alternatives (row_expected r)) cs"
      "hc_h0_rank c = expected_rank (alternatives (row_expected r)) ks"
      "hc_classification c = k" "hc_outcome c = outcome_of (hc_mozc_rank c = Some 1) (hc_hybrid_rank c = Some 1)"
    using assms unfolding hybrid_case_def Let_def split_def
    by (elim bindE_elim) (drule sum.inject(2) [THEN iffD1], hypsubst, rule that, subst prod.collapse, assumption,
      subst prod.collapse, assumption, assumption, (simp only: HybridCase.select_convs)+)
  have hybrid: "hc_hybrid_rank c = Some 1 \<Longrightarrow> hc_mozc_rank c = Some 1 \<or> hc_hazkey_rank c = Some 1"
    using merged_first(1) [OF g] rank_first_take unfolding c by blast
  have h0_first: "expected_rank es ks = Some 1 \<longleftrightarrow> (if m = [] then expected_rank es h = Some 1 else expected_rank es m = Some 1)"
    for es
    using rank_first_take [of ks "if m = [] then h else m" es] merged_first(2) [OF g] by (simp split: if_split_asm)
  have h0: "(hc_mozc_rank c = Some 1 \<longrightarrow> hc_h0_rank c = Some 1) \<and>
      (hc_h0_rank c = Some 1 \<longrightarrow> hc_mozc_rank c = Some 1 \<or> hc_hazkey_rank c = Some 1)"
    unfolding c h0_first by (cases "m = []") (auto simp: expected_rank_first)
  have kind: "(k = None \<longleftrightarrow> hc_mozc_rank c = Some 1) \<and> (\<forall>x. k = Some x \<longrightarrow> x \<in> set MISS_CLASSES) \<and>
     (k = Some HAZKEY_TOP1_RESCUE \<longleftrightarrow> hc_mozc_rank c \<noteq> Some 1 \<and> hc_hazkey_rank c = Some 1)"
    using k classify_miss unfolding c by (cases "expected_rank (alternatives (row_expected r)) m = Some 1") auto
  show ?thesis unfolding case_ok_def c(5)
    using hybrid by (intro conjI h0 [THEN conjunct1] h0 [THEN conjunct2] kind [THEN conjunct1]
      kind [THEN conjunct2, THEN conjunct1] kind [THEN conjunct2, THEN conjunct2] c(6)) (rule impI)
qed

section \<open>The counters\<close>

definition counts_ok :: "HybridCounts \<times> HybridCase list \<Rightarrow> bool" where
  "counts_ok = (\<lambda>(n, cases).
     map fst (miss_counts n) = MISS_CLASSES \<and>
     sum_list (map snd (miss_counts n)) = int (length cases) - mozc_hits n \<and>
     miss_count (miss_counts n) HAZKEY_TOP1_RESCUE = backend_top1_oracle_hits n - mozc_hits n \<and>
     hybrid_hits n - mozc_hits n = rescued n - regressed n \<and>
     runtime_h0_hits n - mozc_hits n = runtime_h0_rescued n \<and> runtime_h0_regressed n = 0 \<and>
     0 \<le> mozc_hits n \<and> mozc_hits n \<le> runtime_h0_hits n \<and>
     runtime_h0_hits n \<le> backend_top1_oracle_hits n \<and> hybrid_hits n \<le> backend_top1_oracle_hits n \<and>
     backend_top1_oracle_hits n \<le> candidate_union_oracle_hits n \<and>
     candidate_union_oracle_hits n \<le> int (length cases))"

lemma counts_ok_start: "counts_ok (no_counts, [])"
  by (simp add: counts_ok_def no_counts_def miss_count_def MISS_CLASSES_def)

lemma sum_dict_bump:
  assumes "distinct (map fst d)" "k \<in> set (map fst d)"
  shows "sum_list (map snd (dict_set k (miss_count d k + 1) d)) = sum_list (map snd d) + 1"
  using assms
proof (induction d)
  case (Cons kv d)
  obtain k' v where kv: "kv = (k', v)" by (cases kv)
  show ?case
  proof (cases "k' = k")
    case False
    then show ?thesis using Cons by (simp add: kv miss_count_def)
  qed (simp add: kv miss_count_def)
qed simp

lemma distinct_classes: "distinct MISS_CLASSES"
  by (simp add: MISS_CLASSES_def HAZKEY_TOP1_RESCUE_def BELOW_TOP1_BOTH_def
      BELOW_TOP1_HAZKEY_ONLY_def BELOW_TOP1_MOZC_ONLY_def BOTH_ABSENT_def)

lemma miss_count_bump: "miss_count (dict_set k (miss_count d k + 1) d) k' = miss_count d k' + of_bool (k' = k)"
  by (simp add: miss_count_def)

lemma count_case_simps:
  "mozc_hits (count_case n c) = mozc_hits n + of_bool (hc_mozc_rank c = Some 1)"
  "hybrid_hits (count_case n c) = hybrid_hits n + of_bool (hc_hybrid_rank c = Some 1)"
  "runtime_h0_hits (count_case n c) = runtime_h0_hits n + of_bool (hc_h0_rank c = Some 1)"
  "backend_top1_oracle_hits (count_case n c) =
     backend_top1_oracle_hits n + of_bool (hc_hazkey_rank c = Some 1 \<or> hc_mozc_rank c = Some 1)"
  "candidate_union_oracle_hits (count_case n c) =
     candidate_union_oracle_hits n + of_bool (hc_hazkey_rank c \<noteq> None \<or> hc_mozc_rank c \<noteq> None)"
  "rescued (count_case n c) = rescued n + of_bool (hc_outcome c = ''rescued'')"
  "regressed (count_case n c) = regressed n + of_bool (hc_outcome c = ''regressed'')"
  "runtime_h0_rescued (count_case n c) =
     runtime_h0_rescued n + of_bool (hc_mozc_rank c \<noteq> Some 1 \<and> hc_h0_rank c = Some 1)"
  "runtime_h0_regressed (count_case n c) =
     runtime_h0_regressed n + of_bool (hc_mozc_rank c = Some 1 \<and> hc_h0_rank c \<noteq> Some 1)"
  "miss_counts (count_case n c) = (case hc_classification c of None \<Rightarrow> miss_counts n
     | Some k \<Rightarrow> dict_set k (miss_count (miss_counts n) k + 1) (miss_counts n))"
  unfolding count_case_def Let_def HybridCounts.select_convs by (rule refl)+

lemma counts_ok_step:
  assumes "counts_ok (n, cases)" "case_ok c" shows "counts_ok (count_case n c, cases @ [c])"
proof -
  let ?n = "count_case n c"
  note n = assms(1) [unfolded counts_ok_def prod.case] and c = assms(2) [unfolded case_ok_def]
  have top1_union: "backend_top1_oracle_hits ?n - mozc_hits ?n = backend_top1_oracle_hits n - mozc_hits n +
      of_bool (hc_mozc_rank c \<noteq> Some 1 \<and> hc_hazkey_rank c = Some 1)"
    by (simp add: count_case_simps)
  have keys: "map fst (miss_counts ?n) = MISS_CLASSES \<and>
    sum_list (map snd (miss_counts ?n)) = int (length (cases @ [c])) - mozc_hits ?n \<and>
    miss_count (miss_counts ?n) HAZKEY_TOP1_RESCUE = backend_top1_oracle_hits ?n - mozc_hits ?n"
  proof (cases "hc_classification c")
    case None
    then have "hc_mozc_rank c = Some 1" using c by blast
    then show ?thesis using None n unfolding top1_union by (simp add: count_case_simps)
  next
    case (Some k)
    then have k: "hc_mozc_rank c \<noteq> Some 1" "k \<in> set MISS_CLASSES"
      "(hc_mozc_rank c \<noteq> Some 1 \<and> hc_hazkey_rank c = Some 1) = (HAZKEY_TOP1_RESCUE = k)"
      using c by auto
    have d: "distinct (map fst (miss_counts n))" "k \<in> set (map fst (miss_counts n))"
      using n k(2) distinct_classes by auto
    have m: "miss_counts ?n = dict_set k (miss_count (miss_counts n) k + 1) (miss_counts n)"
      by (simp add: count_case_simps Some)
    have "mozc_hits ?n = mozc_hits n" using k(1) by (simp add: count_case_simps)
    moreover have "map fst (miss_counts ?n) = MISS_CLASSES"
      using keys_dict_set [of k "miss_count (miss_counts n) k + 1" "miss_counts n"] d n unfolding m keys_def by auto
    ultimately show ?thesis
      using n sum_dict_bump [OF d] unfolding top1_union m miss_count_bump k(3) by simp
  qed
  have rest: "hybrid_hits ?n - mozc_hits ?n = rescued ?n - regressed ?n"
    using n c by (auto simp: count_case_simps outcome_of_def)
  have h0: "runtime_h0_hits ?n - mozc_hits ?n = runtime_h0_rescued ?n \<and> runtime_h0_regressed ?n = 0 \<and>
     0 \<le> mozc_hits ?n \<and> mozc_hits ?n \<le> runtime_h0_hits ?n"
    using n c by (auto simp: count_case_simps)
  have bounds: "runtime_h0_hits ?n \<le> backend_top1_oracle_hits ?n \<and> hybrid_hits ?n \<le> backend_top1_oracle_hits ?n \<and>
     backend_top1_oracle_hits ?n \<le> candidate_union_oracle_hits ?n \<and>
     candidate_union_oracle_hits ?n \<le> int (length (cases @ [c]))"
    using n c by (auto simp: count_case_simps)
  show ?thesis using keys rest h0 bounds unfolding counts_ok_def prod.case by blast
qed

lemma hybrid_counts_ok:
  assumes "foldE (hybrid_step nfc hazkey_run mozc_run top_k) (no_counts, []) corpus = Inr s"
  shows "counts_ok s"
proof (rule foldE_invariant [where P = counts_ok, OF assms counts_ok_start])
  fix s r t
  assume "counts_ok s" "hybrid_step nfc hazkey_run mozc_run top_k s r = Inr t"
  then show "counts_ok t"
    by (cases s) (auto simp: hybrid_step_def intro!: counts_ok_step dest: hybrid_case_ok)
qed

section \<open>No assertion fails\<close>

definition no_assertion :: "'a res \<Rightarrow> bool" where
  "no_assertion m \<longleftrightarrow> (case m of Inl (AssertionError _) \<Rightarrow> False | _ \<Rightarrow> True)"

lemma no_assertion_Inr: "no_assertion (Inr x)"
  by (simp add: no_assertion_def)

lemma no_assertion_bindE: "no_assertion m \<Longrightarrow> (\<And>x. m = Inr x \<Longrightarrow> no_assertion (f x)) \<Longrightarrow> no_assertion (bindE m f)"
  by (cases m) (simp_all add: no_assertion_def)

lemma no_assertion_raise_if: "\<not> c \<or> no_assertion (Inl e :: unit res) \<Longrightarrow> no_assertion (raise_if c e)"
  by (auto simp: raise_if_def no_assertion_def)

lemma no_assertion_errors:
  "no_assertion (Inl (ValueError t))" "no_assertion (Inl (KeyError t))" "no_assertion (Inl (TypeError t))"
  by (simp_all add: no_assertion_def)

lemma no_assertion_eachE: "(\<And>x. x \<in> set xs \<Longrightarrow> no_assertion (f x)) \<Longrightarrow> no_assertion (eachE f xs)"
  by (induction xs) (auto intro!: no_assertion_bindE no_assertion_Inr)

lemma no_assertion_foldE: "(\<And>s x. no_assertion (f s x)) \<Longrightarrow> no_assertion (foldE f s xs)"
  by (induction xs arbitrary: s) (auto intro!: no_assertion_bindE no_assertion_Inr)

lemmas no_assertion_intros = no_assertion_Inr no_assertion_bindE no_assertion_errors no_assertion_eachE no_assertion_foldE

lemma no_assertion_rate: "no_assertion (rate a b)"
  by (auto simp: rate_def int_div_float_def rat_to_float_def no_assertion_def)

lemma no_assertion_inputs: "no_assertion (validate_hybrid_inputs corpus digest h m hc mc)"
  unfolding validate_hybrid_inputs_def Let_def same_probe_settings_def require_same_def run_matches_corpus_def
    probe_matches_row_def split_def
  by (intro no_assertion_intros no_assertion_raise_if disjI2)
    (auto intro!: no_assertion_intros no_assertion_raise_if split: option.splits)

lemma no_assertion_step: "no_assertion (hybrid_step nfc h m k s r)"
  unfolding hybrid_step_def hybrid_case_def top_candidates_def merge_candidates_def
    merge_candidates_preserve_mozc_top1_def classify_mozc_top1_miss_def Let_def split_def
  by (intro no_assertion_intros no_assertion_raise_if disjI2)
    (auto intro!: no_assertion_intros no_assertion_raise_if split: option.splits)

lemma no_assertion_evaluate: "no_assertion (evaluate_runs nfc corpus h m digest cdata hdata mdata hc mc)"
  unfolding evaluate_runs_def Let_def split_def top1_json_def h0_json_def oracle_json_def misses_json_def
    hits_and_rate_def
  by (intro no_assertion_intros no_assertion_inputs no_assertion_step no_assertion_rate no_assertion_raise_if)
    (auto dest!: hybrid_counts_ok simp: counts_ok_def no_assertion_errors)

end
