(* ===== verification/Probe_Properties.thy ===== *)
theory Probe_Properties
  imports Hybrid_Facts
begin

text \<open>
  Properties of the probe summaries and of the hybrid evaluation.
\<close>

section \<open>Probe summaries\<close>

text \<open>C32: the p95 latency, whose index the code computes with \<open>math.ceil(0.95 * n) - 1\<close> on floats, is the
  nearest rank: a sample such that at least 95% of the samples are at most it and fewer than 95% are less.\<close>

theorem p95_is_nearest_rank:
  assumes "samples \<noteq> []" "length samples \<le> 2 ^ 40"
  shows "nearest_rank_p95 samples \<in> set samples \<and>
    95 * length samples \<le> 100 * length (filter (\<lambda>x. x \<le> nearest_rank_p95 samples) samples) \<and>
    100 * length (filter (\<lambda>x. x < nearest_rank_p95 samples) samples) < 95 * length samples"
  using nearest_rank [OF assms] by blast

lemma p95_is_nearest_rank_witness:
  "nearest_rank_p95 [3, 1, 2] \<in> {1, 2, 3} \<and>
    95 * 3 \<le> 100 * length (filter (\<lambda>x. x \<le> nearest_rank_p95 [3, 1, 2]) [3, 1, 2])"
  using p95_is_nearest_rank [of "[3, 1, 2]"] by auto


text \<open>C34: a summary of loaded files fails with a ValueError only for no files, for a file that does not load,
  or for a run that does not match the first one: the check of the measured conversion count never fails.\<close>

theorem summary_value_error_iff:
  "summarize_probe_files float_sum files = Inl (ValueError m) \<longleftrightarrow>
     (files = [] \<and> m = ''at least one probe JSONL run is required'') \<or>
     mapE (\<lambda>(path, data). load_run_bytes data path) files = Inl (ValueError m) \<or>
     (\<exists>first later. mapE (\<lambda>(path, data). load_run_bytes data path) files = Inr (first # later) \<and>
        eachE (same_run first) later = Inl (ValueError m))"
proof (cases "mapE (\<lambda>(path, data). load_run_bytes data path) files")
  case (Inl e)
  then show ?thesis by (cases files) (auto simp: summarize_probe_files_def)
next
  case (Inr runs)
  show ?thesis
  proof (cases runs)
    case Nil
    then have "files = []" using Inr by (cases files) auto
    then show ?thesis by (auto simp: summarize_probe_files_def)
  next
    case (Cons first later)
    have files: "files \<noteq> []" using Inr Cons by (cases files) auto
    have ok: "\<forall>run \<in> set runs. run_ok run"
      using mapE_member [OF Inr] load_run_ok by fastforce
    have "runs \<noteq> []" by (simp add: Cons)
    from summary_value_errors [OF this ok, of float_sum m] show ?thesis
      unfolding summarize_probe_files_def Inr by (simp add: files Cons)
  qed
qed

section \<open>The merge policies\<close>

definition sound_window :: "(string \<Rightarrow> string) \<Rightarrow> string list \<Rightarrow> nat \<Rightarrow> string list \<Rightarrow> bool" where
  "sound_window nfc inputs n cs \<longleftrightarrow>
     distinct (map nfc cs) \<and> length cs \<le> n \<and> set cs \<subseteq> set inputs \<and>
     (length cs = n \<or> nfc ` set cs = nfc ` set inputs)"

text \<open>C35: under both policies the merged window has no two surfaces with one normalization, at most the limit of
  them, only candidates of the backends, and it is full or holds a surface for every candidate.\<close>

theorem merged_windows_sound:
  "\<exists>cs d ks e. merge_candidates nfc h m (int (Suc n)) = Inr (cs, d) \<and> sound_window nfc (h @ m) (Suc n) cs \<and>
     merge_candidates_preserve_mozc_top1 nfc h m (int (Suc n)) = Inr (ks, e) \<and> sound_window nfc (h @ m) (Suc n) ks"
proof -
  obtain d e where
    "merge_candidates nfc h m (int (Suc n)) = Inr (unique_surfaces nfc (consensus_groups nfc h m) (int (Suc n)), d)"
    "merge_candidates_preserve_mozc_top1 nfc h m (int (Suc n)) =
       Inr (unique_surfaces nfc (preserve_groups h m) (int (Suc n)), e)"
    using merge_candidates_eq [of nfc h m n] merge_preserve_eq [of nfc h m n] by blast
  moreover have "sound_window nfc (h @ m) (Suc n) (unique_surfaces nfc (consensus_groups nfc h m) (int (Suc n)))"
    unfolding sound_window_def set_append by (intro conjI consensus.window)
  moreover have "sound_window nfc (h @ m) (Suc n) (unique_surfaces nfc (preserve_groups h m) (int (Suc n)))"
    unfolding sound_window_def set_append by (intro conjI preserve.window)
  ultimately show ?thesis by blast
qed

text \<open>with a Mozc candidate the deployed policy keeps the Mozc Top-1, and the consensus policy leads with it
  or with the Hazkey Top-1.\<close>

theorem mozc_top1_is_kept:
  "\<exists>z cs d ks e. merge_candidates nfc h (y # m) (int (Suc n)) = Inr (z # cs, d) \<and> z \<in> {y} \<union> set (take 1 h) \<and>
     merge_candidates_preserve_mozc_top1 nfc h (y # m) (int (Suc n)) = Inr (y # ks, e)"
proof -
  obtain z xs where z: "concat (consensus_groups nfc h (y # m)) = z # xs" "z \<in> {y} \<union> set (take 1 h)"
    using consensus_first by blast
  obtain ys where y: "concat (preserve_groups h (y # m)) = y # ys" using preserve_first by blast
  show ?thesis
    using merge_candidates_eq [of nfc h "y # m" n] merge_preserve_eq [of nfc h "y # m" n] z(2)
      unique_surfaces_first [OF z(1), of nfc n] unique_surfaces_first [OF y, of nfc n] by metis
qed

section \<open>The evaluation of a pair of runs\<close>

text \<open>C36: after any corpus the counters are consistent: the miss classes are disjoint and exhaust the Mozc misses,
  the rescue class is what the Top-1 oracle gains over Mozc, the net hits are rescues less regressions, the deployed
  policy regresses no case, and no policy beats the oracle of both backends.\<close>

theorem evaluation_counts_ok:
  "{s. foldE (hybrid_step nfc hazkey_run mozc_run top_k) (no_counts, []) corpus = Inr s} \<subseteq> {s. counts_ok s}"
  using hybrid_counts_ok by blast

text \<open>the evaluation never fails one of its two assertions, whatever the runs and the corpus.\<close>

theorem evaluation_assertions_hold:
  "evaluate_runs nfc corpus hazkey_run mozc_run corpus_digest corpus_data hazkey_data mozc_data
     hazkey_context mozc_context \<noteq> Inl (AssertionError m)"
  using no_assertion_evaluate [of nfc corpus hazkey_run mozc_run corpus_digest corpus_data hazkey_data mozc_data
     hazkey_context mozc_context] unfolding no_assertion_def by auto

end
