(* ===== verification/B0_Contract.thy ===== *)
theory B0_Contract
  imports Json_Text Sha256
begin

text \<open>
  Constants of the B0 pilot gate (\<open>evaluate_mozc_b0_gate.py\<close>) and of the two runners whose
  modules it reads them from, and its policy records.
\<close>

section \<open>Constants of the stability runner\<close>

definition STABILITY_RECORD_SCHEMA :: string where
  "STABILITY_RECORD_SCHEMA = ''hazkey.mozc-b0-stability-record.v2''"

definition ADAPTER_SOAK_SCHEMA :: string where
  "ADAPTER_SOAK_SCHEMA = ''hazkey.mozc-b0-adapter-soak-result.v1''"

definition PROTOCOL_STEADY_SCHEMA :: string where
  "PROTOCOL_STEADY_SCHEMA = ''hazkey.mozc-b0-protocol-v2-steady-result.v3''"

definition RECOVERY_SCHEMA :: string where
  "RECOVERY_SCHEMA = ''hazkey.mozc-b0-protocol-v2-recovery-result.v5''"

definition FCITX_SCHEMA :: string where
  "FCITX_SCHEMA = ''hazkey.fcitx-full-stack-result.v1''"

definition ORCHESTRATOR_PATH :: string where
  "ORCHESTRATOR_PATH = ''tools/dictionary/run_mozc_b0_stability.py''"

definition FCITX_PRODUCER_PATH :: string where
  "FCITX_PRODUCER_PATH = ''fcitx5-hazkey/tests/run_fcitx_full_stack_test.py''"

definition PROTOCOL_BENCHMARK_SOURCE_PATH :: string where
  "PROTOCOL_BENCHMARK_SOURCE_PATH =
     ''hazkey-server/Tests/grimodex-spike/grimodexProcessBackendBenchmarkTests.swift''"

definition SWIFT_TEST_RUNNER_PATH :: string where
  "SWIFT_TEST_RUNNER_PATH = ''hazkey-server/scripts/swift-test.sh''"

definition SWIFT_PACKAGE_ROOT :: string where
  "SWIFT_PACKAGE_ROOT = ''hazkey-server''"

definition RECOVERY_SOURCE_PATH :: string where
  "RECOVERY_SOURCE_PATH =
     ''hazkey-server/Tests/grimodex-spike/grimodexMozcSidecarTests.swift''"

definition PRODUCT_SOURCE_REF :: string where
  "PRODUCT_SOURCE_REF = ''6e0354f2514edf1fe8219657ed23e7a02c8a7f7a''"

definition B0_RESOURCE_FINGERPRINT :: string where
  "B0_RESOURCE_FINGERPRINT =
     ''sha256:2ba2cccb3c7489def988b63b0f0fd2cd96469521569c4807b63c80d2b50d3063''"

definition ADAPTER_SOAK_ID :: string where
  "ADAPTER_SOAK_ID = ''adapter-soak-150k''"

definition PROTOCOL_STEADY_ID :: string where
  "PROTOCOL_STEADY_ID = ''protocol-v2-steady-1500''"

definition PROTOCOL_RECOVERY_ID :: string where
  "PROTOCOL_RECOVERY_ID = ''protocol-v2-recovery''"

definition FCITX_LONG_SOAK_ID :: string where
  "FCITX_LONG_SOAK_ID = ''fcitx-long-soak-150k''"

definition FCITX_LIFECYCLE_ID :: string where
  "FCITX_LIFECYCLE_ID = ''fcitx-lifecycle-3x100''"

definition SUITE_IDS :: "string list" where
  "SUITE_IDS =
     [ADAPTER_SOAK_ID, PROTOCOL_STEADY_ID, PROTOCOL_RECOVERY_ID, FCITX_LONG_SOAK_ID, FCITX_LIFECYCLE_ID]"

definition B0_SUITE_IDS :: "string list" where
  "B0_SUITE_IDS =
     [ADAPTER_SOAK_ID, PROTOCOL_STEADY_ID, FCITX_LONG_SOAK_ID, FCITX_LIFECYCLE_ID]"

definition CANONICAL_COMMANDS :: "(string \<times> string list) list" where
  "CANONICAL_COMMANDS =
     [
      (ADAPTER_SOAK_ID,
        [''python3'', ORCHESTRATOR_PATH, ''run-adapter'', ''--server'', ''<product-server>'',
         ''--runtime-lib-dir'', ''<runtime-lib-dir>'', ''--mozc-generation'',
         ''<b0-generation>'', ''--output-directory'', ''<output-directory>'']),
      (PROTOCOL_STEADY_ID,
        [''python3'', ORCHESTRATOR_PATH, ''run-protocol-steady'', ''--server'',
         ''<product-server>'', ''--runtime-lib-dir'', ''<runtime-lib-dir>'',
         ''--mozc-generation'', ''<b0-generation>'', ''--dictionary'', ''<hazkey-dictionary>'',
         ''--output-directory'', ''<output-directory>'']),
      (PROTOCOL_RECOVERY_ID,
        [''python3'', ORCHESTRATOR_PATH, ''run-recovery'', ''--server'', ''<product-server>'',
         ''--runtime-lib-dir'', ''<runtime-lib-dir>'', ''--output-directory'',
         ''<output-directory>'']),
      (FCITX_LONG_SOAK_ID,
        [''python3'', FCITX_PRODUCER_PATH, ''--converter-backend'', ''mozc'', ''--cycles'',
         ''1'', ''--soak-iterations'', ''150000'', ''--result-output'', ''<native-result>'']),
      (FCITX_LIFECYCLE_ID,
        [''python3'', FCITX_PRODUCER_PATH, ''--converter-backend'', ''mozc'', ''--cycles'',
         ''3'', ''--soak-iterations'', ''100'', ''--result-output'', ''<native-result>''])]"

text \<open>The fields of an entry of \<open>SUITE_REQUIREMENTS\<close>.\<close>

record SuiteRequirement =
  rq_conversions :: int
  rq_cycles :: int
  rq_counts :: "(string \<times> int option) list"
  rq_producer_path :: string
  rq_runner_path :: "string option"
  rq_package_path :: "string option"

definition SUITE_REQUIREMENTS :: "(string \<times> SuiteRequirement) list" where
  "SUITE_REQUIREMENTS =
     [
      (ADAPTER_SOAK_ID,
        \<lparr>rq_conversions = 150000, rq_cycles = 1,
         rq_counts = [(''helper_launches'', Some 1), (''server_launches'', Some 1),
         (''helper_recoveries'', Some 0), (''server_recoveries'', Some 0), (''residue_count'',
         Some 0)],
         rq_producer_path = ''<product-executable>'', rq_runner_path = None,
         rq_package_path = None\<rparr>),
      (PROTOCOL_STEADY_ID,
        \<lparr>rq_conversions = 1500, rq_cycles = 1,
         rq_counts = [(''helper_launches'', Some 1), (''server_launches'', Some 2),
         (''helper_recoveries'', Some 0), (''server_recoveries'', Some 0), (''residue_count'',
         Some 0)],
         rq_producer_path = PROTOCOL_BENCHMARK_SOURCE_PATH,
         rq_runner_path = Some SWIFT_TEST_RUNNER_PATH,
         rq_package_path = Some SWIFT_PACKAGE_ROOT\<rparr>),
      (PROTOCOL_RECOVERY_ID,
        \<lparr>rq_conversions = 0, rq_cycles = 4,
         rq_counts = [(''helper_launches'', None), (''server_launches'', None),
         (''helper_recoveries'', None), (''server_recoveries'', None), (''residue_count'', Some 0)],
         rq_producer_path = RECOVERY_SOURCE_PATH, rq_runner_path = Some SWIFT_TEST_RUNNER_PATH,
         rq_package_path = Some SWIFT_PACKAGE_ROOT\<rparr>),
      (FCITX_LONG_SOAK_ID,
        \<lparr>rq_conversions = 150000, rq_cycles = 1,
         rq_counts = [(''helper_launches'', Some 1), (''server_launches'', Some 1),
         (''helper_recoveries'', Some 0), (''server_recoveries'', Some 0), (''residue_count'',
         Some 0)],
         rq_producer_path = FCITX_PRODUCER_PATH, rq_runner_path = None,
         rq_package_path = None\<rparr>),
      (FCITX_LIFECYCLE_ID,
        \<lparr>rq_conversions = 300, rq_cycles = 3,
         rq_counts = [(''helper_launches'', Some 3), (''server_launches'', Some 3),
         (''helper_recoveries'', Some 0), (''server_recoveries'', Some 0), (''residue_count'',
         Some 0)],
         rq_producer_path = FCITX_PRODUCER_PATH, rq_runner_path = None,
         rq_package_path = None\<rparr>)]"

section \<open>Constants of the measurement runner\<close>

definition RUNTIME_DEPENDENCY_SCHEMA :: string where
  "RUNTIME_DEPENDENCY_SCHEMA = ''hazkey.mozc-b0-runtime-dependencies.v1''"

definition PER_RUN_TIMEOUT_SECONDS :: int where
  "PER_RUN_TIMEOUT_SECONDS = 900"

definition RUNTIME_DEPENDENCY_FILENAMES :: "string list" where
  "RUNTIME_DEPENDENCY_FILENAMES =
     [''libggml-base.so'',
      ''libggml-cpu-alderlake.so'',
      ''libggml-cpu-haswell.so'',
      ''libggml-cpu-icelake.so'',
      ''libggml-cpu-sandybridge.so'',
      ''libggml-cpu-sapphirerapids.so'',
      ''libggml-cpu-skylakex.so'',
      ''libggml-vulkan.so'',
      ''libggml.so'',
      ''libllama.so'',
      ''vulkan-shaders-gen'']"

section \<open>Constants of the gate\<close>

definition B0_POLICY_SCHEMA :: string where
  "B0_POLICY_SCHEMA = ''hazkey.mozc-adoption-b0-policy.v1''"

definition B0_CORPUS_MANIFEST_SCHEMA :: string where
  "B0_CORPUS_MANIFEST_SCHEMA = ''hazkey.frozen-conversion-corpus-manifest.v1''"

definition B0_DECISION_TIER :: string where
  "B0_DECISION_TIER = ''pilot''"

definition B0_FORMAL_ADOPTION_ALLOWED :: bool where
  "B0_FORMAL_ADOPTION_ALLOWED = False"

definition EXPECTED_TOTAL_CASES :: int where
  "EXPECTED_TOTAL_CASES = 256"

definition EXPECTED_CATEGORIES :: "(string \<times> int) list" where
  "EXPECTED_CATEGORIES =
     [(''ajimee-unconditional'', 100),
      (''technical-mixed'', 32),
      (''proper-noun'', 24),
      (''colloquial'', 24),
      (''homophone-context'', 20),
      (''long-structural'', 20),
      (''grimodex-regression'', 20),
      (''protected'', 16)]"

definition EXPECTED_CURATED_CATEGORIES :: "(string \<times> int) list" where
  "EXPECTED_CURATED_CATEGORIES =
     [(''technical-mixed'', 32),
      (''proper-noun'', 24),
      (''colloquial'', 24),
      (''homophone-context'', 20),
      (''long-structural'', 20),
      (''grimodex-regression'', 20)]"

definition EXPECTED_RUN_SEQUENCE :: "string list" where
  "EXPECTED_RUN_SEQUENCE =
     [''H1'', ''M1'', ''M2'', ''H2'', ''H3'', ''M3'', ''M4'', ''H4'']"

definition AJIMEE_PROVENANCE :: "(string \<times> string) list" where
  "AJIMEE_PROVENANCE =
     [(''kind'', ''external''),
      (''repository'', ''https://github.com/azooKey/AJIMEE-Bench''),
      (''revision'', ''401666cd56d1a570c2021798b64b6da4396bfd45''),
      (''raw_path'', ''JWTD_v2/v1/evaluation_items.json''),
      (''raw_sha256'', ''sha256:e9eb668fd6aa14b1e26436f429b5550108af0a1dfd443b8cea0bcb3ab3028fca''),
      (''license'', ''CC-BY-SA-3.0''),
      (''transform'', ''ajimee-unconditional-to-tsv.v1'')]"

section \<open>The parsed policy\<close>

record B0GatePolicy =
  b0_total_cases :: int
  b0_categories :: "(string \<times> int) list"
  b0_minimum_net_basis_points :: int
  b0_minimum_net_cases :: int
  b0_minimum_top1_delta_basis_points :: int
  b0_minimum_top10_delta_basis_points :: int
  b0_minimum_category_top1_delta_basis_points :: int
  b0_protected_required :: int
  b0_maximum_both_bad :: int
  b0_maximum_warm_p95_ratio_basis_points :: int
  b0_maximum_pss_ratio_basis_points :: int
  b0_required_stability_ids :: "string list"

record MeasurementContract =
  mc_producer_sha256 :: string
  mc_runs_per_backend :: int
  mc_execution_order :: "string list"
  mc_warmups_per_case :: int
  mc_iterations_per_case :: int
  mc_top_k :: int
  mc_cases :: int
  mc_latency_statistic :: string
  mc_pss_statistic :: string
  mc_cpu_policy :: string
  mc_per_run_timeout_seconds :: int

text \<open>
  The five optional counts of a check are kept in the order of \<open>count_fields\<close>; the fields of the runner
  and those of the package are set together, so each group is one optional value.
\<close>

record StabilityCheck =
  sc_id :: string
  sc_native_schema :: string
  sc_artifact_kind :: string
  sc_command :: "string list"
  sc_minimum_conversions :: int
  sc_minimum_cycles :: int
  sc_counts :: "(string \<times> int option) list"
  sc_producer_path :: string
  sc_producer_sha256 :: "string option"
  sc_runner :: "(string \<times> string) option"
  sc_package :: "(string \<times> int \<times> int \<times> string) option"
  sc_recovery_fixture_identity :: "string option"
  sc_input_snapshot_fingerprint :: "string option"

record B0Policy =
  bp_gate :: B0GatePolicy
  bp_policy_id :: string
  bp_decision_tier :: string
  bp_formal_adoption_allowed :: bool
  bp_candidate_id :: string
  bp_product_source_revision :: string
  bp_artifact_source_revision :: string
  bp_candidate_resource_fingerprint :: string
  bp_baseline_resource_fingerprint :: string
  bp_artifacts :: "(string \<times> int \<times> string) list"
  bp_product_executable :: "int \<times> string"
  bp_runtime_dependencies :: "(string \<times> int \<times> string) list"
  bp_runtime_dependency_integrity :: string
  bp_ajimee_derived_sha256 :: string
  bp_manifest_path :: string
  bp_manifest_sha256 :: string
  bp_policy_sha256 :: string
  bp_measurement :: MeasurementContract
  bp_stability_orchestrator_sha256 :: string
  bp_stability_checks :: "(string \<times> StabilityCheck) list"

definition b0_gate :: "string list \<Rightarrow> B0GatePolicy" where
  "b0_gate required_ids =
     \<lparr>b0_total_cases = EXPECTED_TOTAL_CASES, b0_categories = EXPECTED_CATEGORIES,
      b0_minimum_net_basis_points = - 300, b0_minimum_net_cases = - 7,
      b0_minimum_top1_delta_basis_points = - 800, b0_minimum_top10_delta_basis_points = - 1200,
      b0_minimum_category_top1_delta_basis_points = - 1000, b0_protected_required = 16,
      b0_maximum_both_bad = 12, b0_maximum_warm_p95_ratio_basis_points = 5000,
      b0_maximum_pss_ratio_basis_points = 12500, b0_required_stability_ids = required_ids\<rparr>"

definition b0_measurement :: "string \<Rightarrow> MeasurementContract" where
  "b0_measurement producer =
     \<lparr>mc_producer_sha256 = producer, mc_runs_per_backend = 4,
      mc_execution_order = EXPECTED_RUN_SEQUENCE, mc_warmups_per_case = 5,
      mc_iterations_per_case = 20, mc_top_k = 10, mc_cases = EXPECTED_TOTAL_CASES,
      mc_latency_statistic = ''nearest-rank-p95-across-all-samples'',
      mc_pss_statistic = ''max-parent-plus-backend-before-after'',
      mc_cpu_policy = ''unrestricted-same-host'',
      mc_per_run_timeout_seconds = PER_RUN_TIMEOUT_SECONDS\<rparr>"

section \<open>The helpers that the other tools do not have\<close>

text \<open>\<open>_expect\<close> on Python values that are not JSON documents.\<close>

definition expect_eq :: "'a \<Rightarrow> 'a \<Rightarrow> string \<Rightarrow> unit res" where
  "expect_eq v e ctx = raise_if (v \<noteq> e) (ValueError (ctx @ '' must be ''))"

text \<open>\<open>_sha256(..., allow_bare=True)\<close>\<close>

definition as_sha256_or_bare :: "json \<Rightarrow> string \<Rightarrow> string res" where
  "as_sha256_or_bare v ctx =
     bindE (as_string v ctx) (\<lambda>s.
     if length s = 64 \<and> list_all is_lower_hex s then Inr (''sha256:'' @ s) else as_sha256 v ctx)"

text \<open>\<open>re.fullmatch(r"[0-9a-f]{40}", s)\<close>\<close>

definition is_commit :: "string \<Rightarrow> bool" where
  "is_commit s \<longleftrightarrow> length s = 40 \<and> list_all is_lower_hex s"

text \<open>\<open>native_schema\<close> of the stability runner.\<close>

definition native_schema :: "string \<Rightarrow> string res" where
  "native_schema suite_id =
     (if suite_id = ADAPTER_SOAK_ID then Inr ADAPTER_SOAK_SCHEMA
      else if suite_id = PROTOCOL_STEADY_ID then Inr PROTOCOL_STEADY_SCHEMA
      else if suite_id = PROTOCOL_RECOVERY_ID then Inr RECOVERY_SCHEMA
      else if suite_id = FCITX_LONG_SOAK_ID \<or> suite_id = FCITX_LIFECYCLE_ID then Inr FCITX_SCHEMA
      else Inl (ValueError ''unknown Mozc B0 stability suite ''))"

lemma expect_eq_iff [simp, accessor_simps]: "expect_eq v e ctx = Inr u \<longleftrightarrow> v = e"
  by (auto simp: expect_eq_def)

lemma as_sha256_or_bare_pattern:
  assumes "as_sha256_or_bare v ctx = Inr s" shows "sha256_pattern s"
proof -
  obtain t where v: "v = JStr t" "t \<noteq> []" using assms by (auto simp: as_sha256_or_bare_def)
  show ?thesis
  proof (cases "length t = 64 \<and> list_all is_lower_hex t")
    case True
    then have "s = ''sha256:'' @ t" using assms v by (simp add: as_sha256_or_bare_def)
    then show ?thesis using True by (simp add: sha256_pattern_def)
  next
    case False
    then have "as_sha256 v ctx = Inr s" using assms v by (simp add: as_sha256_or_bare_def if_not_P [OF False])
    then show ?thesis by simp
  qed
qed

end
