(* ===== verification/B0_Policy.thy ===== *)
theory B0_Policy
  imports B0_Contract Probe_Runs
begin

text \<open>
  \<open>parse_policy\<close> of \<open>evaluate_mozc_b0_gate.py\<close>: the sections of the document as definitions of
  their own, and \<open>parse_b0_policy\<close>, which runs them in the order of the code.
\<close>

definition string_tuple :: "obj \<Rightarrow> string \<Rightarrow> string \<Rightarrow> string list res" where
  "string_tuple d k ctx =
     bindE (item as_array d k ctx) (\<lambda>values.
     mapiE (\<lambda>index value. as_string value (at_index (dot ctx k) index)) 0 values)"

text \<open>A name that is neither absolute nor climbs: \<open>startswith("/") or ".." in Path(...).parts\<close>.\<close>

definition repo_relative :: "string \<Rightarrow> string \<Rightarrow> unit res" where
  "repo_relative path ctx =
     raise_if (is_absolute path \<or> ''..'' \<in> set (path_parts path))
       (ValueError (ctx @ '' must be repo-relative''))"

section \<open>Identity and candidate\<close>

definition b0_policy_fields :: "string list" where
  "b0_policy_fields =
     [''schema'', ''policy_id'', ''decision_tier'', ''formal_adoption_allowed'', ''candidate'',
      ''baseline'', ''candidate_sequence'', ''formal_suite'', ''external_sources'', ''gates'',
      ''measurement_contracts'', ''manifest_binding'', ''readiness'']"

definition parse_b0_identity :: "obj \<Rightarrow> string \<Rightarrow> (string \<times> string \<times> bool) res" where
  "parse_b0_identity document context =
     bindE (exact_fields document b0_policy_fields context) (\<lambda>_.
     bindE (expect_item document ''schema'' (JStr B0_POLICY_SCHEMA) context) (\<lambda>_.
     bindE (item as_string document ''policy_id'' context) (\<lambda>policy_id.
     bindE (item as_string document ''decision_tier'' context) (\<lambda>tier.
     bindE (expect_eq tier B0_DECISION_TIER (dot context ''decision_tier'')) (\<lambda>_.
     bindE (item as_boolean document ''formal_adoption_allowed'' context) (\<lambda>allowed.
     bindE (expect_eq allowed B0_FORMAL_ADOPTION_ALLOWED (dot context ''formal_adoption_allowed'')) (\<lambda>_.
     Inr (policy_id, tier, allowed))))))))"

definition parse_runtime_file :: "string \<Rightarrow> nat \<Rightarrow> json \<times> string \<Rightarrow> (string \<times> int \<times> string) res" where
  "parse_runtime_file rctx index = (\<lambda>(raw_file, expected_name).
     let ctx = at_index (dot rctx ''files'') index in
     bindE (as_object raw_file ctx) (\<lambda>runtime_file.
     bindE (exact_fields runtime_file [''path'', ''size_bytes'', ''sha256''] ctx) (\<lambda>_.
     bindE (expect_item runtime_file ''path'' (JStr expected_name) ctx) (\<lambda>_.
     bindE (item as_positive_int runtime_file ''size_bytes'' ctx) (\<lambda>file_size.
     bindE (item as_sha256 runtime_file ''sha256'' ctx) (\<lambda>digest.
     Inr (expected_name, file_size, digest)))))))"

definition runtime_files_json :: "(string \<times> int \<times> string) list \<Rightarrow> json" where
  "runtime_files_json files = JObj
     [(''schema'', JStr RUNTIME_DEPENDENCY_SCHEMA),
      (''files'', JArr (map (\<lambda>(name, file_size, digest). JObj
         [(''path'', JStr name), (''size_bytes'', JInt file_size), (''sha256'', JStr digest)]) files))]"

definition parse_runtime_dependencies ::
  "obj \<Rightarrow> string \<Rightarrow> ((string \<times> int \<times> string) list \<times> string) res" where
  "parse_runtime_dependencies candidate cctx =
     bindE (item as_object candidate ''runtime_dependencies'' cctx) (\<lambda>runtime.
     let rctx = dot cctx ''runtime_dependencies'' in
     bindE (exact_fields runtime [''schema'', ''files'', ''integrity''] rctx) (\<lambda>_.
     bindE (expect_item runtime ''schema'' (JStr RUNTIME_DEPENDENCY_SCHEMA) rctx) (\<lambda>_.
     bindE (item as_array runtime ''files'' rctx) (\<lambda>runtime_files.
     bindE (expect_eq (length runtime_files) (length RUNTIME_DEPENDENCY_FILENAMES)
              (dot rctx ''files length'')) (\<lambda>_.
     bindE (mapiE (parse_runtime_file rctx) 0 (zip runtime_files RUNTIME_DEPENDENCY_FILENAMES)) (\<lambda>files.
     bindE (item as_sha256 runtime ''integrity'' rctx) (\<lambda>integrity.
     bindE (canonical_json (runtime_files_json files)) (\<lambda>canonical.
     bindE (expect_eq integrity (sha256_bytes canonical) (dot rctx ''integrity'')) (\<lambda>_.
     Inr (files, integrity))))))))))"

definition parse_artifact ::
  "string \<Rightarrow> (string \<times> int \<times> string) list \<Rightarrow> nat \<times> json \<Rightarrow> (string \<times> int \<times> string) list res" where
  "parse_artifact actx artifacts = (\<lambda>(index, raw).
     let ctx = at_index actx index in
     bindE (as_object raw ctx) (\<lambda>artifact.
     bindE (exact_fields artifact [''id'', ''size_bytes'', ''sha256''] ctx) (\<lambda>_.
     bindE (item as_string artifact ''id'' ctx) (\<lambda>artifact_id.
     bindE (raise_if (artifact_id \<in> set (keys artifacts)) (ValueError (actx @ '' has duplicate id ''))) (\<lambda>_.
     bindE (item as_positive_int artifact ''size_bytes'' ctx) (\<lambda>file_size.
     bindE (item as_sha256_or_bare artifact ''sha256'' ctx) (\<lambda>digest.
     Inr (artifacts @ [(artifact_id, file_size, digest)]))))))))"

record B0Candidate =
  cand_product_source_revision :: string
  cand_artifact_source_revision :: string
  cand_fingerprint :: string
  cand_executable :: "int \<times> string"
  cand_runtime :: "(string \<times> int \<times> string) list"
  cand_runtime_integrity :: string
  cand_artifacts :: "(string \<times> int \<times> string) list"

definition parse_commit :: "obj \<Rightarrow> string \<Rightarrow> string \<Rightarrow> string res" where
  "parse_commit d k ctx =
     bindE (item as_string d k ctx) (\<lambda>revision.
     bindE (raise_if (\<not> is_commit revision) (ValueError (dot ctx k @ '' must be a 40-hex commit''))) (\<lambda>_.
     Inr revision))"

definition parse_b0_candidate :: "obj \<Rightarrow> string \<Rightarrow> B0Candidate res" where
  "parse_b0_candidate document context =
     bindE (item as_object document ''candidate'' context) (\<lambda>candidate.
     let ctx = dot context ''candidate''; ectx = dot ctx ''product_executable'' in
     bindE (exact_fields candidate
              [''id'', ''product_source_revision'', ''artifact_source_revision'', ''resource_fingerprint'',
               ''product_executable'', ''runtime_dependencies'', ''artifacts''] ctx) (\<lambda>_.
     bindE (expect_item candidate ''id'' (JStr ''B0'') ctx) (\<lambda>_.
     bindE (parse_commit candidate ''product_source_revision'' ctx) (\<lambda>product_revision.
     bindE (expect_eq product_revision PRODUCT_SOURCE_REF (dot ctx ''product_source_revision'')) (\<lambda>_.
     bindE (parse_commit candidate ''artifact_source_revision'' ctx) (\<lambda>artifact_revision.
     bindE (item as_sha256 candidate ''resource_fingerprint'' ctx) (\<lambda>fingerprint.
     bindE (expect_eq fingerprint B0_RESOURCE_FINGERPRINT (dot ctx ''resource_fingerprint'')) (\<lambda>_.
     bindE (item as_object candidate ''product_executable'' ctx) (\<lambda>executable.
     bindE (exact_fields executable [''size_bytes'', ''sha256''] ectx) (\<lambda>_.
     bindE (item as_positive_int executable ''size_bytes'' ectx) (\<lambda>executable_size.
     bindE (item as_sha256_or_bare executable ''sha256'' ectx) (\<lambda>executable_digest.
     bindE (parse_runtime_dependencies candidate ctx) (\<lambda>(runtime, integrity).
     bindE (item as_array candidate ''artifacts'' ctx) (\<lambda>raw_artifacts.
     bindE (foldE (parse_artifact (dot ctx ''artifacts'')) [] (zip [0..<length raw_artifacts] raw_artifacts)) (\<lambda>artifacts.
     bindE (raise_if (artifacts = []) (ValueError (dot ctx ''artifacts must not be empty''))) (\<lambda>_.
     Inr \<lparr>cand_product_source_revision = product_revision, cand_artifact_source_revision = artifact_revision,
          cand_fingerprint = fingerprint, cand_executable = (executable_size, executable_digest),
          cand_runtime = runtime, cand_runtime_integrity = integrity, cand_artifacts = artifacts\<rparr>))))))))))))))))"

definition parse_b0_baseline :: "obj \<Rightarrow> string \<Rightarrow> string res" where
  "parse_b0_baseline document context =
     bindE (item as_object document ''baseline'' context) (\<lambda>baseline.
     let ctx = dot context ''baseline'' in
     bindE (exact_fields baseline [''id'', ''resource_fingerprint''] ctx) (\<lambda>_.
     bindE (expect_item baseline ''id'' (JStr ''hazkey'') ctx) (\<lambda>_.
     item as_sha256 baseline ''resource_fingerprint'' ctx)))"

definition parse_b0_sequence :: "obj \<Rightarrow> string \<Rightarrow> unit res" where
  "parse_b0_sequence document context =
     bindE (item as_object document ''candidate_sequence'' context) (\<lambda>sequence.
     let ctx = dot context ''candidate_sequence'' in
     bindE (exact_fields sequence [''evaluate_first'', ''build_B1_only_if_B0_fails'', ''B2_status''] ctx) (\<lambda>_.
     bindE (expect_item sequence ''evaluate_first'' (JStr ''B0'') ctx) (\<lambda>_.
     bindE (expect_as as_boolean JBool sequence ''build_B1_only_if_B0_fails'' (JBool True) ctx) (\<lambda>_.
     expect_item sequence ''B2_status'' (JStr ''future_consideration'') ctx))))"

section \<open>Suite and external sources\<close>

definition expected_component_policy :: "(string \<times> string \<times> int) list" where
  "expected_component_policy =
     [(''ajimee_unconditional'', ''external-ajimee-unconditional.tsv'', 100),
      (''product_curated'', ''product-curated.tsv'', 140),
      (''protected'', ''protected.tsv'', 16)]"

definition parse_suite_component :: "obj \<Rightarrow> string \<Rightarrow> string \<times> string \<times> int \<Rightarrow> unit res" where
  "parse_suite_component components cctx = (\<lambda>(name, filename, cases).
     let ctx = dot cctx name in
     bindE (item as_object components name cctx) (\<lambda>component.
     bindE (exact_fields component
              ([''file'', ''cases''] @ (if name = ''ajimee_unconditional'' then [''sha256''] else [])) ctx) (\<lambda>_.
     bindE (expect_item component ''file'' (JStr filename) ctx) (\<lambda>_.
     bindE (expect_item component ''cases'' (JInt cases) ctx) (\<lambda>_.
     if name = ''ajimee_unconditional''
     then bindE (item as_sha256 component ''sha256'' ctx) (\<lambda>_. Inr ())
     else Inr ())))))"

definition parse_b0_suite :: "obj \<Rightarrow> string \<Rightarrow> obj res" where
  "parse_b0_suite document context =
     bindE (item as_object document ''formal_suite'' context) (\<lambda>suite.
     let ctx = dot context ''formal_suite'' in
     bindE (exact_fields suite [''total_cases'', ''components'', ''curated_categories'', ''categories''] ctx) (\<lambda>_.
     bindE (expect_as as_positive_int JInt suite ''total_cases'' (JInt EXPECTED_TOTAL_CASES) ctx) (\<lambda>_.
     bindE (item as_object suite ''components'' ctx) (\<lambda>components.
     bindE (exact_fields components (keys expected_component_policy) (dot ctx ''components'')) (\<lambda>_.
     bindE (eachE (parse_suite_component components (dot ctx ''components'')) expected_component_policy) (\<lambda>_.
     bindE (expect_item suite ''curated_categories'' (int_obj EXPECTED_CURATED_CATEGORIES) ctx) (\<lambda>_.
     bindE (expect_item suite ''categories'' (int_obj EXPECTED_CATEGORIES) ctx) (\<lambda>_.
     Inr components))))))))"

definition provenance :: "string \<Rightarrow> json" where
  "provenance k = JStr (the (map_of AJIMEE_PROVENANCE k))"

text \<open>The component was seen to be an object when the suite was parsed.\<close>

definition parse_b0_external :: "obj \<Rightarrow> string \<Rightarrow> obj \<Rightarrow> string res" where
  "parse_b0_external document context components =
     bindE (item as_object document ''external_sources'' context) (\<lambda>external.
     let xctx = dot context ''external_sources''; ctx = dot xctx ''ajimee_bench'';
         sctx = dot (dot (dot context ''formal_suite'') ''components'') ''ajimee_unconditional'' in
     bindE (exact_fields external [''ajimee_bench''] xctx) (\<lambda>_.
     bindE (item as_object external ''ajimee_bench'' xctx) (\<lambda>ajimee.
     bindE (exact_fields ajimee
              [''repository'', ''revision'', ''raw_path'', ''raw_sha256'', ''raw_cases'', ''unconditional_cases'',
               ''contextual_cases'', ''license'', ''derived_path'', ''derived_sha256'', ''transform'',
               ''reading_normalization''] ctx) (\<lambda>_.
     bindE (eachE (\<lambda>(field, expected). expect_item ajimee field expected ctx)
              [(''repository'', provenance ''repository''), (''raw_path'', provenance ''raw_path''),
               (''license'', provenance ''license''),
               (''derived_path'', JStr ''external-ajimee-unconditional.tsv''),
               (''transform'', provenance ''transform''),
               (''reading_normalization'', JStr ''katakana-to-hiragana.v1'')]) (\<lambda>_.
     bindE (item as_string ajimee ''revision'' ctx) (\<lambda>revision.
     bindE (raise_if (\<not> is_commit revision) (ValueError (dot ctx ''revision must be 40-hex''))) (\<lambda>_.
     bindE (expect (JStr revision) (provenance ''revision'') (dot ctx ''revision'')) (\<lambda>_.
     bindE (expect_as as_sha256_or_bare JStr ajimee ''raw_sha256'' (provenance ''raw_sha256'') ctx) (\<lambda>_.
     bindE (item as_sha256 ajimee ''derived_sha256'' ctx) (\<lambda>derived_sha.
     bindE (item as_object components ''ajimee_unconditional'' sctx) (\<lambda>component.
     bindE (item as_sha256 component ''sha256'' sctx) (\<lambda>component_sha.
     bindE (expect_eq derived_sha component_sha (dot ctx ''derived_sha256'')) (\<lambda>_.
     bindE (eachE (\<lambda>(field, expected). expect_item ajimee field (JInt expected) ctx)
              [(''raw_cases'', 200), (''unconditional_cases'', 100), (''contextual_cases'', 100)]) (\<lambda>_.
     Inr derived_sha))))))))))))))"

section \<open>Gates\<close>

definition parse_gate_fields :: "obj \<Rightarrow> string \<Rightarrow> string \<Rightarrow> (string \<times> json) list \<Rightarrow> unit res" where
  "parse_gate_fields gates gctx name expected =
     bindE (item as_object gates name gctx) (\<lambda>payload.
     let ctx = dot gctx name in
     bindE (exact_fields payload (keys expected) ctx) (\<lambda>_.
     eachE (\<lambda>(field, v). expect_item payload field v ctx) expected))"

definition human_gate :: "(string \<times> json) list" where
  "human_gate =
     [(''comparison_backend'', JStr ''hazkey''), (''minimum_basis_points'', JInt (- 300)),
      (''minimum_net_cases'', JInt (- 7))]"

text \<open>\<open>b0_delta_gate\<close> and \<open>b0_ratio_gate\<close>: the fields they compare, in their order.\<close>

definition b0_delta_gate :: "int \<Rightarrow> bool \<Rightarrow> (string \<times> json) list" where
  "b0_delta_gate expected_bp scope =
     [(''comparison_backend'', JStr ''hazkey'')] @
     (if scope then [(''scope'', JStr ''formal_suite.categories'')] else []) @
     [(''minimum_delta_basis_points'', JInt expected_bp)]"

definition b0_ratio_gate :: "int \<Rightarrow> (string \<times> json) list" where
  "b0_ratio_gate expected_bp =
     [(''comparison_backend'', JStr ''hazkey''), (''maximum_ratio_basis_points'', JInt expected_bp)]"

definition parse_b0_gates :: "obj \<Rightarrow> string \<Rightarrow> obj res" where
  "parse_b0_gates document context =
     bindE (item as_object document ''gates'' context) (\<lambda>gates.
     let ctx = dot context ''gates'' in
     bindE (exact_fields gates
              [''human_net_preference'', ''top1'', ''top10'', ''per_category_top1'', ''protected'', ''both_bad'',
               ''warm_latency_p95'', ''pss'', ''long_running_stability''] ctx) (\<lambda>_.
     bindE (parse_gate_fields gates ctx ''human_net_preference'' human_gate) (\<lambda>_.
     bindE (parse_gate_fields gates ctx ''top1'' (b0_delta_gate (- 800) False)) (\<lambda>_.
     bindE (parse_gate_fields gates ctx ''top10'' (b0_delta_gate (- 1200) False)) (\<lambda>_.
     bindE (parse_gate_fields gates ctx ''per_category_top1'' (b0_delta_gate (- 1000) True)) (\<lambda>_.
     bindE (parse_gate_fields gates ctx ''protected''
              [(''required_passes'', JInt 16), (''total_cases'', JInt 16)]) (\<lambda>_.
     bindE (parse_gate_fields gates ctx ''both_bad'' [(''maximum_cases'', JInt 12)]) (\<lambda>_.
     bindE (parse_gate_fields gates ctx ''warm_latency_p95'' (b0_ratio_gate 5000)) (\<lambda>_.
     bindE (parse_gate_fields gates ctx ''pss'' (b0_ratio_gate 12500)) (\<lambda>_.
     Inr gates))))))))))"

section \<open>Stability checks\<close>

definition count_fields :: "string list" where
  "count_fields =
     [''helper_launches'', ''server_launches'', ''helper_recoveries'', ''server_recoveries'', ''residue_count'']"

text \<open>The code iterates over a set; the order decides only which field an error names.\<close>

definition parse_counts :: "obj \<Rightarrow> string \<Rightarrow> (string \<times> int option) list res" where
  "parse_counts counts ctx =
     mapE (\<lambda>field.
       bindE (get_item counts field) (\<lambda>value.
       bindE (if value = JNull then Inr None
              else bindE (as_nonnegative_int value (dot ctx field)) (\<lambda>n. Inr (Some n))) (\<lambda>n.
       Inr (field, n)))) count_fields"

definition parse_producer :: "obj \<Rightarrow> string \<Rightarrow> string \<Rightarrow> (string \<times> string option) res" where
  "parse_producer check check_ctx executable_sha =
     bindE (item as_object check ''native_producer'' check_ctx) (\<lambda>producer.
     let ctx = dot check_ctx ''native_producer'' in
     bindE (exact_fields producer [''path'', ''status'', ''sha256''] ctx) (\<lambda>_.
     bindE (item as_string producer ''path'' ctx) (\<lambda>producer_path.
     bindE (repo_relative producer_path (dot ctx ''path'')) (\<lambda>_.
     bindE (item as_string producer ''status'' ctx) (\<lambda>status.
     bindE (raise_if (status \<notin> {''pending'', ''ready''})
              (ValueError (dot ctx ''status must be pending or ready''))) (\<lambda>_.
     if status = ''ready'' then
       bindE (item as_sha256 producer ''sha256'' ctx) (\<lambda>producer_sha.
       bindE (if producer_path = ''<product-executable>''
              then expect_eq producer_sha executable_sha (dot ctx ''sha256'') else Inr ()) (\<lambda>_.
       Inr (producer_path, Some producer_sha)))
     else
       bindE (get_item producer ''sha256'') (\<lambda>value.
       bindE (raise_if (value \<noteq> JNull) (ValueError (dot ctx ''sha256 must be null while pending''))) (\<lambda>_.
       Inr (producer_path, None)))))))))"

definition parse_runner :: "obj \<Rightarrow> string \<Rightarrow> (string \<times> string) option res" where
  "parse_runner check check_ctx =
     bindE (get_item check ''execution_runner'') (\<lambda>value.
     if value = JNull then Inr None
     else
       let ctx = dot check_ctx ''execution_runner'' in
       bindE (as_object value ctx) (\<lambda>runner.
       bindE (exact_fields runner [''path'', ''sha256''] ctx) (\<lambda>_.
       bindE (item as_string runner ''path'' ctx) (\<lambda>runner_path.
       bindE (repo_relative runner_path (dot ctx ''path'')) (\<lambda>_.
       bindE (item as_sha256 runner ''sha256'' ctx) (\<lambda>runner_sha.
       Inr (Some (runner_path, runner_sha))))))))"

definition parse_package :: "obj \<Rightarrow> string \<Rightarrow> (string \<times> int \<times> int \<times> string) option res" where
  "parse_package check check_ctx =
     bindE (get_item check ''execution_package'') (\<lambda>value.
     if value = JNull then Inr None
     else
       let ctx = dot check_ctx ''execution_package'' in
       bindE (as_object value ctx) (\<lambda>package.
       bindE (exact_fields package [''path'', ''file_count'', ''size_bytes'', ''fingerprint''] ctx) (\<lambda>_.
       bindE (item as_string package ''path'' ctx) (\<lambda>package_path.
       bindE (expect_eq package_path SWIFT_PACKAGE_ROOT (dot ctx ''path'')) (\<lambda>_.
       bindE (item as_nonnegative_int package ''file_count'' ctx) (\<lambda>file_count.
       bindE (item as_nonnegative_int package ''size_bytes'' ctx) (\<lambda>package_size.
       bindE (raise_if (file_count < 1 \<or> package_size < 1)
                (ValueError (ctx @ '' file_count and size_bytes must be positive''))) (\<lambda>_.
       bindE (item as_sha256 package ''fingerprint'' ctx) (\<lambda>fingerprint.
       Inr (Some (package_path, file_count, package_size, fingerprint)))))))))))"

definition optional_sha256 :: "obj \<Rightarrow> string \<Rightarrow> string \<Rightarrow> string option res" where
  "optional_sha256 d k ctx =
     bindE (get_item d k) (\<lambda>value.
     if value = JNull then Inr None
     else bindE (as_sha256 value (dot ctx k)) (\<lambda>s. Inr (Some s)))"

definition stability_check_fields :: "string list" where
  "stability_check_fields =
     [''id'', ''native_schema'', ''artifact_kind'', ''command'', ''minimum_conversions'', ''minimum_cycles'',
      ''expected_counts'', ''native_producer'', ''execution_runner'', ''execution_package'',
      ''recovery_fixture_identity'', ''input_snapshot_fingerprint'']"

definition parse_stability_check ::
  "string \<Rightarrow> string \<Rightarrow> (string \<times> StabilityCheck) list \<Rightarrow> nat \<times> json \<Rightarrow> (string \<times> StabilityCheck) list res" where
  "parse_stability_check executable_sha sctx checks = (\<lambda>(index, raw_check).
     let ctx = at_index (dot sctx ''checks'') index; cctx = dot ctx ''expected_counts'' in
     bindE (as_object raw_check ctx) (\<lambda>check.
     bindE (exact_fields check stability_check_fields ctx) (\<lambda>_.
     bindE (item as_string check ''id'' ctx) (\<lambda>check_id.
     bindE (raise_if (check_id \<in> set (keys checks)) (ValueError (dot sctx ''checks has duplicate id ''))) (\<lambda>_.
     bindE (string_tuple check ''command'' ctx) (\<lambda>command.
     bindE (raise_if (command = []) (ValueError (dot ctx ''command must not be empty''))) (\<lambda>_.
     bindE (item as_object check ''expected_counts'' ctx) (\<lambda>counts.
     bindE (exact_fields counts count_fields cctx) (\<lambda>_.
     bindE (item as_nonnegative_int check ''minimum_conversions'' ctx) (\<lambda>conversions.
     bindE (item as_nonnegative_int check ''minimum_cycles'' ctx) (\<lambda>cycles.
     bindE (parse_counts counts cctx) (\<lambda>parsed_counts.
     bindE (raise_if (\<not> (conversions \<noteq> 0 \<or> cycles \<noteq> 0 \<or>
                list_ex (\<lambda>(_, n). n \<noteq> None \<and> n \<noteq> Some 0) parsed_counts))
              (ValueError (ctx @ '' must contain at least one non-zero requirement''))) (\<lambda>_.
     bindE (parse_producer check ctx executable_sha) (\<lambda>(producer_path, producer_sha).
     bindE (parse_runner check ctx) (\<lambda>runner.
     bindE (parse_package check ctx) (\<lambda>package.
     bindE (optional_sha256 check ''recovery_fixture_identity'' ctx) (\<lambda>fixture_identity.
     bindE (optional_sha256 check ''input_snapshot_fingerprint'' ctx) (\<lambda>snapshot_fingerprint.
     bindE (item as_string check ''native_schema'' ctx) (\<lambda>schema.
     bindE (item as_string check ''artifact_kind'' ctx) (\<lambda>kind.
     Inr (checks @ [(check_id,
       \<lparr>sc_id = check_id, sc_native_schema = schema, sc_artifact_kind = kind, sc_command = command,
        sc_minimum_conversions = conversions, sc_minimum_cycles = cycles, sc_counts = parsed_counts,
        sc_producer_path = producer_path, sc_producer_sha256 = producer_sha, sc_runner = runner,
        sc_package = package, sc_recovery_fixture_identity = fixture_identity,
        sc_input_snapshot_fingerprint = snapshot_fingerprint\<rparr>)])))))))))))))))))))))"

text \<open>The checks of a frozen contract: \<open>frozen\<close> and the checks by id.\<close>

definition parse_b0_stability ::
  "obj \<Rightarrow> string \<Rightarrow> string \<Rightarrow> (bool \<times> (string \<times> StabilityCheck) list) res" where
  "parse_b0_stability gates gctx executable_sha =
     bindE (item as_object gates ''long_running_stability'' gctx) (\<lambda>stability.
     let ctx = dot gctx ''long_running_stability'' in
     bindE (exact_fields stability [''required_result'', ''check_contracts_frozen'', ''checks''] ctx) (\<lambda>_.
     bindE (expect_item stability ''required_result'' (JStr ''all_pass'') ctx) (\<lambda>_.
     bindE (item as_boolean stability ''check_contracts_frozen'' ctx) (\<lambda>frozen.
     if frozen then
       bindE (item as_array stability ''checks'' ctx) (\<lambda>raw_checks.
       bindE (raise_if (raw_checks = []) (ValueError (dot ctx ''checks must be non-empty''))) (\<lambda>_.
       bindE (foldE (parse_stability_check executable_sha ctx) [] (zip [0..<length raw_checks] raw_checks)) (\<lambda>checks.
       Inr (True, checks))))
     else
       bindE (get_item stability ''checks'') (\<lambda>value.
       bindE (raise_if (value \<noteq> JNull) (ValueError (dot ctx ''checks must be null until frozen''))) (\<lambda>_.
       Inr (False, [])))))))"

definition fcitx_suite :: "string \<Rightarrow> bool" where
  "fcitx_suite check_id \<longleftrightarrow> check_id = FCITX_LONG_SOAK_ID \<or> check_id = FCITX_LIFECYCLE_ID"

definition expected_artifact_kind :: "string \<Rightarrow> string" where
  "expected_artifact_kind check_id = (if check_id \<in> set B0_SUITE_IDS then ''b0'' else ''fault-fixture'')"

definition check_fingerprint_use :: "string \<Rightarrow> string \<times> StabilityCheck \<Rightarrow> unit res" where
  "check_fingerprint_use context = (\<lambda>(check_id, check).
     let ctx = dot (dot context ''stability'') check_id;
         fixture = sc_recovery_fixture_identity check; snapshot = sc_input_snapshot_fingerprint check in
     bindE (if check_id = PROTOCOL_RECOVERY_ID
            then raise_if (fixture = None) (ValueError (ctx @ '' requires fixture identity''))
            else raise_if (fixture \<noteq> None) (ValueError (ctx @ '' must not claim a fixture identity''))) (\<lambda>_.
     if fcitx_suite check_id
     then raise_if (snapshot = None) (ValueError (ctx @ '' requires a frozen input snapshot fingerprint''))
     else raise_if (snapshot \<noteq> None) (ValueError (ctx @ '' must not claim an input snapshot fingerprint''))))"

definition check_suite_requirements :: "string \<Rightarrow> string \<times> StabilityCheck \<Rightarrow> unit res" where
  "check_suite_requirements context = (\<lambda>(check_id, check).
     let ctx = dot (dot context ''stability'') check_id in
     (case map_of SUITE_REQUIREMENTS check_id of None \<Rightarrow> Inl (KeyError check_id)
      | Some rq \<Rightarrow>
          bindE (native_schema check_id) (\<lambda>schema.
          bindE (expect_eq (sc_native_schema check) schema (dot ctx ''native_schema'')) (\<lambda>_.
          bindE (expect_eq (Some (sc_command check)) (map_of CANONICAL_COMMANDS check_id) (dot ctx ''command'')) (\<lambda>_.
          bindE (expect_eq (sc_artifact_kind check) (expected_artifact_kind check_id) (dot ctx ''artifact_kind'')) (\<lambda>_.
          bindE (expect_eq (sc_minimum_conversions check) (rq_conversions rq) (dot ctx ''minimum_conversions'')) (\<lambda>_.
          bindE (expect_eq (sc_minimum_cycles check) (rq_cycles rq) (dot ctx ''minimum_cycles'')) (\<lambda>_.
          bindE (eachE (\<lambda>(field, n).
                   expect_eq (map_of (sc_counts check) field) (Some n) (dot (dot ctx ''expected_counts'') field))
                   (rq_counts rq)) (\<lambda>_.
          bindE (expect_eq (sc_producer_path check) (rq_producer_path rq) (dot ctx ''native_producer.path'')) (\<lambda>_.
          bindE (expect_eq (map_option fst (sc_runner check)) (rq_runner_path rq) (dot ctx ''execution_runner.path'')) (\<lambda>_.
          bindE (expect_eq (map_option fst (sc_package check)) (rq_package_path rq) (dot ctx ''execution_package.path'')) (\<lambda>_.
          check_fingerprint_use context (check_id, check)))))))))))))"

definition check_frozen_suites :: "string \<Rightarrow> (string \<times> StabilityCheck) list \<Rightarrow> unit res" where
  "check_frozen_suites context checks =
     (let ctx = dot (dot context ''gates'') ''long_running_stability'' in
      bindE (expect_eq (keys checks) SUITE_IDS (ctx @ '' check IDs'')) (\<lambda>_.
      bindE (eachE (check_suite_requirements context) checks) (\<lambda>_.
      raise_if (card (set (map (\<lambda>(_, check). sc_input_snapshot_fingerprint check)
                            (filter (\<lambda>(check_id, _). fcitx_suite check_id) checks))) \<noteq> 1)
        (ValueError (ctx @ '' Fcitx suites must freeze the same input snapshot fingerprint'')))))"

section \<open>Measurement contracts, binding and readiness\<close>

definition pending_or_ready :: "obj \<Rightarrow> string \<Rightarrow> string \<Rightarrow> string res" where
  "pending_or_ready d k ctx =
     bindE (item as_string d k ctx) (\<lambda>status.
     bindE (raise_if (status \<notin> {''pending'', ''ready''}) (ValueError (dot ctx k @ '' must be pending or ready''))) (\<lambda>_.
     Inr status))"

definition expected_measurement :: "string \<Rightarrow> (string \<times> json) list" where
  "expected_measurement producer =
     [(''schema'', JStr INPUT_SCHEMA_V3), (''producer_sha256'', JStr producer),
      (''runs_per_backend'', JInt 4), (''execution_order'', str_arr EXPECTED_RUN_SEQUENCE),
      (''warmups_per_case'', JInt 5), (''iterations_per_case'', JInt 20), (''top_k'', JInt 10),
      (''cases'', JInt EXPECTED_TOTAL_CASES),
      (''latency_statistic'', JStr ''nearest-rank-p95-across-all-samples''),
      (''pss_statistic'', JStr ''max-parent-plus-backend-before-after''),
      (''cpu_policy'', JStr ''unrestricted-same-host''),
      (''per_run_timeout_seconds'', JInt PER_RUN_TIMEOUT_SECONDS)]"

definition parse_measurement :: "obj \<Rightarrow> string \<Rightarrow> (string \<times> MeasurementContract) res" where
  "parse_measurement contracts mctx =
     bindE (item as_object contracts ''formal_abprobe_v3'' mctx) (\<lambda>measurement.
     let ctx = dot mctx ''formal_abprobe_v3'' in
     bindE (exact_fields measurement (''status'' # keys (expected_measurement [])) ctx) (\<lambda>_.
     bindE (pending_or_ready measurement ''status'' ctx) (\<lambda>status.
     bindE (item as_sha256 measurement ''producer_sha256'' ctx) (\<lambda>producer.
     bindE (eachE (\<lambda>(field, expected). expect_item measurement field expected ctx)
              (expected_measurement producer)) (\<lambda>_.
     Inr (status, b0_measurement producer))))))"

definition parse_stability_contract :: "obj \<Rightarrow> string \<Rightarrow> (string \<times> string) res" where
  "parse_stability_contract contracts mctx =
     bindE (item as_object contracts ''long_running_stability'' mctx) (\<lambda>contract.
     let ctx = dot mctx ''long_running_stability''; octx = dot ctx ''orchestrator'' in
     bindE (exact_fields contract [''status'', ''orchestrator''] ctx) (\<lambda>_.
     bindE (pending_or_ready contract ''status'' ctx) (\<lambda>status.
     bindE (item as_object contract ''orchestrator'' ctx) (\<lambda>orchestrator.
     bindE (exact_fields orchestrator [''schema'', ''path'', ''sha256''] octx) (\<lambda>_.
     bindE (expect_item orchestrator ''schema'' (JStr STABILITY_RECORD_SCHEMA) octx) (\<lambda>_.
     bindE (expect_item orchestrator ''path'' (JStr ORCHESTRATOR_PATH) octx) (\<lambda>_.
     bindE (item as_sha256 orchestrator ''sha256'' octx) (\<lambda>sha.
     Inr (status, sha)))))))))"

definition parse_manifest_binding :: "obj \<Rightarrow> string \<Rightarrow> (string \<times> string \<times> string) res" where
  "parse_manifest_binding document context =
     bindE (item as_object document ''manifest_binding'' context) (\<lambda>binding.
     let ctx = dot context ''manifest_binding'' in
     bindE (exact_fields binding
              [''required_for_pilot_evaluation'', ''required_for_formal_decision'', ''expected_schema'', ''status'',
               ''path'', ''sha256''] ctx) (\<lambda>_.
     bindE (expect_item binding ''required_for_pilot_evaluation'' (JBool True) ctx) (\<lambda>_.
     bindE (expect_item binding ''required_for_formal_decision'' (JBool False) ctx) (\<lambda>_.
     bindE (expect_item binding ''expected_schema'' (JStr B0_CORPUS_MANIFEST_SCHEMA) ctx) (\<lambda>_.
     bindE (pending_or_ready binding ''status'' ctx) (\<lambda>status.
     if status = ''ready'' then
       bindE (item as_string binding ''path'' ctx) (\<lambda>path.
       bindE (item as_sha256_or_bare binding ''sha256'' ctx) (\<lambda>sha.
       Inr (status, path, sha)))
     else
       bindE (get_item binding ''path'') (\<lambda>path.
       bindE (get_item binding ''sha256'') (\<lambda>sha.
       bindE (raise_if (path \<noteq> JNull \<or> sha \<noteq> JNull)
                (ValueError (ctx @ '' path/hash must be null unless ready''))) (\<lambda>_.
       Inr (status, [], []))))))))))"

definition parse_b0_readiness :: "obj \<Rightarrow> string \<Rightarrow> (bool \<times> string list) res" where
  "parse_b0_readiness document context =
     bindE (item as_object document ''readiness'' context) (\<lambda>readiness.
     let ctx = dot context ''readiness'' in
     bindE (exact_fields readiness
              [''pilot_evaluation_enabled'', ''formal_decision_enabled'', ''blocking_items''] ctx) (\<lambda>_.
     bindE (item as_boolean readiness ''pilot_evaluation_enabled'' ctx) (\<lambda>pilot_enabled.
     bindE (item as_boolean readiness ''formal_decision_enabled'' ctx) (\<lambda>formal_enabled.
     bindE (expect_eq formal_enabled False (dot ctx ''formal_decision_enabled'')) (\<lambda>_.
     bindE (string_tuple readiness ''blocking_items'' ctx) (\<lambda>blockers.
     Inr (pilot_enabled, blockers)))))))"

section \<open>The whole document\<close>

definition parse_b0_document :: "string \<Rightarrow> obj \<Rightarrow> string \<Rightarrow> B0Policy res" where
  "parse_b0_document data document context =
     bindE (parse_b0_identity document context) (\<lambda>(policy_id, tier, allowed).
     bindE (parse_b0_candidate document context) (\<lambda>cand.
     bindE (parse_b0_baseline document context) (\<lambda>baseline_fingerprint.
     bindE (parse_b0_sequence document context) (\<lambda>_.
     bindE (parse_b0_suite document context) (\<lambda>components.
     bindE (parse_b0_external document context components) (\<lambda>derived_sha.
     bindE (parse_b0_gates document context) (\<lambda>gates.
     bindE (parse_b0_stability gates (dot context ''gates'') (snd (cand_executable cand))) (\<lambda>(frozen, checks).
     bindE (if frozen then check_frozen_suites context checks else Inr ()) (\<lambda>_.
     bindE (item as_object document ''measurement_contracts'' context) (\<lambda>contracts.
     bindE (exact_fields contracts [''formal_abprobe_v3'', ''long_running_stability'']
              (dot context ''measurement_contracts'')) (\<lambda>_.
     bindE (parse_measurement contracts (dot context ''measurement_contracts'')) (\<lambda>(measurement_status, measurement).
     bindE (parse_stability_contract contracts (dot context ''measurement_contracts'')) (\<lambda>(stability_status, orchestrator_sha).
     bindE (parse_manifest_binding document context) (\<lambda>(binding_status, manifest_path, manifest_sha).
     bindE (parse_b0_readiness document context) (\<lambda>(pilot_enabled, blockers).
     let contracts_ready = measurement_status = ''ready'' \<and> stability_status = ''ready'' \<and>
           list_all (\<lambda>(_, check). sc_producer_sha256 check \<noteq> None) checks
     in
     bindE (raise_if (\<not> (frozen \<and> keys checks \<noteq> [] \<and> contracts_ready \<and> binding_status = ''ready'' \<and>
                          pilot_enabled \<and> blockers = []))
              (ValueError (context @ '': pilot evaluation is not ready; ''))) (\<lambda>_.
     Inr \<lparr>bp_gate = b0_gate (keys checks), bp_policy_id = policy_id, bp_decision_tier = tier,
          bp_formal_adoption_allowed = allowed, bp_candidate_id = ''B0'',
          bp_product_source_revision = cand_product_source_revision cand,
          bp_artifact_source_revision = cand_artifact_source_revision cand,
          bp_candidate_resource_fingerprint = cand_fingerprint cand,
          bp_baseline_resource_fingerprint = baseline_fingerprint, bp_artifacts = cand_artifacts cand,
          bp_product_executable = cand_executable cand, bp_runtime_dependencies = cand_runtime cand,
          bp_runtime_dependency_integrity = cand_runtime_integrity cand,
          bp_ajimee_derived_sha256 = derived_sha, bp_manifest_path = manifest_path,
          bp_manifest_sha256 = manifest_sha, bp_policy_sha256 = sha256_bytes data,
          bp_measurement = measurement, bp_stability_orchestrator_sha256 = orchestrator_sha,
          bp_stability_checks = checks\<rparr>))))))))))))))))"

definition parse_b0_policy :: "string \<Rightarrow> string \<Rightarrow> B0Policy res" where
  "parse_b0_policy data context =
     bindE (load_json_bytes data context) (\<lambda>value.
     bindE (as_object value context) (\<lambda>document.
     parse_b0_document data document context))"

end
