(* ===== verification/Py_Decimal.thy ===== *)
theory Py_Decimal
  imports Json_Text
begin

text \<open>
  \<open>decimal.Decimal\<close> with the default context: 28 digits, ties to even, adjusted exponents up to
  999999; an overflow raises.  The constructor is exact.
\<close>

datatype pydecimal = Dec bool nat int | DInf bool | DNaN

section \<open>The constructor on a text\<close>

definition lower_ascii_char :: "char \<Rightarrow> char" where
  "lower_ascii_char c = (if 65 \<le> code c \<and> code c \<le> 90 then char_of (code c + 32) else c)"

definition ascii_space :: "char \<Rightarrow> bool" where
  "ascii_space c \<longleftrightarrow> 9 \<le> code c \<and> code c \<le> 13 \<or> 28 \<le> code c \<and> code c \<le> 32"

definition strip_ascii :: "string \<Rightarrow> string" where
  "strip_ascii s = rev (dropWhile ascii_space (rev (dropWhile ascii_space s)))"

text \<open>The exponent part: nothing, or \<open>e\<close> with a signed numeral that ends the text.\<close>

definition decimal_exponent :: "string \<Rightarrow> int option" where
  "decimal_exponent s =
     (case s of
        [] \<Rightarrow> Some 0
      | c # r \<Rightarrow>
          if lower_ascii_char c \<noteq> CHR ''e'' then None
          else
            let negative = take 1 r = ''-'';
                digits = (if negative \<or> take 1 r = ''+'' then drop 1 r else r)
            in if digits \<noteq> [] \<and> list_all is_digit digits
               then Some (if negative then - int (undec digits) else int (undec digits)) else None)"

definition decimal_number :: "bool \<Rightarrow> string \<Rightarrow> pydecimal option" where
  "decimal_number negative body =
     (let whole = takeWhile is_digit body; r = dropWhile is_digit body;
          point = take 1 r = ''.'';
          frac = (if point then takeWhile is_digit (drop 1 r) else []);
          r1 = (if point then dropWhile is_digit (drop 1 r) else r)
      in if whole @ frac = [] then None
         else case decimal_exponent r1 of
           None \<Rightarrow> None
         | Some e \<Rightarrow> Some (Dec negative (undec (whole @ frac)) (e - int (length frac))))"

definition decimal_of_text :: "string \<Rightarrow> pydecimal option" where
  "decimal_of_text s =
     (let t = filter (\<lambda>c. c \<noteq> CHR ''_'') (strip_ascii s);
          negative = take 1 t = ''-'';
          body = (if negative \<or> take 1 t = ''+'' then drop 1 t else t);
          word = map lower_ascii_char body
      in if word = ''inf'' \<or> word = ''infinity'' then Some (DInf negative)
         else if take 3 word = ''nan'' \<and> list_all is_digit (drop 3 word) \<or>
                 take 4 word = ''snan'' \<and> list_all is_digit (drop 4 word) then Some DNaN
         else decimal_number negative body)"

section \<open>Arithmetic and rendering\<close>

definition exact_decimal :: "bool \<Rightarrow> nat \<Rightarrow> int \<Rightarrow> rat" where
  "exact_decimal negative coeff e = (if negative then - 1 else 1) * of_nat coeff * 10 powi e"

definition E_TINY :: int where "E_TINY = - 1000026"
definition E_TOP :: int where "E_TOP = 999972"
definition E_MAX :: int where "E_MAX = 999999"

text \<open>Rounding a result to the context.\<close>

definition decimal_fix :: "bool \<Rightarrow> nat \<Rightarrow> int \<Rightarrow> pydecimal res" where
  "decimal_fix negative coeff e =
     (if coeff = 0 then Inr (Dec negative 0 (min (max e E_TINY) E_MAX))
      else
        let exp_min = int (length (dec coeff)) + e - 28 in
        if E_TOP < exp_min then Inl DecimalOverflow
        else
          let exp_min' = max exp_min E_TINY in
          if exp_min' \<le> e then Inr (Dec negative coeff e)
          else
            let c = nat (round_half_even (of_nat coeff / 10 ^ nat (exp_min' - e)));
                carry = 28 < length (dec c);
                c' = (if carry then c div 10 else c);
                e' = (if carry then exp_min' + 1 else exp_min')
            in if E_TOP < e' then Inl DecimalOverflow else Inr (Dec negative c' e'))"

text \<open>\<open>x * k\<close> for an integer \<open>k\<close>; the special values do not occur here.\<close>

definition decimal_times :: "bool \<Rightarrow> nat \<Rightarrow> int \<Rightarrow> int \<Rightarrow> pydecimal res" where
  "decimal_times negative coeff e k = decimal_fix (negative \<noteq> (k < 0)) (coeff * nat \<bar>k\<bar>) e"

definition signed_text :: "int \<Rightarrow> string" where
  "signed_text i = (if i < 0 then ''-'' else ''+'') @ dec (nat \<bar>i\<bar>)"

definition decimal_text :: "bool \<Rightarrow> nat \<Rightarrow> int \<Rightarrow> string" where
  "decimal_text negative coeff e =
     (let ds = dec coeff; n = int (length ds); leftdigits = e + n;
          dotplace = (if e \<le> 0 \<and> - 6 < leftdigits then leftdigits else 1);
          number = (if dotplace \<le> 0 then ''0.'' @ zeros (- dotplace) @ ds
                    else if n \<le> dotplace then ds @ zeros (dotplace - n)
                    else take (nat dotplace) ds @ ''.'' @ drop (nat dotplace) ds)
      in (if negative then ''-'' else []) @ number @
         (if leftdigits = dotplace then [] else ''E'' @ signed_text (leftdigits - dotplace)))"

fun decimal_str :: "pydecimal \<Rightarrow> string" where
  "decimal_str (Dec negative coeff e) = decimal_text negative coeff e"
| "decimal_str (DInf negative) = (if negative then ''-Infinity'' else ''Infinity'')"
| "decimal_str DNaN = ''NaN''"

section \<open>Products that fit are exact\<close>

lemma length_dec_le: "n < 10 ^ Suc d \<Longrightarrow> length (dec n) \<le> Suc d"
proof (induction d arbitrary: n)
  case 0
  then show ?case by (subst dec.simps) simp
next
  case (Suc d)
  show ?case
  proof (cases "n < 10")
    case True
    then show ?thesis by (subst dec.simps) simp
  next
    case False
    have "n div 10 < 10 ^ Suc d" using Suc.prems by (simp add: less_mult_imp_div_less mult.commute)
    then have "length (dec (n div 10)) \<le> Suc d" by (rule Suc.IH)
    then show ?thesis using False by (subst dec.simps) simp
  qed
qed

definition decimal_normal :: "nat \<Rightarrow> int \<Rightarrow> bool" where
  "decimal_normal coeff e \<longleftrightarrow> coeff < 10 ^ 24 \<and> E_TINY \<le> e \<and> e \<le> E_TOP"

lemma decimal_times_exact:
  assumes "decimal_normal coeff e" "0 < k" "k \<le> 10000"
  shows "decimal_times negative coeff e k = Inr (Dec negative (coeff * nat k) e)"
proof -
  have "coeff * nat k < 10 ^ 24 * 10 ^ 4"
  proof (rule mult_less_le_imp_less)
    show "coeff < 10 ^ 24" using assms(1) by (simp add: decimal_normal_def)
    show "nat k \<le> 10 ^ 4" using assms(3) by simp
  qed (use assms in simp_all)
  then have "coeff * nat k < 10 ^ Suc 27" by simp
  then have "length (dec (coeff * nat k)) \<le> Suc 27" by (rule length_dec_le)
  then have len: "int (length (dec (coeff * nat k))) \<le> 28" by simp
  have e: "E_TINY \<le> e" "e \<le> E_TOP" using assms(1) by (simp_all add: decimal_normal_def)
  show ?thesis
  proof (cases "coeff * nat k = 0")
    case True
    then show ?thesis using e assms(2) by (simp add: decimal_times_def decimal_fix_def E_TOP_def E_MAX_def)
  next
    case False
    have "\<not> E_TOP < int (length (dec (coeff * nat k))) + e - 28"
      "max (int (length (dec (coeff * nat k))) + e - 28) E_TINY \<le> e"
      using len e by linarith+
    then show ?thesis using False assms(2) by (simp add: decimal_times_def decimal_fix_def Let_def)
  qed
qed

end
