(* ===== verification/B0_Checks.thy ===== *)
theory B0_Checks
  imports B0_Contract Py_Decimal
begin

text \<open>
  \<open>evaluate_metrics\<close> and \<open>derive_pilot_result\<close> of \<open>evaluate_mozc_b0_gate.py\<close>.  The parameter
  \<open>ascii_form\<close> gives the text that \<open>Decimal\<close> reads of a string: Unicode digits and spaces replaced
  by their ASCII forms.
\<close>

section \<open>Checks of one measurement\<close>

definition b0_check :: "string \<Rightarrow> bool \<Rightarrow> obj \<Rightarrow> obj" where
  "b0_check check_id passed rest = (''id'', JStr check_id) # (''passed'', JBool passed) # rest"

definition count_check :: "string \<Rightarrow> bool \<Rightarrow> int \<Rightarrow> string \<Rightarrow> int \<Rightarrow> obj" where
  "count_check check_id passed actual operator limit =
     b0_check check_id passed [(''actual'', JInt actual), (''operator'', JStr operator), (''limit'', JInt limit)]"

definition rational_check :: "string \<Rightarrow> int \<Rightarrow> int \<Rightarrow> int \<Rightarrow> obj res" where
  "rational_check check_id numerator denominator minimum_basis_points =
     bindE (raise_if (denominator \<le> 0) (ValueError (check_id @ '': denominator must be positive''))) (\<lambda>_.
     let left = numerator * 10000; right = minimum_basis_points * denominator in
     Inr (b0_check check_id (right \<le> left)
       [(''actual'', JObj [(''numerator'', JInt numerator), (''denominator'', JInt denominator)]),
        (''comparison'', JObj [(''left'', JInt left), (''operator'', JStr ''>=''), (''right'', JInt right)]),
        (''limit_basis_points'', JInt minimum_basis_points)]))"

definition ratio_obj :: "string \<Rightarrow> bool \<Rightarrow> json \<Rightarrow> json \<Rightarrow> json \<Rightarrow> json \<Rightarrow> int \<Rightarrow> obj" where
  "ratio_obj check_id passed candidate baseline left right limit =
     b0_check check_id passed
       [(''actual'', JObj [(''candidate'', candidate), (''baseline'', baseline)]),
        (''comparison'', JObj [(''left'', left), (''operator'', JStr ''<=''), (''right'', right)]),
        (''limit_basis_points'', JInt limit)]"

definition ratio_error :: "string \<Rightarrow> exn" where
  "ratio_error check_id = ValueError (check_id @ '': candidate must be non-negative and baseline positive'')"

definition ratio_check_int :: "string \<Rightarrow> int \<Rightarrow> int \<Rightarrow> int \<Rightarrow> obj res" where
  "ratio_check_int check_id candidate baseline maximum_basis_points =
     bindE (raise_if (candidate < 0 \<or> baseline \<le> 0) (ratio_error check_id)) (\<lambda>_.
     let left = candidate * 10000; right = baseline * maximum_basis_points in
     Inr (ratio_obj check_id (left \<le> right) (JInt candidate) (JInt baseline) (JInt left) (JInt right)
            maximum_basis_points))"

text \<open>The same function on finite decimals, whose products are rounded to the context.\<close>

fun value_of_decimal :: "pydecimal \<Rightarrow> rat" where
  "value_of_decimal (Dec negative coeff e) = exact_decimal negative coeff e"
| "value_of_decimal _ = 0"

fun times_decimal :: "pydecimal \<Rightarrow> int \<Rightarrow> pydecimal res" where
  "times_decimal (Dec negative coeff e) k = decimal_times negative coeff e k"
| "times_decimal d k = Inr d"

definition ratio_check_decimal :: "string \<Rightarrow> pydecimal \<Rightarrow> pydecimal \<Rightarrow> int \<Rightarrow> obj res" where
  "ratio_check_decimal check_id candidate baseline maximum_basis_points =
     bindE (raise_if (value_of_decimal candidate < 0 \<or> value_of_decimal baseline \<le> 0) (ratio_error check_id)) (\<lambda>_.
     bindE (times_decimal candidate 10000) (\<lambda>left.
     bindE (times_decimal baseline maximum_basis_points) (\<lambda>right.
     Inr (ratio_obj check_id (value_of_decimal left \<le> value_of_decimal right)
            (JStr (decimal_str candidate)) (JStr (decimal_str baseline))
            (JStr (decimal_str left)) (JStr (decimal_str right)) maximum_basis_points))))"

section \<open>The metrics\<close>

record B0Human =
  b0_wins :: int
  b0_losses :: int
  b0_ties :: int
  b0_both_bad :: int

record B0Backend =
  be_cases :: int
  be_top1 :: int
  be_top10 :: int
  be_categories :: "(string \<times> int \<times> int) list"

definition parse_human :: "obj \<Rightarrow> int \<Rightarrow> B0Human res" where
  "parse_human metrics cases =
     bindE (item as_object metrics ''human'' ''metrics'') (\<lambda>human.
     let ctx = ''metrics.human'' in
     bindE (exact_fields human [''wins'', ''losses'', ''ties'', ''both_bad''] ctx) (\<lambda>_.
     bindE (item as_nonnegative_int human ''wins'' ctx) (\<lambda>w.
     bindE (item as_nonnegative_int human ''losses'' ctx) (\<lambda>l.
     bindE (item as_nonnegative_int human ''ties'' ctx) (\<lambda>t.
     bindE (item as_nonnegative_int human ''both_bad'' ctx) (\<lambda>b.
     bindE (raise_if (w + l + t + b \<noteq> cases) (ValueError ''metrics.human counts do not add up to cases'')) (\<lambda>_.
     Inr \<lparr>b0_wins = w, b0_losses = l, b0_ties = t, b0_both_bad = b\<rparr>)))))))"

definition parse_category :: "obj \<Rightarrow> string \<Rightarrow> string \<times> int \<Rightarrow> (string \<times> int \<times> int) res" where
  "parse_category categories cctx = (\<lambda>(category, expected_total).
     let ctx = dot cctx category in
     bindE (item as_object categories category cctx) (\<lambda>category_metrics.
     bindE (exact_fields category_metrics [''cases'', ''top1_hits''] ctx) (\<lambda>_.
     bindE (item as_positive_int category_metrics ''cases'' ctx) (\<lambda>total_n.
     bindE (item as_nonnegative_int category_metrics ''top1_hits'' ctx) (\<lambda>hits.
     bindE (raise_if (total_n \<noteq> expected_total \<or> total_n < hits)
              (ValueError (ctx @ '' totals are inconsistent with policy''))) (\<lambda>_.
     Inr (category, total_n, hits)))))))"

definition parse_backend :: "B0GatePolicy \<Rightarrow> int \<Rightarrow> obj \<Rightarrow> string \<Rightarrow> B0Backend res" where
  "parse_backend policy cases quality backend =
     bindE (item as_object quality backend ''metrics.quality'') (\<lambda>backend_metrics.
     let ctx = dot ''metrics.quality'' backend; cctx = dot ctx ''categories'' in
     bindE (exact_fields backend_metrics [''cases'', ''top1_hits'', ''top10_hits'', ''categories''] ctx) (\<lambda>_.
     bindE (item as_positive_int backend_metrics ''cases'' ctx) (\<lambda>backend_cases.
     bindE (item as_nonnegative_int backend_metrics ''top1_hits'' ctx) (\<lambda>top1_hits.
     bindE (item as_nonnegative_int backend_metrics ''top10_hits'' ctx) (\<lambda>top10_hits.
     bindE (raise_if (backend_cases \<noteq> cases \<or> top10_hits < top1_hits \<or> backend_cases < top10_hits)
              (ValueError (ctx @ '' totals are inconsistent''))) (\<lambda>_.
     bindE (item as_object backend_metrics ''categories'' ctx) (\<lambda>categories.
     bindE (raise_if (set (keys categories) \<noteq> set (keys (b0_categories policy)))
              (ValueError (ctx @ ''.categories do not match policy''))) (\<lambda>_.
     bindE (mapE (parse_category categories cctx) (b0_categories policy)) (\<lambda>normalized.
     bindE (raise_if (sum_list (map (\<lambda>(_, n, _). n) normalized) \<noteq> backend_cases)
              (ValueError (ctx @ ''.categories do not add up to cases''))) (\<lambda>_.
     bindE (raise_if (sum_list (map (\<lambda>(_, _, h). h) normalized) \<noteq> top1_hits)
              (ValueError (ctx @ ''.categories do not add up to top1_hits''))) (\<lambda>_.
     Inr \<lparr>be_cases = backend_cases, be_top1 = top1_hits, be_top10 = top10_hits, be_categories = normalized\<rparr>)))))))))))"

section \<open>The checks, in order\<close>

definition human_checks :: "B0GatePolicy \<Rightarrow> int \<Rightarrow> B0Human \<Rightarrow> obj list res" where
  "human_checks policy cases human =
     (let net = b0_wins human - b0_losses human in
      bindE (rational_check ''human-net-preference-basis-points'' net cases (b0_minimum_net_basis_points policy)) (\<lambda>c.
      Inr [count_check ''pilot-case-count'' (cases = b0_total_cases policy) cases ''=='' (b0_total_cases policy),
           c,
           count_check ''human-net-preference-cases'' (b0_minimum_net_cases policy \<le> net) net ''>=''
             (b0_minimum_net_cases policy)]))"

definition b0_delta_check :: "string \<Rightarrow> int \<times> int \<Rightarrow> int \<times> int \<Rightarrow> int \<Rightarrow> obj res" where
  "b0_delta_check check_id = (\<lambda>(hazkey_cases, hazkey_hits) (mozc_cases, mozc_hits) limit.
     rational_check check_id (mozc_hits * hazkey_cases - hazkey_hits * mozc_cases) (mozc_cases * hazkey_cases) limit)"

definition get_pair :: "(string \<times> int \<times> int) list \<Rightarrow> string \<Rightarrow> (int \<times> int) res" where
  "get_pair d k = (case map_of d k of None \<Rightarrow> Inl (KeyError k) | Some p \<Rightarrow> Inr p)"

definition b0_category_check :: "B0GatePolicy \<Rightarrow> B0Backend \<Rightarrow> B0Backend \<Rightarrow> string \<Rightarrow> obj res" where
  "b0_category_check policy hazkey mozc category =
     bindE (get_pair (be_categories hazkey) category) (\<lambda>h.
     bindE (get_pair (be_categories mozc) category) (\<lambda>m.
     b0_delta_check (''category-top1-delta:'' @ category) h m
       (b0_minimum_category_top1_delta_basis_points policy)))"

definition latency_decimal :: "(string \<Rightarrow> string) \<Rightarrow> json \<Rightarrow> pydecimal option" where
  "latency_decimal ascii_form v =
     (case v of
        JFloat f \<Rightarrow> decimal_of_text (float_text f)
      | JInt i \<Rightarrow> decimal_of_text (int_text i)
      | JStr s \<Rightarrow> decimal_of_text (ascii_form s)
      | _ \<Rightarrow> None)"

fun decimal_is_finite :: "pydecimal \<Rightarrow> bool" where
  "decimal_is_finite (Dec _ _ _) = True"
| "decimal_is_finite _ = False"

definition latency_error :: exn where
  "latency_error = ValueError ''metrics warm latency values must be finite decimals''"

definition b0_latency_check :: "(string \<Rightarrow> string) \<Rightarrow> B0GatePolicy \<Rightarrow> obj \<Rightarrow> obj res" where
  "b0_latency_check ascii_form policy metrics =
     bindE (item as_object metrics ''warm_latency_p95_ms'' ''metrics'') (\<lambda>latency.
     bindE (exact_fields latency [''hazkey'', ''mozc''] ''metrics.warm_latency_p95_ms'') (\<lambda>_.
     bindE (get_item latency ''hazkey'') (\<lambda>hazkey_value.
     bindE (get_item latency ''mozc'') (\<lambda>mozc_value.
     case (latency_decimal ascii_form hazkey_value, latency_decimal ascii_form mozc_value) of
       (Some hazkey, Some mozc) \<Rightarrow>
         bindE (raise_if (\<not> decimal_is_finite hazkey \<or> \<not> decimal_is_finite mozc) latency_error) (\<lambda>_.
         ratio_check_decimal ''warm-latency-p95-ratio'' mozc hazkey (b0_maximum_warm_p95_ratio_basis_points policy))
     | _ \<Rightarrow> Inl latency_error))))"

definition b0_pss_check :: "B0GatePolicy \<Rightarrow> obj \<Rightarrow> obj res" where
  "b0_pss_check policy metrics =
     bindE (item as_object metrics ''total_pss_kib'' ''metrics'') (\<lambda>pss.
     bindE (exact_fields pss [''hazkey'', ''mozc''] ''metrics.total_pss_kib'') (\<lambda>_.
     bindE (item as_nonnegative_int pss ''mozc'' ''metrics.total_pss_kib'') (\<lambda>mozc.
     bindE (item as_positive_int pss ''hazkey'' ''metrics.total_pss_kib'') (\<lambda>hazkey.
     ratio_check_int ''total-pss-ratio'' mozc hazkey (b0_maximum_pss_ratio_basis_points policy)))))"

definition b0_stability_checks :: "B0GatePolicy \<Rightarrow> obj \<Rightarrow> obj list res" where
  "b0_stability_checks policy metrics =
     bindE (item as_object metrics ''stability'' ''metrics'') (\<lambda>stability.
     bindE (raise_if (set (keys stability) \<noteq> set (b0_required_stability_ids policy))
              (ValueError ''metrics.stability IDs do not exactly match the frozen policy'')) (\<lambda>_.
     mapE (\<lambda>check_id.
       bindE (item as_boolean stability check_id ''metrics.stability'') (\<lambda>passed.
       Inr (b0_check (''stability:'' @ check_id) passed
              [(''actual'', JBool passed), (''operator'', JStr ''==''), (''limit'', JBool True)])))
       (b0_required_stability_ids policy)))"

definition b0_metrics_fields :: "string list" where
  "b0_metrics_fields = [''cases'', ''human'', ''quality'', ''warm_latency_p95_ms'', ''total_pss_kib'', ''stability'']"

definition evaluate_b0_metrics :: "(string \<Rightarrow> string) \<Rightarrow> B0GatePolicy \<Rightarrow> obj \<Rightarrow> obj list res" where
  "evaluate_b0_metrics ascii_form policy metrics =
     bindE (exact_fields metrics b0_metrics_fields ''metrics'') (\<lambda>_.
     bindE (item as_positive_int metrics ''cases'' ''metrics'') (\<lambda>cases.
     bindE (parse_human metrics cases) (\<lambda>human.
     bindE (item as_object metrics ''quality'' ''metrics'') (\<lambda>quality.
     bindE (exact_fields quality [''hazkey'', ''mozc''] ''metrics.quality'') (\<lambda>_.
     bindE (parse_backend policy cases quality ''hazkey'') (\<lambda>hazkey.
     bindE (parse_backend policy cases quality ''mozc'') (\<lambda>mozc.
     bindE (human_checks policy cases human) (\<lambda>first_checks.
     bindE (b0_delta_check ''top1-delta'' (be_cases hazkey, be_top1 hazkey) (be_cases mozc, be_top1 mozc)
              (b0_minimum_top1_delta_basis_points policy)) (\<lambda>top1.
     bindE (b0_delta_check ''top10-delta'' (be_cases hazkey, be_top10 hazkey) (be_cases mozc, be_top10 mozc)
              (b0_minimum_top10_delta_basis_points policy)) (\<lambda>top10.
     bindE (mapE (b0_category_check policy hazkey mozc) (sort (keys (b0_categories policy)))) (\<lambda>per_category.
     bindE (get_pair (be_categories mozc) ''protected'') (\<lambda>(_, protected_passes).
     bindE (b0_latency_check ascii_form policy metrics) (\<lambda>latency.
     bindE (b0_pss_check policy metrics) (\<lambda>pss.
     bindE (b0_stability_checks policy metrics) (\<lambda>stability.
     Inr (first_checks @ [top1, top10] @ per_category @
       [count_check ''protected-cases'' (protected_passes = b0_protected_required policy) protected_passes ''==''
          (b0_protected_required policy),
        count_check ''both-bad'' (b0_both_bad human \<le> b0_maximum_both_bad policy) (b0_both_bad human) ''<=''
          (b0_maximum_both_bad policy),
        latency, pss] @ stability))))))))))))))))"

section \<open>The pilot result\<close>

definition pilot_state :: "obj \<Rightarrow> bool option res" where
  "pilot_state check =
     (case get_or_null check ''passed'' of
        JBool b \<Rightarrow> Inr (Some b)
      | JNull \<Rightarrow> Inr None
      | _ \<Rightarrow> Inl (ValueError ''.passed must be boolean or null''))"

definition derive_pilot_result :: "obj list \<Rightarrow> string res" where
  "derive_pilot_result checks =
     bindE (mapE pilot_state checks) (\<lambda>states.
     Inr (if list_ex (\<lambda>s. s = Some False) states then ''pilot_fail''
          else if states \<noteq> [] \<and> list_all (\<lambda>s. s = Some True) states then ''pilot_pass''
          else ''inconclusive''))"

end
