(* ===== verification/B0_Facts.thy ===== *)
theory B0_Facts
  imports B0_Policy B0_Checks
begin

text \<open>
  What an accepted B0 policy contains, and what the checks of the pilot gate decide.
\<close>

section \<open>The policy\<close>

text \<open>What \<open>SUITE_REQUIREMENTS\<close> and the other frozen tables say of a check.\<close>

definition conforms :: "string \<times> StabilityCheck \<Rightarrow> bool" where
  "conforms = (\<lambda>(check_id, check). \<exists>rq. map_of SUITE_REQUIREMENTS check_id = Some rq \<and>
     native_schema check_id = Inr (sc_native_schema check) \<and>
     map_of CANONICAL_COMMANDS check_id = Some (sc_command check) \<and>
     sc_artifact_kind check = expected_artifact_kind check_id \<and>
     sc_minimum_conversions check = rq_conversions rq \<and> sc_minimum_cycles check = rq_cycles rq \<and>
     (\<forall>(field, n) \<in> set (rq_counts rq). map_of (sc_counts check) field = Some n) \<and>
     sc_producer_path check = rq_producer_path rq \<and>
     map_option fst (sc_runner check) = rq_runner_path rq \<and>
     map_option fst (sc_package check) = rq_package_path rq \<and>
     (sc_recovery_fixture_identity check \<noteq> None \<longleftrightarrow> check_id = PROTOCOL_RECOVERY_ID) \<and>
     (sc_input_snapshot_fingerprint check \<noteq> None \<longleftrightarrow> fcitx_suite check_id))"

lemma check_fingerprint_use_iff:
  "check_fingerprint_use context (check_id, check) = Inr u \<longleftrightarrow>
     (sc_recovery_fixture_identity check \<noteq> None \<longleftrightarrow> check_id = PROTOCOL_RECOVERY_ID) \<and>
     (sc_input_snapshot_fingerprint check \<noteq> None \<longleftrightarrow> fcitx_suite check_id)"
  by (auto simp: check_fingerprint_use_def Let_def)

lemma check_suite_requirements_iff:
  "check_suite_requirements context ic = Inr u \<longleftrightarrow> conforms ic"
  by (cases ic) (auto simp: check_suite_requirements_def conforms_def check_fingerprint_use_iff Let_def
    split: option.splits)

lemma check_frozen_suites_iff:
  "check_frozen_suites context checks = Inr u \<longleftrightarrow>
     keys checks = SUITE_IDS \<and> (\<forall>ic \<in> set checks. conforms ic) \<and>
     card (set (map (\<lambda>(_, check). sc_input_snapshot_fingerprint check)
                 (filter (\<lambda>(check_id, _). fcitx_suite check_id) checks))) = 1"
  by (auto simp: check_frozen_suites_def check_suite_requirements_iff Let_def)

definition sealed_b0_policy :: "string \<Rightarrow> B0Policy \<Rightarrow> bool" where
  "sealed_b0_policy data p \<longleftrightarrow>
     bp_gate p = b0_gate SUITE_IDS \<and> (\<exists>producer. bp_measurement p = b0_measurement producer \<and> sha256_pattern producer) \<and>
     bp_candidate_id p = ''B0'' \<and> bp_decision_tier p = B0_DECISION_TIER \<and> \<not> bp_formal_adoption_allowed p \<and>
     bp_product_source_revision p = PRODUCT_SOURCE_REF \<and>
     bp_candidate_resource_fingerprint p = B0_RESOURCE_FINGERPRINT \<and>
     keys (bp_runtime_dependencies p) = RUNTIME_DEPENDENCY_FILENAMES \<and>
     (\<exists>canonical. canonical_json (runtime_files_json (bp_runtime_dependencies p)) = Inr canonical \<and>
        bp_runtime_dependency_integrity p = sha256_bytes canonical) \<and>
     bp_manifest_path p \<noteq> [] \<and> sha256_pattern (bp_manifest_sha256 p) \<and> bp_policy_sha256 p = sha256_bytes data \<and>
     keys (bp_stability_checks p) = SUITE_IDS \<and>
     (\<forall>ic \<in> set (bp_stability_checks p). conforms ic \<and> sc_producer_sha256 (snd ic) \<noteq> None)"

lemma mapiE_keys:
  assumes "mapiE (parse_runtime_file rctx) i (zip raws names) = Inr files" "length raws = length names"
  shows "keys files = names"
  using assms
proof (induction names arbitrary: i raws files)
  case (Cons n names)
  then obtain raw raws' where raws: "raws = raw # raws'" by (cases raws) auto
  from Cons.prems obtain f fs where f: "parse_runtime_file rctx i (raw, n) = Inr f"
    and fs: "mapiE (parse_runtime_file rctx) (Suc i) (zip raws' names) = Inr fs" and files: "files = f # fs"
    unfolding raws zip_Cons_Cons mapiE.simps by (elim bindE_elim) (drule sum.inject(2) [THEN iffD1], rule that, assumption, assumption, rule sym, assumption)
  have "fst f = n"
    using f unfolding parse_runtime_file_def Let_def prod.case
    by (elim bindE_elim) (auto simp only: sum.inject fst_conv)
  then show ?case using Cons.IH [OF fs] Cons.prems(2) by (simp add: raws files)
qed simp

lemma runtime_dependencies_ok:
  assumes "parse_runtime_dependencies candidate ctx = Inr (files, integrity)"
  shows "keys files = RUNTIME_DEPENDENCY_FILENAMES"
    "\<exists>canonical. canonical_json (runtime_files_json files) = Inr canonical \<and> integrity = sha256_bytes canonical"
proof -
  obtain raws rctx canonical where
    "length raws = length RUNTIME_DEPENDENCY_FILENAMES"
    and f: "mapiE (parse_runtime_file rctx) 0 (zip raws RUNTIME_DEPENDENCY_FILENAMES) = Inr files"
    and c: "canonical_json (runtime_files_json files) = Inr canonical" "integrity = sha256_bytes canonical"
    using assms unfolding parse_runtime_dependencies_def Let_def
    by (elim bindE_elim) (auto simp only: sum.inject prod.inject expect_eq_iff)
  show "keys files = RUNTIME_DEPENDENCY_FILENAMES" by (rule mapiE_keys [OF f]) fact
  show "\<exists>canonical. canonical_json (runtime_files_json files) = Inr canonical \<and> integrity = sha256_bytes canonical"
    using c by blast
qed

lemma candidate_ok:
  assumes "parse_b0_candidate document context = Inr cand"
  shows "cand_product_source_revision cand = PRODUCT_SOURCE_REF" "cand_fingerprint cand = B0_RESOURCE_FINGERPRINT"
    "keys (cand_runtime cand) = RUNTIME_DEPENDENCY_FILENAMES"
    "\<exists>canonical. canonical_json (runtime_files_json (cand_runtime cand)) = Inr canonical \<and>
       cand_runtime_integrity cand = sha256_bytes canonical"
proof -
  obtain candidate ctx p where
    p: "parse_runtime_dependencies candidate ctx = Inr p" "cand_runtime cand = fst p" "cand_runtime_integrity cand = snd p"
    and r: "cand_product_source_revision cand = PRODUCT_SOURCE_REF" "cand_fingerprint cand = B0_RESOURCE_FINGERPRINT"
    using assms unfolding parse_b0_candidate_def Let_def split_def
    by (elim bindE_elim) (auto simp only: sum.inject expect_eq_iff B0Candidate.select_convs)
  have "parse_runtime_dependencies candidate ctx = Inr (fst p, snd p)" using p(1) by simp
  note ok = runtime_dependencies_ok [OF this]
  show "cand_product_source_revision cand = PRODUCT_SOURCE_REF" "cand_fingerprint cand = B0_RESOURCE_FINGERPRINT"
    by (fact r)+
  show "keys (cand_runtime cand) = RUNTIME_DEPENDENCY_FILENAMES" using ok(1) p(2) by simp
  show "\<exists>canonical. canonical_json (runtime_files_json (cand_runtime cand)) = Inr canonical \<and>
       cand_runtime_integrity cand = sha256_bytes canonical" using ok(2) p(2,3) by simp
qed

lemma measurement_ok:
  assumes "parse_measurement contracts ctx = Inr (status, m)"
  shows "\<exists>producer. m = b0_measurement producer \<and> sha256_pattern producer"
  using assms unfolding parse_measurement_def Let_def
  by (elim bindE_elim) (auto simp only: sum.inject prod.inject item_iff as_sha256_iff)

lemma manifest_binding_ok:
  assumes "parse_manifest_binding document context = Inr (''ready'', path, sha)"
  shows "path \<noteq> []" "sha256_pattern sha"
proof -
  obtain binding ctx where "item as_string binding ''path'' ctx = Inr path" "item as_sha256_or_bare binding ''sha256'' ctx = Inr sha"
    using assms unfolding parse_manifest_binding_def Let_def
    by (elim bindE_elim) (auto simp only: sum.inject prod.inject split: if_splits elim!: bindE_elim)
  then show "path \<noteq> []" "sha256_pattern sha" by (auto dest: as_sha256_or_bare_pattern)
qed

lemma parse_b0_policy_sealed:
  assumes "parse_b0_policy data context = Inr p" shows "sealed_b0_policy data p"
proof -
  obtain document where doc: "parse_b0_document data document context = Inr p"
    using assms unfolding parse_b0_policy_def by (elim bindE_elim)
  obtain identity cand fc contracts mm bb bfp derived u v err
    and ss :: "string \<times> string" and rr :: "bool \<times> string list" where
    i: "parse_b0_identity document context = Inr identity"
    and c: "parse_b0_candidate document context = Inr cand"
    and m: "parse_measurement contracts (dot context ''measurement_contracts'') = Inr mm"
    and b: "parse_manifest_binding document context = Inr bb"
    and f: "(if fst fc then check_frozen_suites context (snd fc) else Inr ()) = Inr u"
    and r: "raise_if (\<not> (fst fc \<and> keys (snd fc) \<noteq> [] \<and> (fst mm = ''ready'' \<and> fst ss = ''ready'' \<and>
        list_all (\<lambda>p. sc_producer_sha256 (snd p) \<noteq> None) (snd fc)) \<and> fst bb = ''ready'' \<and> fst rr \<and> snd rr = [])) err = Inr v"
    and p: "p = \<lparr>bp_gate = b0_gate (keys (snd fc)), bp_policy_id = fst identity, bp_decision_tier = fst (snd identity),
          bp_formal_adoption_allowed = snd (snd identity), bp_candidate_id = ''B0'',
          bp_product_source_revision = cand_product_source_revision cand,
          bp_artifact_source_revision = cand_artifact_source_revision cand,
          bp_candidate_resource_fingerprint = cand_fingerprint cand,
          bp_baseline_resource_fingerprint = bfp, bp_artifacts = cand_artifacts cand,
          bp_product_executable = cand_executable cand, bp_runtime_dependencies = cand_runtime cand,
          bp_runtime_dependency_integrity = cand_runtime_integrity cand,
          bp_ajimee_derived_sha256 = derived, bp_manifest_path = fst (snd bb),
          bp_manifest_sha256 = snd (snd bb), bp_policy_sha256 = sha256_bytes data,
          bp_measurement = snd mm, bp_stability_orchestrator_sha256 = snd ss,
          bp_stability_checks = snd fc\<rparr>"
    using doc unfolding parse_b0_document_def Let_def split_def
    by (elim bindE_elim) (drule sum.inject(2) [THEN iffD1], rule that, assumption, assumption, assumption, assumption,
      assumption, assumption, rule sym, assumption)
  note ready = r [unfolded raise_if_Inr_iff not_not]
  have suites: "check_frozen_suites context (snd fc) = Inr ()" using f ready by simp
  note s = suites [unfolded check_frozen_suites_iff]
  have id: "fst (snd identity) = B0_DECISION_TIER" "snd (snd identity) = B0_FORMAL_ADOPTION_ALLOWED"
    using i unfolding parse_b0_identity_def
    by (elim bindE_elim; auto simp only: sum.inject expect_eq_iff fst_conv snd_conv)+
  have "parse_measurement contracts (dot context ''measurement_contracts'') = Inr (fst mm, snd mm)" using m by simp
  note m = measurement_ok [OF this]
  have "parse_manifest_binding document context = Inr (''ready'', fst (snd bb), snd (snd bb))"
    using b ready by (cases bb) auto
  note b = manifest_binding_ok [OF this]
  have producers: "\<forall>ic \<in> set (snd fc). sc_producer_sha256 (snd ic) \<noteq> None" using ready by (simp add: list_all_iff)
  show ?thesis
    unfolding sealed_b0_policy_def p B0Policy.select_convs
    using s m b id candidate_ok [OF c] producers by (simp add: B0_FORMAL_ADOPTION_ALLOWED_def)
qed

section \<open>The pilot verdict\<close>

definition check_passed :: "obj \<Rightarrow> bool" where
  "check_passed check \<longleftrightarrow> get_or_null check ''passed'' = JBool True"

definition decided :: "obj \<Rightarrow> bool" where
  "decided check \<longleftrightarrow> (\<exists>b. get_or_null check ''passed'' = JBool b)"

lemma b0_check_passed [simp]: "check_passed (b0_check check_id passed rest) \<longleftrightarrow> passed"
  by (simp add: check_passed_def b0_check_def get_or_null_def)

lemma b0_check_decided [simp]: "decided (b0_check check_id passed rest)"
  by (simp add: decided_def b0_check_def get_or_null_def)

lemma decided_states:
  "\<forall>c \<in> set checks. decided c \<Longrightarrow> mapE pilot_state checks = Inr (map (\<lambda>c. Some (check_passed c)) checks)"
proof (induction checks)
  case (Cons c checks)
  then obtain b where "get_or_null c ''passed'' = JBool b" by (auto simp: decided_def)
  then have "pilot_state c = Inr (Some (check_passed c))" by (cases b) (simp_all add: pilot_state_def check_passed_def)
  then show ?case using Cons by simp
qed simp

lemma decided_result:
  assumes "\<forall>c \<in> set checks. decided c" "checks \<noteq> []"
  shows "derive_pilot_result checks =
    Inr (if \<forall>c \<in> set checks. check_passed c then ''pilot_pass'' else ''pilot_fail'')"
  using assms by (auto simp: derive_pilot_result_def decided_states list_ex_iff list_all_iff)

section \<open>Single checks\<close>

lemma rational_check_iff:
  "rational_check i n d limit = Inr c \<longleftrightarrow> 0 < d \<and>
     c = b0_check i (limit * d \<le> n * 10000)
       [(''actual'', JObj [(''numerator'', JInt n), (''denominator'', JInt d)]),
        (''comparison'', JObj [(''left'', JInt (n * 10000)), (''operator'', JStr ''>=''), (''right'', JInt (limit * d))]),
        (''limit_basis_points'', JInt limit)]"
  by (auto simp: rational_check_def Let_def)

text \<open>The difference of two hit rates against a limit in basis points.\<close>

definition hit_rate :: "int \<times> int \<Rightarrow> rat" where
  "hit_rate = (\<lambda>(cases, hits). of_int hits / of_int cases)"

lemma b0_delta_check_decides:
  assumes "b0_delta_check i h m limit = Inr c" "0 < fst h" "0 < fst m"
  shows "decided c" "check_passed c \<longleftrightarrow> of_int limit / 10000 \<le> hit_rate m - hit_rate h"
proof -
  obtain hc hh where h: "h = (hc, hh)" by (cases h)
  obtain mc mh where m: "m = (mc, mh)" by (cases m)
  have c: "rational_check i (mh * hc - hh * mc) (mc * hc) limit = Inr c"
    using assms(1) by (simp add: h m b0_delta_check_def)
  then show "decided c" by (auto simp: rational_check_iff)
  have pos: "0 < hc" "0 < mc" using assms by (simp_all add: h m)
  have "check_passed c \<longleftrightarrow> limit * (mc * hc) \<le> (mh * hc - hh * mc) * 10000"
    using c by (auto simp: rational_check_iff)
  also have "\<dots> \<longleftrightarrow> (of_int limit :: rat) * (of_int mc * of_int hc) \<le> (of_int mh * of_int hc - of_int hh * of_int mc) * 10000"
    unfolding of_int_le_iff [where 'a = rat, symmetric] by simp
  also have "\<dots> \<longleftrightarrow> of_int limit / 10000 \<le> hit_rate m - hit_rate h"
    using pos by (simp add: hit_rate_def h m divide_simps)
  finally show "check_passed c \<longleftrightarrow> of_int limit / 10000 \<le> hit_rate m - hit_rate h" .
qed

lemma ratio_check_int_iff:
  "ratio_check_int i m h limit = Inr c \<longleftrightarrow> 0 \<le> m \<and> 0 < h \<and>
     c = ratio_obj i (m * 10000 \<le> h * limit) (JInt m) (JInt h) (JInt (m * 10000)) (JInt (h * limit)) limit"
  by (auto simp: ratio_check_int_def Let_def)

lemma ratio_obj_decides [simp]:
  "decided (ratio_obj i p a b l r limit)" "check_passed (ratio_obj i p a b l r limit) \<longleftrightarrow> p"
  by (simp_all add: ratio_obj_def)

lemma ratio_check_decimal_decided: "ratio_check_decimal i m h limit = Inr c \<Longrightarrow> decided c"
  by (auto simp: ratio_check_decimal_def)

lemma decimal_value_times: "exact_decimal n (c * nat k) e = exact_decimal n c e * of_int k" if "0 \<le> k"
  using that by (simp add: exact_decimal_def)

lemma ratio_check_decimal_exact:
  assumes "decimal_normal mc me" "decimal_normal hc he" "0 < limit" "limit \<le> 10000"
  shows "ratio_check_decimal i (Dec mn mc me) (Dec hn hc he) limit = Inr c \<Longrightarrow>
    check_passed c \<longleftrightarrow> exact_decimal mn mc me * 10000 \<le> exact_decimal hn hc he * of_int limit"
  using assms decimal_value_times [of 10000 mn mc me]
  by (auto simp: ratio_check_decimal_def decimal_times_exact decimal_value_times)

section \<open>All checks\<close>

definition rates_ok :: "int \<times> int \<Rightarrow> int \<times> int \<Rightarrow> int \<Rightarrow> bool" where
  "rates_ok h m limit \<longleftrightarrow> of_int limit / 10000 \<le> hit_rate m - hit_rate h"

definition pilot_ok :: "B0GatePolicy \<Rightarrow> int \<Rightarrow> B0Human \<Rightarrow> B0Backend \<Rightarrow> B0Backend \<Rightarrow> bool" where
  "pilot_ok g cases human hazkey mozc \<longleftrightarrow>
     cases = b0_total_cases g \<and>
     of_int (b0_minimum_net_basis_points g) / 10000 \<le> (of_int (b0_wins human - b0_losses human) / of_int cases :: rat) \<and>
     b0_minimum_net_cases g \<le> b0_wins human - b0_losses human \<and>
     rates_ok (cases, be_top1 hazkey) (cases, be_top1 mozc) (b0_minimum_top1_delta_basis_points g) \<and>
     rates_ok (cases, be_top10 hazkey) (cases, be_top10 mozc) (b0_minimum_top10_delta_basis_points g) \<and>
     (\<forall>category \<in> set (keys (b0_categories g)).
        \<exists>h m. map_of (be_categories hazkey) category = Some h \<and> map_of (be_categories mozc) category = Some m \<and>
          rates_ok h m (b0_minimum_category_top1_delta_basis_points g)) \<and>
     (\<exists>n. map_of (be_categories mozc) ''protected'' = Some (n, b0_protected_required g)) \<and>
     b0_both_bad human \<le> b0_maximum_both_bad g"

lemma get_pair_iff [simp]: "get_pair d k = Inr p \<longleftrightarrow> map_of d k = Some p"
  by (auto simp: get_pair_def split: option.splits)

lemma parse_category_ok:
  assumes "parse_category categories ctx kn = Inr c" shows "0 < fst (snd c)"
proof -
  obtain d k ctx' total_n hits where "item as_positive_int d k ctx' = Inr total_n" "c = (fst kn, total_n, hits)"
    using assms unfolding parse_category_def Let_def split_def
    by (elim bindE_elim) (drule sum.inject(2) [THEN iffD1], rule that, assumption, rule sym, assumption)
  then show ?thesis by auto
qed

lemma parse_backend_ok:
  assumes "parse_backend g cases q b = Inr r"
  shows "be_cases r = cases" "\<forall>k p. map_of (be_categories r) k = Some p \<longrightarrow> 0 < fst p"
proof -
  obtain backend_cases top1 top10 categories err u where
    c: "raise_if (backend_cases \<noteq> cases \<or> top10 < top1 \<or> backend_cases < top10) err = Inr u"
    "be_cases r = backend_cases"
    and m: "mapE (parse_category categories (dot (dot ''metrics.quality'' b) ''categories'')) (b0_categories g) = Inr (be_categories r)"
    using assms unfolding parse_backend_def Let_def
    by (elim bindE_elim) (drule sum.inject(2) [THEN iffD1], hypsubst, rule that, assumption,
      simp only: B0Backend.select_convs, simp only: B0Backend.select_convs)
  show "be_cases r = cases" using c by simp
  have "0 < fst p" if "map_of (be_categories r) k = Some p" for k p
    using mapE_member [OF m map_of_SomeD [OF that]] parse_category_ok by fastforce
  then show "\<forall>k p. map_of (be_categories r) k = Some p \<longrightarrow> 0 < fst p" by blast
qed

lemma human_checks_ok:
  assumes "human_checks g cases human = Inr cs" "0 < cases"
  shows "\<forall>c \<in> set cs. decided c"
    "(\<forall>c \<in> set cs. check_passed c) \<longleftrightarrow> cases = b0_total_cases g \<and>
       of_int (b0_minimum_net_basis_points g) / 10000 \<le> (of_int (b0_wins human - b0_losses human) / of_int cases :: rat) \<and>
       b0_minimum_net_cases g \<le> b0_wins human - b0_losses human"
proof -
  let ?net = "b0_wins human - b0_losses human" and ?limit = "b0_minimum_net_basis_points g"
  obtain c where c: "rational_check ''human-net-preference-basis-points'' ?net cases ?limit = Inr c"
    and cs: "cs = [count_check ''pilot-case-count'' (cases = b0_total_cases g) cases ''=='' (b0_total_cases g), c,
       count_check ''human-net-preference-cases'' (b0_minimum_net_cases g \<le> ?net) ?net ''>='' (b0_minimum_net_cases g)]"
    using assms(1) by (auto simp: human_checks_def Let_def)
  show "\<forall>c \<in> set cs. decided c" using c unfolding cs by (auto simp: count_check_def rational_check_iff)
  have "?limit * cases \<le> ?net * 10000 \<longleftrightarrow> (of_int ?limit :: rat) * of_int cases \<le> of_int ?net * 10000"
    unfolding of_int_le_iff [where 'a = rat, symmetric] by simp
  also have "\<dots> \<longleftrightarrow> of_int ?limit / 10000 \<le> (of_int ?net / of_int cases :: rat)"
    using assms(2) by (simp add: divide_simps)
  finally show "(\<forall>c \<in> set cs. check_passed c) \<longleftrightarrow> cases = b0_total_cases g \<and>
       of_int ?limit / 10000 \<le> (of_int ?net / of_int cases :: rat) \<and> b0_minimum_net_cases g \<le> ?net"
    using c unfolding cs by (auto simp: count_check_def rational_check_iff)
qed

lemma stability_checks_ok:
  assumes "b0_stability_checks g metrics = Inr cs"
  shows "\<forall>c \<in> set cs. decided c"
    "(\<forall>c \<in> set cs. check_passed c) \<longleftrightarrow>
       (\<exists>d. map_of metrics ''stability'' = Some (JObj d) \<and>
          (\<forall>i \<in> set (b0_required_stability_ids g). map_of d i = Some (JBool True)))"
proof -
  let ?check = "\<lambda>i passed. b0_check (''stability:'' @ i) passed
      [(''actual'', JBool passed), (''operator'', JStr ''==''), (''limit'', JBool True)]"
  from assms obtain d where d: "map_of metrics ''stability'' = Some (JObj d)"
    and m: "mapE (\<lambda>i. bindE (item as_boolean d i ''metrics.stability'') (\<lambda>passed. Inr (?check i passed)))
       (b0_required_stability_ids g) = Inr cs"
    unfolding b0_stability_checks_def by (elim bindE_elim) simp
  have "(\<forall>c \<in> set cs. decided c) \<and>
      ((\<forall>c \<in> set cs. check_passed c) \<longleftrightarrow> (\<forall>i \<in> set ids. map_of d i = Some (JBool True)))"
    if "mapE (\<lambda>i. bindE (item as_boolean d i ''metrics.stability'') (\<lambda>passed. Inr (?check i passed))) ids = Inr cs" for ids
    using that by (induction ids arbitrary: cs) auto
  from this [OF m] show "\<forall>c \<in> set cs. decided c" "(\<forall>c \<in> set cs. check_passed c) \<longleftrightarrow>
       (\<exists>d. map_of metrics ''stability'' = Some (JObj d) \<and>
          (\<forall>i \<in> set (b0_required_stability_ids g). map_of d i = Some (JBool True)))"
    using d by auto
qed

lemma category_checks_ok:
  assumes "mapE (b0_category_check g hazkey mozc) categories = Inr cs"
    and "\<forall>k p. map_of (be_categories hazkey) k = Some p \<longrightarrow> 0 < fst p"
    and "\<forall>k p. map_of (be_categories mozc) k = Some p \<longrightarrow> 0 < fst p"
  shows "(\<forall>c \<in> set cs. decided c) \<and>
    ((\<forall>c \<in> set cs. check_passed c) \<longleftrightarrow> (\<forall>category \<in> set categories.
       \<exists>h m. map_of (be_categories hazkey) category = Some h \<and> map_of (be_categories mozc) category = Some m \<and>
         rates_ok h m (b0_minimum_category_top1_delta_basis_points g)))"
  using assms(1)
proof (induction categories arbitrary: cs)
  case (Cons k ks)
  then obtain h m c cs' where h: "map_of (be_categories hazkey) k = Some h" "map_of (be_categories mozc) k = Some m"
    and c: "b0_delta_check (''category-top1-delta:'' @ k) h m (b0_minimum_category_top1_delta_basis_points g) = Inr c"
    and cs: "mapE (b0_category_check g hazkey mozc) ks = Inr cs'" "cs = c # cs'"
    unfolding mapE.simps
  proof (elim bindE_elim)
    fix c' cs''
    assume "b0_category_check g hazkey mozc k = Inr c'" "mapE (b0_category_check g hazkey mozc) ks = Inr cs''"
      "Inr (c' # cs'') = Inr cs"
    then show thesis using that unfolding b0_category_check_def by (elim bindE_elim) (simp only: get_pair_iff sum.inject)
  qed
  have pos: "0 < fst h" "0 < fst m" using assms(2,3) h by blast+
  note decides = b0_delta_check_decides [OF c pos]
  show ?case using Cons.IH [OF cs(1)] decides [folded rates_ok_def] h unfolding cs(2) by (simp del: split_paired_Ex)
qed simp

text \<open>What an evaluation reads, and what its checks decide.\<close>

definition b0_reading ::
  "(string \<Rightarrow> string) \<Rightarrow> B0GatePolicy \<Rightarrow> obj \<Rightarrow> int \<Rightarrow> B0Human \<Rightarrow> B0Backend \<Rightarrow> B0Backend \<Rightarrow> obj \<Rightarrow> obj \<Rightarrow> bool" where
  "b0_reading ascii_form g metrics cases human hazkey mozc latency pss \<longleftrightarrow>
     item as_positive_int metrics ''cases'' ''metrics'' = Inr cases \<and> parse_human metrics cases = Inr human \<and>
     (\<exists>quality. item as_object metrics ''quality'' ''metrics'' = Inr quality \<and>
        parse_backend g cases quality ''hazkey'' = Inr hazkey \<and> parse_backend g cases quality ''mozc'' = Inr mozc) \<and>
     b0_latency_check ascii_form g metrics = Inr latency \<and> b0_pss_check g metrics = Inr pss"

lemma b0_latency_decided: "b0_latency_check ascii_form g metrics = Inr c \<Longrightarrow> decided c"
  unfolding b0_latency_check_def
  by (elim bindE_elim) (auto split: option.splits dest: ratio_check_decimal_decided)

lemma b0_pss_decided: "b0_pss_check g metrics = Inr c \<Longrightarrow> decided c"
  unfolding b0_pss_check_def by (elim bindE_elim) (auto simp: ratio_check_int_iff)

lemma evaluate_b0_metrics_checks:
  assumes "evaluate_b0_metrics ascii_form g metrics = Inr checks"
  shows "\<exists>cases human hazkey mozc latency pss. b0_reading ascii_form g metrics cases human hazkey mozc latency pss \<and>
    checks \<noteq> [] \<and> (\<forall>c \<in> set checks. decided c) \<and>
    ((\<forall>c \<in> set checks. check_passed c) \<longleftrightarrow>
       pilot_ok g cases human hazkey mozc \<and> check_passed latency \<and> check_passed pss \<and>
       (\<exists>d. map_of metrics ''stability'' = Some (JObj d) \<and>
          (\<forall>i \<in> set (b0_required_stability_ids g). map_of d i = Some (JBool True))))"
proof -
  obtain cases human quality hazkey mozc cs top1 top10 per_category prot latency pss stability where
    n: "item as_positive_int metrics ''cases'' ''metrics'' = Inr cases"
    and human: "parse_human metrics cases = Inr human"
    and q: "item as_object metrics ''quality'' ''metrics'' = Inr quality"
    and h: "parse_backend g cases quality ''hazkey'' = Inr hazkey"
    and m: "parse_backend g cases quality ''mozc'' = Inr mozc"
    and cs: "human_checks g cases human = Inr cs"
    and t1: "b0_delta_check ''top1-delta'' (be_cases hazkey, be_top1 hazkey) (be_cases mozc, be_top1 mozc)
               (b0_minimum_top1_delta_basis_points g) = Inr top1"
    and t10: "b0_delta_check ''top10-delta'' (be_cases hazkey, be_top10 hazkey) (be_cases mozc, be_top10 mozc)
               (b0_minimum_top10_delta_basis_points g) = Inr top10"
    and cat: "mapE (b0_category_check g hazkey mozc) (sort (keys (b0_categories g))) = Inr per_category"
    and prot: "get_pair (be_categories mozc) ''protected'' = Inr prot"
    and lat: "b0_latency_check ascii_form g metrics = Inr latency"
    and pss: "b0_pss_check g metrics = Inr pss"
    and st: "b0_stability_checks g metrics = Inr stability"
    and checks: "checks = cs @ [top1, top10] @ per_category @
       [count_check ''protected-cases'' (snd prot = b0_protected_required g) (snd prot) ''=='' (b0_protected_required g),
        count_check ''both-bad'' (b0_both_bad human \<le> b0_maximum_both_bad g) (b0_both_bad human) ''<=''
          (b0_maximum_both_bad g), latency, pss] @ stability"
    using assms unfolding evaluate_b0_metrics_def split_def
    by (elim bindE_elim) (drule sum.inject(2) [THEN iffD1], rule that, assumption, assumption, assumption, assumption,
      assumption, assumption, assumption, assumption, assumption, assumption, assumption, assumption, assumption,
      rule sym, assumption)
  have pos: "0 < cases" using n by auto
  have size: "be_cases hazkey = cases" "be_cases mozc = cases" using parse_backend_ok(1) [OF h] parse_backend_ok(1) [OF m] .
  note c = human_checks_ok [OF cs pos] and s = stability_checks_ok [OF st]
  note d1 = b0_delta_check_decides [OF t1 [unfolded size], unfolded fst_conv, OF pos pos]
    and d10 = b0_delta_check_decides [OF t10 [unfolded size], unfolded fst_conv, OF pos pos]
  note k = category_checks_ok [OF cat parse_backend_ok(2) [OF h] parse_backend_ok(2) [OF m], unfolded set_sort]
  have p: "snd prot = b0_protected_required g \<longleftrightarrow> (\<exists>n. map_of (be_categories mozc) ''protected'' = Some (n, b0_protected_required g))"
    using prot by (cases prot) auto
  have all: "(\<forall>c \<in> set checks. P c) \<longleftrightarrow> (\<forall>c \<in> set cs. P c) \<and> P top1 \<and> P top10 \<and> (\<forall>c \<in> set per_category. P c) \<and>
      P (count_check ''protected-cases'' (snd prot = b0_protected_required g) (snd prot) ''=='' (b0_protected_required g)) \<and>
      P (count_check ''both-bad'' (b0_both_bad human \<le> b0_maximum_both_bad g) (b0_both_bad human) ''<='' (b0_maximum_both_bad g)) \<and>
      P latency \<and> P pss \<and> (\<forall>c \<in> set stability. P c)" for P
    unfolding checks set_append ball_Un list.set ball_simps by blast
  have counts: "decided (count_check i b a o' l)" "check_passed (count_check i b a o' l) \<longleftrightarrow> b" for i b a o' l
    by (simp_all add: count_check_def)
  have "checks \<noteq> []" by (simp add: checks)
  moreover have "\<forall>c \<in> set checks. decided c"
    unfolding all using c(1) d1(1) d10(1) k counts(1) b0_latency_decided [OF lat] b0_pss_decided [OF pss] s(1) by blast
  moreover have "(\<forall>c \<in> set checks. check_passed c) \<longleftrightarrow>
      pilot_ok g cases human hazkey mozc \<and> check_passed latency \<and> check_passed pss \<and>
       (\<exists>d. map_of metrics ''stability'' = Some (JObj d) \<and>
          (\<forall>i \<in> set (b0_required_stability_ids g). map_of d i = Some (JBool True)))"
    unfolding all c(2) d1(2) d10(2) k [THEN conjunct2] counts(2) s(2) p pilot_ok_def rates_ok_def by blast
  moreover have "b0_reading ascii_form g metrics cases human hazkey mozc latency pss"
    unfolding b0_reading_def using n human q h m lat pss by blast
  ultimately show ?thesis by blast
qed

lemma evaluate_b0_result:
  assumes "evaluate_b0_metrics ascii_form g metrics = Inr checks"
  shows "derive_pilot_result checks =
    Inr (if \<forall>c \<in> set checks. check_passed c then ''pilot_pass'' else ''pilot_fail'')"
  using evaluate_b0_metrics_checks [OF assms] by (blast intro: decided_result)

end
