(* ===== verification/B0_Properties.thy ===== *)
theory B0_Properties
  imports B0_Facts
begin

text \<open>
  Properties of the B0 pilot gate: its policy is sealed, it always decides, and it passes exactly the
  metrics within its thresholds; one measurement that passes is evaluated as a witness.
\<close>

section \<open>Metrics that pass\<close>

definition pilot_backend :: json where
  "pilot_backend = JObj [(''cases'', JInt EXPECTED_TOTAL_CASES), (''top1_hits'', JInt EXPECTED_TOTAL_CASES),
     (''top10_hits'', JInt EXPECTED_TOTAL_CASES),
     (''categories'', JObj (map (\<lambda>(c, n). (c, JObj [(''cases'', JInt n), (''top1_hits'', JInt n)])) EXPECTED_CATEGORIES))]"
definition pilot_metrics :: obj where
  "pilot_metrics =
     [(''cases'', JInt EXPECTED_TOTAL_CASES),
      (''human'', JObj [(''wins'', JInt EXPECTED_TOTAL_CASES), (''losses'', JInt 0), (''ties'', JInt 0), (''both_bad'', JInt 0)]),
      (''quality'', JObj [(''hazkey'', pilot_backend), (''mozc'', pilot_backend)]),
      (''warm_latency_p95_ms'', JObj [(''hazkey'', JInt 3), (''mozc'', JInt 1)]),
      (''total_pss_kib'', JObj [(''hazkey'', JInt 100), (''mozc'', JInt 100)]),
      (''stability'', JObj [(''idle'', JBool True)])]"


definition pilot_gate :: B0GatePolicy where "pilot_gate = b0_gate [''idle'']"
definition pilot_side :: B0Backend where
  "pilot_side = \<lparr>be_cases = EXPECTED_TOTAL_CASES, be_top1 = EXPECTED_TOTAL_CASES, be_top10 = EXPECTED_TOTAL_CASES,
     be_categories = map (\<lambda>(c, n). (c, n, n)) EXPECTED_CATEGORIES\<rparr>"

lemma pilot_decimals: "decimal_of_text ''3'' = Some (Dec False 3 0)" "decimal_of_text ''1'' = Some (Dec False 1 0)"
  by code_simp+

lemma pilot_numerals: "int_text 3 = ''3''" "int_text 1 = ''1''" by code_simp+

lemma pilot_ratio: "\<exists>c. ratio_check_decimal i (Dec False 1 0) (Dec False 3 0) 5000 = Inr c \<and> check_passed c"
proof -
  have n: "decimal_normal 1 0" "decimal_normal 3 0" by (simp_all add: decimal_normal_def E_TINY_def E_TOP_def)
  obtain c where c: "ratio_check_decimal i (Dec False 1 0) (Dec False 3 0) 5000 = Inr c"
    using n by (auto simp: ratio_check_decimal_def decimal_times_exact raise_if_def exact_decimal_def simp del: One_nat_def)
  have "check_passed c \<longleftrightarrow> exact_decimal False 1 0 * 10000 \<le> exact_decimal False 3 0 * of_int 5000"
    by (rule ratio_check_decimal_exact [OF n _ _ c]) simp_all
  then show ?thesis using c by (simp add: exact_decimal_def)
qed

lemma pilot_latency: "\<exists>c. b0_latency_check (\<lambda>s. s) pilot_gate pilot_metrics = Inr c \<and> check_passed c"
  using pilot_ratio [of "''warm-latency-p95-ratio''"]
  by (simp add: b0_latency_check_def pilot_metrics_def pilot_gate_def b0_gate_def latency_decimal_def pilot_numerals pilot_decimals
     del: One_nat_def)

lemma pilot_human: "parse_human pilot_metrics 256 = Inr \<lparr>b0_wins = 256, b0_losses = 0, b0_ties = 0, b0_both_bad = 0\<rparr>"
  by (simp add: parse_human_def pilot_metrics_def EXPECTED_TOTAL_CASES_def Let_def)

lemma pilot_sides:
  "parse_backend pilot_gate 256 [(''hazkey'', pilot_backend), (''mozc'', pilot_backend)] ''hazkey'' = Inr pilot_side"
  "parse_backend pilot_gate 256 [(''hazkey'', pilot_backend), (''mozc'', pilot_backend)] ''mozc'' = Inr pilot_side"
  by (simp_all add: parse_backend_def EXPECTED_TOTAL_CASES_def pilot_gate_def b0_gate_def EXPECTED_CATEGORIES_def
    pilot_backend_def parse_category_def pilot_side_def Let_def)

lemma pilot_pss: "\<exists>c. b0_pss_check pilot_gate pilot_metrics = Inr c \<and> check_passed c"
  by (simp add: b0_pss_check_def pilot_metrics_def pilot_gate_def b0_gate_def ratio_check_int_def ratio_obj_def b0_check_def check_passed_def get_or_null_def raise_if_def)

lemma pilot_thresholds: "pilot_ok pilot_gate 256 \<lparr>b0_wins = 256, b0_losses = 0, b0_ties = 0, b0_both_bad = 0\<rparr> pilot_side pilot_side"
  by (simp add: pilot_ok_def pilot_gate_def b0_gate_def pilot_side_def rates_ok_def hit_rate_def EXPECTED_CATEGORIES_def EXPECTED_TOTAL_CASES_def)

lemma pilot_evaluates: "\<exists>checks. evaluate_b0_metrics (\<lambda>s. s) pilot_gate pilot_metrics = Inr checks"
proof -
  obtain l p where "b0_latency_check (\<lambda>s. s) pilot_gate pilot_metrics = Inr l" "b0_pss_check pilot_gate pilot_metrics = Inr p"
    using pilot_latency pilot_pss by blast
  moreover have "\<exists>s. b0_stability_checks pilot_gate pilot_metrics = Inr s"
    by (simp add: b0_stability_checks_def pilot_metrics_def pilot_gate_def b0_gate_def) blast
  moreover have "\<exists>cs. human_checks pilot_gate 256 \<lparr>b0_wins = 256, b0_losses = 0, b0_ties = 0, b0_both_bad = 0\<rparr> = Inr cs"
    by (simp add: human_checks_def rational_check_def raise_if_def Let_def)
  moreover have "\<exists>c. b0_delta_check ''top1-delta'' (256, 256) (256, 256) (b0_minimum_top1_delta_basis_points pilot_gate) = Inr c"
    "\<exists>c. b0_delta_check ''top10-delta'' (256, 256) (256, 256) (b0_minimum_top10_delta_basis_points pilot_gate) = Inr c"
    by (simp_all add: b0_delta_check_def rational_check_def raise_if_def)
  moreover have "\<exists>cs. mapE (b0_category_check pilot_gate pilot_side pilot_side) (sort (keys (b0_categories pilot_gate))) = Inr cs"
    by (rule mapE_defined) (auto simp: b0_category_check_def pilot_gate_def b0_gate_def pilot_side_def EXPECTED_CATEGORIES_def
      get_pair_def b0_delta_check_def rational_check_def raise_if_def)
  moreover have "get_pair (be_categories pilot_side) ''protected'' = Inr (16, 16)"
    by (simp add: pilot_side_def EXPECTED_CATEGORIES_def)
  moreover have "be_cases pilot_side = 256" "be_top1 pilot_side = 256" "be_top10 pilot_side = 256"
    by (simp_all add: pilot_side_def EXPECTED_TOTAL_CASES_def)
  moreover have "item as_object pilot_metrics ''quality'' ''metrics'' = Inr [(''hazkey'', pilot_backend), (''mozc'', pilot_backend)]"
    "item as_positive_int pilot_metrics ''cases'' ''metrics'' = Inr 256"
    "exact_fields pilot_metrics b0_metrics_fields ''metrics'' = Inr ()"
    "exact_fields [(''hazkey'', pilot_backend), (''mozc'', pilot_backend)] [''hazkey'', ''mozc''] ''metrics.quality'' = Inr ()"
    by (simp_all add: pilot_metrics_def EXPECTED_TOTAL_CASES_def b0_metrics_fields_def)
  ultimately show ?thesis
    unfolding evaluate_b0_metrics_def
    by (elim exE) (simp add: pilot_human pilot_sides del: item_iff exact_fields_iff)
qed

lemma pilot_read:
  "\<exists>latency pss. b0_reading (\<lambda>s. s) pilot_gate pilot_metrics 256 \<lparr>b0_wins = 256, b0_losses = 0, b0_ties = 0, b0_both_bad = 0\<rparr>
     pilot_side pilot_side latency pss \<and> check_passed latency \<and> check_passed pss"
proof -
  have "item as_object pilot_metrics ''quality'' ''metrics'' = Inr [(''hazkey'', pilot_backend), (''mozc'', pilot_backend)]"
    "item as_positive_int pilot_metrics ''cases'' ''metrics'' = Inr 256"
    by (simp_all add: pilot_metrics_def EXPECTED_TOTAL_CASES_def)
  then show ?thesis using pilot_latency pilot_pss pilot_human pilot_sides unfolding b0_reading_def by blast
qed
section \<open>Properties\<close>


text \<open>C38: on any metrics the pilot gate raises, passes or fails: it is never inconclusive.\<close>

theorem pilot_gate_decides:
  "{r. bindE (evaluate_b0_metrics ascii_form g metrics) derive_pilot_result = Inr r} \<subseteq> {''pilot_pass'', ''pilot_fail''}"
  by (auto simp: evaluate_b0_result split: if_splits)

text \<open>C39: the pilot gate passes exactly the metrics that evaluate, whose rates over the rationals keep within every
  threshold, whose latency and memory checks pass, and whose stability suites all pass.\<close>

theorem pilot_passes_exactly:
  "bindE (evaluate_b0_metrics ascii_form g metrics) derive_pilot_result = Inr ''pilot_pass'' \<longleftrightarrow>
     (\<exists>checks cases human hazkey mozc latency pss stability.
        evaluate_b0_metrics ascii_form g metrics = Inr checks \<and>
        b0_reading ascii_form g metrics cases human hazkey mozc latency pss \<and>
        pilot_ok g cases human hazkey mozc \<and> check_passed latency \<and> check_passed pss \<and>
        map_of metrics ''stability'' = Some (JObj stability) \<and>
        (\<forall>i \<in> set (b0_required_stability_ids g). map_of stability i = Some (JBool True)))"
proof (cases "evaluate_b0_metrics ascii_form g metrics")
  case (Inl e)
  then show ?thesis by simp
next
  case (Inr checks)
  from evaluate_b0_metrics_checks [OF Inr] obtain cases human hazkey mozc latency pss where
    r: "b0_reading ascii_form g metrics cases human hazkey mozc latency pss"
    and c: "(\<forall>c \<in> set checks. check_passed c) \<longleftrightarrow>
       pilot_ok g cases human hazkey mozc \<and> check_passed latency \<and> check_passed pss \<and>
       (\<exists>d. map_of metrics ''stability'' = Some (JObj d) \<and>
          (\<forall>i \<in> set (b0_required_stability_ids g). map_of d i = Some (JBool True)))" by blast
  have same: "cases' = cases \<and> human' = human \<and> hazkey' = hazkey \<and> mozc' = mozc \<and> latency' = latency \<and> pss' = pss"
    if "b0_reading ascii_form g metrics cases' human' hazkey' mozc' latency' pss'"
    for cases' human' hazkey' mozc' latency' pss'
  proof -
    have n: "cases' = cases" using r that unfolding b0_reading_def by (metis sum.inject(2))
    show ?thesis using r that unfolding b0_reading_def n by (metis sum.inject(2))
  qed
  have "bindE (evaluate_b0_metrics ascii_form g metrics) derive_pilot_result = Inr ''pilot_pass'' \<longleftrightarrow>
      (\<forall>c \<in> set checks. check_passed c)"
    unfolding Inr bindE.simps evaluate_b0_result [OF Inr] by simp
  then show ?thesis unfolding c using r Inr same by metis
qed

theorem pilot_passes_exactly_witness:
  "bindE (evaluate_b0_metrics (\<lambda>s. s) pilot_gate pilot_metrics) derive_pilot_result = Inr ''pilot_pass''"
proof -
  have "map_of pilot_metrics ''stability'' = Some (JObj [(''idle'', JBool True)])" "b0_required_stability_ids pilot_gate = [''idle'']"
    by (simp_all add: pilot_metrics_def pilot_gate_def b0_gate_def)
  moreover note pilot_read pilot_evaluates pilot_thresholds
  ultimately show ?thesis
    unfolding pilot_passes_exactly [of "\<lambda>s. s" pilot_gate pilot_metrics] by fastforce
qed

text \<open>C40: on latencies with at most 24 digits the rounding of decimal products does not matter: the check passes
  exactly when the quotient of the exact values is within the limit.\<close>

theorem latency_ratio_is_exact:
  assumes "decimal_normal mc me" "decimal_normal hc he" "0 < limit" "limit \<le> 10000"
    and "0 \<le> exact_decimal mn mc me" "0 < exact_decimal hn hc he"
  shows "\<exists>c. ratio_check_decimal i (Dec mn mc me) (Dec hn hc he) limit = Inr c \<and>
    (check_passed c \<longleftrightarrow> exact_decimal mn mc me / exact_decimal hn hc he \<le> of_int limit / 10000)"
proof -
  obtain c where c: "ratio_check_decimal i (Dec mn mc me) (Dec hn hc he) limit = Inr c"
    using assms by (auto simp: ratio_check_decimal_def decimal_times_exact raise_if_def)
  have "check_passed c \<longleftrightarrow> exact_decimal mn mc me * 10000 \<le> exact_decimal hn hc he * of_int limit"
    by (rule ratio_check_decimal_exact [OF assms(1-4) c])
  also have "\<dots> \<longleftrightarrow> exact_decimal mn mc me / exact_decimal hn hc he \<le> of_int limit / 10000"
    using assms(6) by (simp add: divide_simps mult.commute)
  finally show ?thesis using c by blast
qed

lemma latency_ratio_is_exact_witness:
  "\<exists>c. ratio_check_decimal ''warm'' (Dec False 15 (- 1)) (Dec False 3 0) 5000 = Inr c \<and>
    (check_passed c \<longleftrightarrow> exact_decimal False 15 (- 1) / exact_decimal False 3 0 \<le> of_int 5000 / 10000)"
  by (rule latency_ratio_is_exact) (simp_all add: decimal_normal_def E_TINY_def E_TOP_def exact_decimal_def)

end
