(* ===== verification/Blind_Review.thy ===== *)
theory Blind_Review
  imports Probe_Runs Corpus_Reader Sha256
begin

text \<open>
  \<open>blind_conversion_ab.py\<close>, the \<open>prepare\<close> command: two probe runs and their corpus become a review
  file that shows two anonymous sides per case, and the key that says which backend was on which
  side.  The placement is drawn by HMAC-SHA256 under the seed.  Publishing the files is I/O and left out.
\<close>

definition REVIEW_SCHEMA :: string where "REVIEW_SCHEMA = ''hazkey.blind-conversion-ab-review.v1''"
definition KEY_SCHEMA :: string where "KEY_SCHEMA = ''hazkey.blind-conversion-ab-key.v1''"
definition PACKET_SCHEMA :: string where "PACKET_SCHEMA = ''hazkey.blind-conversion-ab-packet.v1''"
definition REVIEW_NAME :: string where "REVIEW_NAME = ''review.jsonl''"
definition KEY_NAME :: string where "KEY_NAME = ''unblind-key.json''"
definition MANIFEST_NAME :: string where "MANIFEST_NAME = ''manifest.json''"

section \<open>Keyed digests\<close>

definition word_bytes :: "w32 \<Rightarrow> nat list" where
  "word_bytes w = map (\<lambda>i. unat w div 256 ^ i mod 256) [3, 2, 1, 0]"

definition sha256_digest :: "nat list \<Rightarrow> nat list" where
  "sha256_digest s = concat (map word_bytes (sha_words s))"

text \<open>\<open>hmac.new(key, message, hashlib.sha256).digest()\<close>, with blocks of 64 bytes.\<close>

definition hmac_sha256 :: "nat list \<Rightarrow> nat list \<Rightarrow> nat list" where
  "hmac_sha256 key message =
     (let short = (if 64 < length key then sha256_digest key else key);
          block = short @ replicate (64 - length short) 0
      in sha256_digest (map (\<lambda>b. b XOR 0x5C) block @
           sha256_digest (map (\<lambda>b. b XOR 0x36) block @ message)))"

definition domain_digest :: "nat list \<Rightarrow> string \<Rightarrow> string list \<Rightarrow> nat list res" where
  "domain_digest seed domain parts =
     bindE (canonical_json (JArr (map JStr (domain # parts)))) (\<lambda>message.
     Inr (hmac_sha256 seed (map of_char message)))"

text \<open>\<open>bytes.fromhex\<close> on pairs of lower-case digits.\<close>

fun unhex :: "string \<Rightarrow> nat list" where
  "unhex (a # b # s) = (16 * the (hex_value a) + the (hex_value b)) # unhex s"
| "unhex s = []"

definition bytes_hex :: "nat list \<Rightarrow> string" where
  "bytes_hex s = concat (map (\<lambda>b. [hex_char (b div 16), hex_char (b mod 16)]) s)"

text \<open>\<open>sorted(xs, key=...)\<close>: all keys are computed first, and equal keys keep their order.\<close>

definition sorted_by :: "('a \<Rightarrow> nat list res) \<Rightarrow> 'a list \<Rightarrow> 'a list res" where
  "sorted_by f xs = bindE (mapE f xs) (\<lambda>ks. Inr (map snd (sort_key fst (zip ks xs))))"

section \<open>The runs\<close>

text \<open>A run of the third schema names its converter; that schema is checked before the name is used.\<close>

definition run_label :: "ProbeRun \<Rightarrow> string" where
  "run_label run = (case pr_converter_backend (run_first run) of None \<Rightarrow> [] | Some l \<Rightarrow> l)"

definition backend_metadata :: "ProbeRun \<Rightarrow> string \<Rightarrow> json" where
  "backend_metadata run data =
     (let first = run_first run in JObj
       [(''converter_backend'', JStr (run_label run)), (''probe_backend'', JStr (pr_backend first)),
        (''backend_version'', JStr (pr_backend_version first)),
        (''measurement'', JObj [(''warmups'', JInt (pr_warmups first)), (''iterations'', JInt (pr_iterations first))]),
        (''resource'', resource_object (pr_resource first)),
        (''run_sha256'', JStr (sha256_bytes data))])"

definition contract_case :: "string \<Rightarrow> string \<Rightarrow> string list \<Rightarrow> string \<Rightarrow> json" where
  "contract_case i reading expected category = JObj
     [(''id'', JStr i), (''reading'', JStr reading), (''expected'', str_arr expected), (''category'', JStr category)]"

definition case_contract :: "CorpusRow list \<Rightarrow> json" where
  "case_contract corpus =
     JArr (map (\<lambda>r. contract_case (row_id r) (row_reading r) (alternatives (row_expected r)) (row_category r))
             (sort_key row_id corpus))"

definition same_corpus_case :: "ProbeRun \<Rightarrow> CorpusRow \<Rightarrow> unit res" where
  "same_corpus_case run r =
     (case case_of run (row_id r) of
        None \<Rightarrow> Inl (KeyError (row_id r))
      | Some c \<Rightarrow>
          bindE (raise_if (pr_category c \<noteq> row_category r)
                   (ValueError (run_path run @ '': category for ''))) (\<lambda>_.
          raise_if (pr_reading c \<noteq> Some (row_reading r))
            (ValueError (run_path run @ '': reading for '' @ '' does not match corpus''))))"

definition run_covers_corpus :: "CorpusRow list \<Rightarrow> ProbeRun \<Rightarrow> unit res" where
  "run_covers_corpus corpus run =
     bindE (raise_if (pr_id ` set (run_cases run) \<noteq> row_id ` set corpus)
              (ValueError (run_path run @ '': case set does not match corpus; ''))) (\<lambda>_.
     eachE (same_corpus_case run) corpus)"

definition validate_runs :: "CorpusRow list \<Rightarrow> string \<Rightarrow> ProbeRun \<Rightarrow> ProbeRun \<Rightarrow> unit res" where
  "validate_runs corpus corpus_sha256 first second =
     (let a = run_first first; b = run_first second in
      bindE (eachE (\<lambda>run. raise_if (pr_schema (run_first run) \<noteq> INPUT_SCHEMA_V3)
                             (ValueError (run_path run @ '': blind A/B requires ''))) [first, second]) (\<lambda>_.
      bindE (raise_if (run_label first = run_label second)
               (ValueError ''probe runs must use two distinct converter_backend values'')) (\<lambda>_.
      bindE (raise_if (pr_source_ref a \<noteq> pr_source_ref b)
               (ValueError ''probe runs must have an identical source_ref'')) (\<lambda>_.
      bindE (require_same
               [(''backend_version'', pr_backend_version b = pr_backend_version a),
                (''warmups'', pr_warmups b = pr_warmups a), (''iterations'', pr_iterations b = pr_iterations a),
                (''top_k'', pr_top_k b = pr_top_k a), (''corpus'', pr_corpus b = pr_corpus a)]
               (\<lambda>field. ''probe runs must have an identical '' @ field)) (\<lambda>_.
      bindE (raise_if (pr_corpus a \<noteq> Some (corpus_sha256, int (length corpus)))
               (ValueError ''probe corpus provenance does not match the supplied corpus'')) (\<lambda>_.
      eachE (run_covers_corpus corpus) [first, second]))))))"

section \<open>Placement\<close>

definition group_id :: "(string \<times> string list) list \<Rightarrow> CorpusRow \<Rightarrow> (string \<times> string list) list" where
  "group_id groups r =
     dict_set (row_category r)
       ((case map_of groups (row_category r) of None \<Rightarrow> [] | Some ids \<Rightarrow> ids) @ [row_id r]) groups"

definition ids_by_category :: "CorpusRow list \<Rightarrow> (string \<times> string list) list" where
  "ids_by_category corpus = foldl group_id [] corpus"

definition target_count :: "nat \<Rightarrow> nat list \<Rightarrow> nat" where
  "target_count n owner = n div 2 + (if odd n \<and> odd (hd owner) then 1 else 0)"

text \<open>\<open>xs[:n]\<close>; a negative bound counts from the end.\<close>

definition slice_to :: "int \<Rightarrow> 'a list \<Rightarrow> 'a list" where
  "slice_to n xs = (if 0 \<le> n then take (nat n) xs else take (length xs - nat (- n)) xs)"

definition add_extra :: "(string \<times> nat) list \<Rightarrow> string \<Rightarrow> (string \<times> nat) list" where
  "add_extra counts category =
     dict_set category ((case map_of counts category of None \<Rightarrow> 0 | Some n \<Rightarrow> n) + 1) counts"

definition first_x_by_category ::
  "nat list \<Rightarrow> string \<Rightarrow> nat \<Rightarrow> (string \<times> string list) list \<Rightarrow> (string \<times> nat) list res" where
  "first_x_by_category seed corpus_sha256 target groups =
     (let halves = map (\<lambda>(category, ids). (category, length ids div 2)) groups;
          extras_needed = int target - int (sum_list (map snd halves))
      in bindE (sorted_by (\<lambda>category. domain_digest seed ''category-extra-v1'' [corpus_sha256, category])
                  (map fst (filter (\<lambda>(category, ids). odd (length ids)) groups))) (\<lambda>odd_categories.
         Inr (foldl add_extra halves (slice_to extras_needed odd_categories))))"

definition category_placement ::
  "nat list \<Rightarrow> string \<Rightarrow> (string \<times> nat) list \<Rightarrow> string \<times> string list \<Rightarrow> string list res" where
  "category_placement seed corpus_sha256 counts = (\<lambda>(category, ids).
     bindE (sorted_by (\<lambda>i. domain_digest seed ''placement-v1'' [corpus_sha256, category, i]) ids) (\<lambda>ordered.
     Inr (take (case map_of counts category of None \<Rightarrow> 0 | Some n \<Rightarrow> n) ordered)))"

definition first_on_x :: "nat list \<Rightarrow> string \<Rightarrow> CorpusRow list \<Rightarrow> string list res" where
  "first_on_x seed corpus_sha256 corpus =
     (let groups = ids_by_category corpus in
      bindE (domain_digest seed ''odd-owner-v1'' [corpus_sha256]) (\<lambda>owner.
      bindE (first_x_by_category seed corpus_sha256 (target_count (length corpus) owner) groups) (\<lambda>counts.
      bindE (mapE (category_placement seed corpus_sha256 counts) groups) (\<lambda>parts.
      Inr (concat parts)))))"

section \<open>The packet\<close>

record KeyCase =
  kc_case :: string
  kc_original_id :: string
  kc_reading :: string
  kc_category :: string
  kc_expected :: "string list"
  kc_x_backend :: string
  kc_y_backend :: string
  kc_record_sha256 :: string

definition key_case_json :: "KeyCase \<Rightarrow> json" where
  "key_case_json c = JObj
     [(''case'', JStr (kc_case c)), (''original_id'', JStr (kc_original_id c)),
      (''reading'', JStr (kc_reading c)), (''category'', JStr (kc_category c)),
      (''expected'', str_arr (kc_expected c)),
      (''x_backend'', JStr (kc_x_backend c)), (''y_backend'', JStr (kc_y_backend c)),
      (''review_record_sha256'', JStr (kc_record_sha256 c))]"

definition counted :: "string \<Rightarrow> (string \<times> int) list \<Rightarrow> (string \<times> int) list" where
  "counted label counts =
     dict_set label ((case map_of counts label of None \<Rightarrow> 0 | Some n \<Rightarrow> n) + 1) counts"

record Packing =
  pk_opaque :: "string list"
  pk_records :: "json list"
  pk_cases :: "KeyCase list"
  pk_x :: "(string \<times> int) list"
  pk_y :: "(string \<times> int) list"

definition side_candidates :: "ProbeRun \<Rightarrow> string \<Rightarrow> string list res" where
  "side_candidates run original_id =
     (case case_of run original_id of
        None \<Rightarrow> Inl (KeyError original_id)
      | Some c \<Rightarrow> candidate_texts [(''candidates'', str_arr (pr_candidates c))])"

definition review_base :: "string \<Rightarrow> CorpusRow \<Rightarrow> string list \<Rightarrow> string list \<Rightarrow> obj" where
  "review_base opaque_id r x y =
     [(''schema'', JStr REVIEW_SCHEMA), (''case'', JStr opaque_id), (''reading'', JStr (row_reading r)),
      (''category'', JStr (row_category r)), (''x'', str_arr x), (''y'', str_arr y)]"

definition pack_case ::
  "nat list \<Rightarrow> string \<Rightarrow> CorpusRow list \<Rightarrow> ProbeRun \<Rightarrow> ProbeRun \<Rightarrow> string list \<Rightarrow> Packing \<Rightarrow> string \<Rightarrow> Packing res" where
  "pack_case seed corpus_sha256 corpus first second on_x st original_id =
     bindE (domain_digest seed ''opaque-case-v1'' [corpus_sha256, original_id]) (\<lambda>handle.
     let opaque_id = ''blind-'' @ take 24 (bytes_hex handle);
         (x_run, y_run) = (if original_id \<in> set on_x then (first, second) else (second, first))
     in
     bindE (raise_if (opaque_id \<in> set (pk_opaque st)) (ValueError ''opaque case handle collision'')) (\<lambda>_.
     case find (\<lambda>r. row_id r = original_id) corpus of
       None \<Rightarrow> Inl (KeyError original_id)
     | Some r \<Rightarrow>
         bindE (side_candidates x_run original_id) (\<lambda>x.
         bindE (side_candidates y_run original_id) (\<lambda>y.
         let base = review_base opaque_id r x y in
         bindE (canonical_json (JObj base)) (\<lambda>text.
         let record_sha256 = sha256_bytes text in
         Inr \<lparr>pk_opaque = opaque_id # pk_opaque st,
              pk_records = pk_records st @ [JObj (base @ [(''integrity'', JStr record_sha256)])],
              pk_cases = pk_cases st @
                [\<lparr>kc_case = opaque_id, kc_original_id = original_id, kc_reading = row_reading r,
                  kc_category = row_category r, kc_expected = alternatives (row_expected r),
                  kc_x_backend = run_label x_run, kc_y_backend = run_label y_run,
                  kc_record_sha256 = record_sha256\<rparr>],
              pk_x = counted (run_label x_run) (pk_x st),
              pk_y = counted (run_label y_run) (pk_y st)\<rparr>)))))"

definition pack_cases ::
  "nat list \<Rightarrow> string \<Rightarrow> CorpusRow list \<Rightarrow> ProbeRun \<Rightarrow> ProbeRun \<Rightarrow> Packing res" where
  "pack_cases seed corpus_sha256 corpus first second =
     bindE (sorted_by (\<lambda>i. domain_digest seed ''review-order-v1'' [corpus_sha256, i]) (map row_id corpus)) (\<lambda>ordered_ids.
     bindE (first_on_x seed corpus_sha256 corpus) (\<lambda>on_x.
     let none = [(run_label first, 0), (run_label second, 0)] in
     foldE (pack_case seed corpus_sha256 corpus first second on_x)
       \<lparr>pk_opaque = [], pk_records = [], pk_cases = [], pk_x = none, pk_y = none\<rparr> ordered_ids))"

definition side_counts_json :: "(string \<times> int) list \<Rightarrow> json" where
  "side_counts_json counts = int_obj (sort_key fst counts)"

definition key_base ::
  "nat list \<Rightarrow> string \<Rightarrow> string \<Rightarrow> CorpusRow list \<Rightarrow> ProbeRun \<Rightarrow> string \<Rightarrow> ProbeRun \<Rightarrow> string \<Rightarrow> string \<Rightarrow> Packing \<Rightarrow> obj" where
  "key_base seed corpus_sha256 contract_sha256 corpus first first_bytes second second_bytes review_bytes packing =
     [(''schema'', JStr KEY_SCHEMA), (''review_schema'', JStr REVIEW_SCHEMA),
      (''seed_sha256'', JStr (sha256_bytes (map char_of seed))),
      (''source_ref'', JStr (pr_source_ref (run_first first))),
      (''top_k'', case pr_top_k (run_first first) of None \<Rightarrow> JNull | Some k \<Rightarrow> JInt k),
      (''corpus'', JObj
        [(''sha256'', JStr corpus_sha256), (''case_contract_sha256'', JStr contract_sha256),
         (''cases'', JInt (int (length corpus)))]),
      (''review_sha256'', JStr (sha256_bytes review_bytes)),
      (''backends'', JArr (map snd (sort_key fst
        [(run_label first, backend_metadata first first_bytes),
         (run_label second, backend_metadata second second_bytes)]))),
      (''placement'', JObj [(''x'', side_counts_json (pk_x packing)), (''y'', side_counts_json (pk_y packing))]),
      (''cases'', JArr (map key_case_json (pk_cases packing)))]"

definition valid_seed :: "string \<Rightarrow> bool" where
  "valid_seed seed \<longleftrightarrow> length seed = 64 \<and> list_all is_lower_hex seed"

text \<open>The paths only appear in messages; the files are given by their bytes.\<close>

definition build_review_and_key ::
  "string \<times> string \<Rightarrow> string \<times> string \<Rightarrow> string \<times> string \<Rightarrow> string \<Rightarrow> (string \<times> obj) res" where
  "build_review_and_key corpus_file first_file second_file seed =
     (let (corpus_path, corpus_bytes) = corpus_file; (first_path, first_bytes) = first_file;
          (second_path, second_bytes) = second_file
      in
      bindE (raise_if (\<not> valid_seed seed) (ValueError ''seed must be exactly 64 lowercase hex digits'')) (\<lambda>_.
      bindE (load_corpus_bytes corpus_bytes corpus_path) (\<lambda>corpus.
      bindE (load_run_bytes first_bytes first_path) (\<lambda>first.
      bindE (load_run_bytes second_bytes second_path) (\<lambda>second.
      let corpus_sha256 = sha256_bytes corpus_bytes; seed_bytes = unhex seed in
      bindE (validate_runs corpus corpus_sha256 first second) (\<lambda>_.
      bindE (canonical_json (case_contract corpus)) (\<lambda>contract.
      bindE (pack_cases seed_bytes corpus_sha256 corpus first second) (\<lambda>packing.
      bindE (mapE (\<lambda>r. bindE (canonical_json r) (\<lambda>line. Inr (line @ [CHR 0x0A]))) (pk_records packing)) (\<lambda>lines.
      let review_bytes = concat lines;
          base = key_base seed_bytes corpus_sha256 (sha256_bytes contract) corpus first first_bytes second
                   second_bytes review_bytes packing
      in
      bindE (canonical_json (JObj base)) (\<lambda>text.
      Inr (review_bytes, base @ [(''integrity'', JStr (sha256_bytes text))])))))))))))"

section \<open>The files\<close>

text \<open>\<open>json.dumps(..., indent=2, sort_keys=True)\<close>\<close>

definition indented :: "nat \<Rightarrow> string" where
  "indented depth = CHR 0x0A # replicate (2 * depth) (CHR '' '')"

definition pretty_items :: "char \<Rightarrow> char \<Rightarrow> nat \<Rightarrow> string list \<Rightarrow> string" where
  "pretty_items open_mark close_mark depth items =
     (if items = [] then [open_mark, close_mark]
      else open_mark # indented (Suc depth) @ hd items @
        concat (map (\<lambda>t. CHR '','' # indented (Suc depth) @ t) (tl items)) @ indented depth @ [close_mark])"

fun pretty :: "nat \<Rightarrow> json \<Rightarrow> string"
and pretty_list :: "nat \<Rightarrow> json list \<Rightarrow> string list"
and pretty_fields :: "nat \<Rightarrow> obj \<Rightarrow> (string \<times> string) list" where
  "pretty depth JNull = ''null''"
| "pretty depth (JBool b) = (if b then ''true'' else ''false'')"
| "pretty depth (JInt i) = int_text i"
| "pretty depth (JFloat f) = float_text f"
| "pretty depth (JStr s) = string_text s"
| "pretty depth (JArr vs) = pretty_items (CHR ''['') (CHR '']'') depth (pretty_list (Suc depth) vs)"
| "pretty depth (JObj d) =
     pretty_items (CHR ''{'') (CHR ''}'') depth
       (map (\<lambda>(k, t). string_text k @ '': '' @ t) (sort_key fst (pretty_fields (Suc depth) d)))"
| "pretty_list depth [] = []"
| "pretty_list depth (v # vs) = pretty depth v # pretty_list depth vs"
| "pretty_fields depth [] = []"
| "pretty_fields depth ((k, v) # d) = (k, pretty depth v) # pretty_fields depth d"

definition pretty_bytes :: "obj \<Rightarrow> string res" where
  "pretty_bytes d =
     (let text = pretty 0 (JObj d) @ [CHR 0x0A]
      in if utf8_ok text then Inr text else Inl (ValueError ''surrogates not allowed''))"

text \<open>The manifest and the three files that \<open>prepare\<close> publishes.\<close>

definition prepare ::
  "string \<times> string \<Rightarrow> string \<times> string \<Rightarrow> string \<times> string \<Rightarrow> string \<Rightarrow> (obj \<times> (string \<times> string) list) res" where
  "prepare corpus_file first_file second_file seed =
     bindE (build_review_and_key corpus_file first_file second_file seed) (\<lambda>(review_bytes, key).
     bindE (pretty_bytes key) (\<lambda>key_bytes.
     bindE (get_item key ''corpus'') (\<lambda>corpus.
     bindE (as_object corpus ''corpus'') (\<lambda>corpus_fields.
     bindE (get_item corpus_fields ''cases'') (\<lambda>cases_n.
     bindE (get_item key ''source_ref'') (\<lambda>source_ref.
     bindE (get_item key ''top_k'') (\<lambda>top_k.
     bindE (get_item key ''review_sha256'') (\<lambda>review_sha256.
     bindE (get_item key ''integrity'') (\<lambda>key_integrity.
     let base =
       [(''schema'', JStr PACKET_SCHEMA), (''cases'', cases_n), (''source_ref'', source_ref), (''top_k'', top_k),
        (''review'', JObj [(''name'', JStr REVIEW_NAME), (''sha256'', review_sha256)]),
        (''key'', JObj [(''name'', JStr KEY_NAME), (''sha256'', JStr (sha256_bytes key_bytes)),
                       (''integrity'', key_integrity)])]
     in
     bindE (canonical_json (JObj base)) (\<lambda>text.
     let manifest = base @ [(''integrity'', JStr (sha256_bytes text))] in
     bindE (pretty_bytes manifest) (\<lambda>manifest_bytes.
     Inr (manifest, [(REVIEW_NAME, review_bytes), (KEY_NAME, key_bytes), (MANIFEST_NAME, manifest_bytes)]))))))))))))"

end
