(* ===== verification/Blind_Key.thy ===== *)
theory Blind_Key
  imports Blind_Review
begin

text \<open>
  \<open>blind_conversion_ab.py\<close>, what the \<open>score\<close> command reads: the unblinding key, the review file, the
  packet that binds both, the seed file and the judgments, each with its checks.
\<close>

definition JUDGMENT_SCHEMA :: string where "JUDGMENT_SCHEMA = ''hazkey.blind-conversion-ab-judgment.v1''"

definition ALLOWED_JUDGMENTS :: "string list" where
  "ALLOWED_JUDGMENTS = [''both_bad'', ''tie'', ''x'', ''y'']"

section \<open>Values\<close>

definition blind_sha256 :: "json \<Rightarrow> string \<Rightarrow> string res" where
  "blind_sha256 v ctx =
     (case v of
        JStr s \<Rightarrow> (if sha256_pattern s then Inr s
                  else Inl (ValueError (ctx @ '' must be a sha256:<64 lowercase hex> digest'')))
      | _ \<Rightarrow> Inl (ValueError (ctx @ '' must be a sha256:<64 lowercase hex> digest'')))"

definition load_object :: "string \<Rightarrow> string \<Rightarrow> obj res" where
  "load_object data ctx = bindE (load_json_bytes data ctx) (\<lambda>payload. as_object payload ctx)"

definition jsonl_row :: "string \<Rightarrow> nat \<Rightarrow> codes \<Rightarrow> (string \<times> obj) res" where
  "jsonl_row ctx line_number line =
     (let row_ctx = ctx @ '':'' @ dec line_number in
      bindE (raise_if (list_all space_code line) (ValueError (row_ctx @ '': blank lines are not allowed''))) (\<lambda>_.
      case parse_document (text_of line) of
        POk payload _ \<Rightarrow> bindE (as_object payload row_ctx) (\<lambda>d. Inr (row_ctx, d))
      | PDup \<Rightarrow> Inl (ValueError ''duplicate JSON key'')
      | _ \<Rightarrow> Inl (ValueError (row_ctx @ '': invalid JSON: ''))))"

definition load_jsonl_bytes :: "string \<Rightarrow> string \<Rightarrow> (string \<times> obj) list res" where
  "load_jsonl_bytes data ctx =
     (case utf8_decode data of
        None \<Rightarrow> Inl (ValueError (ctx @ '': file is not valid UTF-8''))
      | Some contents \<Rightarrow>
          bindE (mapiE (jsonl_row ctx) 1 (splitlines contents)) (\<lambda>rows.
          bindE (raise_if (rows = []) (ValueError (ctx @ '': file has no records''))) (\<lambda>_.
          Inr rows)))"

section \<open>Files of one owner\<close>

text \<open>What \<open>lstat\<close> and \<open>fstat\<close> show; the mode is its permission bits.\<close>

record OwnerStat =
  ps_directory :: bool
  ps_regular :: bool
  ps_link :: bool
  ps_uid :: nat
  ps_mode :: nat

definition private_mode :: "nat \<Rightarrow> OwnerStat \<Rightarrow> bool" where
  "private_mode uid s \<longleftrightarrow> ps_uid s = uid \<and> ps_mode s mod 64 = 0"

text \<open>\<open>None\<close> is an \<open>open\<close> that fails, as it does on a symbolic link.\<close>

definition read_owner_only_regular :: "nat \<Rightarrow> (OwnerStat \<times> string) option \<Rightarrow> string \<Rightarrow> string res" where
  "read_owner_only_regular uid opened label =
     (let failure = ValueError (label @ '' must be owner-only, regular, and non-symlink'') in
      case opened of
        None \<Rightarrow> Inl failure
      | Some (s, data) \<Rightarrow> if ps_regular s \<and> private_mode uid s then Inr data else Inl failure)"

definition load_seed_file :: "nat \<Rightarrow> (OwnerStat \<times> string) option \<Rightarrow> string \<Rightarrow> string res" where
  "load_seed_file uid opened path =
     bindE (read_owner_only_regular uid opened (path @ '': seed file'')) (\<lambda>data.
     bindE (raise_if (list_ex (\<lambda>c. 128 \<le> code c) data) (ValueError (path @ '': seed must be ASCII''))) (\<lambda>_.
     case splitlines (ascii data) of
       [line] \<Rightarrow>
         bindE (raise_if (\<not> valid_seed (text_of line))
                  (ValueError (path @ '': seed must be exactly 64 lowercase hex digits''))) (\<lambda>_.
         Inr (text_of line))
     | _ \<Rightarrow> Inl (ValueError (path @ '': seed must be exactly 64 lowercase hex digits''))))"

section \<open>The backends of a key\<close>

definition validate_measurement :: "obj \<Rightarrow> string \<Rightarrow> unit res" where
  "validate_measurement backend ctx =
     (let mctx = dot ctx ''measurement'' in
      bindE (item as_object backend ''measurement'' ctx) (\<lambda>measurement.
      bindE (exact_fields measurement [''warmups'', ''iterations''] mctx) (\<lambda>_.
      bindE (item probe_count measurement ''warmups'' mctx) (\<lambda>_.
      bindE (item probe_count measurement ''iterations'' mctx) (\<lambda>iterations.
      raise_if (iterations = 0) (ValueError (mctx @ ''.iterations must be positive'')))))))"

definition validate_resource :: "obj \<Rightarrow> string \<Rightarrow> string \<Rightarrow> unit res" where
  "validate_resource backend label ctx =
     (let rctx = dot ctx ''resource'' in
      bindE (item as_object backend ''resource'' ctx) (\<lambda>resource.
      bindE (exact_fields resource [''kind'', ''path'', ''fingerprint''] rctx) (\<lambda>_.
      bindE (item as_string resource ''kind'' rctx) (\<lambda>kind.
      bindE (item as_string resource ''path'' rctx) (\<lambda>_.
      bindE (item as_string resource ''fingerprint'' rctx) (\<lambda>_.
      raise_if (map_of V2_RESOURCE_KIND_BY_CONVERTER label \<noteq> Some kind)
        (ValueError (ctx @ ''.resource.kind does not match converter_backend''))))))))"

definition validate_backend :: "string \<Rightarrow> nat \<Rightarrow> json \<Rightarrow> (string \<times> obj) res" where
  "validate_backend path index raw_backend =
     (let ctx = at_index (path @ ''.backends'') index in
      bindE (as_object raw_backend ctx) (\<lambda>backend.
      bindE (exact_fields backend
               [''converter_backend'', ''probe_backend'', ''backend_version'', ''measurement'', ''resource'', ''run_sha256'']
               ctx) (\<lambda>_.
      bindE (item as_string backend ''converter_backend'' ctx) (\<lambda>label.
      bindE (item as_string backend ''probe_backend'' ctx) (\<lambda>_.
      bindE (item as_string backend ''backend_version'' ctx) (\<lambda>_.
      bindE (item blind_sha256 backend ''run_sha256'' ctx) (\<lambda>_.
      bindE (validate_measurement backend ctx) (\<lambda>_.
      bindE (validate_resource backend label ctx) (\<lambda>_.
      Inr (label, backend))))))))))"

definition same_in_all :: "string \<Rightarrow> string \<Rightarrow> obj list \<Rightarrow> unit res" where
  "same_in_all path field backends =
     bindE (mapE (\<lambda>b. get_item b field) backends) (\<lambda>values.
     raise_if (list_ex (\<lambda>v. \<not> pyeq v (hd values)) (tl values))
       (ValueError (path @ ''.backends must have an identical '' @ field)))"

definition validate_backends :: "obj \<Rightarrow> string \<Rightarrow> string list res" where
  "validate_backends key path =
     bindE (item as_array key ''backends'' path) (\<lambda>raw_backends.
     bindE (raise_if (length raw_backends \<noteq> 2)
              (ValueError (path @ ''.backends must contain exactly two backends''))) (\<lambda>_.
     bindE (mapiE (validate_backend path) 0 raw_backends) (\<lambda>backends.
     let labels = map fst backends in
     bindE (raise_if (card (set labels) \<noteq> 2)
              (ValueError (path @ ''.backends converter_backend values must be unique''))) (\<lambda>_.
     bindE (raise_if (set labels \<noteq> {''hazkey'', ''mozc''})
              (ValueError (path @ ''.backends must contain hazkey and mozc''))) (\<lambda>_.
     bindE (raise_if (labels \<noteq> sort labels)
              (ValueError (path @ ''.backends must be sorted by converter_backend''))) (\<lambda>_.
     bindE (same_in_all path ''backend_version'' (map snd backends)) (\<lambda>_.
     bindE (same_in_all path ''measurement'' (map snd backends)) (\<lambda>_.
     Inr labels))))))))"

section \<open>The cases of a key\<close>

record KeyScan =
  ks_cases :: "KeyCase list"
  ks_x :: "(string \<times> int) list"
  ks_y :: "(string \<times> int) list"
  ks_categories :: "(string \<times> (string \<times> int) list) list"

definition zero_counts :: "string list \<Rightarrow> (string \<times> int) list" where
  "zero_counts labels = map (\<lambda>l. (l, 0)) labels"

definition parse_key_case :: "string \<Rightarrow> string list \<Rightarrow> KeyCase list \<Rightarrow> nat \<Rightarrow> json \<Rightarrow> KeyCase res" where
  "parse_key_case path labels seen index raw_case =
     (let ctx = at_index (path @ ''.cases'') index in
      bindE (as_object raw_case ctx) (\<lambda>c.
      bindE (exact_fields c [''case'', ''original_id'', ''reading'', ''category'', ''expected'', ''x_backend'',
               ''y_backend'', ''review_record_sha256''] ctx) (\<lambda>_.
      bindE (item as_string c ''case'' ctx) (\<lambda>opaque_id.
      bindE (item as_string c ''original_id'' ctx) (\<lambda>original_id.
      bindE (raise_if (opaque_id \<in> kc_case ` set seen) (ValueError (path @ '': duplicate opaque case ''))) (\<lambda>_.
      bindE (raise_if (original_id \<in> kc_original_id ` set seen)
               (ValueError (path @ '': duplicate original id ''))) (\<lambda>_.
      bindE (item as_string c ''reading'' ctx) (\<lambda>reading.
      bindE (item as_string c ''category'' ctx) (\<lambda>category.
      bindE (item as_array c ''expected'' ctx) (\<lambda>expected.
      bindE (raise_if (expected = []) (ValueError (ctx @ ''.expected must not be empty''))) (\<lambda>_.
      bindE (mapiE (\<lambda>i v. as_string v (at_index (dot ctx ''expected'') i)) 0 expected) (\<lambda>alternatives.
      bindE (item as_string c ''x_backend'' ctx) (\<lambda>x_backend.
      bindE (item as_string c ''y_backend'' ctx) (\<lambda>y_backend.
      bindE (raise_if ({x_backend, y_backend} \<noteq> set labels)
               (ValueError (ctx @ '': x/y backends do not match key backends''))) (\<lambda>_.
      bindE (item blind_sha256 c ''review_record_sha256'' ctx) (\<lambda>record_sha256.
      Inr \<lparr>kc_case = opaque_id, kc_original_id = original_id, kc_reading = reading, kc_category = category,
           kc_expected = alternatives, kc_x_backend = x_backend, kc_y_backend = y_backend,
           kc_record_sha256 = record_sha256\<rparr>))))))))))))))))"

definition scan_key_case :: "string \<Rightarrow> string list \<Rightarrow> KeyScan \<Rightarrow> nat \<times> json \<Rightarrow> KeyScan res" where
  "scan_key_case path labels st = (\<lambda>(index, raw_case).
     bindE (parse_key_case path labels (ks_cases st) index raw_case) (\<lambda>c.
     Inr \<lparr>ks_cases = ks_cases st @ [c],
          ks_x = counted (kc_x_backend c) (ks_x st),
          ks_y = counted (kc_y_backend c) (ks_y st),
          ks_categories = dict_set (kc_category c)
            (counted (kc_x_backend c)
              (case map_of (ks_categories st) (kc_category c) of
                 None \<Rightarrow> zero_counts labels | Some counts \<Rightarrow> counts)) (ks_categories st)\<rparr>))"

definition scan_key_cases :: "string \<Rightarrow> string list \<Rightarrow> json list \<Rightarrow> KeyScan res" where
  "scan_key_cases path labels raw_cases =
     foldE (scan_key_case path labels)
       \<lparr>ks_cases = [], ks_x = zero_counts labels, ks_y = zero_counts labels, ks_categories = []\<rparr>
       (zip [0..<length raw_cases] raw_cases)"

definition count_in :: "(string \<times> int) list \<Rightarrow> string \<Rightarrow> int" where
  "count_in counts label = (case map_of counts label of None \<Rightarrow> 0 | Some n \<Rightarrow> n)"

definition validate_side :: "string \<Rightarrow> string list \<Rightarrow> obj \<Rightarrow> string \<times> (string \<times> int) list \<Rightarrow> unit res" where
  "validate_side path labels placement = (\<lambda>(side, counts).
     let ctx = dot (dot path ''placement'') side in
     bindE (item as_object placement side (dot path ''placement'')) (\<lambda>raw_counts.
     bindE (exact_fields raw_counts labels ctx) (\<lambda>_.
     bindE (mapE (\<lambda>label. item probe_count raw_counts label ctx) labels) (\<lambda>validated.
     raise_if (validated \<noteq> map (count_in counts) labels)
       (ValueError (ctx @ '' does not match case mappings''))))))"

text \<open>The two labels of a key are its first and second backend.\<close>

definition unbalanced :: "string list \<Rightarrow> (string \<times> int) list \<Rightarrow> bool" where
  "unbalanced labels counts \<longleftrightarrow> 1 < \<bar>count_in counts (labels ! 0) - count_in counts (labels ! 1)\<bar>"

definition validate_placement :: "obj \<Rightarrow> string \<Rightarrow> string list \<Rightarrow> KeyScan \<Rightarrow> unit res" where
  "validate_placement key path labels scan =
     bindE (item as_object key ''placement'' path) (\<lambda>placement.
     bindE (exact_fields placement [''x'', ''y''] (dot path ''placement'')) (\<lambda>_.
     bindE (eachE (validate_side path labels placement) [(''x'', ks_x scan), (''y'', ks_y scan)]) (\<lambda>_.
     bindE (raise_if (unbalanced labels (ks_x scan)) (ValueError (path @ '': x/y placement is unbalanced''))) (\<lambda>_.
     eachE (\<lambda>(category, counts). raise_if (unbalanced labels counts)
              (ValueError (path @ '': x/y placement for category '' @ '' is unbalanced''))) (ks_categories scan)))))"

section \<open>The key\<close>

record BlindKey =
  bk_doc :: obj
  bk_source_ref :: string
  bk_top_k :: int
  bk_review_sha256 :: string
  bk_integrity :: string
  bk_case_count :: int
  bk_labels :: "string list"
  bk_cases :: "KeyCase list"

definition key_fields :: "string list" where
  "key_fields = [''schema'', ''review_schema'', ''seed_sha256'', ''source_ref'', ''top_k'', ''corpus'',
     ''review_sha256'', ''backends'', ''placement'', ''cases'', ''integrity'']"

definition without_integrity :: "obj \<Rightarrow> obj" where
  "without_integrity d = filter (\<lambda>kv. fst kv \<noteq> ''integrity'') d"

definition check_integrity :: "obj \<Rightarrow> string \<Rightarrow> string \<Rightarrow> string res" where
  "check_integrity d ctx message =
     bindE (item blind_sha256 d ''integrity'' ctx) (\<lambda>integrity.
     bindE (canonical_json (JObj (without_integrity d))) (\<lambda>text.
     bindE (raise_if (integrity \<noteq> sha256_bytes text) (ValueError (ctx @ message))) (\<lambda>_.
     Inr integrity)))"

definition validate_top_k :: "obj \<Rightarrow> string \<Rightarrow> int res" where
  "validate_top_k d ctx =
     bindE (item probe_count d ''top_k'' ctx) (\<lambda>top_k.
     bindE (raise_if (\<not> (1 \<le> top_k \<and> top_k \<le> 10)) (ValueError (ctx @ ''.top_k must be between 1 and 10''))) (\<lambda>_.
     Inr top_k))"

definition validate_key_corpus :: "obj \<Rightarrow> string \<Rightarrow> (string \<times> int) res" where
  "validate_key_corpus key path =
     (let ctx = dot path ''corpus'' in
      bindE (item as_object key ''corpus'' path) (\<lambda>corpus.
      bindE (exact_fields corpus [''sha256'', ''case_contract_sha256'', ''cases''] ctx) (\<lambda>_.
      bindE (item blind_sha256 corpus ''sha256'' ctx) (\<lambda>_.
      bindE (item blind_sha256 corpus ''case_contract_sha256'' ctx) (\<lambda>contract_sha256.
      bindE (item probe_count corpus ''cases'' ctx) (\<lambda>case_count.
      bindE (raise_if (case_count = 0) (ValueError (ctx @ ''.cases must be positive''))) (\<lambda>_.
      Inr (contract_sha256, case_count))))))))"

definition key_contract :: "KeyCase list \<Rightarrow> json" where
  "key_contract cases =
     JArr (map (\<lambda>c. contract_case (kc_original_id c) (kc_reading c) (kc_expected c) (kc_category c))
             (sort_key kc_original_id cases))"

definition check_key :: "obj \<Rightarrow> string \<Rightarrow> BlindKey res" where
  "check_key key path =
     bindE (exact_fields key key_fields path) (\<lambda>_.
     bindE (get_item key ''schema'') (\<lambda>schema.
     bindE (get_item key ''review_schema'') (\<lambda>review_schema.
     bindE (raise_if (\<not> pyeq schema (JStr KEY_SCHEMA) \<or> \<not> pyeq review_schema (JStr REVIEW_SCHEMA))
              (ValueError (path @ '': unsupported key schema''))) (\<lambda>_.
     bindE (item blind_sha256 key ''seed_sha256'' path) (\<lambda>_.
     bindE (item blind_sha256 key ''review_sha256'' path) (\<lambda>review_sha256.
     bindE (item as_string key ''source_ref'' path) (\<lambda>source_ref.
     bindE (validate_top_k key path) (\<lambda>top_k.
     bindE (check_integrity key path '': key integrity mismatch'') (\<lambda>integrity.
     bindE (validate_key_corpus key path) (\<lambda>(contract_sha256, case_count).
     bindE (validate_backends key path) (\<lambda>labels.
     bindE (item as_array key ''cases'' path) (\<lambda>raw_cases.
     bindE (raise_if (int (length raw_cases) \<noteq> case_count)
              (ValueError (path @ ''.cases length does not match corpus.cases''))) (\<lambda>_.
     bindE (scan_key_cases path labels raw_cases) (\<lambda>scan.
     bindE (canonical_json (key_contract (ks_cases scan))) (\<lambda>contract.
     bindE (raise_if (contract_sha256 \<noteq> sha256_bytes contract)
              (ValueError (path @ '': corpus case contract hash mismatch''))) (\<lambda>_.
     bindE (validate_placement key path labels scan) (\<lambda>_.
     Inr \<lparr>bk_doc = key, bk_source_ref = source_ref, bk_top_k = top_k, bk_review_sha256 = review_sha256,
          bk_integrity = integrity, bk_case_count = case_count, bk_labels = labels,
          bk_cases = ks_cases scan\<rparr>)))))))))))))))))"

definition validate_key :: "string \<Rightarrow> string \<Rightarrow> BlindKey res" where
  "validate_key data path = bindE (load_object data path) (\<lambda>key. check_key key path)"

section \<open>The review\<close>

record ReviewCase =
  rv_case :: string
  rv_x :: "json list"
  rv_y :: "json list"

definition review_side :: "int \<Rightarrow> obj \<Rightarrow> string \<Rightarrow> string \<Rightarrow> json list res" where
  "review_side top_k d side ctx =
     bindE (get_item d side) (\<lambda>raw.
     bindE (candidate_texts [(''candidates'', raw)]) (\<lambda>candidates.
     bindE (raise_if (top_k < int (length candidates)) (ValueError (dot ctx side @ '' exceeds top_k ''))) (\<lambda>_.
     bindE (mapiE (\<lambda>i c. as_string (JStr c) (at_index (dot ctx side) i)) 0 candidates) (\<lambda>_.
     as_array raw ctx))))"

definition load_review_record :: "BlindKey \<Rightarrow> ReviewCase list \<Rightarrow> string \<times> obj \<Rightarrow> ReviewCase list res" where
  "load_review_record key review = (\<lambda>(ctx, d).
     bindE (exact_fields d [''schema'', ''case'', ''reading'', ''category'', ''x'', ''y'', ''integrity''] ctx) (\<lambda>_.
     bindE (get_item d ''schema'') (\<lambda>schema.
     bindE (raise_if (\<not> pyeq schema (JStr REVIEW_SCHEMA)) (ValueError (ctx @ ''.schema must be ''))) (\<lambda>_.
     bindE (item as_string d ''case'' ctx) (\<lambda>opaque_id.
     bindE (raise_if (opaque_id \<in> rv_case ` set review) (ValueError (ctx @ '': duplicate case ''))) (\<lambda>_.
     bindE (item as_string d ''reading'' ctx) (\<lambda>reading.
     bindE (item as_string d ''category'' ctx) (\<lambda>category.
     bindE (review_side (bk_top_k key) d ''x'' ctx) (\<lambda>x.
     bindE (review_side (bk_top_k key) d ''y'' ctx) (\<lambda>y.
     bindE (check_integrity d ctx '': record integrity mismatch'') (\<lambda>integrity.
     case find (\<lambda>c. kc_case c = opaque_id) (bk_cases key) of
       None \<Rightarrow> Inl (ValueError (ctx @ '': unknown case ''))
     | Some key_case \<Rightarrow>
         bindE (raise_if (integrity \<noteq> kc_record_sha256 key_case)
                  (ValueError (ctx @ '': record hash does not match key''))) (\<lambda>_.
         bindE (raise_if (reading \<noteq> kc_reading key_case) (ValueError (ctx @ ''.reading does not match key''))) (\<lambda>_.
         bindE (raise_if (category \<noteq> kc_category key_case) (ValueError (ctx @ ''.category does not match key''))) (\<lambda>_.
         Inr (review @ [\<lparr>rv_case = opaque_id, rv_x = x, rv_y = y\<rparr>])))))))))))))))"

definition load_review :: "string \<Rightarrow> BlindKey \<Rightarrow> string \<Rightarrow> ReviewCase list res" where
  "load_review path key data =
     bindE (raise_if (sha256_bytes data \<noteq> bk_review_sha256 key)
              (ValueError (path @ '': review file hash does not match key''))) (\<lambda>_.
     bindE (load_jsonl_bytes data path) (\<lambda>rows.
     bindE (foldE (load_review_record key) [] rows) (\<lambda>review.
     bindE (raise_if (rv_case ` set review \<noteq> kc_case ` set (bk_cases key))
              (ValueError (path @ '': review case set does not match key; ''))) (\<lambda>_.
     Inr review))))"

section \<open>The judgments\<close>

definition load_judgment :: "(string \<times> string) list \<Rightarrow> string \<times> obj \<Rightarrow> (string \<times> string) list res" where
  "load_judgment judgments = (\<lambda>(ctx, d).
     bindE (exact_fields d [''schema'', ''case'', ''judgment''] ctx) (\<lambda>_.
     bindE (get_item d ''schema'') (\<lambda>schema.
     bindE (raise_if (\<not> pyeq schema (JStr JUDGMENT_SCHEMA)) (ValueError (ctx @ ''.schema must be ''))) (\<lambda>_.
     bindE (item as_string d ''case'' ctx) (\<lambda>opaque_id.
     bindE (item as_string d ''judgment'' ctx) (\<lambda>judgment.
     bindE (raise_if (judgment \<notin> set ALLOWED_JUDGMENTS) (ValueError (ctx @ ''.judgment must be one of ''))) (\<lambda>_.
     bindE (raise_if (opaque_id \<in> set (keys judgments)) (ValueError (ctx @ '': duplicate judgment for ''))) (\<lambda>_.
     Inr (judgments @ [(opaque_id, judgment)])))))))))"

definition load_judgments ::
  "nat \<Rightarrow> (OwnerStat \<times> string) option \<Rightarrow> string \<Rightarrow> string set \<Rightarrow> ((string \<times> string) list \<times> string) res" where
  "load_judgments uid opened path expected_cases =
     bindE (read_owner_only_regular uid opened (path @ '': judgments'')) (\<lambda>data.
     bindE (load_jsonl_bytes data path) (\<lambda>rows.
     bindE (foldE load_judgment [] rows) (\<lambda>judgments.
     bindE (raise_if (set (keys judgments) \<noteq> expected_cases)
              (ValueError (path @ '': judgment case set is incomplete; ''))) (\<lambda>_.
     Inr (judgments, sha256_bytes data)))))"

section \<open>The packet\<close>

text \<open>The directory, and its entries by name, with what reading them gives.\<close>

record Packet =
  pkt_stat :: OwnerStat
  pkt_entries :: "(string \<times> OwnerStat \<times> string) list"

definition packet_names :: "string list" where
  "packet_names = [MANIFEST_NAME, REVIEW_NAME, KEY_NAME]"

definition read_packet_file :: "nat \<Rightarrow> Packet \<Rightarrow> string \<Rightarrow> string \<Rightarrow> string res" where
  "read_packet_file uid packet path name =
     (case map_of (pkt_entries packet) name of
        None \<Rightarrow> Inl OSError
      | Some (s, data) \<Rightarrow>
          if ps_regular s \<and> \<not> ps_link s \<and> private_mode uid s then Inr data
          else Inl (ValueError (path @ ''/'' @ name @ '': packet file must be owner-only and regular'')))"

definition bound_contract :: "obj \<Rightarrow> string list \<Rightarrow> string \<Rightarrow> string \<Rightarrow> obj res" where
  "bound_contract manifest names k ctx =
     bindE (item as_object manifest k ctx) (\<lambda>contract.
     bindE (exact_fields contract names (dot ctx k)) (\<lambda>_.
     Inr contract))"

definition load_packet :: "nat \<Rightarrow> Packet \<Rightarrow> string \<Rightarrow> (BlindKey \<times> ReviewCase list) res" where
  "load_packet uid packet path =
     bindE (raise_if (\<not> ps_directory (pkt_stat packet) \<or> ps_link (pkt_stat packet) \<or> \<not> private_mode uid (pkt_stat packet))
              (ValueError (path @ '': packet must be an owner-only non-symlink directory''))) (\<lambda>_.
     bindE (raise_if (set (keys (pkt_entries packet)) \<noteq> set packet_names)
              (ValueError (path @ '': packet contents do not match schema; ''))) (\<lambda>_.
     bindE (read_packet_file uid packet path MANIFEST_NAME) (\<lambda>manifest_bytes.
     bindE (read_packet_file uid packet path REVIEW_NAME) (\<lambda>review_bytes.
     bindE (read_packet_file uid packet path KEY_NAME) (\<lambda>key_bytes.
     let ctx = path @ ''/'' @ MANIFEST_NAME in
     bindE (load_object manifest_bytes ctx) (\<lambda>manifest.
     bindE (exact_fields manifest [''schema'', ''cases'', ''source_ref'', ''top_k'', ''review'', ''key'', ''integrity'']
              ctx) (\<lambda>_.
     bindE (get_item manifest ''schema'') (\<lambda>schema.
     bindE (raise_if (\<not> pyeq schema (JStr PACKET_SCHEMA)) (ValueError (ctx @ '': unsupported packet schema''))) (\<lambda>_.
     bindE (item probe_count manifest ''cases'' ctx) (\<lambda>cases_n.
     bindE (raise_if (cases_n = 0) (ValueError (ctx @ ''.cases must be positive''))) (\<lambda>_.
     bindE (validate_top_k manifest ctx) (\<lambda>top_k.
     bindE (item as_string manifest ''source_ref'' ctx) (\<lambda>source_ref.
     bindE (bound_contract manifest [''name'', ''sha256''] ''review'' ctx) (\<lambda>review_contract.
     bindE (bound_contract manifest [''name'', ''sha256'', ''integrity''] ''key'' ctx) (\<lambda>key_contract.
     bindE (get_item review_contract ''name'') (\<lambda>review_name.
     bindE (get_item key_contract ''name'') (\<lambda>key_name.
     bindE (raise_if (\<not> pyeq review_name (JStr REVIEW_NAME) \<or> \<not> pyeq key_name (JStr KEY_NAME))
              (ValueError (ctx @ '': packet filenames do not match schema''))) (\<lambda>_.
     bindE (item blind_sha256 review_contract ''sha256'' (dot ctx ''review'')) (\<lambda>review_sha256.
     bindE (item blind_sha256 key_contract ''sha256'' (dot ctx ''key'')) (\<lambda>key_sha256.
     bindE (item blind_sha256 key_contract ''integrity'' (dot ctx ''key'')) (\<lambda>key_integrity.
     bindE (check_integrity manifest ctx '': packet integrity mismatch'') (\<lambda>_.
     bindE (raise_if (review_sha256 \<noteq> sha256_bytes review_bytes) (ValueError (ctx @ '': review hash mismatch''))) (\<lambda>_.
     bindE (raise_if (key_sha256 \<noteq> sha256_bytes key_bytes) (ValueError (ctx @ '': key hash mismatch''))) (\<lambda>_.
     bindE (validate_key key_bytes (path @ ''/'' @ KEY_NAME)) (\<lambda>key.
     bindE (raise_if (bk_integrity key \<noteq> key_integrity \<or> bk_review_sha256 key \<noteq> review_sha256 \<or>
                      bk_source_ref key \<noteq> source_ref \<or> bk_top_k key \<noteq> top_k \<or> bk_case_count key \<noteq> cases_n)
              (ValueError (ctx @ '': manifest does not match unblind key''))) (\<lambda>_.
     bindE (load_review (path @ ''/'' @ REVIEW_NAME) key review_bytes) (\<lambda>review.
     Inr (key, review))))))))))))))))))))))))))))"

end
