(* ===== verification/Blind_Statistics.thy ===== *)
theory Blind_Statistics
  imports Quality_Compare Sha256
begin

text \<open>
  The statistics of \<open>blind_conversion_ab.py\<close>: Wilson's score interval, computed with floats, and the
  exact two-sided sign test.  \<open>fl\<close> rounds every operation; sums and products of the interval stay far
  below the range of doubles, and converting a count to a float raises beyond it.
\<close>

section \<open>The interval\<close>

text \<open>
  \<open>math.sqrt\<close> rounds the exact root.  The root of \<open>x\<close> scaled to 55 bits is cut off; half a unit more
  where it is not exact keeps it on its side of every double and of every midpoint between two.
\<close>

definition fl_sqrt :: "rat \<Rightarrow> rat" where
  "fl_sqrt x =
     (if x \<le> 0 then 0
      else let k = 54 - floor_log2 x div 2; y = x * (if 0 \<le> k then 4 ^ nat k else 1 / 4 ^ nat (- k));
               r = int_root 2 56 (nat \<lfloor>y\<rfloor>)
           in fl ((of_nat r + (if of_nat (r * r) = y then 0 else 1 / 2)) *
                  (if 0 \<le> k then 1 / 2 ^ nat k else 2 ^ nat (- k))))"

definition WILSON_Z :: rat where
  "WILSON_Z = fl (1959963984540054 / 10 ^ 15)"

text \<open>A count that enters a float operation is converted first.\<close>

definition float_of_count :: "int \<Rightarrow> rat res" where
  "float_of_count i = (if fl_overflows (of_int i) then Inl OverflowError else Inr (fl (of_int i)))"

text \<open>The centre and the margin, on the converted \<open>total\<close>, \<open>2 * total\<close> and \<open>4 * total * total\<close>.\<close>

definition wilson_denominator :: "rat \<Rightarrow> rat" where
  "wilson_denominator n = fl (1 + fl (fl (WILSON_Z * WILSON_Z) / n))"

definition wilson_centre :: "rat \<Rightarrow> rat \<Rightarrow> rat \<Rightarrow> rat" where
  "wilson_centre observed n n2 =
     fl (fl (observed + fl (fl (WILSON_Z * WILSON_Z) / n2)) / wilson_denominator n)"

definition wilson_margin :: "rat \<Rightarrow> rat \<Rightarrow> rat \<Rightarrow> rat" where
  "wilson_margin observed n n4 =
     fl (fl (WILSON_Z *
           fl_sqrt (fl (fl (fl (observed * fl (1 - observed)) / n) + fl (fl (WILSON_Z * WILSON_Z) / n4)))) /
         wilson_denominator n)"

definition wilson_interval :: "int \<Rightarrow> int \<Rightarrow> (rat \<times> rat) option res" where
  "wilson_interval wins decisive =
     (if decisive = 0 then Inr None
      else
        bindE (int_div_float wins decisive) (\<lambda>rate.
        case rate of
          Fin observed \<Rightarrow>
            bindE (float_of_count decisive) (\<lambda>n.
            bindE (float_of_count (2 * decisive)) (\<lambda>n2.
            bindE (float_of_count (4 * decisive * decisive)) (\<lambda>n4.
            let centre = wilson_centre observed n n2; margin = wilson_margin observed n n4
            in Inr (Some (max 0 (fl (centre - margin)), min 1 (fl (centre + margin)))))))
        | _ \<Rightarrow> Inl OverflowError))"

section \<open>The sign test\<close>

definition binomial_tail :: "nat \<Rightarrow> nat \<Rightarrow> nat" where
  "binomial_tail n t = sum_list (map (\<lambda>k. n choose k) [0..<Suc t])"

definition two_sided_sign_test :: "nat \<Rightarrow> nat \<Rightarrow> pyfloat option res" where
  "two_sided_sign_test wins losses =
     (let decisive = wins + losses in
      if decisive = 0 then Inr None
      else
        bindE (int_div_float (int (2 * binomial_tail decisive (min wins losses))) (2 ^ decisive)) (\<lambda>probability.
        Inr (Some (case probability of Fin p \<Rightarrow> Fin (min 1 p) | p \<Rightarrow> p))))"

section \<open>The interval is an interval\<close>

lemma fl_sqrt_nonneg: "0 \<le> fl_sqrt x"
  by (auto simp: fl_sqrt_def Let_def intro!: fl_nonneg)

lemma wilson_z: "0 \<le> WILSON_Z" "0 \<le> fl (WILSON_Z * WILSON_Z)"
  by (simp_all add: WILSON_Z_def fl_nonneg)

lemma fl_count: "1 \<le> i \<Longrightarrow> 1 \<le> fl (of_int i)"
  using fl_mono [of 1 "of_int i"] by simp

lemma wilson_denominator_pos: "0 < n \<Longrightarrow> 1 \<le> wilson_denominator n"
  using fl_mono [of 1 "1 + fl (fl (WILSON_Z * WILSON_Z) / n)"] wilson_z(2)
  by (simp add: wilson_denominator_def fl_nonneg)

lemma wilson_centre_unit:
  assumes "0 \<le> observed" "observed \<le> 1" "0 < n" "n \<le> n2"
  shows "0 \<le> wilson_centre observed n n2 \<and> wilson_centre observed n n2 \<le> 1"
proof -
  let ?zz = "fl (WILSON_Z * WILSON_Z)"
  have "?zz / n2 \<le> ?zz / n" using assms wilson_z(2) by (simp add: frac_le)
  then have "observed + fl (?zz / n2) \<le> 1 + fl (?zz / n)"
    using assms(2) by (intro add_mono fl_mono)
  then have "fl (observed + fl (?zz / n2)) \<le> wilson_denominator n"
    unfolding wilson_denominator_def by (rule fl_mono)
  moreover have "0 \<le> fl (observed + fl (?zz / n2))"
    using assms wilson_z(2) by (intro fl_nonneg add_nonneg_nonneg) simp_all
  moreover have "1 \<le> wilson_denominator n" using wilson_denominator_pos [OF assms(3)] .
  ultimately show ?thesis
    unfolding wilson_centre_def by (intro double.rnd_unit_interval) (auto simp: divide_le_eq_1)
qed

lemma wilson_margin_nonneg:
  assumes "0 < n" shows "0 \<le> wilson_margin observed n n4"
  using wilson_denominator_pos [OF assms] wilson_z(1) fl_sqrt_nonneg
  by (simp add: wilson_margin_def fl_nonneg)

lemma clamped_interval:
  assumes "0 \<le> c" "c \<le> 1" "0 \<le> m"
  shows "max 0 (fl (c - m)) \<le> min 1 (fl (c + m))"
proof -
  have "fl (c - m) \<le> fl 1" "fl 0 \<le> fl (c + m)" "fl (c - m) \<le> fl (c + m)"
    using assms by (intro fl_mono; simp)+
  then show ?thesis by simp
qed

lemma wilson_interval_bounds:
  assumes "wilson_interval (int w) (int (w + l)) = Inr (Some (low, high))"
  shows "0 \<le> low \<and> low \<le> high \<and> high \<le> 1"
proof -
  let ?t = "int (w + l)"
  have t: "0 < w + l" using assms by (cases "w + l = 0") (auto simp: wilson_interval_def)
  let ?o = "fl (of_int (int w) / of_int ?t)"
  have rate: "int_div_float (int w) ?t = Inr (Fin ?o)" using t by (intro int_div_float_rate) auto
  have unit: "0 \<le> ?o \<and> ?o \<le> 1" using t by (intro double.rnd_ratio_unit) auto
  have counts: "float_of_count i = Inr x \<longleftrightarrow> \<not> fl_overflows (of_int i) \<and> x = fl (of_int i)" for i x
    by (auto simp: float_of_count_def)
  define n n2 n4 :: rat where "n = fl (of_int ?t)" and "n2 = fl (of_int (2 * ?t))" and "n4 = fl (of_int (4 * ?t * ?t))"
  have n: "1 \<le> n" "n \<le> n2" using t fl_mono [of "of_int ?t" "of_int (2 * ?t)"] fl_count [of ?t]
    by (auto simp: n_def n2_def)
  have r: "low = max 0 (fl (wilson_centre ?o n n2 - wilson_margin ?o n n4))"
    "high = min 1 (fl (wilson_centre ?o n n2 + wilson_margin ?o n n4))"
    using assms t unfolding wilson_interval_def rate n_def n2_def n4_def
    by (auto simp: counts Let_def simp del: of_nat_add)
  show ?thesis
    unfolding r using clamped_interval wilson_centre_unit [of ?o n n2] wilson_margin_nonneg [of n ?o n4] unit n by simp
qed

section \<open>The sign test is exact\<close>

text \<open>The outcomes of \<open>n\<close> fair choices that are at least as uneven as \<open>t\<close> against \<open>n - t\<close>.\<close>

definition uneven_outcomes :: "nat \<Rightarrow> nat \<Rightarrow> nat set set" where
  "uneven_outcomes n t = {A. A \<subseteq> {..<n} \<and> (card A \<le> t \<or> n - t \<le> card A)}"

lemma binomial_tail_card: "binomial_tail n t = card {A. A \<subseteq> {..<n} \<and> card A \<le> t}"
proof -
  have "{A. A \<subseteq> {..<n} \<and> card A \<le> t} = (\<Union>k \<in> {..<Suc t}. {A. A \<subseteq> {..<n} \<and> card A = k})" by auto
  also have "card \<dots> = (\<Sum>k \<in> {..<Suc t}. card {A. A \<subseteq> {..<n} \<and> card A = k})"
    by (rule card_UN_disjoint) (auto intro: finite_subset [of _ "Pow {..<n}"])
  also have "\<dots> = (\<Sum>k \<in> {..<Suc t}. n choose k)"
    by (intro sum.cong refl) (simp add: n_subsets)
  also have "\<dots> = binomial_tail n t"
    unfolding binomial_tail_def by (simp only: interv_sum_list_conv_sum_set_nat atLeast0LessThan set_upt)
  finally show ?thesis by simp
qed

lemma complement_card:
  assumes "t \<le> n"
  shows "card {A. A \<subseteq> {..<n} \<and> n - t \<le> card A} = binomial_tail n t"
proof -
  have inj: "inj_on (\<lambda>A. {..<n} - A) {A. A \<subseteq> {..<n} \<and> card A \<le> t}" by (auto intro!: inj_onI)
  have image: "(\<lambda>A. {..<n} - A) ` {A. A \<subseteq> {..<n} \<and> card A \<le> t} = {A. A \<subseteq> {..<n} \<and> n - t \<le> card A}"
  proof (intro equalityI subsetI)
    fix A assume "A \<in> (\<lambda>A. {..<n} - A) ` {A. A \<subseteq> {..<n} \<and> card A \<le> t}"
    then show "A \<in> {A. A \<subseteq> {..<n} \<and> n - t \<le> card A}"
      by (auto simp: card_Diff_subset finite_subset [of _ "{..<n}"])
  next
    fix A assume A: "A \<in> {A. A \<subseteq> {..<n} \<and> n - t \<le> card A}"
    then have "card ({..<n} - A) = n - card A" by (simp add: card_Diff_subset finite_subset [of _ "{..<n}"])
    then have "{..<n} - A \<in> {A. A \<subseteq> {..<n} \<and> card A \<le> t}" using A assms by auto
    moreover have "A = {..<n} - ({..<n} - A)" using A by auto
    ultimately show "A \<in> (\<lambda>A. {..<n} - A) ` {A. A \<subseteq> {..<n} \<and> card A \<le> t}" by blast
  qed
  show ?thesis using card_image [OF inj] unfolding image binomial_tail_card .
qed

lemma uneven_outcomes_card:
  assumes "t \<le> n - t"
  shows "card (uneven_outcomes n t) = min (2 ^ n) (2 * binomial_tail n t)" "binomial_tail n t \<le> 2 ^ n"
proof -
  let ?low = "{A. A \<subseteq> {..<n} \<and> card A \<le> t}" and ?high = "{A. A \<subseteq> {..<n} \<and> n - t \<le> card A}"
  have fin: "finite ?low" "finite ?high" "finite (Pow {..<n})" by (auto intro: finite_subset [of _ "Pow {..<n}"])
  have union: "uneven_outcomes n t = ?low \<union> ?high" by (auto simp: uneven_outcomes_def)
  have high: "card ?high = binomial_tail n t" using assms by (intro complement_card) simp
  have pow: "card (Pow {..<n}) = 2 ^ n" by (simp add: card_Pow)
  show le: "binomial_tail n t \<le> 2 ^ n"
    unfolding binomial_tail_card pow [symmetric] by (rule card_mono) auto
  show "card (uneven_outcomes n t) = min (2 ^ n) (2 * binomial_tail n t)"
  proof (cases "t < n - t")
    case True
    then have "?low \<inter> ?high = {}" by auto
    then have two: "card (uneven_outcomes n t) = 2 * binomial_tail n t"
      unfolding union using fin high by (simp add: card_Un_disjoint binomial_tail_card)
    moreover have "card (uneven_outcomes n t) \<le> 2 ^ n"
      unfolding pow [symmetric] by (rule card_mono) (auto simp: uneven_outcomes_def)
    ultimately show ?thesis by simp
  next
    case False
    then have "uneven_outcomes n t = Pow {..<n}" using assms by (auto simp: uneven_outcomes_def)
    moreover have "card (uneven_outcomes n t) \<le> 2 * binomial_tail n t"
      unfolding union using card_Un_le [of ?low ?high] high by (simp add: binomial_tail_card)
    ultimately show ?thesis using pow by simp
  qed
qed

lemma sign_test_exact:
  "two_sided_sign_test w l =
     (if w + l = 0 then Inr None
      else Inr (Some (Fin (fl (of_nat (card (uneven_outcomes (w + l) (min w l))) / 2 ^ (w + l))))))"
proof (cases "w + l = 0")
  case False
  let ?n = "w + l" and ?t = "min w l"
  let ?tail = "binomial_tail ?n ?t"
  have c: "card (uneven_outcomes ?n ?t) = min (2 ^ ?n) (2 * ?tail)" "?tail \<le> 2 ^ ?n"
    by (rule uneven_outcomes_card; simp)+
  let ?p = "of_nat (2 * ?tail) / 2 ^ ?n :: rat"
  have "(of_nat ?tail :: rat) \<le> of_nat (2 ^ ?n)" using c(2) by (simp only: of_nat_le_iff)
  then have p: "0 \<le> ?p" "?p \<le> 2" by (simp_all add: divide_le_eq)
  then have "int_div_float (int (2 * ?tail)) (2 ^ ?n) = Inr (Fin (fl ?p))"
    by (simp add: int_div_float_def rat_to_float_def fl_overflows_def float_limit_def)
  moreover have "min 1 (fl ?p) = fl (of_nat (card (uneven_outcomes ?n ?t)) / 2 ^ ?n)"
  proof (cases "2 * ?tail \<le> 2 ^ ?n")
    case True
    then have "(of_nat (2 * ?tail) :: rat) \<le> of_nat (2 ^ ?n)" by (simp only: of_nat_le_iff)
    then have "?p \<le> 1" by (simp add: divide_le_eq)
    then have "fl ?p \<le> 1" using fl_mono [of ?p 1] by simp
    then show ?thesis using True c(1) by (simp add: min_absorb2)
  next
    case False
    then have "(of_nat (2 ^ ?n) :: rat) \<le> of_nat (2 * ?tail)" by (simp only: of_nat_le_iff)
    then have "1 \<le> ?p" by (simp add: le_divide_eq)
    then have "1 \<le> fl ?p" using fl_mono [of 1 ?p] by simp
    then show ?thesis using False c(1) by simp
  qed
  ultimately show ?thesis using False by (simp add: two_sided_sign_test_def Let_def)
qed (simp add: two_sided_sign_test_def)

end
