(* ===== verification/Blind_Score.thy ===== *)
theory Blind_Score
  imports Blind_Key Blind_Statistics
begin

text \<open>
  \<open>blind_conversion_ab.py\<close>, the \<open>score\<close> command: judgments on anonymous sides become counts per
  backend, overall and by category, with their statistics and the objective comparison on the same
  candidates.
\<close>

definition BLIND_REPORT_SCHEMA :: string where
  "BLIND_REPORT_SCHEMA = ''hazkey.blind-conversion-ab-report.v1''"

section \<open>Outcomes\<close>

record Outcome =
  oc_wins :: nat
  oc_losses :: nat
  oc_ties :: nat
  oc_both_bad :: nat

type_synonym outcomes = "(string \<times> Outcome) list"

definition no_outcome :: Outcome where
  "no_outcome = \<lparr>oc_wins = 0, oc_losses = 0, oc_ties = 0, oc_both_bad = 0\<rparr>"

definition empty_outcomes :: "string list \<Rightarrow> outcomes" where
  "empty_outcomes labels = map (\<lambda>l. (l, no_outcome)) labels"

definition update_outcome :: "string \<Rightarrow> (Outcome \<Rightarrow> Outcome) \<Rightarrow> outcomes \<Rightarrow> outcomes res" where
  "update_outcome label f outcomes =
     (case map_of outcomes label of
        None \<Rightarrow> Inl (KeyError label)
      | Some o' \<Rightarrow> Inr (dict_set label (f o') outcomes))"

definition add_win :: "Outcome \<Rightarrow> Outcome" where "add_win o' = o'\<lparr>oc_wins := oc_wins o' + 1\<rparr>"
definition add_loss :: "Outcome \<Rightarrow> Outcome" where "add_loss o' = o'\<lparr>oc_losses := oc_losses o' + 1\<rparr>"
definition add_tie :: "Outcome \<Rightarrow> Outcome" where "add_tie o' = o'\<lparr>oc_ties := oc_ties o' + 1\<rparr>"
definition add_both_bad :: "Outcome \<Rightarrow> Outcome" where "add_both_bad o' = o'\<lparr>oc_both_bad := oc_both_bad o' + 1\<rparr>"

definition winner_label :: "string \<Rightarrow> string \<Rightarrow> string \<Rightarrow> string option" where
  "winner_label x_backend y_backend judgment =
     (if judgment \<in> {''tie'', ''both_bad''} then None
      else Some (if judgment = ''x'' then x_backend else y_backend))"

definition record_outcome :: "string \<Rightarrow> string \<Rightarrow> string \<Rightarrow> outcomes \<Rightarrow> outcomes res" where
  "record_outcome x_backend y_backend judgment outcomes =
     (if judgment = ''tie'' then
        bindE (update_outcome x_backend add_tie outcomes) (update_outcome y_backend add_tie)
      else if judgment = ''both_bad'' then
        bindE (update_outcome x_backend add_both_bad outcomes) (update_outcome y_backend add_both_bad)
      else
        let winner = (if judgment = ''x'' then x_backend else y_backend);
            loser = (if judgment = ''x'' then y_backend else x_backend)
        in bindE (update_outcome winner add_win outcomes) (update_outcome loser add_loss))"

section \<open>The rendered counts\<close>

definition float_or_null :: "pyfloat option \<Rightarrow> json" where
  "float_or_null x = (case x of None \<Rightarrow> JNull | Some f \<Rightarrow> JFloat f)"

definition interval_json :: "(rat \<times> rat) option \<Rightarrow> json" where
  "interval_json x = (case x of None \<Rightarrow> JNull | Some (low, high) \<Rightarrow> JArr [JFloat (Fin low), JFloat (Fin high)])"

definition render_outcome :: "int \<Rightarrow> Outcome \<Rightarrow> json res" where
  "render_outcome total_cases o' =
     (let wins = int (oc_wins o'); losses = int (oc_losses o'); decisive = wins + losses in
      bindE (int_div_float decisive total_cases) (\<lambda>case_rate.
      bindE (if decisive = 0 then Inr None else bindE (int_div_float wins decisive) (\<lambda>f. Inr (Some f))) (\<lambda>win_rate.
      bindE (wilson_interval wins decisive) (\<lambda>ci95.
      bindE (int_div_float wins total_cases) (\<lambda>preference.
      bindE (int_div_float (wins - losses) total_cases) (\<lambda>net.
      bindE (two_sided_sign_test (oc_wins o') (oc_losses o')) (\<lambda>p_value.
      Inr (JObj
        [(''wins'', JInt wins), (''losses'', JInt losses), (''ties'', JInt (int (oc_ties o'))),
         (''both_bad'', JInt (int (oc_both_bad o'))), (''all_cases'', JInt total_cases),
         (''decisive_cases'', JInt decisive), (''decisive_case_rate'', JFloat case_rate),
         (''decisive_win_rate'', float_or_null win_rate),
         (''decisive_win_rate_ci95'', interval_json ci95),
         (''preference_rate_all_cases'', JFloat preference),
         (''net_preference_rate_all_cases'', JFloat net),
         (''two_sided_sign_test_p_value'', float_or_null p_value)]))))))))"

definition render_outcomes :: "outcomes \<Rightarrow> int \<Rightarrow> json res" where
  "render_outcomes outcomes total_cases =
     bindE (mapE (\<lambda>(label, o'). bindE (render_outcome total_cases o') (\<lambda>v. Inr (label, v)))
              (sort_key fst outcomes)) (\<lambda>rendered.
     Inr (JObj rendered))"

section \<open>Objective quality\<close>

definition key_corpus_row :: "KeyCase \<Rightarrow> CorpusRow" where
  "key_corpus_row c = \<lparr>row_id = kc_original_id c, row_reading = kc_reading c,
     row_expected = join_with (CHR ''|'') (kc_expected c), row_category = kc_category c\<rparr>"

text \<open>
  The sides of a review may hold objects with a \<open>text\<close> beside strings.  Such a candidate is no string
  when the report with it is compared, so that scoring raises a \<open>ValueError\<close>.
\<close>

definition observed_text :: "json \<Rightarrow> string res" where
  "observed_text v = (case v of JStr s \<Rightarrow> Inr s | _ \<Rightarrow> Inl (ValueError ''.observed must be a non-empty string''))"

definition backend_result :: "string \<Rightarrow> ReviewCase list \<Rightarrow> results \<Rightarrow> KeyCase \<Rightarrow> results res" where
  "backend_result label review results c =
     (case find (\<lambda>v. rv_case v = kc_case c) review of
        None \<Rightarrow> Inl (KeyError (kc_case c))
      | Some v \<Rightarrow>
          bindE (mapE observed_text (rv_x v)) (\<lambda>x.
          bindE (mapE observed_text (rv_y v)) (\<lambda>y.
          let with_x = (if kc_x_backend c = label then dict_set (kc_original_id c) x results else results)
          in Inr (if kc_y_backend c = label then dict_set (kc_original_id c) y with_x else with_x))))"

definition backend_report :: "BlindKey \<Rightarrow> ReviewCase list \<Rightarrow> string \<Rightarrow> obj res" where
  "backend_report key review label =
     bindE (foldE (backend_result label review) [] (bk_cases key)) (\<lambda>results.
     evaluate (map key_corpus_row (bk_cases key)) results (nat (bk_top_k key)))"

definition objective_quality :: "BlindKey \<Rightarrow> ReviewCase list \<Rightarrow> json res" where
  "objective_quality key review =
     (let a_name = bk_labels key ! 0; b_name = bk_labels key ! 1;
          summary = (\<lambda>report. JObj (filter (\<lambda>kv. fst kv \<noteq> ''cases'') report))
      in
      bindE (backend_report key review a_name) (\<lambda>a_report.
      bindE (backend_report key review b_name) (\<lambda>b_report.
      bindE (compare_reports (JObj a_report) (JObj b_report) a_name b_name) (\<lambda>comparison.
      Inr (JObj
        [(''top_k'', JInt (bk_top_k key)),
         (''by_backend'', JObj [(a_name, summary a_report), (b_name, summary b_report)]),
         (''paired_comparison'', comparison_json comparison)])))))"

section \<open>Scoring\<close>

record Scoring =
  sc_outcomes :: outcomes
  sc_categories :: "(string \<times> outcomes) list"
  sc_category_counts :: "(string \<times> int) list"
  sc_judgments :: "(string \<times> int) list"
  sc_cases :: "json list"

definition unblinded_case :: "KeyCase \<Rightarrow> string \<Rightarrow> json" where
  "unblinded_case c judgment = JObj
     [(''case'', JStr (kc_case c)), (''original_id'', JStr (kc_original_id c)),
      (''category'', JStr (kc_category c)), (''reading'', JStr (kc_reading c)),
      (''expected'', str_arr (kc_expected c)), (''judgment'', JStr judgment),
      (''x_backend'', JStr (kc_x_backend c)), (''y_backend'', JStr (kc_y_backend c)),
      (''winner'', text_or_null (winner_label (kc_x_backend c) (kc_y_backend c) judgment))]"

definition score_case ::
  "string list \<Rightarrow> (string \<times> string) list \<Rightarrow> Scoring \<Rightarrow> KeyCase \<Rightarrow> Scoring res" where
  "score_case labels judgments st c =
     (case map_of judgments (kc_case c) of
        None \<Rightarrow> Inl (KeyError (kc_case c))
      | Some judgment \<Rightarrow>
          let category = kc_category c;
              per_category = (case map_of (sc_categories st) category of
                                None \<Rightarrow> empty_outcomes labels | Some o' \<Rightarrow> o')
          in
          bindE (record_outcome (kc_x_backend c) (kc_y_backend c) judgment (sc_outcomes st)) (\<lambda>overall.
          bindE (record_outcome (kc_x_backend c) (kc_y_backend c) judgment per_category) (\<lambda>in_category.
          Inr \<lparr>sc_outcomes = overall,
               sc_categories = dict_set category in_category (sc_categories st),
               sc_category_counts = counted category (sc_category_counts st),
               sc_judgments = counted judgment (sc_judgments st),
               sc_cases = sc_cases st @ [unblinded_case c judgment]\<rparr>)))"

definition score_cases :: "BlindKey \<Rightarrow> (string \<times> string) list \<Rightarrow> Scoring res" where
  "score_cases key judgments =
     foldE (score_case (bk_labels key) judgments)
       \<lparr>sc_outcomes = empty_outcomes (bk_labels key), sc_categories = [], sc_category_counts = [],
        sc_judgments = [], sc_cases = []\<rparr> (bk_cases key)"

definition scored_category_json :: "Scoring \<Rightarrow> string \<times> outcomes \<Rightarrow> (string \<times> json) res" where
  "scored_category_json st = (\<lambda>(category, outcomes).
     let n = count_in (sc_category_counts st) category in
     bindE (render_outcomes outcomes n) (\<lambda>by_backend.
     Inr (category, JObj [(''cases'', JInt n), (''by_backend'', by_backend)])))"

definition report_base :: "BlindKey \<Rightarrow> ReviewCase list \<Rightarrow> string \<Rightarrow> Scoring \<Rightarrow> obj res" where
  "report_base key review judgments_sha256 st =
     (let doc = bk_doc key; n = int (length (bk_cases key)) in
      bindE (get_item doc ''corpus'') (\<lambda>corpus.
      bindE (get_item doc ''backends'') (\<lambda>backends.
      bindE (get_item doc ''placement'') (\<lambda>placement.
      bindE (render_outcomes (sc_outcomes st) n) (\<lambda>by_backend.
      bindE (mapE (scored_category_json st) (sort_key fst (sc_categories st))) (\<lambda>by_category.
      bindE (objective_quality key review) (\<lambda>objective.
      Inr [(''schema'', JStr BLIND_REPORT_SCHEMA), (''source_ref'', JStr (bk_source_ref key)),
           (''corpus'', corpus), (''backends'', backends), (''review_sha256'', JStr (bk_review_sha256 key)),
           (''judgments_sha256'', JStr judgments_sha256),
           (''unblind_key_integrity'', JStr (bk_integrity key)), (''cases'', JInt n),
           (''top_k'', JInt (bk_top_k key)), (''placement'', placement),
           (''human_preference'', JObj
             [(''judgment_counts'', JObj (map (\<lambda>j. (j, JInt (count_in (sc_judgments st) j))) (sort ALLOWED_JUDGMENTS))),
              (''by_backend'', by_backend), (''by_category'', JObj by_category)]),
           (''objective_quality'', objective),
           (''unblinded_cases'', JArr (sc_cases st))])))))))"

definition score ::
  "nat \<Rightarrow> Packet \<Rightarrow> string \<Rightarrow> (OwnerStat \<times> string) option \<Rightarrow> string \<Rightarrow> obj res" where
  "score uid packet path judgments_file judgments_path =
     bindE (load_packet uid packet path) (\<lambda>(key, review).
     bindE (load_judgments uid judgments_file judgments_path (rv_case ` set review)) (\<lambda>(judgments, judgments_sha256).
     bindE (score_cases key judgments) (\<lambda>st.
     bindE (report_base key review judgments_sha256 st) (\<lambda>base.
     bindE (canonical_json (JObj base)) (\<lambda>text.
     Inr (base @ [(''integrity'', JStr (sha256_bytes text))]))))))"

end
