(* ===== verification/Blind_Placement.thy ===== *)
theory Blind_Placement
  imports Blind_Score "HOL-Library.Multiset"
begin

text \<open>
  The placement that \<open>prepare\<close> draws is balanced for every seed: the digests only permute cases and
  categories, and the extra places that the global target needs are never more than the odd categories.
\<close>

section \<open>Sorting by digests\<close>

lemma mapE_length: "mapE f xs = Inr ys \<Longrightarrow> length ys = length xs"
  by (induction xs arbitrary: ys) auto

lemma mapE_image: "mapE f xs = Inr ys \<Longrightarrow> x \<in> set xs \<Longrightarrow> \<exists>y \<in> set ys. f x = Inr y"
  by (induction xs arbitrary: ys) auto

lemma sorted_by_mset:
  assumes "sorted_by f xs = Inr ys" shows "mset ys = mset xs"
proof -
  obtain ks where ks: "mapE f xs = Inr ks" and ys: "ys = map snd (sort_key fst (zip ks xs))"
    using assms by (auto simp: sorted_by_def)
  have "mset ys = image_mset snd (mset (zip ks xs))" by (simp add: ys)
  also have "\<dots> = mset (map snd (zip ks xs))" by simp
  finally show ?thesis using mapE_length [OF ks] by simp
qed

lemma sorted_by_distinct: "sorted_by f xs = Inr ys \<Longrightarrow> distinct ys \<longleftrightarrow> distinct xs"
  and sorted_by_set: "sorted_by f xs = Inr ys \<Longrightarrow> set ys = set xs"
  and sorted_by_length: "sorted_by f xs = Inr ys \<Longrightarrow> length ys = length xs"
  by (auto dest: sorted_by_mset mset_eq_imp_distinct_iff mset_eq_setD mset_eq_length)

section \<open>Dictionaries and sums\<close>

lemma sum_dict:
  "distinct (keys d) \<Longrightarrow> sum_list (map (\<lambda>kv. f (fst kv) (snd kv)) d) = (\<Sum>k \<in> set (keys d). f k (the (map_of d k)))"
  for f :: "'k \<Rightarrow> 'v \<Rightarrow> nat"
proof (induction d)
  case (Cons kv d)
  then have "(\<Sum>k \<in> set (keys d). f k (the (map_of (kv # d) k))) = (\<Sum>k \<in> set (keys d). f k (the (map_of d k)))"
    by (intro sum.cong) auto
  with Cons show ?case by simp
qed simp

lemma sum_filter_length:
  "finite C \<Longrightarrow> f ` set xs \<subseteq> C \<Longrightarrow> (\<Sum>c \<in> C. length (filter (\<lambda>x. f x = c) xs)) = length xs"
proof (induction xs)
  case (Cons x xs)
  have "(\<Sum>c \<in> C. length (filter (\<lambda>y. f y = c) (x # xs))) =
      (\<Sum>c \<in> C. length (filter (\<lambda>y. f y = c) xs) + (if f x = c then 1 else 0))"
    by (intro sum.cong) auto
  also have "\<dots> = length xs + 1" using Cons by (simp add: sum.distrib)
  finally show ?case by simp
qed simp

section \<open>The groups\<close>

definition group_of :: "string \<Rightarrow> CorpusRow list \<Rightarrow> string list" where
  "group_of c corpus = map row_id (filter (\<lambda>r. row_category r = c) corpus)"

lemma group_of_Nil_iff: "group_of c corpus = [] \<longleftrightarrow> c \<notin> row_category ` set corpus"
  by (auto simp: group_of_def filter_empty_conv)

lemma ids_by_category_snoc: "ids_by_category (rs @ [r]) = group_id (ids_by_category rs) r"
  by (simp add: ids_by_category_def)

lemma ids_by_category_distinct: "distinct (keys (ids_by_category corpus))"
  by (induction corpus rule: rev_induct) (simp_all add: ids_by_category_snoc group_id_def, simp add: ids_by_category_def)

lemma ids_by_category_lookup:
  "map_of (ids_by_category corpus) c = (if c \<in> row_category ` set corpus then Some (group_of c corpus) else None)"
proof (induction corpus arbitrary: c rule: rev_induct)
  case Nil
  then show ?case by (simp add: ids_by_category_def)
next
  case (snoc r rs)
  have none: "row_category r \<notin> row_category ` set rs \<Longrightarrow> group_of (row_category r) rs = []"
    by (simp add: group_of_Nil_iff)
  have group: "group_of c (rs @ [r]) = group_of c rs @ (if row_category r = c then [row_id r] else [])" for c
    by (simp add: group_of_def)
  show ?case
    unfolding ids_by_category_snoc group_id_def group
    using snoc [of c] none by (cases "c = row_category r"; cases "row_category r \<in> row_category ` set rs") auto
qed

lemma ids_by_category_keys: "set (keys (ids_by_category corpus)) = row_category ` set corpus"
  using ids_by_category_lookup [of corpus] map_of_keys [of "ids_by_category corpus"]
  by (metis (mono_tags, opaque_lifting) option.distinct(1) subsetI subset_antisym)

lemma ids_by_category_member:
  assumes "(c, ids) \<in> set (ids_by_category corpus)"
  shows "ids = group_of c corpus \<and> c \<in> row_category ` set corpus"
proof -
  have "map_of (ids_by_category corpus) c = Some ids"
    using assms ids_by_category_distinct [of corpus] by (simp add: keys_def)
  then show ?thesis by (simp add: ids_by_category_lookup split: if_splits)
qed

lemma sum_groups:
  "sum_list (map (\<lambda>(c, ids). length ids) (ids_by_category corpus)) = length corpus"
proof -
  have "sum_list (map (\<lambda>(c, ids). length ids) (ids_by_category corpus)) =
      (\<Sum>c \<in> row_category ` set corpus. length (the (map_of (ids_by_category corpus) c)))"
    using sum_dict [OF ids_by_category_distinct, of "\<lambda>_ ids. length ids" corpus]
    by (simp add: case_prod_unfold ids_by_category_keys)
  also have "\<dots> = (\<Sum>c \<in> row_category ` set corpus. length (filter (\<lambda>r. row_category r = c) corpus))"
    by (intro sum.cong) (simp_all add: ids_by_category_lookup group_of_def)
  also have "\<dots> = length corpus" by (rule sum_filter_length) auto
  finally show ?thesis .
qed

section \<open>The counts\<close>

lemma extras_bounds:
  assumes "sum_list (map (\<lambda>(c, ids). length ids) groups) = n"
  shows "0 \<le> int (target_count n owner) - int (sum_list (map snd (map (\<lambda>(c, ids). (c, length ids div 2)) groups)))"
    "int (target_count n owner) - int (sum_list (map snd (map (\<lambda>(c, ids). (c, length ids div 2)) groups)))
       \<le> int (length (filter (\<lambda>(c, ids). odd (length ids)) groups))"
proof -
  let ?half = "sum_list (map snd (map (\<lambda>(c, ids). (c, length ids div 2)) groups))"
  let ?odd = "length (filter (\<lambda>(c, ids). odd (length ids)) groups)"
  have "sum_list (map (\<lambda>(c, ids). length ids) groups) = 2 * ?half + ?odd"
  proof (induction groups)
    case (Cons g gs)
    then show ?case by (cases g) (auto simp: odd_two_times_div_two_succ)
  qed simp
  then have n: "n = 2 * ?half + ?odd" using assms by simp
  have "h \<le> target_count (2 * h + d) owner \<and> target_count (2 * h + d) owner \<le> h + d" for h d
    by (cases "odd d") (auto simp: target_count_def elim!: oddE)
  from this [of ?half ?odd] show "0 \<le> int (target_count n owner) - int ?half"
    "int (target_count n owner) - int ?half \<le> int ?odd"
    unfolding n by linarith+
qed

lemma slice_to_props:
  assumes "0 \<le> n" "n \<le> int (length xs)"
  shows "length (slice_to n xs) = nat n" "set (slice_to n xs) \<subseteq> set xs" "distinct xs \<Longrightarrow> distinct (slice_to n xs)"
  using assms by (auto simp: slice_to_def dest: in_set_takeD)

lemma add_extra_lookup:
  "map_of (add_extra counts c) k = (if k = c then Some ((case map_of counts c of None \<Rightarrow> 0 | Some n \<Rightarrow> n) + 1) else map_of counts k)"
  by (simp add: add_extra_def)

lemma add_extra_keys:
  "c \<in> set (keys counts) \<Longrightarrow> set (keys (add_extra counts c)) = set (keys counts)"
  "distinct (keys counts) \<Longrightarrow> distinct (keys (add_extra counts c))"
  by (auto simp: add_extra_def keys_dict_set)

lemma add_extras_keys:
  "set cs \<subseteq> set (keys counts) \<Longrightarrow> set (keys (foldl add_extra counts cs)) = set (keys counts)"
  "distinct (keys counts) \<Longrightarrow> distinct (keys (foldl add_extra counts cs))"
  by (induction cs arbitrary: counts) (auto simp: add_extra_keys)

lemma add_extras:
  "distinct cs \<Longrightarrow> set cs \<subseteq> set (keys counts) \<Longrightarrow>
     map_of (foldl add_extra counts cs) k = map_option (\<lambda>n. n + of_bool (k \<in> set cs)) (map_of counts k)"
proof (induction cs arbitrary: counts)
  case (Cons c cs)
  obtain n where n: "map_of counts c = Some n"
    using Cons.prems map_of_keys [of counts c] by auto
  have "map_of (foldl add_extra (add_extra counts c) cs) k =
      map_option (\<lambda>n. n + of_bool (k \<in> set cs)) (map_of (add_extra counts c) k)"
    using Cons.prems add_extra_keys(1) [of c counts] by (intro Cons.IH) auto
  then show ?case using Cons.prems(1) n by (cases "map_of counts k") (auto simp: add_extra_lookup)
qed (simp add: option.map_ident)

lemma first_x_counts:
  assumes "first_x_by_category seed sha (target_count (length corpus) owner) (ids_by_category corpus) = Inr counts"
  obtains extra where
    "\<And>c. c \<in> row_category ` set corpus \<Longrightarrow>
       map_of counts c = Some (length (group_of c corpus) div 2 + of_bool (c \<in> extra))"
    "\<And>c. c \<in> extra \<Longrightarrow> c \<in> row_category ` set corpus \<and> odd (length (group_of c corpus))"
    "distinct (keys counts)" "set (keys counts) = row_category ` set corpus"
    "sum_list (map snd counts) = target_count (length corpus) owner"
proof -
  let ?groups = "ids_by_category corpus"
  let ?target = "target_count (length corpus) owner"
  define halves where "halves = map (\<lambda>(c, ids). (c, length ids div 2)) ?groups"
  define extras where "extras = int ?target - int (sum_list (map snd halves))"
  let ?odds = "map fst (filter (\<lambda>(c, ids). odd (length ids)) ?groups)"
  obtain ordered where o: "sorted_by (\<lambda>category. domain_digest seed ''category-extra-v1'' [sha, category]) ?odds = Inr ordered"
    and counts: "counts = foldl add_extra halves (slice_to extras ordered)"
    using assms unfolding first_x_by_category_def Let_def halves_def extras_def
    by (auto simp: case_prod_unfold)
  have bounds: "0 \<le> extras" "extras \<le> int (length ordered)"
    using extras_bounds [OF sum_groups, of corpus owner] sorted_by_length [OF o]
    by (simp_all add: extras_def halves_def)
  have keys: "keys halves = keys ?groups" by (simp add: halves_def keys_def case_prod_unfold)
  have odds: "distinct ?odds" "set ?odds \<subseteq> set (keys ?groups)"
    using ids_by_category_distinct [of corpus] unfolding keys_def by (intro distinct_map_filter; simp) auto
  let ?extra = "slice_to extras ordered"
  have extra: "distinct ?extra" "set ?extra \<subseteq> set ?odds" "length ?extra = nat extras"
  proof -
    have "distinct ordered" by (rule sorted_by_distinct [OF o, THEN iffD2, OF odds(1)])
    then show "distinct ?extra" by (rule slice_to_props(3) [OF bounds])
    show "set ?extra \<subseteq> set ?odds"
      by (rule subset_trans [OF slice_to_props(2) [OF bounds]]) (rule equalityD1 [OF sorted_by_set [OF o]])
    show "length ?extra = nat extras" by (rule slice_to_props(1) [OF bounds])
  qed
  have sub: "set ?extra \<subseteq> set (keys halves)"
    unfolding keys by (rule subset_trans [OF extra(2) odds(2)])
  have half: "map_of halves c = Some (length (group_of c corpus) div 2)" if "c \<in> row_category ` set corpus" for c
  proof -
    have "map_of halves c = map_option (\<lambda>ids. length ids div 2) (map_of ?groups c)"
      by (simp add: halves_def map_of_map)
    then show ?thesis using that by (simp add: ids_by_category_lookup)
  qed
  have dist: "distinct (keys halves)" using keys ids_by_category_distinct by simp
  note ex = add_extras [OF extra(1) sub] add_extras_keys(1) [OF sub] add_extras_keys(2) [OF dist]
  show thesis
  proof (rule that [of "set ?extra"])
    show "map_of counts c = Some (length (group_of c corpus) div 2 + of_bool (c \<in> set ?extra))"
      if "c \<in> row_category ` set corpus" for c
      using half [OF that] by (simp add: counts ex(1))
    show "c \<in> row_category ` set corpus \<and> odd (length (group_of c corpus))" if "c \<in> set ?extra" for c
      using that extra(2) ids_by_category_member [of c _ corpus] by fastforce
    show "distinct (keys counts)" unfolding counts by (rule ex(3))
    show keys_counts: "set (keys counts) = row_category ` set corpus"
      by (simp add: counts ex(2) keys ids_by_category_keys)
    have "sum_list (map snd counts) = (\<Sum>k \<in> set (keys counts). the (map_of counts k))"
      using sum_dict [of counts "\<lambda>_ n. n"] ex(3) by (simp add: counts)
    also have "\<dots> = (\<Sum>k \<in> set (keys halves). the (map_of halves k) + of_bool (k \<in> set ?extra))"
      unfolding counts ex(2)
    proof (rule sum.cong [OF refl])
      fix k assume "k \<in> set (keys halves)"
      then obtain n where "map_of halves k = Some n" using map_of_keys [of halves k] by auto
      then show "the (map_of (foldl add_extra halves ?extra) k) = the (map_of halves k) + of_bool (k \<in> set ?extra)"
        by (simp add: ex(1))
    qed
    also have "\<dots> = sum_list (map snd halves) + card (set (keys halves) \<inter> set ?extra)"
      using sum_dict [OF dist, of "\<lambda>_ n. n"] by (simp add: sum.distrib of_bool_def sum.If_cases)
    also have "set (keys halves) \<inter> set ?extra = set ?extra" using sub by blast
    also have "card (set ?extra) = nat extras" using distinct_card [OF extra(1)] extra(3) by simp
    finally show "sum_list (map snd counts) = ?target" using bounds(1) by (simp add: extras_def)
  qed
qed

section \<open>The sides\<close>

lemma length_filter_card: "distinct xs \<Longrightarrow> length (filter P xs) = card {x \<in> set xs. P x}"
  by (metis distinct_card distinct_filter set_filter)

lemma category_placement_part:
  assumes "category_placement seed sha counts (c, ids) = Inr part" "map_of counts c = Some n" "n \<le> length ids" "distinct ids"
  shows "set part \<subseteq> set ids" "card (set part) = n"
proof -
  obtain ordered where o: "sorted_by (\<lambda>i. domain_digest seed ''placement-v1'' [sha, c, i]) ids = Inr ordered"
    and part: "part = take n ordered"
    using assms(1,2) by (auto simp: category_placement_def)
  have d: "distinct ordered" by (rule sorted_by_distinct [OF o, THEN iffD2, OF assms(4)])
  show "set part \<subseteq> set ids" unfolding part sorted_by_set [OF o, symmetric] by (rule set_take_subset)
  show "card (set part) = n"
    using distinct_card [OF distinct_take [OF d, of n]] sorted_by_length [OF o] assms(3) by (simp add: part)
qed

lemma group_of_distinct: "distinct (map row_id corpus) \<Longrightarrow> distinct (group_of c corpus)"
  by (simp add: group_of_def distinct_map_filter)

lemma group_of_disjoint:
  "distinct (map row_id corpus) \<Longrightarrow> i \<in> set (group_of c corpus) \<Longrightarrow> i \<in> set (group_of d corpus) \<Longrightarrow> c = d"
  by (auto simp: group_of_def distinct_map inj_on_def)

lemma first_on_x_sides:
  assumes on_x: "first_on_x seed sha corpus = Inr on_x" and distinct: "distinct (map row_id corpus)"
  obtains owner extra where
    "\<And>c. c \<in> row_category ` set corpus \<Longrightarrow>
       length (filter (\<lambda>i. i \<in> set on_x) (group_of c corpus)) = length (group_of c corpus) div 2 + of_bool (c \<in> extra)"
    "\<And>c. c \<in> extra \<Longrightarrow> odd (length (group_of c corpus))"
    "length (filter (\<lambda>r. row_id r \<in> set on_x) corpus) = target_count (length corpus) owner"
proof -
  let ?cats = "row_category ` set corpus"
  from on_x obtain owner counts parts where
    counts: "first_x_by_category seed sha (target_count (length corpus) owner) (ids_by_category corpus) = Inr counts"
    and parts: "mapE (category_placement seed sha counts) (ids_by_category corpus) = Inr parts" "on_x = concat parts"
    unfolding first_on_x_def Let_def by auto
  obtain extra where extra: "\<And>c. c \<in> ?cats \<Longrightarrow> map_of counts c = Some (length (group_of c corpus) div 2 + of_bool (c \<in> extra))"
      "\<And>c. c \<in> extra \<Longrightarrow> c \<in> ?cats \<and> odd (length (group_of c corpus))"
    and keys: "distinct (keys counts)" "set (keys counts) = ?cats"
    and total: "sum_list (map snd counts) = target_count (length corpus) owner"
    using first_x_counts [OF counts] by blast
  let ?n = "\<lambda>c. length (group_of c corpus) div 2 + of_bool (c \<in> extra)"
  have n_le: "?n c \<le> length (group_of c corpus)" for c
    using extra(2) [of c] by (cases "c \<in> extra") (auto elim!: oddE)
  have part: "set part \<subseteq> set (group_of c corpus) \<and> card (set part) = ?n c \<and> c \<in> ?cats"
    if "category_placement seed sha counts (c, ids) = Inr part" "(c, ids) \<in> set (ids_by_category corpus)" for c ids part
  proof -
    have c: "ids = group_of c corpus" "c \<in> ?cats" using ids_by_category_member [OF that(2)] by auto
    show ?thesis
      using category_placement_part [OF that(1) extra(1) [OF c(2)]] n_le [of c] group_of_distinct [OF distinct] c by simp
  qed
  have on_group: "{i \<in> set (group_of c corpus). i \<in> set on_x} = set p"
    if p: "category_placement seed sha counts (c, ids) = Inr p" "(c, ids) \<in> set (ids_by_category corpus)" "p \<in> set parts" for c ids p
  proof (intro equalityI subsetI)
    fix i assume "i \<in> {i \<in> set (group_of c corpus). i \<in> set on_x}"
    then obtain q where q: "q \<in> set parts" "i \<in> set q" "i \<in> set (group_of c corpus)" by (auto simp: parts(2))
    obtain g where g: "g \<in> set (ids_by_category corpus)" "category_placement seed sha counts g = Inr q"
      using mapE_member [OF parts(1) q(1)] by blast
    obtain d ids' where dg: "g = (d, ids')" by (cases g)
    have "i \<in> set (group_of d corpus)" using part [of d ids' q] g q(2) by (auto simp: dg)
    then have "d = c" using group_of_disjoint [OF distinct] q(3) by blast
    moreover from this have "ids' = ids" using ids_by_category_member g(1) p(2) by (metis dg)
    ultimately show "i \<in> set p" using g(2) p(1) q(2) by (simp add: dg)
  next
    fix i assume "i \<in> set p"
    then show "i \<in> {i \<in> set (group_of c corpus). i \<in> set on_x}" using part [OF p(1,2)] p(3) by (auto simp: parts(2))
  qed
  have sides: "length (filter (\<lambda>i. i \<in> set on_x) (group_of c corpus)) = ?n c" if c: "c \<in> ?cats" for c
  proof -
    have "map_of (ids_by_category corpus) c = Some (group_of c corpus)" using c by (simp add: ids_by_category_lookup)
    then have mem: "(c, group_of c corpus) \<in> set (ids_by_category corpus)" by (rule map_of_SomeD)
    then obtain p where p: "p \<in> set parts" "category_placement seed sha counts (c, group_of c corpus) = Inr p"
      using mapE_image [OF parts(1)] by blast
    show ?thesis
      using on_group [OF p(2) mem p(1)] part [OF p(2) mem] length_filter_card [OF group_of_distinct [OF distinct]] by metis
  qed
  have group_rows: "length (filter (\<lambda>r. row_category r = c) (filter (\<lambda>r. row_id r \<in> set on_x) corpus)) =
      length (filter (\<lambda>i. i \<in> set on_x) (group_of c corpus))" for c
    by (induction corpus) (auto simp: group_of_def)
  have "length (filter (\<lambda>r. row_id r \<in> set on_x) corpus) =
      (\<Sum>c \<in> ?cats. length (filter (\<lambda>r. row_category r = c) (filter (\<lambda>r. row_id r \<in> set on_x) corpus)))"
    by (rule sum_filter_length [symmetric]) auto
  also have "\<dots> = (\<Sum>c \<in> ?cats. the (map_of counts c))"
    unfolding group_rows by (intro sum.cong refl) (simp only: sides extra(1) option.sel)
  also have "\<dots> = sum_list (map snd counts)" using sum_dict [OF keys(1), of "\<lambda>_ n. n"] by (simp add: keys(2))
  finally show thesis using that [of extra owner] sides extra(2) total by simp
qed

text \<open>Half of every category, and half of the corpus, up to one.\<close>

lemma first_on_x_balanced:
  assumes "first_on_x seed sha corpus = Inr on_x" "distinct (map row_id corpus)"
  shows "\<bar>2 * int (length (filter (\<lambda>i. i \<in> set on_x) (group_of c corpus))) - int (length (group_of c corpus))\<bar> \<le> 1"
    "\<bar>2 * int (length (filter (\<lambda>r. row_id r \<in> set on_x) corpus)) - int (length corpus)\<bar> \<le> 1"
proof -
  obtain owner extra where s:
    "\<And>c. c \<in> row_category ` set corpus \<Longrightarrow>
       length (filter (\<lambda>i. i \<in> set on_x) (group_of c corpus)) = length (group_of c corpus) div 2 + of_bool (c \<in> extra)"
    "\<And>c. c \<in> extra \<Longrightarrow> odd (length (group_of c corpus))"
    "length (filter (\<lambda>r. row_id r \<in> set on_x) corpus) = target_count (length corpus) owner"
    by (rule first_on_x_sides [OF assms]) (rule that)
  have half: "\<bar>2 * int (n div 2 + of_bool b) - int n\<bar> \<le> 1" if "b \<Longrightarrow> odd n" for n b
    using that by (cases b; cases "odd n") (auto elim!: oddE)
  show "\<bar>2 * int (length (filter (\<lambda>i. i \<in> set on_x) (group_of c corpus))) - int (length (group_of c corpus))\<bar> \<le> 1"
  proof (cases "c \<in> row_category ` set corpus")
    case True
    show ?thesis unfolding s(1) [OF True] by (rule half) (rule s(2))
  next
    case False
    then have "group_of c corpus = []" by (simp add: group_of_Nil_iff)
    then show ?thesis by simp
  qed
  show "\<bar>2 * int (length (filter (\<lambda>r. row_id r \<in> set on_x) corpus)) - int (length corpus)\<bar> \<le> 1"
    unfolding s(3) using half [of "odd (length corpus) \<and> odd (hd owner)" "length corpus"] by (auto simp: target_count_def)
qed

end
