(* ===== verification/Blind_Facts.thy ===== *)
theory Blind_Facts
  imports Blind_Placement Probe_Facts
begin

text \<open>
  What an accepted unblinding key promises: its cases are well formed and distinct, every case shows
  both backends, and the sides are balanced over all cases and within every category.
\<close>

section \<open>Counting sides\<close>

definition x_count :: "string \<Rightarrow> KeyCase list \<Rightarrow> int" where
  "x_count label cases = int (length (filter (\<lambda>c. kc_x_backend c = label) cases))"

definition y_count :: "string \<Rightarrow> KeyCase list \<Rightarrow> int" where
  "y_count label cases = int (length (filter (\<lambda>c. kc_y_backend c = label) cases))"

definition in_category :: "string \<Rightarrow> KeyCase list \<Rightarrow> KeyCase list" where
  "in_category category cases = filter (\<lambda>c. kc_category c = category) cases"

definition backends :: "string list" where
  "backends = [''hazkey'', ''mozc'']"

definition balanced :: "KeyCase list \<Rightarrow> bool" where
  "balanced cases \<longleftrightarrow> \<bar>x_count ''hazkey'' cases - x_count ''mozc'' cases\<bar> \<le> 1"

lemma count_in_counted: "count_in (counted l d) k = count_in d k + of_bool (k = l)"
  by (simp add: count_in_def counted_def)

lemma count_in_foldl:
  "count_in (foldl (\<lambda>d c. counted (f c) d) d cs) k = count_in d k + int (length (filter (\<lambda>c. f c = k) cs))"
  by (induction cs arbitrary: d) (auto simp: count_in_counted)

lemma count_in_zero [simp]: "count_in (zero_counts labels) k = 0"
  by (induction labels) (simp_all add: count_in_def zero_counts_def)

lemma keys_counted: "l \<in> set (keys d) \<Longrightarrow> keys (counted l d) = keys d"
  by (simp add: counted_def keys_dict_set)

lemma keys_counts:
  "\<forall>c \<in> set cs. f c \<in> set (keys d) \<Longrightarrow> keys (foldl (\<lambda>d c. counted (f c) d) d cs) = keys d"
  by (induction cs arbitrary: d) (auto simp: keys_counted)

section \<open>Scanning the cases\<close>

definition key_case_valid :: "string list \<Rightarrow> KeyCase \<Rightarrow> bool" where
  "key_case_valid labels c \<longleftrightarrow>
     kc_case c \<noteq> [] \<and> kc_original_id c \<noteq> [] \<and> kc_reading c \<noteq> [] \<and> kc_category c \<noteq> [] \<and>
     kc_expected c \<noteq> [] \<and> [] \<notin> set (kc_expected c) \<and> kc_x_backend c \<noteq> [] \<and> kc_y_backend c \<noteq> [] \<and>
     {kc_x_backend c, kc_y_backend c} = set labels \<and> sha256_pattern (kc_record_sha256 c)"

definition key_case_doc :: "json \<Rightarrow> KeyCase \<Rightarrow> bool" where
  "key_case_doc raw c \<longleftrightarrow>
     (\<exists>d. raw = JObj d \<and>
        set (keys d) = {''case'', ''original_id'', ''reading'', ''category'', ''expected'', ''x_backend'', ''y_backend'',
          ''review_record_sha256''} \<and>
        map_of d ''case'' = Some (JStr (kc_case c)) \<and> map_of d ''original_id'' = Some (JStr (kc_original_id c)) \<and>
        map_of d ''reading'' = Some (JStr (kc_reading c)) \<and> map_of d ''category'' = Some (JStr (kc_category c)) \<and>
        map_of d ''expected'' = Some (str_arr (kc_expected c)) \<and>
        map_of d ''x_backend'' = Some (JStr (kc_x_backend c)) \<and> map_of d ''y_backend'' = Some (JStr (kc_y_backend c)) \<and>
        map_of d ''review_record_sha256'' = Some (JStr (kc_record_sha256 c)))"

lemma blind_sha256_iff [simp]: "blind_sha256 v ctx = Inr s \<longleftrightarrow> v = JStr s \<and> sha256_pattern s"
  by (auto simp: blind_sha256_def split: json.splits)

lemma key_case_doc_json: "key_case_doc (key_case_json c) c"
  by (simp add: key_case_doc_def key_case_json_def)

lemma parse_key_case_iff:
  "parse_key_case path labels seen index raw = Inr c \<longleftrightarrow>
     key_case_doc raw c \<and> key_case_valid labels c \<and>
     kc_case c \<notin> kc_case ` set seen \<and> kc_original_id c \<notin> kc_original_id ` set seen" (is "?l = ?r")
proof
  assume ?l
  let ?ctx = "at_index (path @ ''.cases'') index"
  obtain d a o' reading category vs expected x y sha and u1 u2 u3 u4 u5 :: unit where d: "as_object raw ?ctx = Inr d"
    "exact_fields d [''case'', ''original_id'', ''reading'', ''category'', ''expected'', ''x_backend'',
               ''y_backend'', ''review_record_sha256''] ?ctx = Inr u1"
    and f: "item as_string d ''case'' ?ctx = Inr a" "item as_string d ''original_id'' ?ctx = Inr o'"
      "raise_if (a \<in> kc_case ` set seen) (ValueError (path @ '': duplicate opaque case '')) = Inr u2"
      "raise_if (o' \<in> kc_original_id ` set seen) (ValueError (path @ '': duplicate original id '')) = Inr u3"
      "item as_string d ''reading'' ?ctx = Inr reading" "item as_string d ''category'' ?ctx = Inr category"
    and g: "item as_array d ''expected'' ?ctx = Inr vs" "raise_if (vs = []) (ValueError (?ctx @ ''.expected must not be empty'')) = Inr u4"
      "mapiE (\<lambda>i v. as_string v (at_index (dot ?ctx ''expected'') i)) 0 vs = Inr expected"
    and h: "item as_string d ''x_backend'' ?ctx = Inr x" "item as_string d ''y_backend'' ?ctx = Inr y"
      "raise_if ({x, y} \<noteq> set labels) (ValueError (?ctx @ '': x/y backends do not match key backends'')) = Inr u5"
      "item blind_sha256 d ''review_record_sha256'' ?ctx = Inr sha"
    and c: "\<lparr>kc_case = a, kc_original_id = o', kc_reading = reading, kc_category = category, kc_expected = expected,
      kc_x_backend = x, kc_y_backend = y, kc_record_sha256 = sha\<rparr> = c"
    using \<open>?l\<close> unfolding parse_key_case_def Let_def
    by (elim bindE_elim) (drule sum.inject(2) [THEN iffD1], rule that, assumption+)
  show ?r
    using d f g h unfolding c [symmetric] key_case_doc_def key_case_valid_def
    by (simp add: str_arr_def mapiE_strings)
next
  assume r: ?r
  then obtain d where d: "raw = JObj d"
    "set (keys d) = {''case'', ''original_id'', ''reading'', ''category'', ''expected'', ''x_backend'', ''y_backend'',
      ''review_record_sha256''}"
    "map_of d ''case'' = Some (JStr (kc_case c))" "map_of d ''original_id'' = Some (JStr (kc_original_id c))"
    "map_of d ''reading'' = Some (JStr (kc_reading c))" "map_of d ''category'' = Some (JStr (kc_category c))"
    "map_of d ''expected'' = Some (JArr (map JStr (kc_expected c)))"
    "map_of d ''x_backend'' = Some (JStr (kc_x_backend c))" "map_of d ''y_backend'' = Some (JStr (kc_y_backend c))"
    "map_of d ''review_record_sha256'' = Some (JStr (kc_record_sha256 c))"
    by (auto simp: key_case_doc_def str_arr_def)
  have get: "\<And>k v. map_of d k = Some v \<Longrightarrow> item f d k ctx = f v (dot ctx k)" for f :: "json \<Rightarrow> string \<Rightarrow> 'b res" and ctx
    by (simp add: item_def get_item_def)
  have strings: "mapiE (\<lambda>j v. as_string v (f j)) i (map JStr (kc_expected c)) = Inr (kc_expected c)" for f i
    using r by (simp add: mapiE_strings key_case_valid_def)
  have accessors: "as_string (JStr t) ctx = Inr t" "blind_sha256 (JStr u) ctx = Inr u"
    if "t \<noteq> []" "sha256_pattern u" for t u ctx using that by simp_all
  show ?l
    unfolding parse_key_case_def Let_def d(1)
    using r by (simp add: d(2) get [OF d(3)] get [OF d(4)] get [OF d(5)] get [OF d(6)] get [OF d(7)] get [OF d(8)] get [OF d(9)]
      get [OF d(10)] as_object_def as_array_def strings accessors key_case_valid_def exact_fields_def raise_if_def)
qed

definition category_step ::
  "string list \<Rightarrow> (string \<times> (string \<times> int) list) list \<Rightarrow> KeyCase \<Rightarrow> (string \<times> (string \<times> int) list) list" where
  "category_step labels d c =
     dict_set (kc_category c)
       (counted (kc_x_backend c)
         (case map_of d (kc_category c) of None \<Rightarrow> zero_counts labels | Some counts \<Rightarrow> counts)) d"

definition scan_of :: "string list \<Rightarrow> KeyCase list \<Rightarrow> KeyScan" where
  "scan_of labels cases =
     \<lparr>ks_cases = cases, ks_x = foldl (\<lambda>d c. counted (kc_x_backend c) d) (zero_counts labels) cases,
      ks_y = foldl (\<lambda>d c. counted (kc_y_backend c) d) (zero_counts labels) cases,
      ks_categories = foldl (category_step labels) [] cases\<rparr>"

definition cases_ok :: "string list \<Rightarrow> KeyCase list \<Rightarrow> bool" where
  "cases_ok labels cases \<longleftrightarrow>
     list_all (key_case_valid labels) cases \<and> distinct (map kc_case cases) \<and> distinct (map kc_original_id cases)"

lemma scan_step_iff:
  assumes "cases_ok labels seen"
  shows "scan_key_case path labels (scan_of labels seen) (index, raw) = Inr st \<longleftrightarrow>
    (\<exists>c. key_case_doc raw c \<and> cases_ok labels (seen @ [c]) \<and> st = scan_of labels (seen @ [c]))"
  using assms
  by (auto simp: scan_key_case_def parse_key_case_iff scan_of_def category_step_def cases_ok_def)

lemma scan_cases_iff:
  assumes "cases_ok labels seen"
  shows "foldE (scan_key_case path labels) (scan_of labels seen) (zip [k..<k + length raws] raws) = Inr st \<longleftrightarrow>
    (\<exists>cases. list_all2 key_case_doc raws cases \<and> cases_ok labels (seen @ cases) \<and> st = scan_of labels (seen @ cases))"
  using assms
proof (induction raws arbitrary: seen k)
  case (Cons raw raws)
  have zip: "zip [k..<k + length (raw # raws)] (raw # raws) = (k, raw) # zip [Suc k..<Suc k + length raws] raws"
    by (simp add: upt_rec)
  have prefix: "cases_ok labels (seen @ c # cases) \<Longrightarrow> cases_ok labels (seen @ [c])" for c cases
    by (auto simp: cases_ok_def)
  show ?case
  proof
    assume "foldE (scan_key_case path labels) (scan_of labels seen) (zip [k..<k + length (raw # raws)] (raw # raws)) = Inr st"
    then obtain mid where mid: "scan_key_case path labels (scan_of labels seen) (k, raw) = Inr mid"
      "foldE (scan_key_case path labels) mid (zip [Suc k..<Suc k + length raws] raws) = Inr st"
      unfolding zip by auto
    obtain c where c: "key_case_doc raw c" "cases_ok labels (seen @ [c])" "mid = scan_of labels (seen @ [c])"
      using mid(1) unfolding scan_step_iff [OF Cons.prems] by blast
    then obtain cases where "list_all2 key_case_doc raws cases" "cases_ok labels ((seen @ [c]) @ cases)"
      "st = scan_of labels ((seen @ [c]) @ cases)"
      using mid(2) Cons.IH [OF c(2), of "Suc k"] by auto
    then show "\<exists>cases. list_all2 key_case_doc (raw # raws) cases \<and> cases_ok labels (seen @ cases) \<and> st = scan_of labels (seen @ cases)"
      using c(1) by (intro exI [of _ "c # cases"]) simp
  next
    assume "\<exists>cases. list_all2 key_case_doc (raw # raws) cases \<and> cases_ok labels (seen @ cases) \<and> st = scan_of labels (seen @ cases)"
    then obtain c cases where c: "key_case_doc raw c" "list_all2 key_case_doc raws cases"
      "cases_ok labels (seen @ c # cases)" "st = scan_of labels (seen @ c # cases)"
      by (auto simp: list_all2_Cons1)
    have "scan_key_case path labels (scan_of labels seen) (k, raw) = Inr (scan_of labels (seen @ [c]))"
      unfolding scan_step_iff [OF Cons.prems] using c prefix by blast
    moreover have "foldE (scan_key_case path labels) (scan_of labels (seen @ [c])) (zip [Suc k..<Suc k + length raws] raws) = Inr st"
      using Cons.IH [OF prefix [OF c(3)], of "Suc k"] c by auto
    ultimately show "foldE (scan_key_case path labels) (scan_of labels seen) (zip [k..<k + length (raw # raws)] (raw # raws)) = Inr st"
      unfolding zip by simp
  qed
qed auto

lemma scan_key_cases_iff:
  "scan_key_cases path labels raws = Inr st \<longleftrightarrow>
     (\<exists>cases. list_all2 key_case_doc raws cases \<and> cases_ok labels cases \<and> st = scan_of labels cases)"
  using scan_cases_iff [of labels "[]" path 0 raws st] by (simp add: scan_key_cases_def scan_of_def cases_ok_def)

lemma category_step_lookup:
  "map_of (category_step labels d c) k =
     (if k = kc_category c
      then Some (counted (kc_x_backend c) (case map_of d k of None \<Rightarrow> zero_counts labels | Some counts \<Rightarrow> counts))
      else map_of d k)"
  by (simp add: category_step_def)

lemma category_counts_lookup:
  "map_of (foldl (category_step labels) [] cases) category =
     (if category \<in> kc_category ` set cases
      then Some (foldl (\<lambda>d c. counted (kc_x_backend c) d) (zero_counts labels) (in_category category cases)) else None)"
proof (induction cases arbitrary: category rule: rev_induct)
  case (snoc c cs)
  have none: "kc_category c \<notin> kc_category ` set cs \<Longrightarrow> in_category (kc_category c) cs = []"
    unfolding in_category_def filter_empty_conv by (metis image_eqI)
  have split: "in_category k (cs @ [c]) = in_category k cs @ (if kc_category c = k then [c] else [])" for k
    by (simp add: in_category_def)
  show ?case
    unfolding split foldl_append
    using snoc [of category] none
    by (cases "category = kc_category c"; cases "kc_category c \<in> kc_category ` set cs") (auto simp: category_step_lookup)
qed simp

lemma category_steps_distinct: "distinct (keys (foldl (category_step labels) [] cases))"
proof (induction cases rule: rev_induct)
  case (snoc c cs)
  then show ?case unfolding foldl_append by (simp add: category_step_def [of labels _ c])
qed simp

section \<open>The parts of a key\<close>

lemma check_integrity_iff [simp]:
  "check_integrity d ctx message = Inr i \<longleftrightarrow>
     map_of d ''integrity'' = Some (JStr i) \<and> (\<exists>text. canonical_json (JObj (without_integrity d)) = Inr text \<and> i = sha256_bytes text)"
  by (auto simp: check_integrity_def)

lemma validate_top_k_iff [simp]:
  "validate_top_k d ctx = Inr k \<longleftrightarrow> map_of d ''top_k'' = Some (JInt k) \<and> 1 \<le> k \<and> k \<le> 10"
  by (auto simp: validate_top_k_def)

lemma validate_key_corpus_iff:
  "validate_key_corpus key path = Inr (contract, n) \<longleftrightarrow>
     (\<exists>d s. map_of key ''corpus'' = Some (JObj d) \<and> set (keys d) = {''sha256'', ''case_contract_sha256'', ''cases''} \<and>
        map_of d ''sha256'' = Some (JStr s) \<and> sha256_pattern s \<and>
        map_of d ''case_contract_sha256'' = Some (JStr contract) \<and> sha256_pattern contract \<and>
        map_of d ''cases'' = Some (JInt n) \<and> 0 < n)" (is "?l \<longleftrightarrow> ?r")
proof
  assume ?l
  then show ?r
    unfolding validate_key_corpus_def Let_def by (elim bindE_elim) force
next
  assume ?r
  then show ?l
    unfolding validate_key_corpus_def Let_def by (elim exE conjE) simp
qed

lemma backends_sorted: "sort [''hazkey'', ''mozc''] = [''hazkey'', ''mozc'']" "sort [''mozc'', ''hazkey''] = [''hazkey'', ''mozc'']"
  "''hazkey'' \<le> ''mozc''" "\<not> ''mozc'' \<le> ''hazkey''"
  by code_simp+

lemma two_labels:
  assumes "length labels = 2" "set labels = {''hazkey'', ''mozc''}" "labels = sort labels"
  shows "labels = backends"
proof -
  from assms(1) obtain a b where l: "labels = [a, b]" by (auto simp: numeral_2_eq_2 length_Suc_conv)
  then consider "a = ''hazkey''" "b = ''mozc''" | "a = ''mozc''" "b = ''hazkey''"
    using assms(2) by (auto simp: doubleton_eq_iff)
  then show ?thesis using assms(3) backends_sorted(2) by cases (simp_all add: l backends_def)
qed

lemma mapiE_length: "mapiE f i xs = Inr ys \<Longrightarrow> length ys = length xs"
  by (induction xs arbitrary: i ys) auto

lemma validate_backends_labels:
  assumes "validate_backends key path = Inr labels" shows "labels = backends"
proof -
  obtain raws bs where "length raws = 2" "mapiE (validate_backend path) 0 raws = Inr bs" and labels: "labels = map fst bs"
    and l: "set labels = {''hazkey'', ''mozc''}" "labels = sort labels"
    using assms unfolding validate_backends_def Let_def by (elim bindE_elim) auto
  then have "length labels = 2" by (simp add: mapiE_length)
  then show ?thesis using l by (rule two_labels)
qed

definition side_doc :: "string list \<Rightarrow> obj \<Rightarrow> string \<Rightarrow> (string \<times> int) list \<Rightarrow> bool" where
  "side_doc labels placement side counts \<longleftrightarrow>
     (\<exists>raw. map_of placement side = Some (JObj raw) \<and> set (keys raw) = set labels \<and>
        (\<forall>l \<in> set labels. map_of raw l = Some (JInt (count_in counts l)) \<and> 0 \<le> count_in counts l))"

lemma mapE_counts:
  "mapE (\<lambda>l. item probe_count raw l ctx) labels = Inr vs \<and> vs = map g labels \<longleftrightarrow>
     vs = map g labels \<and> (\<forall>l \<in> set labels. map_of raw l = Some (JInt (g l)) \<and> 0 \<le> g l)"
  by (induction labels arbitrary: vs) auto

lemma validate_side_iff:
  "validate_side path labels placement (side, counts) = Inr u \<longleftrightarrow> side_doc labels placement side counts"
proof -
  have "validate_side path labels placement (side, counts) = Inr u \<longleftrightarrow>
      (\<exists>raw. map_of placement side = Some (JObj raw) \<and> set (keys raw) = set labels \<and>
        (\<exists>vs. mapE (\<lambda>l. item probe_count raw l (dot (dot path ''placement'') side)) labels = Inr vs \<and>
          vs = map (count_in counts) labels))"
    by (auto simp: validate_side_def Let_def)
  then show ?thesis by (simp only: side_doc_def mapE_counts) auto
qed

lemma unbalanced_counts:
  "unbalanced backends (foldl (\<lambda>d c. counted (kc_x_backend c) d) (zero_counts labels) cases) \<longleftrightarrow> \<not> balanced cases"
  by (simp add: unbalanced_def backends_def balanced_def x_count_def count_in_foldl not_le)

lemma category_counts_member:
  assumes "(category, counts) \<in> set (foldl (category_step labels) [] cases)"
  shows "counts = foldl (\<lambda>d c. counted (kc_x_backend c) d) (zero_counts labels) (in_category category cases)"
proof -
  have "map_of (foldl (category_step labels) [] cases) category = Some counts"
    using assms category_steps_distinct [of labels cases] by (simp add: keys_def)
  then show ?thesis by (simp add: category_counts_lookup split: if_splits)
qed

lemma balanced_categories:
  "(\<forall>p \<in> set (foldl (category_step backends) [] cases). \<not> unbalanced backends (snd p)) \<longleftrightarrow>
     (\<forall>category. balanced (in_category category cases))"
proof
  assume l: "\<forall>p \<in> set (foldl (category_step backends) [] cases). \<not> unbalanced backends (snd p)"
  show "\<forall>category. balanced (in_category category cases)"
  proof
    fix category
    show "balanced (in_category category cases)"
    proof (cases "category \<in> kc_category ` set cases")
      case True
      then have "map_of (foldl (category_step backends) [] cases) category =
          Some (foldl (\<lambda>d c. counted (kc_x_backend c) d) (zero_counts backends) (in_category category cases))"
        by (simp add: category_counts_lookup)
      then show ?thesis using l unbalanced_counts by (metis map_of_SomeD snd_conv)
    next
      case False
      then have "in_category category cases = []" unfolding in_category_def filter_empty_conv by (metis image_eqI)
      then show ?thesis by (simp add: balanced_def x_count_def)
    qed
  qed
next
  assume "\<forall>category. balanced (in_category category cases)"
  then show "\<forall>p \<in> set (foldl (category_step backends) [] cases). \<not> unbalanced backends (snd p)"
    by (auto dest!: category_counts_member simp: unbalanced_counts)
qed

lemma validate_placement_iff:
  "validate_placement key path backends (scan_of backends cases) = Inr u \<longleftrightarrow>
     (\<exists>placement. map_of key ''placement'' = Some (JObj placement) \<and> set (keys placement) = {''x'', ''y''} \<and>
        side_doc backends placement ''x'' (ks_x (scan_of backends cases)) \<and>
        side_doc backends placement ''y'' (ks_y (scan_of backends cases))) \<and>
     balanced cases \<and> (\<forall>category. balanced (in_category category cases))"
  unfolding balanced_categories [symmetric]
  by (simp add: validate_placement_def validate_side_iff unbalanced_counts scan_of_def case_prod_unfold) blast

section \<open>What an accepted key promises\<close>

definition key_promises :: "obj \<Rightarrow> BlindKey \<Rightarrow> bool" where
  "key_promises key k \<longleftrightarrow>
     bk_doc k = key \<and> bk_labels k = backends \<and>
     bk_cases k \<noteq> [] \<and> bk_case_count k = int (length (bk_cases k)) \<and> 1 \<le> bk_top_k k \<and> bk_top_k k \<le> 10 \<and>
     cases_ok backends (bk_cases k) \<and>
     balanced (bk_cases k) \<and> (\<forall>category. balanced (in_category category (bk_cases k))) \<and>
     (\<exists>corpus contract. map_of key ''corpus'' = Some (JObj corpus) \<and>
        canonical_json (key_contract (bk_cases k)) = Inr contract \<and>
        map_of corpus ''case_contract_sha256'' = Some (JStr (sha256_bytes contract))) \<and>
     (\<exists>text. canonical_json (JObj (without_integrity key)) = Inr text \<and>
        map_of key ''integrity'' = Some (JStr (sha256_bytes text)) \<and> bk_integrity k = sha256_bytes text)"

lemma check_key_promises:
  assumes "check_key key path = Inr k" shows "key_promises key k"
proof -
  obtain review_sha256 source_ref top_k integrity cc labels raw_cases scan contract and u1 u2 u3 :: unit where
    top: "validate_top_k key path = Inr top_k"
    and integrity: "check_integrity key path '': key integrity mismatch'' = Inr integrity"
    and corpus: "validate_key_corpus key path = Inr cc"
    and labels: "validate_backends key path = Inr labels"
    and len: "raise_if (int (length raw_cases) \<noteq> snd cc)
      (ValueError (path @ ''.cases length does not match corpus.cases'')) = Inr u1"
    and scan: "scan_key_cases path labels raw_cases = Inr scan"
    and contract: "canonical_json (key_contract (ks_cases scan)) = Inr contract"
      "raise_if (fst cc \<noteq> sha256_bytes contract) (ValueError (path @ '': corpus case contract hash mismatch'')) = Inr u2"
    and placement: "validate_placement key path labels scan = Inr u3"
    and k: "k = \<lparr>bk_doc = key, bk_source_ref = source_ref, bk_top_k = top_k, bk_review_sha256 = review_sha256,
          bk_integrity = integrity, bk_case_count = snd cc, bk_labels = labels, bk_cases = ks_cases scan\<rparr>"
    using assms unfolding check_key_def split_def
    by (elim bindE_elim) (drule sum.inject(2) [THEN iffD1], rule that, assumption, assumption, assumption,
      assumption, assumption, assumption, assumption, assumption, assumption, rule sym, assumption)
  obtain contract_sha256 case_count where cc: "cc = (contract_sha256, case_count)" by (cases cc)
  have l: "labels = backends" by (rule validate_backends_labels [OF labels])
  obtain cases where cases: "list_all2 key_case_doc raw_cases cases" "cases_ok backends cases" "scan = scan_of backends cases"
    using scan unfolding l scan_key_cases_iff by blast
  have ks: "ks_cases scan = cases" by (simp add: cases(3) scan_of_def)
  have n: "case_count = int (length cases)" "0 < case_count"
    using len corpus list_all2_lengthD [OF cases(1)] by (auto simp: cc validate_key_corpus_iff)
  have bal: "balanced cases" "\<forall>category. balanced (in_category category cases)"
    using placement unfolding l cases(3) validate_placement_iff by blast+
  have "\<exists>d. map_of key ''corpus'' = Some (JObj d) \<and> map_of d ''case_contract_sha256'' = Some (JStr contract_sha256)"
    using corpus by (auto simp: cc validate_key_corpus_iff)
  then show ?thesis
    using top integrity contract cases(2) bal n by (auto simp: key_promises_def k l ks cc)
qed

end
