(* ===== verification/Blind_Outcomes.thy ===== *)
theory Blind_Outcomes
  imports Blind_Facts
begin

text \<open>
  The counts of a scored review: what the loop over the cases adds up is a matter of filtering them,
  and it does not depend on the side a backend was shown on.
\<close>

section \<open>One judgment\<close>

definition outcome_step :: "string \<Rightarrow> string \<Rightarrow> string \<Rightarrow> string \<Rightarrow> Outcome \<Rightarrow> Outcome" where
  "outcome_step x_backend y_backend judgment label =
     (if judgment = ''tie'' then add_tie
      else if judgment = ''both_bad'' then add_both_bad
      else if winner_label x_backend y_backend judgment = Some label then add_win else add_loss)"

definition apply_outcome :: "string \<Rightarrow> string \<Rightarrow> string \<Rightarrow> outcomes \<Rightarrow> outcomes" where
  "apply_outcome x_backend y_backend judgment outcomes =
     map (\<lambda>(l, o'). (l, outcome_step x_backend y_backend judgment l o')) outcomes"

definition shows_both :: "KeyCase \<Rightarrow> bool" where
  "shows_both c \<longleftrightarrow> {kc_x_backend c, kc_y_backend c} = {''hazkey'', ''mozc''}"

lemma keys_apply_outcome [simp]: "keys (apply_outcome x y j os) = keys os"
  by (simp add: apply_outcome_def keys_def case_prod_unfold)

lemma two_outcomes:
  assumes "keys os = backends" obtains h m where "os = [(''hazkey'', h), (''mozc'', m)]"
proof -
  obtain p q where "os = [p, q]" using assms by (auto simp: keys_def backends_def Cons_eq_map_conv)
  with assms that show thesis by (cases p; cases q) (auto simp: backends_def)
qed

lemma record_outcome_apply:
  assumes "keys os = backends" "{x, y} = {''hazkey'', ''mozc''}"
  shows "record_outcome x y j os = Inr (apply_outcome x y j os)"
proof -
  obtain h m where os: "os = [(''hazkey'', h), (''mozc'', m)]" using two_outcomes [OF assms(1)] .
  consider "x = ''hazkey''" "y = ''mozc''" | "x = ''mozc''" "y = ''hazkey''"
    using assms(2) by (auto simp: doubleton_eq_iff)
  then show ?thesis
    by cases (simp_all add: os record_outcome_def update_outcome_def apply_outcome_def outcome_step_def winner_label_def Let_def)
qed

section \<open>The loop\<close>

definition judged :: "(string \<times> string) list \<Rightarrow> KeyCase \<Rightarrow> string" where
  "judged judgments c = the (map_of judgments (kc_case c))"

definition case_outcome :: "(string \<times> string) list \<Rightarrow> outcomes \<Rightarrow> KeyCase \<Rightarrow> outcomes" where
  "case_outcome judgments os c = apply_outcome (kc_x_backend c) (kc_y_backend c) (judged judgments c) os"

definition category_outcomes ::
  "(string \<times> string) list \<Rightarrow> (string \<times> outcomes) list \<Rightarrow> KeyCase \<Rightarrow> (string \<times> outcomes) list" where
  "category_outcomes judgments d c =
     dict_set (kc_category c)
       (case_outcome judgments (case map_of d (kc_category c) of None \<Rightarrow> empty_outcomes backends | Some os \<Rightarrow> os) c) d"

definition scoring_of :: "(string \<times> string) list \<Rightarrow> KeyCase list \<Rightarrow> Scoring" where
  "scoring_of judgments cases =
     \<lparr>sc_outcomes = foldl (case_outcome judgments) (empty_outcomes backends) cases,
      sc_categories = foldl (category_outcomes judgments) [] cases,
      sc_category_counts = foldl (\<lambda>d c. counted (kc_category c) d) [] cases,
      sc_judgments = foldl (\<lambda>d c. counted (judged judgments c) d) [] cases,
      sc_cases = map (\<lambda>c. unblinded_case c (judged judgments c)) cases\<rparr>"

lemma keys_case_outcome [simp]: "keys (case_outcome js os c) = keys os"
  by (simp add: case_outcome_def)

lemma keys_outcomes: "keys (foldl (case_outcome js) os cases) = keys os"
  by (induction cases arbitrary: os) simp_all

lemma keys_empty_outcomes [simp]: "keys (empty_outcomes labels) = labels"
  by (simp add: empty_outcomes_def keys_def comp_def)

lemma category_outcomes_lookup:
  "map_of (category_outcomes js d c) k =
     (if k = kc_category c
      then Some (case_outcome js (case map_of d k of None \<Rightarrow> empty_outcomes backends | Some os \<Rightarrow> os) c) else map_of d k)"
  by (simp add: category_outcomes_def)

lemma category_fold_lookup:
  "map_of (foldl (category_outcomes js) [] cases) category =
     (if category \<in> kc_category ` set cases
      then Some (foldl (case_outcome js) (empty_outcomes backends) (in_category category cases)) else None)"
proof (induction cases arbitrary: category rule: rev_induct)
  case (snoc c cs)
  have none: "kc_category c \<notin> kc_category ` set cs \<Longrightarrow> in_category (kc_category c) cs = []"
    unfolding in_category_def filter_empty_conv by (metis image_eqI)
  have split: "in_category k (cs @ [c]) = in_category k cs @ (if kc_category c = k then [c] else [])" for k
    by (simp add: in_category_def)
  show ?case
    unfolding split foldl_append
    using snoc [of category] none
    by (cases "category = kc_category c"; cases "kc_category c \<in> kc_category ` set cs") (auto simp: category_outcomes_lookup)
qed simp

lemma category_fold_distinct: "distinct (keys (foldl (category_outcomes js) [] cases))"
proof (induction cases rule: rev_induct)
  case (snoc c cs)
  then show ?case unfolding foldl_append by (simp add: category_outcomes_def [of js _ c])
qed simp

lemma score_case_step:
  assumes "shows_both c" "map_of js (kc_case c) \<noteq> None"
  shows "score_case backends js (scoring_of js cs) c = Inr (scoring_of js (cs @ [c]))"
proof -
  obtain j where j: "map_of js (kc_case c) = Some j" using assms(2) by blast
  let ?previous = "case map_of (foldl (category_outcomes js) [] cs) (kc_category c) of
      None \<Rightarrow> empty_outcomes backends | Some os \<Rightarrow> os"
  have "keys ?previous = backends"
    by (simp add: category_fold_lookup keys_outcomes)
  then have cat: "record_outcome (kc_x_backend c) (kc_y_backend c) j ?previous =
      Inr (apply_outcome (kc_x_backend c) (kc_y_backend c) j ?previous)"
    using assms(1) unfolding shows_both_def by (rule record_outcome_apply)
  have all: "record_outcome (kc_x_backend c) (kc_y_backend c) j (foldl (case_outcome js) (empty_outcomes backends) cs) =
      Inr (apply_outcome (kc_x_backend c) (kc_y_backend c) j (foldl (case_outcome js) (empty_outcomes backends) cs))"
    using assms(1) unfolding shows_both_def by (intro record_outcome_apply) (simp add: keys_outcomes)
  show ?thesis
    by (simp add: score_case_def scoring_of_def j cat all Let_def case_outcome_def [of js _ c]
      category_outcomes_def [of js _ c] judged_def)
qed

lemma bindE_Inr_right [simp]: "bindE m Inr = m"
  by (cases m) auto

lemma foldE_snoc: "foldE f s (xs @ [x]) = bindE (foldE f s xs) (\<lambda>t. f t x)"
  by (induction xs arbitrary: s) (simp_all add: bindE_assoc)

lemma score_cases_eq:
  assumes "bk_labels key = backends" "\<forall>c \<in> set (bk_cases key). shows_both c \<and> map_of js (kc_case c) \<noteq> None"
  shows "score_cases key js = Inr (scoring_of js (bk_cases key))"
proof -
  have "foldE (score_case backends js) (scoring_of js []) cs = Inr (scoring_of js cs)"
    if "\<forall>c \<in> set cs. shows_both c \<and> map_of js (kc_case c) \<noteq> None" for cs
    using that by (induction cs rule: rev_induct) (simp_all add: foldE_snoc score_case_step)
  then show ?thesis using assms by (simp add: score_cases_def scoring_of_def)
qed

section \<open>Counting by filtering\<close>

definition judged_outcome :: "(string \<times> string) list \<Rightarrow> KeyCase list \<Rightarrow> string \<Rightarrow> Outcome" where
  "judged_outcome judgments cases label =
     (let winner = \<lambda>c. winner_label (kc_x_backend c) (kc_y_backend c) (judged judgments c);
          number = \<lambda>P. length (filter P cases)
      in \<lparr>oc_wins = number (\<lambda>c. winner c = Some label),
          oc_losses = number (\<lambda>c. winner c \<noteq> None \<and> winner c \<noteq> Some label),
          oc_ties = number (\<lambda>c. judged judgments c = ''tie''),
          oc_both_bad = number (\<lambda>c. judged judgments c = ''both_bad'')\<rparr>)"

lemma judged_outcome_snoc:
  "judged_outcome js (cs @ [c]) l = outcome_step (kc_x_backend c) (kc_y_backend c) (judged js c) l (judged_outcome js cs l)"
  by (simp add: judged_outcome_def outcome_step_def winner_label_def add_tie_def add_both_bad_def add_win_def add_loss_def Let_def)

lemma outcomes_by_filtering:
  "foldl (case_outcome js) (empty_outcomes labels) cases = map (\<lambda>l. (l, judged_outcome js cases l)) labels"
proof (induction cases rule: rev_induct)
  case Nil
  then show ?case by (simp add: empty_outcomes_def judged_outcome_def no_outcome_def)
next
  case (snoc c cs)
  then show ?case by (simp add: case_outcome_def [of js _ c] apply_outcome_def judged_outcome_snoc comp_def)
qed

text \<open>What the scores of a review promise.\<close>

definition scores_ok :: "BlindKey \<Rightarrow> (string \<times> string) list \<Rightarrow> Scoring \<Rightarrow> bool" where
  "scores_ok key judgments st \<longleftrightarrow>
     sc_outcomes st = map (\<lambda>l. (l, judged_outcome judgments (bk_cases key) l)) backends \<and>
     (\<forall>category. map_of (sc_categories st) category =
        (if category \<in> kc_category ` set (bk_cases key)
         then Some (map (\<lambda>l. (l, judged_outcome judgments (in_category category (bk_cases key)) l)) backends) else None)) \<and>
     distinct (keys (sc_categories st)) \<and>
     (\<forall>category. count_in (sc_category_counts st) category = int (length (in_category category (bk_cases key)))) \<and>
     (\<forall>j. count_in (sc_judgments st) j = int (length (filter (\<lambda>c. judged judgments c = j) (bk_cases key)))) \<and>
     sc_cases st = map (\<lambda>c. unblinded_case c (judged judgments c)) (bk_cases key)"

lemma count_in_Nil [simp]: "count_in [] k = 0"
  by (simp add: count_in_def)

lemma scoring_of_ok: "scores_ok key js (scoring_of js (bk_cases key))"
  by (simp add: scores_ok_def scoring_of_def outcomes_by_filtering category_fold_lookup category_fold_distinct
    count_in_foldl in_category_def)

lemma promised_cases_show_both: "key_promises d k \<Longrightarrow> c \<in> set (bk_cases k) \<Longrightarrow> shows_both c"
  by (auto simp: key_promises_def cases_ok_def list_all_iff key_case_valid_def shows_both_def backends_def)

lemma score_accepted_key:
  assumes "check_key d path = Inr k" "kc_case ` set (bk_cases k) \<subseteq> set (keys js)"
  shows "score_cases k js = Inr (scoring_of js (bk_cases k))"
proof (rule score_cases_eq)
  have p: "key_promises d k" by (rule check_key_promises [OF assms(1)])
  then show "bk_labels k = backends" by (simp add: key_promises_def)
  show "\<forall>c \<in> set (bk_cases k). shows_both c \<and> map_of js (kc_case c) \<noteq> None"
    using promised_cases_show_both [OF p] assms(2) map_of_keys [of js] by auto
qed

section \<open>Conservation\<close>

lemma one_winner:
  "shows_both c \<Longrightarrow> winner_label (kc_x_backend c) (kc_y_backend c) j \<in> {None, Some ''hazkey'', Some ''mozc''}"
  by (auto simp: winner_label_def shows_both_def doubleton_eq_iff)

lemma outcomes_conserved:
  assumes "\<forall>c \<in> set cases. shows_both c"
  shows "oc_wins (judged_outcome js cases ''hazkey'') = oc_losses (judged_outcome js cases ''mozc'')"
    "oc_losses (judged_outcome js cases ''hazkey'') = oc_wins (judged_outcome js cases ''mozc'')"
    "oc_wins (judged_outcome js cases l) + oc_losses (judged_outcome js cases l) + oc_ties (judged_outcome js cases l) +
       oc_both_bad (judged_outcome js cases l) = length cases"
proof -
  let ?w = "\<lambda>c. winner_label (kc_x_backend c) (kc_y_backend c) (judged js c)"
  have w: "?w c = Some ''hazkey'' \<longleftrightarrow> ?w c \<noteq> None \<and> ?w c \<noteq> Some ''mozc''"
    "?w c \<noteq> None \<and> ?w c \<noteq> Some ''hazkey'' \<longleftrightarrow> ?w c = Some ''mozc''" if "c \<in> set cases" for c
    using one_winner [of c "judged js c"] assms that by auto
  have "filter (\<lambda>c. ?w c = Some ''hazkey'') cases = filter (\<lambda>c. ?w c \<noteq> None \<and> ?w c \<noteq> Some ''mozc'') cases"
    by (rule filter_cong [OF refl]) (rule w(1))
  moreover have "filter (\<lambda>c. ?w c \<noteq> None \<and> ?w c \<noteq> Some ''hazkey'') cases = filter (\<lambda>c. ?w c = Some ''mozc'') cases"
    by (rule filter_cong [OF refl]) (rule w(2))
  ultimately show "oc_wins (judged_outcome js cases ''hazkey'') = oc_losses (judged_outcome js cases ''mozc'')"
    "oc_losses (judged_outcome js cases ''hazkey'') = oc_wins (judged_outcome js cases ''mozc'')"
    by (simp_all only: judged_outcome_def Let_def Outcome.select_convs)
  show "oc_wins (judged_outcome js cases l) + oc_losses (judged_outcome js cases l) + oc_ties (judged_outcome js cases l) +
       oc_both_bad (judged_outcome js cases l) = length cases"
    by (induction cases) (auto simp: judged_outcome_def Let_def winner_label_def)
qed

section \<open>Blindness\<close>

definition swap_sides :: "KeyCase \<Rightarrow> KeyCase" where
  "swap_sides c = c\<lparr>kc_x_backend := kc_y_backend c, kc_y_backend := kc_x_backend c\<rparr>"

definition flip_judgment :: "string \<Rightarrow> string" where
  "flip_judgment j = (if j = ''x'' then ''y'' else if j = ''y'' then ''x'' else j)"

text \<open>Showing the cases of a set \<open>F\<close> of handles the other way round, judged accordingly.\<close>

definition swap_case_in :: "string set \<Rightarrow> KeyCase \<Rightarrow> KeyCase" where
  "swap_case_in F c = (if kc_case c \<in> F then swap_sides c else c)"

definition swap_judgments :: "string set \<Rightarrow> (string \<times> string) list \<Rightarrow> (string \<times> string) list" where
  "swap_judgments F judgments = map (\<lambda>(i, j). (i, if i \<in> F then flip_judgment j else j)) judgments"

definition swapped_key :: "string set \<Rightarrow> BlindKey \<Rightarrow> BlindKey" where
  "swapped_key F key = key\<lparr>bk_cases := map (swap_case_in F) (bk_cases key)\<rparr>"

lemma winner_flip:
  "j \<in> set ALLOWED_JUDGMENTS \<Longrightarrow> winner_label y x (flip_judgment j) = winner_label x y j"
  by (auto simp: ALLOWED_JUDGMENTS_def winner_label_def flip_judgment_def)

lemma step_flip:
  "j \<in> set ALLOWED_JUDGMENTS \<Longrightarrow> outcome_step y x (flip_judgment j) l = outcome_step x y j l"
  by (auto simp: ALLOWED_JUDGMENTS_def outcome_step_def winner_label_def flip_judgment_def)

lemma swap_judgments_lookup:
  "map_of (swap_judgments F js) i = map_option (\<lambda>j. if i \<in> F then flip_judgment j else j) (map_of js i)"
  by (induction js) (auto simp: swap_judgments_def)

lemma swap_case_in_simps [simp]:
  "kc_case (swap_case_in F c) = kc_case c" "kc_category (swap_case_in F c) = kc_category c"
  "shows_both (swap_case_in F c) = shows_both c"
  by (auto simp: swap_case_in_def swap_sides_def shows_both_def insert_commute)

lemma case_outcome_swap:
  assumes "map_of js (kc_case c) = Some j" "j \<in> set ALLOWED_JUDGMENTS"
  shows "case_outcome (swap_judgments F js) os (swap_case_in F c) = case_outcome js os c"
  using assms step_flip [OF assms(2)]
  by (simp add: case_outcome_def judged_def swap_judgments_lookup apply_outcome_def)
    (simp add: swap_case_in_def swap_sides_def)

lemma foldl_map_cong: "(\<And>s x. x \<in> set xs \<Longrightarrow> f s (g x) = h s x) \<Longrightarrow> foldl f s (map g xs) = foldl h s xs"
  by (induction xs arbitrary: s) auto

lemma scoring_swap:
  assumes "\<forall>c \<in> set cases. \<exists>j \<in> set ALLOWED_JUDGMENTS. map_of js (kc_case c) = Some j"
  shows "sc_outcomes (scoring_of (swap_judgments F js) (map (swap_case_in F) cases)) = sc_outcomes (scoring_of js cases)"
    "sc_categories (scoring_of (swap_judgments F js) (map (swap_case_in F) cases)) = sc_categories (scoring_of js cases)"
    "sc_category_counts (scoring_of (swap_judgments F js) (map (swap_case_in F) cases)) = sc_category_counts (scoring_of js cases)"
proof -
  have step: "case_outcome (swap_judgments F js) os (swap_case_in F c) = case_outcome js os c" if "c \<in> set cases" for os c
    using case_outcome_swap assms that by blast
  show "sc_outcomes (scoring_of (swap_judgments F js) (map (swap_case_in F) cases)) = sc_outcomes (scoring_of js cases)"
    unfolding scoring_of_def Scoring.select_convs by (rule foldl_map_cong) (rule step)
  show "sc_categories (scoring_of (swap_judgments F js) (map (swap_case_in F) cases)) = sc_categories (scoring_of js cases)"
    unfolding scoring_of_def Scoring.select_convs
    by (rule foldl_map_cong) (simp add: category_outcomes_def step)
  show "sc_category_counts (scoring_of (swap_judgments F js) (map (swap_case_in F) cases)) = sc_category_counts (scoring_of js cases)"
    unfolding scoring_of_def Scoring.select_convs by (rule foldl_map_cong) simp
qed

end
