(* ===== verification/Blind_Packing.thy ===== *)
theory Blind_Packing
  imports Blind_Outcomes
begin

text \<open>
  The packet that \<open>prepare\<close> builds: every key it writes passes the validation that scoring starts with,
  and the review file is determined by the corpus, the seed and the candidates alone.
\<close>

section \<open>Loaded inputs\<close>

definition case_strings :: "ProbeCase \<Rightarrow> bool" where
  "case_strings c \<longleftrightarrow>
     pr_backend c \<noteq> [] \<and> pr_backend_version c \<noteq> [] \<and> pr_source_ref c \<noteq> [] \<and> 0 \<le> pr_warmups c \<and>
     (pr_schema c = INPUT_SCHEMA_V3 \<longrightarrow>
        (\<exists>l. pr_converter_backend c = Some l \<and> l \<noteq> [] \<and>
           map_of V2_RESOURCE_KIND_BY_CONVERTER l = Some (res_kind (pr_resource c))) \<and>
        res_path (pr_resource c) \<noteq> [] \<and> res_fingerprint (pr_resource c) \<noteq> [] \<and>
        (\<exists>k. pr_top_k c = Some k \<and> 1 \<le> k \<and> k \<le> 10))"

lemma schemas_distinct: "INPUT_SCHEMA_V3 \<noteq> INPUT_SCHEMA_V1"
  by (simp add: INPUT_SCHEMA_V1_def INPUT_SCHEMA_V3_def)

lemma probe_resource_v3:
  assumes "probe_resource d INPUT_SCHEMA_V3 ctx = Inr (r, converter)"
  shows "\<exists>l. converter = Some l \<and> l \<noteq> [] \<and> map_of V2_RESOURCE_KIND_BY_CONVERTER l = Some (res_kind r)"
    "res_path r \<noteq> []" "res_fingerprint r \<noteq> []"
proof -
  obtain raw kind path fingerprint l where
    s: "required_as as_string raw ''kind'' (dot ctx ''resource'') = Inr kind"
    "required_as as_string raw ''path'' (dot ctx ''resource'') = Inr path"
    "required_as as_string raw ''fingerprint'' (dot ctx ''resource'') = Inr fingerprint"
    "required_as as_string d ''converter_backend'' ctx = Inr l"
    and r: "(case map_of V2_RESOURCE_KIND_BY_CONVERTER l of
          None \<Rightarrow> Inl (ValueError (ctx @ ''.converter_backend must be hazkey or mozc''))
        | Some expected_resource_kind \<Rightarrow>
            bindE (raise_if (kind \<noteq> expected_resource_kind)
                     (ValueError (ctx @ ''.resource.kind must be ''))) (\<lambda>_.
            Inr (\<lparr>res_kind = kind, res_path = path, res_fingerprint = fingerprint\<rparr>, Some l))) = Inr (r, converter)"
    using assms unfolding probe_resource_def if_not_P [OF schemas_distinct] by (elim bindE_elim) (rule that)
  obtain k where k: "map_of V2_RESOURCE_KIND_BY_CONVERTER l = Some k"
    using r by (cases "map_of V2_RESOURCE_KIND_BY_CONVERTER l") auto
  have r': "k = kind" "r = \<lparr>res_kind = kind, res_path = path, res_fingerprint = fingerprint\<rparr>" "converter = Some l"
    using r by (auto simp: k)
  show "\<exists>l. converter = Some l \<and> l \<noteq> [] \<and> map_of V2_RESOURCE_KIND_BY_CONVERTER l = Some (res_kind r)"
    using s(4) k r' by auto
  show "res_path r \<noteq> []" "res_fingerprint r \<noteq> []" using s r' by auto
qed

lemma validate_result_strings:
  assumes "validate_result payload ctx = Inr c" shows "case_strings c"
proof -
  obtain d schema scope samples rs m backend version source where
    s: "required_as as_string d ''backend'' ctx = Inr backend" "required_as as_string d ''backend_version'' ctx = Inr version"
    "required_as as_string d ''source_ref'' ctx = Inr source"
    "probe_resource d schema ctx = Inr rs"
    "probe_scope d schema ctx = Inr scope"
    "probe_samples m (dot ctx ''measurement'') = Inr samples"
    "pr_schema c = schema" "pr_backend c = backend" "pr_backend_version c = version" "pr_source_ref c = source"
    "pr_resource c = fst rs" "pr_converter_backend c = snd rs" "pr_top_k c = fst (snd scope)" "pr_warmups c = fst samples"
    using assms unfolding validate_result_def Let_def split_def
    by (elim bindE_elim) (drule sum.inject(2) [THEN iffD1], hypsubst, rule that, assumption, assumption, assumption,
      assumption, assumption, assumption, (simp only: ProbeCase.select_convs)+)
  have "0 \<le> fst samples"
    using s(6) unfolding probe_samples_def Let_def by (elim bindE_elim) auto
  moreover have "backend \<noteq> []" "version \<noteq> []" "source \<noteq> []" using s(1-3) by auto
  moreover have "\<exists>k. fst (snd scope) = Some k \<and> 1 \<le> k \<and> k \<le> 10" if "schema = INPUT_SCHEMA_V3"
    using probe_scope_ok [of d ctx "fst scope" "fst (snd scope)" "snd (snd scope)"] s(5) that by auto
  moreover note probe_resource_v3 [of d ctx "fst rs" "snd rs"]
  ultimately show ?thesis using s(4,7-14) by (auto simp: case_strings_def)
qed

lemma load_run_strings:
  assumes "load_run_bytes data path = Inr run" shows "case_strings (run_first run)"
proof -
  obtain numbered cases where f: "foldE (probe_line path) [] numbered = Inr cases" and "cases \<noteq> []" "run_first run = hd cases"
  proof (cases "utf8_decode data")
    case (Some contents)
    show thesis
      using assms unfolding load_run_bytes_def Some option.case Let_def
      by (elim bindE_elim) (rule that, assumption; auto split: list.split_asm)
  qed (use assms in \<open>simp add: load_run_bytes_def\<close>)
  moreover have "\<forall>c \<in> set cases. case_strings c"
  proof (rule foldE_invariant [where P = "\<lambda>cs. \<forall>c \<in> set cs. case_strings c", OF f])
    fix cs x cs' assume inv: "\<forall>c \<in> set cs. case_strings c" and step: "probe_line path cs x = Inr cs'"
    obtain n line where x: "x = (n, line)" by (cases x)
    show "\<forall>c \<in> set cs'. case_strings c"
    proof (cases "list_all space_code line")
      case True
      then show ?thesis using step inv by (simp add: probe_line_def x)
    next
      case False
      then obtain payload ctx c where "validate_result payload ctx = Inr c" "cs' = cs @ [c]"
        using step by (auto simp: probe_line_def x Let_def split: presult.splits)
      then show ?thesis using inv validate_result_strings by auto
    qed
  qed simp
  ultimately show ?thesis by simp
qed

section \<open>Packing one case\<close>

definition case_packed :: "CorpusRow list \<Rightarrow> ProbeRun \<Rightarrow> ProbeRun \<Rightarrow> string list \<Rightarrow> KeyCase \<Rightarrow> bool" where
  "case_packed corpus first second on_x c \<longleftrightarrow>
     (\<exists>r \<in> set corpus. row_id r = kc_original_id c \<and> kc_reading c = row_reading r \<and>
        kc_category c = row_category r \<and> kc_expected c = alternatives (row_expected r)) \<and>
     kc_case c \<noteq> [] \<and> sha256_pattern (kc_record_sha256 c) \<and>
     (kc_x_backend c, kc_y_backend c) =
       (if kc_original_id c \<in> set on_x then (run_label first, run_label second) else (run_label second, run_label first))"

lemma pack_case_step:
  assumes "pack_case seed sha corpus first second on_x st i = Inr st'"
  obtains c rendered where "case_packed corpus first second on_x c" "kc_original_id c = i" "kc_case c \<notin> set (pk_opaque st)"
    "st' = \<lparr>pk_opaque = kc_case c # pk_opaque st, pk_records = pk_records st @ [rendered],
       pk_cases = pk_cases st @ [c], pk_x = counted (kc_x_backend c) (pk_x st), pk_y = counted (kc_y_backend c) (pk_y st)\<rparr>"
proof -
  define x_run y_run where "x_run = (if i \<in> set on_x then first else second)" and "y_run = (if i \<in> set on_x then second else first)"
  have runs: "(if i \<in> set on_x then (first, second) else (second, first)) = (x_run, y_run)"
    by (simp add: x_run_def y_run_def)
  obtain blind_id r encoded where o: "blind_id \<notin> set (pk_opaque st)" "blind_id \<noteq> []" "find (\<lambda>r. row_id r = i) corpus = Some r"
    and st': "\<exists>rendered. st' = \<lparr>pk_opaque = blind_id # pk_opaque st, pk_records = pk_records st @ [rendered],
              pk_cases = pk_cases st @
                [\<lparr>kc_case = blind_id, kc_original_id = i, kc_reading = row_reading r,
                  kc_category = row_category r, kc_expected = alternatives (row_expected r),
                  kc_x_backend = run_label x_run, kc_y_backend = run_label y_run,
                  kc_record_sha256 = sha256_bytes encoded\<rparr>],
              pk_x = counted (run_label x_run) (pk_x st), pk_y = counted (run_label y_run) (pk_y st)\<rparr>"
    using assms unfolding pack_case_def runs Let_def prod.case
    by (elim bindE_elim) (auto split: option.splits)
  have r: "r \<in> set corpus" "row_id r = i" using o(3) by (auto simp: find_Some_iff)
  from st' obtain rendered where "st' = \<lparr>pk_opaque = blind_id # pk_opaque st, pk_records = pk_records st @ [rendered],
              pk_cases = pk_cases st @
                [\<lparr>kc_case = blind_id, kc_original_id = i, kc_reading = row_reading r,
                  kc_category = row_category r, kc_expected = alternatives (row_expected r),
                  kc_x_backend = run_label x_run, kc_y_backend = run_label y_run,
                  kc_record_sha256 = sha256_bytes encoded\<rparr>],
              pk_x = counted (run_label x_run) (pk_x st), pk_y = counted (run_label y_run) (pk_y st)\<rparr>" by blast
  with o(1,2) r show thesis
    by (intro that [of "\<lparr>kc_case = blind_id, kc_original_id = i, kc_reading = row_reading r,
                  kc_category = row_category r, kc_expected = alternatives (row_expected r),
                  kc_x_backend = run_label x_run, kc_y_backend = run_label y_run,
                  kc_record_sha256 = sha256_bytes encoded\<rparr>" rendered])
      (auto simp: case_packed_def x_run_def y_run_def)
qed

text \<open>The state after a list of cases, in the counters that the validation uses.\<close>

definition packed :: "CorpusRow list \<Rightarrow> ProbeRun \<Rightarrow> ProbeRun \<Rightarrow> string list \<Rightarrow> (string \<times> int) list \<Rightarrow> string list \<Rightarrow> Packing \<Rightarrow> bool" where
  "packed corpus first second on_x none ids st \<longleftrightarrow>
     map kc_original_id (pk_cases st) = ids \<and> set (pk_opaque st) = kc_case ` set (pk_cases st) \<and>
     distinct (map kc_case (pk_cases st)) \<and> (\<forall>c \<in> set (pk_cases st). case_packed corpus first second on_x c) \<and>
     pk_x st = foldl (\<lambda>d c. counted (kc_x_backend c) d) none (pk_cases st) \<and>
     pk_y st = foldl (\<lambda>d c. counted (kc_y_backend c) d) none (pk_cases st)"

lemma pack_all:
  assumes "foldE (pack_case seed sha corpus first second on_x) st0 ids = Inr st"
    "packed corpus first second on_x none before st0"
  shows "packed corpus first second on_x none (before @ ids) st"
  using assms
proof (induction ids arbitrary: st0 before)
  case (Cons i ids)
  then obtain mid where mid: "pack_case seed sha corpus first second on_x st0 i = Inr mid"
    "foldE (pack_case seed sha corpus first second on_x) mid ids = Inr st" by auto
  obtain c rendered where c: "case_packed corpus first second on_x c" "kc_original_id c = i" "kc_case c \<notin> set (pk_opaque st0)"
    "mid = \<lparr>pk_opaque = kc_case c # pk_opaque st0, pk_records = pk_records st0 @ [rendered],
       pk_cases = pk_cases st0 @ [c], pk_x = counted (kc_x_backend c) (pk_x st0), pk_y = counted (kc_y_backend c) (pk_y st0)\<rparr>"
    using pack_case_step [OF mid(1)] .
  have "packed corpus first second on_x none (before @ [i]) mid"
    using Cons.prems(2) c by (auto simp: packed_def)
  from Cons.IH [OF mid(2) this] show ?case by simp
qed simp

lemma pack_cases_packed:
  assumes "pack_cases seed sha corpus first second = Inr st"
  obtains ids on_x where "mset ids = mset (map row_id corpus)" "first_on_x seed sha corpus = Inr on_x"
    "packed corpus first second on_x [(run_label first, 0), (run_label second, 0)] ids st"
proof -
  obtain ids on_x where i: "sorted_by (\<lambda>i. domain_digest seed ''review-order-v1'' [sha, i]) (map row_id corpus) = Inr ids"
    "first_on_x seed sha corpus = Inr on_x"
    "foldE (pack_case seed sha corpus first second on_x)
       \<lparr>pk_opaque = [], pk_records = [], pk_cases = [], pk_x = [(run_label first, 0), (run_label second, 0)],
        pk_y = [(run_label first, 0), (run_label second, 0)]\<rparr> ids = Inr st"
    using assms unfolding pack_cases_def Let_def by (elim bindE_elim) (rule that)
  have "packed corpus first second on_x [(run_label first, 0), (run_label second, 0)] ([] @ ids) st"
    by (rule pack_all [OF i(3)]) (simp add: packed_def)
  then show thesis using that sorted_by_mset [OF i(1)] i(2) by simp
qed

section \<open>The backends of a prepared key\<close>

lemma run_label_v3:
  assumes "case_strings (run_first run)" "pr_schema (run_first run) = INPUT_SCHEMA_V3"
  shows "run_label run \<noteq> []" "run_label run = ''hazkey'' \<or> run_label run = ''mozc''"
    "map_of V2_RESOURCE_KIND_BY_CONVERTER (run_label run) = Some (res_kind (pr_resource (run_first run)))"
  using assms by (auto simp: case_strings_def run_label_def V2_RESOURCE_KIND_BY_CONVERTER_def split: if_splits)

definition metadata_fields :: "ProbeRun \<Rightarrow> string \<Rightarrow> obj" where
  "metadata_fields run data =
     [(''converter_backend'', JStr (run_label run)), (''probe_backend'', JStr (pr_backend (run_first run))),
      (''backend_version'', JStr (pr_backend_version (run_first run))),
      (''measurement'', JObj [(''warmups'', JInt (pr_warmups (run_first run))),
         (''iterations'', JInt (pr_iterations (run_first run)))]),
      (''resource'', resource_object (pr_resource (run_first run))), (''run_sha256'', JStr (sha256_bytes data))]"

lemma backend_metadata_fields: "backend_metadata run data = JObj (metadata_fields run data)"
  by (simp add: backend_metadata_def metadata_fields_def Let_def)

lemma validate_own_backend:
  assumes "case_strings (run_first run)" "pr_schema (run_first run) = INPUT_SCHEMA_V3" "0 < pr_iterations (run_first run)"
  shows "validate_backend path i (backend_metadata run data) = Inr (run_label run, metadata_fields run data)"
proof -
  note l = run_label_v3 [OF assms(1,2)]
  have s: "pr_backend (run_first run) \<noteq> []" "pr_backend_version (run_first run) \<noteq> []" "0 \<le> pr_warmups (run_first run)"
    "res_path (pr_resource (run_first run)) \<noteq> []" "res_fingerprint (pr_resource (run_first run)) \<noteq> []"
    using assms(1,2) by (simp_all add: case_strings_def)
  have kind: "res_kind (pr_resource (run_first run)) \<noteq> []"
    using l(2,3) by (auto simp: V2_RESOURCE_KIND_BY_CONVERTER_def split: if_splits)
  have m: "validate_measurement (metadata_fields run data) ctx = Inr ()" for ctx
    using assms(3) s(3) by (simp add: validate_measurement_def Let_def metadata_fields_def)
  have r: "validate_resource (metadata_fields run data) (run_label run) ctx = Inr ()" for ctx
    using l(3) s kind by (simp add: validate_resource_def Let_def metadata_fields_def resource_object_def)
  have f: "exact_fields (metadata_fields run data)
      [''converter_backend'', ''probe_backend'', ''backend_version'', ''measurement'', ''resource'', ''run_sha256''] ctx = Inr ()"
    for ctx by (simp add: metadata_fields_def)
  have g: "item as_string (metadata_fields run data) ''converter_backend'' ctx = Inr (run_label run)"
    "item as_string (metadata_fields run data) ''probe_backend'' ctx = Inr (pr_backend (run_first run))"
    "item as_string (metadata_fields run data) ''backend_version'' ctx = Inr (pr_backend_version (run_first run))"
    "item blind_sha256 (metadata_fields run data) ''run_sha256'' ctx = Inr (sha256_bytes data)" for ctx
    using s(1,2) l(1) by (simp_all add: metadata_fields_def)
  show ?thesis
    unfolding backend_metadata_fields validate_backend_def Let_def
    by (simp add: as_object_def f g m r del: exact_fields_iff item_iff)
qed

lemma same_metadata:
  assumes "pr_backend_version (run_first rb) = pr_backend_version (run_first ra)"
    "pr_warmups (run_first rb) = pr_warmups (run_first ra)" "pr_iterations (run_first rb) = pr_iterations (run_first ra)"
  shows "same_in_all path ''backend_version'' [metadata_fields ra da, metadata_fields rb db] = Inr ()"
    "same_in_all path ''measurement'' [metadata_fields ra da, metadata_fields rb db] = Inr ()"
  by (simp_all add: same_in_all_def metadata_fields_def get_item_def assms pyeq_JObj)

lemma validate_own_backends:
  assumes key: "map_of key ''backends'' = Some (JArr (map snd (sort_key fst
        [(run_label first, backend_metadata first d1), (run_label second, backend_metadata second d2)])))"
    and first: "case_strings (run_first first)" "pr_schema (run_first first) = INPUT_SCHEMA_V3" "0 < pr_iterations (run_first first)"
    and second: "case_strings (run_first second)" "pr_schema (run_first second) = INPUT_SCHEMA_V3" "0 < pr_iterations (run_first second)"
    and same: "pr_backend_version (run_first second) = pr_backend_version (run_first first)"
      "pr_warmups (run_first second) = pr_warmups (run_first first)"
      "pr_iterations (run_first second) = pr_iterations (run_first first)"
    and distinct: "run_label first \<noteq> run_label second"
  shows "validate_backends key path = Inr backends" "{run_label first, run_label second} = {''hazkey'', ''mozc''}"
proof -
  note labels = run_label_v3(2) [OF first(1,2)] run_label_v3(2) [OF second(1,2)] distinct
  then show "{run_label first, run_label second} = {''hazkey'', ''mozc''}" by auto
  have general: "validate_backends key path = Inr backends"
    if k: "map_of key ''backends'' = Some (JArr [backend_metadata a da, backend_metadata b db])"
      and a: "case_strings (run_first a)" "pr_schema (run_first a) = INPUT_SCHEMA_V3" "0 < pr_iterations (run_first a)"
      and b: "case_strings (run_first b)" "pr_schema (run_first b) = INPUT_SCHEMA_V3" "0 < pr_iterations (run_first b)"
      and same: "pr_backend_version (run_first b) = pr_backend_version (run_first a)"
        "pr_warmups (run_first b) = pr_warmups (run_first a)" "pr_iterations (run_first b) = pr_iterations (run_first a)"
      and l: "run_label a = ''hazkey''" "run_label b = ''mozc''" for a b da db
  proof -
    have "item as_array key ''backends'' path = Inr [backend_metadata a da, backend_metadata b db]"
      using k by simp
    moreover have "mapiE (validate_backend path) 0 [backend_metadata a da, backend_metadata b db] =
        Inr [(''hazkey'', metadata_fields a da), (''mozc'', metadata_fields b db)]"
      using validate_own_backend [OF a] validate_own_backend [OF b] by (simp add: l)
    moreover note same_metadata [OF same, of path da db]
    ultimately show ?thesis
      unfolding validate_backends_def Let_def
      by (simp add: backends_sorted(1) backends_def del: item_iff)
  qed
  consider "run_label first = ''hazkey''" "run_label second = ''mozc''" | "run_label first = ''mozc''" "run_label second = ''hazkey''"
    using labels by auto
  then show "validate_backends key path = Inr backends"
  proof cases
    case 1
    then have "map_of key ''backends'' = Some (JArr [backend_metadata first d1, backend_metadata second d2])"
      using key backends_sorted(3,4) by simp
    then show ?thesis using general [OF _ first second same] 1 by simp
  next
    case 2
    then have "map_of key ''backends'' = Some (JArr [backend_metadata second d2, backend_metadata first d1])"
      using key backends_sorted(3,4) by simp
    then show ?thesis using general [OF _ second first same [symmetric]] 2 by simp
  qed
qed

section \<open>The cases of a prepared key\<close>

lemma length_filter_mset: "mset xs = mset ys \<Longrightarrow> length (filter P xs) = length (filter P ys)"
  by (metis mset_filter size_mset)

lemma count_by_ids:
  assumes "mset (map kc_original_id cases) = mset (map row_id corpus)"
  shows "length (filter (\<lambda>c. P (kc_original_id c)) cases) = length (filter (\<lambda>r. P (row_id r)) corpus)"
  using length_filter_mset [OF assms, of P] by (simp add: filter_map comp_def)

definition packing_ok ::
  "nat list \<Rightarrow> string \<Rightarrow> CorpusRow list \<Rightarrow> ProbeRun \<Rightarrow> ProbeRun \<Rightarrow> string list \<Rightarrow> string list \<Rightarrow> Packing \<Rightarrow> bool" where
  "packing_ok seed sha corpus first second on_x ids st \<longleftrightarrow>
     packed corpus first second on_x [(run_label first, 0), (run_label second, 0)] ids st \<and>
     mset ids = mset (map row_id corpus) \<and> first_on_x seed sha corpus = Inr on_x \<and>
     {run_label first, run_label second} = {''hazkey'', ''mozc''} \<and> run_label first \<noteq> run_label second \<and>
     distinct (map row_id corpus) \<and> (\<forall>r \<in> set corpus. sound_row r)"

lemma packing_okD:
  assumes "packing_ok seed sha corpus first second on_x ids st"
  shows "packed corpus first second on_x [(run_label first, 0), (run_label second, 0)] ids st"
    "mset ids = mset (map row_id corpus)" "first_on_x seed sha corpus = Inr on_x"
    "{run_label first, run_label second} = {''hazkey'', ''mozc''}" "run_label first \<noteq> run_label second"
    "distinct (map row_id corpus)" "\<forall>r \<in> set corpus. sound_row r"
  using assms by (simp_all add: packing_ok_def)

lemma originals: "packing_ok seed sha corpus first second on_x ids st \<Longrightarrow> map kc_original_id (pk_cases st) = ids"
  by (simp add: packing_ok_def packed_def)

lemma original_ids:
  "packing_ok seed sha corpus first second on_x ids st \<Longrightarrow> mset (map kc_original_id (pk_cases st)) = mset (map row_id corpus)"
  by (simp add: originals packing_ok_def)

lemma case_of_row:
  "packing_ok seed sha corpus first second on_x ids st \<Longrightarrow> c \<in> set (pk_cases st) \<Longrightarrow> case_packed corpus first second on_x c"
  by (simp add: packing_ok_def packed_def)

lemma cases_valid:
  assumes p: "packing_ok seed sha corpus first second on_x ids st"
  shows "cases_ok backends (pk_cases st)"
proof -
  note labels = packing_okD(4,5) [OF p] and sound = packing_okD(7) [OF p] and unique = packing_okD(6) [OF p]
    and st = packing_okD(1) [OF p]
  have "key_case_valid backends c" if c: "c \<in> set (pk_cases st)" for c
  proof -
    obtain r where r: "r \<in> set corpus" "row_id r = kc_original_id c" "kc_reading c = row_reading r"
        "kc_category c = row_category r" "kc_expected c = alternatives (row_expected r)"
      and q: "kc_case c \<noteq> []" "sha256_pattern (kc_record_sha256 c)"
        "(kc_x_backend c, kc_y_backend c) = (run_label first, run_label second) \<or>
         (kc_x_backend c, kc_y_backend c) = (run_label second, run_label first)"
      using case_of_row [OF p c] unfolding case_packed_def by (auto split: if_splits)
    have "{kc_x_backend c, kc_y_backend c} = {run_label first, run_label second}" using q(3) by auto
    then have sides: "{kc_x_backend c, kc_y_backend c} = set backends" unfolding labels(1) by (simp add: backends_def)
    then have "kc_x_backend c \<in> set backends" "kc_y_backend c \<in> set backends" by blast+
    then have "kc_x_backend c \<noteq> []" "kc_y_backend c \<noteq> []" by (auto simp: backends_def)
    moreover have "sound_row r" using sound r(1) by blast
    moreover have "kc_expected c \<noteq> []" unfolding r(5) by (simp add: alternatives_def)
    ultimately show ?thesis
      using r(2-5) [symmetric] q(1,2) sides by (simp add: key_case_valid_def sound_row_def)
  qed
  moreover have "distinct (map kc_original_id (pk_cases st))"
    using unique mset_eq_imp_distinct_iff [OF original_ids [OF p]] by simp
  ultimately show ?thesis using st by (simp add: cases_ok_def packed_def list_all_iff)
qed

lemma cases_length:
  assumes p: "packing_ok seed sha corpus first second on_x ids st"
  shows "length (pk_cases st) = length corpus"
  using mset_eq_length [OF original_ids [OF p]] by simp

lemma scan_own_cases:
  assumes p: "packing_ok seed sha corpus first second on_x ids st"
  shows "scan_key_cases path backends (map key_case_json (pk_cases st)) = Inr (scan_of backends (pk_cases st))"
  unfolding scan_key_cases_iff using cases_valid [OF p]
  by (intro exI [of _ "pk_cases st"]) (simp add: list_all2_map1 list_all2_refl key_case_doc_json)

lemma sides_of_case:
  assumes p: "packing_ok seed sha corpus first second on_x ids st" and c: "c \<in> set (pk_cases st)"
  shows "kc_x_backend c = run_label first \<longleftrightarrow> kc_original_id c \<in> set on_x"
    "kc_x_backend c = run_label second \<longleftrightarrow> kc_original_id c \<notin> set on_x"
    "kc_x_backend c \<in> {run_label first, run_label second}" "kc_y_backend c \<in> {run_label first, run_label second}"
proof -
  have "(kc_x_backend c, kc_y_backend c) =
       (if kc_original_id c \<in> set on_x then (run_label first, run_label second) else (run_label second, run_label first))"
    using case_of_row [OF p c] by (simp only: case_packed_def)
  then show "kc_x_backend c = run_label first \<longleftrightarrow> kc_original_id c \<in> set on_x"
    "kc_x_backend c = run_label second \<longleftrightarrow> kc_original_id c \<notin> set on_x"
    "kc_x_backend c \<in> {run_label first, run_label second}" "kc_y_backend c \<in> {run_label first, run_label second}"
    using packing_okD(5) [OF p] by (cases "kc_original_id c \<in> set on_x"; simp)+
qed

lemma sides_of:
  assumes p: "packing_ok seed sha corpus first second on_x ids st" and sub: "set cs \<subseteq> set (pk_cases st)"
  shows "x_count (run_label first) cs = int (length (filter (\<lambda>c. kc_original_id c \<in> set on_x) cs))"
    "x_count (run_label second) cs = int (length cs) - int (length (filter (\<lambda>c. kc_original_id c \<in> set on_x) cs))"
proof -
  have "filter (\<lambda>c. kc_x_backend c = run_label first) cs = filter (\<lambda>c. kc_original_id c \<in> set on_x) cs"
    "filter (\<lambda>c. kc_x_backend c = run_label second) cs = filter (\<lambda>c. kc_original_id c \<notin> set on_x) cs"
    using sub sides_of_case(1,2) [OF p] by (auto intro!: filter_cong)
  then show "x_count (run_label first) cs = int (length (filter (\<lambda>c. kc_original_id c \<in> set on_x) cs))"
    "x_count (run_label second) cs = int (length cs) - int (length (filter (\<lambda>c. kc_original_id c \<in> set on_x) cs))"
    using sum_length_filter_compl [of "\<lambda>c. kc_original_id c \<in> set on_x" cs] by (simp_all add: x_count_def)
qed

lemma balanced_sides:
  assumes p: "packing_ok seed sha corpus first second on_x ids st" and sub: "set cs \<subseteq> set (pk_cases st)"
    and half: "\<bar>2 * int (length (filter (\<lambda>c. kc_original_id c \<in> set on_x) cs)) - int (length cs)\<bar> \<le> 1"
  shows "balanced cs"
proof -
  have "\<bar>x_count (run_label first) cs - x_count (run_label second) cs\<bar> \<le> 1"
    using half unfolding sides_of [OF p sub] by linarith
  then show ?thesis using packing_okD(4) [OF p] by (auto simp: balanced_def doubleton_eq_iff abs_minus_commute)
qed

lemma balanced_all:
  assumes p: "packing_ok seed sha corpus first second on_x ids st"
  shows "balanced (pk_cases st)"
  using first_on_x_balanced(2) [OF packing_okD(3,6) [OF p]] count_by_ids [OF original_ids [OF p], of "\<lambda>i. i \<in> set on_x"] cases_length [OF p]
  by (intro balanced_sides [OF p]) simp_all

lemma row_unique:
  "distinct (map row_id corpus) \<Longrightarrow> q \<in> set corpus \<Longrightarrow> r \<in> set corpus \<Longrightarrow> row_id q = row_id r \<Longrightarrow> q = r"
  by (auto simp: distinct_map inj_on_def)

lemma row_in_group:
  assumes "distinct (map row_id corpus)" "r \<in> set corpus"
  shows "row_id r \<in> set (group_of category corpus) \<longleftrightarrow> row_category r = category"
  using row_unique [OF assms(1) _ assms(2)] assms(2) by (auto simp: group_of_def)

lemma category_of_case:
  assumes p: "packing_ok seed sha corpus first second on_x ids st" and c: "c \<in> set (pk_cases st)"
  shows "kc_category c = category \<longleftrightarrow> kc_original_id c \<in> set (group_of category corpus)"
proof -
  obtain r where r: "r \<in> set corpus" "row_id r = kc_original_id c" "kc_category c = row_category r"
    using case_of_row [OF p c] unfolding case_packed_def by blast
  show ?thesis using row_in_group [OF packing_okD(6) [OF p] r(1)] r(2,3) by simp
qed

lemma count_in_category:
  assumes p: "packing_ok seed sha corpus first second on_x ids st"
  shows "length (filter (\<lambda>c. P (kc_original_id c)) (in_category category (pk_cases st))) = length (filter P (group_of category corpus))"
proof -
  have "filter (\<lambda>c. P (kc_original_id c)) (in_category category (pk_cases st)) =
      filter (\<lambda>c. P (kc_original_id c) \<and> kc_original_id c \<in> set (group_of category corpus)) (pk_cases st)"
    unfolding in_category_def filter_filter using category_of_case [OF p] by (intro filter_cong) auto
  also have "length \<dots> = length (filter (\<lambda>r. P (row_id r) \<and> row_id r \<in> set (group_of category corpus)) corpus)"
    by (rule count_by_ids [OF original_ids [OF p], of "\<lambda>i. P i \<and> i \<in> set (group_of category corpus)"])
  also have "filter (\<lambda>r. P (row_id r) \<and> row_id r \<in> set (group_of category corpus)) corpus =
      filter (\<lambda>r. P (row_id r) \<and> row_category r = category) corpus"
    using row_in_group [OF packing_okD(6) [OF p]] by (intro filter_cong refl) auto
  also have "length \<dots> = length (filter P (group_of category corpus))"
    by (simp add: group_of_def filter_map comp_def conj_commute)
  finally show ?thesis .
qed

lemma balanced_in_category:
  assumes p: "packing_ok seed sha corpus first second on_x ids st"
  shows "balanced (in_category category (pk_cases st))"
proof (rule balanced_sides [OF p])
  show "set (in_category category (pk_cases st)) \<subseteq> set (pk_cases st)" by (auto simp: in_category_def)
  show "\<bar>2 * int (length (filter (\<lambda>c. kc_original_id c \<in> set on_x) (in_category category (pk_cases st)))) -
      int (length (in_category category (pk_cases st)))\<bar> \<le> 1"
    using first_on_x_balanced(1) [OF packing_okD(3,6) [OF p], of category]
      count_in_category [OF p, of "\<lambda>i. i \<in> set on_x" category] count_in_category [OF p, of "\<lambda>i. True" category] by simp
qed

lemma contract_of_cases:
  assumes p: "packing_ok seed sha corpus first second on_x ids st"
  shows "key_contract (pk_cases st) = case_contract corpus"
proof -
  note unique = packing_okD(6) [OF p] and ids = packing_okD(2) [OF p]
  let ?case = "\<lambda>c. (kc_original_id c, kc_reading c, kc_expected c, kc_category c)"
  let ?row = "\<lambda>r. (row_id r, row_reading r, alternatives (row_expected r), row_category r)"
  let ?json = "\<lambda>(i, reading, expected, category). contract_case i reading expected category"
  define row_of where "row_of i = the (find (\<lambda>r. row_id r = i) corpus)" for i
  have row: "row_of (row_id r) = r" if "r \<in> set corpus" for r
  proof -
    have "find (\<lambda>q. row_id q = row_id r) corpus \<noteq> None"
      using that(1) by (auto simp: find_None_iff)
    then obtain q where q: "find (\<lambda>q. row_id q = row_id r) corpus = Some q" by blast
    then have "q \<in> set corpus" "row_id q = row_id r" by (auto simp: find_Some_iff)
    then have "q = r" using row_unique [OF unique] that by blast
    with q show ?thesis by (simp add: row_of_def)
  qed
  have per_case: "?case c = ?row (row_of (kc_original_id c))" if c: "c \<in> set (pk_cases st)" for c
  proof -
    obtain r where r: "r \<in> set corpus" "row_id r = kc_original_id c" "kc_reading c = row_reading r"
        "kc_category c = row_category r" "kc_expected c = alternatives (row_expected r)"
      using case_of_row [OF p c] unfolding case_packed_def by blast
    show ?thesis unfolding r(2) [symmetric] row [OF r(1)] unfolding r(2) r(3-5) ..
  qed
  have "map ?case (pk_cases st) = map (\<lambda>c. ?row (row_of (kc_original_id c))) (pk_cases st)"
    by (rule map_cong [OF refl per_case])
  then have "map ?case (pk_cases st) = map (\<lambda>i. ?row (row_of i)) ids"
    unfolding originals [OF p, symmetric] map_map comp_def .
  then have "mset (map ?case (pk_cases st)) = mset (map (\<lambda>i. ?row (row_of i)) ids)" by (rule arg_cong)
  also have "mset (map (\<lambda>i. ?row (row_of i)) ids) = mset (map (\<lambda>i. ?row (row_of i)) (map row_id corpus))"
    unfolding mset_map [of "\<lambda>i. ?row (row_of i)"] ids ..
  also have "map (\<lambda>i. ?row (row_of i)) (map row_id corpus) = map ?row corpus"
    using row by simp
  finally have same: "mset (map ?row corpus) = mset (map ?case (pk_cases st))" by simp
  have "inj_on fst (set (map ?row corpus))"
    using unique by (auto simp: distinct_map inj_on_def)
  then have "sort_key fst (map ?row corpus) = sort_key fst (map ?case (pk_cases st))"
    using same by (intro sort_key_inj_key_eq) simp_all
  then have "map ?row (sort_key row_id corpus) = map ?case (sort_key kc_original_id (pk_cases st))"
    by (simp add: sort_key_map)
  then have "map ?json (map ?row (sort_key row_id corpus)) = map ?json (map ?case (sort_key kc_original_id (pk_cases st)))"
    by simp
  then show ?thesis by (simp add: key_contract_def case_contract_def comp_def)
qed

lemma side_counts:
  fixes f :: "KeyCase \<Rightarrow> string"
  assumes p: "packing_ok seed sha corpus first second on_x ids st" and sides: "\<forall>c \<in> set (pk_cases st). f c \<in> {run_label first, run_label second}"
    and placement: "map_of placement side = Some (side_counts_json (foldl (\<lambda>d c. counted (f c) d) [(run_label first, 0), (run_label second, 0)] (pk_cases st)))"
  shows "side_doc backends placement side (foldl (\<lambda>d c. counted (f c) d) (zero_counts backends) (pk_cases st))"
proof -
  note labels = packing_okD(4,5) [OF p]
  let ?counts = "foldl (\<lambda>d c. counted (f c) d) [(run_label first, 0), (run_label second, 0)] (pk_cases st)"
  let ?raw = "map (\<lambda>(k, i). (k, JInt i)) (sort_key fst ?counts)"
  have keys: "keys ?counts = [run_label first, run_label second]"
    using sides by (subst keys_counts) (auto simp: keys_def)
  then have dist: "distinct (keys ?counts)" using labels(2) by simp
  have raw: "map_of placement side = Some (JObj ?raw)" using placement by (simp add: side_counts_json_def int_obj_def)
  have "set (keys ?raw) = set (keys ?counts)" by (force simp: keys_def)
  then have raw_keys: "set (keys ?raw) = set backends" using keys labels(1) by (simp add: backends_def)
  have "map_of ?raw l = map_option JInt (map_of ?counts l)" for l
    using dist by (simp add: map_of_map map_of_sort_key keys_def)
  moreover have "map_of ?counts l = Some (count_in ?counts l)" if "l \<in> set backends" for l
  proof -
    have "l \<in> set (keys ?counts)" using that keys labels(1) by (simp add: backends_def)
    then show ?thesis using map_of_keys [of ?counts l] by (auto simp: count_in_def)
  qed
  moreover have "count_in ?counts l = count_in (foldl (\<lambda>d c. counted (f c) d) (zero_counts backends) (pk_cases st)) l" for l
    by (simp add: count_in_foldl) (simp add: count_in_def)
  ultimately show ?thesis
    using raw raw_keys unfolding side_doc_def by (auto simp: count_in_foldl)
qed

end
