(* ===== verification/Blind_Prepared.thy ===== *)
theory Blind_Prepared
  imports Blind_Packing
begin

text \<open>
  The two halves of \<open>blind_conversion_ab.py\<close> together: the key that \<open>build_review_and_key\<close> writes
  passes the validation that scoring starts with, and the review it writes is a function of the corpus,
  the seed and the candidates.
\<close>

section \<open>The parts of a build\<close>

definition built ::
  "string \<times> string \<Rightarrow> string \<times> string \<Rightarrow> string \<times> string \<Rightarrow> string \<Rightarrow>
   CorpusRow list \<Rightarrow> ProbeRun \<Rightarrow> ProbeRun \<Rightarrow> string \<Rightarrow> Packing \<Rightarrow> string \<Rightarrow> obj \<Rightarrow> bool" where
  "built corpus_file first_file second_file seed corpus first second contract packing review base \<longleftrightarrow>
     load_corpus_bytes (snd corpus_file) (fst corpus_file) = Inr corpus \<and>
     load_run_bytes (snd first_file) (fst first_file) = Inr first \<and>
     load_run_bytes (snd second_file) (fst second_file) = Inr second \<and>
     validate_runs corpus (sha256_bytes (snd corpus_file)) first second = Inr () \<and>
     canonical_json (case_contract corpus) = Inr contract \<and>
     pack_cases (unhex seed) (sha256_bytes (snd corpus_file)) corpus first second = Inr packing \<and>
     (\<exists>lines. mapE (\<lambda>r. bindE (canonical_json r) (\<lambda>line. Inr (line @ [CHR 0x0A]))) (pk_records packing) = Inr lines \<and>
        review = concat lines) \<and>
     base = key_base (unhex seed) (sha256_bytes (snd corpus_file)) (sha256_bytes contract) corpus first
       (snd first_file) second (snd second_file) review packing"

lemma build_parts:
  assumes "build_review_and_key corpus_file first_file second_file seed = Inr (review, key)"
  obtains corpus first second contract packing base rendered where
    "built corpus_file first_file second_file seed corpus first second contract packing review base"
    "canonical_json (JObj base) = Inr rendered" "key = base @ [(''integrity'', JStr (sha256_bytes rendered))]"
proof -
  obtain u :: unit and corpus first second contract packing lines rendered where
    parts: "load_corpus_bytes (snd corpus_file) (fst corpus_file) = Inr corpus"
     "load_run_bytes (snd first_file) (fst first_file) = Inr first"
     "load_run_bytes (snd second_file) (fst second_file) = Inr second"
     "validate_runs corpus (sha256_bytes (snd corpus_file)) first second = Inr u"
     "canonical_json (case_contract corpus) = Inr contract"
     "pack_cases (unhex seed) (sha256_bytes (snd corpus_file)) corpus first second = Inr packing"
     "mapE (\<lambda>r. bindE (canonical_json r) (\<lambda>line. Inr (line @ [CHR 0x0A]))) (pk_records packing) = Inr lines"
     "canonical_json (JObj (key_base (unhex seed) (sha256_bytes (snd corpus_file)) (sha256_bytes contract) corpus first
       (snd first_file) second (snd second_file) (concat lines) packing)) = Inr rendered"
    and result: "(review, key) = (concat lines, key_base (unhex seed) (sha256_bytes (snd corpus_file)) (sha256_bytes contract)
       corpus first (snd first_file) second (snd second_file) (concat lines) packing @
       [(''integrity'', JStr (sha256_bytes rendered))])"
    using assms unfolding build_review_and_key_def split_def Let_def
    by (elim bindE_elim) (drule sum.inject(2) [THEN iffD1], rule that, assumption, assumption, assumption,
      assumption, assumption, assumption, assumption, assumption, rule sym, assumption)
  from result have r: "review = concat lines" "key = key_base (unhex seed) (sha256_bytes (snd corpus_file)) (sha256_bytes contract)
       corpus first (snd first_file) second (snd second_file) review packing @
       [(''integrity'', JStr (sha256_bytes rendered))]" by simp_all
  have v: "validate_runs corpus (sha256_bytes (snd corpus_file)) first second = Inr ()" using parts(4) by simp
  let ?base = "key_base (unhex seed) (sha256_bytes (snd corpus_file)) (sha256_bytes contract) corpus first
    (snd first_file) second (snd second_file) review packing"
  have "built corpus_file first_file second_file seed corpus first second contract packing review ?base"
    unfolding built_def r(1) using parts(1-3,5-7) v by blast
  then show thesis using that parts(8) r by blast
qed

lemma validated_runs:
  assumes "validate_runs corpus sha first second = Inr u"
  shows "pr_schema (run_first first) = INPUT_SCHEMA_V3" "pr_schema (run_first second) = INPUT_SCHEMA_V3"
    "run_label first \<noteq> run_label second"
    "pr_backend_version (run_first second) = pr_backend_version (run_first first)"
    "pr_warmups (run_first second) = pr_warmups (run_first first)"
    "pr_iterations (run_first second) = pr_iterations (run_first first)"
  using assms unfolding validate_runs_def Let_def bindE_Inr_iff raise_if_Inr_iff eachE_Inr_iff require_same_iff
  by (simp_all)

lemma loaded_run_first:
  assumes "load_run_bytes data path = Inr run" shows "0 < pr_iterations (run_first run)"
proof -
  have "run_cases run \<noteq> []" "run_first run = hd (run_cases run)" "\<forall>c \<in> set (run_cases run). probe_ok c"
    using load_run_ok [OF assms] by (simp_all add: run_ok_def)
  then have "probe_ok (run_first run)" by simp
  then show ?thesis by (simp add: probe_ok_def)
qed

lemma loaded_bytes_sound:
  assumes "load_corpus_bytes data ctx = Inr corpus"
  shows "corpus \<noteq> []" "distinct (map row_id corpus)" "\<forall>r \<in> set corpus. sound_row r"
proof -
  obtain rows where "load_corpus_rows rows ctx = Inr corpus"
    using assms unfolding load_corpus_bytes_def by (cases "utf8_decode data") auto
  then show "corpus \<noteq> []" "distinct (map row_id corpus)" "\<forall>r \<in> set corpus. sound_row r"
    using loaded_corpus_sound by blast+
qed


section \<open>A prepared key passes its validation\<close>

lemma built_packing:
  assumes b: "built corpus_file first_file second_file seed corpus first second contract packing review base"
  obtains ids on_x where "packing_ok (unhex seed) (sha256_bytes (snd corpus_file)) corpus first second on_x ids packing"
proof -
  note parts = b [unfolded built_def]
  note runs = validated_runs [of corpus "sha256_bytes (snd corpus_file)" first second "()"]
  have v: "validate_runs corpus (sha256_bytes (snd corpus_file)) first second = Inr ()"
    and l: "load_run_bytes (snd first_file) (fst first_file) = Inr first" "load_run_bytes (snd second_file) (fst second_file) = Inr second"
    and c: "load_corpus_bytes (snd corpus_file) (fst corpus_file) = Inr corpus"
    and p: "pack_cases (unhex seed) (sha256_bytes (snd corpus_file)) corpus first second = Inr packing"
    using parts by blast+
  have labels: "run_label first = ''hazkey'' \<or> run_label first = ''mozc''" "run_label second = ''hazkey'' \<or> run_label second = ''mozc''"
    using run_label_v3(2) [OF load_run_strings [OF l(1)] runs(1) [OF v]]
      run_label_v3(2) [OF load_run_strings [OF l(2)] runs(2) [OF v]] .
  then have pair: "{run_label first, run_label second} = {''hazkey'', ''mozc''}" using runs(3) [OF v] by auto
  obtain ids on_x where "mset ids = mset (map row_id corpus)" "first_on_x (unhex seed) (sha256_bytes (snd corpus_file)) corpus = Inr on_x"
    "packed corpus first second on_x [(run_label first, 0), (run_label second, 0)] ids packing"
    using pack_cases_packed [OF p] .
  then have "packing_ok (unhex seed) (sha256_bytes (snd corpus_file)) corpus first second on_x ids packing"
    using pair runs(3) [OF v] loaded_bytes_sound(2,3) [OF c] by (simp add: packing_ok_def)
  then show thesis by (rule that)
qed

lemma built_placement:
  assumes b: "built corpus_file first_file second_file seed corpus first second contract packing review base"
    and key: "map_of key ''placement'' = map_of base ''placement''"
  shows "validate_placement key path backends (scan_of backends (pk_cases packing)) = Inr ()"
proof -
  obtain ids on_x where p: "packing_ok (unhex seed) (sha256_bytes (snd corpus_file)) corpus first second on_x ids packing"
    using built_packing [OF b] .
  define placement where "placement = [(''x'', side_counts_json (pk_x packing)), (''y'', side_counts_json (pk_y packing))]"
  have "map_of key ''placement'' = Some (JObj placement)"
    using b by (simp add: built_def key key_base_def placement_def)
  moreover have "set (keys placement) = {''x'', ''y''}" by (simp add: placement_def)
  moreover have "side_doc backends placement ''x'' (ks_x (scan_of backends (pk_cases packing)))"
    unfolding scan_of_def KeyScan.select_convs
    by (rule side_counts [OF p])
      (use sides_of_case(3) [OF p] packing_okD(1) [OF p] in \<open>simp_all add: packed_def placement_def\<close>)
  moreover have "side_doc backends placement ''y'' (ks_y (scan_of backends (pk_cases packing)))"
    unfolding scan_of_def KeyScan.select_convs
    by (rule side_counts [OF p])
      (use sides_of_case(4) [OF p] packing_okD(1) [OF p] in \<open>simp_all add: packed_def placement_def\<close>)
  ultimately show ?thesis
    unfolding validate_placement_iff using balanced_all [OF p] balanced_in_category [OF p] by blast
qed

lemma built_backends:
  assumes b: "built corpus_file first_file second_file seed corpus first second contract packing review base"
    and key: "map_of key ''backends'' = map_of base ''backends''"
  shows "validate_backends key path = Inr backends"
proof -
  have v: "validate_runs corpus (sha256_bytes (snd corpus_file)) first second = Inr ()"
    and l: "load_run_bytes (snd first_file) (fst first_file) = Inr first" "load_run_bytes (snd second_file) (fst second_file) = Inr second"
    and base: "base = key_base (unhex seed) (sha256_bytes (snd corpus_file)) (sha256_bytes contract) corpus first
       (snd first_file) second (snd second_file) review packing"
    using b unfolding built_def by blast+
  have "map_of key ''backends'' = Some (JArr (map snd (sort_key fst
        [(run_label first, backend_metadata first (snd first_file)), (run_label second, backend_metadata second (snd second_file))])))"
    unfolding key base by (simp add: key_base_def)
  from validate_own_backends(1) [OF this load_run_strings [OF l(1)] validated_runs(1) [OF v] loaded_run_first [OF l(1)]
      load_run_strings [OF l(2)] validated_runs(2) [OF v] loaded_run_first [OF l(2)] validated_runs(4-6,3) [OF v]]
  show ?thesis .
qed

lemma built_key_accepted:
  assumes b: "built corpus_file first_file second_file seed corpus first second contract packing review base"
    and rendered: "canonical_json (JObj base) = Inr rendered"
    and key: "key = base @ [(''integrity'', JStr (sha256_bytes rendered))]"
  shows "\<exists>k. check_key key path = Inr k \<and> bk_cases k = pk_cases packing \<and> bk_review_sha256 k = sha256_bytes review"
proof -
  obtain ids on_x where p: "packing_ok (unhex seed) (sha256_bytes (snd corpus_file)) corpus first second on_x ids packing"
    using built_packing [OF b] .
  have v: "validate_runs corpus (sha256_bytes (snd corpus_file)) first second = Inr ()"
    and l: "load_run_bytes (snd first_file) (fst first_file) = Inr first"
    and c: "load_corpus_bytes (snd corpus_file) (fst corpus_file) = Inr corpus"
    and contract: "canonical_json (case_contract corpus) = Inr contract"
    and base: "base = key_base (unhex seed) (sha256_bytes (snd corpus_file)) (sha256_bytes contract) corpus first
       (snd first_file) second (snd second_file) review packing"
    using b unfolding built_def by blast+
  obtain k where k: "pr_source_ref (run_first first) \<noteq> []" "pr_top_k (run_first first) = Some k" "1 \<le> k" "k \<le> 10"
    using load_run_strings [OF l] validated_runs(1) [OF v] by (auto simp: case_strings_def)
  have same: "map_of key f = map_of base f" if "f \<noteq> ''integrity''" for f
    using that by (simp add: key map_add_def split: option.splits)
  have "check_integrity key path '': key integrity mismatch'' = Inr (sha256_bytes rendered)"
  proof -
    have "without_integrity key = base" by (simp add: key base key_base_def without_integrity_def)
    moreover have "map_of key ''integrity'' = Some (JStr (sha256_bytes rendered))" by (simp add: key base key_base_def)
    ultimately show ?thesis using rendered by simp
  qed
  moreover have "exact_fields key key_fields path = Inr ()" 
    by (simp add: key base key_base_def key_fields_def) 
  moreover have "validate_key_corpus key path = Inr (sha256_bytes contract, int (length corpus))"
    using loaded_bytes_sound(1) [OF c] unfolding validate_key_corpus_iff
    by (simp add: same base key_base_def)
  moreover have "item as_array key ''cases'' path = Inr (map key_case_json (pk_cases packing))"
    by (simp add: same base key_base_def)
  moreover have "validate_top_k key path = Inr k" using k by (simp add: same base key_base_def)
  moreover have "item as_string key ''source_ref'' path = Inr (pr_source_ref (run_first first))"
    using k by (simp add: same base key_base_def)
  moreover have "get_item key ''schema'' = Inr (JStr KEY_SCHEMA)" "get_item key ''review_schema'' = Inr (JStr REVIEW_SCHEMA)"
    "item blind_sha256 key ''seed_sha256'' path = Inr (sha256_bytes (map char_of (unhex seed)))"
    "item blind_sha256 key ''review_sha256'' path = Inr (sha256_bytes review)"
    by (simp_all add: get_item_def same base key_base_def)
  moreover have "canonical_json (key_contract (ks_cases (scan_of backends (pk_cases packing)))) = Inr contract"
    using contract contract_of_cases [OF p] by (simp add: scan_of_def)
  moreover note scan_own_cases [OF p, of path] built_backends [OF b same, of path] built_placement [OF b same, of path]
    cases_length [OF p]
  ultimately show ?thesis
    unfolding check_key_def
    by (simp add: scan_of_def del: item_iff exact_fields_iff check_integrity_iff validate_top_k_iff)
qed


lemma prepared_key_passes:
  assumes "build_review_and_key corpus_file first_file second_file seed = Inr (review, key)"
  shows "\<exists>k. check_key key path = Inr k \<and> bk_review_sha256 k = sha256_bytes review"
proof -
  obtain corpus first second contract packing base rendered where
    "built corpus_file first_file second_file seed corpus first second contract packing review base"
    "canonical_json (JObj base) = Inr rendered" "key = base @ [(''integrity'', JStr (sha256_bytes rendered))]"
    using build_parts [OF assms] .
  from built_key_accepted [OF this] show ?thesis by blast
qed

section \<open>What the review depends on\<close>

definition visible :: "Packing \<Rightarrow> string list \<times> json list" where
  "visible st = (pk_opaque st, pk_records st)"

text \<open>The candidates that a run file gives for each case.\<close>

definition shown :: "string \<times> string \<Rightarrow> string \<Rightarrow> string list res" where
  "shown = (\<lambda>(path, data). case load_run_bytes data path of Inl e \<Rightarrow> (\<lambda>i. Inl e) | Inr run \<Rightarrow> side_candidates run)"

lemma pack_case_visible:
  assumes "pack_case seed sha corpus first second on_x st i = Inr after"
    "pack_case seed sha corpus first' second' on_x st' i = Inr after'"
    and "side_candidates first = side_candidates first'" "side_candidates second = side_candidates second'"
    and "visible st = visible st'"
  shows "visible after = visible after'"
proof (cases "i \<in> set on_x")
  case True
  then show ?thesis using assms
    by (auto simp: pack_case_def visible_def Let_def split: option.splits)
next
  case False
  then show ?thesis using assms
    by (auto simp: pack_case_def visible_def Let_def split: option.splits)
qed

lemma pack_fold_visible:
  assumes "foldE (pack_case seed sha corpus first second on_x) st ids = Inr last_state"
    "foldE (pack_case seed sha corpus first' second' on_x) st' ids = Inr last_state'"
    and same: "side_candidates first = side_candidates first'" "side_candidates second = side_candidates second'"
    and "visible st = visible st'"
  shows "visible last_state = visible last_state'"
  using assms(1,2,5)
proof (induction ids arbitrary: st st')
  case (Cons i ids)
  obtain mid where mid: "pack_case seed sha corpus first second on_x st i = Inr mid"
    "foldE (pack_case seed sha corpus first second on_x) mid ids = Inr last_state"
    using Cons.prems(1) by auto
  obtain mid' where mid': "pack_case seed sha corpus first' second' on_x st' i = Inr mid'"
    "foldE (pack_case seed sha corpus first' second' on_x) mid' ids = Inr last_state'"
    using Cons.prems(2) by auto
  show ?case
    by (rule Cons.IH [OF mid(2) mid'(2) pack_case_visible [OF mid(1) mid'(1) same Cons.prems(3)]])
qed simp

lemma pack_cases_visible:
  assumes "pack_cases seed sha corpus first second = Inr st" "pack_cases seed sha corpus first' second' = Inr st'"
    and same: "side_candidates first = side_candidates first'" "side_candidates second = side_candidates second'"
  shows "visible st = visible st'"
proof -
  obtain ids on_x where i: "sorted_by (\<lambda>i. domain_digest seed ''review-order-v1'' [sha, i]) (map row_id corpus) = Inr ids"
    "first_on_x seed sha corpus = Inr on_x"
    "foldE (pack_case seed sha corpus first second on_x)
       \<lparr>pk_opaque = [], pk_records = [], pk_cases = [], pk_x = [(run_label first, 0), (run_label second, 0)],
        pk_y = [(run_label first, 0), (run_label second, 0)]\<rparr> ids = Inr st"
    using assms(1) unfolding pack_cases_def Let_def by (elim bindE_elim) (rule that)
  have "foldE (pack_case seed sha corpus first' second' on_x)
       \<lparr>pk_opaque = [], pk_records = [], pk_cases = [], pk_x = [(run_label first', 0), (run_label second', 0)],
        pk_y = [(run_label first', 0), (run_label second', 0)]\<rparr> ids = Inr st'"
    using assms(2) unfolding pack_cases_def Let_def i(1,2) by simp
  from pack_fold_visible [OF i(3) this same] show ?thesis by (simp add: visible_def)
qed

lemma built_shown:
  "built corpus_file first_file second_file seed corpus first second contract packing review base \<Longrightarrow>
     shown first_file = side_candidates first \<and> shown second_file = side_candidates second"
  by (simp add: built_def shown_def split_def)

lemma review_determined:
  assumes "build_review_and_key corpus_file first_file second_file seed = Inr (review, key)"
    "build_review_and_key corpus_file first_file' second_file' seed = Inr (review', key')"
    and "shown first_file = shown first_file'" "shown second_file = shown second_file'"
  shows "review = review'"
proof -
  obtain corpus first second contract packing base rendered where
    b: "built corpus_file first_file second_file seed corpus first second contract packing review base"
    using build_parts [OF assms(1)] .
  obtain corpus' first' second' contract' packing' base' rendered' where
    b': "built corpus_file first_file' second_file' seed corpus' first' second' contract' packing' review' base'"
    using build_parts [OF assms(2)] .
  have same: "side_candidates first = side_candidates first'" "side_candidates second = side_candidates second'"
    using built_shown [OF b] built_shown [OF b'] assms(3,4) by simp_all
  have corpus: "corpus' = corpus" using b b' by (simp add: built_def)
  have p: "pack_cases (unhex seed) (sha256_bytes (snd corpus_file)) corpus first second = Inr packing"
    using b unfolding built_def by blast
  have p': "pack_cases (unhex seed) (sha256_bytes (snd corpus_file)) corpus first' second' = Inr packing'"
    using b' unfolding built_def corpus by blast
  have "visible packing = visible packing'" by (rule pack_cases_visible [OF p p' same])
  then have records: "pk_records packing = pk_records packing'" by (simp add: visible_def)
  obtain lines where "mapE (\<lambda>r. bindE (canonical_json r) (\<lambda>line. Inr (line @ [CHR 0x0A]))) (pk_records packing) = Inr lines"
    "review = concat lines" using b unfolding built_def by blast
  moreover obtain lines' where "mapE (\<lambda>r. bindE (canonical_json r) (\<lambda>line. Inr (line @ [CHR 0x0A]))) (pk_records packing') = Inr lines'"
    "review' = concat lines'" using b' unfolding built_def by blast
  ultimately show ?thesis by (simp add: records)
qed

end
