(* ===== verification/Blind_Complete.thy ===== *)
theory Blind_Complete
  imports Blind_Outcomes Quality_Properties
begin

text \<open>
  Scoring a blind review comes to an end: on an accepted packet with string candidates and a judgment
  for every case, every rate is defined, both backends have a report, and the reports compare.
\<close>

section \<open>Rates and intervals\<close>

text \<open>Below this count the largest product of the interval, four times its square, is a double.\<close>

definition MAX_CASES :: nat where "MAX_CASES = 2 ^ 500"

lemma rate_defined:
  assumes "\<bar>a\<bar> \<le> t" "0 < t" shows "\<exists>f. int_div_float a t = Inr (Fin f)"
proof -
  have "\<bar>of_int a / of_int t :: rat\<bar> \<le> 1"
    using assms by (simp add: divide_le_eq flip: of_int_abs)
  then have "\<not> fl_overflows (of_int a / of_int t)" by (simp add: fl_overflows_def float_limit_def)
  then show ?thesis using assms(2) by (simp add: int_div_float_def rat_to_float_def)
qed

lemma count_converted:
  assumes "i < 2 ^ 1010" "0 \<le> i" shows "\<exists>x. float_of_count i = Inr x"
proof -
  have "(of_int i :: rat) < of_int (2 ^ 1010)" using assms(1) by (simp only: of_int_less_iff)
  also have "\<dots> \<le> 2 ^ 1024 - 2 ^ 970" by simp
  finally have "\<not> fl_overflows (of_int i)" using assms(2) by (simp add: fl_overflows_def float_limit_def not_le)
  then show ?thesis by (simp add: float_of_count_def)
qed

lemma small_square:
  assumes "0 \<le> d" "d < 2 ^ 500" shows "4 * d * d < (2 ^ 1010 :: int)"
proof -
  have "d * d \<le> 2 ^ 500 * 2 ^ 500" using assms by (intro mult_mono) auto
  then have "4 * d * d \<le> 4 * (2 ^ 500 * 2 ^ 500)" by simp
  also have "\<dots> < 2 ^ 1010" by simp
  finally show ?thesis .
qed

lemma wilson_defined:
  assumes "w + l < MAX_CASES"
  shows "\<exists>interval. wilson_interval (int w) (int w + int l) = Inr interval"
proof (cases "w + l = 0")
  case False
  let ?d = "int w + int l"
  have "int (w + l) < int MAX_CASES" using assms by (simp only: of_nat_less_iff)
  then have d: "0 \<le> ?d" "?d < 2 ^ 500" by (simp_all add: MAX_CASES_def)
  have big: "(2 ^ 500 :: int) < 2 ^ 1010" "2 * (2 ^ 500 :: int) < 2 ^ 1010" by simp_all
  obtain f where "int_div_float (int w) ?d = Inr (Fin f)"
    using rate_defined [of "int w" ?d] False by auto
  moreover obtain n where "float_of_count ?d = Inr n"
    using count_converted [of ?d] d big(1) by auto
  moreover obtain n2 where "float_of_count (2 * ?d) = Inr n2"
    using count_converted [of "2 * ?d"] d big(2) by auto
  moreover obtain n4 where "float_of_count (4 * ?d * ?d) = Inr n4"
    using count_converted [of "4 * ?d * ?d"] small_square [OF d] d(1) by auto
  ultimately show ?thesis by (simp add: wilson_interval_def Let_def)
qed (simp add: wilson_interval_def)

lemma render_defined:
  assumes "oc_wins o' + oc_losses o' \<le> n" "0 < n" "n < MAX_CASES"
  shows "\<exists>v. render_outcome (int n) o' = Inr v"
proof -
  let ?w = "int (oc_wins o')" and ?l = "int (oc_losses o')"
  obtain f1 where f1: "int_div_float (?w + ?l) (int n) = Inr (Fin f1)"
    using rate_defined [of "?w + ?l" "int n"] assms by auto
  have "\<exists>x. (if ?w + ?l = 0 then Inr None else bindE (int_div_float ?w (?w + ?l)) (\<lambda>f. Inr (Some f))) = Inr x"
    using rate_defined [of ?w "?w + ?l"] by (cases "?w + ?l = 0") auto
  then obtain x where x: "(if ?w + ?l = 0 then Inr None else bindE (int_div_float ?w (?w + ?l)) (\<lambda>f. Inr (Some f))) = Inr x" ..
  obtain i where i: "wilson_interval ?w (?w + ?l) = Inr i"
    using wilson_defined [of "oc_wins o'" "oc_losses o'"] assms by auto
  obtain f2 where f2: "int_div_float ?w (int n) = Inr (Fin f2)"
    using rate_defined [of ?w "int n"] assms by auto
  obtain f3 where f3: "int_div_float (?w - ?l) (int n) = Inr (Fin f3)"
  proof -
    have "\<bar>?w - ?l\<bar> \<le> int n" using assms(1) by linarith
    then show thesis using rate_defined [of "?w - ?l" "int n"] assms(2) that by auto
  qed
  obtain p where p: "two_sided_sign_test (oc_wins o') (oc_losses o') = Inr p"
    using sign_test_exact [of "oc_wins o'" "oc_losses o'"] by (cases "oc_wins o' + oc_losses o' = 0") auto
  show ?thesis unfolding render_outcome_def Let_def f1 x i f2 f3 p by simp
qed

lemma render_all_defined:
  assumes "\<forall>p \<in> set os. oc_wins (snd p) + oc_losses (snd p) \<le> n" "0 < n" "n < MAX_CASES"
  shows "\<exists>v. render_outcomes os (int n) = Inr v"
proof -
  let ?f = "\<lambda>(label, o'). bindE (render_outcome (int n) o') (\<lambda>v. Inr (label, v))"
  have "\<exists>y. ?f p = Inr y" if p: "p \<in> set (sort_key fst os)" for p
  proof -
    have "oc_wins (snd p) + oc_losses (snd p) \<le> n" using assms(1) p by simp
    from render_defined [OF this assms(2,3)] obtain v where "render_outcome (int n) (snd p) = Inr v" ..
    then show ?thesis by (simp add: split_def)
  qed
  then have "\<forall>p \<in> set (sort_key fst os). \<exists>y. ?f p = Inr y" by blast
  from mapE_defined [OF bspec [OF this]] obtain rendered where "mapE ?f (sort_key fst os) = Inr rendered" ..
  then show ?thesis by (simp add: render_outcomes_def)
qed

section \<open>The sides of a loaded review\<close>

definition side_ok :: "int \<Rightarrow> json list \<Rightarrow> bool" where
  "side_ok k side \<longleftrightarrow> int (length side) \<le> k \<and> JStr [] \<notin> set side"

lemma review_side_ok:
  assumes "review_side k d side ctx = Inr vs" shows "side_ok k vs"
proof -
  obtain raw cs and u1 :: unit where p: "candidate_texts [(''candidates'', raw)] = Inr cs"
    "raise_if (k < int (length cs)) (ValueError (dot ctx side @ '' exceeds top_k '')) = Inr u1"
    "\<exists>us. mapiE (\<lambda>i c. as_string (JStr c) (at_index (dot ctx side) i)) 0 cs = Inr us" "as_array raw ctx = Inr vs"
    using assms unfolding review_side_def by (elim bindE_elim) (rule that; blast)
  have raw: "raw = JArr vs" using p(4) by (cases raw) (simp_all add: as_array_def)
  have items: "mapE candidate_item vs = Inr cs" using p(1) by (simp add: candidate_texts_def raw_candidates_def raw)
  then have pairs: "list_all2 (\<lambda>v c. candidate_item v = Inr c) vs cs" by (simp add: mapE_Inr_iff)
  have "[] \<notin> set cs" using p(3) by (auto simp: mapiE_Inr_iff in_set_conv_nth)
  moreover have "[] \<in> set cs" if empty: "JStr [] \<in> set vs"
  proof -
    obtain i where "i < length vs" "vs ! i = JStr []" using empty by (auto simp: in_set_conv_nth)
    moreover from this have "candidate_item (JStr []) = Inr (cs ! i)" using pairs by (auto simp: list_all2_conv_all_nth)
    ultimately show ?thesis using list_all2_lengthD [OF pairs] by (auto simp: candidate_item_def in_set_conv_nth)
  qed
  ultimately have "JStr [] \<notin> set vs" by blast
  then show ?thesis using list_all2_lengthD [OF pairs] p(2) by (simp add: side_ok_def)
qed

lemma load_record_ok:
  assumes "load_review_record key review row = Inr review'"
  shows "\<exists>v. review' = review @ [v] \<and> side_ok (bk_top_k key) (rv_x v) \<and> side_ok (bk_top_k key) (rv_y v)"
proof -
  define ctx where "ctx = fst row"
  obtain opaque_id x y reading category i where
    sides: "review_side (bk_top_k key) (snd row) ''x'' ctx = Inr x" "review_side (bk_top_k key) (snd row) ''y'' ctx = Inr y"
    and last: "(case find (\<lambda>c. kc_case c = opaque_id) (bk_cases key) of
       None \<Rightarrow> Inl (ValueError (ctx @ '': unknown case ''))
     | Some key_case \<Rightarrow>
         bindE (raise_if (i \<noteq> kc_record_sha256 key_case)
                  (ValueError (ctx @ '': record hash does not match key''))) (\<lambda>_.
         bindE (raise_if (reading \<noteq> kc_reading key_case) (ValueError (ctx @ ''.reading does not match key''))) (\<lambda>_.
         bindE (raise_if (category \<noteq> kc_category key_case) (ValueError (ctx @ ''.category does not match key''))) (\<lambda>_.
         Inr (review @ [\<lparr>rv_case = opaque_id, rv_x = x, rv_y = y\<rparr>]))))) = Inr review'"
    using assms unfolding load_review_record_def split_def ctx_def [symmetric]
    by (elim bindE_elim) (rule that, assumption, assumption, assumption)
  have "review' = review @ [\<lparr>rv_case = opaque_id, rv_x = x, rv_y = y\<rparr>]"
  proof (cases "find (\<lambda>c. kc_case c = opaque_id) (bk_cases key)")
    case (Some c)
    then show ?thesis using last by (simp del: not_not)
  qed (use last in simp)
  then show ?thesis using review_side_ok sides by (intro exI [of _ "\<lparr>rv_case = opaque_id, rv_x = x, rv_y = y\<rparr>"]) simp
qed

lemma load_review_ok:
  assumes "load_review path key data = Inr review"
  shows "rv_case ` set review = kc_case ` set (bk_cases key)"
    "\<forall>v \<in> set review. side_ok (bk_top_k key) (rv_x v) \<and> side_ok (bk_top_k key) (rv_y v)"
proof -
  obtain rows where f: "foldE (load_review_record key) [] rows = Inr review"
    and c: "rv_case ` set review = kc_case ` set (bk_cases key)"
    using assms unfolding load_review_def bindE_Inr_iff raise_if_Inr_iff sum.inject not_not by (elim exE conjE) (rule that; simp only:)
  show "rv_case ` set review = kc_case ` set (bk_cases key)" by (rule c)
  show "\<forall>v \<in> set review. side_ok (bk_top_k key) (rv_x v) \<and> side_ok (bk_top_k key) (rv_y v)"
  proof (rule foldE_invariant [OF f])
    fix seen row seen'
    assume inv: "\<forall>v \<in> set seen. side_ok (bk_top_k key) (rv_x v) \<and> side_ok (bk_top_k key) (rv_y v)"
      and step: "load_review_record key seen row = Inr seen'"
    from load_record_ok [OF step] inv
    show "\<forall>v \<in> set seen'. side_ok (bk_top_k key) (rv_x v) \<and> side_ok (bk_top_k key) (rv_y v)" by auto
  qed simp
qed

section \<open>The results of a backend\<close>

text \<open>What scoring further needs: candidates that are strings, as \<open>prepare\<close> writes them, and distinct
  alternatives without the mark that joins them.\<close>

definition string_side :: "json list \<Rightarrow> bool" where
  "string_side side \<longleftrightarrow> (\<forall>v \<in> set side. \<exists>s. v = JStr s)"

definition scorable :: "BlindKey \<Rightarrow> ReviewCase list \<Rightarrow> bool" where
  "scorable key review \<longleftrightarrow>
     length (bk_cases key) < MAX_CASES \<and>
     (\<forall>v \<in> set review. string_side (rv_x v) \<and> string_side (rv_y v)) \<and>
     (\<forall>c \<in> set (bk_cases key). distinct (kc_expected c) \<and> (\<forall>e \<in> set (kc_expected c). CHR ''|'' \<notin> set e))"

lemma observed_side:
  assumes "string_side side" "side_ok k side"
  shows "\<exists>texts. mapE observed_text side = Inr texts \<and> [] \<notin> set texts \<and> int (length texts) \<le> k"
proof -
  have "\<exists>texts. side = map JStr texts"
    using assms(1) unfolding string_side_def by (metis ex_map_conv)
  then obtain texts where side: "side = map JStr texts" ..
  have "mapE observed_text (map JStr texts) = Inr texts"
    by (induction texts) (simp_all add: observed_text_def)
  then show ?thesis using assms(2) by (auto simp: side side_ok_def)
qed

definition window_results :: "int \<Rightarrow> results \<Rightarrow> bool" where
  "window_results k results \<longleftrightarrow> (\<forall>i w. map_of results i = Some w \<longrightarrow> [] \<notin> set w \<and> int (length w) \<le> k)"

lemma dom_dict_set: "dom (map_of (dict_set i w d)) = insert i (dom (map_of d))"
  by (auto simp: dom_def split: if_splits)

lemma window_results_set:
  "window_results k results \<Longrightarrow> [] \<notin> set w \<Longrightarrow> int (length w) \<le> k \<Longrightarrow> window_results k (dict_set i w results)"
  by (simp add: window_results_def)

lemma backend_result_ok:
  assumes review: "\<forall>v \<in> set review. string_side (rv_x v) \<and> string_side (rv_y v) \<and> side_ok k (rv_x v) \<and> side_ok k (rv_y v)"
    and c: "kc_case c \<in> rv_case ` set review" "label \<in> {kc_x_backend c, kc_y_backend c}"
    and results: "window_results k results"
  shows "\<exists>results'. backend_result label review results c = Inr results' \<and> window_results k results' \<and>
    dom (map_of results') = insert (kc_original_id c) (dom (map_of results))"
proof -
  have "find (\<lambda>v. rv_case v = kc_case c) review \<noteq> None" using c(1) by (auto simp: find_None_iff)
  then obtain v where f: "find (\<lambda>v. rv_case v = kc_case c) review = Some v" by blast
  then have "v \<in> set review" by (auto simp: find_Some_iff)
  then obtain x y where xy: "mapE observed_text (rv_x v) = Inr x" "[] \<notin> set x" "int (length x) \<le> k"
    "mapE observed_text (rv_y v) = Inr y" "[] \<notin> set y" "int (length y) \<le> k"
    using review observed_side [of "rv_x v" k] observed_side [of "rv_y v" k] by auto
  let ?with_x = "if kc_x_backend c = label then dict_set (kc_original_id c) x results else results"
  let ?r = "if kc_y_backend c = label then dict_set (kc_original_id c) y ?with_x else ?with_x"
  have "backend_result label review results c = Inr ?r"
    by (simp add: backend_result_def f xy Let_def)
  moreover have "window_results k ?with_x" using results xy(2,3) window_results_set by simp
  then have "window_results k ?r" using xy(5,6) window_results_set by simp
  moreover have "dom (map_of ?r) = insert (kc_original_id c) (dom (map_of results))"
    using c(2) by (cases "kc_x_backend c = label"; cases "kc_y_backend c = label"; simp add: dom_dict_set)
  ultimately show ?thesis by blast
qed

lemma backend_results_ok:
  assumes review: "\<forall>v \<in> set review. string_side (rv_x v) \<and> string_side (rv_y v) \<and> side_ok k (rv_x v) \<and> side_ok k (rv_y v)"
    and "kc_case ` set cases \<subseteq> rv_case ` set review" "\<forall>c \<in> set cases. label \<in> {kc_x_backend c, kc_y_backend c}"
    and "window_results k results"
  shows "\<exists>results'. foldE (backend_result label review) results cases = Inr results' \<and> window_results k results' \<and>
    dom (map_of results') = kc_original_id ` set cases \<union> dom (map_of results)"
  using assms(2-4)
proof (induction cases arbitrary: results)
  case (Cons c cases)
  obtain mid where mid: "backend_result label review results c = Inr mid" "window_results k mid"
    "dom (map_of mid) = insert (kc_original_id c) (dom (map_of results))"
    using backend_result_ok [OF review, of c label results] Cons.prems by auto
  have rest: "kc_case ` set cases \<subseteq> rv_case ` set review" "\<forall>c \<in> set cases. label \<in> {kc_x_backend c, kc_y_backend c}"
    using Cons.prems(1,2) by simp_all
  from Cons.IH [OF rest mid(2)] obtain results' where
    "foldE (backend_result label review) mid cases = Inr results'" "window_results k results'"
    "dom (map_of results') = kc_original_id ` set cases \<union> dom (map_of mid)" by blast
  then show ?case using mid by simp
qed simp


section \<open>The objective comparison\<close>

lemma key_row_alternatives:
  assumes "kc_expected c \<noteq> []" "\<forall>e \<in> set (kc_expected c). CHR ''|'' \<notin> set e"
  shows "alternatives (row_expected (key_corpus_row c)) = kc_expected c"
  unfolding alternatives_def key_corpus_row_def CorpusRow.select_convs using assms by (rule split_join)

lemma key_case_evaluates:
  fixes k :: nat
  assumes c: "key_case_valid labels c" "distinct (kc_expected c)" "\<forall>e \<in> set (kc_expected c). CHR ''|'' \<notin> set e"
    and w: "[] \<notin> set w" "1 \<le> k"
  shows "case_ok k (evaluate_case k (key_corpus_row c) w)"
proof -
  have v: "kc_original_id c \<noteq> []" "kc_reading c \<noteq> []" "kc_category c \<noteq> []" "kc_expected c \<noteq> []" "[] \<notin> set (kc_expected c)"
    using c(1) by (simp_all add: key_case_valid_def)
  have e: "filter (\<lambda>v. v \<noteq> []) (alternatives (row_expected (key_corpus_row c))) = kc_expected c"
    unfolding key_row_alternatives [OF v(4) c(3)] using v(5) by (auto simp: filter_id_conv)
  have "[] \<notin> set (take k w)" using w(1) by (meson in_set_takeD)
  moreover have "take k w \<noteq> [] \<and> hd (take k w) \<in> set (kc_expected c) \<longleftrightarrow> w \<noteq> [] \<and> hd w \<in> set (kc_expected c)"
    using w(2) by (cases w; cases k) auto
  ultimately show ?thesis
    using v c(2) unfolding evaluate_case_def e
    by (simp add: case_ok_def expected_rank_1 expected_rank_None Let_def) (simp add: key_corpus_row_def)
qed

lemma backend_names: "strip ''hazkey'' = ''hazkey''" "strip ''mozc'' = ''mozc''"
  by (rule strip_visible; simp add: visible_ascii_def)+

lemma objective_defined:
  assumes key: "key_promises d key" and usable: "scorable key review"
    and review: "rv_case ` set review = kc_case ` set (bk_cases key)"
      "\<forall>v \<in> set review. side_ok (bk_top_k key) (rv_x v) \<and> side_ok (bk_top_k key) (rv_y v)"
  shows "\<exists>v. objective_quality key review = Inr v"
proof -
  define k where "k = nat (bk_top_k key)"
  have k: "1 \<le> k" "bk_top_k key = int k" and cases: "bk_cases key \<noteq> []" "cases_ok backends (bk_cases key)"
    and labels: "bk_labels key = backends"
    using key by (auto simp: key_promises_def k_def)
  have valid: "key_case_valid backends c" if "c \<in> set (bk_cases key)" for c
    using cases(2) that by (simp add: cases_ok_def list_all_iff)
  let ?rows = "map key_corpus_row (bk_cases key)"
  have sides: "\<forall>v \<in> set review. string_side (rv_x v) \<and> string_side (rv_y v) \<and> side_ok (int k) (rv_x v) \<and> side_ok (int k) (rv_y v)"
    using usable review(2) k(2) by (simp add: scorable_def)
  have results: "\<exists>results. foldE (backend_result label review) [] (bk_cases key) = Inr results \<and>
      window_results (int k) results \<and> dom (map_of results) = kc_original_id ` set (bk_cases key)" if "label \<in> set backends" for label
  proof -
    have "label \<in> {kc_x_backend c, kc_y_backend c}" if c: "c \<in> set (bk_cases key)" for c
      using valid [OF c] \<open>label \<in> set backends\<close> by (simp add: key_case_valid_def)
    then have "\<forall>c \<in> set (bk_cases key). label \<in> {kc_x_backend c, kc_y_backend c}" by blast
    from backend_results_ok [OF sides equalityD2 [OF review(1)] this, of "[]"] show ?thesis by (simp add: window_results_def)
  qed
  have complete: "has_result results r \<and> case_ok k (evaluate_case k r (result_of results r))"
    if r: "r \<in> set ?rows" and w: "window_results (int k) results" "dom (map_of results) = kc_original_id ` set (bk_cases key)"
    for results r
  proof -
    obtain c where c: "c \<in> set (bk_cases key)" "r = key_corpus_row c" using r by auto
    have "row_id r \<in> dom (map_of results)" using c w(2) by (simp add: key_corpus_row_def)
    then obtain v where v: "map_of results (row_id r) = Some v" by blast
    then have "[] \<notin> set v" using w(1) by (auto simp: window_results_def)
    then have "case_ok k (evaluate_case k (key_corpus_row c) v)"
      using usable c(1) k(1) by (intro key_case_evaluates [OF valid [OF c(1)]]) (simp_all add: scorable_def)
    then show ?thesis by (simp add: has_result_def result_of_def v c(2) [symmetric])
  qed
  obtain ra where ra: "foldE (backend_result ''hazkey'' review) [] (bk_cases key) = Inr ra" "window_results (int k) ra"
    "dom (map_of ra) = kc_original_id ` set (bk_cases key)" using results [of "''hazkey''"] by (auto simp: backends_def)
  obtain rb where rb: "foldE (backend_result ''mozc'' review) [] (bk_cases key) = Inr rb" "window_results (int k) rb"
    "dom (map_of rb) = kc_original_id ` set (bk_cases key)" using results [of "''mozc''"] by (auto simp: backends_def)
  have "?rows \<noteq> []" using cases(1) by simp
  moreover have "distinct (map row_id ?rows)" using cases(2) by (simp add: cases_ok_def comp_def key_corpus_row_def)
  moreover have "\<forall>r \<in> set ?rows. has_result ra r \<and> has_result rb r" using complete ra(2,3) rb(2,3) by blast
  moreover have "\<forall>r \<in> set ?rows. case_ok k (evaluate_case k r (result_of ra r)) \<and> case_ok k (evaluate_case k r (result_of rb r))"
    using complete ra(2,3) rb(2,3) by blast
  ultimately have "\<exists>c. compare_reports (JObj (report_of ?rows ra k)) (JObj (report_of ?rows rb k)) ''hazkey'' ''mozc'' = Inr c"
    using compared_evaluations [of k "''hazkey''" "''mozc''" ?rows ra rb] k(1) unfolding backend_names by blast
  then obtain c where c: "compare_reports (JObj (report_of ?rows ra k)) (JObj (report_of ?rows rb k)) ''hazkey'' ''mozc'' = Inr c" ..
  have names: "bk_labels key ! 0 = ''hazkey''" "bk_labels key ! 1 = ''mozc''" by (simp_all add: labels backends_def)
  show ?thesis
    unfolding objective_quality_def names backend_report_def ra(1) rb(1) bindE.simps evaluate_eq k_def [symmetric] Let_def c by blast
qed


section \<open>The report\<close>

lemma outcomes_rendered:
  assumes "\<forall>c \<in> set cases. shows_both c" "cases \<noteq> []" "length cases < MAX_CASES"
  shows "\<exists>v. render_outcomes (map (\<lambda>l. (l, judged_outcome js cases l)) labels) (int (length cases)) = Inr v"
proof (rule render_all_defined)
  have "oc_wins (judged_outcome js cases l) + oc_losses (judged_outcome js cases l) \<le> length cases" for l
    using outcomes_conserved(3) [OF assms(1), of js l] by linarith
  then show "\<forall>p \<in> set (map (\<lambda>l. (l, judged_outcome js cases l)) labels). oc_wins (snd p) + oc_losses (snd p) \<le> length cases"
    by simp
qed (use assms in simp_all)

lemma category_rendered:
  assumes st: "scores_ok key js st" and cases: "\<forall>c \<in> set (bk_cases key). shows_both c" "length (bk_cases key) < MAX_CASES"
    and p: "p \<in> set (sc_categories st)"
  shows "\<exists>v. scored_category_json st p = Inr v"
proof -
  let ?cs = "in_category (fst p) (bk_cases key)"
  have "distinct (keys (sc_categories st))" using st by (simp add: scores_ok_def)
  then have l: "map_of (sc_categories st) (fst p) = Some (snd p)" using p by (simp add: keys_def)
  moreover have look: "map_of (sc_categories st) (fst p) = (if fst p \<in> kc_category ` set (bk_cases key)
         then Some (map (\<lambda>l. (l, judged_outcome js ?cs l)) backends) else None)"
    using st unfolding scores_ok_def by blast
  ultimately have c: "fst p \<in> kc_category ` set (bk_cases key)" "snd p = map (\<lambda>l. (l, judged_outcome js ?cs l)) backends"
    by (simp_all split: if_splits)
  have "?cs \<noteq> []" using c(1) by (auto simp: in_category_def filter_empty_conv)
  moreover have "length ?cs < MAX_CASES" using cases(2) le_less_trans [OF length_filter_le] by (simp add: in_category_def)
  moreover have "\<forall>c \<in> set ?cs. shows_both c" using cases(1) by (simp add: in_category_def)
  ultimately obtain v where "render_outcomes (snd p) (int (length ?cs)) = Inr v"
    unfolding c(2) using outcomes_rendered by blast
  moreover have "count_in (sc_category_counts st) (fst p) = int (length ?cs)"
    using st unfolding scores_ok_def by blast
  ultimately show ?thesis by (simp add: scored_category_json_def split_def Let_def)
qed

lemma key_documents:
  assumes "check_key d path = Inr key"
  shows "\<exists>a b c. get_item (bk_doc key) ''corpus'' = Inr a \<and> get_item (bk_doc key) ''backends'' = Inr b \<and>
    get_item (bk_doc key) ''placement'' = Inr c"
proof -
  have "bk_doc key = d" using check_key_promises [OF assms] by (simp add: key_promises_def)
  obtain u :: unit where "exact_fields d key_fields path = Inr u"
    using assms unfolding check_key_def by (elim bindE_elim) (rule that)
  then have "set (keys d) = set key_fields" by simp
  then have "''corpus'' \<in> set (keys d)" "''backends'' \<in> set (keys d)" "''placement'' \<in> set (keys d)"
    by (simp_all add: key_fields_def)
  then show ?thesis
    using map_of_keys [of d] unfolding \<open>bk_doc key = d\<close> get_item_def by (auto split: option.splits)
qed

lemma score_defined:
  assumes key: "check_key d path = Inr key" and review: "load_review path' key data = Inr review"
    and usable: "scorable key review" and judged: "kc_case ` set (bk_cases key) \<subseteq> set (keys js)"
  shows "\<exists>st base. score_cases key js = Inr st \<and> report_base key review sha st = Inr base"
proof -
  have promises: "key_promises d key" by (rule check_key_promises [OF key])
  let ?st = "scoring_of js (bk_cases key)"
  have st: "scores_ok key js ?st" by (rule scoring_of_ok)
  have both: "\<forall>c \<in> set (bk_cases key). shows_both c" using promised_cases_show_both [OF promises] by blast
  have n: "bk_cases key \<noteq> []" "length (bk_cases key) < MAX_CASES"
    using promises usable by (simp_all add: key_promises_def scorable_def)
  obtain a b c where docs: "get_item (bk_doc key) ''corpus'' = Inr a" "get_item (bk_doc key) ''backends'' = Inr b"
    "get_item (bk_doc key) ''placement'' = Inr c" using key_documents [OF key] by blast
  have "sc_outcomes ?st = map (\<lambda>l. (l, judged_outcome js (bk_cases key) l)) backends" using st by (simp add: scores_ok_def)
  then obtain v where v: "render_outcomes (sc_outcomes ?st) (int (length (bk_cases key))) = Inr v"
    using outcomes_rendered [OF both n] by metis
  have "\<forall>p \<in> set (sort_key fst (sc_categories ?st)). \<exists>v. scored_category_json ?st p = Inr v"
    using category_rendered [OF st both n(2)] by simp
  from mapE_defined [OF bspec [OF this]] obtain vs where vs: "mapE (scored_category_json ?st) (sort_key fst (sc_categories ?st)) = Inr vs" ..
  obtain q where q: "objective_quality key review = Inr q"
    using objective_defined [OF promises usable load_review_ok [OF review]] ..
  have "\<exists>base. report_base key review sha ?st = Inr base"
    unfolding report_base_def Let_def docs bindE.simps v vs q by blast
  then show ?thesis using score_accepted_key [OF key judged] by blast
qed

end
