(* ===== verification/Blind_Properties.thy ===== *)
theory Blind_Properties
  imports Blind_Prepared Blind_Complete
begin

text \<open>
  The properties of the blind A/B review: what a prepared packet guarantees, what scoring computes, and
  that scoring an accepted packet ends with a report.
\<close>

section \<open>Packets and judgments\<close>



section \<open>Preparation\<close>

text \<open>C24: every key that is built for a review passes the whole validation that scoring starts with,
  under any path, and is bound to the bytes of that review.\<close>

theorem prepared_key_accepted:
  "{(review, key). build_review_and_key corpus_file first_file second_file seed = Inr (review, key)} \<subseteq>
   {(review, key). \<exists>k. check_key key path = Inr k \<and> bk_review_sha256 k = sha256_bytes review}"
  using prepared_key_passes by blast

text \<open>C26: the review shows nothing of the backends: its bytes are a function of the corpus, the seed and
  the candidates that the two runs give for the cases.\<close>

theorem review_is_blind:
  "single_valued {((corpus_file, seed, shown first_file, shown second_file), review) |
     corpus_file seed first_file second_file review.
     \<exists>key. build_review_and_key corpus_file first_file second_file seed = Inr (review, key)}"
  unfolding single_valued_def using review_determined by blast

text \<open>C25: an accepted key maps distinct anonymous cases to distinct corpus cases, has each backend on the
  left as often as on the right up to one case, overall and in every category, and its digests bind the
  case contract and the key itself.\<close>

theorem accepted_key_is_balanced:
  "{(key, k). check_key key path = Inr k} \<subseteq> {(key, k). key_promises key k}"
  using check_key_promises by blast

section \<open>Scoring\<close>

text \<open>C28: scoring an accepted key with a judgment for every case never fails, and its counters are those
  that filtering the cases gives: per backend, per category and per judgment; the wins of one backend are
  the losses of the other, and every case is counted once.\<close>

theorem scoring_by_counting:
  "{(key, js). (\<exists>d path. check_key d path = Inr key) \<and> kc_case ` set (bk_cases key) \<subseteq> set (keys js)} \<subseteq>
   {(key, js). \<exists>st. score_cases key js = Inr st \<and> scores_ok key js st \<and>
      oc_wins (judged_outcome js (bk_cases key) ''hazkey'') = oc_losses (judged_outcome js (bk_cases key) ''mozc'') \<and>
      oc_losses (judged_outcome js (bk_cases key) ''hazkey'') = oc_wins (judged_outcome js (bk_cases key) ''mozc'') \<and>
      oc_wins (judged_outcome js (bk_cases key) ''mozc'') + oc_losses (judged_outcome js (bk_cases key) ''mozc'') +
        oc_ties (judged_outcome js (bk_cases key) ''mozc'') + oc_both_bad (judged_outcome js (bk_cases key) ''mozc'') =
      length (bk_cases key)}"
proof (clarify)
  fix key and js :: "(string \<times> string) list" and d path
  assume key: "check_key d path = Inr key" and js: "kc_case ` set (bk_cases key) \<subseteq> set (keys js)"
  have "\<forall>c \<in> set (bk_cases key). shows_both c"
    using promised_cases_show_both [OF check_key_promises [OF key]] by blast
  from outcomes_conserved [OF this] score_accepted_key [OF key js] scoring_of_ok [of key js]
  show "\<exists>st. score_cases key js = Inr st \<and> scores_ok key js st \<and>
      oc_wins (judged_outcome js (bk_cases key) ''hazkey'') = oc_losses (judged_outcome js (bk_cases key) ''mozc'') \<and>
      oc_losses (judged_outcome js (bk_cases key) ''hazkey'') = oc_wins (judged_outcome js (bk_cases key) ''mozc'') \<and>
      oc_wins (judged_outcome js (bk_cases key) ''mozc'') + oc_losses (judged_outcome js (bk_cases key) ''mozc'') +
        oc_ties (judged_outcome js (bk_cases key) ''mozc'') + oc_both_bad (judged_outcome js (bk_cases key) ''mozc'') =
      length (bk_cases key)" by blast
qed

text \<open>C29: scoring does not depend on the placement: exchanging the sides of any cases, and the judgments
  \<open>x\<close> and \<open>y\<close> on them, gives the same counts for the backends.\<close>

theorem scoring_is_blind:
  "{(key, js). (\<exists>d path. check_key d path = Inr key) \<and> kc_case ` set (bk_cases key) \<subseteq> set (keys js) \<and>
      set (map snd js) \<subseteq> set ALLOWED_JUDGMENTS} \<subseteq>
   {(key, js). \<exists>a b. score_cases key js = Inr a \<and>
      score_cases (swapped_key swapped key) (swap_judgments swapped js) = Inr b \<and>
      sc_outcomes b = sc_outcomes a \<and> sc_categories b = sc_categories a \<and>
      sc_category_counts b = sc_category_counts a}"
proof (clarify)
  fix key and js :: "(string \<times> string) list" and d path
  assume key: "check_key d path = Inr key" and js: "kc_case ` set (bk_cases key) \<subseteq> set (keys js)"
    and allowed: "set (map snd js) \<subseteq> set ALLOWED_JUDGMENTS"
  have p: "key_promises d key" by (rule check_key_promises [OF key])
  let ?cases = "bk_cases key"
  have judged: "\<exists>j \<in> set ALLOWED_JUDGMENTS. map_of js (kc_case c) = Some j" if c: "c \<in> set ?cases" for c
  proof -
    have "kc_case c \<in> set (keys js)" using js c by blast
    then obtain j where j: "map_of js (kc_case c) = Some j" using map_of_keys [of js "kc_case c"] by auto
    then have "j \<in> set (map snd js)" by (force dest: map_of_SomeD)
    then show ?thesis using j allowed by blast
  qed
  have both: "shows_both c" if "c \<in> set ?cases" for c using promised_cases_show_both [OF p that] .
  have "score_cases (swapped_key swapped key) (swap_judgments swapped js) =
      Inr (scoring_of (swap_judgments swapped js) (bk_cases (swapped_key swapped key)))"
  proof (rule score_cases_eq)
    show "bk_labels (swapped_key swapped key) = backends" using p by (simp add: swapped_key_def key_promises_def)
    show "\<forall>c \<in> set (bk_cases (swapped_key swapped key)). shows_both c \<and> map_of (swap_judgments swapped js) (kc_case c) \<noteq> None"
      using both judged by (fastforce simp: swapped_key_def swap_judgments_lookup)
  qed
  moreover have "bk_cases (swapped_key swapped key) = map (swap_case_in swapped) ?cases" by (simp add: swapped_key_def)
  moreover have "\<forall>c \<in> set ?cases. \<exists>j \<in> set ALLOWED_JUDGMENTS. map_of js (kc_case c) = Some j" using judged by blast
  note scoring_swap [OF this, of swapped]
  ultimately show "\<exists>a b. score_cases key js = Inr a \<and>
      score_cases (swapped_key swapped key) (swap_judgments swapped js) = Inr b \<and>
      sc_outcomes b = sc_outcomes a \<and> sc_categories b = sc_categories a \<and> sc_category_counts b = sc_category_counts a"
    using score_accepted_key [OF key js] by simp
qed


section \<open>Statistics\<close>

text \<open>C30: the p-value is the probability, rounded once, that fair choices are at least as uneven as the
  wins and losses.\<close>

theorem sign_test_is_exact:
  "two_sided_sign_test w l =
     (if w + l = 0 then Inr None
      else Inr (Some (Fin (fl (of_nat (card (uneven_outcomes (w + l) (min w l))) / 2 ^ (w + l))))))"
  by (rule sign_test_exact)

text \<open>C31: in spite of rounding, the confidence interval of every win rate is ordered and within 0 and 1.\<close>

theorem wilson_interval_ordered:
  "{i. \<exists>w l. wilson_interval (int w) (int (w + l)) = Inr (Some i)} \<subseteq>
   {(low, high). 0 \<le> low \<and> low \<le> high \<and> high \<le> 1}"
  using wilson_interval_bounds by blast

section \<open>Separators\<close>

text \<open>
  The review is written without escaping non-ASCII characters and read back by \<open>str.splitlines\<close>, which
  also breaks lines at U+0085, U+2028 and U+2029: a record with such a character cannot be read back.
\<close>

lemma separator_bytes: "text_of [0x2028] = [CHR 0xE2, CHR 0x80, CHR 0xA8]"
  by (simp add: text_of_def utf8_encode_def char_of_def bit_0)

definition separator_line :: string where
  "separator_line = ''{\"reading\":\"'' @ [CHR 0xE2, CHR 0x80, CHR 0xA8] @ ''\"}''"

lemma separator_written:
  "canonical_json (JObj [(''reading'', JStr (text_of [0x2028]))]) = Inr separator_line"
  unfolding separator_bytes by code_simp

definition separator_codes :: codes where
  "separator_codes = [123, 34, 114, 101, 97, 100, 105, 110, 103, 34, 58, 34, 0x2028, 34, 125, 10]"

lemma separator_decoded: "utf8_decode (separator_line @ [CHR 0x0A]) = Some separator_codes"
proof -
  have "separator_line @ [CHR 0x0A] = text_of separator_codes"
    by (simp add: separator_line_def separator_codes_def text_of_def utf8_encode_def char_of_def bit_0)
  moreover have "\<forall>u \<in> set separator_codes. scalar u" by (simp add: separator_codes_def scalar_def)
  ultimately show ?thesis by (simp add: utf8_decode_encode)
qed

lemma first_line:
  "text_of (take 12 separator_codes) = ''{\"reading\":\"''"
  "parse_document ''{\"reading\":\"'' = PBad"
  subgoal by (simp add: separator_codes_def text_of_def utf8_encode_def char_of_def bit_0)
  subgoal by code_simp
  done

lemma separator_not_read_back:
  "load_jsonl_bytes (separator_line @ [CHR 0x0A]) ''review'' = Inl (ValueError ''review:1: invalid JSON: '')"
proof -
  have "splitlines separator_codes = [take 12 separator_codes, [34, 125]]"
    by (simp add: separator_codes_def line_break_def)
  moreover have "list_all space_code (take 12 separator_codes) = False"
    by (simp add: separator_codes_def space_code_def)
  ultimately show ?thesis
    using first_line by (simp add: load_jsonl_bytes_def separator_decoded jsonl_row_def dec.simps Let_def char_of_def bit_0)
qed
end
