(* ===== verification/Spec2Isabelle.thy ===== *)
theory Spec2Isabelle
  imports Gate_Properties Quality_Properties Corpus_Properties Probe_Properties B0_Properties
    Blind_Properties
begin

text \<open>
  \<^bold>\<open>A verification library for the offline evaluation tools of hazkey.\<close>

  The repository is a Japanese input method: a Swift server, a C++ addon for fcitx5, and, under
  \<open>src/tools/dictionary\<close>, the Python tools that decide whether a Mozc based conversion backend may
  replace the present one.  The library models these tools: each works on JSON documents and
  corpus files, and their value lies in what they refuse.  The theories follow the files:

  \<^bold>\<open>Foundations.\<close>
  \<^item> \<open>Prelude\<close>: exceptions as values of a sum type with \<open>bindE\<close>, loops that can raise (\<open>mapE\<close>,
    \<open>foldE\<close>, \<open>mapiE\<close>), decimal numerals, \<open>str.split\<close>, POSIX paths, dictionaries as association
    lists in insertion order.
  \<^item> \<open>Py_Float\<close>: binary64 values as rationals with rounding to even; the locale \<open>rounding\<close> holds the
    laws of rounding that the reports need and is interpreted on \<open>fl\<close>.
  \<^item> \<open>Json\<close>, \<open>Json_Text\<close>, \<open>Json_Roundtrip\<close>: documents, Python's \<open>==\<close> on them, the typed accessors,
    the canonical writer, the reader of \<open>json.loads\<close> with the duplicate-key hook, and their round
    trip.  The reader takes fuel, the length of the text plus one, and never runs out of it.
  \<^item> \<open>Sha256\<close>: the digest on 32-bit words.  Nothing is assumed about collisions.

  \<^bold>\<open>The formal gate\<close> (\<open>evaluate_mozc_adoption_v2_gate.py\<close>): \<open>Gate_Contract\<close> holds its constants,
  \<open>Gate_Policy\<close> the parser of the policy, \<open>Sealed_Policy\<close> the one document it accepts,
  \<open>Gate_Metrics\<close> the normalization of measurements, \<open>Gate_Checks\<close> the checks and their verdict,
  \<open>Gate_Result\<close> the files, the result document and the validation of a prior result, and
  \<open>Gate_Acceptance\<close> what follows for accepted inputs.  \<open>Gate_Properties\<close>: only one policy is
  accepted, no result decides adoption, prior results are bound by their bytes and digests, the
  normalized metrics are exactly the well-formed ones, and each check decides what it says.

  \<^bold>\<open>The quality tools\<close>: \<open>Quality_Evaluate\<close> (\<open>evaluate_conversion_quality.py\<close>), \<open>Quality_Compare\<close>
  (\<open>compare_conversion_quality.py\<close>) and \<open>Quality_Summary\<close> (\<open>summarize_conversion_quality.py\<close>).  The
  reports of the first are the inputs of the other two; \<open>Quality_Properties\<close> states the composition.

  \<^bold>\<open>The frozen corpora\<close>: \<open>Edit_Distance\<close> and \<open>Near_Duplicates\<close> hold the near-duplicate search of
  \<open>build_frozen_corpus_v2.py\<close> and the check of its review, \<open>Corpus_Text\<close> the corpus files with their
  decoding, \<open>Corpus_Pilot\<close> the assembly of the pilot corpus (\<open>build_frozen_corpus.py\<close>),
  \<open>Corpus_Formal\<close> the policy of the formal corpus and \<open>Corpus_Build\<close> its approvals, provenance and
  assembly.  \<open>Corpus_Reader\<close> is the other side: \<open>load_corpus_bytes\<close> with the character automaton of
  Python's \<open>csv\<close> reader (tabs, quotes, the limit of a field) and \<open>DictReader\<close>.  The locale \<open>indexed_measure\<close> states what lets a similarity be searched through an
  index of trigrams; both measures interpret it.  \<open>Corpus_Sealed\<close> and \<open>Corpus_Properties\<close> show what
  the builders accept.

  \<^bold>\<open>The probes.\<close>  \<open>Probe_Runs\<close> models \<open>summarize_ab_probe.py\<close> (the lines of a probe run, loading, the
  summary of several runs), \<open>Hybrid_Merge\<close> the merge policies and the report of
  \<open>evaluate_mozc_hybrid_spike.py\<close>, which loads its runs with the former.  \<open>Probe_Facts\<close> proves the
  invariant of a loaded run, that the p95 index on floats is exact up to \<open>2 ^ 40\<close> samples, and what
  the locale \<open>merge_policy\<close> gives every policy; \<open>Hybrid_Facts\<close> the invariant of the counters;
  \<open>Probe_Properties\<close> what follows.

  \<^bold>\<open>The pilot gate\<close> (\<open>evaluate_mozc_b0_gate.py\<close>): \<open>B0_Contract\<close> holds its constants and records,
  \<open>B0_Policy\<close> the parser of its policy, \<open>B0_Checks\<close> the checks on measured metrics and the verdict.
  Latencies are compared with Python's \<open>decimal\<close>: \<open>Py_Decimal\<close> has the numerals, the 28-digit context
  and rounding to even; a zero keeps no sign there.  \<open>B0_Facts\<close> and \<open>B0_Properties\<close>: one sealed policy is
  accepted, the gate always decides, it passes exactly the metrics whose exact rates meet the
  thresholds, and products of numerals of at most 24 digits decide the exact quotient.  The parameter
  \<open>ascii_form\<close> replaces the Unicode digits and spaces that \<open>Decimal\<close> accepts by ASCII ones.

  \<^bold>\<open>The blind review\<close> (\<open>blind_conversion_ab.py\<close>): \<open>prepare\<close> turns a corpus and two probe runs into a
  review file with anonymous cases and sides, a key and a manifest (\<open>Blind_Review\<close>); \<open>score\<close> validates
  them with the judgments (\<open>Blind_Key\<close>) and unblinds and counts (\<open>Blind_Score\<close>, \<open>Blind_Statistics\<close>).
  HMAC-SHA256 is computed on the digest of \<open>Sha256\<close>.  \<open>math.sqrt\<close> is computed by an integer root of 55
  bits, enough to round correctly.  The packet directory is given by its \<open>lstat\<close> results and the bytes
  of its files.  \<open>Blind_Placement\<close> shows that the drawn placement is balanced, \<open>Blind_Facts\<close> what an
  accepted key promises, \<open>Blind_Outcomes\<close> that scoring counts by filtering and does not depend on the
  sides, \<open>Blind_Packing\<close> and \<open>Blind_Prepared\<close> that a prepared key is accepted and that the review is
  independent of the backends, \<open>Blind_Complete\<close> that scoring comes to an end: four times the square of
  fewer than \<open>2 ^ 500\<close> cases is a double, and the reports compare.  \<open>Blind_Properties\<close> states these.

  \<^bold>\<open>Conventions.\<close>  A JSON text is the list of its UTF-8 bytes; a corpus text whose characters are
  inspected is a list of code points.  Python's \<open>int\<close> is \<open>int\<close>.  A message of an exception is kept
  up to the values that Python renders into it.  A file system maps a path to what one read of it
  shows, \<open>fstat\<close> results and chunks included; reading a path twice shows the same.  The tables of
  \<open>unicodedata\<close> are the parameter \<open>unicode\<close>, and \<open>nfc\<close> where only the normalization of a surface
  is used; the built-in \<open>sum\<close> of floats is the parameter \<open>float_sum\<close>.  Nothing is assumed about them.

  \<^bold>\<open>Not modelled.\<close>  Command lines and the atomic writes and publication of result files; the tools that
  run and measure processes, of which only the constants the gates read are here; the Python tools that
  bind acquired artifacts, seal corpora, authorize the next stage or build and audit packages, which work
  on directory trees and subprocesses; the Swift, C++ and Qt programs, and third-party code.  The
  interpreter's limits on recursion depth and on the digits of an integer literal are left out of the
  JSON reader.  In the blind review, a side that holds objects instead of strings is taken to fail with
  a \<open>ValueError\<close> when its report is compared.
\<close>

end
